(* ===== verification/Prelude.thy ===== *)
theory Prelude
  imports Complex_Main "HOL-Library.AList" "HOL-Library.Sublist"
begin

text \<open>
  Shared vocabulary of the BullMQ development.

  The TypeScript sources compute with strings, numbers, insertion-ordered maps and
  promises that either resolve or reject. This theory fixes how those appear in HOL and
  collects the generic lemmas the component theories use:
  \<^item> a thrown value is the left summand of a \<open>result\<close>; \<open>bind_result\<close> is the
    sequencing of \<open>await\<close>s inside an \<open>async\<close> function;
  \<^item> a JavaScript \<open>Map\<close> (or an object used as a string-keyed dictionary) is an
    association list without duplicate keys, in insertion order: setting an existing key
    keeps its position, a new key goes to the end, exactly as ECMAScript prescribes;
  \<^item> numbers are \<^typ>\<open>real\<close> (the sources add, halve and compare milliseconds); where the
    code uses the value Infinity the type \<open>jsnum\<close> adds it;
  \<^item> decimal rendering of integers inside template literals is \<open>string_of_int\<close>;
  \<^item> reachability for the state machines of the later theories, with the locale that
    lifts a step invariant to every reachable state.
\<close>

named_theorems bull_simps \<open>component definitions that the property proofs unfold\<close>

section \<open>Results\<close>

type_synonym ('e, 'a) result = "'e + 'a"

fun bind_result :: "('e, 'a) result \<Rightarrow> ('a \<Rightarrow> ('e, 'b) result) \<Rightarrow> ('e, 'b) result" where
  "bind_result (Inl e) f = Inl e"
| "bind_result (Inr a) f = f a"

lemma bind_result_Inr_iff [simp]:
  "bind_result r f = Inr b \<longleftrightarrow> (\<exists>a. r = Inr a \<and> f a = Inr b)"
  by (cases r) auto

lemma bind_result_Inl_iff:
  "bind_result r f = Inl e \<longleftrightarrow> r = Inl e \<or> (\<exists>a. r = Inr a \<and> f a = Inl e)"
  by (cases r) auto

section \<open>Truthiness\<close>

text \<open>The JavaScript tests \<open>if (s)\<close> on an optional string and \<open>if (n)\<close> on an optional
  number: both the missing value and the empty string (the number 0) count as false.\<close>

fun truthy_str :: "string option \<Rightarrow> bool" where
  "truthy_str None = False"
| "truthy_str (Some s) = (s \<noteq> [])"

fun truthy_num :: "real option \<Rightarrow> bool" where
  "truthy_num None = False"
| "truthy_num (Some n) = (n \<noteq> 0)"

lemma truthy_str_iff: "truthy_str x \<longleftrightarrow> (\<exists>s. x = Some s \<and> s \<noteq> [])"
  by (cases x) auto

lemma truthy_num_iff: "truthy_num x \<longleftrightarrow> (\<exists>n. x = Some n \<and> n \<noteq> 0)"
  by (cases x) auto

section \<open>Insertion-ordered maps\<close>

type_synonym ('k, 'v) jsmap = "('k \<times> 'v) list"

abbreviation map_get :: "('k, 'v) jsmap \<Rightarrow> 'k \<Rightarrow> 'v option" where
  "map_get m k \<equiv> map_of m k"

abbreviation map_set :: "'k \<Rightarrow> 'v \<Rightarrow> ('k, 'v) jsmap \<Rightarrow> ('k, 'v) jsmap" where
  "map_set \<equiv> AList.update"

abbreviation map_del :: "'k \<Rightarrow> ('k, 'v) jsmap \<Rightarrow> ('k, 'v) jsmap" where
  "map_del \<equiv> AList.delete"

abbreviation map_keys :: "('k, 'v) jsmap \<Rightarrow> 'k list" where
  "map_keys m \<equiv> map fst m"

abbreviation map_wf :: "('k, 'v) jsmap \<Rightarrow> bool" where
  "map_wf m \<equiv> distinct (map fst m)"

lemma map_get_set [simp]:
  "map_get (map_set k v m) k' = (if k' = k then Some v else map_get m k')"
  by (simp add: update_conv')

lemma map_get_del [simp]:
  "map_get (map_del k m) k' = (if k' = k then None else map_get m k')"
  by (simp add: delete_conv')

lemma map_wf_set [simp, intro]: "map_wf m \<Longrightarrow> map_wf (map_set k v m)"
  by (rule distinct_update)

lemma map_wf_del [simp, intro]: "map_wf m \<Longrightarrow> map_wf (map_del k m)"
  by (rule distinct_delete)

lemma map_keys_set:
  "map_keys (map_set k v m) = (if k \<in> set (map_keys m) then map_keys m else map_keys m @ [k])"
  by (rule update_keys)

lemma map_keys_del: "map_keys (map_del k m) = filter (\<lambda>x. x \<noteq> k) (map_keys m)"
  by (induction m) auto

lemma length_map_set:
  "length (map_set k v m) = (if k \<in> set (map_keys m) then length m else Suc (length m))"
  by (induction m) auto

lemma map_get_None_iff: "map_get m k = None \<longleftrightarrow> k \<notin> set (map_keys m)"
  by (simp add: map_of_eq_None_iff)

lemma map_get_Some_key: "map_get m k = Some v \<Longrightarrow> k \<in> set (map_keys m)"
  by (force dest: map_of_SomeD)

lemma fst_o_mapped [simp]: "fst \<circ> (\<lambda>(k, t). (k, f k t)) = fst"
  by auto

lemma map_get_mapped: "map_get (map (\<lambda>(k, t). (k, f t)) m) j = map_option f (map_get m j)"
  by (induction m) auto

text \<open>Appending a fresh key is what \<open>set\<close> does; a fold of fresh sets is concatenation.\<close>

lemma map_set_fresh: "k \<notin> set (map_keys m) \<Longrightarrow> map_set k v m = m @ [(k, v)]"
  by (induction m) auto

lemma fold_map_set_fresh:
  assumes "distinct (map fst xs)" and "set (map fst xs) \<inter> set (map_keys m) = {}"
  shows "fold (\<lambda>(k, v) acc. map_set k v acc) xs m = m @ xs"
  using assms
proof (induction xs arbitrary: m)
  case (Cons x xs)
  obtain k v where x: "x = (k, v)" by force
  with Cons.prems have "map_set k v m = m @ [(k, v)]" by (auto intro: map_set_fresh)
  with Cons x show ?case by auto
qed simp

lemma map_of_fold_map_set:
  "map_of (fold (\<lambda>(k, v) acc. map_set k v acc) xs m) k
     = (case map_of (rev xs) k of Some v \<Rightarrow> Some v | None \<Rightarrow> map_of m k)"
  by (induction xs arbitrary: m) (auto simp: map_add_def split: option.splits)

lemma map_of_rev_wf: "map_wf xs \<Longrightarrow> map_of (rev xs) = map_of xs"
  by (subst map_of_inject_set) (simp_all add: rev_map [symmetric])

section \<open>Decimal rendering of integers\<close>

definition string_of_digit :: "nat \<Rightarrow> char" where
  "string_of_digit n = ''0123456789'' ! (n mod 10)"

fun string_of_nat :: "nat \<Rightarrow> string" where
  "string_of_nat n =
     (if n < 10 then [string_of_digit n]
      else string_of_nat (n div 10) @ [string_of_digit (n mod 10)])"

declare string_of_nat.simps [simp del]

definition string_of_int :: "int \<Rightarrow> string" where
  "string_of_int i = (if i < 0 then ''-'' @ string_of_nat (nat (- i)) else string_of_nat (nat i))"

definition digit_chars :: "char set" where
  "digit_chars = set ''0123456789''"

lemma string_of_digit_inj:
  assumes "m < 10" and "n < 10" and "string_of_digit m = string_of_digit n"
  shows "m = n"
proof -
  have "distinct ''0123456789''" by simp
  from nth_eq_iff_index_eq [OF this, of m n] assms show ?thesis
    by (simp add: string_of_digit_def)
qed

lemma string_of_digit_char: "string_of_digit n \<in> digit_chars"
  unfolding string_of_digit_def digit_chars_def by (rule nth_mem) simp

lemma string_of_nat_chars: "set (string_of_nat n) \<subseteq> digit_chars"
proof (induction n rule: string_of_nat.induct)
  case (1 n)
  then show ?case
    by (subst string_of_nat.simps) (auto simp: string_of_digit_char)
qed

lemma string_of_nat_nonempty [simp]: "string_of_nat n \<noteq> []" "[] \<noteq> string_of_nat n"
  by (subst string_of_nat.simps, simp)+

lemma string_of_nat_inj: "string_of_nat m = string_of_nat n \<Longrightarrow> m = n"
proof (induction m arbitrary: n rule: string_of_nat.induct)
  case (1 m)
  show ?case
  proof (cases "m < 10")
    case True
    with "1.prems" have "n < 10"
      by (cases "n < 10") (simp_all add: string_of_nat.simps [of m] string_of_nat.simps [of n])
    with True "1.prems" show ?thesis
      by (simp add: string_of_nat.simps [of m] string_of_nat.simps [of n] string_of_digit_inj)
  next
    case False
    with "1.prems" have n: "\<not> n < 10"
      by (cases "n < 10") (simp_all add: string_of_nat.simps [of m] string_of_nat.simps [of n])
    with False "1.prems" have "string_of_nat (m div 10) = string_of_nat (n div 10)"
      and d: "string_of_digit (m mod 10) = string_of_digit (n mod 10)"
      by (simp_all add: string_of_nat.simps [of m] string_of_nat.simps [of n])
    with False "1.IH" have "m div 10 = n div 10" by blast
    moreover from d have "m mod 10 = n mod 10" by (rule string_of_digit_inj [rotated 2]) simp_all
    ultimately show ?thesis by (metis div_mult_mod_eq)
  qed
qed

lemma string_of_nat_eq_iff [simp]: "string_of_nat m = string_of_nat n \<longleftrightarrow> m = n"
  using string_of_nat_inj by blast

section \<open>Numbers with Infinity\<close>

datatype jsnum = Fin real | Infinity

section \<open>Reachable states\<close>

inductive reach :: "('s \<Rightarrow> bool) \<Rightarrow> ('s \<Rightarrow> 's \<Rightarrow> bool) \<Rightarrow> 's \<Rightarrow> bool"
  for init :: "'s \<Rightarrow> bool" and step :: "'s \<Rightarrow> 's \<Rightarrow> bool" where
  reach_init: "init s \<Longrightarrow> reach init step s"
| reach_step: "reach init step s \<Longrightarrow> step s t \<Longrightarrow> reach init step t"

locale step_invariant =
  fixes init :: "'s \<Rightarrow> bool"
    and step :: "'s \<Rightarrow> 's \<Rightarrow> bool"
    and inv :: "'s \<Rightarrow> bool"
  assumes inv_init: "init s \<Longrightarrow> inv s"
    and inv_step: "inv s \<Longrightarrow> step s t \<Longrightarrow> inv t"
begin

lemma inv_reach: "reach init step s \<Longrightarrow> inv s"
  by (induction rule: reach.induct) (auto intro: inv_init inv_step)

lemma inv_path: "step\<^sup>*\<^sup>* s t \<Longrightarrow> inv s \<Longrightarrow> inv t"
  by (induction rule: rtranclp_induct) (auto intro: inv_step)

end

end
