(* ===== verification/Errors.thy ===== *)
theory Errors
  imports Prelude
begin

text \<open>
  The error values of BullMQ: the \<open>Error\<close> subclasses of src/classes/errors, the numeric
  codes that Lua scripts return (src/enums/error-code.ts), the translation of a code into
  an \<open>Error\<close> (src/classes/finished-errors.ts) and the test that tells connection errors
  from the others (isNotConnectionError of src/utils/index.ts).

  An \<open>Error\<close> object is a record: its class (what \<open>instanceof\<close> sees; every subclass here
  extends \<open>Error\<close> directly), its \<open>name\<close>, \<open>message\<close>, \<open>stack\<close> and the optional \<open>code\<close>.
  The stack trace is produced by the JavaScript engine, so each constructor takes it as
  its first argument.
\<close>

section \<open>Error objects\<close>

datatype err_class =
    ErrorClass
  | TypeErrorClass
  | ConnectionClosedError
  | DelayedError
  | RateLimitError
  | UnrecoverableError
  | WaitingChildrenError
  | WaitingError

datatype err_code = NumCode int | StrCode string

record js_error =
  err_class :: err_class
  err_name :: string
  err_message :: string
  err_stack :: "string option"
  err_code :: "err_code option"

fun class_name :: "err_class \<Rightarrow> string" where
  "class_name ErrorClass = ''Error''"
| "class_name TypeErrorClass = ''TypeError''"
| "class_name ConnectionClosedError = ''ConnectionClosedError''"
| "class_name DelayedError = ''DelayedError''"
| "class_name RateLimitError = ''RateLimitError''"
| "class_name UnrecoverableError = ''UnrecoverableError''"
| "class_name WaitingChildrenError = ''WaitingChildrenError''"
| "class_name WaitingError = ''WaitingError''"

definition new_err :: "err_class \<Rightarrow> string option \<Rightarrow> string \<Rightarrow> js_error" where
  "new_err c stk msg =
     \<lparr>err_class = c, err_name = class_name c, err_message = msg, err_stack = stk, err_code = None\<rparr>"

definition CONNECTION_CLOSED_ERROR_MSG :: string where
  "CONNECTION_CLOSED_ERROR_MSG = ''Connection is closed.''"

definition DELAYED_ERROR :: string where
  "DELAYED_ERROR = ''bullmq:movedToDelayed''"

definition RATE_LIMIT_ERROR :: string where
  "RATE_LIMIT_ERROR = ''bullmq:rateLimitExceeded''"

definition UNRECOVERABLE_ERROR :: string where
  "UNRECOVERABLE_ERROR = ''bullmq:unrecoverable''"

definition WAITING_CHILDREN_ERROR :: string where
  "WAITING_CHILDREN_ERROR = ''bullmq:movedToWaitingChildren''"

definition WAITING_ERROR :: string where
  "WAITING_ERROR = ''bullmq:movedToWait''"

text \<open>Each constructor has a default message; \<open>None\<close> is the argument left out.\<close>

definition with_default :: "'a \<Rightarrow> 'a option \<Rightarrow> 'a" where
  "with_default d x = (case x of None \<Rightarrow> d | Some v \<Rightarrow> v)"

definition new_ConnectionClosedError :: "string option \<Rightarrow> string option \<Rightarrow> js_error" where
  "new_ConnectionClosedError stk msg =
     new_err ConnectionClosedError stk (with_default CONNECTION_CLOSED_ERROR_MSG msg)"

definition new_DelayedError :: "string option \<Rightarrow> string option \<Rightarrow> js_error" where
  "new_DelayedError stk msg = new_err DelayedError stk (with_default DELAYED_ERROR msg)"

definition new_RateLimitError :: "string option \<Rightarrow> string option \<Rightarrow> js_error" where
  "new_RateLimitError stk msg = new_err RateLimitError stk (with_default RATE_LIMIT_ERROR msg)"

definition new_UnrecoverableError :: "string option \<Rightarrow> string option \<Rightarrow> js_error" where
  "new_UnrecoverableError stk msg =
     new_err UnrecoverableError stk (with_default UNRECOVERABLE_ERROR msg)"

definition new_WaitingChildrenError :: "string option \<Rightarrow> string option \<Rightarrow> js_error" where
  "new_WaitingChildrenError stk msg =
     new_err WaitingChildrenError stk (with_default WAITING_CHILDREN_ERROR msg)"

definition new_WaitingError :: "string option \<Rightarrow> string option \<Rightarrow> js_error" where
  "new_WaitingError stk msg = new_err WaitingError stk (with_default WAITING_ERROR msg)"

section \<open>Error codes\<close>

datatype error_code =
    JobNotExist
  | JobLockNotExist
  | JobNotInState
  | JobPendingChildren
  | ParentJobNotExist
  | JobLockMismatch
  | ParentJobCannotBeReplaced
  | JobBelongsToJobScheduler
  | JobHasFailedChildren
  | SchedulerJobIdCollision
  | SchedulerJobSlotsBusy

fun code_of :: "error_code \<Rightarrow> int" where
  "code_of JobNotExist = -1"
| "code_of JobLockNotExist = -2"
| "code_of JobNotInState = -3"
| "code_of JobPendingChildren = -4"
| "code_of ParentJobNotExist = -5"
| "code_of JobLockMismatch = -6"
| "code_of ParentJobCannotBeReplaced = -7"
| "code_of JobBelongsToJobScheduler = -8"
| "code_of JobHasFailedChildren = -9"
| "code_of SchedulerJobIdCollision = -10"
| "code_of SchedulerJobSlotsBusy = -11"

lemma code_of_negative: "code_of c < 0"
  by (cases c) simp_all

lemma code_of_inj: "code_of c = code_of d \<Longrightarrow> c = d"
  by (cases c; cases d) simp_all

text \<open>A template literal renders a missing value as the word \<open>undefined\<close>.\<close>

definition render_opt :: "string option \<Rightarrow> string" where
  "render_opt x = with_default ''undefined'' x"

text \<open>
  \<open>finishedErrors\<close>: the switch over the code, then the code is stored on the error. The
  arguments are the fields of its options object.
\<close>

definition finishedErrors ::
  "string option \<Rightarrow> int \<Rightarrow> string option \<Rightarrow> string option \<Rightarrow> string \<Rightarrow> string option \<Rightarrow> js_error" where
  "finishedErrors stk code jobId parentKey command state =
     (let error =
        (if code = code_of JobNotExist
         then new_err ErrorClass stk (''Missing key for job '' @ render_opt jobId @ ''. '' @ command)
         else if code = code_of JobLockNotExist
         then new_err ErrorClass stk (''Missing lock for job '' @ render_opt jobId @ ''. '' @ command)
         else if code = code_of JobNotInState
         then new_err ErrorClass stk
           (''Job '' @ render_opt jobId @ '' is not in the '' @ render_opt state @ '' state. '' @ command)
         else if code = code_of JobPendingChildren
         then new_err ErrorClass stk
           (''Job '' @ render_opt jobId @ '' has pending dependencies. '' @ command)
         else if code = code_of ParentJobNotExist
         then new_err ErrorClass stk
           (''Missing key for parent job '' @ render_opt parentKey @ ''. '' @ command)
         else if code = code_of JobLockMismatch
         then new_err ErrorClass stk
           (''Lock mismatch for job '' @ render_opt jobId @ ''. Cmd '' @ command @ '' from ''
              @ render_opt state)
         else if code = code_of ParentJobCannotBeReplaced
         then new_err ErrorClass stk
           (''The parent job '' @ render_opt parentKey @ '' cannot be replaced. '' @ command)
         else if code = code_of JobBelongsToJobScheduler
         then new_err ErrorClass stk
           (''Job '' @ render_opt jobId
              @ '' belongs to a job scheduler and cannot be removed directly. '' @ command)
         else if code = code_of JobHasFailedChildren
         then new_UnrecoverableError stk
           (Some (''Cannot complete job '' @ render_opt jobId
              @ '' because it has at least one failed child. '' @ command))
         else if code = code_of SchedulerJobIdCollision
         then new_err ErrorClass stk
           (''Cannot create job scheduler iteration - job ID already exists. '' @ command)
         else if code = code_of SchedulerJobSlotsBusy
         then new_err ErrorClass stk
           (''Cannot create job scheduler iteration - current and next time slots already have jobs. ''
              @ command)
         else new_err ErrorClass stk
           (''Unknown code '' @ string_of_int code @ '' error for '' @ render_opt jobId @ ''. ''
              @ command))
      in error\<lparr>err_code := Some (NumCode code)\<rparr>)"

section \<open>Connection errors\<close>

fun str_includes :: "string \<Rightarrow> string \<Rightarrow> bool" where
  "str_includes pat [] = (pat = [])"
| "str_includes pat (c # cs) = (prefix pat (c # cs) \<or> str_includes pat cs)"

lemma str_includes_iff: "str_includes pat s \<longleftrightarrow> sublist pat s"
  by (induction s) (auto simp: sublist_Cons_right)

definition isNotConnectionError :: "js_error \<Rightarrow> bool" where
  "isNotConnectionError error =
     (if err_class error = ConnectionClosedError then False
      else err_message error \<noteq> CONNECTION_CLOSED_ERROR_MSG
        \<and> \<not> str_includes ''ECONNREFUSED'' (err_message error)
        \<and> err_code error \<noteq> Some (StrCode ''ECONNREFUSED''))"

section \<open>Properties\<close>

lemma finishedErrors_code [simp]:
  "err_code (finishedErrors stk code jid pk cmd st) = Some (NumCode code)"
  by (simp add: finishedErrors_def Let_def)

lemma finishedErrors_class:
  "err_class (finishedErrors stk code jid pk cmd st)
     = (if code = code_of JobHasFailedChildren then UnrecoverableError else ErrorClass)"
  by (simp add: finishedErrors_def Let_def new_err_def new_UnrecoverableError_def)

lemma finishedErrors_name:
  "err_name (finishedErrors stk code jid pk cmd st)
     = (if code = code_of JobHasFailedChildren then ''UnrecoverableError'' else ''Error'')"
  by (simp add: finishedErrors_def Let_def new_err_def new_UnrecoverableError_def)

end
