(* ===== verification/Utils.thy ===== *)
theory Utils
  imports Errors
begin

text \<open>
  The pure helpers of src/utils/index.ts, the key names of src/classes/queue-keys.ts and
  the queue-name guard of the QueueBase constructor (src/classes/queue-base.ts).

  JavaScript objects used as dictionaries are \<open>jsmap\<close>s. A property whose value is
  \<open>undefined\<close> is present with the value \<open>None\<close>: \<open>removeUndefinedFields\<close> and
  \<open>objectToFlatArray\<close> drop it. The lemmas show that the flat-array and the option-name
  encodings are lossless (locale \<open>codec\<close>) and that keys of different queues, or of
  different types of one queue, never collide.
\<close>

section \<open>Encodings\<close>

text \<open>What the code relies on when it stores an encoded value and decodes it later.\<close>

locale codec =
  fixes valid :: "'a \<Rightarrow> bool"
    and enc :: "'a \<Rightarrow> 'b"
    and dec :: "'b \<Rightarrow> 'a"
  assumes dec_enc: "valid x \<Longrightarrow> dec (enc x) = x"
begin

lemma enc_inj: "valid x \<Longrightarrow> valid y \<Longrightarrow> enc x = enc y \<Longrightarrow> x = y"
  by (metis dec_enc)

lemma map_dec_enc: "(\<And>x. x \<in> set xs \<Longrightarrow> valid x) \<Longrightarrow> map dec (map enc xs) = xs"
  by (induction xs) (auto simp: dec_enc)

lemma distinct_enc:
  "(\<And>x. x \<in> set xs \<Longrightarrow> valid x) \<Longrightarrow> distinct xs \<Longrightarrow> distinct (map enc xs)"
  by (auto simp: distinct_map inj_on_def intro: enc_inj)

end

section \<open>Object helpers\<close>

definition isEmpty :: "('k, 'v) jsmap \<Rightarrow> bool" where
  "isEmpty obj = (obj = [])"

text \<open>\<open>array2obj\<close> reads pairs; a last key without a value reads \<open>arr[i + 1]\<close> past the end,
  which is \<open>undefined\<close>.\<close>

fun array2obj_from :: "(string, string option) jsmap \<Rightarrow> string list \<Rightarrow> (string, string option) jsmap" where
  "array2obj_from obj [] = obj"
| "array2obj_from obj [k] = map_set k None obj"
| "array2obj_from obj (k # v # arr) = array2obj_from (map_set k (Some v) obj) arr"

definition array2obj :: "string list \<Rightarrow> (string, string option) jsmap" where
  "array2obj arr = array2obj_from [] arr"

fun objectToFlatArray :: "(string, string option) jsmap \<Rightarrow> string list" where
  "objectToFlatArray [] = []"
| "objectToFlatArray ((k, None) # obj) = objectToFlatArray obj"
| "objectToFlatArray ((k, Some v) # obj) = k # v # objectToFlatArray obj"

definition removeUndefinedFields :: "('k, 'v option) jsmap \<Rightarrow> ('k, 'v option) jsmap" where
  "removeUndefinedFields obj = filter (\<lambda>(k, v). v \<noteq> None) obj"

definition invertObject :: "('k, 'v) jsmap \<Rightarrow> ('v, 'k) jsmap" where
  "invertObject obj = fold (\<lambda>(key, value) result. map_set value key result) obj []"

definition optsDecodeMap :: "(string, string) jsmap" where
  "optsDecodeMap =
     [(''de'', ''deduplication''),
      (''fpof'', ''failParentOnFailure''),
      (''cpof'', ''continueParentOnFailure''),
      (''idof'', ''ignoreDependencyOnFailure''),
      (''kl'', ''keepLogs''),
      (''rdof'', ''removeDependencyOnFailure'')]"

definition optsEncodeMap :: "(string, string) jsmap" where
  "optsEncodeMap = invertObject optsDecodeMap"

text \<open>The other small helpers. \<open>semver\<close> is a third-party package: \<open>coerce\<close> stands for
  \<open>semver.valid(semver.coerce(v))\<close> and \<open>lt\<close> for \<open>semver.lt\<close>.\<close>

record parent_options =
  po_id :: string
  po_queue :: string

fun getParentKey :: "parent_options option \<Rightarrow> string option" where
  "getParentKey None = None"
| "getParentKey (Some opts) = Some (po_queue opts @ '':'' @ po_id opts)"

definition increaseMaxListeners :: "int \<Rightarrow> int \<Rightarrow> int" where
  "increaseMaxListeners maxListeners count = maxListeners + count"

definition decreaseMaxListeners :: "int \<Rightarrow> int \<Rightarrow> int" where
  "decreaseMaxListeners maxListeners count = increaseMaxListeners maxListeners (- count)"

definition isRedisVersionLowerThan ::
  "(string \<Rightarrow> string) \<Rightarrow> (string \<Rightarrow> string \<Rightarrow> bool) \<Rightarrow> string \<Rightarrow> string \<Rightarrow> string \<Rightarrow> string option \<Rightarrow> bool" where
  "isRedisVersionLowerThan coerce lt currentVersion minimumVersion currentDatabaseType desired =
     (if currentDatabaseType = with_default ''redis'' desired
      then lt (coerce currentVersion) minimumVersion
      else False)"

fun parseObjectValues ::
  "(string \<Rightarrow> ('e, 'j) result) \<Rightarrow> (string, string) jsmap \<Rightarrow> ('e, (string, 'j) jsmap) result" where
  "parseObjectValues parse [] = Inr []"
| "parseObjectValues parse ((k, s) # obj) =
     bind_result (parse s)
       (\<lambda>j. bind_result (parseObjectValues parse obj) (\<lambda>rest. Inr ((k, j) # rest)))"

section \<open>Queue keys\<close>

definition getQueueQualifiedName :: "string \<Rightarrow> string \<Rightarrow> string" where
  "getQueueQualifiedName pre name = pre @ '':'' @ name"

definition toKey :: "string \<Rightarrow> string \<Rightarrow> string \<Rightarrow> string" where
  "toKey pre name type = getQueueQualifiedName pre name @ '':'' @ type"

definition key_types :: "string list" where
  "key_types =
     ['''', ''active'', ''wait'', ''waiting-children'', ''paused'', ''id'', ''delayed'',
      ''prioritized'', ''stalled-check'', ''completed'', ''failed'', ''stalled'', ''repeat'',
      ''limiter'', ''meta'', ''events'', ''pc'', ''marker'', ''de'']"

definition getKeys :: "string \<Rightarrow> string \<Rightarrow> (string, string) jsmap" where
  "getKeys pre name = fold (\<lambda>key keys. map_set key (toKey pre name key) keys) key_types []"

text \<open>The guard of the QueueBase constructor: every queue name in use has passed it.\<close>

definition checkQueueName :: "string \<Rightarrow> (string, unit) result" where
  "checkQueueName name =
     (if name = [] then Inl ''Queue name must be provided''
      else if CHR '':'' \<in> set name then Inl ''Queue name cannot contain :''
      else Inr ())"

section \<open>Lemmas\<close>

lemma array2obj_from_flat:
  "array2obj_from acc (objectToFlatArray obj)
     = fold (\<lambda>(k, v) m. map_set k v m) (removeUndefinedFields obj) acc"
  by (induction obj arbitrary: acc rule: objectToFlatArray.induct)
     (simp_all add: removeUndefinedFields_def)

lemma map_fst_filter_distinct: "distinct (map fst xs) \<Longrightarrow> distinct (map fst (filter P xs))"
  by (induction xs) auto

lemma array2obj_flat: "map_wf obj \<Longrightarrow> array2obj (objectToFlatArray obj) = removeUndefinedFields obj"
  unfolding array2obj_def array2obj_from_flat
  by (subst fold_map_set_fresh) (simp_all add: removeUndefinedFields_def map_fst_filter_distinct)

lemma length_objectToFlatArray:
  "length (objectToFlatArray obj) = 2 * length (removeUndefinedFields obj)"
  by (induction obj rule: objectToFlatArray.induct) (simp_all add: removeUndefinedFields_def)

interpretation flat: codec
  "\<lambda>obj. map_wf obj \<and> (\<forall>(k, v) \<in> set obj. v \<noteq> None)" objectToFlatArray array2obj
proof
  fix obj :: "(string, string option) jsmap"
  assume "map_wf obj \<and> (\<forall>(k, v) \<in> set obj. v \<noteq> None)"
  then show "array2obj (objectToFlatArray obj) = obj"
    by (simp add: array2obj_flat removeUndefinedFields_def filter_id_conv)
qed

lemma optsEncodeMap_eq:
  "optsEncodeMap =
     [(''deduplication'', ''de''),
      (''failParentOnFailure'', ''fpof''),
      (''continueParentOnFailure'', ''cpof''),
      (''ignoreDependencyOnFailure'', ''idof''),
      (''keepLogs'', ''kl''),
      (''removeDependencyOnFailure'', ''rdof'')]"
  by (simp add: optsEncodeMap_def optsDecodeMap_def invertObject_def)

lemma map_of_invertObject:
  "map_of (invertObject obj) v = map_of (rev (map (\<lambda>(k, v). (v, k)) obj)) v"
proof -
  have "invertObject obj = fold (\<lambda>(k, v) m. map_set k v m) (map (\<lambda>(k, v). (v, k)) obj) []"
    by (simp add: invertObject_def fold_map o_def case_prod_unfold)
  then show ?thesis
    by (simp add: map_of_fold_map_set split: option.splits)
qed

lemma parseObjectValues_Inr:
  "parseObjectValues parse obj = Inr r \<Longrightarrow>
     map fst r = map fst obj \<and> list_all2 (\<lambda>(k, s) (k', j). k = k' \<and> parse s = Inr j) obj r"
  by (induction obj arbitrary: r rule: list.induct) (auto simp: list_all2_Cons1)

lemma getKeys_eq: "getKeys pre name = map (\<lambda>t. (t, toKey pre name t)) key_types"
  by (simp add: getKeys_def key_types_def)

lemma append_colon_inj:
  assumes "CHR '':'' \<notin> set a" and "CHR '':'' \<notin> set b" and "a @ '':'' @ x = b @ '':'' @ y"
  shows "a = b \<and> x = y"
  using assms
proof (induction a arbitrary: b)
  case Nil
  then show ?case by (cases b) auto
next
  case (Cons c a)
  then show ?case by (cases b) auto
qed

lemma toKey_inj:
  assumes "checkQueueName n = Inr ()" and "checkQueueName n' = Inr ()"
    and "toKey p n t = toKey p n' t'"
  shows "n = n' \<and> t = t'"
proof -
  from assms(1,2) have "CHR '':'' \<notin> set n" "CHR '':'' \<notin> set n'"
    by (auto simp: checkQueueName_def split: if_splits)
  moreover from assms(3) have "n @ '':'' @ t = n' @ '':'' @ t'"
    by (simp add: toKey_def getQueueQualifiedName_def)
  ultimately show ?thesis by (rule append_colon_inj)
qed

end
