(* ===== verification/Async_Fifo_Queue.thy ===== *)
theory Async_Fifo_Queue
  imports Prelude
begin

text \<open>
  src/classes/async-fifo-queue.ts: the singly linked list (\<open>Node\<close>, \<open>LinkedList\<close>) and the
  \<open>AsyncFifoQueue\<close> that the worker's main loop uses to collect running jobs.

  The list is modelled with its pointers: a heap of nodes, \<open>head\<close>, \<open>tail\<close> and the counter
  \<open>length\<close>. It is shown to implement the list specification of locale \<open>fifo_list\<close>.
  The asynchronous queue is a state machine. \<open>Promise\<close>s are names of type \<open>'p\<close>; the
  callbacks of \<open>promise.then\<close> and \<open>.catch\<close> are the operations \<open>afq_onResolve\<close> and
  \<open>afq_onReject\<close>; the successive values of \<open>nextPromise\<close> are numbered, so that number
  \<open>k\<close> is settled exactly when \<open>k < afq_promise q\<close>. A call of \<open>fetch\<close> that has to wait
  holds the number it awaits and is resumed by \<open>afq_fetch_resume\<close> after it is settled.
\<close>

section \<open>The linked list\<close>

record 'a node =
  nd_value :: 'a
  nd_next :: "nat option"

record 'a linked_list =
  ll_heap :: "nat \<Rightarrow> 'a node option"
  ll_fresh :: nat
  ll_length :: nat
  ll_head :: "nat option"
  ll_tail :: "nat option"

definition ll_new :: "'a linked_list" where
  "ll_new = \<lparr>ll_heap = Map.empty, ll_fresh = 0, ll_length = 0, ll_head = None, ll_tail = None\<rparr>"

text \<open>\<open>push\<close>: \<open>None\<close> is the TypeError of \<open>this.tail.next\<close> on a missing node.\<close>

definition ll_push :: "'a \<Rightarrow> 'a linked_list \<Rightarrow> 'a linked_list option" where
  "ll_push value l =
     (let new = ll_fresh l;
          h = (ll_heap l)(new \<mapsto> \<lparr>nd_value = value, nd_next = None\<rparr>);
          l1 = l\<lparr>ll_fresh := Suc new, ll_tail := Some new, ll_length := ll_length l + 1\<rparr>
      in if ll_length l = 0 then Some (l1\<lparr>ll_heap := h, ll_head := Some new\<rparr>)
         else case ll_tail l of
                None \<Rightarrow> None
              | Some t \<Rightarrow>
                  (case h t of
                     None \<Rightarrow> None
                   | Some nd \<Rightarrow> Some (l1\<lparr>ll_heap := h(t \<mapsto> nd\<lparr>nd_next := Some new\<rparr>)\<rparr>)))"

text \<open>\<open>shift\<close>: the outer option is the TypeError of \<open>this.head.next\<close>, the inner one the
  \<open>null\<close> returned for an empty list.\<close>

definition ll_shift :: "'a linked_list \<Rightarrow> ('a option \<times> 'a linked_list) option" where
  "ll_shift l =
     (if ll_length l = 0 then Some (None, l)
      else case ll_head l of
             None \<Rightarrow> None
           | Some a \<Rightarrow>
               (case ll_heap l a of
                  None \<Rightarrow> None
                | Some nd \<Rightarrow>
                    Some (Some (nd_value nd),
                          l\<lparr>ll_head := nd_next nd, ll_length := ll_length l - 1\<rparr>)))"

text \<open>The list seen from outside: the values along the \<open>next\<close> pointers.\<close>

fun ll_walk :: "(nat \<Rightarrow> 'a node option) \<Rightarrow> nat option \<Rightarrow> nat \<Rightarrow> 'a list" where
  "ll_walk h p 0 = []"
| "ll_walk h None (Suc n) = []"
| "ll_walk h (Some a) (Suc n) =
     (case h a of None \<Rightarrow> [] | Some nd \<Rightarrow> nd_value nd # ll_walk h (nd_next nd) n)"

definition ll_contents :: "'a linked_list \<Rightarrow> 'a list" where
  "ll_contents l = ll_walk (ll_heap l) (ll_head l) (ll_length l)"

fun chain :: "(nat \<Rightarrow> 'a node option) \<Rightarrow> nat option \<Rightarrow> nat list \<Rightarrow> bool" where
  "chain h p [] = (p = None)"
| "chain h p (a # as) = (p = Some a \<and> (\<exists>nd. h a = Some nd \<and> chain h (nd_next nd) as))"

definition ll_inv :: "'a linked_list \<Rightarrow> bool" where
  "ll_inv l \<longleftrightarrow>
     (\<exists>as. chain (ll_heap l) (ll_head l) as \<and> length as = ll_length l \<and> distinct as
         \<and> (\<forall>a \<in> set as. a < ll_fresh l) \<and> (as \<noteq> [] \<longrightarrow> ll_tail l = Some (last as)))"

text \<open>The contract of a mutable first-in first-out list, in terms of its contents.\<close>

locale fifo_list =
  fixes new :: 'q
    and push :: "'a \<Rightarrow> 'q \<Rightarrow> 'q option"
    and shift :: "'q \<Rightarrow> ('a option \<times> 'q) option"
    and len :: "'q \<Rightarrow> nat"
    and contents :: "'q \<Rightarrow> 'a list"
    and inv :: "'q \<Rightarrow> bool"
  assumes new_inv: "inv new"
    and new_contents: "contents new = []"
    and len_contents: "inv q \<Longrightarrow> len q = length (contents q)"
    and push_ok: "inv q \<Longrightarrow> \<exists>q'. push x q = Some q' \<and> inv q' \<and> contents q' = contents q @ [x]"
    and shift_ok: "inv q \<Longrightarrow> \<exists>q'. shift q = Some (case contents q of [] \<Rightarrow> None | x # _ \<Rightarrow> Some x, q')
                          \<and> inv q' \<and> contents q' = tl (contents q)"
begin

lemma pushD: "inv q \<Longrightarrow> push x q = Some q' \<Longrightarrow> inv q' \<and> contents q' = contents q @ [x]"
  using push_ok [of q x] by auto

lemma push_not_None: "inv q \<Longrightarrow> push x q \<noteq> None"
  using push_ok [of q x] by auto

lemma shiftD:
  "inv q \<Longrightarrow> shift q = Some (r, q') \<Longrightarrow>
     inv q' \<and> contents q' = tl (contents q)
       \<and> r = (case contents q of [] \<Rightarrow> None | x # _ \<Rightarrow> Some x)"
  using shift_ok [of q] by auto

lemma shift_not_None: "inv q \<Longrightarrow> shift q \<noteq> None"
  using shift_ok [of q] by auto

lemma len_0_iff: "inv q \<Longrightarrow> len q = 0 \<longleftrightarrow> contents q = []"
  by (simp add: len_contents)

end

subsection \<open>The pointers implement the contract\<close>

lemma chain_frame: "a \<notin> set as \<Longrightarrow> chain (h(a := x)) p as = chain h p as"
  by (induction as arbitrary: p) auto

lemma chain_walk_frame: "chain h p as \<Longrightarrow> a \<notin> set as \<Longrightarrow>
    ll_walk (h(a := x)) p (length as) = ll_walk h p (length as)"
  by (induction as arbitrary: p) auto

lemma chain_last: "chain h p as \<Longrightarrow> as \<noteq> [] \<Longrightarrow> \<exists>nd. h (last as) = Some nd"
  by (induction as arbitrary: p) auto

lemma chain_append_node:
  assumes "chain h p as" and "as \<noteq> []" and "distinct as" and "n \<notin> set as"
    and "h (last as) = Some nd" and "h n = Some \<lparr>nd_value = v, nd_next = None\<rparr>"
  shows "chain (h(last as \<mapsto> nd\<lparr>nd_next := Some n\<rparr>)) p (as @ [n])
       \<and> ll_walk (h(last as \<mapsto> nd\<lparr>nd_next := Some n\<rparr>)) p (Suc (length as))
           = ll_walk h p (length as) @ [v]"
  using assms
proof (induction as arbitrary: p)
  case (Cons a as)
  then obtain nda where a: "p = Some a" "h a = Some nda" "chain h (nd_next nda) as" by auto
  show ?case
  proof (cases "as = []")
    case True
    with Cons.prems a show ?thesis by auto
  next
    case False
    with Cons.prems have "a \<noteq> last as" by auto
    with False Cons a show ?thesis by auto
  qed
qed simp

lemma ll_push_ok:
  assumes "ll_inv l"
  shows "\<exists>l'. ll_push v l = Some l' \<and> ll_inv l' \<and> ll_contents l' = ll_contents l @ [v]"
proof -
  let ?n = "ll_fresh l"
  define h where "h = (ll_heap l)(?n \<mapsto> \<lparr>nd_value = v, nd_next = None\<rparr>)"
  from assms obtain as where
    as: "chain (ll_heap l) (ll_head l) as" "length as = ll_length l" "distinct as"
      "\<forall>a \<in> set as. a < ?n" "as \<noteq> [] \<longrightarrow> ll_tail l = Some (last as)"
    by (auto simp: ll_inv_def)
  then have fresh: "?n \<notin> set as" by auto
  show ?thesis
  proof (cases "as = []")
    case True
    with as show ?thesis
      by (auto simp: ll_push_def ll_inv_def ll_contents_def Let_def intro!: exI [of _ "[?n]"])
  next
    case False
    from as(1) fresh have ch: "chain h (ll_head l) as" by (simp add: chain_frame h_def)
    from chain_last [OF this False] obtain nd where nd: "h (last as) = Some nd" by blast
    let ?h' = "h(last as \<mapsto> nd\<lparr>nd_next := Some ?n\<rparr>)"
    have hn: "h ?n = Some \<lparr>nd_value = v, nd_next = None\<rparr>" by (simp add: h_def)
    from chain_append_node [OF ch False as(3) fresh nd hn]
    have ch': "chain ?h' (ll_head l) (as @ [?n])"
      and walk': "ll_walk ?h' (ll_head l) (Suc (length as)) = ll_walk h (ll_head l) (length as) @ [v]"
      by blast+
    from chain_walk_frame [OF as(1) fresh] as(2)
    have w: "ll_walk h (ll_head l) (length as) = ll_contents l"
      by (simp add: ll_contents_def h_def)
    have ne: "ll_length l \<noteq> 0" using False as(2) by (cases as) auto
    show ?thesis
    proof (intro exI conjI)
      show "ll_push v l = Some (l\<lparr>ll_fresh := Suc ?n, ll_tail := Some ?n,
          ll_length := ll_length l + 1, ll_heap := ?h'\<rparr>)" (is "_ = Some ?l'")
        using ne False as(5) nd by (simp add: ll_push_def Let_def h_def)
      show "ll_inv ?l'"
        unfolding ll_inv_def using ch' as(2-4) fresh
        by (intro exI [of _ "as @ [?n]"]) (auto intro: less_SucI)
      show "ll_contents ?l' = ll_contents l @ [v]"
        using walk' w as(2) by (simp add: ll_contents_def)
    qed
  qed
qed

lemma ll_shift_ok:
  assumes "ll_inv l"
  shows "\<exists>l'. ll_shift l = Some (case ll_contents l of [] \<Rightarrow> None | x # _ \<Rightarrow> Some x, l')
            \<and> ll_inv l' \<and> ll_contents l' = tl (ll_contents l)"
proof -
  from assms obtain as where
    as: "chain (ll_heap l) (ll_head l) as" "length as = ll_length l" "distinct as"
      "\<forall>a \<in> set as. a < ll_fresh l" "as \<noteq> [] \<longrightarrow> ll_tail l = Some (last as)"
    by (auto simp: ll_inv_def)
  show ?thesis
  proof (cases as)
    case Nil
    with as assms show ?thesis by (auto simp: ll_shift_def ll_contents_def)
  next
    case (Cons a as')
    with as obtain nd where nd: "ll_head l = Some a" "ll_heap l a = Some nd"
      "chain (ll_heap l) (nd_next nd) as'" "ll_length l = Suc (length as')" by auto
    with as Cons show ?thesis
      by (auto simp: ll_shift_def ll_contents_def ll_inv_def intro!: exI [of _ as'])
  qed
qed

lemma ll_walk_length: "chain h p as \<Longrightarrow> length (ll_walk h p (length as)) = length as"
  by (induction as arbitrary: p) auto

interpretation ll: fifo_list ll_new ll_push ll_shift ll_length ll_contents ll_inv
proof
  show "ll_inv ll_new" by (auto simp: ll_inv_def ll_new_def intro: exI [of _ "[]"])
  show "ll_contents ll_new = []" by (simp add: ll_contents_def ll_new_def)
  show "ll_length q = length (ll_contents q)" if "ll_inv q" for q :: "'b linked_list"
    using that ll_walk_length by (force simp: ll_inv_def ll_contents_def)
qed (simp_all add: ll_push_ok ll_shift_ok)

section \<open>The asynchronous queue\<close>

text \<open>A resolved value may be \<open>undefined\<close> (the worker's promises resolve to a job or to
  nothing), so the list holds values of type \<open>'a option\<close>.\<close>

record ('p, 'a) afq =
  afq_queue :: "'a option linked_list"
  afq_pending :: "'p list"
  afq_promise :: nat
  afq_ignoreErrors :: bool

text \<open>What a running call of \<open>fetch\<close> does next: it awaits a \<open>nextPromise\<close>, or it has
  returned a value taken from the list, or it returned at once because nothing is tracked.\<close>

datatype 'a fetching = Waiting nat | Delivered 'a | NothingTracked

definition afq_new :: "bool \<Rightarrow> ('p, 'a) afq" where
  "afq_new ignoreErrors =
     \<lparr>afq_queue = ll_new, afq_pending = [], afq_promise = 0, afq_ignoreErrors = ignoreErrors\<rparr>"

definition afq_add :: "'p \<Rightarrow> ('p, 'a) afq \<Rightarrow> ('p, 'a) afq" where
  "afq_add p q =
     q\<lparr>afq_pending := (if p \<in> set (afq_pending q) then afq_pending q else afq_pending q @ [p])\<rparr>"

text \<open>\<open>resolvePromise\<close> and \<open>rejectPromise\<close> settle the current \<open>nextPromise\<close> and create
  its successor.\<close>

definition afq_newPromise :: "('p, 'a) afq \<Rightarrow> ('p, 'a) afq" where
  "afq_newPromise q = q\<lparr>afq_promise := Suc (afq_promise q)\<rparr>"

definition afq_resolvePromise :: "('p, 'a) afq \<Rightarrow> ('p, 'a) afq" where
  "afq_resolvePromise q = afq_newPromise q"

definition afq_rejectPromise :: "('p, 'a) afq \<Rightarrow> ('p, 'a) afq" where
  "afq_rejectPromise q = afq_newPromise q"

definition afq_onResolve :: "'p \<Rightarrow> 'a option \<Rightarrow> ('p, 'a) afq \<Rightarrow> ('p, 'a) afq option" where
  "afq_onResolve p data q =
     (let q1 = q\<lparr>afq_pending := removeAll p (afq_pending q)\<rparr>;
          q2 = (if ll_length (afq_queue q1) = 0 then afq_resolvePromise q1 else q1)
      in map_option (\<lambda>l. q2\<lparr>afq_queue := l\<rparr>) (ll_push data (afq_queue q2)))"

definition afq_onReject :: "'p \<Rightarrow> ('p, 'a) afq \<Rightarrow> ('p, 'a) afq option" where
  "afq_onReject p q =
     (case (if afq_ignoreErrors q then ll_push None (afq_queue q) else Some (afq_queue q)) of
        None \<Rightarrow> None
      | Some l \<Rightarrow>
          Some (afq_rejectPromise
                  (q\<lparr>afq_queue := l, afq_pending := removeAll p (afq_pending q)\<rparr>)))"

definition afq_numTotal :: "('p, 'a) afq \<Rightarrow> nat" where
  "afq_numTotal q = length (afq_pending q) + ll_length (afq_queue q)"

definition afq_numPending :: "('p, 'a) afq \<Rightarrow> nat" where
  "afq_numPending q = length (afq_pending q)"

definition afq_numQueued :: "('p, 'a) afq \<Rightarrow> nat" where
  "afq_numQueued q = ll_length (afq_queue q)"

text \<open>One turn of the loop \<open>while (this.queue.length === 0) await this.wait()\<close> and the
  \<open>shift\<close> after it.\<close>

definition afq_fetch_loop :: "('p, 'a) afq \<Rightarrow> ('a option fetching \<times> ('p, 'a) afq) option" where
  "afq_fetch_loop q =
     (if ll_length (afq_queue q) = 0 then Some (Waiting (afq_promise q), q)
      else case ll_shift (afq_queue q) of
             None \<Rightarrow> None
           | Some (r, l) \<Rightarrow>
               Some (Delivered (case r of None \<Rightarrow> None | Some v \<Rightarrow> v), q\<lparr>afq_queue := l\<rparr>))"

definition afq_fetch :: "('p, 'a) afq \<Rightarrow> ('a option fetching \<times> ('p, 'a) afq) option" where
  "afq_fetch q =
     (if afq_numPending q = 0 \<and> afq_numQueued q = 0 then Some (NothingTracked, q)
      else afq_fetch_loop q)"

definition afq_fetch_resume ::
  "nat \<Rightarrow> ('p, 'a) afq \<Rightarrow> ('a option fetching \<times> ('p, 'a) afq) option" where
  "afq_fetch_resume k q =
     (if k < afq_promise q then afq_fetch_loop q else Some (Waiting k, q))"

lemmas afq_defs = afq_add_def afq_newPromise_def afq_resolvePromise_def afq_rejectPromise_def
  afq_onResolve_def afq_onReject_def afq_fetch_loop_def afq_fetch_def afq_fetch_resume_def
  afq_numTotal_def afq_numPending_def afq_numQueued_def

subsection \<open>Producers and consumers as a state machine\<close>

text \<open>
  Any number of consumers may call \<open>fetch\<close>; \<open>sys_waiting c\<close> is the promise that
  consumer \<open>c\<close> awaits. The histories \<open>sys_in\<close> (values stored by settled promises) and
  \<open>sys_out\<close> (values returned by \<open>fetch\<close>) are ghost state. Every promise is added once.
\<close>

record ('p, 'a) afq_sys =
  sys_q :: "('p, 'a) afq"
  sys_waiting :: "nat \<Rightarrow> nat option"
  sys_in :: "'a option list"
  sys_out :: "'a option list"

datatype ('p, 'a) afq_event =
    EvAdd 'p
  | EvResolve 'p "'a option"
  | EvReject 'p
  | EvFetch nat
  | EvWake nat

definition afq_init :: "bool \<Rightarrow> ('p, 'a) afq_sys" where
  "afq_init ig = \<lparr>sys_q = afq_new ig, sys_waiting = Map.empty, sys_in = [], sys_out = []\<rparr>"

fun afq_record_fetch ::
  "nat \<Rightarrow> ('p, 'a) afq_sys \<Rightarrow> 'a option fetching \<times> ('p, 'a) afq \<Rightarrow> ('p, 'a) afq_sys" where
  "afq_record_fetch c s (Waiting k, q) = s\<lparr>sys_q := q, sys_waiting := (sys_waiting s)(c \<mapsto> k)\<rparr>"
| "afq_record_fetch c s (Delivered v, q) =
     s\<lparr>sys_q := q, sys_waiting := (sys_waiting s)(c := None), sys_out := sys_out s @ [v]\<rparr>"
| "afq_record_fetch c s (NothingTracked, q) =
     s\<lparr>sys_q := q, sys_waiting := (sys_waiting s)(c := None)\<rparr>"

fun afq_exec :: "('p, 'a) afq_event \<Rightarrow> ('p, 'a) afq_sys \<Rightarrow> ('p, 'a) afq_sys option" where
  "afq_exec (EvAdd p) s =
     (if p \<in> set (afq_pending (sys_q s)) then None else Some (s\<lparr>sys_q := afq_add p (sys_q s)\<rparr>))"
| "afq_exec (EvResolve p d) s =
     (if p \<in> set (afq_pending (sys_q s))
      then map_option (\<lambda>q. s\<lparr>sys_q := q, sys_in := sys_in s @ [d]\<rparr>) (afq_onResolve p d (sys_q s))
      else None)"
| "afq_exec (EvReject p) s =
     (if p \<in> set (afq_pending (sys_q s))
      then map_option
             (\<lambda>q. s\<lparr>sys_q := q,
                    sys_in := sys_in s @ (if afq_ignoreErrors (sys_q s) then [None] else [])\<rparr>)
             (afq_onReject p (sys_q s))
      else None)"
| "afq_exec (EvFetch c) s =
     (case sys_waiting s c of
        Some _ \<Rightarrow> None
      | None \<Rightarrow> map_option (afq_record_fetch c s) (afq_fetch (sys_q s)))"
| "afq_exec (EvWake c) s =
     (case sys_waiting s c of
        None \<Rightarrow> None
      | Some k \<Rightarrow>
          (if k < afq_promise (sys_q s)
           then map_option (afq_record_fetch c s) (afq_fetch_resume k (sys_q s)) else None))"

fun afq_run :: "('p, 'a) afq_event list \<Rightarrow> ('p, 'a) afq_sys \<Rightarrow> ('p, 'a) afq_sys option" where
  "afq_run [] s = Some s"
| "afq_run (e # es) s = (case afq_exec e s of None \<Rightarrow> None | Some t \<Rightarrow> afq_run es t)"

definition afq_step :: "('p, 'a) afq_sys \<Rightarrow> ('p, 'a) afq_sys \<Rightarrow> bool" where
  "afq_step s t \<longleftrightarrow> (\<exists>e. afq_exec e s = Some t)"

abbreviation sys_contents :: "('p, 'a) afq_sys \<Rightarrow> 'a option list" where
  "sys_contents s \<equiv> ll_contents (afq_queue (sys_q s))"

definition afq_sys_inv :: "('p, 'a) afq_sys \<Rightarrow> bool" where
  "afq_sys_inv s \<longleftrightarrow>
     ll_inv (afq_queue (sys_q s)) \<and> distinct (afq_pending (sys_q s))
     \<and> sys_in s = sys_out s @ sys_contents s
     \<and> (\<forall>c k. sys_waiting s c = Some k \<longrightarrow>
           k \<le> afq_promise (sys_q s) \<and> (sys_contents s \<noteq> [] \<longrightarrow> k < afq_promise (sys_q s)))"

subsection \<open>What each operation does to the contents\<close>

lemma afq_onResolve_ok:
  assumes "ll_inv (afq_queue q)"
  shows "\<exists>q'. afq_onResolve p d q = Some q' \<and> ll_inv (afq_queue q')
           \<and> ll_contents (afq_queue q') = ll_contents (afq_queue q) @ [d]
           \<and> afq_pending q' = removeAll p (afq_pending q)
           \<and> afq_promise q' = (if ll_contents (afq_queue q) = [] then Suc (afq_promise q) else afq_promise q)
           \<and> afq_ignoreErrors q' = afq_ignoreErrors q"
  using ll.push_ok [OF assms, of d]
  by (auto simp: afq_onResolve_def afq_resolvePromise_def afq_newPromise_def Let_def
      ll.len_0_iff [OF assms])

lemma afq_onReject_ok:
  assumes "ll_inv (afq_queue q)"
  shows "\<exists>q'. afq_onReject p q = Some q' \<and> ll_inv (afq_queue q')
           \<and> ll_contents (afq_queue q')
                = ll_contents (afq_queue q) @ (if afq_ignoreErrors q then [None] else [])
           \<and> afq_pending q' = removeAll p (afq_pending q)
           \<and> afq_promise q' = Suc (afq_promise q)
           \<and> afq_ignoreErrors q' = afq_ignoreErrors q"
  using assms ll.push_ok [OF assms, of None]
  by (auto simp: afq_onReject_def afq_rejectPromise_def afq_newPromise_def)

lemma afq_fetch_loop_ok:
  assumes "ll_inv (afq_queue q)"
  shows "case ll_contents (afq_queue q) of
           [] \<Rightarrow> afq_fetch_loop q = Some (Waiting (afq_promise q), q)
         | v # vs \<Rightarrow> \<exists>l. afq_fetch_loop q = Some (Delivered v, q\<lparr>afq_queue := l\<rparr>)
                     \<and> ll_inv l \<and> ll_contents l = vs"
  using ll.shift_ok [OF assms] ll.len_0_iff [OF assms]
  by (auto simp: afq_fetch_loop_def split: list.splits)

lemma afq_fetch_ok:
  assumes "ll_inv (afq_queue q)"
  shows "afq_fetch q = (if afq_pending q = [] \<and> ll_contents (afq_queue q) = []
                        then Some (NothingTracked, q) else afq_fetch_loop q)"
  by (simp add: afq_fetch_def afq_numPending_def afq_numQueued_def ll.len_0_iff [OF assms])

lemma afq_numTotal_eq:
  "ll_inv (afq_queue q) \<Longrightarrow>
     afq_numTotal q = length (afq_pending q) + length (ll_contents (afq_queue q))"
  by (simp add: afq_numTotal_def ll.len_contents)

lemma afq_record_fetch_loop_inv:
  assumes "afq_sys_inv s"
  shows "\<exists>r. afq_fetch_loop (sys_q s) = Some r \<and> afq_sys_inv (afq_record_fetch c s r)"
proof -
  from assms have inv: "ll_inv (afq_queue (sys_q s))" by (simp add: afq_sys_inv_def)
  show ?thesis
    using afq_fetch_loop_ok [OF inv] assms
    by (cases "sys_contents s") (auto simp: afq_sys_inv_def)
qed

lemma afq_record_nothing_inv:
  "afq_sys_inv s \<Longrightarrow> afq_sys_inv (afq_record_fetch c s (NothingTracked, sys_q s))"
  by (auto simp: afq_sys_inv_def)

lemma afq_exec_inv:
  assumes "afq_sys_inv s" and "afq_exec e s = Some t"
  shows "afq_sys_inv t"
proof -
  from assms(1) have inv: "ll_inv (afq_queue (sys_q s))" by (simp add: afq_sys_inv_def)
  show ?thesis
  proof (cases e)
    case (EvAdd p)
    with assms show ?thesis by (fastforce simp: afq_sys_inv_def afq_add_def split: if_splits)
  next
    case (EvResolve p d)
    with assms afq_onResolve_ok [OF inv, of p d] show ?thesis
      by (fastforce simp: afq_sys_inv_def less_Suc_eq_le le_Suc_eq distinct_removeAll split: if_splits)
  next
    case (EvReject p)
    with assms afq_onReject_ok [OF inv, of p] show ?thesis
      by (fastforce simp: afq_sys_inv_def less_Suc_eq_le le_Suc_eq distinct_removeAll split: if_splits)
  next
    case (EvFetch c)
    with assms afq_record_fetch_loop_inv [OF assms(1), of c]
      afq_record_nothing_inv [OF assms(1), of c] show ?thesis
      by (auto simp: afq_fetch_ok [OF inv] split: option.splits if_splits)
  next
    case (EvWake c)
    with assms afq_record_fetch_loop_inv [OF assms(1), of c] show ?thesis
      by (auto simp: afq_fetch_resume_def split: option.splits if_splits)
  qed
qed

lemma afq_init_inv: "afq_sys_inv (afq_init ig)"
  by (simp add: afq_sys_inv_def afq_init_def afq_new_def ll.new_inv ll.new_contents)

interpretation afq_sys: step_invariant "\<lambda>s. s = afq_init ig" afq_step afq_sys_inv
  for ig :: bool
  by unfold_locales (auto simp: afq_init_inv afq_step_def intro: afq_exec_inv)

lemma afq_run_path: "afq_run es s = Some t \<Longrightarrow> afq_step\<^sup>*\<^sup>* s t"
proof (induction es arbitrary: s)
  case (Cons e es)
  then obtain u where "afq_step s u" and "afq_run es u = Some t"
    by (auto simp: afq_step_def split: option.splits)
  with Cons.IH show ?case by (meson converse_rtranclp_into_rtranclp)
qed simp

lemma afq_run_inv: "afq_run es (afq_init ig) = Some s \<Longrightarrow> afq_sys_inv s"
  by (blast intro: afq_sys.inv_path [OF afq_run_path] afq_init_inv)

subsection \<open>One consumer\<close>

text \<open>The worker's main loop is the only consumer of its queue, and the promises it adds do
  not reject. \<open>one_consumer\<close> says so of an event.\<close>

fun one_consumer :: "bool \<Rightarrow> ('p, 'a) afq_event \<Rightarrow> bool" where
  "one_consumer ig (EvFetch c) = (c = 0)"
| "one_consumer ig (EvWake c) = (c = 0)"
| "one_consumer ig (EvReject p) = ig"
| "one_consumer ig _ = True"

definition afq_live_inv :: "('p, 'a) afq_sys \<Rightarrow> bool" where
  "afq_live_inv s \<longleftrightarrow>
     (\<forall>k. sys_waiting s 0 = Some k \<longrightarrow> afq_pending (sys_q s) \<noteq> [] \<or> sys_contents s \<noteq> [])"

lemma afq_init_live:
  "afq_live_inv (afq_init ig)" "afq_ignoreErrors (sys_q (afq_init ig)) = ig"
  by (simp_all add: afq_live_inv_def afq_init_def afq_new_def)

lemma afq_exec_live:
  assumes "afq_sys_inv s" and "afq_live_inv s" and "afq_exec e s = Some t"
    and "one_consumer (afq_ignoreErrors (sys_q s)) e"
  shows "afq_live_inv t \<and> afq_ignoreErrors (sys_q t) = afq_ignoreErrors (sys_q s)"
proof -
  from assms(1) have inv: "ll_inv (afq_queue (sys_q s))" by (simp add: afq_sys_inv_def)
  show ?thesis
  proof (cases e)
    case (EvAdd p)
    with assms show ?thesis by (auto simp: afq_live_inv_def afq_add_def split: if_splits)
  next
    case (EvResolve p d)
    with assms afq_onResolve_ok [OF inv, of p d] show ?thesis
      by (auto simp: afq_live_inv_def split: if_splits)
  next
    case (EvReject p)
    with assms afq_onReject_ok [OF inv, of p] show ?thesis
      by (auto simp: afq_live_inv_def split: if_splits)
  next
    case (EvFetch c)
    with assms afq_fetch_loop_ok [OF inv] show ?thesis
      by (auto simp: afq_live_inv_def afq_fetch_ok [OF inv] split: option.splits if_splits list.splits)
  next
    case (EvWake c)
    with assms afq_fetch_loop_ok [OF inv] show ?thesis
      by (auto simp: afq_live_inv_def afq_sys_inv_def afq_fetch_resume_def
          split: option.splits if_splits list.splits)
  qed
qed

lemma afq_run_live:
  assumes "afq_run es s = Some t" and "afq_sys_inv s" and "afq_live_inv s"
    and "list_all (one_consumer (afq_ignoreErrors (sys_q s))) es"
  shows "afq_live_inv t"
  using assms
proof (induction es arbitrary: s)
  case (Cons e es)
  then obtain u where u: "afq_exec e s = Some u" "afq_run es u = Some t"
    by (auto split: option.splits)
  moreover from Cons.prems u(1) have "afq_live_inv u \<and> afq_ignoreErrors (sys_q u) = afq_ignoreErrors (sys_q s)"
    by (intro afq_exec_live) auto
  moreover from Cons.prems u(1) have "afq_sys_inv u" by (blast intro: afq_exec_inv)
  ultimately show ?case using Cons by auto
qed simp

section \<open>Claims\<close>

text \<open>
  C17. First in, first out, nothing lost, nothing duplicated: whatever promises settle and
  however many consumers call \<open>fetch\<close>, in every run of the queue the values stored by
  settled promises are exactly the values already returned by \<open>fetch\<close>, in the same
  order, followed by the values still in the linked list.
\<close>

theorem afq_fifo_order:
  assumes "afq_run es (afq_init ig) = Some s"
  shows "sys_in s = sys_out s @ ll_contents (afq_queue (sys_q s))"
  using afq_run_inv [OF assms] by (simp add: afq_sys_inv_def)

theorem afq_fifo_order_witness:
  "\<exists>s. afq_run [EvAdd 1, EvAdd 2, EvAdd 3, EvFetch 0, EvResolve 2 (Some ''b''), EvResolve 1 (Some ''a''),
            EvWake 0, EvResolve (3::nat) None] (afq_init False) = Some s
     \<and> sys_in s = sys_out s @ ll_contents (afq_queue (sys_q s)) \<and> sys_out s = [Some ''b'']"
proof -
  let ?es = "[EvAdd 1, EvAdd 2, EvAdd 3, EvFetch 0, EvResolve 2 (Some ''b''), EvResolve 1 (Some ''a''),
            EvWake 0, EvResolve (3::nat) None]"
  obtain s where s: "afq_run ?es (afq_init False) = Some s" and "sys_out s = [Some ''b'']"
    by (simp add: afq_defs afq_init_def afq_new_def ll_push_def ll_shift_def ll_new_def Let_def)
  with afq_fifo_order [OF s] show ?thesis by blast
qed

text \<open>
  C22. No lost wake-up: in every run, a consumer that is waiting while the list holds a
  value awaits an already settled promise, so it can be resumed; resuming it returns the
  oldest value and ends its wait.
\<close>

theorem afq_no_lost_wakeup:
  assumes "afq_run es (afq_init ig) = Some s" and "sys_waiting s c = Some k"
    and "ll_contents (afq_queue (sys_q s)) \<noteq> []"
  shows "\<exists>t. afq_exec (EvWake c) s = Some t \<and> sys_waiting t c = None
           \<and> sys_out t = sys_out s @ [hd (ll_contents (afq_queue (sys_q s)))]"
proof -
  from afq_run_inv [OF assms(1)] assms(2,3)
  have inv: "ll_inv (afq_queue (sys_q s))" and k: "k < afq_promise (sys_q s)"
    by (auto simp: afq_sys_inv_def)
  from assms(3) obtain v vs where "ll_contents (afq_queue (sys_q s)) = v # vs"
    by (cases "ll_contents (afq_queue (sys_q s))") auto
  with afq_fetch_loop_ok [OF inv] assms(2) k show ?thesis
    by (auto simp: afq_fetch_resume_def)
qed

theorem afq_no_lost_wakeup_witness:
  "\<exists>s t. afq_run [EvAdd (1::nat), EvFetch 4, EvResolve 1 (Some ''job'')] (afq_init False) = Some s
     \<and> afq_exec (EvWake 4) s = Some t \<and> sys_out t = [Some ''job'']"
proof -
  let ?es = "[EvAdd (1::nat), EvFetch 4, EvResolve 1 (Some ''job'')]"
  obtain s where s: "afq_run ?es (afq_init False) = Some s" and w: "sys_waiting s 4 = Some 0"
    and c: "ll_contents (afq_queue (sys_q s)) = [Some ''job'']" and o: "sys_out s = []"
    by (simp add: afq_defs afq_init_def afq_new_def ll_push_def ll_new_def ll_contents_def Let_def
        eval_nat_numeral)
  from c have "ll_contents (afq_queue (sys_q s)) \<noteq> []" by simp
  from afq_no_lost_wakeup [OF s w this] s c o show ?thesis by auto
qed

text \<open>
  The queue never gets stuck on its own consumer: with one consumer, and if promises
  do not reject (or errors are ignored), a waiting \<open>fetch\<close> always has either a promise
  still pending or a value it can be resumed with at once.
\<close>

theorem afq_single_consumer_live:
  assumes "afq_run es (afq_init ig) = Some s" and "list_all (one_consumer ig) es"
    and "sys_waiting s 0 = Some k"
  shows "afq_pending (sys_q s) \<noteq> [] \<or>
         (\<exists>t v. afq_exec (EvWake 0) s = Some t \<and> sys_waiting t 0 = None \<and> sys_out t = sys_out s @ [v])"
proof -
  have "afq_live_inv s"
    using afq_run_live [OF assms(1) afq_init_inv] assms(2) by (simp add: afq_init_live)
  with assms(3) afq_run_inv [OF assms(1)]
  have "afq_pending (sys_q s) \<noteq> [] \<or>
      ll_inv (afq_queue (sys_q s)) \<and> k < afq_promise (sys_q s) \<and> sys_contents s \<noteq> []"
    by (auto simp: afq_live_inv_def afq_sys_inv_def)
  with assms(3) show ?thesis
    using afq_fetch_loop_ok [of "sys_q s"]
    by (cases "sys_contents s") (auto simp: afq_fetch_resume_def)
qed

theorem afq_single_consumer_live_witness:
  "\<exists>s. afq_run [EvAdd (1::nat), EvFetch 0, EvResolve 1 (Some ''job'')] (afq_init False) = Some s
     \<and> (\<exists>t v. afq_exec (EvWake 0) s = Some t \<and> sys_waiting t 0 = None \<and> sys_out t = sys_out s @ [v])"
proof -
  let ?es = "[EvAdd (1::nat), EvFetch 0, EvResolve 1 (Some ''job'')]"
  obtain s where s: "afq_run ?es (afq_init False) = Some s" and w: "sys_waiting s 0 = Some 0"
    and p: "afq_pending (sys_q s) = []"
    by (simp add: afq_defs afq_init_def afq_new_def ll_push_def ll_new_def Let_def)
  have "list_all (one_consumer False) ?es" by simp
  from afq_single_consumer_live [OF s this w] s p show ?thesis by auto
qed

text \<open>
  Without \<open>ignoreErrors\<close> a rejection can strand the consumer: when the only pending
  promise rejects, the waiting \<open>fetch\<close> wakes up, finds the list empty and awaits a new
  promise although nothing is pending or queued any more. From then on no wake-up and no
  settlement is possible; only adding another promise (or another consumer) changes the
  state.
\<close>

theorem afq_reject_strands_fetch:
  "\<exists>s :: (nat, string) afq_sys.
     afq_run [EvAdd 0, EvFetch 0, EvReject 0, EvWake 0] (afq_init False) = Some s
     \<and> sys_waiting s 0 \<noteq> None \<and> afq_numTotal (sys_q s) = 0
     \<and> (\<forall>e. afq_exec e s = None \<or> (\<exists>p. e = EvAdd p) \<or> (\<exists>c. e = EvFetch c \<and> 0 < c))"
proof -
  let ?es = "[EvAdd 0, EvFetch 0, EvReject 0, EvWake 0] :: (nat, string) afq_event list"
  obtain s where s: "afq_run ?es (afq_init False) = Some s"
    and w: "sys_waiting s = [0 \<mapsto> 1]" and q: "afq_pending (sys_q s) = []" "afq_promise (sys_q s) = 1"
      "ll_length (afq_queue (sys_q s)) = 0"
    by (simp add: afq_defs afq_init_def afq_new_def ll_new_def fun_eq_iff)
  have "afq_exec e s = None \<or> (\<exists>p. e = EvAdd p) \<or> (\<exists>c. e = EvFetch c \<and> 0 < c)" for e
    using w q by (cases e) (auto split: if_splits)
  with s w q show ?thesis by (auto simp: afq_numTotal_def)
qed

text \<open>
  Accounting: adding a new promise raises \<open>numTotal\<close> by one, resolving one leaves it
  unchanged, a rejected one leaves it unchanged when errors are ignored and lowers it by
  one otherwise, and \<open>fetch\<close> lowers it by one exactly when it returns a stored value.
\<close>

theorem afq_numTotal_accounting:
  assumes "afq_run es (afq_init ig) = Some s" and "afq_exec e s = Some t"
  shows "afq_numTotal (sys_q t) + length (sys_out t) + (case e of EvReject p \<Rightarrow> (if afq_ignoreErrors (sys_q s) then 0 else 1) | _ \<Rightarrow> 0)
       = afq_numTotal (sys_q s) + length (sys_out s) + (case e of EvAdd p \<Rightarrow> 1 | _ \<Rightarrow> 0)"
proof -
  from afq_run_inv [OF assms(1)] have inv: "ll_inv (afq_queue (sys_q s))"
    and dist: "distinct (afq_pending (sys_q s))"
    by (simp_all add: afq_sys_inv_def)
  from afq_exec_inv [OF afq_run_inv [OF assms(1)] assms(2)]
  have inv': "ll_inv (afq_queue (sys_q t))" by (simp add: afq_sys_inv_def)
  note tot = afq_numTotal_eq [OF inv] afq_numTotal_eq [OF inv']
  have rem: "p \<in> set (afq_pending (sys_q s)) \<Longrightarrow>
      Suc (length (removeAll p (afq_pending (sys_q s)))) = length (afq_pending (sys_q s))" for p
    using dist by (auto simp: distinct_remove1_removeAll [symmetric] length_remove1
        dest: length_pos_if_in_set)
  show ?thesis
  proof (cases e)
    case (EvAdd p)
    with assms tot show ?thesis by (auto simp: afq_add_def split: if_splits)
  next
    case (EvResolve p d)
    with assms afq_onResolve_ok [OF inv, of p d] tot rem [of p] show ?thesis
      by (auto split: if_splits)
  next
    case (EvReject p)
    with assms afq_onReject_ok [OF inv, of p] tot rem [of p] show ?thesis
      by (auto split: if_splits)
  next
    case (EvFetch c)
    with assms tot afq_fetch_loop_ok [OF inv] show ?thesis
      by (auto simp: afq_fetch_ok [OF inv] split: option.splits if_splits list.splits)
  next
    case (EvWake c)
    with assms tot afq_fetch_loop_ok [OF inv] show ?thesis
      by (auto simp: afq_fetch_resume_def split: option.splits if_splits list.splits)
  qed
qed

theorem afq_numTotal_accounting_witness:
  "\<exists>s t. afq_run [EvAdd (1::nat), EvAdd 2, EvFetch 0] (afq_init False) = Some s
     \<and> afq_exec (EvResolve 1 (Some ''job'')) s = Some t
     \<and> afq_numTotal (sys_q t) = afq_numTotal (sys_q s)"
proof -
  let ?es = "[EvAdd (1::nat), EvAdd 2, EvFetch 0]"
  let ?e = "EvResolve (1::nat) (Some ''job'')"
  obtain s t where s: "afq_run ?es (afq_init False) = Some s" and t: "afq_exec ?e s = Some t"
    and "sys_out s = []" and "sys_out t = []"
    by (simp add: afq_defs afq_init_def afq_new_def ll_push_def ll_new_def Let_def)
  with afq_numTotal_accounting [OF s t] show ?thesis by auto
qed

end
