(* ===== verification/Backoffs.thy ===== *)
theory Backoffs
  imports Errors
begin

text \<open>
  src/classes/backoffs.ts: how long a failed job waits before its next attempt.

  Delays are real numbers (the idealisation of IEEE doubles used in all this
  development). \<open>Math.random()\<close> is the argument \<open>r\<close>, with \<open>0 \<le> r < 1\<close> where a bound
  depends on it. A missing delay makes the arithmetic of the source yield \<open>undefined\<close> or
  \<open>NaN\<close>; both are the result \<open>None\<close> (both are falsy and different from \<open>-1\<close>, all that
  the caller asks of the value). A custom strategy is a function argument.
\<close>

record backoff_options =
  bo_type :: string
  bo_delay :: "real option"
  bo_jitter :: "real option"

text \<open>The option as the user writes it: a number or an options object.\<close>

datatype backoff_arg = BackoffNumber real | BackoffObject backoff_options

type_synonym 'j backoff_strategy =
  "int \<Rightarrow> string \<Rightarrow> js_error \<Rightarrow> 'j \<Rightarrow> (js_error, real option) result"

definition math_round :: "real \<Rightarrow> real" where
  "math_round x = of_int \<lfloor>x + 1 / 2\<rfloor>"

definition math_floor :: "real \<Rightarrow> real" where
  "math_floor x = of_int \<lfloor>x\<rfloor>"

definition fixed_strategy :: "real \<Rightarrow> real option \<Rightarrow> real option \<Rightarrow> real option" where
  "fixed_strategy r delay jitter =
     (let jitter = with_default 0 jitter in
      case delay of
        None \<Rightarrow> None
      | Some delay \<Rightarrow>
          (if jitter > 0
           then let minDelay = delay * (1 - jitter)
                in Some (math_floor (r * delay * jitter + minDelay))
           else Some delay))"

definition exponential_strategy ::
  "real \<Rightarrow> real option \<Rightarrow> real option \<Rightarrow> int \<Rightarrow> real option" where
  "exponential_strategy r delay jitter attemptsMade =
     (let jitter = with_default 0 jitter in
      case delay of
        None \<Rightarrow> None
      | Some delay \<Rightarrow>
          (if jitter > 0
           then let maxDelay = math_round (2 powi (attemptsMade - 1) * delay);
                    minDelay = maxDelay * (1 - jitter)
                in Some (math_floor (r * maxDelay * jitter + minDelay))
           else Some (math_round (2 powi (attemptsMade - 1) * delay))))"

fun normalize :: "backoff_arg option \<Rightarrow> backoff_options option" where
  "normalize None = None"
| "normalize (Some (BackoffNumber n)) =
     Some \<lparr>bo_type = ''fixed'', bo_delay = Some n, bo_jitter = None\<rparr>"
| "normalize (Some (BackoffObject b)) = Some b"

text \<open>
  \<open>lookupStrategy\<close> tests \<open>backoff.type in Backoffs.builtinStrategies\<close>. The \<open>in\<close> operator
  also sees the properties inherited from \<open>Object.prototype\<close>; what is found there is not
  a strategy factory and the call that follows raises a TypeError.
\<close>

definition object_prototype_names :: "string list" where
  "object_prototype_names =
     [''constructor'', ''toString'', ''toLocaleString'', ''valueOf'', ''hasOwnProperty'',
      ''isPrototypeOf'', ''propertyIsEnumerable'', ''__proto__'', ''__defineGetter__'',
      ''__defineSetter__'', ''__lookupGetter__'', ''__lookupSetter__'']"

definition unknown_strategy_message :: "string \<Rightarrow> string" where
  "unknown_strategy_message type =
     ''Unknown backoff strategy '' @ type @ ''.'' @ [CHR 0x0A]
       @ ''      If a custom backoff strategy is used, specify it when the queue is created.''"

definition lookupStrategy ::
  "real \<Rightarrow> string option \<Rightarrow> backoff_options \<Rightarrow> 'j backoff_strategy option
     \<Rightarrow> (js_error, 'j backoff_strategy) result" where
  "lookupStrategy r stk backoff customStrategy =
     (if bo_type backoff = ''fixed''
      then Inr (\<lambda>_ _ _ _. Inr (fixed_strategy r (bo_delay backoff) (bo_jitter backoff)))
      else if bo_type backoff = ''exponential''
      then Inr (\<lambda>n _ _ _. Inr (exponential_strategy r (bo_delay backoff) (bo_jitter backoff) n))
      else if bo_type backoff \<in> set object_prototype_names
      then Inl (new_err TypeErrorClass stk ''strategy is not a function'')
      else case customStrategy of
             Some strategy \<Rightarrow> Inr strategy
           | None \<Rightarrow> Inl (new_err ErrorClass stk (unknown_strategy_message (bo_type backoff))))"

definition calculate ::
  "real \<Rightarrow> string option \<Rightarrow> backoff_options option \<Rightarrow> int \<Rightarrow> js_error \<Rightarrow> 'j
     \<Rightarrow> 'j backoff_strategy option \<Rightarrow> (js_error, real option) result" where
  "calculate r stk backoff attemptsMade err job customStrategy =
     (case backoff of
        None \<Rightarrow> Inr None
      | Some b \<Rightarrow>
          bind_result (lookupStrategy r stk b customStrategy)
            (\<lambda>strategy. strategy attemptsMade (bo_type b) err job))"

section \<open>Bounds\<close>

lemma math_round_of_int [simp]: "math_round (of_int k) = of_int k"
proof -
  have "\<lfloor>real_of_int k + 1 / 2\<rfloor> = k" by (rule floor_unique) auto
  then show ?thesis by (simp add: math_round_def)
qed

lemma math_round_nonneg: "0 \<le> x \<Longrightarrow> 0 \<le> math_round x"
  by (simp add: math_round_def)

lemma math_floor_le: "math_floor x \<le> x"
  by (simp add: math_floor_def)

lemma math_floor_mono: "x \<le> y \<Longrightarrow> math_floor x \<le> math_floor y"
  by (simp add: math_floor_def floor_mono)

text \<open>The jittered delay lies between the minimum delay (rounded down) and the full delay.\<close>

lemma jitter_bounds:
  assumes "0 \<le> d" and "0 < j" and "j \<le> 1" and "0 \<le> r" and "r < 1"
  shows "math_floor (d * (1 - j)) \<le> math_floor (r * d * j + d * (1 - j))"
    and "math_floor (r * d * j + d * (1 - j)) \<le> d"
    and "0 \<le> math_floor (r * d * j + d * (1 - j))"
proof -
  have "0 \<le> r * d * j" using assms by simp
  then show "math_floor (d * (1 - j)) \<le> math_floor (r * d * j + d * (1 - j))"
    by (intro math_floor_mono) simp
  have "r * (d * j) \<le> 1 * (d * j)" using assms by (intro mult_right_mono) auto
  then have le: "r * d * j + d * (1 - j) \<le> d" by (simp add: algebra_simps)
  then show "math_floor (r * d * j + d * (1 - j)) \<le> d"
    using math_floor_le order_trans by blast
  show "0 \<le> math_floor (r * d * j + d * (1 - j))"
    using assms by (simp add: math_floor_def)
qed

text \<open>The delay an attempt would wait without jitter.\<close>

definition base_delay :: "backoff_options \<Rightarrow> real \<Rightarrow> int \<Rightarrow> real" where
  "base_delay b d n = (if bo_type b = ''fixed'' then d else math_round (2 powi (n - 1) * d))"

lemma calculate_builtin:
  assumes "bo_type b = ''fixed'' \<or> bo_type b = ''exponential''" and "bo_delay b = Some d"
  shows "calculate r stk (Some b) n err job cs
       = Inr (Some (let j = with_default 0 (bo_jitter b); m = base_delay b d n
                    in if j > 0 then math_floor (r * m * j + m * (1 - j)) else m))"
  using assms
  by (auto simp: calculate_def lookupStrategy_def fixed_strategy_def exponential_strategy_def
      base_delay_def Let_def)

section \<open>Claims\<close>

text \<open>
  C34. The built-in strategies stay within their documented range: for a non-negative delay,
  a jitter between 0 and 1 (what Job.validateOptions enforces) and any random draw,
  \<open>Backoffs.calculate\<close> returns a non-negative delay that is at most the un-jittered one
  and at least the fraction \<open>1 - jitter\<close> of it, rounded down; without jitter it is exactly
  the un-jittered delay.
\<close>

theorem calculate_bounds:
  assumes "bo_type b = ''fixed'' \<or> bo_type b = ''exponential''" and "bo_delay b = Some d"
    and "0 \<le> d" and "0 \<le> with_default 0 (bo_jitter b)" and "with_default 0 (bo_jitter b) \<le> 1"
    and "0 \<le> r" and "r < 1"
  shows "\<exists>x. calculate r stk (Some b) n err job cs = Inr (Some x) \<and> 0 \<le> x \<and> x \<le> base_delay b d n
           \<and> math_floor (base_delay b d n * (1 - with_default 0 (bo_jitter b))) \<le> x
           \<and> (with_default 0 (bo_jitter b) = 0 \<longrightarrow> x = base_delay b d n)"
proof -
  have m: "0 \<le> base_delay b d n"
    using assms(3) by (simp add: base_delay_def math_round_nonneg)
  show ?thesis
  proof (cases "with_default 0 (bo_jitter b) > 0")
    case True
    from jitter_bounds [OF m True assms(5,6,7)] True show ?thesis
      by (simp add: calculate_builtin [OF assms(1,2)] Let_def)
  next
    case False
    with assms(4) have "with_default 0 (bo_jitter b) = 0" by linarith
    with m show ?thesis
      by (simp add: calculate_builtin [OF assms(1,2)] math_floor_le)
  qed
qed

theorem calculate_bounds_witness:
  "\<exists>x. calculate (1/2) None
         (Some \<lparr>bo_type = ''exponential'', bo_delay = Some 1000, bo_jitter = Some (1/2)\<rparr>)
         3 (new_DelayedError None None) () None = Inr (Some x) \<and> 2000 \<le> x \<and> x \<le> 4000"
proof -
  let ?b = "\<lparr>bo_type = ''exponential'', bo_delay = Some 1000, bo_jitter = Some (1/2)\<rparr>"
  have "base_delay ?b 1000 3 = 4000" by (simp add: base_delay_def math_round_def)
  then show ?thesis
    using calculate_bounds [of ?b 1000 "1/2" None 3 "new_DelayedError None None" "()" None]
    by (auto simp: with_default_def math_floor_def)
qed

text \<open>
  Exponential back-off doubles: for a whole number of milliseconds and no jitter,
  attempt \<open>n\<close> waits exactly \<open>2 ^ (n - 1) * delay\<close>, so each attempt waits twice as long as
  the one before.
\<close>

theorem exponential_doubles:
  assumes "bo_type b = ''exponential''" and "bo_delay b = Some (of_int k)" and "bo_jitter b = None"
    and "1 \<le> n"
  shows "calculate r stk (Some b) n err job cs = Inr (Some (of_int (2 ^ nat (n - 1) * k)))
       \<and> calculate r stk (Some b) (n + 1) err job cs = Inr (Some (2 * of_int (2 ^ nat (n - 1) * k)))"
proof -
  have e: "base_delay b (of_int k) m = of_int (2 ^ nat (m - 1) * k)" if "1 \<le> m" for m
  proof -
    have "(2::real) powi (m - 1) * of_int k = of_int (2 ^ nat (m - 1) * k)"
      using that by (simp add: power_int_def)
    then show ?thesis
      using assms(1) by (simp add: base_delay_def del: of_int_mult of_int_power)
  qed
  have c: "calculate r stk (Some b) m err job cs = Inr (Some (base_delay b (of_int k) m))" for m
    using assms(1-3) by (simp add: calculate_builtin with_default_def)
  have "nat (n + 1 - 1) = Suc (nat (n - 1))" using assms(4) by simp
  then show ?thesis using assms(4) by (simp add: c e)
qed

theorem exponential_doubles_witness:
  "calculate 0 None (Some \<lparr>bo_type = ''exponential'', bo_delay = Some (of_int 500), bo_jitter = None\<rparr>)
     4 (new_WaitingError None None) () None = Inr (Some 4000)"
  using exponential_doubles [of "\<lparr>bo_type = ''exponential'', bo_delay = Some (of_int 500), bo_jitter = None\<rparr>"
      500 4 0 None "new_WaitingError None None" "()" None]
  by simp

text \<open>
  Which back-off settings are rejected: an options object of a type that is neither
  built in nor an inherited property name is handed to the custom strategy, and without
  one \<open>calculate\<close> throws; it never throws for a built-in type or for no back-off at all.
\<close>

theorem calculate_dispatch:
  "(case calculate r stk backoff n err job cs of
      Inl e \<Rightarrow> \<exists>b. backoff = Some b \<and> bo_type b \<noteq> ''fixed'' \<and> bo_type b \<noteq> ''exponential''
                 \<and> (bo_type b \<in> set object_prototype_names \<or> cs = None
                    \<or> (\<exists>f. cs = Some f \<and> f n (bo_type b) err job = Inl e))
    | Inr x \<Rightarrow> backoff = None \<and> x = None
           \<or> (\<exists>b. backoff = Some b \<and> bo_type b = ''fixed'' \<and> x = fixed_strategy r (bo_delay b) (bo_jitter b))
           \<or> (\<exists>b. backoff = Some b \<and> bo_type b = ''exponential''
                 \<and> x = exponential_strategy r (bo_delay b) (bo_jitter b) n)
           \<or> (\<exists>b f. backoff = Some b \<and> cs = Some f \<and> f n (bo_type b) err job = Inr x))"
  by (auto simp: calculate_def lookupStrategy_def bind_result_Inl_iff object_prototype_names_def
      split: option.splits sum.splits if_splits)

end
