(* ===== verification/Lock_Manager.thy ===== *)
theory Lock_Manager
  imports Errors
begin

text \<open>
  src/classes/lock-manager.ts: the worker component that keeps the locks of the jobs being
  processed alive. \<open>trackedJobs\<close> is an insertion-ordered map from job id to token,
  time stamp of the last renewal and abort controller; a timer fires every half
  \<open>lockRenewTime\<close>, collects the jobs whose last renewal is older than that, and asks the
  worker to extend their locks.

  Abort controllers are numbered; \<open>lm_aborted\<close> records which have been aborted and with
  which reason (a second abort changes nothing, as for the platform's controllers). The
  worker's \<open>extendJobLocks\<close> is a parameter of \<open>lm_extendLocks\<close>; the events it emits are
  the result. Telemetry spans are left out: \<open>worker.trace\<close> only runs its callback. The
  timer callback suspends at \<open>await this.extendLocks\<close>: \<open>lm_collect\<close> is the part before
  it, \<open>lm_startLockExtenderTimer\<close> the part after, and the state machine at the end lets
  any other operation happen in between.
\<close>

section \<open>State and operations\<close>

record tracked_job =
  tr_token :: string
  tr_ts :: "real option"
  tr_abort :: "nat option"

record lock_manager =
  lm_timer :: bool
  lm_tracked :: "(string, tracked_job) jsmap"
  lm_closed :: bool
  lm_lockRenewTime :: real
  lm_lockDuration :: real
  lm_fresh :: nat
  lm_aborted :: "nat \<Rightarrow> (string option) option"

definition lm_new :: "real \<Rightarrow> real \<Rightarrow> lock_manager" where
  "lm_new renew dur =
     \<lparr>lm_timer = False, lm_tracked = [], lm_closed = False, lm_lockRenewTime = renew,
      lm_lockDuration = dur, lm_fresh = 0, lm_aborted = Map.empty\<rparr>"

definition lm_startLockExtenderTimer :: "lock_manager \<Rightarrow> lock_manager" where
  "lm_startLockExtenderTimer lm = (if \<not> lm_closed lm then lm\<lparr>lm_timer := True\<rparr> else lm)"

definition lm_start :: "lock_manager \<Rightarrow> lock_manager" where
  "lm_start lm =
     (if lm_closed lm then lm
      else if lm_lockRenewTime lm > 0 then lm_startLockExtenderTimer lm
      else lm)"

text \<open>The body of the timer callback up to its \<open>await\<close>: one pass over the tracked jobs.\<close>

definition lm_collect_job ::
  "real \<Rightarrow> real \<Rightarrow> string \<Rightarrow> (string, tracked_job) jsmap \<times> string list
     \<Rightarrow> (string, tracked_job) jsmap \<times> string list" where
  "lm_collect_job renew now jobId acc =
     (case acc of (m, jobsToExtend) \<Rightarrow>
        (case map_get m jobId of
           None \<Rightarrow> (m, jobsToExtend)
         | Some tracked \<Rightarrow>
             (case tr_ts tracked of
                None \<Rightarrow> (map_set jobId (tracked\<lparr>tr_ts := Some now\<rparr>) m, jobsToExtend)
              | Some ts \<Rightarrow>
                  (if ts = 0 then (map_set jobId (tracked\<lparr>tr_ts := Some now\<rparr>) m, jobsToExtend)
                   else if ts + renew / 2 < now
                   then (map_set jobId (tracked\<lparr>tr_ts := Some now\<rparr>) m, jobsToExtend @ [jobId])
                   else (m, jobsToExtend)))))"

definition lm_collect :: "real \<Rightarrow> lock_manager \<Rightarrow> lock_manager \<times> string list" where
  "lm_collect now lm =
     (case fold (lm_collect_job (lm_lockRenewTime lm) now) (map_keys (lm_tracked lm))
             (lm_tracked lm, []) of
        (m, jobs) \<Rightarrow> (lm\<lparr>lm_tracked := m\<rparr>, jobs))"

text \<open>\<open>extendLocks\<close>: the tokens sent, and the events emitted for the reply.\<close>

datatype lm_event =
    LockRenewalFailed "string list"
  | ErrorEvent js_error
  | LocksRenewed nat "string list"

definition lm_jobTokens :: "lock_manager \<Rightarrow> string list \<Rightarrow> string list" where
  "lm_jobTokens lm jobIds =
     map (\<lambda>i. case map_get (lm_tracked lm) i of None \<Rightarrow> '''' | Some t \<Rightarrow> tr_token t) jobIds"

definition lm_extendLocks ::
  "(string list \<Rightarrow> string list \<Rightarrow> real \<Rightarrow> (js_error, string list) result)
     \<Rightarrow> string option \<Rightarrow> lock_manager \<Rightarrow> string list \<Rightarrow> lm_event list" where
  "lm_extendLocks extendJobLocks stk lm jobIds =
     (case extendJobLocks jobIds (lm_jobTokens lm jobIds) (lm_lockDuration lm) of
        Inl err \<Rightarrow> [ErrorEvent err]
      | Inr erroredJobIds \<Rightarrow>
          (let succeededJobIds = filter (\<lambda>i. i \<notin> set erroredJobIds) jobIds
           in (if length erroredJobIds > 0
               then LockRenewalFailed erroredJobIds
                    # map (\<lambda>i. ErrorEvent (new_err ErrorClass stk (''could not renew lock for job '' @ i)))
                        erroredJobIds
               else [])
              @ (if length succeededJobIds > 0
                 then [LocksRenewed (length succeededJobIds) succeededJobIds] else [])))"

definition lm_close :: "lock_manager \<Rightarrow> lock_manager" where
  "lm_close lm =
     (if lm_closed lm then lm
      else lm\<lparr>lm_closed := True, lm_timer := False, lm_tracked := []\<rparr>)"

definition lm_trackJob ::
  "string \<Rightarrow> string \<Rightarrow> real option \<Rightarrow> bool \<Rightarrow> lock_manager \<Rightarrow> nat option \<times> lock_manager" where
  "lm_trackJob jobId token ts shouldCreateController lm =
     (let (abortController, lm1) =
        (if shouldCreateController then (Some (lm_fresh lm), lm\<lparr>lm_fresh := Suc (lm_fresh lm)\<rparr>)
         else (None, lm))
      in (abortController,
          if \<not> lm_closed lm1 \<and> jobId \<noteq> []
          then lm1\<lparr>lm_tracked :=
                 map_set jobId \<lparr>tr_token = token, tr_ts = ts, tr_abort = abortController\<rparr> (lm_tracked lm1)\<rparr>
          else lm1))"

definition lm_untrackJob :: "string \<Rightarrow> lock_manager \<Rightarrow> lock_manager" where
  "lm_untrackJob jobId lm = lm\<lparr>lm_tracked := map_del jobId (lm_tracked lm)\<rparr>"

definition lm_getActiveJobCount :: "lock_manager \<Rightarrow> nat" where
  "lm_getActiveJobCount lm = length (lm_tracked lm)"

definition lm_isRunning :: "lock_manager \<Rightarrow> bool" where
  "lm_isRunning lm = (\<not> lm_closed lm \<and> lm_timer lm)"

definition ac_abort :: "nat \<Rightarrow> string option \<Rightarrow> lock_manager \<Rightarrow> lock_manager" where
  "ac_abort a reason lm =
     (case lm_aborted lm a of
        None \<Rightarrow> lm\<lparr>lm_aborted := (lm_aborted lm)(a \<mapsto> reason)\<rparr>
      | Some _ \<Rightarrow> lm)"

definition lm_cancelJob :: "string \<Rightarrow> string option \<Rightarrow> lock_manager \<Rightarrow> bool \<times> lock_manager" where
  "lm_cancelJob jobId reason lm =
     (case map_get (lm_tracked lm) jobId of
        None \<Rightarrow> (False, lm)
      | Some tracked \<Rightarrow>
          (case tr_abort tracked of
             None \<Rightarrow> (False, lm)
           | Some a \<Rightarrow> (True, ac_abort a reason lm)))"

definition lm_cancelAllJobs :: "string option \<Rightarrow> lock_manager \<Rightarrow> lock_manager" where
  "lm_cancelAllJobs reason lm =
     fold (\<lambda>tracked l. case tr_abort tracked of None \<Rightarrow> l | Some a \<Rightarrow> ac_abort a reason l)
       (map snd (lm_tracked lm)) lm"

definition lm_getTrackedJobIds :: "lock_manager \<Rightarrow> string list" where
  "lm_getTrackedJobIds lm = map_keys (lm_tracked lm)"

text \<open>The timer callback when nothing interleaves with its \<open>await\<close>.\<close>

definition lm_timer_callback ::
  "(string list \<Rightarrow> string list \<Rightarrow> real \<Rightarrow> (js_error, string list) result)
     \<Rightarrow> string option \<Rightarrow> real \<Rightarrow> lock_manager \<Rightarrow> lock_manager \<times> lm_event list" where
  "lm_timer_callback ext stk now lm =
     (case lm_collect now lm of (lm1, jobsToExtend) \<Rightarrow>
        (lm_startLockExtenderTimer lm1,
         if jobsToExtend \<noteq> [] then lm_extendLocks ext stk lm1 jobsToExtend else []))"

section \<open>The manager as a state machine\<close>

datatype lm_op =
    OpStart
  | OpTimerFires real
  | OpTimerRestart
  | OpTrack string string "real option" bool
  | OpUntrack string
  | OpCancel string "string option"
  | OpCancelAll "string option"
  | OpClose

text \<open>\<open>OpTimerFires\<close> is the callback up to its \<open>await\<close> (a cleared timer does not fire),
  \<open>OpTimerRestart\<close> the rest of it.\<close>

fun lm_exec :: "lm_op \<Rightarrow> lock_manager \<Rightarrow> lock_manager" where
  "lm_exec OpStart lm = lm_start lm"
| "lm_exec (OpTimerFires now) lm = (if lm_timer lm then fst (lm_collect now lm) else lm)"
| "lm_exec OpTimerRestart lm = lm_startLockExtenderTimer lm"
| "lm_exec (OpTrack j tok ts c) lm = snd (lm_trackJob j tok ts c lm)"
| "lm_exec (OpUntrack j) lm = lm_untrackJob j lm"
| "lm_exec (OpCancel j r) lm = snd (lm_cancelJob j r lm)"
| "lm_exec (OpCancelAll r) lm = lm_cancelAllJobs r lm"
| "lm_exec OpClose lm = lm_close lm"

definition lm_step :: "lock_manager \<Rightarrow> lock_manager \<Rightarrow> bool" where
  "lm_step lm lm' \<longleftrightarrow> (\<exists>op. lm' = lm_exec op lm)"

definition lm_controllers :: "lock_manager \<Rightarrow> string \<Rightarrow> nat option" where
  "lm_controllers lm j = (case map_get (lm_tracked lm) j of None \<Rightarrow> None | Some t \<Rightarrow> tr_abort t)"

definition lm_inv :: "lock_manager \<Rightarrow> bool" where
  "lm_inv lm \<longleftrightarrow>
     map_wf (lm_tracked lm)
     \<and> (lm_closed lm \<longrightarrow> lm_tracked lm = [] \<and> \<not> lm_timer lm)
     \<and> (\<forall>j a. lm_controllers lm j = Some a \<longrightarrow> a < lm_fresh lm)
     \<and> (\<forall>j k a. lm_controllers lm j = Some a \<longrightarrow> lm_controllers lm k = Some a \<longrightarrow> j = k)"

section \<open>One pass over the tracked jobs\<close>

definition lm_due :: "real \<Rightarrow> real \<Rightarrow> tracked_job \<Rightarrow> bool" where
  "lm_due renew now t = (case tr_ts t of None \<Rightarrow> False | Some ts \<Rightarrow> ts \<noteq> 0 \<and> ts + renew / 2 < now)"

definition lm_stamp :: "real \<Rightarrow> real \<Rightarrow> tracked_job \<Rightarrow> tracked_job" where
  "lm_stamp renew now t =
     (if \<not> truthy_num (tr_ts t) \<or> lm_due renew now t then t\<lparr>tr_ts := Some now\<rparr> else t)"

lemma map_set_present:
  assumes "map_wf m" and "map_get m k = Some t"
  shows "map_set k v m = map (\<lambda>(k', t'). (k', if k' = k then v else t')) m"
  using assms
proof (induction m)
  case (Cons p m)
  obtain k' t' where p: "p = (k', t')" by force
  show ?case
  proof (cases "k' = k")
    case True
    with Cons.prems p have "map (\<lambda>(k', t'). (k', if k' = k then v else t')) m = m"
      by (intro map_idI) force
    with True p show ?thesis by simp
  next
    case False
    with Cons p show ?thesis by simp
  qed
qed simp

lemma lm_collect_job_cases:
  assumes "map_get m k = Some t"
  shows "lm_collect_job renew now k (m, js) =
     (if \<not> truthy_num (tr_ts t) \<or> lm_due renew now t then map_set k (lm_stamp renew now t) m else m,
      js @ (if lm_due renew now t then [k] else []))"
  using assms by (cases "tr_ts t") (simp_all add: lm_collect_job_def lm_stamp_def lm_due_def)

lemma lm_stamp_map:
  assumes "map_wf m" and "map_get m k = Some t"
  shows "map (\<lambda>(k', t'). (k', if k' = k then lm_stamp renew now t' else t')) m
       = map (\<lambda>(k', t'). (k', if k' = k then lm_stamp renew now t else t')) m"
  using assms by (intro map_cong) (auto dest: eq_key_imp_eq_value)

lemma lm_collect_job_eq:
  assumes "map_wf m" and "map_get m k = Some t"
  shows "lm_collect_job renew now k (m, js)
       = (map (\<lambda>(k', t'). (k', if k' = k then lm_stamp renew now t' else t')) m,
          js @ (if lm_due renew now t then [k] else []))"
proof (cases "\<not> truthy_num (tr_ts t) \<or> lm_due renew now t")
  case True
  then show ?thesis
    unfolding lm_collect_job_cases [OF assms(2)] map_set_present [OF assms] lm_stamp_map [OF assms]
    by simp
next
  case False
  then have st: "lm_stamp renew now t = t" by (simp add: lm_stamp_def)
  have id: "map (\<lambda>(k', t'). (k', if k' = k then t else t')) m = m"
    using assms by (intro map_idI) (auto dest: eq_key_imp_eq_value)
  from False show ?thesis
    unfolding lm_collect_job_cases [OF assms(2)] lm_stamp_map [OF assms] st id by simp
qed

lemma fold_collect:
  assumes "map_wf m" and "distinct ks" and "set ks \<subseteq> set (map_keys m)"
  shows "fold (lm_collect_job renew now) ks (m, js)
       = (map (\<lambda>(k, t). (k, if k \<in> set ks then lm_stamp renew now t else t)) m,
          js @ filter (\<lambda>k. \<exists>t. map_get m k = Some t \<and> lm_due renew now t) ks)"
  using assms
proof (induction ks arbitrary: m js)
  case Nil
  have "map (\<lambda>(k, t). (k, t)) m = m" by (simp add: map_idI)
  then show ?case by (simp add: case_prod_unfold)
next
  case (Cons k ks)
  from Cons.prems(3) obtain t where t: "map_get m k = Some t"
    using map_get_None_iff [of m k] by auto
  let ?m = "map (\<lambda>(k', t'). (k', if k' = k then lm_stamp renew now t' else t')) m"
  have keys: "map fst ?m = map fst m" by (simp add: case_prod_unfold o_def)
  have get: "map_get ?m k' = map_get m k'" if "k' \<noteq> k" for k'
    using that by (induction m) auto
  have flt: "filter (\<lambda>k'. \<exists>t. map_get ?m k' = Some t \<and> lm_due renew now t) ks
      = filter (\<lambda>k'. \<exists>t. map_get m k' = Some t \<and> lm_due renew now t) ks"
  proof (rule filter_cong [OF refl])
    fix x assume "x \<in> set ks"
    with Cons.prems(2) have "x \<noteq> k" by auto
    then show "(\<exists>t. map_get ?m x = Some t \<and> lm_due renew now t)
        = (\<exists>t. map_get m x = Some t \<and> lm_due renew now t)" by (simp only: get [OF \<open>x \<noteq> k\<close>])
  qed
  have mp: "map (\<lambda>(k', t'). (k', if k' \<in> set ks then lm_stamp renew now t' else t')) ?m
      = map (\<lambda>(k', t'). (k', if k' \<in> set (k # ks) then lm_stamp renew now t' else t')) m"
    using Cons.prems(2) by auto
  have IH: "fold (lm_collect_job renew now) ks (?m, js @ (if lm_due renew now t then [k] else []))
      = (map (\<lambda>(k', t'). (k', if k' \<in> set ks then lm_stamp renew now t' else t')) ?m,
         (js @ (if lm_due renew now t then [k] else []))
           @ filter (\<lambda>k'. \<exists>t. map_get ?m k' = Some t \<and> lm_due renew now t) ks)"
  proof (rule Cons.IH)
    show "map_wf ?m" by (simp only: keys Cons.prems(1))
    show "distinct ks" using Cons.prems(2) by simp
    show "set ks \<subseteq> set (map_keys ?m)" using Cons.prems(3) unfolding keys by simp
  qed
  have "filter (\<lambda>k'. \<exists>t. map_get m k' = Some t \<and> lm_due renew now t) (k # ks)
      = (if lm_due renew now t then [k] else [])
        @ filter (\<lambda>k'. \<exists>t. map_get m k' = Some t \<and> lm_due renew now t) ks"
    unfolding filter.simps using t by (cases "lm_due renew now t") simp_all
  then show ?case
    unfolding fold.simps o_apply lm_collect_job_eq [OF Cons.prems(1) t] IH mp flt
    by (simp only: append_assoc)
qed

lemma filter_keys:
  assumes "map_wf m"
  shows "filter (\<lambda>k. \<exists>t. map_get m k = Some t \<and> P t) (map fst m) = map fst (filter (\<lambda>(k, t). P t) m)"
proof -
  have "filter (\<lambda>p. \<exists>t. map_get m (fst p) = Some t \<and> P t) m = filter (\<lambda>(k, t). P t) m"
    using assms by (intro filter_cong) (auto dest: eq_key_imp_eq_value)
  then show ?thesis by (simp add: filter_map o_def)
qed

lemma lm_collect_eq:
  assumes "map_wf (lm_tracked lm)"
  shows "lm_collect now lm
       = (lm\<lparr>lm_tracked := map (\<lambda>(k, t). (k, lm_stamp (lm_lockRenewTime lm) now t)) (lm_tracked lm)\<rparr>,
          map fst (filter (\<lambda>(k, t). lm_due (lm_lockRenewTime lm) now t) (lm_tracked lm)))"
proof -
  have "map (\<lambda>(k, t). (k, if k \<in> set (map_keys (lm_tracked lm))
                          then lm_stamp (lm_lockRenewTime lm) now t else t)) (lm_tracked lm)
      = map (\<lambda>(k, t). (k, lm_stamp (lm_lockRenewTime lm) now t)) (lm_tracked lm)"
    by (rule map_cong) force+
  then show ?thesis
    by (simp only: lm_collect_def fold_collect [OF assms assms order_refl] filter_keys [OF assms]) simp
qed

section \<open>The invariant\<close>

lemma lm_stamp_abort [simp]: "tr_abort (lm_stamp r n t) = tr_abort t"
  by (simp add: lm_stamp_def)

lemma lm_stamp_token [simp]: "tr_token (lm_stamp r n t) = tr_token t"
  by (simp add: lm_stamp_def)

lemma ac_abort_simps [simp]:
  "lm_tracked (ac_abort a r lm) = lm_tracked lm" "lm_closed (ac_abort a r lm) = lm_closed lm"
  "lm_timer (ac_abort a r lm) = lm_timer lm" "lm_fresh (ac_abort a r lm) = lm_fresh lm"
  by (simp_all add: ac_abort_def split: option.splits)

lemma lm_cancelAll_fold:
  fixes lm :: lock_manager
  defines "f \<equiv> \<lambda>r t l. case tr_abort t of None \<Rightarrow> l | Some a \<Rightarrow> ac_abort a r l"
  shows "lm_tracked (fold (f r) ts lm) = lm_tracked lm" "lm_closed (fold (f r) ts lm) = lm_closed lm"
    "lm_timer (fold (f r) ts lm) = lm_timer lm" "lm_fresh (fold (f r) ts lm) = lm_fresh lm"
    "lm_aborted (fold (f r) ts lm) a \<noteq> None
       \<longleftrightarrow> lm_aborted lm a \<noteq> None \<or> (\<exists>t \<in> set ts. tr_abort t = Some a)"
  by (induction ts arbitrary: lm, auto simp: f_def ac_abort_def split: option.splits)

lemma lm_inv_cong:
  assumes "lm_tracked lm' = lm_tracked lm" and "lm_closed lm' = lm_closed lm"
    and "lm_timer lm' = lm_timer lm" and "lm_fresh lm' = lm_fresh lm"
  shows "lm_inv lm' = lm_inv lm"
  using assms by (simp add: lm_inv_def lm_controllers_def)

lemma lm_inv_collect:
  assumes "lm_inv lm"
  shows "lm_inv (fst (lm_collect now lm))"
proof -
  from assms have wf: "map_wf (lm_tracked lm)" by (simp add: lm_inv_def)
  have "lm_controllers (fst (lm_collect now lm)) = lm_controllers lm"
    by (auto simp: lm_controllers_def lm_collect_eq [OF wf] map_get_mapped split: option.splits)
  then show ?thesis
    using assms by (auto simp: lm_inv_def lm_collect_eq [OF wf])
qed

lemma lm_inv_track:
  assumes "lm_inv lm"
  shows "lm_inv (snd (lm_trackJob j tok ts c lm))"
proof (cases "\<not> lm_closed lm \<and> j \<noteq> []")
  case True
  let ?lm = "snd (lm_trackJob j tok ts c lm)"
  have "lm_controllers ?lm = (lm_controllers lm)(j := if c then Some (lm_fresh lm) else None)"
    using True by (auto simp: lm_controllers_def lm_trackJob_def fun_eq_iff)
  moreover have "map_wf (lm_tracked ?lm)" "\<not> lm_closed ?lm"
      "lm_fresh ?lm = (if c then Suc (lm_fresh lm) else lm_fresh lm)"
    using True assms by (auto simp: lm_trackJob_def lm_inv_def)
  ultimately show ?thesis
    using assms unfolding lm_inv_def
    by (fastforce intro: less_SucI split: if_splits)
next
  case False
  then have "lm_trackJob j tok ts c lm = (if c then Some (lm_fresh lm) else None,
      if c then lm\<lparr>lm_fresh := Suc (lm_fresh lm)\<rparr> else lm)"
    by (auto simp: lm_trackJob_def)
  with assms show ?thesis
    by (auto simp: lm_inv_def lm_controllers_def intro: less_SucI split: option.splits)
qed

lemma lm_inv_untrack: "lm_inv lm \<Longrightarrow> lm_inv (lm_untrackJob j lm)"
  by (auto simp: lm_inv_def lm_untrackJob_def lm_controllers_def split: if_splits)

lemma lm_exec_inv: "lm_inv lm \<Longrightarrow> lm_inv (lm_exec op lm)"
proof (cases op)
  case (OpTimerFires now)
  then show "lm_inv lm \<Longrightarrow> ?thesis" by (simp add: lm_inv_collect)
next
  case (OpTrack j tok ts c)
  then show "lm_inv lm \<Longrightarrow> ?thesis" by (simp add: lm_inv_track)
next
  case (OpUntrack j)
  then show "lm_inv lm \<Longrightarrow> ?thesis" by (simp add: lm_inv_untrack)
next
  case (OpCancel j r)
  then show "lm_inv lm \<Longrightarrow> ?thesis"
    by (auto simp: lm_cancelJob_def lm_inv_cong [OF ac_abort_simps] split: option.splits)
next
  case (OpCancelAll r)
  then show "lm_inv lm \<Longrightarrow> ?thesis"
    by (simp add: lm_cancelAllJobs_def lm_inv_cong [OF lm_cancelAll_fold(1-4)])
next
  case OpClose
  then show "lm_inv lm \<Longrightarrow> ?thesis" by (simp add: lm_inv_def lm_close_def lm_controllers_def)
qed (auto simp: lm_inv_def lm_start_def lm_startLockExtenderTimer_def lm_controllers_def)

lemma lm_new_inv: "lm_inv (lm_new renew dur)"
  by (simp add: lm_inv_def lm_new_def lm_controllers_def)

interpretation lm_sys: step_invariant "\<lambda>lm. lm = lm_new renew dur" lm_step lm_inv
  for renew dur :: real
  by unfold_locales (auto simp: lm_new_inv lm_step_def intro: lm_exec_inv)

lemma lm_run_reach: "reach (\<lambda>lm. lm = lm_new renew dur) lm_step (fold lm_exec ops (lm_new renew dur))"
proof (induction ops rule: rev_induct)
  case Nil
  show ?case by (auto intro: reach.reach_init)
next
  case (snoc op ops)
  then show ?case by (auto simp: lm_step_def intro: reach.reach_step)
qed

lemmas lm_run_inv = lm_sys.inv_reach [OF lm_run_reach]

lemma lm_exec_closed: "lm_closed lm \<Longrightarrow> lm_closed (lm_exec op lm)"
proof (cases op)
  case (OpTimerFires now)
  then show "lm_closed lm \<Longrightarrow> ?thesis" by (simp add: lm_collect_def split: prod.splits)
next
  case (OpCancel j r)
  then show "lm_closed lm \<Longrightarrow> ?thesis" by (simp add: lm_cancelJob_def split: option.splits)
next
  case (OpCancelAll r)
  then show "lm_closed lm \<Longrightarrow> ?thesis" by (simp add: lm_cancelAllJobs_def lm_cancelAll_fold)
qed (simp_all add: lm_start_def lm_startLockExtenderTimer_def lm_trackJob_def lm_untrackJob_def
    lm_close_def)

lemma lm_run_closed: "lm_closed lm \<Longrightarrow> lm_closed (fold lm_exec ops lm)"
  by (induction ops arbitrary: lm) (auto intro: lm_exec_closed)

lemma lm_extendLocks_renewed:
  assumes "ext ids (lm_jobTokens lm ids) (lm_lockDuration lm) = Inr errored"
  shows "LocksRenewed n rs \<in> set (lm_extendLocks ext stk lm ids)
     \<longleftrightarrow> rs = filter (\<lambda>i. i \<notin> set errored) ids \<and> n = length rs \<and> rs \<noteq> []"
  using assms by (auto simp: lm_extendLocks_def Let_def)

section \<open>Claims\<close>

text \<open>
  What a firing of the renewal timer does: in any state the manager can reach, the
  callback collects exactly the tracked jobs whose last renewal lies more than half of
  \<open>lockRenewTime\<close> back, in tracking order; those and the jobs without a time stamp are
  stamped with the current time, every other entry is unchanged, and no job, token or
  abort controller is added, lost or altered.
\<close>

theorem lm_collect_spec:
  assumes "lm = fold lm_exec ops (lm_new renew dur)"
  shows "lm_collect now lm
       = (lm\<lparr>lm_tracked := map (\<lambda>(k, t). (k, lm_stamp (lm_lockRenewTime lm) now t)) (lm_tracked lm)\<rparr>,
          map fst (filter (\<lambda>(k, t). lm_due (lm_lockRenewTime lm) now t) (lm_tracked lm)))
     \<and> lm_getTrackedJobIds (fst (lm_collect now lm)) = lm_getTrackedJobIds lm
     \<and> lm_jobTokens (fst (lm_collect now lm)) ids = lm_jobTokens lm ids
     \<and> lm_controllers (fst (lm_collect now lm)) = lm_controllers lm"
proof -
  have wf: "map_wf (lm_tracked lm)" using lm_run_inv assms by (simp add: lm_inv_def)
  show ?thesis
    by (auto simp: lm_collect_eq [OF wf] lm_getTrackedJobIds_def lm_jobTokens_def
        lm_controllers_def map_get_mapped fun_eq_iff split: option.splits)
qed

theorem lm_collect_spec_witness:
  "snd (lm_collect 40 (fold lm_exec [OpTrack ''a'' ''t1'' (Some 5) False, OpTrack ''b'' ''t2'' (Some 30) True,
       OpTrack ''c'' ''t3'' None False] (lm_new 30 60))) = [''a'']"
  unfolding lm_collect_spec [OF refl, THEN conjunct1]
  by (simp add: lm_trackJob_def lm_new_def lm_due_def)



text \<open>
  Closing is final: once \<open>close\<close> has been called, whatever happens afterwards (a timer
  callback that was already running, further \<open>trackJob\<close> or \<open>start\<close> calls), the manager
  stays closed, tracks no job and its timer does not run.
\<close>

theorem lm_close_final:
  assumes "OpClose \<in> set ops"
  shows "lm_closed (fold lm_exec ops (lm_new renew dur))
       \<and> lm_getTrackedJobIds (fold lm_exec ops (lm_new renew dur)) = []
       \<and> \<not> lm_isRunning (fold lm_exec ops (lm_new renew dur))"
proof -
  from assms obtain ops1 ops2 where ops: "ops = ops1 @ OpClose # ops2"
    by (auto dest: split_list)
  have "lm_closed (lm_close lm)" for lm by (simp add: lm_close_def)
  then have "lm_closed (fold lm_exec ops (lm_new renew dur))"
    unfolding ops by (simp add: lm_run_closed)
  with lm_run_inv [of ops renew dur] show ?thesis
    by (simp add: lm_inv_def lm_getTrackedJobIds_def lm_isRunning_def)
qed

theorem lm_close_final_witness:
  "lm_getTrackedJobIds (fold lm_exec [OpStart, OpTrack ''a'' ''t'' None True, OpClose, OpTrack ''b'' ''t'' None True]
     (lm_new 10 20)) = []"
  using lm_close_final [of "[OpStart, OpTrack ''a'' ''t'' None True, OpClose, OpTrack ''b'' ''t'' None True]" 10 20]
  by simp

text \<open>
  Cancelling is precise: in any reachable state \<open>cancelJob\<close> returns true exactly when
  the job is tracked with an abort controller; then that controller is aborted (with the
  given reason if it was not aborted before) and the controller of every other tracked job
  keeps its state.
\<close>

theorem lm_cancelJob_precise:
  assumes "lm = fold lm_exec ops (lm_new renew dur)"
  shows "fst (lm_cancelJob j reason lm) = (\<exists>a. lm_controllers lm j = Some a)
     \<and> (\<forall>a. lm_controllers lm j = Some a \<longrightarrow>
           lm_aborted (snd (lm_cancelJob j reason lm)) a
             = Some (case lm_aborted lm a of None \<Rightarrow> reason | Some r \<Rightarrow> r))
     \<and> (\<forall>k a. k \<noteq> j \<longrightarrow> lm_controllers lm k = Some a \<longrightarrow>
           lm_aborted (snd (lm_cancelJob j reason lm)) a = lm_aborted lm a)"
proof -
  have inv: "lm_inv lm" using lm_run_inv assms by simp
  show ?thesis
  proof (cases "lm_controllers lm j")
    case None
    then show ?thesis
      by (auto simp: lm_cancelJob_def lm_controllers_def split: option.splits)
  next
    case (Some a)
    then have c: "lm_cancelJob j reason lm = (True, ac_abort a reason lm)"
      by (auto simp: lm_cancelJob_def lm_controllers_def split: option.splits)
    from inv Some have "lm_controllers lm k \<noteq> Some a" if "k \<noteq> j" for k
      using that by (auto simp: lm_inv_def)
    with c Some show ?thesis by (auto simp: ac_abort_def split: option.splits)
  qed
qed

theorem lm_cancelJob_precise_witness:
  "fst (lm_cancelJob ''b'' (Some ''stop'') (fold lm_exec [OpTrack ''a'' ''t'' None True, OpTrack ''b'' ''t'' None True]
     (lm_new 10 20)))"
  using lm_cancelJob_precise [OF refl, of "''b''" "Some ''stop''" "[OpTrack ''a'' ''t'' None True, OpTrack ''b'' ''t'' None True]" 10 20]
  by (simp add: lm_controllers_def lm_trackJob_def lm_new_def)

text \<open>
  Every renewal outcome is reported: when the worker answers a renewal request with the
  ids it could not renew, each requested job is reported renewed exactly when it is not
  among them, each failed id produces its own error event, and a request that rejects
  produces that error only.
\<close>

theorem lm_extendLocks_reports:
  "case ext ids (lm_jobTokens lm ids) (lm_lockDuration lm) of
     Inl err \<Rightarrow> lm_extendLocks ext stk lm ids = [ErrorEvent err]
   | Inr errored \<Rightarrow>
       (\<forall>i \<in> set ids. (\<exists>n rs. LocksRenewed n rs \<in> set (lm_extendLocks ext stk lm ids) \<and> i \<in> set rs)
            \<longleftrightarrow> i \<notin> set errored)
       \<and> (\<forall>i \<in> set errored. ErrorEvent (new_err ErrorClass stk (''could not renew lock for job '' @ i))
              \<in> set (lm_extendLocks ext stk lm ids))
       \<and> (errored \<noteq> [] \<longrightarrow> hd (lm_extendLocks ext stk lm ids) = LockRenewalFailed errored)
       \<and> (\<forall>n rs. LocksRenewed n rs \<in> set (lm_extendLocks ext stk lm ids) \<longrightarrow> n = length rs \<and> n > 0)"
proof (cases "ext ids (lm_jobTokens lm ids) (lm_lockDuration lm)")
  case (Inl err)
  then show ?thesis by (simp add: lm_extendLocks_def)
next
  case (Inr errored)
  note ren = lm_extendLocks_renewed [where ext = ext and ids = ids and lm = lm and stk = stk, OF Inr]
  have "i \<notin> set errored \<longleftrightarrow> (\<exists>n rs. LocksRenewed n rs \<in> set (lm_extendLocks ext stk lm ids) \<and> i \<in> set rs)"
    if "i \<in> set ids" for i
    unfolding ren using that by (auto simp: filter_empty_conv)
  moreover have "n = length rs \<and> n > 0" if "LocksRenewed n rs \<in> set (lm_extendLocks ext stk lm ids)" for n rs
    using that unfolding ren by auto
  moreover have "ErrorEvent (new_err ErrorClass stk (''could not renew lock for job '' @ i))
              \<in> set (lm_extendLocks ext stk lm ids)" if "i \<in> set errored" for i
    using that Inr by (auto simp: lm_extendLocks_def Let_def)
  moreover have "errored \<noteq> [] \<longrightarrow> hd (lm_extendLocks ext stk lm ids) = LockRenewalFailed errored"
    using Inr by (simp add: lm_extendLocks_def Let_def)
  ultimately show ?thesis unfolding Inr by simp
qed

theorem lm_extendLocks_reports_witness:
  "LocksRenewed 1 [''a''] \<in> set (lm_extendLocks (\<lambda>ids toks d. Inr [''b'']) None
     (fold lm_exec [OpTrack ''a'' ''t'' None True, OpTrack ''b'' ''t'' None True] (lm_new 10 20)) [''a'', ''b''])"
  using lm_extendLocks_reports [where ext = "\<lambda>ids toks d. Inr [''b'']" and ids = "[''a'', ''b'']"
      and lm = "fold lm_exec [OpTrack ''a'' ''t'' None True, OpTrack ''b'' ''t'' None True] (lm_new 10 20)"
      and stk = None]
  by (simp add: lm_extendLocks_def)

end
