(* ===== verification/Js_Values.thy ===== *)
theory Js_Values
  imports Utils
begin

text \<open>
  JavaScript values as the sources pass them around untyped: job options, user data,
  results, progress. An object is an insertion-ordered map; a missing property reads as
  \<open>VUndef\<close>. Numbers are the finite ones and \<open>NaN\<close> (\<open>VNaN\<close>). \<open>json_lib\<close> bundles \<open>JSON.stringify\<close> and
  \<open>JSON.parse\<close> with the number rendering of template literals
  and \<open>new Date(v).getTime()\<close>; the predicate \<open>json_ok\<close> names the only property the code relies on, that
  parsing the text of a value gives the value back.
\<close>

datatype jsval =
    VUndef
  | VNull
  | VBool bool
  | VNaN
  | VNum real
  | VStr string
  | VArr "jsval list"
  | VObj "(string \<times> jsval) list"

type_synonym jsobj = "(string, jsval) jsmap"

fun truthy :: "jsval \<Rightarrow> bool" where
  "truthy VUndef = False"
| "truthy VNull = False"
| "truthy (VBool b) = b"
| "truthy VNaN = False"
| "truthy (VNum n) = (n \<noteq> 0)"
| "truthy (VStr s) = (s \<noteq> [])"
| "truthy (VArr _) = True"
| "truthy (VObj _) = True"

definition oprop :: "jsobj \<Rightarrow> string \<Rightarrow> jsval" where
  "oprop obj k = (case map_get obj k of None \<Rightarrow> VUndef | Some v \<Rightarrow> v)"

text \<open>Optional chaining \<open>v?.k\<close>.\<close>

fun vprop :: "jsval \<Rightarrow> string \<Rightarrow> jsval" where
  "vprop (VObj obj) k = oprop obj k"
| "vprop _ k = VUndef"

fun num_of :: "jsval \<Rightarrow> real option" where
  "num_of (VNum n) = Some n"
| "num_of _ = None"

fun str_of :: "jsval \<Rightarrow> string option" where
  "str_of (VStr s) = Some s"
| "str_of _ = None"

text \<open>The operators \<open>??\<close> and \<open>||\<close>, and addition and comparison on the operands the sources
  use them with: numbers, \<open>NaN\<close> and \<open>undefined\<close> (\<open>undefined + 1\<close> is \<open>NaN\<close>, and a comparison
  with \<open>NaN\<close> or \<open>undefined\<close> is false).\<close>

fun nullish_or :: "jsval \<Rightarrow> jsval \<Rightarrow> jsval" where
  "nullish_or VUndef d = d"
| "nullish_or VNull d = d"
| "nullish_or v d = v"

definition logical_or :: "jsval \<Rightarrow> jsval \<Rightarrow> jsval" where
  "logical_or a b = (if truthy a then a else b)"

fun js_plus :: "jsval \<Rightarrow> real \<Rightarrow> jsval" where
  "js_plus (VNum n) k = VNum (n + k)"
| "js_plus _ k = VNaN"

fun js_less :: "jsval \<Rightarrow> jsval \<Rightarrow> bool" where
  "js_less (VNum a) (VNum b) = (a < b)"
| "js_less _ _ = False"

text \<open>\<open>Object.assign(target, source)\<close> and the spread \<open>{...target, ...source}\<close>.\<close>

definition object_assign :: "jsobj \<Rightarrow> jsobj \<Rightarrow> jsobj" where
  "object_assign target source = fold (\<lambda>(k, v) acc. map_set k v acc) source target"

record json_lib =
  json_stringify :: "jsval \<Rightarrow> (js_error, string option) result"
  json_parse :: "string \<Rightarrow> (js_error, jsval) result"
  num_to_string :: "real \<Rightarrow> string"
  date_millis :: "jsval \<Rightarrow> jsval"

definition json_ok :: "json_lib \<Rightarrow> jsval \<Rightarrow> bool" where
  "json_ok J v \<longleftrightarrow> (\<exists>s. json_stringify J v = Inr (Some s) \<and> s \<noteq> [] \<and> json_parse J s = Inr v)"

text \<open>Safe integers are rendered in decimal.\<close>

definition num_ok :: "json_lib \<Rightarrow> bool" where
  "num_ok J \<longleftrightarrow> (\<forall>i. \<bar>i\<bar> < 2 ^ 53 \<longrightarrow> num_to_string J (of_int i) = string_of_int i)"

text \<open>\<open>Math.trunc\<close>, and \<open>xs.slice(from)\<close>, which truncates its argument and counts a
  negative one from the end.\<close>

definition math_trunc :: "real \<Rightarrow> int" where
  "math_trunc x = (if x < 0 then \<lceil>x\<rceil> else \<lfloor>x\<rfloor>)"

definition slice_from :: "int \<Rightarrow> 'a list \<Rightarrow> 'a list" where
  "slice_from i xs = drop (nat (if i < 0 then max 0 (int (length xs) + i) else i)) xs"

lemma slice_from_last: "0 < l \<Longrightarrow> slice_from (- int l) xs = rev (take l (rev xs))"
  by (auto simp: slice_from_def rev_take nat_diff_distrib max_def)

lemma math_trunc_neg_nat: "math_trunc (- real l) = - int l"
proof -
  have "\<lceil>- real l\<rceil> = - int l" by linarith
  then show ?thesis by (simp add: math_trunc_def)
qed

lemma oprop_simps [simp]:
  "oprop [] k = VUndef"
  "oprop ((k', v) # obj) k = (if k = k' then v else oprop obj k)"
  by (simp_all add: oprop_def)

lemma oprop_map_set [simp]: "oprop (map_set k v obj) k' = (if k' = k then v else oprop obj k')"
  by (simp add: oprop_def)

lemma oprop_map_del [simp]: "oprop (map_del k obj) k' = (if k' = k then VUndef else oprop obj k')"
  by (simp add: oprop_def)

lemma oprop_object_assign:
  assumes "map_wf source"
  shows "oprop (object_assign target source) k
       = (if k \<in> set (map_keys source) then oprop source k else oprop target k)"
proof (cases "map_get source k")
  case None
  moreover from None have "k \<notin> set (map_keys source)" by (simp only: map_get_None_iff not_False_eq_True)
  ultimately show ?thesis
    by (simp only: object_assign_def oprop_def map_of_fold_map_set map_of_rev_wf [OF assms]) simp
next
  case (Some v)
  moreover from Some have "k \<in> set (map_keys source)" by (rule map_get_Some_key)
  ultimately show ?thesis
    by (simp only: object_assign_def oprop_def map_of_fold_map_set map_of_rev_wf [OF assms]) simp
qed

end
