(* ===== verification/Redis_Codec.thy ===== *)
theory Redis_Codec
  imports Js_Values
begin

text \<open>
  How src/classes/redis-queue-backend.ts encodes jobs for Redis and decodes what Redis
  returns: the short option names (optsAsJSON, optsFromJSON), the stored hash
  (rawToJobJson, raw2NextJobData), the retention settings (getKeepJobs) and flow keys
  (parseNodeKey).

  Option objects are \<open>jsobj\<close>s whose attribute names are those of JobsOptions (none is a
  property of \<open>Object.prototype\<close>). \<open>parseInt\<close> is the library function on strings, with
  \<open>None\<close> for \<open>NaN\<close> and unbounded integers for its results.
\<close>

section \<open>Parsing integers\<close>

fun digit_val :: "char \<Rightarrow> nat option" where
  "digit_val c =
     (let n = of_char c :: nat in
      if 48 \<le> n \<and> n \<le> 57 then Some (n - 48)
      else if 97 \<le> n \<and> n \<le> 102 then Some (n - 87)
      else if 65 \<le> n \<and> n \<le> 70 then Some (n - 55)
      else None)"

text \<open>The longest prefix of digits in a base, read from the left; the flag says whether a
  digit was seen.\<close>

fun read_digits :: "nat \<Rightarrow> bool \<Rightarrow> int \<Rightarrow> string \<Rightarrow> int option" where
  "read_digits b seen acc [] = (if seen then Some acc else None)"
| "read_digits b seen acc (c # cs) =
     (case digit_val c of
        Some d \<Rightarrow> (if d < b then read_digits b True (acc * int b + int d) cs
                  else if seen then Some acc else None)
      | None \<Rightarrow> (if seen then Some acc else None))"

definition is_space :: "char \<Rightarrow> bool" where
  "is_space c = (c \<in> {CHR '' '', CHR 0x09, CHR 0x0A, CHR 0x0B, CHR 0x0C, CHR 0x0D})"

fun strip_sign :: "string \<Rightarrow> int \<times> string" where
  "strip_sign (c # cs) =
     (if c = CHR ''-'' then (-1, cs) else if c = CHR ''+'' then (1, cs) else (1, c # cs))"
| "strip_sign [] = (1, [])"

definition parseInt10 :: "string \<Rightarrow> int option" where
  "parseInt10 s =
     (case strip_sign (dropWhile is_space s) of
        (sg, body) \<Rightarrow> map_option (\<lambda>n. sg * n) (read_digits 10 False 0 body))"

text \<open>Without a radix argument a \<open>0x\<close> prefix selects base 16.\<close>

definition parseInt :: "string \<Rightarrow> int option" where
  "parseInt s =
     (case strip_sign (dropWhile is_space s) of
        (sg, body) \<Rightarrow>
          (if prefix ''0x'' body \<or> prefix ''0X'' body
           then map_option (\<lambda>n. sg * n) (read_digits 16 False 0 (drop 2 body))
           else map_option (\<lambda>n. sg * n) (read_digits 10 False 0 body)))"

section \<open>Job options\<close>

definition optsAsJSON_entry :: "string \<times> jsval \<Rightarrow> jsobj \<Rightarrow> jsobj" where
  "optsAsJSON_entry entry options =
     (case entry of (attributeName, value) \<Rightarrow>
        (if value = VUndef then options
         else case map_get optsEncodeMap attributeName of
                Some key \<Rightarrow> map_set key value options
              | None \<Rightarrow>
                  (if attributeName = ''telemetry''
                   then let options1 = (if vprop value ''metadata'' \<noteq> VUndef
                                        then map_set ''tm'' (vprop value ''metadata'') options
                                        else options)
                        in if vprop value ''omitContext'' \<noteq> VUndef
                           then map_set ''omc'' (vprop value ''omitContext'') options1
                           else options1
                   else map_set attributeName value options)))"

definition optsAsJSON :: "jsobj \<Rightarrow> jsobj" where
  "optsAsJSON opts = fold optsAsJSON_entry opts []"

definition spread_telemetry :: "jsobj \<Rightarrow> string \<Rightarrow> jsval \<Rightarrow> jsobj" where
  "spread_telemetry options k v =
     map_set ''telemetry''
       (VObj (map_set k v (case oprop options ''telemetry'' of VObj t \<Rightarrow> t | _ \<Rightarrow> []))) options"

definition optsFromJSON_entry :: "string \<times> jsval \<Rightarrow> jsobj \<Rightarrow> jsobj" where
  "optsFromJSON_entry item options =
     (case item of (attributeName, value) \<Rightarrow>
        (case map_get optsDecodeMap attributeName of
           Some name \<Rightarrow> map_set name value options
         | None \<Rightarrow>
             (if attributeName = ''tm'' then spread_telemetry options ''metadata'' value
              else if attributeName = ''omc'' then spread_telemetry options ''omitContext'' value
              else map_set attributeName value options)))"

definition optsFromEntries :: "jsobj \<Rightarrow> jsobj" where
  "optsFromEntries entries = fold optsFromJSON_entry entries []"

definition optsFromJSON :: "json_lib \<Rightarrow> string option \<Rightarrow> (js_error, jsobj) result" where
  "optsFromJSON J rawOpts =
     bind_result (json_parse J (if truthy_str rawOpts then the rawOpts else ''{}''))
       (\<lambda>opts. case opts of VObj entries \<Rightarrow> Inr (optsFromEntries entries) | _ \<Rightarrow> Inr [])"

section \<open>The stored job\<close>

record job_json =
  jj_id :: "string option"
  jj_name :: "string option"
  jj_data :: string
  jj_opts :: jsobj
  jj_progress :: jsval
  jj_delay :: jsval
  jj_priority :: jsval
  jj_timestamp :: jsval
  jj_attemptsStarted :: jsval
  jj_attemptsMade :: jsval
  jj_stalledCounter :: jsval
  jj_finishedOn :: jsval
  jj_processedOn :: jsval
  jj_repeatJobKey :: "string option"
  jj_deduplicationId :: "string option"
  jj_failedReason :: "string option"
  jj_deferredFailure :: "string option"
  jj_stacktrace :: "string option"
  jj_returnvalue :: "string option"
  jj_parentKey :: "string option"
  jj_parent :: jsval
  jj_processedBy :: "string option"

text \<open>A hash field of the raw reply: absent and \<open>undefined\<close> read alike.\<close>

definition rfield :: "(string, string option) jsmap \<Rightarrow> string \<Rightarrow> string option" where
  "rfield raw k = (case map_get raw k of None \<Rightarrow> None | Some v \<Rightarrow> v)"

definition or_else :: "string option \<Rightarrow> string option \<Rightarrow> string option" where
  "or_else a b = (if truthy_str a then a else b)"

text \<open>\<open>parseInt\<close> as a value; \<open>parseInt(undefined)\<close> is \<open>NaN\<close>.\<close>

definition parseInt_val :: "string option \<Rightarrow> jsval" where
  "parseInt_val s =
     (case s of
        None \<Rightarrow> VNaN
      | Some t \<Rightarrow> (case parseInt t of None \<Rightarrow> VNaN | Some i \<Rightarrow> VNum (of_int i)))"

definition rawToJobJson ::
  "json_lib \<Rightarrow> (string, string option) jsmap \<Rightarrow> (js_error, job_json) result" where
  "rawToJobJson J raw =
     bind_result (optsFromJSON J (rfield raw ''opts'')) (\<lambda>opts.
     bind_result (json_parse J (the (or_else (rfield raw ''progress'') (Some ''0'')))) (\<lambda>progress.
     bind_result (if truthy_str (rfield raw ''parent'')
                  then json_parse J (the (rfield raw ''parent'')) else Inr VUndef) (\<lambda>parent.
     Inr \<lparr>jj_id = rfield raw ''id'',
          jj_name = rfield raw ''name'',
          jj_data = the (or_else (rfield raw ''data'') (Some ''{}'')),
          jj_opts = opts,
          jj_progress = progress,
          jj_delay = parseInt_val (rfield raw ''delay''),
          jj_priority = parseInt_val (rfield raw ''priority''),
          jj_timestamp = parseInt_val (rfield raw ''timestamp''),
          jj_attemptsStarted = parseInt_val (or_else (rfield raw ''ats'') (Some ''0'')),
          jj_attemptsMade =
            parseInt_val (or_else (or_else (rfield raw ''attemptsMade'') (rfield raw ''atm'')) (Some ''0'')),
          jj_stalledCounter = parseInt_val (or_else (rfield raw ''stc'') (Some ''0'')),
          jj_finishedOn =
            (if truthy_str (rfield raw ''finishedOn'') then parseInt_val (rfield raw ''finishedOn'') else VUndef),
          jj_processedOn =
            (if truthy_str (rfield raw ''processedOn'') then parseInt_val (rfield raw ''processedOn'') else VUndef),
          jj_repeatJobKey = rfield raw ''rjk'',
          jj_deduplicationId = rfield raw ''deid'',
          jj_failedReason = rfield raw ''failedReason'',
          jj_deferredFailure = rfield raw ''defa'',
          jj_stacktrace = rfield raw ''stacktrace'',
          jj_returnvalue = rfield raw ''returnvalue'',
          jj_parentKey = rfield raw ''parentKey'',
          jj_parent = parent,
          jj_processedBy = rfield raw ''pb''\<rparr>)))"

text \<open>
  The reply of moveToActive and moveToFinished: job hash (or a falsy value), job id,
  rate-limit delay and next delayed timestamp. A missing reply decodes to the empty
  array, whose four components all read as \<open>undefined\<close>.
\<close>

record next_job =
  nj_data :: "job_json option"
  nj_id :: "string option"
  nj_rateLimitDelay :: "real option"
  nj_delayUntil :: "real option"

record raw_next =
  rn_hash :: "string list option"
  rn_id :: "string option"
  rn_limit :: "real option"
  rn_delay :: "real option"

definition raw2NextJobData :: "json_lib \<Rightarrow> raw_next option \<Rightarrow> (js_error, next_job) result" where
  "raw2NextJobData J raw =
     (case raw of
        None \<Rightarrow> Inr \<lparr>nj_data = None, nj_id = None, nj_rateLimitDelay = None, nj_delayUntil = None\<rparr>
      | Some r \<Rightarrow>
          (case rn_hash r of
             None \<Rightarrow> Inr \<lparr>nj_data = None, nj_id = rn_id r, nj_rateLimitDelay = rn_limit r,
                        nj_delayUntil = rn_delay r\<rparr>
           | Some flat \<Rightarrow>
               bind_result (rawToJobJson J (array2obj flat)) (\<lambda>job.
                 Inr \<lparr>nj_data = Some job, nj_id = rn_id r, nj_rateLimitDelay = rn_limit r,
                      nj_delayUntil = rn_delay r\<rparr>)))"

section \<open>Retention settings and flow keys\<close>

fun getKeepJobs :: "jsval \<Rightarrow> jsval \<Rightarrow> jsval" where
  "getKeepJobs VUndef workerKeepJobs =
     (if truthy workerKeepJobs then workerKeepJobs else VObj [(''count'', VNum (-1))])"
| "getKeepJobs (VNum n) workerKeepJobs = VObj [(''count'', VNum n)]"
| "getKeepJobs (VBool b) workerKeepJobs = VObj [(''count'', VNum (if b then 0 else -1))]"
| "getKeepJobs (VStr s) workerKeepJobs = VObj [(''count'', VNum (if s \<noteq> [] then 0 else -1))]"
| "getKeepJobs shouldRemove workerKeepJobs = shouldRemove"

text \<open>\<open>lastIndexOf(':', from)\<close>: the largest index not above \<open>from\<close> that holds a colon.\<close>

fun colon_at_most :: "string \<Rightarrow> nat \<Rightarrow> int" where
  "colon_at_most s i =
     (if i < length s \<and> s ! i = CHR '':'' then int i
      else if i = 0 then -1
      else colon_at_most s (i - 1))"

declare colon_at_most.simps [simp del]

fun split_colon :: "string \<Rightarrow> string list" where
  "split_colon [] = [[]]"
| "split_colon (c # cs) =
     (if c = CHR '':'' then [] # split_colon cs
      else case split_colon cs of [] \<Rightarrow> [[c]] | w # ws \<Rightarrow> (c # w) # ws)"

definition nth_or_empty :: "string list \<Rightarrow> nat \<Rightarrow> string" where
  "nth_or_empty xs i = (if i < length xs then xs ! i else '''')"

definition slice :: "nat \<Rightarrow> nat \<Rightarrow> string \<Rightarrow> string" where
  "slice a b s = take (b - a) (drop a s)"

definition parseNodeKey :: "string \<Rightarrow> string \<times> string \<times> string" where
  "parseNodeKey key =
     (let lastColon = colon_at_most key (length key);
          prevColon = colon_at_most key (nat (max 0 (lastColon - 1)))
      in if lastColon = -1 \<or> prevColon = -1
         then let parts = split_colon key
              in (nth_or_empty parts 0, nth_or_empty parts 1, nth_or_empty parts 2)
         else (slice 0 (nat prevColon) key,
               slice (nat prevColon + 1) (nat lastColon) key,
               drop (nat lastColon + 1) key))"

section \<open>Option names survive the round trip\<close>

definition short_names :: "string list" where
  "short_names = map fst optsDecodeMap @ [''tm'', ''omc'']"

text \<open>The options a caller can write: no attribute uses a reserved short name, no value is
  \<open>undefined\<close>, and \<open>telemetry\<close>, when given, holds \<open>metadata\<close>, \<open>omitContext\<close> or both.\<close>

definition telemetry_wf :: "jsval \<Rightarrow> bool" where
  "telemetry_wf v \<longleftrightarrow>
     (\<exists>m. m \<noteq> VUndef \<and> v = VObj [(''metadata'', m)])
     \<or> (\<exists>c. c \<noteq> VUndef \<and> v = VObj [(''omitContext'', c)])
     \<or> (\<exists>m c. m \<noteq> VUndef \<and> c \<noteq> VUndef \<and> v = VObj [(''metadata'', m), (''omitContext'', c)])"

definition entry_wf :: "string \<times> jsval \<Rightarrow> bool" where
  "entry_wf e \<longleftrightarrow> fst e \<notin> set short_names \<and> snd e \<noteq> VUndef
     \<and> (fst e = ''telemetry'' \<longrightarrow> telemetry_wf (snd e))"

definition opts_wf :: "jsobj \<Rightarrow> bool" where
  "opts_wf opts \<longleftrightarrow> map_wf opts \<and> (\<forall>e \<in> set opts. entry_wf e)"

text \<open>The stored entries of one option.\<close>

definition stored_entry :: "string \<times> jsval \<Rightarrow> jsobj" where
  "stored_entry e = optsAsJSON_entry e []"

lemma map_get_optsEncodeMap:
  "map_get optsEncodeMap k = Some s \<Longrightarrow> map_get optsDecodeMap s = Some k \<and> k \<noteq> ''telemetry''"
  by (auto simp: optsEncodeMap_eq optsDecodeMap_def split: if_splits)

lemma map_get_optsDecodeMap_long:
  "k \<notin> set short_names \<Longrightarrow> map_get optsDecodeMap k = None \<and> k \<noteq> ''tm'' \<and> k \<noteq> ''omc''"
  by (auto simp: short_names_def map_of_eq_None_iff)

lemma decode_tm_omc: "map_get optsDecodeMap ''tm'' = None" "map_get optsDecodeMap ''omc'' = None"
  by (simp_all add: optsDecodeMap_def)

text \<open>The option a stored name belongs to.\<close>

definition origin :: "string \<Rightarrow> string" where
  "origin s = (case map_get optsDecodeMap s of
                 Some k \<Rightarrow> k
               | None \<Rightarrow> if s = ''tm'' \<or> s = ''omc'' then ''telemetry'' else s)"

lemma entry_wf_cases:
  assumes "entry_wf e"
  obtains (short) k v s where "e = (k, v)" "v \<noteq> VUndef" "map_get optsEncodeMap k = Some s"
      "map_get optsDecodeMap s = Some k"
  | (tm) m where "e = (''telemetry'', VObj [(''metadata'', m)])" "m \<noteq> VUndef"
  | (omc) c where "e = (''telemetry'', VObj [(''omitContext'', c)])" "c \<noteq> VUndef"
  | (both) m c where "e = (''telemetry'', VObj [(''metadata'', m), (''omitContext'', c)])"
      "m \<noteq> VUndef" "c \<noteq> VUndef"
  | (plain) k v where "e = (k, v)" "v \<noteq> VUndef" "map_get optsEncodeMap k = None"
      "k \<noteq> ''telemetry''" "map_get optsDecodeMap k = None" "k \<noteq> ''tm''" "k \<noteq> ''omc''"
proof -
  obtain k v where e: "e = (k, v)" by force
  with assms have v: "v \<noteq> VUndef" and k: "k \<notin> set short_names"
    and t: "k = ''telemetry'' \<longrightarrow> telemetry_wf v" by (simp_all add: entry_wf_def)
  show ?thesis
  proof (cases "map_get optsEncodeMap k")
    case (Some s)
    with map_get_optsEncodeMap [OF Some] e v show ?thesis by (intro short [of k v s]) simp_all
  next
    case None
    show ?thesis
    proof (cases "k = ''telemetry''")
      case True
      with t e show ?thesis
        unfolding telemetry_wf_def by (elim impE disjE exE conjE) (auto intro: tm omc both)
    next
      case False
      with None e v map_get_optsDecodeMap_long [OF k] show ?thesis
        by (intro plain [of k v]) simp_all
    qed
  qed
qed

lemma encode_telemetry_None: "map_get optsEncodeMap ''telemetry'' = None"
  by (simp add: optsEncodeMap_eq)

lemmas codec_simps = stored_entry_def optsAsJSON_entry_def optsFromJSON_entry_def
  encode_telemetry_None decode_tm_omc spread_telemetry_def

lemma stored_origin: "entry_wf e \<Longrightarrow> s \<in> set (map_keys (stored_entry e)) \<Longrightarrow> origin s = fst e"
  by (erule entry_wf_cases) (auto simp: codec_simps origin_def)

lemma stored_keys_disjoint:
  assumes "entry_wf e" and "entry_wf e'" and "fst e \<noteq> fst e'"
  shows "set (map_keys (stored_entry e)) \<inter> set (map_keys (stored_entry e')) = {}"
  using assms stored_origin by (metis disjoint_iff)

lemma optsAsJSON_entry_append:
  assumes "entry_wf e" and "set (map_keys (stored_entry e)) \<inter> set (map_keys acc) = {}"
  shows "optsAsJSON_entry e acc = acc @ stored_entry e"
  using assms by (elim entry_wf_cases) (simp_all add: codec_simps map_set_fresh)

lemma fold_optsAsJSON:
  assumes "\<forall>e \<in> set opts. entry_wf e" and "map_wf opts"
    and "\<forall>e \<in> set opts. set (map_keys (stored_entry e)) \<inter> set (map_keys acc) = {}"
  shows "fold optsAsJSON_entry opts acc = acc @ concat (map stored_entry opts)"
  using assms
proof (induction opts arbitrary: acc)
  case (Cons e opts)
  then have e: "optsAsJSON_entry e acc = acc @ stored_entry e"
    by (intro optsAsJSON_entry_append) auto
  have "set (map_keys (stored_entry e')) \<inter> set (map_keys (acc @ stored_entry e)) = {}"
    if "e' \<in> set opts" for e'
  proof -
    from that Cons.prems(2) have "fst e' \<noteq> fst e" by (auto simp: image_iff)
    with stored_keys_disjoint [of e' e] Cons.prems(1) that
    have "set (map_keys (stored_entry e')) \<inter> set (map_keys (stored_entry e)) = {}" by simp
    moreover from Cons.prems(3) that have "set (map_keys (stored_entry e')) \<inter> set (map_keys acc) = {}"
      by simp
    ultimately show ?thesis by (simp only: map_append set_append Int_Un_distrib Un_empty)
  qed
  with Cons.IH [of "acc @ stored_entry e"] Cons.prems e show ?case by simp
qed simp

lemma map_set_last: "k \<notin> set (map_keys acc) \<Longrightarrow> map_set k w (acc @ [(k, v)]) = acc @ [(k, w)]"
  by (induction acc) auto

lemma decode_stored_entry:
  assumes "entry_wf e" and "fst e \<notin> set (map_keys acc)"
  shows "fold optsFromJSON_entry (stored_entry e) acc = acc @ [e]"
proof -
  have fresh: "oprop acc k = VUndef" "oprop (acc @ [(k, v)]) k = v"
    if "k \<notin> set (map_keys acc)" for k v
    using that by (induction acc) auto
  from assms show ?thesis
    by (elim entry_wf_cases) (simp_all add: codec_simps map_set_fresh map_set_last fresh)
qed

lemma fold_optsFromJSON:
  assumes "\<forall>e \<in> set opts. entry_wf e" and "map_wf (acc @ opts)"
  shows "fold optsFromJSON_entry (concat (map stored_entry opts)) acc = acc @ opts"
  using assms
proof (induction opts arbitrary: acc)
  case (Cons e opts)
  then have "fold optsFromJSON_entry (stored_entry e) acc = acc @ [e]"
    by (intro decode_stored_entry) auto
  with Cons.IH [of "acc @ [e]"] Cons.prems show ?case by simp
qed simp

lemma optsFromEntries_optsAsJSON: "opts_wf opts \<Longrightarrow> optsFromEntries (optsAsJSON opts) = opts"
  by (simp add: optsFromEntries_def optsAsJSON_def opts_wf_def fold_optsAsJSON fold_optsFromJSON)

interpretation opts_codec: codec opts_wf optsAsJSON optsFromEntries
  by unfold_locales (rule optsFromEntries_optsAsJSON)

section \<open>Decimal numbers survive the round trip\<close>

lemma less_10_cases: "(n::nat) < 10 \<Longrightarrow> n \<in> {0, 1, 2, 3, 4, 5, 6, 7, 8, 9}"
  by auto

lemma digit_val_string_of_digit: "n < 10 \<Longrightarrow> digit_val (string_of_digit n) = Some n"
  by (drule less_10_cases) (auto simp: string_of_digit_def)

lemma digit_val_digit_char: "c \<in> digit_chars \<Longrightarrow> \<exists>d < 10. digit_val c = Some d"
  by (auto simp: digit_chars_def)

declare digit_val.simps [simp del]

lemma read_digits_all:
  "set xs \<subseteq> digit_chars \<Longrightarrow>
     read_digits 10 seen acc xs
       = (if seen \<or> xs \<noteq> [] then Some (foldl (\<lambda>a c. a * 10 + int (the (digit_val c))) acc xs) else None)"
proof (induction xs arbitrary: seen acc)
  case (Cons c xs)
  then obtain d where "d < 10" "digit_val c = Some d" using digit_val_digit_char [of c] by auto
  with Cons show ?case by simp
qed simp

lemma foldl_string_of_nat:
  "foldl (\<lambda>a c. a * 10 + int (the (digit_val c))) 0 (string_of_nat n) = int n"
proof (induction n rule: string_of_nat.induct)
  case (1 n)
  show ?case
  proof (cases "n < 10")
    case True
    then show ?thesis
      by (subst string_of_nat.simps) (simp add: digit_val_string_of_digit)
  next
    case False
    with 1 have "foldl (\<lambda>a c. a * 10 + int (the (digit_val c))) 0 (string_of_nat (n div 10)) = int (n div 10)"
      by simp
    moreover have "int (n div 10) * 10 + int (n mod 10) = int n" by presburger
    ultimately show ?thesis using False
      by (subst string_of_nat.simps) (simp add: digit_val_string_of_digit)
  qed
qed

lemma read_digits_string_of_nat: "read_digits 10 False 0 (string_of_nat n) = Some (int n)"
  by (simp add: read_digits_all string_of_nat_chars foldl_string_of_nat)

lemma digit_char_plain:
  "c \<in> digit_chars \<Longrightarrow> \<not> is_space c \<and> c \<noteq> CHR ''-'' \<and> c \<noteq> CHR ''+'' \<and> c \<noteq> CHR ''x'' \<and> c \<noteq> CHR ''X''"
  by (auto simp: digit_chars_def is_space_def)

lemma strip_digits:
  assumes "set s \<subseteq> digit_chars" and "s \<noteq> []"
  shows "dropWhile is_space s = s" and "strip_sign s = (1, s)"
    and "\<not> prefix ''0x'' s" and "\<not> prefix ''0X'' s"
proof -
  from assms obtain c cs where s: "s = c # cs" by (cases s) auto
  from digit_char_plain assms(1) s show "dropWhile is_space s = s" "strip_sign s = (1, s)" by auto
  show "\<not> prefix ''0x'' s" "\<not> prefix ''0X'' s"
    using assms(1) digit_char_plain unfolding s by (cases cs; auto)+
qed

lemma parseInt_string_of_nat: "parseInt (string_of_nat n) = Some (int n)"
  using string_of_nat_chars string_of_nat_nonempty
  by (simp add: parseInt_def strip_digits read_digits_string_of_nat)

lemma parseInt_string_of_int: "parseInt (string_of_int i) = Some i"
proof (cases "i < 0")
  case True
  have m: "\<not> is_space (CHR ''-'')" by (simp add: is_space_def)
  from True show ?thesis
    by (simp add: string_of_int_def parseInt_def m strip_digits string_of_nat_chars
        read_digits_string_of_nat)
next
  case False
  then show ?thesis by (simp add: string_of_int_def parseInt_string_of_nat)
qed

lemma parseInt10_string_of_nat: "parseInt10 (string_of_nat n) = Some (int n)"
  using string_of_nat_chars string_of_nat_nonempty
  by (simp add: parseInt10_def strip_digits read_digits_string_of_nat)

section \<open>Flow keys\<close>

lemma colon_at_most_found:
  assumes "j \<le> i" and "j < length s" and "s ! j = CHR '':''"
    and "\<And>k. j < k \<Longrightarrow> k \<le> i \<Longrightarrow> k < length s \<Longrightarrow> s ! k \<noteq> CHR '':''"
  shows "colon_at_most s i = int j"
  using assms
proof (induction i)
  case 0
  then show ?case by (subst colon_at_most.simps) simp
next
  case (Suc i)
  show ?case
  proof (cases "j = Suc i")
    case True
    with Suc.prems show ?thesis by (subst colon_at_most.simps) simp
  next
    case False
    with Suc.prems have "\<not> (Suc i < length s \<and> s ! Suc i = CHR '':'')" and "j \<le> i" by auto
    with Suc show ?thesis by (subst colon_at_most.simps) simp
  qed
qed

lemma nth_not_colon: "CHR '':'' \<notin> set xs \<Longrightarrow> k < length xs \<Longrightarrow> xs ! k \<noteq> CHR '':''"
  by (metis nth_mem)

section \<open>Claims\<close>

text \<open>
  C10. Job options survive storage: what optsAsJSON shortens and JSON stores, optsFromJSON gives back,
  attribute by attribute and in the same order, for every options object whose attributes
  are not themselves reserved short names.
\<close>

theorem options_roundtrip:
  assumes "opts_wf opts" and "json_ok J (VObj (optsAsJSON opts))"
  shows "\<exists>s. json_stringify J (VObj (optsAsJSON opts)) = Inr (Some s) \<and> optsFromJSON J (Some s) = Inr opts"
proof -
  from assms(2) obtain s where "json_stringify J (VObj (optsAsJSON opts)) = Inr (Some s)" "s \<noteq> []"
    "json_parse J s = Inr (VObj (optsAsJSON opts))" unfolding json_ok_def by blast
  then show ?thesis by (intro exI [of _ s]) (simp add: optsFromJSON_def opts_codec.dec_enc [OF assms(1)])
qed

definition demo_opts :: jsobj where
  "demo_opts = [(''attempts'', VNum 3), (''failParentOnFailure'', VBool True),
                (''telemetry'', VObj [(''metadata'', VStr ''m''), (''omitContext'', VBool False)])]"

definition demo_opts_lib :: json_lib where
  "demo_opts_lib = \<lparr>json_stringify = (\<lambda>_. Inr (Some ''text'')), json_parse = (\<lambda>_. Inr (VObj (optsAsJSON demo_opts))),
                    num_to_string = (\<lambda>x. string_of_int \<lfloor>x\<rfloor>), date_millis = id\<rparr>"

theorem options_roundtrip_witness:
  "optsAsJSON demo_opts = [(''attempts'', VNum 3), (''fpof'', VBool True), (''tm'', VStr ''m''), (''omc'', VBool False)]
   \<and> optsFromJSON demo_opts_lib (Some ''text'') = Inr demo_opts"
proof -
  have "telemetry_wf (VObj [(''metadata'', VStr ''m''), (''omitContext'', VBool False)])"
    unfolding telemetry_wf_def by blast
  then have "opts_wf demo_opts"
    by (simp add: opts_wf_def entry_wf_def demo_opts_def short_names_def optsDecodeMap_def)
  from options_roundtrip [OF this, of demo_opts_lib]
  have "optsFromJSON demo_opts_lib (Some ''text'') = Inr demo_opts"
    by (simp add: json_ok_def demo_opts_lib_def)
  moreover have "optsAsJSON demo_opts = [(''attempts'', VNum 3), (''fpof'', VBool True), (''tm'', VStr ''m''), (''omc'', VBool False)]"
    by (simp add: demo_opts_def optsAsJSON_def optsAsJSON_entry_def optsEncodeMap_eq)
  ultimately show ?thesis by blast
qed

text \<open>
  parseNodeKey inverts toKey for every prefix, as long as neither the queue name nor the job id
  contains a colon (the QueueBase constructor excludes colons in names; ids may carry the two colons
  of a repeatable job).
\<close>

theorem parseNodeKey_toKey:
  assumes "CHR '':'' \<notin> set name" and "CHR '':'' \<notin> set jid"
  shows "parseNodeKey (toKey pre name jid) = (pre, name, jid)"
proof -
  let ?key = "toKey pre name jid" and ?a = "length pre" and ?b = "length pre + 1 + length name"
  have key: "?key = pre @ CHR '':'' # name @ CHR '':'' # jid"
    by (simp add: toKey_def getQueueQualifiedName_def)
  have last: "colon_at_most ?key (length ?key) = int ?b"
  proof (rule colon_at_most_found)
    show "?key ! k \<noteq> CHR '':''" if "?b < k" "k < length ?key" for k
    proof -
      from that have "?key ! k = jid ! (k - ?b - 1)" and "k - ?b - 1 < length jid"
        unfolding key by (auto simp: nth_append nth_Cons')
      with assms(2) show ?thesis by (simp add: nth_not_colon)
    qed
  qed (simp_all add: key nth_append)
  have prev: "colon_at_most ?key (?b - 1) = int ?a"
  proof (rule colon_at_most_found)
    show "?key ! k \<noteq> CHR '':''" if "?a < k" "k \<le> ?b - 1" for k
    proof -
      from that have "?key ! k = name ! (k - ?a - 1)" and "k - ?a - 1 < length name"
        unfolding key by (auto simp: nth_append nth_Cons')
      with assms(1) show ?thesis by (simp add: nth_not_colon)
    qed
  qed (simp_all add: key nth_append)
  have "nat (max 0 (int ?b - 1)) = ?b - 1" and "nat (int ?b) = ?b" and "nat (int ?a) = ?a"
    by simp_all
  with last prev show ?thesis
    unfolding parseNodeKey_def Let_def last by (simp add: slice_def nat_add_distrib) (simp add: key)
qed

theorem parseNodeKey_toKey_witness:
  "parseNodeKey (toKey ''{bull:x}'' ''mails'' ''42'') = (''{bull:x}'', ''mails'', ''42'')"
  by (rule parseNodeKey_toKey) simp_all

text \<open>
  For an id with two colons, which Job.validateOptions accepts, parseNodeKey is not the inverse
  of toKey: the queue name comes back as a part of the id.
\<close>

theorem parseNodeKey_colon_id:
  "parseNodeKey (toKey ''bull'' ''mails'' ''repeat:x:1'') = (''bull:mails:repeat'', ''x'', ''1'')"
  by (simp add: parseNodeKey_def toKey_def getQueueQualifiedName_def slice_def colon_at_most.simps)

end
