(* ===== verification/Js_Strings.thy ===== *)
theory Js_Strings
  imports Redis_Codec
begin

text \<open>
  Further pieces of the language's library that the sources use: coercions between values,
  strings and numbers, the order-keeping \<open>Set\<close>, and the regular expression of
  src/utils/index.ts that recognises servers without the CLIENT command.
\<close>

section \<open>Coercions\<close>

text \<open>\<open>Number(s)\<close> on strings: white space is trimmed, the empty string is 0, a decimal
  literal may have a fraction and an exponent, and a prefix \<open>0x\<close>, \<open>0o\<close> or \<open>0b\<close> selects the
  base. Values are the exact reals; the literals of infinity are outside the model's numbers.\<close>

definition is_digit :: "char \<Rightarrow> bool" where
  "is_digit c = (c \<in> digit_chars)"

definition digits_value :: "nat \<Rightarrow> string \<Rightarrow> real" where
  "digits_value b s = foldl (\<lambda>a c. a * real b + real (case digit_val c of Some d \<Rightarrow> d | None \<Rightarrow> 0)) 0 s"

definition fraction_value :: "string \<Rightarrow> real" where
  "fraction_value s = digits_value 10 s / 10 ^ length s"

definition split_fraction :: "string \<Rightarrow> string \<times> string" where
  "split_fraction r =
     (case r of
        [] \<Rightarrow> ([], [])
      | c # cs \<Rightarrow> if c = CHR ''.'' then (takeWhile is_digit cs, dropWhile is_digit cs) else ([], c # cs))"

definition exponent_value :: "string \<Rightarrow> int option" where
  "exponent_value r =
     (case r of
        [] \<Rightarrow> Some 0
      | c # cs \<Rightarrow>
          (case strip_sign cs of (sg, ds) \<Rightarrow>
             if c \<in> {CHR ''e'', CHR ''E''} \<and> ds \<noteq> [] \<and> list_all is_digit ds
             then map_option (\<lambda>n. sg * n) (read_digits 10 False 0 ds) else None))"

definition decimal_value :: "string \<Rightarrow> real option" where
  "decimal_value s =
     (let whole = takeWhile is_digit s in
      case split_fraction (dropWhile is_digit s) of (fpart, rest) \<Rightarrow>
        if whole = [] \<and> fpart = [] then None
        else map_option (\<lambda>e. (digits_value 10 whole + fraction_value fpart) * 10 powi e)
               (exponent_value rest))"

definition radix_value :: "nat \<Rightarrow> string \<Rightarrow> real option" where
  "radix_value b s =
     (if s \<noteq> [] \<and> list_all (\<lambda>c. case digit_val c of Some d \<Rightarrow> d < b | None \<Rightarrow> False) s
      then Some (digits_value b s) else None)"

definition trim :: "string \<Rightarrow> string" where
  "trim s = rev (dropWhile is_space (rev (dropWhile is_space s)))"

definition string_to_number :: "string \<Rightarrow> real option" where
  "string_to_number str =
     (let s = trim str in
      if s = [] then Some 0
      else if prefix ''0x'' s \<or> prefix ''0X'' s then radix_value 16 (drop 2 s)
      else if prefix ''0o'' s \<or> prefix ''0O'' s then radix_value 8 (drop 2 s)
      else if prefix ''0b'' s \<or> prefix ''0B'' s then radix_value 2 (drop 2 s)
      else case strip_sign s of (sg, body) \<Rightarrow> map_option (\<lambda>x. of_int sg * x) (decimal_value body))"

text \<open>\<open>String(v)\<close>, as template literals and array joins use it.\<close>

fun join_with :: "string \<Rightarrow> string list \<Rightarrow> string" where
  "join_with sep [] = []"
| "join_with sep [s] = s"
| "join_with sep (s # t # ss) = s @ sep @ join_with sep (t # ss)"

fun js_string :: "json_lib \<Rightarrow> jsval \<Rightarrow> string" where
  "js_string J VUndef = ''undefined''"
| "js_string J VNull = ''null''"
| "js_string J (VBool b) = (if b then ''true'' else ''false'')"
| "js_string J VNaN = ''NaN''"
| "js_string J (VNum n) = num_to_string J n"
| "js_string J (VStr s) = s"
| "js_string J (VArr vs) =
     join_with '','' (map (\<lambda>v. if v = VUndef \<or> v = VNull then [] else js_string J v) vs)"
| "js_string J (VObj _) = ''[object Object]''"

text \<open>\<open>Number(v)\<close>; an array or object is first turned into a string.\<close>

definition number_of_string :: "string \<Rightarrow> jsval" where
  "number_of_string s = (case string_to_number s of Some n \<Rightarrow> VNum n | None \<Rightarrow> VNaN)"

fun to_number :: "json_lib \<Rightarrow> jsval \<Rightarrow> jsval" where
  "to_number J VUndef = VNaN"
| "to_number J VNull = VNum 0"
| "to_number J (VBool b) = VNum (if b then 1 else 0)"
| "to_number J VNaN = VNaN"
| "to_number J (VNum n) = VNum n"
| "to_number J (VStr s) = number_of_string s"
| "to_number J v = number_of_string (js_string J v)"

text \<open>\<open>v < 0\<close>.\<close>

definition js_negative :: "json_lib \<Rightarrow> jsval \<Rightarrow> bool" where
  "js_negative J v =
     (js_less (to_number J v) (VNum 0)
      \<or> (case v of VStr s \<Rightarrow> trim s = ''-Infinity'' | _ \<Rightarrow> False))"

lemma js_negative_simps [simp]:
  "js_negative J (VNum n) = (n < 0)"
  "\<not> js_negative J VUndef"
  "\<not> js_negative J VNull"
  by (simp_all add: js_negative_def)

section \<open>Sets\<close>

text \<open>\<open>[...new Set(xs)]\<close> keeps the first occurrence of every element.\<close>

definition unique_set :: "'a list \<Rightarrow> 'a list" where
  "unique_set xs = fold (\<lambda>x acc. if x \<in> set acc then acc else acc @ [x]) xs []"

lemma set_unique_set [simp]: "set (unique_set xs) = set xs"
proof -
  have "set (fold (\<lambda>x acc. if x \<in> set acc then acc else acc @ [x]) xs acc) = set acc \<union> set xs" for acc
    by (induction xs arbitrary: acc) auto
  then show ?thesis by (simp add: unique_set_def)
qed

lemma distinct_unique_set [simp]: "distinct (unique_set xs)"
proof -
  have "distinct acc \<Longrightarrow> distinct (fold (\<lambda>x acc. if x \<in> set acc then acc else acc @ [x]) xs acc)" for acc
    by (induction xs arbitrary: acc) auto
  then show ?thesis by (simp add: unique_set_def)
qed

section \<open>Unknown commands\<close>

text \<open>The regular expression for an unknown CLIENT command.\<close>

definition is_quote :: "char \<Rightarrow> bool" where
  "is_quote c = (c \<in> {CHR 0x27, CHR 0x60})"

definition matches_client_word :: "string \<Rightarrow> bool" where
  "matches_client_word s =
     (case s of
        [] \<Rightarrow> False
      | q # cs \<Rightarrow>
          is_quote q
          \<and> (let body = dropWhile is_space cs in
             prefix ''client'' body
             \<and> (case dropWhile is_space (drop 6 body) of [] \<Rightarrow> False | c # _ \<Rightarrow> is_quote c)))"

definition clientCommandMessageReg :: "string \<Rightarrow> bool" where
  "clientCommandMessageReg msg =
     list_ex (\<lambda>t. prefix ''ERR unknown command '' t \<and> matches_client_word (drop 20 t)) (suffixes msg)"

end
