(* ===== verification/Job.thy ===== *)
theory Job
  imports Redis_Codec Backoffs
begin

text \<open>
  The Job value of src/classes/job.ts: its constructor, its stored form (asJSON, fromJSON),
  the validation of its options and the bookkeeping of stack traces. The operations that
  call the backend are in the theory \<open>Job_Lifecycle\<close>.

  Numbers that come from user options or from a stored hash keep their JavaScript form
  (\<open>VUndef\<close> when absent, \<open>VNaN\<close> when a stored field is not a number); \<open>null\<close> in
  \<open>failedReason\<close>, \<open>finishedOn\<close> and \<open>processedOn\<close> reads like a missing value.
  \<open>Date.now()\<close> is the argument \<open>now\<close>. Strings are sequences of code points below 256.
\<close>

section \<open>The job\<close>

record job =
  j_name :: "string option"
  j_data :: jsval
  j_opts :: jsobj
  j_id :: "string option"
  j_progress :: jsval
  j_returnvalue :: jsval
  j_stacktrace :: "jsval list option"
  j_delay :: jsval
  j_priority :: jsval
  j_timestamp :: jsval
  j_attemptsStarted :: jsval
  j_attemptsMade :: jsval
  j_stalledCounter :: jsval
  j_failedReason :: "string option"
  j_deferredFailure :: "string option"
  j_finishedOn :: jsval
  j_processedOn :: jsval
  j_parentKey :: "string option"
  j_parent :: jsval
  j_deduplicationId :: "string option"
  j_repeatJobKey :: "string option"
  j_token :: "string option"
  j_processedBy :: "string option"

text \<open>What a job reads of its queue.\<close>

record job_queue =
  jq_name :: string
  jq_qualifiedName :: string
  jq_backoffStrategy :: "job backoff_strategy option"
  jq_meter :: bool

definition PRIORITY_LIMIT :: real where
  "PRIORITY_LIMIT = 2 ^ 21 - 1"

text \<open>\<open>Backoffs.normalize\<close> on the untyped option, and the option as \<open>Backoffs.calculate\<close>
  reads it.\<close>

definition normalize_val :: "jsval \<Rightarrow> jsval" where
  "normalize_val backoff =
     (case backoff of
        VNum n \<Rightarrow> VObj [(''type'', VStr ''fixed''), (''delay'', VNum n)]
      | _ \<Rightarrow> if truthy backoff then backoff else VUndef)"

definition backoff_of_val :: "jsval \<Rightarrow> backoff_options option" where
  "backoff_of_val v =
     (if truthy v
      then Some \<lparr>bo_type = with_default ''undefined'' (str_of (vprop v ''type'')),
                 bo_delay = num_of (vprop v ''delay''),
                 bo_jitter = num_of (vprop v ''jitter'')\<rparr>
      else None)"

definition parent_of_val :: "jsval \<Rightarrow> parent_options option" where
  "parent_of_val v =
     (if truthy v
      then Some \<lparr>po_id = render_opt (str_of (vprop v ''id'')),
                 po_queue = render_opt (str_of (vprop v ''queue''))\<rparr>
      else None)"

text \<open>The constructor, statement by statement. \<open>opts\<close> is the argument, \<open>opts1\<close> the
  object stored on the job.\<close>

definition flag_parent :: "jsobj \<Rightarrow> string \<Rightarrow> string \<Rightarrow> jsobj \<Rightarrow> jsobj" where
  "flag_parent opts long short parent =
     (if truthy (oprop opts long) then map_set short (VBool True) parent else parent)"

definition parent_keys :: "jsobj \<Rightarrow> jsval" where
  "parent_keys opts =
     (if truthy (oprop opts ''parent'')
      then VObj
        (flag_parent opts ''continueParentOnFailure'' ''cpof''
          (flag_parent opts ''ignoreDependencyOnFailure'' ''idof''
            (flag_parent opts ''removeDependencyOnFailure'' ''rdof''
              (flag_parent opts ''failParentOnFailure'' ''fpof''
                [(''id'', vprop (oprop opts ''parent'') ''id''),
                 (''queueKey'', vprop (oprop opts ''parent'') ''queue'')]))))
      else VUndef)"

definition new_Job ::
  "real \<Rightarrow> string option \<Rightarrow> jsval \<Rightarrow> jsobj \<Rightarrow> string option \<Rightarrow> job" where
  "new_Job now name data opts jid =
     (let restOpts = map_del ''repeatJobKey'' opts;
          opts1 = map_set ''backoff'' (normalize_val (oprop opts ''backoff''))
                    (object_assign [(''attempts'', VNum 0)] restOpts)
      in \<lparr>j_name = name, j_data = data, j_opts = opts1, j_id = jid,
          j_progress = VNum 0, j_returnvalue = VNull, j_stacktrace = None,
          j_delay = oprop opts1 ''delay'',
          j_priority = logical_or (oprop opts1 ''priority'') (VNum 0),
          j_timestamp = (if truthy (oprop opts ''timestamp'') then oprop opts ''timestamp'' else VNum now),
          j_attemptsStarted = VNum 0, j_attemptsMade = VNum 0, j_stalledCounter = VNum 0,
          j_failedReason = None, j_deferredFailure = None,
          j_finishedOn = VUndef, j_processedOn = VUndef,
          j_parentKey = getParentKey (parent_of_val (oprop opts ''parent'')),
          j_parent = parent_keys opts,
          j_deduplicationId = str_of (vprop (oprop opts1 ''deduplication'') ''id''),
          j_repeatJobKey = str_of (oprop opts ''repeatJobKey''),
          j_token = None, j_processedBy = None\<rparr>)"

section \<open>Stored form\<close>

definition getTraces :: "json_lib \<Rightarrow> string option \<Rightarrow> jsval list" where
  "getTraces J stacktrace =
     (if \<not> truthy_str stacktrace then []
      else case json_parse J (the stacktrace) of
             Inr (VArr traces) \<Rightarrow> traces
           | _ \<Rightarrow> [])"

definition getReturnValue :: "json_lib \<Rightarrow> string \<Rightarrow> jsval" where
  "getReturnValue J s = (case json_parse J s of Inr v \<Rightarrow> v | Inl _ \<Rightarrow> VUndef)"

definition fromJSON ::
  "json_lib \<Rightarrow> real \<Rightarrow> job_json \<Rightarrow> string option \<Rightarrow> (js_error, job) result" where
  "fromJSON J now json jobId =
     bind_result (json_parse J (if jj_data json \<noteq> '''' then jj_data json else ''{}'')) (\<lambda>data.
       let job = new_Job now (jj_name json) data (jj_opts json) (or_else (jj_id json) jobId)
       in Inr (job
         \<lparr>j_progress := nullish_or (jj_progress json) (VNum 0),
          j_delay := jj_delay json,
          j_priority := jj_priority json,
          j_timestamp := jj_timestamp json,
          j_finishedOn := (if truthy (jj_finishedOn json) then jj_finishedOn json else j_finishedOn job),
          j_processedOn := (if truthy (jj_processedOn json) then jj_processedOn json else j_processedOn job),
          j_repeatJobKey := or_else (jj_repeatJobKey json) (j_repeatJobKey job),
          j_deduplicationId := or_else (jj_deduplicationId json) (j_deduplicationId job),
          j_failedReason := or_else (jj_failedReason json) (j_failedReason job),
          j_attemptsStarted := nullish_or (jj_attemptsStarted json) (VNum 0),
          j_attemptsMade := nullish_or (jj_attemptsMade json) (VNum 0),
          j_stalledCounter := nullish_or (jj_stalledCounter json) (VNum 0),
          j_deferredFailure := or_else (jj_deferredFailure json) (j_deferredFailure job),
          j_stacktrace := Some (getTraces J (jj_stacktrace json)),
          j_returnvalue := (case jj_returnvalue json of
                              Some s \<Rightarrow> getReturnValue J s | None \<Rightarrow> j_returnvalue job),
          j_parentKey := or_else (jj_parentKey json) None,
          j_parent := (if truthy (jj_parent json) then jj_parent json else VUndef),
          j_processedBy := or_else (jj_processedBy json) (j_processedBy job)\<rparr>))"

definition opt_str_val :: "string option \<Rightarrow> jsval" where
  "opt_str_val s = (case s of None \<Rightarrow> VUndef | Some t \<Rightarrow> VStr t)"

definition stacktrace_val :: "jsval list option \<Rightarrow> jsval" where
  "stacktrace_val st = (case st of None \<Rightarrow> VNull | Some xs \<Rightarrow> VArr xs)"

definition asJSON :: "json_lib \<Rightarrow> job \<Rightarrow> (js_error, job_json) result" where
  "asJSON J job =
     bind_result (json_stringify J (if j_data job = VUndef then VObj [] else j_data job)) (\<lambda>data.
     bind_result (json_stringify J (opt_str_val (j_failedReason job))) (\<lambda>failedReason.
     bind_result (json_stringify J (stacktrace_val (j_stacktrace job))) (\<lambda>stacktrace.
     bind_result (json_stringify J (j_returnvalue job)) (\<lambda>returnvalue.
       Inr \<lparr>jj_id = j_id job, jj_name = j_name job, jj_data = with_default '''' data,
            jj_opts = j_opts job, jj_progress = j_progress job,
            jj_delay = VUndef, jj_priority = VUndef, jj_timestamp = j_timestamp job,
            jj_attemptsStarted = j_attemptsStarted job, jj_attemptsMade = j_attemptsMade job,
            jj_stalledCounter = j_stalledCounter job,
            jj_finishedOn = j_finishedOn job, jj_processedOn = j_processedOn job,
            jj_repeatJobKey = j_repeatJobKey job, jj_deduplicationId = j_deduplicationId job,
            jj_failedReason = failedReason, jj_deferredFailure = None,
            jj_stacktrace = stacktrace, jj_returnvalue = returnvalue,
            jj_parentKey = j_parentKey job,
            jj_parent = (if truthy (j_parent job) then j_parent job else VUndef),
            jj_processedBy = None\<rparr>))))"

section \<open>Validation of the options\<close>

definition utf8_width :: "char \<Rightarrow> nat" where
  "utf8_width c = (if (of_char c :: nat) < 128 then 1 else 2)"

definition lengthInUtf8Bytes :: "string \<Rightarrow> nat" where
  "lengthInUtf8Bytes s = sum_list (map utf8_width s)"

definition exclusiveOptions :: "string list" where
  "exclusiveOptions =
     [''removeDependencyOnFailure'', ''failParentOnFailure'', ''continueParentOnFailure'',
      ''ignoreDependencyOnFailure'']"

fun join_comma :: "string list \<Rightarrow> string" where
  "join_comma [] = ''''"
| "join_comma [x] = x"
| "join_comma (x # y # xs) = x @ '', '' @ join_comma (y # xs)"

text \<open>\<open>`${parseInt(id, 10)}` === id\<close>\<close>

definition reads_as_integer :: "json_lib \<Rightarrow> string \<Rightarrow> bool" where
  "reads_as_integer J s =
     ((case parseInt10 s of None \<Rightarrow> ''NaN'' | Some i \<Rightarrow> num_to_string J (of_int i)) = s)"

definition guard_err :: "bool \<Rightarrow> string option \<Rightarrow> string \<Rightarrow> (js_error, unit) result" where
  "guard_err bad stk msg = (if bad then Inl (new_err ErrorClass stk msg) else Inr ())"

definition check_size :: "json_lib \<Rightarrow> string option \<Rightarrow> job \<Rightarrow> job_json \<Rightarrow> (js_error, unit) result" where
  "check_size J stk job jobData =
     (let sizeLimit = oprop (j_opts job) ''sizeLimit'' in
      guard_err (truthy sizeLimit \<and> js_less sizeLimit (VNum (real (lengthInUtf8Bytes (jj_data jobData))))) stk
        (''The size of job '' @ render_opt (j_name job) @ '' exceeds the limit ''
           @ (case sizeLimit of VNum n \<Rightarrow> num_to_string J n | _ \<Rightarrow> ''undefined'') @ '' bytes''))"

definition check_exclusive :: "string option \<Rightarrow> job \<Rightarrow> (js_error, unit) result" where
  "check_exclusive stk job =
     (let enabled = filter (\<lambda>opt. truthy (oprop (j_opts job) opt)) exclusiveOptions in
      guard_err (length enabled > 1) stk
        (''The following options cannot be used together: '' @ join_comma enabled))"

definition check_jobId :: "json_lib \<Rightarrow> string option \<Rightarrow> job \<Rightarrow> (js_error, unit) result" where
  "check_jobId J stk job =
     (case oprop (j_opts job) ''jobId'' of
        VStr jobId \<Rightarrow>
          (if jobId = '''' then Inr ()
           else bind_result (guard_err (reads_as_integer J jobId) stk ''Custom Id cannot be integers'')
             (\<lambda>_. guard_err (CHR '':'' \<in> set jobId \<and> length (split_colon jobId) \<noteq> 3) stk
                ''Custom Id cannot contain :''))
      | v \<Rightarrow> if truthy v then Inl (new_err TypeErrorClass stk ''this.opts.jobId.includes is not a function'')
             else Inr ())"

definition check_priority :: "json_lib \<Rightarrow> string option \<Rightarrow> job \<Rightarrow> (js_error, unit) result" where
  "check_priority J stk job =
     (case oprop (j_opts job) ''priority'' of
        VNum p \<Rightarrow>
          bind_result (guard_err (of_int (math_trunc p) \<noteq> p) stk ''Priority should not be float'')
            (\<lambda>_. guard_err (p > PRIORITY_LIMIT) stk
               (''Priority should be between 0 and '' @ num_to_string J PRIORITY_LIMIT))
      | v \<Rightarrow> guard_err (truthy v) stk ''Priority should not be float'')"

definition check_deduplication :: "string option \<Rightarrow> job \<Rightarrow> (js_error, unit) result" where
  "check_deduplication stk job =
     (let deduplication = oprop (j_opts job) ''deduplication'' in
      if truthy deduplication
      then bind_result
             (guard_err (\<not> truthy (vprop deduplication ''id'')) stk ''Deduplication id must be provided'')
             (\<lambda>_. guard_err (truthy_str (j_parentKey job)) stk
                ''Deduplication and parent options cannot be used together'')
      else Inr ())"

definition check_debounce :: "string option \<Rightarrow> job \<Rightarrow> (js_error, unit) result" where
  "check_debounce stk job =
     guard_err (''debounce'' \<in> set (map_keys (j_opts job))) stk
       ''Debounce option has been removed. Use deduplication option instead''"

definition check_jitter :: "string option \<Rightarrow> job \<Rightarrow> (js_error, unit) result" where
  "check_jitter stk job =
     (case vprop (oprop (j_opts job) ''backoff'') ''jitter'' of
        VNum j \<Rightarrow> guard_err (j < 0 \<or> j > 1) stk ''Jitter should be between 0 and 1''
      | _ \<Rightarrow> Inr ())"

definition validateOptions ::
  "json_lib \<Rightarrow> string option \<Rightarrow> job \<Rightarrow> job_json \<Rightarrow> (js_error, unit) result" where
  "validateOptions J stk job jobData =
     bind_result (check_size J stk job jobData) (\<lambda>_.
     bind_result (check_exclusive stk job) (\<lambda>_.
     bind_result (check_jobId J stk job) (\<lambda>_.
     bind_result (check_priority J stk job) (\<lambda>_.
     bind_result (check_deduplication stk job) (\<lambda>_.
     bind_result (check_debounce stk job) (\<lambda>_.
       check_jitter stk job))))))"

section \<open>Other pure methods\<close>

text \<open>\<open>updateStacktrace\<close>: the limit counts recorded traces.\<close>

definition updateStacktrace :: "js_error \<Rightarrow> job \<Rightarrow> job" where
  "updateStacktrace err job =
     (let st = with_default [] (j_stacktrace job);
          limit = oprop (j_opts job) ''stackTraceLimit''
      in if truthy_str (err_stack err)
         then let st1 = st @ [VStr (the (err_stack err))]
              in job\<lparr>j_stacktrace := Some
                   (case limit of
                      VNum l \<Rightarrow> if l = 0 then [] else slice_from (math_trunc (- l)) st1
                    | _ \<Rightarrow> st1)\<rparr>
         else job\<lparr>j_stacktrace := Some st\<rparr>)"

definition job_prefix :: "job_queue \<Rightarrow> string" where
  "job_prefix Q =
     (let qualified = jq_qualifiedName Q; name = jq_name Q
      in if length qualified > length name + 1
         then take (length qualified - length name - 1) qualified else '''')"

record job_json_sandbox = job_json +
  js_queueName :: string
  js_queueQualifiedName :: string
  js_prefix :: string

definition asJSONSandbox :: "json_lib \<Rightarrow> job_queue \<Rightarrow> job \<Rightarrow> (js_error, job_json_sandbox) result" where
  "asJSONSandbox J Q job =
     bind_result (asJSON J job) (\<lambda>json.
       Inr (job_json.extend json
         \<lparr>js_queueName = jq_name Q, js_queueQualifiedName = jq_qualifiedName Q,
          js_prefix = job_prefix Q\<rparr>))"

record parent_key_opts =
  pk_addToWaitingChildren :: bool
  pk_parentDependenciesKey :: "string option"
  pk_parentKey :: "string option"

record flow_entry =
  fe_jobData :: job_json
  fe_jobId :: "string option"
  fe_parentKeyOpts :: parent_key_opts
  fe_prefix :: string
  fe_queueName :: string

definition toFlowEntry ::
  "json_lib \<Rightarrow> string option \<Rightarrow> job_queue \<Rightarrow> parent_key_opts \<Rightarrow> job \<Rightarrow> (js_error, flow_entry) result" where
  "toFlowEntry J stk Q parentOpts job =
     bind_result (asJSON J job) (\<lambda>jobData.
     bind_result (validateOptions J stk job jobData) (\<lambda>_.
       Inr \<lparr>fe_jobData = jobData, fe_jobId = j_id job, fe_parentKeyOpts = parentOpts,
            fe_prefix = job_prefix Q, fe_queueName = jq_name Q\<rparr>))"

text \<open>\<open>shouldRetryJob\<close>; \<open>r\<close> is the draw of \<open>Math.random\<close>. The result pairs the decision
  with the delay, \<open>None\<close> being a missing delay.\<close>

definition int_of_val :: "jsval \<Rightarrow> int" where
  "int_of_val v = (case v of VNum n \<Rightarrow> \<lfloor>n\<rfloor> | _ \<Rightarrow> 0)"

definition shouldRetryJob ::
  "real \<Rightarrow> string option \<Rightarrow> job_queue \<Rightarrow> js_error \<Rightarrow> job \<Rightarrow> (js_error, bool \<times> real option) result" where
  "shouldRetryJob r stk Q err job =
     (if js_less (js_plus (j_attemptsMade job) 1) (oprop (j_opts job) ''attempts'')
         \<and> \<not> (err_class err = UnrecoverableError \<or> err_name err = ''UnrecoverableError'')
      then bind_result
             (calculate r stk (backoff_of_val (oprop (j_opts job) ''backoff''))
                (int_of_val (j_attemptsMade job) + 1) err job (jq_backoffStrategy Q))
             (\<lambda>delay. Inr (if delay = Some (-1) then (False, Some 0) else (True, delay)))
      else Inr (False, Some 0))"

definition getSpanOperation :: "bool \<Rightarrow> real option \<Rightarrow> string" where
  "getSpanOperation shouldRetry retryDelay =
     (if shouldRetry then if truthy_num retryDelay then ''delay'' else ''retry'' else ''fail'')"

section \<open>Lemmas\<close>

lemma guard_err_Inr [simp]: "guard_err bad stk msg = Inr () \<longleftrightarrow> \<not> bad"
  by (simp add: guard_err_def)

lemma new_Job_opts:
  assumes "map_wf opts" and "k \<noteq> ''backoff''" and "k \<noteq> ''repeatJobKey''"
  shows "oprop (j_opts (new_Job now name data opts jid)) k
       = (if k \<in> set (map_keys opts) then oprop opts k else if k = ''attempts'' then VNum 0 else VUndef)"
proof -
  have "map_wf (map_del ''repeatJobKey'' opts)" using assms(1) by simp
  from oprop_object_assign [OF this, of "[(''attempts'', VNum 0)]" k] assms(2,3) show ?thesis
    by (simp add: new_Job_def Let_def map_keys_del)
qed

lemma new_Job_backoff:
  "oprop (j_opts (new_Job now name data opts jid)) ''backoff'' = normalize_val (oprop opts ''backoff'')"
  by (simp add: new_Job_def Let_def)

lemma new_Job_fields [simp]:
  "j_id (new_Job now name data opts jid) = jid"
  "j_name (new_Job now name data opts jid) = name"
  "j_data (new_Job now name data opts jid) = data"
  "j_attemptsMade (new_Job now name data opts jid) = VNum 0"
  "j_attemptsStarted (new_Job now name data opts jid) = VNum 0"
  "j_stalledCounter (new_Job now name data opts jid) = VNum 0"
  "j_processedOn (new_Job now name data opts jid) = VUndef"
  "j_finishedOn (new_Job now name data opts jid) = VUndef"
  "j_failedReason (new_Job now name data opts jid) = None"
  "j_stacktrace (new_Job now name data opts jid) = None"
  "j_deferredFailure (new_Job now name data opts jid) = None"
  "j_returnvalue (new_Job now name data opts jid) = VNull"
  "j_progress (new_Job now name data opts jid) = VNum 0"
  by (simp_all add: new_Job_def Let_def)

text \<open>What \<open>validateOptions\<close> lets pass.\<close>

definition size_ok :: "job \<Rightarrow> job_json \<Rightarrow> bool" where
  "size_ok job jobData =
     (case oprop (j_opts job) ''sizeLimit'' of
        VNum l \<Rightarrow> l = 0 \<or> real (lengthInUtf8Bytes (jj_data jobData)) \<le> l
      | _ \<Rightarrow> True)"

definition jobId_ok :: "json_lib \<Rightarrow> job \<Rightarrow> bool" where
  "jobId_ok J job =
     (case oprop (j_opts job) ''jobId'' of
        VStr s \<Rightarrow> s = '''' \<or> \<not> reads_as_integer J s \<and> (CHR '':'' \<in> set s \<longrightarrow> length (split_colon s) = 3)
      | v \<Rightarrow> \<not> truthy v)"

definition priority_ok :: "job \<Rightarrow> bool" where
  "priority_ok job =
     (case oprop (j_opts job) ''priority'' of
        VNum p \<Rightarrow> (\<exists>i. p = of_int i \<and> i \<le> 2097151)
      | v \<Rightarrow> \<not> truthy v)"

definition deduplication_ok :: "job \<Rightarrow> bool" where
  "deduplication_ok job =
     (truthy (oprop (j_opts job) ''deduplication'') \<longrightarrow>
        truthy (vprop (oprop (j_opts job) ''deduplication'') ''id'') \<and> \<not> truthy_str (j_parentKey job))"

definition jitter_ok :: "job \<Rightarrow> bool" where
  "jitter_ok job =
     (case vprop (oprop (j_opts job) ''backoff'') ''jitter'' of
        VNum j \<Rightarrow> 0 \<le> j \<and> j \<le> 1 | _ \<Rightarrow> True)"

lemma math_trunc_fixed: "of_int (math_trunc p) = p \<longleftrightarrow> (\<exists>i. p = of_int i)"
  by (auto simp: math_trunc_def)

lemma check_size_iff: "check_size J stk job jobData = Inr () \<longleftrightarrow> size_ok job jobData"
  by (auto simp: check_size_def size_ok_def Let_def linorder_not_less split: jsval.splits)

lemma check_exclusive_iff:
  "check_exclusive stk job = Inr ()
     \<longleftrightarrow> length (filter (\<lambda>opt. truthy (oprop (j_opts job) opt)) exclusiveOptions) \<le> 1"
  by (simp add: check_exclusive_def Let_def linorder_not_less)

lemma check_jobId_iff: "check_jobId J stk job = Inr () \<longleftrightarrow> jobId_ok J job"
  by (auto simp: check_jobId_def jobId_ok_def split: jsval.splits)

lemma check_priority_iff: "check_priority J stk job = Inr () \<longleftrightarrow> priority_ok job"
proof (cases "oprop (j_opts job) ''priority''")
  case (VNum p)
  have "p \<le> PRIORITY_LIMIT \<longleftrightarrow> i \<le> 2097151" if "p = of_int i" for i
    using that by (simp add: PRIORITY_LIMIT_def)
  with VNum show ?thesis
    by (auto simp: check_priority_def priority_ok_def math_trunc_fixed linorder_not_less)
qed (simp_all add: check_priority_def priority_ok_def)

lemma check_deduplication_iff: "check_deduplication stk job = Inr () \<longleftrightarrow> deduplication_ok job"
  by (auto simp: check_deduplication_def deduplication_ok_def Let_def)

lemma check_jitter_iff: "check_jitter stk job = Inr () \<longleftrightarrow> jitter_ok job"
  by (simp add: check_jitter_def jitter_ok_def linorder_not_less split: jsval.splits)

lemmas check_iffs = check_size_iff check_exclusive_iff check_jobId_iff check_priority_iff
  check_deduplication_iff check_jitter_iff

lemma validateOptions_iff:
  "validateOptions J stk job jobData = Inr () \<longleftrightarrow>
     size_ok job jobData
     \<and> length (filter (\<lambda>opt. truthy (oprop (j_opts job) opt)) exclusiveOptions) \<le> 1
     \<and> jobId_ok J job \<and> priority_ok job \<and> deduplication_ok job
     \<and> ''debounce'' \<notin> set (map_keys (j_opts job)) \<and> jitter_ok job"
  by (simp add: validateOptions_def check_iffs check_debounce_def)

lemma reads_as_integer_nat:
  "num_ok J \<Longrightarrow> n < 2 ^ 53 \<Longrightarrow> reads_as_integer J (string_of_nat n)"
  unfolding reads_as_integer_def parseInt10_string_of_nat num_ok_def
  by (drule spec [of _ "int n"]) (simp add: string_of_int_def)

lemma updateStacktrace_frame:
  "updateStacktrace err job = job\<lparr>j_stacktrace := j_stacktrace (updateStacktrace err job)\<rparr>"
  by (simp add: updateStacktrace_def Let_def split: jsval.split)

lemma updateStacktrace_fields [simp]:
  "j_id (updateStacktrace err job) = j_id job"
  "j_opts (updateStacktrace err job) = j_opts job"
  "j_attemptsMade (updateStacktrace err job) = j_attemptsMade job"
  "j_failedReason (updateStacktrace err job) = j_failedReason job"
  "j_delay (updateStacktrace err job) = j_delay job"
  "j_finishedOn (updateStacktrace err job) = j_finishedOn job"
  "j_processedOn (updateStacktrace err job) = j_processedOn job"
  "j_name (updateStacktrace err job) = j_name job"
  by (subst updateStacktrace_frame, simp)+

text \<open>Whether a failure is retried.\<close>

definition retriable :: "js_error \<Rightarrow> job \<Rightarrow> bool" where
  "retriable err job \<longleftrightarrow>
     js_less (js_plus (j_attemptsMade job) 1) (oprop (j_opts job) ''attempts'')
     \<and> err_class err \<noteq> UnrecoverableError \<and> err_name err \<noteq> ''UnrecoverableError''"

lemma shouldRetryJob_not_retriable:
  "\<not> retriable err job \<Longrightarrow> shouldRetryJob r stk Q err job = Inr (False, Some 0)"
  by (auto simp: shouldRetryJob_def retriable_def)

lemma shouldRetryJob_retriable:
  "retriable err job \<Longrightarrow> shouldRetryJob r stk Q err job =
     bind_result
       (calculate r stk (backoff_of_val (oprop (j_opts job) ''backoff''))
          (int_of_val (j_attemptsMade job) + 1) err job (jq_backoffStrategy Q))
       (\<lambda>delay. Inr (if delay = Some (-1) then (False, Some 0) else (True, delay)))"
  by (auto simp: shouldRetryJob_def retriable_def)

section \<open>Claims\<close>


text \<open>
  A custom job id never equals a generated one: ids handed out by the queue's counter are
  decimal numerals, and a job whose options pass validation cannot carry such a numeral
  (below 2^53) as its \<open>jobId\<close>.
\<close>

theorem custom_id_not_generated:
  assumes "num_ok J" and "validateOptions J stk job jobData = Inr ()"
    and "oprop (j_opts job) ''jobId'' = VStr s" and "n < 2 ^ 53"
  shows "s \<noteq> string_of_nat n"
proof
  assume s: "s = string_of_nat n"
  from assms(2) have "jobId_ok J job" by (simp only: validateOptions_iff)
  with assms(3) s have "\<not> reads_as_integer J (string_of_nat n)" by (simp add: jobId_ok_def)
  with reads_as_integer_nat assms(1,4) show False by blast
qed

definition demo_lib :: json_lib where
  "demo_lib = \<lparr>json_stringify = (\<lambda>_. Inr (Some ''{}'')), json_parse = (\<lambda>_. Inr (VObj [])),
               num_to_string = (\<lambda>x. string_of_int \<lfloor>x\<rfloor>), date_millis = id\<rparr>"

lemma num_ok_demo_lib: "num_ok demo_lib"
  by (simp add: num_ok_def demo_lib_def)

lemma parseInt10_invoice: "parseInt10 ''invoice-7'' = None"
  by code_simp

theorem custom_id_not_generated_witness:
  "\<exists>job json. asJSON demo_lib job = Inr json \<and> validateOptions demo_lib None job json = Inr ()
     \<and> oprop (j_opts job) ''jobId'' = VStr ''invoice-7'' \<and> ''invoice-7'' \<noteq> string_of_nat 7"
proof -
  let ?job = "new_Job 0 (Some ''a'') VNull [(''jobId'', VStr ''invoice-7'')] None"
  obtain json where json: "asJSON demo_lib ?job = Inr json" by (simp add: asJSON_def demo_lib_def)
  have id: "oprop (j_opts ?job) ''jobId'' = VStr ''invoice-7''"
    by (simp add: new_Job_opts)
  have v: "validateOptions demo_lib None ?job json = Inr ()"
    by (simp add: validateOptions_iff size_ok_def exclusiveOptions_def jobId_ok_def priority_ok_def
        deduplication_ok_def jitter_ok_def new_Job_opts new_Job_backoff normalize_val_def
        reads_as_integer_def parseInt10_invoice)
       (simp add: new_Job_def object_assign_def)
  have "''invoice-7'' \<noteq> string_of_nat 7"
    by (rule custom_id_not_generated [OF num_ok_demo_lib v id]) simp
  with json v id show ?thesis by (intro exI conjI)
qed

text \<open>
  The bookkeeping of stack traces: an error with a stack adds it at the end; with a positive
  whole \<open>stackTraceLimit\<close> the job keeps the last that many traces, with the limit 0 none,
  and without a limit all of them. The limit counts traces, not lines of a trace.
\<close>

theorem updateStacktrace_keeps_last:
  assumes "err_stack err = Some s" and "s \<noteq> []"
    and "all = with_default [] (j_stacktrace job) @ [VStr s]"
    and "limit = oprop (j_opts job) ''stackTraceLimit''"
  shows "(limit = VUndef \<longrightarrow> j_stacktrace (updateStacktrace err job) = Some all)
       \<and> (limit = VNum (real l) \<longrightarrow> j_stacktrace (updateStacktrace err job) = Some (rev (take l (rev all))))"
  using assms slice_from_last [of l all]
  by (cases "l = 0") (auto simp: updateStacktrace_def Let_def math_trunc_neg_nat)

theorem updateStacktrace_keeps_last_witness:
  "let job = new_Job 0 None VNull [(''stackTraceLimit'', VNum (real 1))] None\<lparr>j_stacktrace := Some [VStr ''old'']\<rparr>
   in j_stacktrace (updateStacktrace (new_err ErrorClass (Some ''at f'') ''boom'') job) = Some [VStr ''at f'']"
  using updateStacktrace_keeps_last [of "new_err ErrorClass (Some ''at f'') ''boom''" "''at f''" _
      "new_Job 0 None VNull [(''stackTraceLimit'', VNum (real 1))] None\<lparr>j_stacktrace := Some [VStr ''old'']\<rparr>"
      "VNum (real 1)" 1]
  by (simp add: new_err_def with_default_def new_Job_opts)

end
