(* ===== verification/Queue_Backend.thy ===== *)
theory Queue_Backend
  imports Job
begin

text \<open>
  The contract between the queue classes and a datastore: IQueueBackend of
  src/interfaces/queue-backend.ts, as a record of the operations that Job, Worker, Queue
  and FlowProducer call. Each operation runs on the state \<open>'s\<close> of the datastore and
  resolves with a value or rejects with an error; an operation that rejects may still have
  changed the state. Everything proved about the callers holds for every such record.
\<close>

type_synonym ('s, 'a) backend_op = "'s \<Rightarrow> (js_error, 'a) result \<times> 's"

text \<open>An operation with a loop that need not end: \<open>None\<close> is a loop that goes on for ever (or,
  where a model bounds its recursion, has used up its bound).\<close>

type_synonym ('s, 'a) loop_op = "'s \<Rightarrow> ((js_error, 'a) result \<times> 's) option"

record move_to_delayed_opts =
  md_skipAttempt :: bool
  md_fieldsToUpdate :: jsobj
  md_fetchNext :: bool

record retry_options =
  ro_resetAttemptsMade :: bool
  ro_resetAttemptsStarted :: bool

record add_entry =
  ae_job :: job_json
  ae_jobId :: "string option"
  ae_parentKeyOpts :: parent_key_opts

record 's queue_backend =
  be_waitUntilReady :: "('s, unit) backend_op"
  be_addJob :: "job_json \<Rightarrow> string option \<Rightarrow> parent_key_opts \<Rightarrow> ('s, string option) backend_op"
  be_addJobs :: "add_entry list \<Rightarrow> ('s, string option list) backend_op"
  be_addFlow :: "flow_entry list \<Rightarrow> ('s, (js_error option \<times> jsval) list) backend_op"
  be_addJobScheduler ::
    "string \<Rightarrow> jsval \<Rightarrow> string option \<Rightarrow> jsobj \<Rightarrow> jsobj \<Rightarrow> jsobj \<Rightarrow> string option
       \<Rightarrow> ('s, string \<times> jsval) backend_op"
  be_moveToActive :: "string \<Rightarrow> string option \<Rightarrow> ('s, next_job) backend_op"
  be_moveToCompleted ::
    "job \<Rightarrow> jsval \<Rightarrow> jsval \<Rightarrow> string \<Rightarrow> bool \<Rightarrow> ('s, next_job option \<times> jsval) backend_op"
  be_moveToFailed ::
    "job \<Rightarrow> string option \<Rightarrow> jsval \<Rightarrow> string \<Rightarrow> bool \<Rightarrow> jsobj \<Rightarrow> ('s, next_job option \<times> jsval) backend_op"
  be_moveToDelayed ::
    "string option \<Rightarrow> real \<Rightarrow> real \<Rightarrow> string option \<Rightarrow> move_to_delayed_opts \<Rightarrow> ('s, next_job option) backend_op"
  be_moveToWaitingChildren ::
    "string option \<Rightarrow> string \<Rightarrow> parent_options option \<Rightarrow> ('s, bool) backend_op"
  be_moveJobFromActiveToWait :: "string option \<Rightarrow> string option \<Rightarrow> ('s, real) backend_op"
  be_retryJob :: "string option \<Rightarrow> jsval \<Rightarrow> string option \<Rightarrow> jsobj \<Rightarrow> ('s, unit) backend_op"
  be_retryFinishedJob :: "job \<Rightarrow> string \<Rightarrow> retry_options \<Rightarrow> ('s, unit) backend_op"
  be_promote :: "string option \<Rightarrow> ('s, unit) backend_op"
  be_moveStalledJobsToWait :: "('s, string list) backend_op"
  be_extendLock :: "string option \<Rightarrow> string \<Rightarrow> real \<Rightarrow> ('s, real) backend_op"
  be_updateData :: "job \<Rightarrow> jsval \<Rightarrow> ('s, unit) backend_op"
  be_updateProgress :: "string option \<Rightarrow> jsval \<Rightarrow> ('s, unit) backend_op"
  be_addLog :: "string option \<Rightarrow> string \<Rightarrow> jsval \<Rightarrow> ('s, real) backend_op"
  be_clearLogs :: "string option \<Rightarrow> jsval \<Rightarrow> ('s, unit) backend_op"
  be_changeDelay :: "string option \<Rightarrow> real \<Rightarrow> ('s, unit) backend_op"
  be_changePriority :: "string option \<Rightarrow> jsval \<Rightarrow> bool option \<Rightarrow> ('s, unit) backend_op"
  be_remove :: "string option \<Rightarrow> bool \<Rightarrow> ('s, real) backend_op"
  be_removeUnprocessedChildren :: "string option \<Rightarrow> ('s, unit) backend_op"
  be_removeChildDependency :: "string option \<Rightarrow> string option \<Rightarrow> ('s, bool) backend_op"
  be_removeDeduplicationKey :: "string \<Rightarrow> string option \<Rightarrow> ('s, real) backend_op"
  be_updateJobSchedulerNextMillis ::
    "string \<Rightarrow> jsval \<Rightarrow> string option \<Rightarrow> jsobj \<Rightarrow> string option \<Rightarrow> ('s, string option) backend_op"
  be_removeJobScheduler :: "string \<Rightarrow> ('s, real) backend_op"
  be_getJobScheduler :: "string \<Rightarrow> ('s, string list option \<times> string option) backend_op"
  be_isJobScheduler :: "string \<Rightarrow> ('s, bool) backend_op"
  be_getJobSchedulerData :: "string \<Rightarrow> ('s, (string, string option) jsmap) backend_op"
  be_getJobSchedulersRange :: "int \<Rightarrow> int \<Rightarrow> bool \<Rightarrow> ('s, string list) backend_op"
  be_getState :: "string option \<Rightarrow> ('s, string) backend_op"
  be_isFinished :: "string option \<Rightarrow> ('s, int \<times> string) backend_op"
  be_isJobInState :: "string \<Rightarrow> string option \<Rightarrow> ('s, bool) backend_op"
  be_getJobData :: "string \<Rightarrow> ('s, job_json option) backend_op"
  be_getRateLimitTtl :: "real option \<Rightarrow> ('s, real) backend_op"
  be_getDependencyCounts :: "string option \<Rightarrow> string list \<Rightarrow> ('s, real option list) backend_op"
  be_getProcessedChildrenValues :: "string option \<Rightarrow> ('s, (string, string) jsmap option) backend_op"
  be_getIgnoredChildrenFailures :: "string option \<Rightarrow> ('s, (string, string) jsmap) backend_op"
  be_waitForJob :: "real \<Rightarrow> ('s, (string \<times> real) option) backend_op"
  be_reconnectBlocking :: "('s, unit) backend_op"

text \<open>
  An instance that accepts every operation and logs its name: the concrete backend of the
  examples.
\<close>

definition logged :: "string \<Rightarrow> 'a \<Rightarrow> (string list, 'a) backend_op" where
  "logged op a s = (Inr a, s @ [op])"

definition log_backend :: "string list queue_backend" where
  "log_backend =
     \<lparr>be_waitUntilReady = logged ''waitUntilReady'' (),
      be_addJob = (\<lambda>_ i _. logged ''addJob'' i),
      be_addJobs = (\<lambda>es. logged ''addJobs'' (map ae_jobId es)),
      be_addFlow = (\<lambda>es. logged ''addFlow'' (map (\<lambda>e. (None, opt_str_val (fe_jobId e))) es)),
      be_addJobScheduler = (\<lambda>i _ _ _ _ _ _. logged ''addJobScheduler'' (i, VNum 0)),
      be_moveToActive = (\<lambda>_ _. logged ''moveToActive''
         \<lparr>nj_data = None, nj_id = None, nj_rateLimitDelay = None, nj_delayUntil = None\<rparr>),
      be_moveToCompleted = (\<lambda>_ _ _ _ _. logged ''moveToCompleted'' (None, VNum 1)),
      be_moveToFailed = (\<lambda>_ _ _ _ _ _. logged ''moveToFailed'' (None, VNum 1)),
      be_moveToDelayed = (\<lambda>_ _ _ _ _. logged ''moveToDelayed'' None),
      be_moveToWaitingChildren = (\<lambda>_ _ _. logged ''moveToWaitingChildren'' True),
      be_moveJobFromActiveToWait = (\<lambda>_ _. logged ''moveJobFromActiveToWait'' 0),
      be_retryJob = (\<lambda>_ _ _ _. logged ''retryJob'' ()),
      be_retryFinishedJob = (\<lambda>_ _ _. logged ''retryFinishedJob'' ()),
      be_promote = (\<lambda>_. logged ''promote'' ()),
      be_moveStalledJobsToWait = logged ''moveStalledJobsToWait'' [],
      be_extendLock = (\<lambda>_ _ _. logged ''extendLock'' 1),
      be_updateData = (\<lambda>_ _. logged ''updateData'' ()),
      be_updateProgress = (\<lambda>_ _. logged ''updateProgress'' ()),
      be_addLog = (\<lambda>_ _ _. logged ''addLog'' 1),
      be_clearLogs = (\<lambda>_ _. logged ''clearLogs'' ()),
      be_changeDelay = (\<lambda>_ _. logged ''changeDelay'' ()),
      be_changePriority = (\<lambda>_ _ _. logged ''changePriority'' ()),
      be_remove = (\<lambda>_ _. logged ''remove'' 1),
      be_removeUnprocessedChildren = (\<lambda>_. logged ''removeUnprocessedChildren'' ()),
      be_removeChildDependency = (\<lambda>_ _. logged ''removeChildDependency'' True),
      be_removeDeduplicationKey = (\<lambda>_ _. logged ''removeDeduplicationKey'' 1),
      be_updateJobSchedulerNextMillis = (\<lambda>i _ _ _ _. logged ''updateJobSchedulerNextMillis'' (Some i)),
      be_removeJobScheduler = (\<lambda>_. logged ''removeJobScheduler'' 0),
      be_getJobScheduler = (\<lambda>_. logged ''getJobScheduler'' (None, None)),
      be_isJobScheduler = (\<lambda>_. logged ''isJobScheduler'' True),
      be_getJobSchedulerData = (\<lambda>_. logged ''getJobSchedulerData'' []),
      be_getJobSchedulersRange = (\<lambda>_ _ _. logged ''getJobSchedulersRange'' []),
      be_getState = (\<lambda>_. logged ''getState'' ''waiting''),
      be_isFinished = (\<lambda>_. logged ''isFinished'' (0, '''')),
      be_isJobInState = (\<lambda>_ _. logged ''isJobInState'' True),
      be_getJobData = (\<lambda>_. logged ''getJobData'' None),
      be_getRateLimitTtl = (\<lambda>_. logged ''getRateLimitTtl'' 0),
      be_getDependencyCounts = (\<lambda>_ ts. logged ''getDependencyCounts'' (map (\<lambda>_. Some 0) ts)),
      be_getProcessedChildrenValues = (\<lambda>_. logged ''getProcessedChildrenValues'' None),
      be_getIgnoredChildrenFailures = (\<lambda>_. logged ''getIgnoredChildrenFailures'' []),
      be_waitForJob = (\<lambda>_. logged ''waitForJob'' None),
      be_reconnectBlocking = logged ''reconnectBlocking'' ()\<rparr>"

lemma log_backend_ops:
  "be_waitUntilReady log_backend = logged ''waitUntilReady'' ()"
  "be_addJob log_backend = (\<lambda>_ i _. logged ''addJob'' i)"
  "be_addJobs log_backend = (\<lambda>es. logged ''addJobs'' (map ae_jobId es))"
  "be_moveToCompleted log_backend = (\<lambda>_ _ _ _ _. logged ''moveToCompleted'' (None, VNum 1))"
  "be_moveToFailed log_backend = (\<lambda>_ _ _ _ _ _. logged ''moveToFailed'' (None, VNum 1))"
  "be_moveJobFromActiveToWait log_backend = (\<lambda>_ _. logged ''moveJobFromActiveToWait'' 0)"
  "be_moveToActive log_backend = (\<lambda>_ _. logged ''moveToActive''
         \<lparr>nj_data = None, nj_id = None, nj_rateLimitDelay = None, nj_delayUntil = None\<rparr>)"
  by (simp_all add: log_backend_def)

end
