(* ===== verification/Job_Lifecycle.thy ===== *)
theory Job_Lifecycle
  imports Queue_Backend
begin

text \<open>
  The methods of src/classes/job.ts that talk to the backend: creating jobs, finishing them,
  retrying, delaying, removing, and the updates of single fields. A method runs on a
  \<open>jworld\<close>: the job object it mutates, the datastore state and what it made observable
  (metrics and emitted events, newest last). \<open>backend\<close> threads a backend operation through
  the world, \<open>andThen\<close> is the sequencing of \<open>await\<close>s: a rejected operation ends the method
  and keeps what was changed before it.
\<close>

section \<open>Worlds\<close>

datatype job_event =
    Counter string
  | DurationHistogram real
  | EmitProgress jsval
  | EmitRemoved

record 's jworld =
  jw_job :: job
  jw_be :: 's
  jw_out :: "job_event list"

type_synonym ('s, 'a) job_op = "'s jworld \<Rightarrow> (js_error, 'a) result \<times> 's jworld"

definition backend :: "('s, 'a) backend_op \<Rightarrow> ('s, 'a) job_op" where
  "backend call w = (case call (jw_be w) of (r, s) \<Rightarrow> (r, w\<lparr>jw_be := s\<rparr>))"

definition andThen :: "('s, 'a) job_op \<Rightarrow> ('a \<Rightarrow> ('s, 'b) job_op) \<Rightarrow> ('s, 'b) job_op" where
  "andThen m f w = (case m w of (Inl e, w') \<Rightarrow> (Inl e, w') | (Inr a, w') \<Rightarrow> f a w')"

definition returning :: "'a \<Rightarrow> ('s, 'a) job_op" where
  "returning a w = (Inr a, w)"

definition throwing :: "js_error \<Rightarrow> ('s, 'a) job_op" where
  "throwing e w = (Inl e, w)"

definition lift_result :: "(js_error, 'a) result \<Rightarrow> ('s, 'a) job_op" where
  "lift_result r w = (r, w)"

definition update_job :: "(job \<Rightarrow> job) \<Rightarrow> ('s, unit) job_op" where
  "update_job f w = (Inr (), w\<lparr>jw_job := f (jw_job w)\<rparr>)"

definition emit_out :: "job_event list \<Rightarrow> ('s, unit) job_op" where
  "emit_out es w = (Inr (), w\<lparr>jw_out := jw_out w @ es\<rparr>)"

definition reading :: "('s jworld \<Rightarrow> ('s, 'a) job_op) \<Rightarrow> ('s, 'a) job_op" where
  "reading f w = f w w"

section \<open>Metrics\<close>

fun counterName :: "string \<Rightarrow> string" where
  "counterName state =
     (if state = ''completed'' then ''bullmq.jobs.completed''
      else if state = ''failed'' then ''bullmq.jobs.failed''
      else if state = ''delayed'' then ''bullmq.jobs.delayed''
      else if state = ''retried'' then ''bullmq.jobs.retried''
      else if state = ''waiting'' then ''bullmq.jobs.waiting''
      else ''bullmq.jobs.waiting_children'')"

definition job_metrics :: "real \<Rightarrow> job_queue \<Rightarrow> string \<Rightarrow> job \<Rightarrow> job_event list" where
  "job_metrics now Q state job =
     (if \<not> jq_meter Q then []
      else Counter (counterName state) #
           (case j_processedOn job of
              VNum p \<Rightarrow> if p \<noteq> 0 then [DurationHistogram (now - p)] else []
            | _ \<Rightarrow> []))"

definition recordJobMetrics :: "real \<Rightarrow> job_queue \<Rightarrow> string \<Rightarrow> ('s, unit) job_op" where
  "recordJobMetrics now Q state = reading (\<lambda>w. emit_out (job_metrics now Q state (jw_job w)))"

section \<open>Creation\<close>

definition parent_link :: "job \<Rightarrow> parent_key_opts" where
  "parent_link job =
     \<lparr>pk_addToWaitingChildren = False,
      pk_parentDependenciesKey =
        Some (if truthy_str (j_parentKey job) then the (j_parentKey job) @ '':dependencies'' else ''''),
      pk_parentKey = j_parentKey job\<rparr>"

definition create ::
  "json_lib \<Rightarrow> string option \<Rightarrow> 's queue_backend \<Rightarrow> real \<Rightarrow> string \<Rightarrow> jsval \<Rightarrow> jsobj option
     \<Rightarrow> 's \<Rightarrow> (js_error, job) result \<times> 's" where
  "create J stk B now name data opts s =
     (let o1 = with_default [] opts;
          job = new_Job now (Some name) data o1 (str_of (oprop o1 ''jobId''))
      in case bind_result (asJSON J job) (\<lambda>jobData.
                bind_result (validateOptions J stk job jobData) (\<lambda>_. Inr jobData)) of
           Inl e \<Rightarrow> (Inl e, s)
         | Inr jobData \<Rightarrow>
             (case be_addJob B jobData (j_id job) (parent_link job) s of
                (Inl e, s') \<Rightarrow> (Inl e, s')
              | (Inr i, s') \<Rightarrow> (Inr (job\<lparr>j_id := i\<rparr>), s')))"

fun bulk_entries ::
  "json_lib \<Rightarrow> string option \<Rightarrow> job list \<Rightarrow> (js_error, add_entry list) result" where
  "bulk_entries J stk [] = Inr []"
| "bulk_entries J stk (job # jobs) =
     bind_result (asJSON J job) (\<lambda>jobData.
     bind_result (validateOptions J stk job jobData) (\<lambda>_.
     bind_result (bulk_entries J stk jobs) (\<lambda>rest.
       Inr (\<lparr>ae_job = jobData, ae_jobId = j_id job, ae_parentKeyOpts = parent_link job\<rparr> # rest))))"

text \<open>\<open>ids[index]\<close> reads \<open>undefined\<close> past the end of the reply.\<close>

fun assign_ids :: "job list \<Rightarrow> string option list \<Rightarrow> job list" where
  "assign_ids [] ids = []"
| "assign_ids (job # jobs) [] = job\<lparr>j_id := None\<rparr> # assign_ids jobs []"
| "assign_ids (job # jobs) (i # ids) = job\<lparr>j_id := i\<rparr> # assign_ids jobs ids"

definition createBulk ::
  "json_lib \<Rightarrow> string option \<Rightarrow> 's queue_backend \<Rightarrow> real \<Rightarrow> (string \<times> jsval \<times> jsobj option) list
     \<Rightarrow> 's \<Rightarrow> (js_error, job list) result \<times> 's" where
  "createBulk J stk B now jobs s =
     (let jobInstances =
            map (\<lambda>(name, data, opts).
                   new_Job now (Some name) data (with_default [] opts)
                     (str_of (oprop (with_default [] opts) ''jobId''))) jobs
      in case bulk_entries J stk jobInstances of
           Inl e \<Rightarrow> (Inl e, s)
         | Inr entries \<Rightarrow>
             (case be_addJobs B entries s of
                (Inl e, s') \<Rightarrow> (Inl e, s')
              | (Inr ids, s') \<Rightarrow> (Inr (assign_ids jobInstances ids), s')))"

definition fromId ::
  "json_lib \<Rightarrow> 's queue_backend \<Rightarrow> real \<Rightarrow> string option \<Rightarrow> 's \<Rightarrow> (js_error, job option) result \<times> 's" where
  "fromId J B now jobId s =
     (if truthy_str jobId
      then case be_getJobData B (the jobId) s of
             (Inl e, s') \<Rightarrow> (Inl e, s')
           | (Inr None, s') \<Rightarrow> (Inr None, s')
           | (Inr (Some json), s') \<Rightarrow>
               (bind_result (fromJSON J now json jobId) (\<lambda>job. Inr (Some job)), s')
      else (Inr None, s))"

section \<open>Finishing a job\<close>

definition moveToCompleted ::
  "json_lib \<Rightarrow> real \<Rightarrow> 's queue_backend \<Rightarrow> job_queue \<Rightarrow> jsval \<Rightarrow> string \<Rightarrow> bool \<Rightarrow> ('s, next_job option) job_op" where
  "moveToCompleted J now B Q returnValue token fetchNext =
     andThen (backend (be_waitUntilReady B)) (\<lambda>_.
     andThen (update_job (j_returnvalue_update (\<lambda>_. logical_or returnValue VUndef))) (\<lambda>_.
     andThen (lift_result (json_stringify J returnValue)) (\<lambda>_.
     andThen (reading (\<lambda>w. backend (be_moveToCompleted B (jw_job w) returnValue
                (oprop (j_opts (jw_job w)) ''removeOnComplete'') token fetchNext))) (\<lambda>(res, finishedOn).
     andThen (update_job (j_finishedOn_update (\<lambda>_. finishedOn))) (\<lambda>_.
     andThen (update_job (j_attemptsMade_update (\<lambda>n. js_plus n 1))) (\<lambda>_.
     andThen (recordJobMetrics now Q ''completed'') (\<lambda>_.
       returning res)))))))"

definition fieldsToUpdate :: "job \<Rightarrow> string option \<Rightarrow> string option \<Rightarrow> jsobj" where
  "fieldsToUpdate job stacktrace tm =
     [(''failedReason'', opt_str_val (j_failedReason job)),
      (''stacktrace'', opt_str_val stacktrace),
      (''tm'', opt_str_val tm)]"

text \<open>The trace context that travels with the job: \<open>dst\<close> is what the tracer hands to the
  callback.\<close>

definition trace_metadata :: "job \<Rightarrow> string option \<Rightarrow> string option" where
  "trace_metadata job dst =
     (if \<not> truthy (vprop (oprop (j_opts job) ''telemetry'') ''omitContext'') \<and> truthy_str dst
      then dst else None)"

definition move_failed_branch ::
  "real \<Rightarrow> 's queue_backend \<Rightarrow> job_queue \<Rightarrow> string \<Rightarrow> bool \<Rightarrow> bool \<Rightarrow> real option \<Rightarrow> jsobj
     \<Rightarrow> ('s, next_job option \<times> jsval) job_op" where
  "move_failed_branch now B Q token fetchNext shouldRetry retryDelay flds =
     reading (\<lambda>w. let job = jw_job w in
       if shouldRetry
       then if truthy_num retryDelay
            then andThen (backend (be_moveToDelayed B (j_id job) now (the retryDelay) (Some token)
                    \<lparr>md_skipAttempt = False, md_fieldsToUpdate = flds, md_fetchNext = fetchNext\<rparr>)) (\<lambda>res.
                 andThen (recordJobMetrics now Q ''delayed'') (\<lambda>_. returning (res, VUndef)))
            else andThen (backend (be_retryJob B (j_id job) (oprop (j_opts job) ''lifo'') (Some token) flds)) (\<lambda>_.
                 andThen (recordJobMetrics now Q ''retried'') (\<lambda>_. returning (None, VUndef)))
       else andThen (backend (be_moveToFailed B job (j_failedReason job)
                 (oprop (j_opts job) ''removeOnFail'') token fetchNext flds)) (\<lambda>moved.
            andThen (recordJobMetrics now Q ''failed'') (\<lambda>_. returning moved)))"

definition is_true_number :: "jsval \<Rightarrow> bool" where
  "is_true_number v = (case v of VNum n \<Rightarrow> n \<noteq> 0 | _ \<Rightarrow> False)"

definition moveToFailed ::
  "json_lib \<Rightarrow> real \<Rightarrow> string option \<Rightarrow> real \<Rightarrow> 's queue_backend \<Rightarrow> job_queue \<Rightarrow> string option
     \<Rightarrow> js_error \<Rightarrow> string \<Rightarrow> bool \<Rightarrow> ('s, next_job option) job_op" where
  "moveToFailed J r stk now B Q dst err token fetchNext =
     andThen (update_job (j_failedReason_update (\<lambda>_. Some (err_message err)))) (\<lambda>_.
     andThen (reading (\<lambda>w. lift_result (shouldRetryJob r stk Q err (jw_job w)))) (\<lambda>(shouldRetry, retryDelay).
     andThen (update_job (updateStacktrace err)) (\<lambda>_.
     andThen (reading (\<lambda>w. lift_result (json_stringify J (stacktrace_val (j_stacktrace (jw_job w)))))) (\<lambda>stacktrace.
     andThen (reading (\<lambda>w. move_failed_branch now B Q token fetchNext shouldRetry retryDelay
                (fieldsToUpdate (jw_job w) stacktrace (trace_metadata (jw_job w) dst)))) (\<lambda>(res, finishedOn).
     andThen (update_job (\<lambda>job. if is_true_number finishedOn then job\<lparr>j_finishedOn := finishedOn\<rparr> else job)) (\<lambda>_.
     andThen (update_job (\<lambda>job. if truthy_num retryDelay then job\<lparr>j_delay := VNum (the retryDelay)\<rparr> else job)) (\<lambda>_.
     andThen (update_job (j_attemptsMade_update (\<lambda>n. js_plus n 1))) (\<lambda>_.
       returning res))))))))"

section \<open>Other transitions\<close>

definition moveToWait :: "real \<Rightarrow> 's queue_backend \<Rightarrow> job_queue \<Rightarrow> string option \<Rightarrow> ('s, real) job_op" where
  "moveToWait now B Q token =
     andThen (reading (\<lambda>w. backend (be_moveJobFromActiveToWait B (j_id (jw_job w)) token))) (\<lambda>res.
     andThen (recordJobMetrics now Q ''waiting'') (\<lambda>_. returning res))"

definition moveToDelayed ::
  "real \<Rightarrow> 's queue_backend \<Rightarrow> job_queue \<Rightarrow> real \<Rightarrow> string option \<Rightarrow> ('s, unit) job_op" where
  "moveToDelayed now B Q timestamp token =
     (let delay = timestamp - now; finalDelay = (if delay > 0 then delay else 0) in
      andThen (reading (\<lambda>w. backend (be_moveToDelayed B (j_id (jw_job w)) now finalDelay token
                 \<lparr>md_skipAttempt = True, md_fieldsToUpdate = [], md_fetchNext = False\<rparr>))) (\<lambda>_.
      andThen (update_job (j_delay_update (\<lambda>_. VNum finalDelay))) (\<lambda>_.
        recordJobMetrics now Q ''delayed'')))"

definition moveToWaitingChildren ::
  "real \<Rightarrow> 's queue_backend \<Rightarrow> job_queue \<Rightarrow> string \<Rightarrow> parent_options option \<Rightarrow> ('s, bool) job_op" where
  "moveToWaitingChildren now B Q token child =
     andThen (reading (\<lambda>w. backend (be_moveToWaitingChildren B (j_id (jw_job w)) token child))) (\<lambda>moved.
     andThen (if moved then recordJobMetrics now Q ''waiting-children'' else returning ()) (\<lambda>_.
       returning moved))"

definition promote :: "'s queue_backend \<Rightarrow> ('s, unit) job_op" where
  "promote B =
     andThen (reading (\<lambda>w. backend (be_promote B (j_id (jw_job w))))) (\<lambda>_.
       update_job (j_delay_update (\<lambda>_. VNum 0)))"

definition retry :: "'s queue_backend \<Rightarrow> string \<Rightarrow> retry_options \<Rightarrow> ('s, unit) job_op" where
  "retry B state opts =
     andThen (reading (\<lambda>w. backend (be_retryFinishedJob B (jw_job w) state opts))) (\<lambda>_.
     andThen (update_job (\<lambda>job. job\<lparr>j_failedReason := None, j_finishedOn := VNull,
                j_processedOn := VNull, j_returnvalue := VNull\<rparr>)) (\<lambda>_.
     andThen (update_job (\<lambda>job. if ro_resetAttemptsMade opts then job\<lparr>j_attemptsMade := VNum 0\<rparr> else job)) (\<lambda>_.
       update_job (\<lambda>job. if ro_resetAttemptsStarted opts then job\<lparr>j_attemptsStarted := VNum 0\<rparr> else job))))"

section \<open>Updates of single fields\<close>

definition updateData :: "'s queue_backend \<Rightarrow> jsval \<Rightarrow> ('s, unit) job_op" where
  "updateData B data =
     andThen (update_job (j_data_update (\<lambda>_. data))) (\<lambda>_.
       reading (\<lambda>w. backend (be_updateData B (jw_job w) data)))"

definition updateProgress :: "'s queue_backend \<Rightarrow> jsval \<Rightarrow> ('s, unit) job_op" where
  "updateProgress B progress =
     andThen (update_job (j_progress_update (\<lambda>_. progress))) (\<lambda>_.
     andThen (reading (\<lambda>w. backend (be_updateProgress B (j_id (jw_job w)) progress))) (\<lambda>_.
       emit_out [EmitProgress progress]))"

definition addJobLog ::
  "'s queue_backend \<Rightarrow> string option \<Rightarrow> string \<Rightarrow> jsval \<Rightarrow> ('s, real) backend_op" where
  "addJobLog B jobId logRow keepLogs = be_addLog B jobId logRow keepLogs"

definition job_log :: "'s queue_backend \<Rightarrow> string \<Rightarrow> ('s, real) job_op" where
  "job_log B logRow =
     reading (\<lambda>w. backend (addJobLog B (j_id (jw_job w)) logRow (oprop (j_opts (jw_job w)) ''keepLogs'')))"

definition removeChildDependency :: "'s queue_backend \<Rightarrow> ('s, bool) job_op" where
  "removeChildDependency B =
     andThen (reading (\<lambda>w. backend (be_removeChildDependency B (j_id (jw_job w)) (j_parentKey (jw_job w))))) (\<lambda>removed.
       if removed
       then andThen (update_job (\<lambda>job. job\<lparr>j_parent := VUndef, j_parentKey := None\<rparr>)) (\<lambda>_. returning True)
       else returning False)"

definition clearLogs :: "'s queue_backend \<Rightarrow> jsval \<Rightarrow> ('s, unit) job_op" where
  "clearLogs B keepLogs = reading (\<lambda>w. backend (be_clearLogs B (j_id (jw_job w)) keepLogs))"

definition remove_job :: "string option \<Rightarrow> 's queue_backend \<Rightarrow> bool \<Rightarrow> ('s, unit) job_op" where
  "remove_job stk B removeChildren =
     andThen (backend (be_waitUntilReady B)) (\<lambda>_.
     reading (\<lambda>w. andThen (backend (be_remove B (j_id (jw_job w)) removeChildren)) (\<lambda>removed.
       if removed \<noteq> 0 then emit_out [EmitRemoved]
       else throwing (new_err ErrorClass stk
              (''Job '' @ render_opt (j_id (jw_job w))
                 @ '' could not be removed because it is locked by another worker'')))))"

definition removeUnprocessedChildren :: "'s queue_backend \<Rightarrow> ('s, unit) job_op" where
  "removeUnprocessedChildren B =
     reading (\<lambda>w. backend (be_removeUnprocessedChildren B (j_id (jw_job w))))"

definition extendLock :: "'s queue_backend \<Rightarrow> string \<Rightarrow> real \<Rightarrow> ('s, real) job_op" where
  "extendLock B token duration =
     reading (\<lambda>w. backend (be_extendLock B (j_id (jw_job w)) token duration))"

definition changeDelay :: "'s queue_backend \<Rightarrow> real \<Rightarrow> ('s, unit) job_op" where
  "changeDelay B delay =
     andThen (reading (\<lambda>w. backend (be_changeDelay B (j_id (jw_job w)) delay))) (\<lambda>_.
       update_job (j_delay_update (\<lambda>_. VNum delay)))"

definition changePriority :: "'s queue_backend \<Rightarrow> jsval \<Rightarrow> bool option \<Rightarrow> ('s, unit) job_op" where
  "changePriority B priority lifo =
     andThen (reading (\<lambda>w. backend (be_changePriority B (j_id (jw_job w)) priority lifo))) (\<lambda>_.
       update_job (j_priority_update (\<lambda>_. logical_or priority (VNum 0))))"

definition removeDeduplicationKey :: "'s queue_backend \<Rightarrow> ('s, bool) job_op" where
  "removeDeduplicationKey B =
     reading (\<lambda>w.
       if truthy_str (j_deduplicationId (jw_job w))
       then andThen (backend (be_removeDeduplicationKey B (the (j_deduplicationId (jw_job w))) (j_id (jw_job w))))
              (\<lambda>res. returning (res > 0))
       else returning False)"

section \<open>Queries\<close>

definition isInState :: "'s queue_backend \<Rightarrow> string \<Rightarrow> ('s, bool) job_op" where
  "isInState B state = reading (\<lambda>w. backend (be_isJobInState B state (j_id (jw_job w))))"

definition getState :: "'s queue_backend \<Rightarrow> ('s, string) job_op" where
  "getState B = reading (\<lambda>w. backend (be_getState B (j_id (jw_job w))))"

definition getChildrenValues ::
  "json_lib \<Rightarrow> 's queue_backend \<Rightarrow> ('s, (string, jsval) jsmap option) job_op" where
  "getChildrenValues J B =
     andThen (reading (\<lambda>w. backend (be_getProcessedChildrenValues B (j_id (jw_job w))))) (\<lambda>res.
       case res of
         None \<Rightarrow> returning None
       | Some vals \<Rightarrow> andThen (lift_result (parseObjectValues (json_parse J) vals)) (\<lambda>m. returning (Some m)))"

definition getIgnoredChildrenFailures :: "'s queue_backend \<Rightarrow> ('s, (string, string) jsmap) job_op" where
  "getIgnoredChildrenFailures B =
     reading (\<lambda>w. backend (be_getIgnoredChildrenFailures B (j_id (jw_job w))))"

text \<open>\<open>responses.forEach((res, index) => counts[finalTypes[index]] = res || 0)\<close>; a reply longer
  than the list of types would store its tail under the key \<open>undefined\<close>.\<close>

fun count_types :: "(string, real) jsmap \<Rightarrow> string list \<Rightarrow> real option list \<Rightarrow> (string, real) jsmap" where
  "count_types counts types [] = counts"
| "count_types counts [] (res # ress) = count_types (map_set ''undefined'' (with_default 0 res) counts) [] ress"
| "count_types counts (t # types) (res # ress) = count_types (map_set t (with_default 0 res) counts) types ress"

definition getDependenciesCount ::
  "'s queue_backend \<Rightarrow> (string \<times> bool) list \<Rightarrow> ('s, (string, real) jsmap) job_op" where
  "getDependenciesCount B opts =
     (let types = map fst (filter snd opts);
          finalTypes = (if types \<noteq> [] then types else [''processed'', ''unprocessed'', ''ignored'', ''failed''])
      in andThen (reading (\<lambda>w. backend (be_getDependencyCounts B (j_id (jw_job w)) finalTypes))) (\<lambda>responses.
           returning (count_types [] finalTypes responses)))"

section \<open>Lemmas\<close>

lemmas job_op_defs = backend_def andThen_def returning_def throwing_def lift_result_def
  update_job_def emit_out_def reading_def

text \<open>Running a method: each rule evaluates one step.\<close>

lemma andThen_run:
  "m w = (Inr a, w') \<Longrightarrow> andThen m f w = f a w'"
  "m w = (Inl e, w') \<Longrightarrow> andThen m f w = (Inl e, w')"
  by (simp_all only: andThen_def prod.case sum.case)

lemma backend_run: "call (jw_be w) = (r, s) \<Longrightarrow> backend call w = (r, w\<lparr>jw_be := s\<rparr>)"
  by (simp only: backend_def prod.case)

lemma run_steps:
  "andThen (update_job g) f w = f () (w\<lparr>jw_job := g (jw_job w)\<rparr>)"
  "andThen (emit_out es) f w = f () (w\<lparr>jw_out := jw_out w @ es\<rparr>)"
  "andThen (recordJobMetrics now Q state) f w
     = f () (w\<lparr>jw_out := jw_out w @ job_metrics now Q state (jw_job w)\<rparr>)"
  by (simp_all add: job_op_defs recordJobMetrics_def)

lemma run_results:
  "andThen (returning a) f w = f a w"
  "andThen (lift_result (Inr a)) f w = f a w"
  "andThen (lift_result (Inl e)) f w = (Inl e, w)"
  by (simp_all add: job_op_defs)

lemma run_assoc: "andThen (andThen m f) h w = andThen m (\<lambda>a. andThen (f a) h) w"
  by (simp add: andThen_def split: prod.split sum.split)

lemma run_reading: "andThen (reading h) f w = andThen (h w) f w" "reading h w = h w w"
  by (simp_all add: andThen_def reading_def)

lemmas run_simps = run_steps run_results run_assoc run_reading

lemma run_backend:
  "andThen (backend call) f w =
     (case call (jw_be w) of
        (Inl e, s) \<Rightarrow> (Inl e, w\<lparr>jw_be := s\<rparr>)
      | (Inr a, s) \<Rightarrow> f a (w\<lparr>jw_be := s\<rparr>))"
  by (simp add: andThen_def backend_def split: prod.split sum.split)

text \<open>The state of the job when moveToFailed consults the backend, and what it returns.\<close>

definition failing_job :: "js_error \<Rightarrow> job \<Rightarrow> job" where
  "failing_job err job = updateStacktrace err (job\<lparr>j_failedReason := Some (err_message err)\<rparr>)"

definition failed_job :: "js_error \<Rightarrow> job \<Rightarrow> real option \<Rightarrow> jsval \<Rightarrow> job" where
  "failed_job err job retryDelay finishedOn =
     (let job1 = failing_job err job;
          job2 = (if is_true_number finishedOn then job1\<lparr>j_finishedOn := finishedOn\<rparr> else job1);
          job3 = (if truthy_num retryDelay then job2\<lparr>j_delay := VNum (the retryDelay)\<rparr> else job2)
      in job3\<lparr>j_attemptsMade := js_plus (j_attemptsMade job) 1\<rparr>)"

lemma shouldRetryJob_failedReason:
  assumes "jq_backoffStrategy Q = None"
  shows "shouldRetryJob r stk Q err (job\<lparr>j_failedReason := f\<rparr>) = shouldRetryJob r stk Q err job"
  using assms by (simp add: shouldRetryJob_def calculate_def lookupStrategy_def split: option.split)

section \<open>What a failure does\<close>

text \<open>The decision of moveToFailed, and the backend call that carries it out.\<close>

datatype failure_action = RetryAfter real | RetryNow | Fail

definition action_of :: "bool \<Rightarrow> real option \<Rightarrow> failure_action" where
  "action_of shouldRetry retryDelay =
     (if shouldRetry then if truthy_num retryDelay then RetryAfter (the retryDelay) else RetryNow else Fail)"

fun metric_of :: "failure_action \<Rightarrow> string" where
  "metric_of (RetryAfter d) = ''delayed''"
| "metric_of RetryNow = ''retried''"
| "metric_of Fail = ''failed''"

fun perform ::
  "real \<Rightarrow> 's queue_backend \<Rightarrow> string \<Rightarrow> bool \<Rightarrow> jsobj \<Rightarrow> job \<Rightarrow> failure_action
     \<Rightarrow> ('s, next_job option \<times> jsval) backend_op" where
  "perform now B token fetchNext flds job (RetryAfter d) s =
     (case be_moveToDelayed B (j_id job) now d (Some token)
         \<lparr>md_skipAttempt = False, md_fieldsToUpdate = flds, md_fetchNext = fetchNext\<rparr> s of
        (Inl e, s') \<Rightarrow> (Inl e, s') | (Inr res, s') \<Rightarrow> (Inr (res, VUndef), s'))"
| "perform now B token fetchNext flds job RetryNow s =
     (case be_retryJob B (j_id job) (oprop (j_opts job) ''lifo'') (Some token) flds s of
        (Inl e, s') \<Rightarrow> (Inl e, s') | (Inr _, s') \<Rightarrow> (Inr (None, VUndef), s'))"
| "perform now B token fetchNext flds job Fail s =
     be_moveToFailed B job (j_failedReason job) (oprop (j_opts job) ''removeOnFail'') token fetchNext flds s"

lemma branch_run:
  "andThen (move_failed_branch now B Q token fetchNext sr rd flds) f w =
     (case perform now B token fetchNext flds (jw_job w) (action_of sr rd) (jw_be w) of
        (Inl e, s) \<Rightarrow> (Inl e, w\<lparr>jw_be := s\<rparr>)
      | (Inr x, s) \<Rightarrow> f x (w\<lparr>jw_be := s,
                       jw_out := jw_out w @ job_metrics now Q (metric_of (action_of sr rd)) (jw_job w)\<rparr>))"
  by (simp add: move_failed_branch_def run_simps run_backend action_of_def Let_def
      split: prod.split sum.split)

lemma moveToFailed_run:
  assumes "shouldRetryJob r stk Q err ((jw_job w)\<lparr>j_failedReason := Some (err_message err)\<rparr>) = Inr (sr, rd)"
    and "json_stringify J (stacktrace_val (j_stacktrace (failing_job err (jw_job w)))) = Inr st"
    and "flds = fieldsToUpdate (failing_job err (jw_job w)) st (trace_metadata (failing_job err (jw_job w)) dst)"
  shows "moveToFailed J r stk now B Q dst err token fetchNext w =
    (case perform now B token fetchNext flds (failing_job err (jw_job w)) (action_of sr rd) (jw_be w) of
       (Inl e, s) \<Rightarrow> (Inl e, w\<lparr>jw_job := failing_job err (jw_job w), jw_be := s\<rparr>)
     | (Inr (res, finishedOn), s) \<Rightarrow>
         (Inr res,
          w\<lparr>jw_job := failed_job err (jw_job w) rd finishedOn, jw_be := s,
            jw_out := jw_out w @ job_metrics now Q (metric_of (action_of sr rd)) (failing_job err (jw_job w))\<rparr>))"
  using assms(1,2)
  by (simp add: moveToFailed_def run_simps branch_run assms(3) failing_job_def [symmetric])
     (auto simp: failed_job_def failing_job_def Let_def job_op_defs split: prod.split sum.split)

lemma moveToFailed_strategy_error:
  assumes "shouldRetryJob r stk Q err ((jw_job w)\<lparr>j_failedReason := Some (err_message err)\<rparr>) = Inl e"
  shows "moveToFailed J r stk now B Q dst err token fetchNext w
       = (Inl e, w\<lparr>jw_job := (jw_job w)\<lparr>j_failedReason := Some (err_message err)\<rparr>\<rparr>)"
  using assms by (simp add: moveToFailed_def run_simps)

lemma failed_job_fields [simp]:
  "j_attemptsMade (failed_job err job rd fin) = js_plus (j_attemptsMade job) 1"
  "j_failedReason (failed_job err job rd fin) = Some (err_message err)"
  "j_opts (failed_job err job rd fin) = j_opts job"
  "j_id (failed_job err job rd fin) = j_id job"
  "j_processedOn (failed_job err job rd fin) = j_processedOn job"
  "j_finishedOn (failed_job err job rd fin) = (if is_true_number fin then fin else j_finishedOn job)"
  by (simp_all add: failed_job_def failing_job_def Let_def)

lemma failing_job_fields [simp]:
  "j_attemptsMade (failing_job err job) = j_attemptsMade job"
  "j_processedOn (failing_job err job) = j_processedOn job"
  "j_opts (failing_job err job) = j_opts job"
  "j_id (failing_job err job) = j_id job"
  "j_finishedOn (failing_job err job) = j_finishedOn job"
  by (simp_all add: failing_job_def)

lemma retriable_failedReason [simp]: "retriable err (job\<lparr>j_failedReason := f\<rparr>) = retriable err job"
  by (simp add: retriable_def)

section \<open>A job that keeps failing\<close>

text \<open>A backend that grants every retry and every move to the failed set.\<close>

definition accepts_failures :: "'s queue_backend \<Rightarrow> bool" where
  "accepts_failures B \<longleftrightarrow>
     (\<forall>i l t f s. \<exists>s'. be_retryJob B i l t f s = (Inr (), s'))
     \<and> (\<forall>j m k t n f s. \<exists>res fin s'. be_moveToFailed B j m k t n f s = (Inr (res, fin), s'))"

definition recoverable :: "js_error \<Rightarrow> bool" where
  "recoverable err \<longleftrightarrow> err_class err \<noteq> UnrecoverableError \<and> err_name err \<noteq> ''UnrecoverableError''"

fun fail_all ::
  "json_lib \<Rightarrow> real \<Rightarrow> 's queue_backend \<Rightarrow> job_queue \<Rightarrow> string \<Rightarrow> js_error list \<Rightarrow> 's jworld \<Rightarrow> 's jworld" where
  "fail_all J now B Q token [] w = w"
| "fail_all J now B Q token (err # errs) w =
     fail_all J now B Q token errs (snd (moveToFailed J 0 None now B Q None err token False w))"

lemma perform_accepts:
  assumes "accepts_failures B" and "action = RetryNow \<or> action = Fail"
  shows "\<exists>res fin s'. perform now B token fn flds job action s = (Inr (res, fin), s')"
  using assms(2)
proof
  assume a: "action = RetryNow"
  from assms(1) obtain s' where "be_retryJob B (j_id job) (oprop (j_opts job) ''lifo'') (Some token) flds s = (Inr (), s')"
    unfolding accepts_failures_def by blast
  then show ?thesis by (simp add: a)
next
  assume a: "action = Fail"
  from assms(1) show ?thesis unfolding accepts_failures_def a perform.simps by blast
qed

text \<open>One failure of a job without back-off.\<close>

lemma fail_once:
  assumes B: "accepts_failures B" and J: "\<And>v. \<exists>s. json_stringify J v = Inr s" and Q: "jq_meter Q"
    and job: "oprop (j_opts (jw_job w)) ''attempts'' = VNum (real n)"
      "j_attemptsMade (jw_job w) = VNum (real a)" "\<not> truthy (oprop (j_opts (jw_job w)) ''backoff'')"
      "j_processedOn (jw_job w) = VUndef"
    and err: "recoverable err"
    and w'_def: "w' = snd (moveToFailed J r stk now B Q dst err token fn w)"
  shows "jw_out w' = jw_out w @ [Counter (if a + 1 < n then ''bullmq.jobs.retried'' else ''bullmq.jobs.failed'')]"
    and "j_attemptsMade (jw_job w') = VNum (real (Suc a))"
    and "j_opts (jw_job w') = j_opts (jw_job w)" and "j_processedOn (jw_job w') = VUndef"
proof -
  obtain st where st: "json_stringify J (stacktrace_val (j_stacktrace (failing_job err (jw_job w)))) = Inr st"
    using J by blast
  define sr where "sr = (a + 1 < n)"
  have sh: "shouldRetryJob r stk Q err ((jw_job w)\<lparr>j_failedReason := Some (err_message err)\<rparr>)
      = Inr (sr, if sr then None else Some 0)"
    using job err by (auto simp: shouldRetryJob_def recoverable_def sr_def calculate_def backoff_of_val_def)
  have act: "action_of sr (if sr then None else Some 0) = (if sr then RetryNow else Fail)"
    by (simp add: action_of_def)
  let ?flds = "fieldsToUpdate (failing_job err (jw_job w)) st (trace_metadata (failing_job err (jw_job w)) dst)"
  have "\<exists>res fin s. perform now B token fn ?flds (failing_job err (jw_job w)) (if sr then RetryNow else Fail) (jw_be w)
      = (Inr (res, fin), s)"
    using perform_accepts [OF B] by simp
  then obtain res fin s where
    "perform now B token fn ?flds (failing_job err (jw_job w)) (if sr then RetryNow else Fail) (jw_be w)
      = (Inr (res, fin), s)" by blast
  with moveToFailed_run [OF sh st refl, where now = now and B = B and token = token and fetchNext = fn] act have w': "w' =
      w\<lparr>jw_job := failed_job err (jw_job w) (if sr then None else Some 0) fin, jw_be := s,
        jw_out := jw_out w @ job_metrics now Q (metric_of (if sr then RetryNow else Fail)) (failing_job err (jw_job w))\<rparr>"
    by (simp add: w'_def)
  show "jw_out w' = jw_out w @ [Counter (if a + 1 < n then ''bullmq.jobs.retried'' else ''bullmq.jobs.failed'')]"
    using Q job by (simp add: w' job_metrics_def sr_def)
  show "j_attemptsMade (jw_job w') = VNum (real (Suc a))" using job by (simp add: w')
  show "j_opts (jw_job w') = j_opts (jw_job w)" "j_processedOn (jw_job w') = VUndef"
    using job by (simp_all add: w')
qed

lemma fail_all_run:
  assumes B: "accepts_failures B" and J: "\<And>v. \<exists>s. json_stringify J v = Inr s" and Q: "jq_meter Q"
    and errs: "\<forall>err \<in> set errs. recoverable err" "errs \<noteq> []"
    and job: "oprop (j_opts (jw_job w)) ''attempts'' = VNum (real (a + length errs))"
      "j_attemptsMade (jw_job w) = VNum (real a)" "\<not> truthy (oprop (j_opts (jw_job w)) ''backoff'')"
      "j_processedOn (jw_job w) = VUndef"
  shows "jw_out (fail_all J now B Q token errs w)
       = jw_out w @ replicate (length errs - 1) (Counter ''bullmq.jobs.retried'') @ [Counter ''bullmq.jobs.failed'']
     \<and> j_attemptsMade (jw_job (fail_all J now B Q token errs w)) = VNum (real (a + length errs))"
  using errs job
proof (induction errs arbitrary: w a)
  case (Cons err errs)
  note once = fail_once [OF B J Q Cons.prems(3-6) _ refl, of err 0 None now None token False]
  let ?w = "snd (moveToFailed J 0 None now B Q None err token False w)"
  from Cons.prems(1) once have
    out: "jw_out ?w = jw_out w @ [Counter (if errs \<noteq> [] then ''bullmq.jobs.retried'' else ''bullmq.jobs.failed'')]"
    and made: "j_attemptsMade (jw_job ?w) = VNum (real (Suc a))"
    and same: "j_opts (jw_job ?w) = j_opts (jw_job w)" "j_processedOn (jw_job ?w) = VUndef"
    by auto
  show ?case
  proof (cases "errs = []")
    case True
    with out made show ?thesis by simp
  next
    case False
    have "oprop (j_opts (jw_job ?w)) ''attempts'' = VNum (real (Suc a + length errs))"
      using Cons.prems(3) same by simp
    moreover have "\<not> truthy (oprop (j_opts (jw_job ?w)) ''backoff'')" using Cons.prems(5) same by simp
    ultimately have "jw_out (fail_all J now B Q token errs ?w)
        = jw_out ?w @ replicate (length errs - 1) (Counter ''bullmq.jobs.retried'') @ [Counter ''bullmq.jobs.failed'']
      \<and> j_attemptsMade (jw_job (fail_all J now B Q token errs ?w)) = VNum (real (Suc a + length errs))"
      using Cons.prems(1) False made same(2) by (intro Cons.IH) simp_all
    moreover obtain k where "length errs = Suc k" using False by (cases errs) simp_all
    ultimately show ?thesis using out False by (simp add: replicate_append_same)
  qed
qed simp

section \<open>Claims\<close>

text \<open>
  C2. Accounting of failures: Job.moveToFailed counts an attempt exactly when the backend accepted
  the transition. On success \<open>attemptsMade\<close> has grown by one, the failure reason is the
  error's message and exactly one backend call was made: the one that carries out the
  decision. The job is moved to the failed set precisely when no attempt is left, the
  error is unrecoverable or the back-off strategy answered -1. When the method rejects,
  \<open>attemptsMade\<close> and \<open>finishedOn\<close> are unchanged.
\<close>

theorem moveToFailed_accounts:
  assumes run: "moveToFailed J r stk now B Q dst err token fetchNext w = (out, w')"
    and J: "\<And>v. \<exists>s. json_stringify J v = Inr s"
  shows "case out of
      Inl e \<Rightarrow> j_attemptsMade (jw_job w') = j_attemptsMade (jw_job w)
             \<and> j_finishedOn (jw_job w') = j_finishedOn (jw_job w)
    | Inr res \<Rightarrow> j_attemptsMade (jw_job w') = js_plus (j_attemptsMade (jw_job w)) 1
             \<and> j_failedReason (jw_job w') = Some (err_message err)
             \<and> (\<exists>action flds fin.
                  perform now B token fetchNext flds (failing_job err (jw_job w)) action (jw_be w)
                    = (Inr (res, fin), jw_be w')
                  \<and> (action = Fail \<longleftrightarrow>
                       \<not> retriable err (jw_job w)
                       \<or> calculate r stk (backoff_of_val (oprop (j_opts (jw_job w)) ''backoff''))
                           (int_of_val (j_attemptsMade (jw_job w)) + 1) err
                           ((jw_job w)\<lparr>j_failedReason := Some (err_message err)\<rparr>) (jq_backoffStrategy Q)
                         = Inr (Some (-1))))"
proof -
  let ?job = "(jw_job w)\<lparr>j_failedReason := Some (err_message err)\<rparr>"
  obtain st where st: "json_stringify J (stacktrace_val (j_stacktrace (failing_job err (jw_job w)))) = Inr st"
    using J by blast
  show ?thesis
  proof (cases "shouldRetryJob r stk Q err ?job")
    case (Inl e)
    with run show ?thesis by (auto simp: moveToFailed_strategy_error)
  next
    case (Inr x)
    obtain sr rd where x: "x = (sr, rd)" by force
    let ?flds = "fieldsToUpdate (failing_job err (jw_job w)) st (trace_metadata (failing_job err (jw_job w)) dst)"
    let ?p = "perform now B token fetchNext ?flds (failing_job err (jw_job w)) (action_of sr rd) (jw_be w)"
    have action: "action_of sr rd = Fail \<longleftrightarrow>
        \<not> retriable err (jw_job w)
        \<or> calculate r stk (backoff_of_val (oprop (j_opts (jw_job w)) ''backoff''))
            (int_of_val (j_attemptsMade (jw_job w)) + 1) err ?job (jq_backoffStrategy Q) = Inr (Some (-1))"
      using Inr x by (cases "retriable err ?job")
        (auto simp: shouldRetryJob_not_retriable shouldRetryJob_retriable action_of_def split: if_splits)
    obtain y s where p: "?p = (y, s)" by force
    from run moveToFailed_run [OF Inr [unfolded x] st refl] p
    have "(out, w') = (case (y, s) of
       (Inl e, s) \<Rightarrow> (Inl e, w\<lparr>jw_job := failing_job err (jw_job w), jw_be := s\<rparr>)
     | (Inr (res, finishedOn), s) \<Rightarrow>
         (Inr res,
          w\<lparr>jw_job := failed_job err (jw_job w) rd finishedOn, jw_be := s,
            jw_out := jw_out w @ job_metrics now Q (metric_of (action_of sr rd)) (failing_job err (jw_job w))\<rparr>))"
      by simp
    note res = this
    show ?thesis
    proof (cases y)
      case (Inl e)
      with res show ?thesis by simp
    next
      case (Inr z)
      obtain a fin where z: "z = (a, fin)" by force
      with res Inr have out: "out = Inr a" and be: "jw_be w' = s"
        and job: "jw_job w' = failed_job err (jw_job w) rd fin" by simp_all
      from p Inr z be have "?p = (Inr (a, fin), jw_be w')" by simp
      with action out job show ?thesis
        by (simp only: sum.case failed_job_fields simp_thms) blast
    qed
  qed
qed

definition demo_queue :: job_queue where
  "demo_queue = \<lparr>jq_name = ''q'', jq_qualifiedName = ''bull:q'', jq_backoffStrategy = None, jq_meter = True\<rparr>"

definition demo_world :: "jsobj \<Rightarrow> string list jworld" where
  "demo_world opts = \<lparr>jw_job = new_Job 0 (Some ''a'') VNull opts (Some ''1''), jw_be = [], jw_out = []\<rparr>"

lemma demo_lib_total: "\<exists>s. json_stringify demo_lib v = Inr s"
  by (simp add: demo_lib_def)

lemma demo_world_failed:
  "moveToFailed demo_lib 0 None 5 log_backend demo_queue None (new_UnrecoverableError None None) ''t'' False
     (demo_world [(''attempts'', VNum 3)])
   = (Inr None,
      \<lparr>jw_job = failed_job (new_UnrecoverableError None None) (jw_job (demo_world [(''attempts'', VNum 3)])) (Some 0) (VNum 1),
       jw_be = [''moveToFailed''], jw_out = [Counter ''bullmq.jobs.failed'']\<rparr>)"
  by (subst moveToFailed_run [where sr = False and rd = "Some 0" and st = "Some ''{}''"])
     (simp_all add: shouldRetryJob_def new_UnrecoverableError_def new_err_def demo_lib_def action_of_def
        log_backend_def logged_def demo_world_def job_metrics_def demo_queue_def)

theorem moveToFailed_accounts_witness:
  "\<exists>w'. moveToFailed demo_lib 0 None 5 log_backend demo_queue None (new_UnrecoverableError None None) ''t'' False
          (demo_world [(''attempts'', VNum 3)]) = (Inr None, w')
        \<and> j_attemptsMade (jw_job w') = VNum 1"
  using moveToFailed_accounts [OF demo_world_failed demo_lib_total] demo_world_failed
  by (simp add: demo_world_def)


lemma accepts_log_backend: "accepts_failures log_backend"
  by (simp add: accepts_failures_def log_backend_def logged_def)


lemma shouldRetryJob_no_backoff:
  "\<not> truthy (oprop (j_opts job) ''backoff'') \<Longrightarrow> \<exists>x. shouldRetryJob r stk Q err job = Inr x"
  by (auto simp: shouldRetryJob_def calculate_def backoff_of_val_def)

lemma moveToFailed_stacktrace:
  assumes "moveToFailed J r stk now B Q dst err token fn w = (out, w')"
    and "\<And>v. \<exists>s. json_stringify J v = Inr s" and "\<not> truthy (oprop (j_opts (jw_job w)) ''backoff'')"
  shows "j_stacktrace (jw_job w') = j_stacktrace (updateStacktrace err (jw_job w))
       \<and> j_opts (jw_job w') = j_opts (jw_job w)"
proof -
  obtain st where st: "json_stringify J (stacktrace_val (j_stacktrace (failing_job err (jw_job w)))) = Inr st"
    using assms(2) by blast
  obtain sr rd where sh: "shouldRetryJob r stk Q err ((jw_job w)\<lparr>j_failedReason := Some (err_message err)\<rparr>) = Inr (sr, rd)"
    using shouldRetryJob_no_backoff [of "(jw_job w)\<lparr>j_failedReason := Some (err_message err)\<rparr>" r stk Q err] assms(3)
    by auto
  have f: "j_stacktrace (failing_job err (jw_job w)) = j_stacktrace (updateStacktrace err (jw_job w))"
    by (simp add: failing_job_def updateStacktrace_def Let_def)
  have g: "j_stacktrace (failed_job err (jw_job w) rd fin) = j_stacktrace (failing_job err (jw_job w))" for fin
    by (simp add: failed_job_def Let_def)
  let ?flds = "fieldsToUpdate (failing_job err (jw_job w)) st (trace_metadata (failing_job err (jw_job w)) dst)"
  obtain y s where p: "perform now B token fn ?flds (failing_job err (jw_job w)) (action_of sr rd) (jw_be w) = (y, s)"
    by force
  from assms(1) moveToFailed_run [OF sh st refl, where now = now and B = B and token = token and fetchNext = fn] p f g
  show ?thesis by (cases y) auto
qed

text \<open>
  A failure whose report is retried is recorded twice: moveToFailed appends the stack trace
  before it calls the backend, so when the backend rejects (a lost connection, say) and the
  worker calls it again, the job carries the same trace once per call.
\<close>

theorem moveToFailed_repeats_trace:
  assumes "\<And>v. \<exists>s. json_stringify J v = Inr s" and "\<not> truthy (oprop (j_opts (jw_job w)) ''backoff'')"
    and "oprop (j_opts (jw_job w)) ''stackTraceLimit'' = VUndef"
    and "err_stack err = Some st" and "st \<noteq> []"
    and "moveToFailed J r stk now B Q dst err token fn w = (Inl e, w1)"
    and "moveToFailed J r stk now B Q dst err token fn w1 = (Inr res, w2)"
  shows "j_stacktrace (jw_job w2) = Some (with_default [] (j_stacktrace (jw_job w)) @ [VStr st, VStr st])"
proof -
  from moveToFailed_stacktrace [OF assms(6,1,2)] have
    1: "j_stacktrace (jw_job w1) = j_stacktrace (updateStacktrace err (jw_job w))" "j_opts (jw_job w1) = j_opts (jw_job w)"
    by simp_all
  from moveToFailed_stacktrace [OF assms(7,1)] assms(2) 1(2) have
    2: "j_stacktrace (jw_job w2) = j_stacktrace (updateStacktrace err (jw_job w1))" by simp
  from 1 2 assms(3-5) show ?thesis by (simp add: updateStacktrace_def Let_def with_default_def)
qed

text \<open>A backend that rejects its first call.\<close>

definition outage_backend :: "string list queue_backend" where
  "outage_backend = log_backend\<lparr>be_moveToFailed := (\<lambda>_ _ _ _ _ _ s.
     if s = [] then (Inl (new_ConnectionClosedError None None), [''down''])
     else (Inr (None, VNum 1), s @ [''moveToFailed'']))\<rparr>"

lemma outage_moveToFailed:
  assumes "jw_job w = job" and "\<not> truthy (oprop (j_opts job) ''backoff'')" and "oprop (j_opts job) ''attempts'' = VNum 0"
    and "j_attemptsMade job = VNum 0"
  shows "\<exists>w'. moveToFailed demo_lib 0 None 5 outage_backend demo_queue None err ''t'' False w
     = (if jw_be w = [] then Inl (new_ConnectionClosedError None None) else Inr None, w')
       \<and> jw_be w' = (if jw_be w = [] then [''down''] else jw_be w @ [''moveToFailed''])
       \<and> (jw_be w = [] \<longrightarrow> jw_job w' = failing_job err job)"
proof -
  have sh: "shouldRetryJob 0 None demo_queue err ((jw_job w)\<lparr>j_failedReason := Some (err_message err)\<rparr>) = Inr (False, Some 0)"
    using assms by (simp add: shouldRetryJob_def)
  have st: "json_stringify demo_lib v = Inr (Some ''{}'')" for v by (simp add: demo_lib_def)
  show ?thesis
    unfolding moveToFailed_run [OF sh st refl] using assms(1)
    by (simp add: action_of_def outage_backend_def)
qed

theorem moveToFailed_repeats_trace_witness:
  "\<exists>w1 w2. let err = new_err ErrorClass (Some ''at f'') ''boom'' in
     moveToFailed demo_lib 0 None 5 outage_backend demo_queue None err ''t'' False (demo_world [])
       = (Inl (new_ConnectionClosedError None None), w1)
     \<and> moveToFailed demo_lib 0 None 5 outage_backend demo_queue None err ''t'' False w1 = (Inr None, w2)
     \<and> j_stacktrace (jw_job w2) = Some [VStr ''at f'', VStr ''at f'']"
proof -
  let ?err = "new_err ErrorClass (Some ''at f'') ''boom''" and ?w = "demo_world []"
  have job: "\<not> truthy (oprop (j_opts (jw_job ?w)) ''backoff'')" "oprop (j_opts (jw_job ?w)) ''attempts'' = VNum 0"
      "j_attemptsMade (jw_job ?w) = VNum 0" "oprop (j_opts (jw_job ?w)) ''stackTraceLimit'' = VUndef"
      "j_stacktrace (jw_job ?w) = None" "jw_be ?w = []"
    by (simp_all add: demo_world_def new_Job_opts new_Job_backoff normalize_val_def)
  from outage_moveToFailed [OF refl job(1-3), of ?err] job(6) obtain w1 where
    1: "moveToFailed demo_lib 0 None 5 outage_backend demo_queue None ?err ''t'' False ?w = (Inl (new_ConnectionClosedError None None), w1)"
    and be: "jw_be w1 = [''down'']" and j1: "jw_job w1 = failing_job ?err (jw_job ?w)" by auto
  from outage_moveToFailed [of w1 "failing_job ?err (jw_job ?w)" ?err] j1 be job obtain w2 where
    2: "moveToFailed demo_lib 0 None 5 outage_backend demo_queue None ?err ''t'' False w1 = (Inr None, w2)" by auto
  from moveToFailed_repeats_trace [OF demo_lib_total job(1,4) _ _ 1 2] job(5)
  have "j_stacktrace (jw_job w2) = Some [VStr ''at f'', VStr ''at f'']" by (simp add: new_err_def with_default_def)
  with 1 2 show ?thesis by (auto simp: Let_def)
qed

end
