(* ===== verification/Redis_Client.thy ===== *)
theory Redis_Client
  imports Queue_Backend Js_Strings
begin

text \<open>
  What the Redis adapter of src/classes/redis-queue-backend.ts is built on: the client
  that runs commands, and the object
  the adapter is (its fields, constructor, keys and the versioned execution of Lua scripts).

  The client is third-party code and therefore a parameter: \<open>redis_env\<close> holds its calls
  next to msgpackr's \<open>pack\<close>, the JSON library, the clock and the version comparison of
  semver. A client call runs on the datastore state \<open>'s\<close> and resolves or rejects.
\<close>

section \<open>Operations on the datastore\<close>

definition b_ret :: "'a \<Rightarrow> ('s, 'a) backend_op" where
  "b_ret a s = (Inr a, s)"

definition b_throw :: "js_error \<Rightarrow> ('s, 'a) backend_op" where
  "b_throw e s = (Inl e, s)"

definition b_lift :: "(js_error, 'a) result \<Rightarrow> ('s, 'a) backend_op" where
  "b_lift r s = (r, s)"

definition b_then :: "('s, 'a) backend_op \<Rightarrow> ('a \<Rightarrow> ('s, 'b) backend_op) \<Rightarrow> ('s, 'b) backend_op" where
  "b_then m f s = (case m s of (Inl e, s') \<Rightarrow> (Inl e, s') | (Inr a, s') \<Rightarrow> f a s')"

text \<open>\<open>try { m } catch (e) { h }\<close>.\<close>

definition b_catch :: "('s, 'a) backend_op \<Rightarrow> (js_error \<Rightarrow> ('s, 'a) backend_op) \<Rightarrow> ('s, 'a) backend_op" where
  "b_catch m h s = (case m s of (Inl e, s') \<Rightarrow> h e s' | (Inr a, s') \<Rightarrow> (Inr a, s'))"

lemma b_monad [simp]:
  "b_then (b_ret a) f = f a"
  "b_then m b_ret = m"
  "b_then (b_throw e) f = b_throw e"
  by (auto simp: b_then_def b_ret_def b_throw_def fun_eq_iff split: prod.split sum.split)

lemma b_then_assoc: "b_then (b_then m f) g = b_then m (\<lambda>a. b_then (f a) g)"
  by (auto simp: b_then_def fun_eq_iff split: prod.split sum.split)

section \<open>The client and its libraries\<close>

text \<open>
  \<open>rv_client\<close> is the promise of the connected client, \<open>rv_call\<close> one command (a Redis
  command by its client method name, or a registered script by its versioned name), and
  \<open>rv_exec\<close> the execution of a queued batch, a \<open>MULTI\<close> transaction when its first argument
  is true and a plain pipeline otherwise: one error-or-null and reply per queued command.
\<close>

record 's redis_env =
  rv_client :: "('s, unit) backend_op"
  rv_call :: "string \<Rightarrow> jsval list \<Rightarrow> ('s, jsval) backend_op"
  rv_exec :: "bool \<Rightarrow> (string \<times> jsval list) list \<Rightarrow> ('s, (js_error option \<times> jsval) list) backend_op"
  rv_pack :: "jsval \<Rightarrow> jsval"
  rv_json :: json_lib
  rv_now :: real
  rv_stk :: "string option"
  rv_coerce :: "string \<Rightarrow> string"
  rv_lt :: "string \<Rightarrow> string \<Rightarrow> bool"

section \<open>The adapter object\<close>

record redis_queue =
  rq_redisPrefix :: string
  rq_name :: string
  rq_keys :: "(string, string) jsmap"
  rq_toKey :: "string \<Rightarrow> string"
  rq_opts :: jsobj
  rq_closing :: bool
  rq_redisVersion :: string
  rq_databaseType :: string
  rq_version :: string
  rq_blocking :: bool
  rq_ownsConnection :: bool
  rq_canBlockFor1Ms :: bool
  rq_canDoubleTimeout :: bool
  rq_moveToFinishedKeys :: "jsval list"

text \<open>What the connection reports about its server; the two capabilities are those of the
  connection that blocks (\<open>blockingConnection ?? connection\<close>).\<close>

record redis_server =
  sv_version :: string
  sv_databaseType :: string
  sv_canBlockFor1Ms :: bool
  sv_canDoubleTimeout :: bool

definition key_in :: "(string, string) jsmap \<Rightarrow> string \<Rightarrow> jsval" where
  "key_in keys k = (case map_get keys k of Some s \<Rightarrow> VStr s | None \<Rightarrow> VUndef)"

definition new_RedisQueueBackend ::
  "string \<Rightarrow> redis_server \<Rightarrow> string \<Rightarrow> (string, string) jsmap \<Rightarrow> (string \<Rightarrow> string) \<Rightarrow> jsobj \<Rightarrow> bool \<Rightarrow> bool
     \<Rightarrow> redis_queue" where
  "new_RedisQueueBackend packageVersion connection name keys toKeyFn opts blockingConnection ownsConnection =
     \<lparr>rq_redisPrefix = (case oprop opts ''prefix'' of VStr p \<Rightarrow> p | _ \<Rightarrow> ''bull''),
      rq_name = name,
      rq_keys = keys,
      rq_toKey = toKeyFn,
      rq_opts = opts,
      rq_closing = False,
      rq_redisVersion = sv_version connection,
      rq_databaseType = sv_databaseType connection,
      rq_version = packageVersion,
      rq_blocking = blockingConnection,
      rq_ownsConnection = ownsConnection,
      rq_canBlockFor1Ms = sv_canBlockFor1Ms connection,
      rq_canDoubleTimeout = sv_canDoubleTimeout connection,
      rq_moveToFinishedKeys =
        map (key_in keys) [''wait'', ''active'', ''prioritized'', ''events'', ''stalled'', ''limiter'',
                           ''delayed'', ''paused'', ''meta'', ''pc'']
        @ [VUndef, VUndef, VUndef, VUndef]\<rparr>"

text \<open>A sibling for another queue on the same connection.\<close>

definition forQueue :: "redis_server \<Rightarrow> redis_queue \<Rightarrow> string \<Rightarrow> string option \<Rightarrow> redis_queue" where
  "forQueue connection B queueName pre =
     (let resolvedPrefix = with_default (rq_redisPrefix B) pre
      in new_RedisQueueBackend (rq_version B) connection queueName (getKeys resolvedPrefix queueName)
           (toKey resolvedPrefix queueName)
           (map_set ''prefix'' (VStr resolvedPrefix) (rq_opts B)) (rq_blocking B) False)"

definition qualifiedName :: "redis_queue \<Rightarrow> string" where
  "qualifiedName B = rq_redisPrefix B @ '':'' @ rq_name B"

definition clientName :: "(string \<Rightarrow> string) \<Rightarrow> redis_queue \<Rightarrow> string \<Rightarrow> string" where
  "clientName base64 B sfx = rq_redisPrefix B @ '':'' @ base64 (rq_name B) @ sfx"

definition minimumBlockTimeout :: "redis_queue \<Rightarrow> real" where
  "minimumBlockTimeout B = (if rq_canBlockFor1Ms B then 0.001 else 0.002)"

abbreviation qkey :: "redis_queue \<Rightarrow> string \<Rightarrow> jsval" where
  "qkey B k \<equiv> key_in (rq_keys B) k"

abbreviation tkey :: "redis_queue \<Rightarrow> string \<Rightarrow> jsval" where
  "tkey B t \<equiv> VStr (rq_toKey B t)"

text \<open>The command name carries the package version, so that scripts of different releases
  never mix on one server.\<close>

definition versioned :: "redis_queue \<Rightarrow> string \<Rightarrow> string" where
  "versioned B commandName = commandName @ '':'' @ rq_version B"

definition execCommand :: "'s redis_env \<Rightarrow> redis_queue \<Rightarrow> string \<Rightarrow> jsval list \<Rightarrow> ('s, jsval) backend_op" where
  "execCommand E B commandName args = rv_call E (versioned B commandName) args"

definition with_client :: "'s redis_env \<Rightarrow> ('s, 'a) backend_op \<Rightarrow> ('s, 'a) backend_op" where
  "with_client E m = b_then (rv_client E) (\<lambda>_. m)"

text \<open>
  The adapter's \<open>finishedErrors\<close> on a reply: the switch compares with \<open>===\<close>, so that a
  reply that is not a number takes the default branch and is rendered into the message.
\<close>

definition finished_error ::
  "'s redis_env \<Rightarrow> jsval \<Rightarrow> string option \<Rightarrow> string option \<Rightarrow> string \<Rightarrow> string option \<Rightarrow> js_error" where
  "finished_error E code jobId parentKey command state =
     (case code of
        VNum n \<Rightarrow> finishedErrors (rv_stk E) \<lfloor>n\<rfloor> jobId parentKey command state
      | v \<Rightarrow> (new_err ErrorClass (rv_stk E)
                (''Unknown code '' @ js_string (rv_json E) v @ '' error for '' @ render_opt jobId @ ''. ''
                   @ command))
              \<lparr>err_code := (case v of VStr s \<Rightarrow> Some (StrCode s) | _ \<Rightarrow> None)\<rparr>)"

text \<open>\<open>if (result < 0) throw this.finishedErrors(...)\<close>.\<close>

definition reject_negative ::
  "'s redis_env \<Rightarrow> string option \<Rightarrow> string option \<Rightarrow> string \<Rightarrow> string option \<Rightarrow> jsval \<Rightarrow> ('s, jsval) backend_op" where
  "reject_negative E jobId parentKey command state result =
     (if js_negative (rv_json E) result
      then b_throw (finished_error E result jobId parentKey command state)
      else b_ret result)"

section \<open>A replaying client\<close>

text \<open>
  A concrete client for the examples: it records every command and answers from a list of
  replies, with \<open>null\<close> once the list is used up.
\<close>

type_synonym replay = "(string \<times> jsval list) list \<times> jsval list"

definition next_reply :: "jsval list \<Rightarrow> jsval" where
  "next_reply rs = (case rs of [] \<Rightarrow> VNull | r # _ \<Rightarrow> r)"

definition replay_call :: "string \<Rightarrow> jsval list \<Rightarrow> (replay, jsval) backend_op" where
  "replay_call name args st = (Inr (next_reply (snd st)), (fst st @ [(name, args)], tl (snd st)))"

definition replay_exec :: "bool \<Rightarrow> (string \<times> jsval list) list \<Rightarrow> (replay, (js_error option \<times> jsval) list) backend_op" where
  "replay_exec multi cmds st =
     (Inr (map (\<lambda>i. (None, next_reply (drop i (snd st)))) [0..<length cmds]),
      (fst st @ cmds, drop (length cmds) (snd st)))"

definition replay_env :: "replay redis_env" where
  "replay_env =
     \<lparr>rv_client = b_ret (), rv_call = replay_call, rv_exec = replay_exec, rv_pack = (\<lambda>v. v),
      rv_json = demo_lib, rv_now = 1000, rv_stk = None, rv_coerce = id, rv_lt = (\<lambda>a b. False)\<rparr>"

definition demo_server :: redis_server where
  "demo_server = \<lparr>sv_version = ''7.2.0'', sv_databaseType = ''redis'', sv_canBlockFor1Ms = True,
                  sv_canDoubleTimeout = True\<rparr>"

definition demo_backend :: redis_queue where
  "demo_backend =
     new_RedisQueueBackend ''5.0.0'' demo_server ''mails'' (getKeys ''bull'' ''mails'') (toKey ''bull'' ''mails'')
       [(''prefix'', VStr ''bull'')] True True"

lemma replay_env_simps [simp]:
  "rv_client replay_env = b_ret ()" "rv_call replay_env = replay_call" "rv_exec replay_env = replay_exec"
  "rv_pack replay_env = (\<lambda>v. v)" "rv_json replay_env = demo_lib" "rv_stk replay_env = None"
  "rv_now replay_env = 1000"
  by (simp_all add: replay_env_def)

end
