(* ===== verification/Redis_Scripts.thy ===== *)
theory Redis_Scripts
  imports Redis_Client
begin

text \<open>
  The KEYS and ARGV that src/classes/redis-queue-backend.ts builds for its Lua scripts, one
  definition per builder, in the order of the source. A job id may be missing: inside a key
  it is then rendered as the word \<open>undefined\<close>, as an argument it is \<open>undefined\<close>.
\<close>

abbreviation jkey :: "redis_queue \<Rightarrow> string option \<Rightarrow> jsval" where
  "jkey B jobId \<equiv> tkey B (render_opt jobId)"

definition key_str :: "(string, string) jsmap \<Rightarrow> string \<Rightarrow> string" where
  "key_str keys k = render_opt (map_get keys k)"

definition str_or_null :: "string option \<Rightarrow> jsval" where
  "str_or_null s = (if truthy_str s then opt_str_val s else VNull)"

definition flag :: "bool \<Rightarrow> jsval" where
  "flag b = VStr (if b then ''1'' else ''0'')"

definition num_flag :: "bool \<Rightarrow> jsval" where
  "num_flag b = VNum (if b then 1 else 0)"

section \<open>Adding jobs\<close>

definition addDelayedJobArgs :: "'s redis_env \<Rightarrow> job_json \<Rightarrow> jsval \<Rightarrow> jsval list \<Rightarrow> (string, string) jsmap \<Rightarrow> jsval list" where
  "addDelayedJobArgs E job encodedOpts args keysMap =
     map (key_in keysMap) [''marker'', ''meta'', ''id'', ''delayed'', ''completed'', ''events'']
     @ [rv_pack E (VArr args), VStr (jj_data job), encodedOpts]"

definition addPrioritizedJobArgs :: "'s redis_env \<Rightarrow> job_json \<Rightarrow> jsval \<Rightarrow> jsval list \<Rightarrow> (string, string) jsmap \<Rightarrow> jsval list" where
  "addPrioritizedJobArgs E job encodedOpts args keysMap =
     map (key_in keysMap) [''marker'', ''meta'', ''id'', ''prioritized'', ''delayed'', ''completed'',
                           ''active'', ''events'', ''pc'']
     @ [rv_pack E (VArr args), VStr (jj_data job), encodedOpts]"

definition addParentJobArgs :: "'s redis_env \<Rightarrow> job_json \<Rightarrow> jsval \<Rightarrow> jsval list \<Rightarrow> (string, string) jsmap \<Rightarrow> jsval list" where
  "addParentJobArgs E job encodedOpts args keysMap =
     map (key_in keysMap) [''meta'', ''id'', ''delayed'', ''waiting-children'', ''completed'', ''events'']
     @ [rv_pack E (VArr args), VStr (jj_data job), encodedOpts]"

definition addStandardJobArgs :: "'s redis_env \<Rightarrow> job_json \<Rightarrow> jsval \<Rightarrow> jsval list \<Rightarrow> (string, string) jsmap \<Rightarrow> jsval list" where
  "addStandardJobArgs E job encodedOpts args keysMap =
     map (key_in keysMap) [''wait'', ''paused'', ''meta'', ''id'', ''completed'', ''delayed'', ''active'',
                           ''events'', ''marker'']
     @ [rv_pack E (VArr args), VStr (jj_data job), encodedOpts]"

text \<open>
  The command that \<open>addJobToTransaction\<close> issues: the packed arguments and the choice of the
  script by the job's options.
\<close>

definition add_job_args :: "(string, string) jsmap \<Rightarrow> job_json \<Rightarrow> string option \<Rightarrow> parent_key_opts \<Rightarrow> jsval list" where
  "add_job_args keys job jobId parentKeyOpts =
     [key_in keys '''',
      VStr (with_default '''' jobId),
      opt_str_val (jj_name job),
      jj_timestamp job,
      str_or_null (jj_parentKey job),
      str_or_null (pk_parentDependenciesKey parentKeyOpts),
      jj_parent job,
      opt_str_val (jj_repeatJobKey job),
      (if truthy_str (jj_deduplicationId job)
       then VStr (key_str keys ''de'' @ '':'' @ the (jj_deduplicationId job)) else VNull)]"

definition positive_number :: "jsval \<Rightarrow> bool" where
  "positive_number v = (case v of VNum n \<Rightarrow> 0 < n | _ \<Rightarrow> False)"

definition add_job_command ::
  "'s redis_env \<Rightarrow> (string, string) jsmap \<Rightarrow> job_json \<Rightarrow> string option \<Rightarrow> parent_key_opts \<Rightarrow> string \<times> jsval list" where
  "add_job_command E keys job jobId parentKeyOpts =
     (let args = add_job_args keys job jobId parentKeyOpts;
          encodedOpts = rv_pack E (VObj (optsAsJSON (jj_opts job)))
      in if pk_addToWaitingChildren parentKeyOpts
         then (''addParentJob'', addParentJobArgs E job encodedOpts args keys)
         else if positive_number (oprop (jj_opts job) ''delay'')
         then (''addDelayedJob'', addDelayedJobArgs E job encodedOpts args keys)
         else if truthy (oprop (jj_opts job) ''priority'')
         then (''addPrioritizedJob'', addPrioritizedJobArgs E job encodedOpts args keys)
         else (''addStandardJob'', addStandardJobArgs E job encodedOpts args keys))"

section \<open>Pausing, schedulers, removal, locks\<close>

definition pauseArgs :: "redis_queue \<Rightarrow> bool \<Rightarrow> bool \<Rightarrow> jsval list" where
  "pauseArgs B pause emitEvent =
     (let src = (if pause then ''wait'' else ''paused'');
          dst = (if pause then ''paused'' else ''wait'')
      in map (tkey B) [src, dst, ''meta'', ''prioritized'']
         @ map (qkey B) [''events'', ''delayed'', ''marker'']
         @ [VStr (if pause then ''paused'' else ''resumed''), flag emitEvent])"

definition removeDeduplicationKeyArgs :: "redis_queue \<Rightarrow> string \<Rightarrow> string option \<Rightarrow> jsval list" where
  "removeDeduplicationKeyArgs B deduplicationId jobId =
     [VStr (key_str (rq_keys B) ''de'' @ '':'' @ deduplicationId), opt_str_val jobId]"

definition scheduler_keys :: "string list" where
  "scheduler_keys = [''repeat'', ''delayed'', ''wait'', ''paused'', ''meta'', ''prioritized'', ''marker'',
                     ''id'', ''events'', ''pc'']"

definition producer_key :: "redis_queue \<Rightarrow> string option \<Rightarrow> jsval" where
  "producer_key B producerId = (if truthy_str producerId then tkey B (the producerId) else VStr '''')"

definition addJobSchedulerArgs ::
  "'s redis_env \<Rightarrow> redis_queue \<Rightarrow> string \<Rightarrow> jsval \<Rightarrow> string option \<Rightarrow> jsobj \<Rightarrow> jsobj \<Rightarrow> jsobj \<Rightarrow> string option
     \<Rightarrow> jsval list" where
  "addJobSchedulerArgs E B jobSchedulerId nextMillis templateData templateOpts opts delayedJobOpts producerId =
     map (qkey B) (scheduler_keys @ [''active''])
     @ [nextMillis, rv_pack E (VObj opts), VStr jobSchedulerId, opt_str_val templateData,
        rv_pack E (VObj (optsAsJSON templateOpts)), rv_pack E (VObj (optsAsJSON delayedJobOpts)),
        VNum (rv_now E), qkey B '''', producer_key B producerId]"

definition updateJobSchedulerArgs ::
  "'s redis_env \<Rightarrow> redis_queue \<Rightarrow> string \<Rightarrow> jsval \<Rightarrow> string option \<Rightarrow> jsobj \<Rightarrow> string option \<Rightarrow> jsval list" where
  "updateJobSchedulerArgs E B jobSchedulerId nextMillis templateData delayedJobOpts producerId =
     map (qkey B) scheduler_keys @ [producer_key B producerId, qkey B ''active'']
     @ [nextMillis, VStr jobSchedulerId, opt_str_val templateData,
        rv_pack E (VObj (optsAsJSON delayedJobOpts)), VNum (rv_now E), qkey B '''', opt_str_val producerId]"

definition removeJobSchedulerArgs :: "redis_queue \<Rightarrow> string \<Rightarrow> jsval list" where
  "removeJobSchedulerArgs B jobSchedulerId =
     map (qkey B) [''repeat'', ''delayed'', ''events''] @ [VStr jobSchedulerId, qkey B '''']"

definition removeArgs :: "redis_queue \<Rightarrow> string option \<Rightarrow> bool \<Rightarrow> jsval list" where
  "removeArgs B jobId removeChildren =
     map (tkey B) [render_opt jobId, ''repeat'']
     @ [opt_str_val jobId, num_flag removeChildren, tkey B '''']"

definition removeUnprocessedChildrenArgs :: "redis_queue \<Rightarrow> string option \<Rightarrow> jsval list" where
  "removeUnprocessedChildrenArgs B jobId = [jkey B jobId, qkey B ''meta'', tkey B '''', opt_str_val jobId]"

definition extendLockArgs :: "redis_queue \<Rightarrow> string option \<Rightarrow> string \<Rightarrow> real \<Rightarrow> jsval list" where
  "extendLockArgs B jobId token duration =
     [VStr (rq_toKey B (render_opt jobId) @ '':lock''), qkey B ''stalled'', VStr token, VNum duration,
      opt_str_val jobId]"

definition extendLocksArgs :: "'s redis_env \<Rightarrow> redis_queue \<Rightarrow> string list \<Rightarrow> string list \<Rightarrow> real \<Rightarrow> jsval list" where
  "extendLocksArgs E B jobIds tokens duration =
     [qkey B ''stalled'', tkey B '''', rv_pack E (VArr (map VStr tokens)), rv_pack E (VArr (map VStr jobIds)),
      VNum duration]"

definition updateProgressArgs :: "redis_queue \<Rightarrow> string option \<Rightarrow> jsval \<Rightarrow> jsval list" where
  "updateProgressArgs B jobId progressJson =
     [jkey B jobId, qkey B ''events'', qkey B ''meta'', opt_str_val jobId, progressJson]"

definition addLogArgs :: "redis_queue \<Rightarrow> string option \<Rightarrow> string \<Rightarrow> jsval \<Rightarrow> jsval list" where
  "addLogArgs B jobId logRow keepLogs =
     [jkey B jobId, VStr (rq_toKey B (render_opt jobId) @ '':logs''), opt_str_val jobId, VStr logRow,
      (if truthy keepLogs then keepLogs else VStr '''')]"

section \<open>Finishing a job\<close>

text \<open>\<open>objectToFlatArray\<close> on an object of arbitrary values.\<close>

fun flat_array :: "jsobj \<Rightarrow> jsval list" where
  "flat_array [] = []"
| "flat_array ((k, v) # obj) = (if v = VUndef then flat_array obj else VStr k # v # flat_array obj)"

definition packed_fields :: "'s redis_env \<Rightarrow> jsobj option \<Rightarrow> jsval" where
  "packed_fields E upd = (case upd of None \<Rightarrow> VUndef | Some obj \<Rightarrow> rv_pack E (VArr (flat_array obj)))"

definition finished_opts :: "redis_queue \<Rightarrow> job \<Rightarrow> string \<Rightarrow> jsval \<Rightarrow> jsobj" where
  "finished_opts B job token keepJobs =
     (let opts = rq_opts B; maxDataPoints = vprop (oprop opts ''metrics'') ''maxDataPoints'' in
      [(''token'', VStr token),
       (''name'', oprop opts ''name''),
       (''keepJobs'', keepJobs),
       (''limiter'', oprop opts ''limiter''),
       (''lockDuration'', oprop opts ''lockDuration''),
       (''attempts'', oprop (j_opts job) ''attempts''),
       (''maxMetricsSize'', if truthy maxDataPoints then maxDataPoints else VStr ''''),
       (''fpof'', VBool (truthy (oprop (j_opts job) ''failParentOnFailure''))),
       (''cpof'', VBool (truthy (oprop (j_opts job) ''continueParentOnFailure''))),
       (''idof'', VBool (truthy (oprop (j_opts job) ''ignoreDependencyOnFailure''))),
       (''rdof'', VBool (truthy (oprop (j_opts job) ''removeDependencyOnFailure'')))])"

definition moveToFinishedArgs ::
  "'s redis_env \<Rightarrow> redis_queue \<Rightarrow> job \<Rightarrow> jsval \<Rightarrow> string \<Rightarrow> jsval \<Rightarrow> string \<Rightarrow> string \<Rightarrow> real \<Rightarrow> bool \<Rightarrow> jsobj option
     \<Rightarrow> jsval list" where
  "moveToFinishedArgs E B job val propVal shouldRemove target token timestamp fetchNext fieldsUpd =
     (let workerKeepJobs = oprop (rq_opts B) (if target = ''completed'' then ''removeOnComplete'' else ''removeOnFail'');
          keys = (rq_moveToFinishedKeys B)
                   [10 := qkey B target,
                    11 := tkey B (with_default '''' (j_id job)),
                    12 := tkey B (''metrics:'' @ target),
                    13 := qkey B ''marker''];
          keepJobs = getKeepJobs shouldRemove workerKeepJobs
      in keys
         @ [opt_str_val (j_id job), VNum timestamp, VStr propVal,
            (if val = VUndef then VStr ''null'' else val), VStr target,
            num_flag (fetchNext \<and> \<not> rq_closing B),
            qkey B '''', rv_pack E (VObj (finished_opts B job token keepJobs)),
            packed_fields E fieldsUpd])"

definition moveToCompletedArgs ::
  "'s redis_env \<Rightarrow> redis_queue \<Rightarrow> job \<Rightarrow> jsval \<Rightarrow> jsval \<Rightarrow> string \<Rightarrow> bool \<Rightarrow> jsval list" where
  "moveToCompletedArgs E B job retval removeOnComplete token fetchNext =
     moveToFinishedArgs E B job retval ''returnvalue'' removeOnComplete ''completed'' token (rv_now E) fetchNext None"

definition moveToFailedArgs ::
  "'s redis_env \<Rightarrow> redis_queue \<Rightarrow> job \<Rightarrow> string option \<Rightarrow> jsval \<Rightarrow> string \<Rightarrow> bool \<Rightarrow> jsobj option \<Rightarrow> jsval list" where
  "moveToFailedArgs E B job failedReason removeOnFailed token fetchNext upd =
     moveToFinishedArgs E B job (opt_str_val failedReason) ''failedReason'' removeOnFailed ''failed'' token
       (rv_now E) fetchNext upd"

section \<open>Getters\<close>

definition drainArgs :: "redis_queue \<Rightarrow> bool \<Rightarrow> jsval list" where
  "drainArgs B delayed =
     map (qkey B) [''wait'', ''paused'', ''delayed'', ''prioritized'', ''repeat''] @ [qkey B '''', flag delayed]"

definition removeChildDependencyArgs :: "redis_queue \<Rightarrow> string option \<Rightarrow> string option \<Rightarrow> jsval list" where
  "removeChildDependencyArgs B jobId parentKey = [qkey B '''', jkey B jobId, opt_str_val parentKey]"

definition transform_type :: "string \<Rightarrow> string" where
  "transform_type type = (if type = ''waiting'' then ''wait'' else type)"

definition getRangesArgs :: "redis_queue \<Rightarrow> string list \<Rightarrow> real \<Rightarrow> real \<Rightarrow> bool \<Rightarrow> jsval list" where
  "getRangesArgs B types start end asc =
     qkey B '''' # [VNum start, VNum end, flag asc] @ map (VStr \<circ> transform_type) types"

definition GET_JOBS_MAX_BACKFILL_ITERATIONS :: real where
  "GET_JOBS_MAX_BACKFILL_ITERATIONS = 5"

definition getJobsArgs :: "redis_queue \<Rightarrow> string list \<Rightarrow> real \<Rightarrow> real \<Rightarrow> bool \<Rightarrow> jsval list" where
  "getJobsArgs B types start end asc =
     qkey B '''' # [VNum start, VNum end, flag asc, VNum GET_JOBS_MAX_BACKFILL_ITERATIONS]
     @ map VStr (unique_set (map transform_type types))"

definition getCountsArgs :: "redis_queue \<Rightarrow> string list \<Rightarrow> jsval list" where
  "getCountsArgs B types = qkey B '''' # map (VStr \<circ> transform_type) types"

definition getCountsPerPriorityArgs :: "redis_queue \<Rightarrow> real list \<Rightarrow> jsval list" where
  "getCountsPerPriorityArgs B priorities = map (qkey B) [''wait'', ''prioritized''] @ map VNum priorities"

definition getDependencyCountsArgs :: "redis_queue \<Rightarrow> string option \<Rightarrow> string list \<Rightarrow> jsval list" where
  "getDependencyCountsArgs B jobId types =
     map (\<lambda>sfx. tkey B (render_opt jobId @ sfx)) ['':processed'', '':dependencies'', '':failed'', '':unsuccessful'']
     @ map VStr types"

definition isFinishedArgs :: "redis_queue \<Rightarrow> string option \<Rightarrow> bool \<Rightarrow> jsval list" where
  "isFinishedArgs B jobId returnValue =
     map (tkey B) [''completed'', ''failed'', render_opt jobId]
     @ [opt_str_val jobId, VStr (if returnValue then ''1'' else '''')]"

definition getStateArgs :: "redis_queue \<Rightarrow> string option \<Rightarrow> jsval list" where
  "getStateArgs B jobId =
     map (tkey B) [''completed'', ''failed'', ''delayed'', ''active'', ''wait'', ''paused'', ''waiting-children'',
                   ''prioritized'']
     @ [opt_str_val jobId]"

section \<open>Moving jobs\<close>

text \<open>\<open>JSON.stringify\<close> of a number is its decimal text.\<close>

definition changeDelayArgs :: "'s redis_env \<Rightarrow> redis_queue \<Rightarrow> string option \<Rightarrow> real \<Rightarrow> jsval list" where
  "changeDelayArgs E B jobId delay =
     map (qkey B) [''delayed'', ''meta'', ''marker'', ''events'']
     @ [VNum delay, VStr (num_to_string (rv_json E) (rv_now E)), opt_str_val jobId, jkey B jobId]"

definition changePriorityArgs :: "redis_queue \<Rightarrow> string option \<Rightarrow> jsval \<Rightarrow> bool option \<Rightarrow> jsval list" where
  "changePriorityArgs B jobId priority lifo =
     map (qkey B) [''wait'', ''paused'', ''meta'', ''prioritized'', ''active'', ''pc'', ''marker'']
     @ [(if priority = VUndef then VNum 0 else priority), tkey B '''', opt_str_val jobId,
        num_flag (with_default False lifo)]"

definition fetch_opts :: "redis_queue \<Rightarrow> string \<Rightarrow> jsval \<Rightarrow> jsobj" where
  "fetch_opts B token name =
     [(''token'', VStr token), (''lockDuration'', oprop (rq_opts B) ''lockDuration''),
      (''limiter'', oprop (rq_opts B) ''limiter''), (''name'', name)]"

definition moveToDelayedArgs ::
  "'s redis_env \<Rightarrow> redis_queue \<Rightarrow> string option \<Rightarrow> real \<Rightarrow> string \<Rightarrow> real \<Rightarrow> bool \<Rightarrow> jsobj option \<Rightarrow> bool \<Rightarrow> jsval list" where
  "moveToDelayedArgs E B jobId timestamp token delay skipAttempt upd fetch =
     (let fetchNext = (fetch \<and> \<not> rq_closing B) in
      map (qkey B) [''marker'', ''active'', ''prioritized'', ''delayed''] @ [jkey B jobId]
      @ map (qkey B) [''events'', ''meta'', ''stalled'', ''wait'', ''limiter'', ''paused'', ''pc'']
      @ [qkey B '''', VNum timestamp, opt_str_val jobId, VStr token, VNum delay, flag skipAttempt,
         packed_fields E upd, num_flag fetchNext,
         (if fetchNext then rv_pack E (VObj (fetch_opts B token (oprop (rq_opts B) ''name''))) else VUndef)])"

definition moveToWaitingChildrenArgs ::
  "'s redis_env \<Rightarrow> redis_queue \<Rightarrow> string option \<Rightarrow> string \<Rightarrow> parent_options option \<Rightarrow> jsval list" where
  "moveToWaitingChildrenArgs E B jobId token child =
     map (tkey B) [''active'', ''waiting-children'', render_opt jobId, render_opt jobId @ '':dependencies'',
                   render_opt jobId @ '':unsuccessful'', ''stalled'', ''events'']
     @ [VStr token, VStr (with_default '''' (getParentKey child)),
        VStr (num_to_string (rv_json E) (rv_now E)), opt_str_val jobId, tkey B '''']"

definition isMaxedArgs :: "redis_queue \<Rightarrow> jsval list" where
  "isMaxedArgs B = map (qkey B) [''meta'', ''active'']"

definition getRateLimitTtlArgs :: "redis_queue \<Rightarrow> real option \<Rightarrow> jsval list" where
  "getRateLimitTtlArgs B maxJobs =
     map (qkey B) [''limiter'', ''meta''] @ [case maxJobs of None \<Rightarrow> VStr ''0'' | Some n \<Rightarrow> VNum n]"

definition cleanJobsInSetArgs :: "redis_queue \<Rightarrow> string \<Rightarrow> real \<Rightarrow> real \<Rightarrow> jsval list" where
  "cleanJobsInSetArgs B state timestamp limit =
     map (tkey B) [state, ''events'', ''repeat''] @ [tkey B '''', VNum timestamp, VNum limit, VStr state]"

definition getJobSchedulerArgs :: "redis_queue \<Rightarrow> string \<Rightarrow> jsval list" where
  "getJobSchedulerArgs B schedulerId = [qkey B ''repeat'', VStr schedulerId]"

definition push_cmd :: "bool \<Rightarrow> jsval" where
  "push_cmd lifo = VStr ((if lifo then ''R'' else ''L'') @ ''PUSH'')"

definition retryJobArgs ::
  "'s redis_env \<Rightarrow> redis_queue \<Rightarrow> string option \<Rightarrow> jsval \<Rightarrow> string \<Rightarrow> jsobj option \<Rightarrow> jsval list" where
  "retryJobArgs E B jobId lifo token upd =
     map (qkey B) [''active'', ''wait'', ''paused''] @ [jkey B jobId]
     @ map (qkey B) [''meta'', ''events'', ''delayed'', ''prioritized'', ''pc'', ''marker'', ''stalled'']
     @ [tkey B '''', VNum (rv_now E), push_cmd (truthy lifo), opt_str_val jobId, VStr token, packed_fields E upd]"

definition moveJobsToWaitArgs :: "redis_queue \<Rightarrow> string \<Rightarrow> real \<Rightarrow> real \<Rightarrow> jsval list" where
  "moveJobsToWaitArgs B state count timestamp =
     [tkey B '''', qkey B ''events'', tkey B state, tkey B ''wait'', tkey B ''paused'', qkey B ''meta'',
      qkey B ''active'', qkey B ''marker'']
     @ [VNum count, VNum timestamp, VStr state]"

definition reprocessJobArgs :: "redis_queue \<Rightarrow> job \<Rightarrow> string \<Rightarrow> retry_options \<Rightarrow> jsval list" where
  "reprocessJobArgs B job state opts =
     [jkey B (j_id job), qkey B ''events'', tkey B state, qkey B ''wait'', qkey B ''meta'', qkey B ''paused'',
      qkey B ''active'', qkey B ''marker'']
     @ [opt_str_val (j_id job), push_cmd (truthy (oprop (j_opts job) ''lifo'')),
        VStr (if state = ''failed'' then ''failedReason'' else ''returnvalue''), VStr state,
        flag (ro_resetAttemptsMade opts), flag (ro_resetAttemptsStarted opts)]"

definition getMetricsArgs :: "redis_queue \<Rightarrow> string \<Rightarrow> real \<Rightarrow> real \<Rightarrow> jsval list" where
  "getMetricsArgs B type start end =
     map (tkey B) [''metrics:'' @ type, ''metrics:'' @ type @ '':data''] @ [VNum start, VNum end]"

definition moveToActiveArgs :: "'s redis_env \<Rightarrow> redis_queue \<Rightarrow> string \<Rightarrow> string option \<Rightarrow> jsval list" where
  "moveToActiveArgs E B token name =
     map (qkey B) [''wait'', ''active'', ''prioritized'', ''events'', ''stalled'', ''limiter'', ''delayed'',
                   ''paused'', ''meta'', ''pc'', ''marker'']
     @ [qkey B '''', VNum (rv_now E), rv_pack E (VObj (fetch_opts B token (opt_str_val name)))]"

definition promoteArgs :: "redis_queue \<Rightarrow> string option \<Rightarrow> jsval list" where
  "promoteArgs B jobId =
     map (qkey B) [''delayed'', ''wait'', ''paused'', ''meta'', ''prioritized'', ''active'', ''pc'', ''events'',
                   ''marker'']
     @ [tkey B '''', opt_str_val jobId]"

definition moveStalledJobsToWaitArgs :: "'s redis_env \<Rightarrow> redis_queue \<Rightarrow> jsval list" where
  "moveStalledJobsToWaitArgs E B =
     map (qkey B) [''stalled'', ''wait'', ''active'', ''stalled-check'', ''meta'', ''paused'', ''marker'',
                   ''events'', ''repeat'']
     @ [oprop (rq_opts B) ''maxStalledCount'', tkey B '''', VNum (rv_now E), oprop (rq_opts B) ''stalledInterval'']"

definition moveJobFromActiveToWaitArgs :: "redis_queue \<Rightarrow> string option \<Rightarrow> string \<Rightarrow> jsval list" where
  "moveJobFromActiveToWaitArgs B jobId token =
     map (qkey B) [''active'', ''wait'', ''stalled'', ''paused'', ''meta'', ''limiter'', ''prioritized'',
                   ''marker'', ''events'']
     @ [opt_str_val jobId, VStr token, jkey B jobId]"

definition obliterateArgs :: "redis_queue \<Rightarrow> bool \<Rightarrow> real \<Rightarrow> jsval list" where
  "obliterateArgs B force count =
     [qkey B ''meta'', tkey B ''''] @ [VNum count, (if force then VStr ''force'' else VNull)]"

end
