(* ===== verification/Redis_Backend.thy ===== *)
theory Redis_Backend
  imports Redis_Scripts
begin

text \<open>
  The operations of RedisQueueBackend (src/classes/redis-queue-backend.ts): each runs its
  script or command on the client, maps negative reply codes to errors and decodes the
  reply. Replies are JavaScript values. The loops (resuming a queue, paginating a set,
  scanning for orphaned jobs) may run for ever against an arbitrary server and are partial:
  the value \<open>None\<close> is a loop that does not end.
\<close>

section \<open>Errors of undefined values\<close>

definition type_error :: "'s redis_env \<Rightarrow> string \<Rightarrow> js_error" where
  "type_error E msg = new_err TypeErrorClass (rv_stk E) msg"

text \<open>Indexing a reply: \<open>v[i]\<close> throws on \<open>undefined\<close> and \<open>null\<close>.\<close>

definition index_val :: "'s redis_env \<Rightarrow> jsval \<Rightarrow> nat \<Rightarrow> (js_error, jsval) result" where
  "index_val E v i =
     (case v of
        VArr vs \<Rightarrow> Inr (if i < length vs then vs ! i else VUndef)
      | VUndef \<Rightarrow> Inl (type_error E ''Cannot read properties of undefined'')
      | VNull \<Rightarrow> Inl (type_error E ''Cannot read properties of null'')
      | _ \<Rightarrow> Inr VUndef)"

section \<open>Connection\<close>

definition be_ready :: "'s redis_env \<Rightarrow> redis_queue \<Rightarrow> ('s, unit) backend_op" where
  "be_ready E B = b_then (rv_client E) (\<lambda>_. if rq_blocking B then rv_client E else b_ret ())"

definition setName :: "'s redis_env \<Rightarrow> redis_queue \<Rightarrow> string \<Rightarrow> ('s, unit) backend_op" where
  "setName E B name =
     with_client E
       (b_catch (b_then (rv_call E ''clientSetName'' [VStr name]) (\<lambda>_. b_ret ()))
          (\<lambda>err. if \<not> clientCommandMessageReg (err_message err) \<and> \<not> rq_closing B
                 then b_throw err else b_ret ()))"

text \<open>Closing: siblings never close the shared connection, a second close waits for the first.
  The result says which connections are closed, in order.\<close>

datatype closed_connection = BlockingConnection | MainConnection

definition close_backend :: "redis_queue \<Rightarrow> redis_queue \<times> closed_connection list" where
  "close_backend B =
     (if \<not> rq_ownsConnection B then (B, [])
      else if rq_closing B then (B, [])
      else (B\<lparr>rq_closing := True\<rparr>,
            (if rq_blocking B then [BlockingConnection] else []) @ [MainConnection]))"

definition disconnect_backend :: "redis_queue \<Rightarrow> closed_connection list" where
  "disconnect_backend B =
     (if \<not> rq_ownsConnection B then []
      else MainConnection # (if rq_blocking B then [BlockingConnection] else []))"

definition disconnectBlocking :: "'s redis_env \<Rightarrow> redis_queue \<Rightarrow> bool \<Rightarrow> ('s, unit) backend_op" where
  "disconnectBlocking E B wait =
     (if rq_blocking B then b_then (rv_call E ''disconnect'' [VBool wait]) (\<lambda>_. b_ret ()) else b_ret ())"

definition reconnectBlocking :: "'s redis_env \<Rightarrow> redis_queue \<Rightarrow> ('s, unit) backend_op" where
  "reconnectBlocking E B =
     (if rq_blocking B then b_then (rv_call E ''reconnect'' []) (\<lambda>_. b_ret ()) else b_ret ())"

section \<open>Job states\<close>

definition is_integer :: "jsval \<Rightarrow> bool" where
  "is_integer v = (case v of VNum n \<Rightarrow> of_int \<lfloor>n\<rfloor> = n | _ \<Rightarrow> False)"

definition version_below :: "'s redis_env \<Rightarrow> redis_queue \<Rightarrow> string \<Rightarrow> bool" where
  "version_below E B v =
     isRedisVersionLowerThan (rv_coerce E) (rv_lt E) (rq_redisVersion B) v (rq_databaseType B) None"

definition list_states :: "string list" where
  "list_states = [''wait'', ''active'', ''paused'']"

definition zset_states :: "string list" where
  "zset_states = [''prioritized'', ''completed'', ''failed'', ''delayed'', ''waiting-children'']"

definition isJobInState_direct :: "'s redis_env \<Rightarrow> redis_queue \<Rightarrow> string \<Rightarrow> string option \<Rightarrow> ('s, bool) backend_op" where
  "isJobInState_direct E B state jobId =
     with_client E
       (if state \<in> set list_states
        then b_then (if version_below E B ''6.0.6''
                     then execCommand E B ''isJobInList'' [tkey B state, opt_str_val jobId]
                     else rv_call E ''lpos'' [tkey B state, opt_str_val jobId])
               (\<lambda>result. b_ret (is_integer result))
        else if state \<in> set zset_states
        then b_then (rv_call E ''zscore'' [tkey B state, opt_str_val jobId]) (\<lambda>score. b_ret (score \<noteq> VNull))
        else b_throw (new_err ErrorClass (rv_stk E) (''Unknown job state: '' @ state)))"

definition isJobInState :: "'s redis_env \<Rightarrow> redis_queue \<Rightarrow> string \<Rightarrow> string option \<Rightarrow> ('s, bool) backend_op" where
  "isJobInState E B state jobId =
     (if state = ''waiting''
      then with_client E
             (b_then (isJobInState_direct E B ''wait'' jobId)
                (\<lambda>found. if found then b_ret True else isJobInState_direct E B ''paused'' jobId))
      else isJobInState_direct E B state jobId)"

section \<open>Adding jobs\<close>

definition addJob :: "'s redis_env \<Rightarrow> redis_queue \<Rightarrow> job_json \<Rightarrow> string option \<Rightarrow> parent_key_opts \<Rightarrow> ('s, jsval) backend_op" where
  "addJob E B job jobId parentKeyOpts =
     with_client E
       (case add_job_command E (rq_keys B) job jobId parentKeyOpts of (command, args) \<Rightarrow>
          b_then (execCommand E B command args)
            (reject_negative E None (pk_parentKey parentKeyOpts) ''addJob'' None))"

text \<open>
  On a pipeline or transaction \<open>addJobToTransaction\<close> only queues its command: the value it
  compares with 0 is the pipeline itself, so no reply code is looked at.
\<close>

definition queued_command ::
  "'s redis_env \<Rightarrow> redis_queue \<Rightarrow> (string, string) jsmap \<Rightarrow> job_json \<Rightarrow> string option \<Rightarrow> parent_key_opts
     \<Rightarrow> string \<times> jsval list" where
  "queued_command E B keys job jobId parentKeyOpts =
     (case add_job_command E keys job jobId parentKeyOpts of (command, args) \<Rightarrow> (versioned B command, args))"

fun collect_ids :: "(js_error option \<times> jsval) list \<Rightarrow> (js_error, jsval list) result" where
  "collect_ids [] = Inr []"
| "collect_ids ((Some err, _) # rs) = Inl err"
| "collect_ids ((None, i) # rs) = bind_result (collect_ids rs) (\<lambda>ids. Inr (i # ids))"

definition addJobs :: "'s redis_env \<Rightarrow> redis_queue \<Rightarrow> add_entry list \<Rightarrow> ('s, jsval list) backend_op" where
  "addJobs E B entries =
     with_client E
       (b_then (rv_exec E False
                  (map (\<lambda>e. queued_command E B (rq_keys B) (ae_job e) (ae_jobId e) (ae_parentKeyOpts e)) entries))
          (\<lambda>results. b_lift (collect_ids results)))"

definition addFlow :: "'s redis_env \<Rightarrow> redis_queue \<Rightarrow> flow_entry list \<Rightarrow> ('s, (js_error option \<times> jsval) list) backend_op" where
  "addFlow E B entries =
     with_client E
       (rv_exec E True
          (map (\<lambda>e. queued_command E B (getKeys (fe_prefix e) (fe_queueName e)) (fe_jobData e) (fe_jobId e)
                      (fe_parentKeyOpts e)) entries))"

section \<open>Pausing and resuming\<close>

partial_function (option) resume_loop :: "'s redis_env \<Rightarrow> redis_queue \<Rightarrow> bool \<Rightarrow> ('s, unit) loop_op" where
  "resume_loop E B emitEvent s =
     (case execCommand E B ''pause'' (pauseArgs B False emitEvent) s of
        (Inl e, s') \<Rightarrow> Some (Inl e, s')
      | (Inr reply, s') \<Rightarrow>
          (if js_less (VNum 0) (to_number (rv_json E) reply) then resume_loop E B False s'
           else Some (Inr (), s')))"

definition pause_queue :: "'s redis_env \<Rightarrow> redis_queue \<Rightarrow> bool \<Rightarrow> ('s, unit) loop_op" where
  "pause_queue E B pause s =
     (case rv_client E s of
        (Inl e, s') \<Rightarrow> Some (Inl e, s')
      | (Inr _, s') \<Rightarrow>
          (if pause
           then Some (b_then (execCommand E B ''pause'' (pauseArgs B True True)) (\<lambda>_. b_ret ()) s')
           else resume_loop E B True s'))"

section \<open>Schedulers and removal\<close>

definition removeDeduplicationKey_redis :: "'s redis_env \<Rightarrow> redis_queue \<Rightarrow> string \<Rightarrow> string option \<Rightarrow> ('s, jsval) backend_op" where
  "removeDeduplicationKey_redis E B deduplicationId jobId =
     with_client E (execCommand E B ''removeDeduplicationKey'' (removeDeduplicationKeyArgs B deduplicationId jobId))"

definition negative_number :: "jsval \<Rightarrow> bool" where
  "negative_number v = (case v of VNum n \<Rightarrow> n < 0 | _ \<Rightarrow> False)"

definition addJobScheduler ::
  "'s redis_env \<Rightarrow> redis_queue \<Rightarrow> string \<Rightarrow> jsval \<Rightarrow> string option \<Rightarrow> jsobj \<Rightarrow> jsobj \<Rightarrow> jsobj \<Rightarrow> string option
     \<Rightarrow> ('s, jsval) backend_op" where
  "addJobScheduler E B jobSchedulerId nextMillis templateData templateOpts opts delayedJobOpts producerId =
     with_client E
       (b_then (execCommand E B ''addJobScheduler''
                  (addJobSchedulerArgs E B jobSchedulerId nextMillis templateData templateOpts opts
                     delayedJobOpts producerId))
          (\<lambda>result. if negative_number result
                    then b_throw (finished_error E result None None ''addJobScheduler'' None) else b_ret result))"

definition updateJobSchedulerNextMillis ::
  "'s redis_env \<Rightarrow> redis_queue \<Rightarrow> string \<Rightarrow> jsval \<Rightarrow> string option \<Rightarrow> jsobj \<Rightarrow> string option \<Rightarrow> ('s, jsval) backend_op" where
  "updateJobSchedulerNextMillis E B jobSchedulerId nextMillis templateData delayedJobOpts producerId =
     with_client E
       (execCommand E B ''updateJobScheduler''
          (updateJobSchedulerArgs E B jobSchedulerId nextMillis templateData delayedJobOpts producerId))"

definition removeJobScheduler_redis :: "'s redis_env \<Rightarrow> redis_queue \<Rightarrow> string \<Rightarrow> ('s, jsval) backend_op" where
  "removeJobScheduler_redis E B jobSchedulerId =
     with_client E (execCommand E B ''removeJobScheduler'' (removeJobSchedulerArgs B jobSchedulerId))"

definition remove_redis :: "'s redis_env \<Rightarrow> redis_queue \<Rightarrow> string option \<Rightarrow> bool \<Rightarrow> ('s, jsval) backend_op" where
  "remove_redis E B jobId removeChildren =
     with_client E
       (b_then (execCommand E B ''removeJob'' (removeArgs B jobId removeChildren))
          (reject_negative E jobId None ''removeJob'' None))"

definition removeUnprocessedChildren_redis :: "'s redis_env \<Rightarrow> redis_queue \<Rightarrow> string option \<Rightarrow> ('s, unit) backend_op" where
  "removeUnprocessedChildren_redis E B jobId =
     with_client E
       (b_then (execCommand E B ''removeUnprocessedChildren'' (removeUnprocessedChildrenArgs B jobId)) (\<lambda>_. b_ret ()))"

section \<open>Locks and updates\<close>

definition extendLock_redis :: "'s redis_env \<Rightarrow> redis_queue \<Rightarrow> string option \<Rightarrow> string \<Rightarrow> real \<Rightarrow> ('s, jsval) backend_op" where
  "extendLock_redis E B jobId token duration =
     with_client E (execCommand E B ''extendLock'' (extendLockArgs B jobId token duration))"

definition extendLocks :: "'s redis_env \<Rightarrow> redis_queue \<Rightarrow> string list \<Rightarrow> string list \<Rightarrow> real \<Rightarrow> ('s, jsval) backend_op" where
  "extendLocks E B jobIds tokens duration =
     with_client E (execCommand E B ''extendLocks'' (extendLocksArgs E B jobIds tokens duration))"

definition text_val :: "string option \<Rightarrow> jsval" where
  "text_val s = opt_str_val s"

definition updateData_redis :: "'s redis_env \<Rightarrow> redis_queue \<Rightarrow> job \<Rightarrow> jsval \<Rightarrow> ('s, unit) backend_op" where
  "updateData_redis E B job data =
     with_client E
       (b_then (b_lift (json_stringify (rv_json E) data)) (\<lambda>dataJson.
        b_then (execCommand E B ''updateData'' [jkey B (j_id job), text_val dataJson]) (\<lambda>result.
        b_then (reject_negative E (j_id job) None ''updateData'' None result) (\<lambda>_. b_ret ()))))"

definition updateProgress_redis :: "'s redis_env \<Rightarrow> redis_queue \<Rightarrow> string option \<Rightarrow> jsval \<Rightarrow> ('s, unit) backend_op" where
  "updateProgress_redis E B jobId progress =
     with_client E
       (b_then (b_lift (json_stringify (rv_json E) progress)) (\<lambda>progressJson.
        b_then (execCommand E B ''updateProgress'' (updateProgressArgs B jobId (text_val progressJson))) (\<lambda>result.
        b_then (reject_negative E jobId None ''updateProgress'' None result) (\<lambda>_. b_ret ()))))"

definition addLog :: "'s redis_env \<Rightarrow> redis_queue \<Rightarrow> string option \<Rightarrow> string \<Rightarrow> jsval \<Rightarrow> ('s, jsval) backend_op" where
  "addLog E B jobId logRow keepLogs =
     with_client E
       (b_then (execCommand E B ''addLog'' (addLogArgs B jobId logRow keepLogs))
          (reject_negative E jobId None ''addLog'' None))"

section \<open>Finishing a job\<close>

text \<open>The typed view of a reply of moveToFinished, moveToDelayed and moveToActive: its four
  components, absent where the reply has a falsy value. A reply that is no array has no
  components, whether it is falsy or not.\<close>

definition str_list_of :: "jsval \<Rightarrow> string list" where
  "str_list_of v = (case v of VArr vs \<Rightarrow> map (\<lambda>x. case x of VStr s \<Rightarrow> s | _ \<Rightarrow> []) vs | _ \<Rightarrow> [])"

definition elem_at :: "jsval list \<Rightarrow> nat \<Rightarrow> jsval" where
  "elem_at vs i = (if i < length vs then vs ! i else VUndef)"

definition raw_next_of :: "jsval \<Rightarrow> raw_next option" where
  "raw_next_of v =
     (case v of
        VArr vs \<Rightarrow>
          Some \<lparr>rn_hash = (if truthy (elem_at vs 0) then Some (str_list_of (elem_at vs 0)) else None),
                rn_id = str_of (elem_at vs 1), rn_limit = num_of (elem_at vs 2), rn_delay = num_of (elem_at vs 3)\<rparr>
      | _ \<Rightarrow> None)"

text \<open>
  A defined reply that is not an error goes to raw2NextJobData; \<open>undefined\<close> ends the method
  without a value.
\<close>

definition decode_next :: "'s redis_env \<Rightarrow> jsval \<Rightarrow> (js_error, next_job option) result" where
  "decode_next E result =
     (if result = VUndef then Inr None
      else bind_result (raw2NextJobData (rv_json E) (raw_next_of result)) (\<lambda>n. Inr (Some n)))"

definition moveToFinished :: "'s redis_env \<Rightarrow> redis_queue \<Rightarrow> string option \<Rightarrow> jsval list \<Rightarrow> ('s, next_job option) backend_op" where
  "moveToFinished E B jobId args =
     with_client E
       (b_then (execCommand E B ''moveToFinished'' args) (\<lambda>result.
        b_then (reject_negative E jobId None ''moveToFinished'' (Some ''active'') result) (\<lambda>_.
        b_lift (decode_next E result))))"

text \<open>The time stamp is read back from the argument list, behind the keys.\<close>

definition finished_on :: "redis_queue \<Rightarrow> jsval list \<Rightarrow> jsval" where
  "finished_on B args =
     (let i = length (rq_moveToFinishedKeys B) + 1 in if i < length args then args ! i else VUndef)"

definition moveToCompleted_redis ::
  "'s redis_env \<Rightarrow> redis_queue \<Rightarrow> job \<Rightarrow> jsval \<Rightarrow> jsval \<Rightarrow> string \<Rightarrow> bool \<Rightarrow> ('s, next_job option \<times> jsval) backend_op" where
  "moveToCompleted_redis E B job retval removeOnComplete token fetchNext =
     b_then (b_lift (json_stringify (rv_json E) retval)) (\<lambda>stringified.
       let args = moveToCompletedArgs E B job (opt_str_val stringified) removeOnComplete token fetchNext
       in b_then (moveToFinished E B (j_id job) args) (\<lambda>result. b_ret (result, finished_on B args)))"

definition moveToFailed_redis ::
  "'s redis_env \<Rightarrow> redis_queue \<Rightarrow> job \<Rightarrow> string option \<Rightarrow> jsval \<Rightarrow> string \<Rightarrow> bool \<Rightarrow> jsobj option
     \<Rightarrow> ('s, next_job option \<times> jsval) backend_op" where
  "moveToFailed_redis E B job failedReason removeOnFail token fetchNext upd =
     (let args = moveToFailedArgs E B job failedReason removeOnFail token fetchNext upd
      in b_then (moveToFinished E B (j_id job) args) (\<lambda>result. b_ret (result, finished_on B args)))"

section \<open>Transitions of a job\<close>

definition drain_redis :: "'s redis_env \<Rightarrow> redis_queue \<Rightarrow> bool \<Rightarrow> ('s, unit) backend_op" where
  "drain_redis E B delayed =
     with_client E (b_then (execCommand E B ''drain'' (drainArgs B delayed)) (\<lambda>_. b_ret ()))"

text \<open>The switch on 0 and 1 that two scripts share.\<close>

definition zero_true :: "'s redis_env \<Rightarrow> string option \<Rightarrow> string option \<Rightarrow> string \<Rightarrow> string option \<Rightarrow> jsval \<Rightarrow> ('s, bool) backend_op" where
  "zero_true E jobId parentKey command state result =
     (if result = VNum 0 then b_ret True
      else if result = VNum 1 then b_ret False
      else b_throw (finished_error E result jobId parentKey command state))"

definition removeChildDependency_redis :: "'s redis_env \<Rightarrow> redis_queue \<Rightarrow> string option \<Rightarrow> string option \<Rightarrow> ('s, bool) backend_op" where
  "removeChildDependency_redis E B jobId parentKey =
     with_client E
       (b_then (execCommand E B ''removeChildDependency'' (removeChildDependencyArgs B jobId parentKey))
          (zero_true E jobId parentKey ''removeChildDependency'' None))"

definition changeDelay_redis :: "'s redis_env \<Rightarrow> redis_queue \<Rightarrow> string option \<Rightarrow> real \<Rightarrow> ('s, unit) backend_op" where
  "changeDelay_redis E B jobId delay =
     with_client E
       (b_then (execCommand E B ''changeDelay'' (changeDelayArgs E B jobId delay)) (\<lambda>result.
        b_then (reject_negative E jobId None ''changeDelay'' (Some ''delayed'') result) (\<lambda>_. b_ret ())))"

definition changePriority_redis :: "'s redis_env \<Rightarrow> redis_queue \<Rightarrow> string option \<Rightarrow> jsval \<Rightarrow> bool option \<Rightarrow> ('s, unit) backend_op" where
  "changePriority_redis E B jobId priority lifo =
     with_client E
       (b_then (execCommand E B ''changePriority'' (changePriorityArgs B jobId priority lifo)) (\<lambda>result.
        b_then (reject_negative E jobId None ''changePriority'' None result) (\<lambda>_. b_ret ())))"

definition isMaxed_redis :: "'s redis_env \<Rightarrow> redis_queue \<Rightarrow> ('s, bool) backend_op" where
  "isMaxed_redis E B = with_client E (b_then (execCommand E B ''isMaxed'' (isMaxedArgs B)) (\<lambda>v. b_ret (truthy v)))"

definition moveToDelayed_redis ::
  "'s redis_env \<Rightarrow> redis_queue \<Rightarrow> string option \<Rightarrow> real \<Rightarrow> real \<Rightarrow> string option \<Rightarrow> bool \<Rightarrow> jsobj option \<Rightarrow> bool
     \<Rightarrow> ('s, next_job option) backend_op" where
  "moveToDelayed_redis E B jobId timestamp delay token skipAttempt upd fetchNext =
     with_client E
       (b_then (execCommand E B ''moveToDelayed''
                  (moveToDelayedArgs E B jobId timestamp (with_default ''0'' token) delay skipAttempt upd fetchNext))
          (\<lambda>result.
        b_then (reject_negative E jobId None ''moveToDelayed'' (Some ''active'') result) (\<lambda>_.
        b_lift (decode_next E result))))"

definition moveToWaitingChildren_redis ::
  "'s redis_env \<Rightarrow> redis_queue \<Rightarrow> string option \<Rightarrow> string \<Rightarrow> parent_options option \<Rightarrow> ('s, bool) backend_op" where
  "moveToWaitingChildren_redis E B jobId token child =
     with_client E
       (b_then (execCommand E B ''moveToWaitingChildren'' (moveToWaitingChildrenArgs E B jobId token child))
          (zero_true E jobId None ''moveToWaitingChildren'' (Some ''active'')))"

definition cleanJobsByState :: "'s redis_env \<Rightarrow> redis_queue \<Rightarrow> string \<Rightarrow> real \<Rightarrow> real option \<Rightarrow> ('s, jsval) backend_op" where
  "cleanJobsByState E B state timestamp limit =
     with_client E (execCommand E B ''cleanJobsInSet'' (cleanJobsInSetArgs B state timestamp (with_default 0 limit)))"

definition retryJob ::
  "'s redis_env \<Rightarrow> redis_queue \<Rightarrow> string option \<Rightarrow> jsval \<Rightarrow> string option \<Rightarrow> jsobj option \<Rightarrow> ('s, unit) backend_op" where
  "retryJob E B jobId lifo token upd =
     with_client E
       (b_then (execCommand E B ''retryJob'' (retryJobArgs E B jobId lifo (with_default ''0'' token) upd)) (\<lambda>result.
        b_then (reject_negative E jobId None ''retryJob'' (Some ''active'') result) (\<lambda>_. b_ret ())))"

definition retryFinishedJobs :: "'s redis_env \<Rightarrow> redis_queue \<Rightarrow> string option \<Rightarrow> real option \<Rightarrow> real option \<Rightarrow> ('s, jsval) backend_op" where
  "retryFinishedJobs E B state count timestamp =
     with_client E
       (execCommand E B ''moveJobsToWait''
          (moveJobsToWaitArgs B (with_default ''failed'' state) (with_default 1000 count)
             (with_default (rv_now E) timestamp)))"

text \<open>\<open>Number.MAX_VALUE\<close>.\<close>

definition NUMBER_MAX_VALUE :: real where
  "NUMBER_MAX_VALUE = (2 - 1 / 2 ^ 52) * 2 ^ 1023"

definition promoteJobs_redis :: "'s redis_env \<Rightarrow> redis_queue \<Rightarrow> real option \<Rightarrow> ('s, jsval) backend_op" where
  "promoteJobs_redis E B count =
     with_client E
       (execCommand E B ''moveJobsToWait''
          (moveJobsToWaitArgs B ''delayed'' (with_default 1000 count) NUMBER_MAX_VALUE))"

definition retryFinishedJob :: "'s redis_env \<Rightarrow> redis_queue \<Rightarrow> job \<Rightarrow> string \<Rightarrow> retry_options \<Rightarrow> ('s, unit) backend_op" where
  "retryFinishedJob E B job state opts =
     with_client E
       (b_then (execCommand E B ''reprocessJob'' (reprocessJobArgs B job state opts)) (\<lambda>result.
          if result = VNum 1 then b_ret ()
          else b_throw (finished_error E result (j_id job) None ''reprocessJob'' (Some state))))"

definition moveToActive_redis :: "'s redis_env \<Rightarrow> redis_queue \<Rightarrow> string \<Rightarrow> string option \<Rightarrow> ('s, next_job) backend_op" where
  "moveToActive_redis E B token name =
     with_client E
       (b_then (execCommand E B ''moveToActive'' (moveToActiveArgs E B token name)) (\<lambda>result.
        b_lift (raw2NextJobData (rv_json E) (raw_next_of result))))"

definition promote_redis :: "'s redis_env \<Rightarrow> redis_queue \<Rightarrow> string option \<Rightarrow> ('s, unit) backend_op" where
  "promote_redis E B jobId =
     with_client E
       (b_then (execCommand E B ''promote'' (promoteArgs B jobId)) (\<lambda>code.
        b_then (reject_negative E jobId None ''promote'' (Some ''delayed'') code) (\<lambda>_. b_ret ())))"

definition moveStalledJobsToWait_redis :: "'s redis_env \<Rightarrow> redis_queue \<Rightarrow> ('s, jsval) backend_op" where
  "moveStalledJobsToWait_redis E B =
     with_client E (execCommand E B ''moveStalledJobsToWait'' (moveStalledJobsToWaitArgs E B))"

definition moveJobFromActiveToWait :: "'s redis_env \<Rightarrow> redis_queue \<Rightarrow> string option \<Rightarrow> string option \<Rightarrow> ('s, jsval) backend_op" where
  "moveJobFromActiveToWait E B jobId token =
     with_client E
       (b_then (execCommand E B ''moveJobFromActiveToWait''
                  (moveJobFromActiveToWaitArgs B jobId (with_default ''0'' token)))
          (reject_negative E jobId None ''moveJobFromActiveToWait'' (Some ''active'')))"

text \<open>Only the codes -1 and -2 are errors of obliterate; another negative reply is returned.\<close>

definition obliterate_redis :: "'s redis_env \<Rightarrow> redis_queue \<Rightarrow> bool \<Rightarrow> real \<Rightarrow> ('s, jsval) backend_op" where
  "obliterate_redis E B force count =
     with_client E
       (b_then (execCommand E B ''obliterate'' (obliterateArgs B force count)) (\<lambda>result.
          if result = VNum (-1)
          then b_throw (new_err ErrorClass (rv_stk E) ''Cannot obliterate non-paused queue'')
          else if result = VNum (-2)
          then b_throw (new_err ErrorClass (rv_stk E) ''Cannot obliterate queue with active jobs'')
          else b_ret result))"

section \<open>Getters\<close>

definition getRanges :: "'s redis_env \<Rightarrow> redis_queue \<Rightarrow> string list \<Rightarrow> real option \<Rightarrow> real option \<Rightarrow> bool \<Rightarrow> ('s, jsval) backend_op" where
  "getRanges E B types start end asc =
     with_client E
       (execCommand E B ''getRanges'' (getRangesArgs B types (with_default 0 start) (with_default 1 end) asc))"

definition getJobs_redis :: "'s redis_env \<Rightarrow> redis_queue \<Rightarrow> string list \<Rightarrow> real option \<Rightarrow> real option \<Rightarrow> bool \<Rightarrow> ('s, jsval) backend_op" where
  "getJobs_redis E B types start end asc =
     with_client E
       (execCommand E B ''getJobs'' (getJobsArgs B types (with_default 0 start) (with_default (-1) end) asc))"

definition getCounts :: "'s redis_env \<Rightarrow> redis_queue \<Rightarrow> string list \<Rightarrow> ('s, jsval) backend_op" where
  "getCounts E B types = with_client E (execCommand E B ''getCounts'' (getCountsArgs B types))"

definition getCountsPerPriority_redis :: "'s redis_env \<Rightarrow> redis_queue \<Rightarrow> real list \<Rightarrow> ('s, jsval) backend_op" where
  "getCountsPerPriority_redis E B priorities =
     with_client E (execCommand E B ''getCountsPerPriority'' (getCountsPerPriorityArgs B priorities))"

definition getDependencyCounts :: "'s redis_env \<Rightarrow> redis_queue \<Rightarrow> string option \<Rightarrow> string list \<Rightarrow> ('s, jsval) backend_op" where
  "getDependencyCounts E B jobId types =
     with_client E (execCommand E B ''getDependencyCounts'' (getDependencyCountsArgs B jobId types))"

definition isFinished :: "'s redis_env \<Rightarrow> redis_queue \<Rightarrow> string option \<Rightarrow> bool \<Rightarrow> ('s, jsval) backend_op" where
  "isFinished E B jobId returnValue =
     with_client E (execCommand E B ''isFinished'' (isFinishedArgs B jobId returnValue))"

definition getState_redis :: "'s redis_env \<Rightarrow> redis_queue \<Rightarrow> string option \<Rightarrow> ('s, jsval) backend_op" where
  "getState_redis E B jobId =
     with_client E
       (execCommand E B (if version_below E B ''6.0.6'' then ''getState'' else ''getStateV2'') (getStateArgs B jobId))"

definition getRateLimitTtl_redis :: "'s redis_env \<Rightarrow> redis_queue \<Rightarrow> real option \<Rightarrow> ('s, jsval) backend_op" where
  "getRateLimitTtl_redis E B maxJobs =
     with_client E (execCommand E B ''getRateLimitTtl'' (getRateLimitTtlArgs B maxJobs))"

definition getJobScheduler_redis :: "'s redis_env \<Rightarrow> redis_queue \<Rightarrow> string \<Rightarrow> ('s, jsval) backend_op" where
  "getJobScheduler_redis E B schedulerId =
     with_client E (execCommand E B ''getJobScheduler'' (getJobSchedulerArgs B schedulerId))"

definition isJobScheduler :: "'s redis_env \<Rightarrow> redis_queue \<Rightarrow> string \<Rightarrow> ('s, bool) backend_op" where
  "isJobScheduler E B schedulerId =
     with_client E
       (b_then (rv_call E ''hexists'' [VStr (key_str (rq_keys B) ''repeat'' @ '':'' @ schedulerId), VStr ''ic''])
          (\<lambda>found. b_ret (found = VNum 1)))"

definition getJobSchedulerData :: "'s redis_env \<Rightarrow> redis_queue \<Rightarrow> string \<Rightarrow> ('s, jsval) backend_op" where
  "getJobSchedulerData E B key = with_client E (rv_call E ''hgetall'' [tkey B (''repeat:'' @ key)])"

definition getJobSchedulersRange :: "'s redis_env \<Rightarrow> redis_queue \<Rightarrow> real \<Rightarrow> real \<Rightarrow> bool \<Rightarrow> ('s, jsval) backend_op" where
  "getJobSchedulersRange E B start end asc =
     with_client E
       (rv_call E (if asc then ''zrange'' else ''zrevrange'')
          [qkey B ''repeat'', VNum start, VNum end, VObj [(''WITHSCORES'', VBool True)]])"

definition getJobSchedulersCount_redis :: "'s redis_env \<Rightarrow> redis_queue \<Rightarrow> ('s, jsval) backend_op" where
  "getJobSchedulersCount_redis E B = with_client E (rv_call E ''zcard'' [qkey B ''repeat''])"

definition getMetrics_redis :: "'s redis_env \<Rightarrow> redis_queue \<Rightarrow> string \<Rightarrow> real option \<Rightarrow> real option \<Rightarrow> ('s, jsval) backend_op" where
  "getMetrics_redis E B type start end =
     with_client E
       (execCommand E B ''getMetrics'' (getMetricsArgs B type (with_default 0 start) (with_default (-1) end)))"

text \<open>A cluster client is asked node by node (\<open>nodes\<close> are the list commands of its nodes);
  \<open>Promise.all\<close> rejects with the first rejection.\<close>

fun all_ops :: "('s, 'a) backend_op list \<Rightarrow> ('s, 'a list) backend_op" where
  "all_ops [] s = (Inr [], s)"
| "all_ops (m # ms) s =
     (case m s of (r, s1) \<Rightarrow>
        case all_ops ms s1 of (rs, s2) \<Rightarrow> (bind_result r (\<lambda>a. bind_result rs (\<lambda>as. Inr (a # as))), s2))"

definition getClientList_redis :: "'s redis_env \<Rightarrow> ('s, jsval) backend_op list option \<Rightarrow> ('s, jsval list) backend_op" where
  "getClientList_redis E nodes =
     with_client E
       (case nodes of
          Some ns \<Rightarrow> all_ops ns
        | None \<Rightarrow> b_then (rv_call E ''clientList'' []) (\<lambda>l. b_ret [l]))"

definition hash_of :: "jsval \<Rightarrow> (string, string option) jsmap" where
  "hash_of v = (case v of VObj obj \<Rightarrow> map (\<lambda>(k, x). (k, str_of x)) obj | _ \<Rightarrow> [])"

definition getJobData :: "'s redis_env \<Rightarrow> redis_queue \<Rightarrow> string \<Rightarrow> ('s, job_json option) backend_op" where
  "getJobData E B jobId =
     with_client E
       (b_then (rv_call E ''hgetall'' [tkey B jobId]) (\<lambda>jobData.
          if isEmpty (hash_of jobData) then b_ret None
          else b_then (b_lift (rawToJobJson (rv_json E) (hash_of jobData))) (\<lambda>j. b_ret (Some j))))"

definition getDeduplicationJobId_redis :: "'s redis_env \<Rightarrow> redis_queue \<Rightarrow> string \<Rightarrow> ('s, jsval) backend_op" where
  "getDeduplicationJobId_redis E B deduplicationId =
     with_client E (rv_call E ''get'' [VStr (key_str (rq_keys B) ''de'' @ '':'' @ deduplicationId)])"

section \<open>Logs\<close>

definition reverse_val :: "'s redis_env \<Rightarrow> jsval \<Rightarrow> (js_error, jsval) result" where
  "reverse_val E v = (case v of VArr vs \<Rightarrow> Inr (VArr (rev vs)) | _ \<Rightarrow> Inl (type_error E ''reverse is not a function''))"

definition logs_range :: "int \<Rightarrow> int \<Rightarrow> bool \<Rightarrow> int \<times> int" where
  "logs_range start end asc = (if asc then (start, end) else (- (end + 1), - (start + 1)))"

definition reply_at :: "(js_error option \<times> jsval) list \<Rightarrow> nat \<Rightarrow> jsval" where
  "reply_at results i = (if i < length results then snd (results ! i) else VUndef)"

definition getJobLogs_redis ::
  "'s redis_env \<Rightarrow> redis_queue \<Rightarrow> string option \<Rightarrow> int \<Rightarrow> int \<Rightarrow> bool \<Rightarrow> ('s, jsval \<times> jsval) backend_op" where
  "getJobLogs_redis E B jobId start end asc =
     with_client E
       (let logsKey = tkey B (render_opt jobId @ '':logs''); range = logs_range start end asc in
        b_then (rv_exec E True
                  [(''lrange'', [logsKey, VNum (of_int (fst range)), VNum (of_int (snd range))]),
                   (''llen'', [logsKey])]) (\<lambda>result.
        b_then (b_lift (if asc then Inr (reply_at result 0) else reverse_val E (reply_at result 0)))
          (\<lambda>logs. b_ret (logs, reply_at result 1))))"

definition clearLogs_redis :: "'s redis_env \<Rightarrow> redis_queue \<Rightarrow> string option \<Rightarrow> jsval \<Rightarrow> ('s, unit) backend_op" where
  "clearLogs_redis E B jobId keepLogs =
     with_client E
       (let logsKey = VStr (rq_toKey B (render_opt jobId) @ '':logs'') in
        b_then (if truthy keepLogs
                then rv_call E ''ltrim'' [logsKey, (case num_of keepLogs of Some n \<Rightarrow> VNum (- n) | None \<Rightarrow> VNaN), VNum (-1)]
                else rv_call E ''del'' [logsKey])
          (\<lambda>_. b_ret ()))"

section \<open>Children\<close>

definition getProcessedChildrenValues :: "'s redis_env \<Rightarrow> redis_queue \<Rightarrow> string option \<Rightarrow> ('s, jsval) backend_op" where
  "getProcessedChildrenValues E B jobId =
     with_client E (rv_call E ''hgetall'' [tkey B (render_opt jobId @ '':processed'')])"

definition getIgnoredChildrenFailures_redis :: "'s redis_env \<Rightarrow> redis_queue \<Rightarrow> string option \<Rightarrow> ('s, jsval) backend_op" where
  "getIgnoredChildrenFailures_redis E B jobId =
     with_client E (rv_call E ''hgetall'' [tkey B (render_opt jobId @ '':failed'')])"

text \<open>A page of children: cursor and count, with the defaults 0 and 20.\<close>

record child_page =
  cp_cursor :: "real option"
  cp_count :: "real option"

record dependencies_opts =
  do_processed :: "child_page option"
  do_unprocessed :: "child_page option"
  do_ignored :: "child_page option"
  do_failed :: "child_page option"

definition page_cursor :: "child_page \<Rightarrow> real" where
  "page_cursor p = with_default 0 (cp_cursor p)"

definition page_count :: "child_page \<Rightarrow> real" where
  "page_count p = with_default 20 (cp_count p)"

definition child_key :: "redis_queue \<Rightarrow> string option \<Rightarrow> string \<Rightarrow> jsval" where
  "child_key B jobId sfx = tkey B (render_opt jobId @ '':'' @ sfx)"

definition scan_command :: "string \<Rightarrow> jsval \<Rightarrow> child_page \<Rightarrow> string \<times> jsval list" where
  "scan_command command key p =
     (command, [key, VNum (page_cursor p), VObj [(''COUNT'', VNum (page_count p))]])"

definition failed_command :: "jsval \<Rightarrow> child_page \<Rightarrow> string \<times> jsval list" where
  "failed_command key p = (''zrange'', [key, VNum (page_cursor p), VNum (page_count p - 1)])"

text \<open>The commands of a paged query with the result each one belongs to, in order.\<close>

definition children_commands ::
  "redis_queue \<Rightarrow> string option \<Rightarrow> dependencies_opts \<Rightarrow> (string \<times> string \<times> jsval list) list" where
  "children_commands B jobId opts =
     (case do_processed opts of None \<Rightarrow> []
        | Some p \<Rightarrow> [(''processed'', scan_command ''hscan'' (child_key B jobId ''processed'') p)])
     @ (case do_unprocessed opts of None \<Rightarrow> []
        | Some p \<Rightarrow> [(''unprocessed'', scan_command ''sscan'' (child_key B jobId ''dependencies'') p)])
     @ (case do_ignored opts of None \<Rightarrow> []
        | Some p \<Rightarrow> [(''ignored'', scan_command ''hscan'' (child_key B jobId ''failed'') p)])
     @ (case do_failed opts of None \<Rightarrow> []
        | Some p \<Rightarrow> [(''failed'', failed_command (child_key B jobId ''unsuccessful'') p)])"

text \<open>Pairing up a flat array of keys and values; a value of \<open>processed\<close> is parsed.\<close>

fun pair_up :: "json_lib \<Rightarrow> (jsval \<Rightarrow> (js_error, jsval) result) \<Rightarrow> jsobj \<Rightarrow> jsval list \<Rightarrow> (js_error, jsobj) result" where
  "pair_up J parse acc (k # v # rest) =
     bind_result (parse v) (\<lambda>x. pair_up J parse (map_set (js_string J k) x acc) rest)"
| "pair_up J parse acc _ = Inr acc"

definition parse_text :: "'s redis_env \<Rightarrow> jsval \<Rightarrow> (js_error, jsval) result" where
  "parse_text E v = json_parse (rv_json E) (js_string (rv_json E) v)"

definition paired :: "'s redis_env \<Rightarrow> (jsval \<Rightarrow> (js_error, jsval) result) \<Rightarrow> jsval \<Rightarrow> (js_error, jsval) result" where
  "paired E parse v =
     (case v of
        VArr vs \<Rightarrow> bind_result (pair_up (rv_json E) parse [] vs) (\<lambda>obj. Inr (VObj obj))
      | VUndef \<Rightarrow> Inl (type_error E ''Cannot read properties of undefined'')
      | VNull \<Rightarrow> Inl (type_error E ''Cannot read properties of null'')
      | _ \<Rightarrow> Inr (VObj []))"

text \<open>One step of \<open>childrenResultOrder.forEach\<close>: the variables it assigns, as an object.\<close>

definition read_children :: "'s redis_env \<Rightarrow> string \<Rightarrow> jsval \<Rightarrow> jsobj \<Rightarrow> (js_error, jsobj) result" where
  "read_children E key reply vars =
     (if key = ''failed'' then Inr (map_set ''failed'' reply vars)
      else bind_result (index_val E reply 0) (\<lambda>cursor.
           bind_result (index_val E reply 1) (\<lambda>raw.
             if key = ''processed''
             then bind_result (paired E (parse_text E) raw) (\<lambda>obj.
                    Inr (map_set ''processed'' obj (map_set ''processedCursor'' cursor vars)))
             else if key = ''ignored''
             then bind_result (paired E Inr raw) (\<lambda>obj.
                    Inr (map_set ''ignored'' obj (map_set ''ignoredCursor'' cursor vars)))
             else Inr (map_set ''unprocessed'' raw (map_set ''unprocessedCursor'' cursor vars)))))"

fun read_all_children ::
  "'s redis_env \<Rightarrow> string list \<Rightarrow> jsval list \<Rightarrow> jsobj \<Rightarrow> (js_error, jsobj) result" where
  "read_all_children E [] replies vars = Inr vars"
| "read_all_children E (k # ks) replies vars =
     bind_result (read_children E k (elem_at replies 0) vars)
       (\<lambda>vars'. read_all_children E ks (drop 1 replies) vars')"

definition cursor_entry :: "'s redis_env \<Rightarrow> jsobj \<Rightarrow> string \<Rightarrow> string \<Rightarrow> string \<Rightarrow> jsobj" where
  "cursor_entry E vars cursorVar resultVar nextName =
     (if truthy (oprop vars cursorVar)
      then [(resultVar, oprop vars resultVar), (nextName, to_number (rv_json E) (oprop vars cursorVar))] else [])"

definition failed_entry :: "jsobj \<Rightarrow> child_page option \<Rightarrow> jsobj" where
  "failed_entry vars p =
     (case p of
        None \<Rightarrow> []
      | Some q \<Rightarrow> if page_cursor q + page_count q \<noteq> 0
                 then [(''failed'', oprop vars ''failed''), (''nextFailedCursor'', VNum (page_cursor q + page_count q))]
                 else [])"

definition parse_values :: "'s redis_env \<Rightarrow> jsval \<Rightarrow> (js_error, jsval) result" where
  "parse_values E v =
     (case v of
        VObj obj \<Rightarrow>
          bind_result (parseObjectValues (json_parse (rv_json E)) (map (\<lambda>(k, x). (k, js_string (rv_json E) x)) obj))
            (\<lambda>parsed. Inr (VObj parsed))
      | VUndef \<Rightarrow> Inl (type_error E ''Cannot convert undefined or null to object'')
      | VNull \<Rightarrow> Inl (type_error E ''Cannot convert undefined or null to object'')
      | _ \<Rightarrow> Inr (VObj []))"

definition getDependencies_redis :: "'s redis_env \<Rightarrow> redis_queue \<Rightarrow> string option \<Rightarrow> dependencies_opts \<Rightarrow> ('s, jsobj) backend_op" where
  "getDependencies_redis E B jobId opts =
     with_client E
       (if do_processed opts = None \<and> do_unprocessed opts = None \<and> do_ignored opts = None \<and> do_failed opts = None
        then b_then (rv_exec E False
                       [(''hgetall'', [child_key B jobId ''processed'']),
                        (''smembers'', [child_key B jobId ''dependencies'']),
                        (''hgetall'', [child_key B jobId ''failed'']),
                        (''zrange'', [child_key B jobId ''unsuccessful'', VNum 0, VNum (-1)])]) (\<lambda>r.
             b_then (b_lift (parse_values E (reply_at r 0))) (\<lambda>processed.
             b_ret [(''processed'', processed), (''unprocessed'', reply_at r 1), (''failed'', reply_at r 3),
                    (''ignored'', reply_at r 2)]))
        else let commands = children_commands B jobId opts in
             b_then (rv_exec E False (map snd commands)) (\<lambda>r.
             b_then (b_lift (read_all_children E (map fst commands) (map snd r) [])) (\<lambda>vars.
             b_ret (cursor_entry E vars ''processedCursor'' ''processed'' ''nextProcessedCursor''
                    @ cursor_entry E vars ''ignoredCursor'' ''ignored'' ''nextIgnoredCursor''
                    @ failed_entry vars (do_failed opts)
                    @ cursor_entry E vars ''unprocessedCursor'' ''unprocessed'' ''nextUnprocessedCursor''))))"

end
