(* ===== verification/Redis_Blocking.thy ===== *)
theory Redis_Blocking
  imports Redis_Backend
begin

text \<open>
  Queue metadata, rate limits, the event stream and the two blocking reads of
  src/classes/redis-queue-backend.ts. waitForJob and readEvents race a command that may
  never settle against a watchdog timer. The command's latency is a parameter (\<open>None\<close>: it
  never settles), the result carries the time at which the race was decided.
\<close>

section \<open>Queue metadata and maintenance keys\<close>

definition setQueueMeta :: "'s redis_env \<Rightarrow> redis_queue \<Rightarrow> jsobj \<Rightarrow> ('s, jsval) backend_op" where
  "setQueueMeta E B vals = with_client E (rv_call E ''hset'' [qkey B ''meta'', VObj vals])"

definition getQueueMetaField :: "'s redis_env \<Rightarrow> redis_queue \<Rightarrow> string \<Rightarrow> ('s, jsval) backend_op" where
  "getQueueMetaField E B field = with_client E (rv_call E ''hget'' [qkey B ''meta'', VStr field])"

definition getQueueMetaFields :: "'s redis_env \<Rightarrow> redis_queue \<Rightarrow> string list \<Rightarrow> ('s, jsval) backend_op" where
  "getQueueMetaFields E B names = with_client E (rv_call E ''hmget'' (qkey B ''meta'' # map VStr names))"

definition getQueueMeta :: "'s redis_env \<Rightarrow> redis_queue \<Rightarrow> ('s, jsval) backend_op" where
  "getQueueMeta E B = with_client E (rv_call E ''hgetall'' [qkey B ''meta''])"

definition removeQueueMetaFields :: "'s redis_env \<Rightarrow> redis_queue \<Rightarrow> string list \<Rightarrow> ('s, jsval) backend_op" where
  "removeQueueMetaFields E B names = with_client E (rv_call E ''hdel'' (qkey B ''meta'' # map VStr names))"

definition hasQueueMetaField :: "'s redis_env \<Rightarrow> redis_queue \<Rightarrow> string \<Rightarrow> ('s, bool) backend_op" where
  "hasQueueMetaField E B field =
     with_client E (b_then (rv_call E ''hexists'' [qkey B ''meta'', VStr field]) (\<lambda>found. b_ret (found = VNum 1)))"

definition MAX_SAFE_INTEGER :: real where
  "MAX_SAFE_INTEGER = 2 ^ 53 - 1"

definition setRateLimit :: "'s redis_env \<Rightarrow> redis_queue \<Rightarrow> real \<Rightarrow> ('s, unit) backend_op" where
  "setRateLimit E B expireTimeMs =
     with_client E
       (b_then (rv_call E ''set'' [qkey B ''limiter'', VNum MAX_SAFE_INTEGER, VObj [(''PX'', VNum expireTimeMs)]])
          (\<lambda>_. b_ret ()))"

definition removeRateLimitKey :: "'s redis_env \<Rightarrow> redis_queue \<Rightarrow> ('s, jsval) backend_op" where
  "removeRateLimitKey E B = with_client E (rv_call E ''del'' [qkey B ''limiter''])"

definition removeDeprecatedPriorityKey_redis :: "'s redis_env \<Rightarrow> redis_queue \<Rightarrow> ('s, jsval) backend_op" where
  "removeDeprecatedPriorityKey_redis E B = with_client E (rv_call E ''del'' [tkey B ''priority''])"

definition deleteDeduplicationKey :: "'s redis_env \<Rightarrow> redis_queue \<Rightarrow> string \<Rightarrow> ('s, jsval) backend_op" where
  "deleteDeduplicationKey E B deduplicationId =
     with_client E (rv_call E ''del'' [VStr (key_str (rq_keys B) ''de'' @ '':'' @ deduplicationId)])"

definition trimEvents_redis :: "'s redis_env \<Rightarrow> redis_queue \<Rightarrow> real \<Rightarrow> ('s, jsval) backend_op" where
  "trimEvents_redis E B maxLength =
     with_client E
       (rv_call E ''xtrim'' [qkey B ''events'', VStr ''MAXLEN'', VNum maxLength, VObj [(''approximate'', VBool True)]])"

definition publishEvent_redis :: "'s redis_env \<Rightarrow> redis_queue \<Rightarrow> jsobj \<Rightarrow> real \<Rightarrow> ('s, jsval) backend_op" where
  "publishEvent_redis E B entries maxEvents =
     with_client E
       (rv_call E ''xadd''
          [qkey B ''events'', VStr ''*'', VObj entries,
           VObj [(''MAXLEN'', VNum maxEvents), (''approximate'', VBool True)]])"

section \<open>Racing a command against a watchdog\<close>

text \<open>
  \<open>Promise.race([command, timeout])\<close>: the command wins when it settles by the deadline.
  When the watchdog fires it disconnects the client, and unless the backend is closing the
  connection is re-established afterwards, whatever that attempt gives.
\<close>

definition reconnect_ignoring :: "'s redis_env \<Rightarrow> ('s, unit) backend_op" where
  "reconnect_ignoring E =
     b_catch (b_then (rv_call E ''reconnect'' []) (\<lambda>_. b_ret ())) (\<lambda>_. b_ret ())"

definition watchdog_fires :: "'s redis_env \<Rightarrow> redis_queue \<Rightarrow> 's \<Rightarrow> 's" where
  "watchdog_fires E B s =
     (let s1 = snd (rv_call E ''disconnect'' [VBool False] s)
      in if rq_closing B then s1 else snd (reconnect_ignoring E s1))"

definition race_watchdog ::
  "'s redis_env \<Rightarrow> redis_queue \<Rightarrow> real option \<Rightarrow> real \<Rightarrow> ('s, jsval) backend_op \<Rightarrow> 's
     \<Rightarrow> ((js_error, jsval) result \<times> real) \<times> 's" where
  "race_watchdog E B latency deadline command s =
     (case latency of
        Some t \<Rightarrow> (if t \<le> deadline then (case command s of (r, s') \<Rightarrow> ((r, t), s'))
                  else ((Inr VNull, deadline), watchdog_fires E B s))
      | None \<Rightarrow> ((Inr VNull, deadline), watchdog_fires E B s))"

definition roundedTimeout :: "redis_queue \<Rightarrow> real \<Rightarrow> real" where
  "roundedTimeout B blockTimeout = (if rq_canDoubleTimeout B then blockTimeout else of_int \<lceil>blockTimeout\<rceil>)"

definition watchdog_deadline :: "redis_queue \<Rightarrow> real \<Rightarrow> real" where
  "watchdog_deadline B blockTimeout = roundedTimeout B blockTimeout * 1000 + 1000"

text \<open>What waitForJob makes of the reply of BZPOPMIN (key, member, score).\<close>

definition popped_marker :: "'s redis_env \<Rightarrow> jsval \<Rightarrow> (jsval \<times> jsval) option" where
  "popped_marker E result =
     (case result of
        VArr vs \<Rightarrow>
          if truthy (elem_at vs 1)
          then Some (elem_at vs 1, parseInt_val (Some (js_string (rv_json E) (elem_at vs 2)))) else None
      | _ \<Rightarrow> None)"

definition waitForJob ::
  "'s redis_env \<Rightarrow> redis_queue \<Rightarrow> real option \<Rightarrow> real \<Rightarrow> 's
     \<Rightarrow> ((js_error, (jsval \<times> jsval) option) result \<times> real) \<times> 's" where
  "waitForJob E B latency blockTimeout s =
     (case (if rq_blocking B then rv_client E s else (Inr (), s)) of
        (Inl e, s') \<Rightarrow> ((Inl e, 0), s')
      | (Inr _, s') \<Rightarrow>
          if \<not> rq_blocking B
          then ((Inl (type_error E ''Cannot read properties of undefined''), 0), s')
          else case race_watchdog E B latency (watchdog_deadline B blockTimeout)
                      (rv_call E ''bzpopmin'' [qkey B ''marker'', VNum (roundedTimeout B blockTimeout)]) s' of
                 ((r, t), s'') \<Rightarrow> ((bind_result r (\<lambda>v. Inr (popped_marker E v)), t), s''))"

text \<open>Without a positive block timeout readEvents waits for its command only: if that never
  settles, neither does the read (\<open>None\<close>).\<close>

definition readEvents ::
  "'s redis_env \<Rightarrow> redis_queue \<Rightarrow> real option \<Rightarrow> string \<Rightarrow> real \<Rightarrow> 's
     \<Rightarrow> (((js_error, jsval) result \<times> real) \<times> 's) option" where
  "readEvents E B latency eventId blockTimeout s =
     (let xread = rv_call E ''xread''
            [VArr [VObj [(''key'', qkey B ''events''), (''id'', VStr eventId)]], VObj [(''BLOCK'', VNum blockTimeout)]]
      in case rv_client E s of
           (Inl e, s') \<Rightarrow> Some ((Inl e, 0), s')
         | (Inr _, s') \<Rightarrow>
             if blockTimeout \<le> 0
             then (case latency of None \<Rightarrow> None
                     | Some t \<Rightarrow> (case xread s' of (r, s'') \<Rightarrow> Some ((r, t), s'')))
             else Some (race_watchdog E B latency (blockTimeout + 1000) xread s'))"

section \<open>Bounds of the blocking reads\<close>

lemma race_watchdog_bound:
  "0 \<le> deadline \<Longrightarrow> snd (fst (race_watchdog E B latency deadline command s)) \<le> deadline"
  by (auto simp: race_watchdog_def split: option.split prod.split)

lemma race_watchdog_never_settles:
  "race_watchdog E B None deadline command s = ((Inr VNull, deadline), watchdog_fires E B s)"
  by (simp add: race_watchdog_def)

lemma roundedTimeout_bounds:
  "blockTimeout \<le> roundedTimeout B blockTimeout \<and> roundedTimeout B blockTimeout < blockTimeout + 1"
proof -
  have "real_of_int \<lceil>blockTimeout\<rceil> < blockTimeout + 1" and "blockTimeout \<le> of_int \<lceil>blockTimeout\<rceil>" by linarith+
  then show ?thesis by (simp add: roundedTimeout_def)
qed



end
