(* ===== verification/Redis_Scan.thy ===== *)
theory Redis_Scan
  imports Redis_Blocking
begin

text \<open>
  The cursor loops of src/classes/redis-queue-backend.ts: paginate, which collects pages of a
  set or hash, and removeOrphanedJobs, which scans the key space of a queue for job keys
  that no state refers to. \<open>None\<close> is a scan that never ends.
\<close>

section \<open>Pagination\<close>

record page_item =
  pi_id :: jsval
  pi_v :: "jsval option"
  pi_err :: "string option"

record page_result =
  pr_cursor :: jsval
  pr_items :: "page_item list"
  pr_total :: jsval
  pr_jobs :: "job_json list"

definition reply_parts :: "'s redis_env \<Rightarrow> jsval \<Rightarrow> (js_error, jsval list) result" where
  "reply_parts E reply =
     (case reply of VArr vs \<Rightarrow> Inr vs | _ \<Rightarrow> Inl (type_error E ''reply is not iterable''))"

definition concat_val :: "jsval list \<Rightarrow> jsval \<Rightarrow> jsval list" where
  "concat_val page items = (case items of VArr xs \<Rightarrow> page @ xs | v \<Rightarrow> page @ [v])"

fun decode_jobs :: "json_lib \<Rightarrow> jsval list \<Rightarrow> (js_error, job_json list) result" where
  "decode_jobs J [] = Inr []"
| "decode_jobs J (r # rs) =
     bind_result (rawToJobJson J (array2obj (str_list_of r))) (\<lambda>j.
     bind_result (decode_jobs J rs) (\<lambda>js. Inr (j # js)))"

definition page_jobs :: "'s redis_env \<Rightarrow> jsval \<Rightarrow> (js_error, job_json list) result" where
  "page_jobs E rawJobs = (case rawJobs of VArr rs \<Rightarrow> decode_jobs (rv_json E) rs | _ \<Rightarrow> Inr [])"

text \<open>\<open>cursor != '0'\<close>, with coercion.\<close>

fun loose_not_zero :: "jsval \<Rightarrow> bool" where
  "loose_not_zero (VStr s) = (s \<noteq> ''0'')"
| "loose_not_zero (VNum n) = (n \<noteq> 0)"
| "loose_not_zero (VBool b) = b"
| "loose_not_zero _ = True"

fun below_size :: "nat \<Rightarrow> jsnum \<Rightarrow> bool" where
  "below_size n Infinity = True"
| "below_size n (Fin m) = (real n < m)"

definition page_size :: "real \<Rightarrow> real \<Rightarrow> jsnum" where
  "page_size start end = (if 0 \<le> end then Fin (end - start + 1) else Infinity)"

definition paginateArgs :: "string \<Rightarrow> real \<Rightarrow> real \<Rightarrow> bool \<Rightarrow> jsval \<Rightarrow> jsval \<Rightarrow> nat \<Rightarrow> jsval list" where
  "paginateArgs key start end fetchJobs cursor offset pageLength =
     [VStr key, VNum (start + real pageLength), VNum end, cursor, offset, VNum 5]
     @ (if fetchJobs then [VNum 1] else [])"

partial_function (option) paginate_loop ::
  "'s redis_env \<Rightarrow> redis_queue \<Rightarrow> string \<Rightarrow> real \<Rightarrow> real \<Rightarrow> bool \<Rightarrow> jsval \<Rightarrow> jsval \<Rightarrow> jsval list \<Rightarrow> job_json list
     \<Rightarrow> ('s, jsval \<times> jsval list \<times> jsval \<times> job_json list) loop_op" where
  "paginate_loop E B key start end fetchJobs cursor offset page jobs s =
     (case execCommand E B ''paginate'' (paginateArgs key start end fetchJobs cursor offset (length page)) s of
        (Inl e, s') \<Rightarrow> Some (Inl e, s')
      | (Inr reply, s') \<Rightarrow>
          (case reply_parts E reply of
             Inl e \<Rightarrow> Some (Inl e, s')
           | Inr parts \<Rightarrow>
               (case page_jobs E (elem_at parts 4) of
                  Inl e \<Rightarrow> Some (Inl e, s')
                | Inr fetched \<Rightarrow>
                    (if loose_not_zero (elem_at parts 0)
                        \<and> below_size (length (concat_val page (elem_at parts 2))) (page_size start end)
                     then paginate_loop E B key start end fetchJobs (elem_at parts 0) (elem_at parts 1)
                            (concat_val page (elem_at parts 2)) (jobs @ fetched) s'
                     else Some (Inr (elem_at parts 0, concat_val page (elem_at parts 2), elem_at parts 3,
                                     jobs @ fetched), s')))))"

definition is_array :: "jsval \<Rightarrow> bool" where
  "is_array v = (case v of VArr _ \<Rightarrow> True | _ \<Rightarrow> False)"

text \<open>An entry of a hash is an array of id and text; text that does not parse is kept as the
  error of that item only.\<close>

definition hash_item :: "'s redis_env \<Rightarrow> jsval \<Rightarrow> page_item" where
  "hash_item E entry =
     (let i = elem_at (case entry of VArr vs \<Rightarrow> vs | _ \<Rightarrow> []) 0;
          v = elem_at (case entry of VArr vs \<Rightarrow> vs | _ \<Rightarrow> []) 1
      in case parse_text E v of
           Inr x \<Rightarrow> \<lparr>pi_id = i, pi_v = Some x, pi_err = None\<rparr>
         | Inl err \<Rightarrow> \<lparr>pi_id = i, pi_v = None, pi_err = Some (err_message err)\<rparr>)"

definition page_items :: "'s redis_env \<Rightarrow> jsval list \<Rightarrow> page_item list" where
  "page_items E page =
     (if page \<noteq> [] \<and> is_array (hd page) then map (hash_item E) page
      else map (\<lambda>item. \<lparr>pi_id = item, pi_v = None, pi_err = None\<rparr>) page)"

definition paginate ::
  "'s redis_env \<Rightarrow> redis_queue \<Rightarrow> string \<Rightarrow> real \<Rightarrow> real \<Rightarrow> bool \<Rightarrow> ('s, page_result) loop_op" where
  "paginate E B key start end fetchJobs s =
     (case rv_client E s of
        (Inl e, s') \<Rightarrow> Some (Inl e, s')
      | (Inr _, s') \<Rightarrow>
          map_option (\<lambda>(r, s''). (bind_result r (\<lambda>(cursor, page, ttl, jobs).
              Inr \<lparr>pr_cursor = cursor, pr_items = page_items E page, pr_total = ttl, pr_jobs = jobs\<rparr>), s''))
            (paginate_loop E B key start end fetchJobs (VStr ''0'') (VNum 0) [] [] s'))"

section \<open>Orphaned jobs\<close>

definition jobSubKeySuffixes :: "string list" where
  "jobSubKeySuffixes = [''logs'', ''dependencies'', ''processed'', ''failed'', ''unsuccessful'', ''lock'']"

definition stateKeySuffixes :: "redis_queue \<Rightarrow> string list" where
  "stateKeySuffixes B = filter (\<lambda>s. s \<noteq> '''') (map_keys (rq_keys B))"

text \<open>The part before the first colon, and the part behind it if there is a colon.\<close>

definition split_first_colon :: "string \<Rightarrow> string \<times> string option" where
  "split_first_colon s =
     (takeWhile (\<lambda>c. c \<noteq> CHR '':'') s,
      (case dropWhile (\<lambda>c. c \<noteq> CHR '':'') s of [] \<Rightarrow> None | _ # sub \<Rightarrow> Some sub))"

definition candidate_of :: "string list \<Rightarrow> string \<Rightarrow> string \<Rightarrow> string option" where
  "candidate_of knownSuffixes basePrefix key =
     (let sfx = drop (length basePrefix) key in
      if sfx \<in> set knownSuffixes then None
      else case split_first_colon sfx of
             (jobId, None) \<Rightarrow> Some jobId
           | (prefixPart, Some subKey) \<Rightarrow>
               if prefixPart \<in> set knownSuffixes then None
               else if subKey \<notin> set jobSubKeySuffixes then None
               else Some prefixPart)"

definition candidates_of :: "string list \<Rightarrow> string \<Rightarrow> string list \<Rightarrow> string list" where
  "candidates_of knownSuffixes basePrefix keys =
     unique_set (List.map_filter (candidate_of knownSuffixes basePrefix) keys)"

definition removeOrphanedJobsBatchArgs :: "redis_queue \<Rightarrow> string list \<Rightarrow> string list \<Rightarrow> string list \<Rightarrow> jsval list" where
  "removeOrphanedJobsBatchArgs B candidateJobIds stateSuffixes subSuffixes =
     tkey B '''' # VNum (real (length stateSuffixes)) # map VStr stateSuffixes
     @ VNum (real (length subSuffixes)) # map VStr subSuffixes @ map VStr candidateJobIds"

definition removeOrphanedJobsBatch ::
  "'s redis_env \<Rightarrow> redis_queue \<Rightarrow> string list \<Rightarrow> string list \<Rightarrow> string list \<Rightarrow> ('s, jsval) backend_op" where
  "removeOrphanedJobsBatch E B candidateJobIds stateSuffixes subSuffixes =
     with_client E
       (execCommand E B ''removeOrphanedJobs''
          (removeOrphanedJobsBatchArgs B candidateJobIds stateSuffixes subSuffixes))"

definition scan_args :: "redis_queue \<Rightarrow> real \<Rightarrow> jsval \<Rightarrow> jsval list" where
  "scan_args B count cursor =
     [cursor, VObj [(''MATCH'', VStr (key_str (rq_keys B) '''' @ ''*'')), (''COUNT'', VNum count)]]"

definition add_removed :: "real \<Rightarrow> jsval \<Rightarrow> real" where
  "add_removed totalRemoved result = totalRemoved + (case num_of result of Some n \<Rightarrow> n | None \<Rightarrow> 0)"

partial_function (option) orphan_loop ::
  "'s redis_env \<Rightarrow> redis_queue \<Rightarrow> real \<Rightarrow> real \<Rightarrow> jsval \<Rightarrow> real \<Rightarrow> ('s, real) loop_op" where
  "orphan_loop E B count limit cursor totalRemoved s =
     (case rv_call E ''scan'' (scan_args B count cursor) s of
        (Inl e, s1) \<Rightarrow> Some (Inl e, s1)
      | (Inr reply, s1) \<Rightarrow>
          (case reply_parts E reply of
             Inl e \<Rightarrow> Some (Inl e, s1)
           | Inr parts \<Rightarrow>
               (if candidates_of (map_keys (rq_keys B)) (key_str (rq_keys B) '''') (str_list_of (elem_at parts 1)) = []
                then (if elem_at parts 0 \<noteq> VStr ''0'' then orphan_loop E B count limit (elem_at parts 0) totalRemoved s1
                      else Some (Inr totalRemoved, s1))
                else (case removeOrphanedJobsBatch E B
                             (candidates_of (map_keys (rq_keys B)) (key_str (rq_keys B) '''')
                                (str_list_of (elem_at parts 1)))
                             (stateKeySuffixes B) jobSubKeySuffixes s1 of
                        (Inl e, s2) \<Rightarrow> Some (Inl e, s2)
                      | (Inr result, s2) \<Rightarrow>
                          (if (0 < limit \<and> limit \<le> add_removed totalRemoved result) \<or> elem_at parts 0 = VStr ''0''
                           then Some (Inr (add_removed totalRemoved result), s2)
                           else orphan_loop E B count limit (elem_at parts 0) (add_removed totalRemoved result) s2)))))"

definition removeOrphanedJobs_redis :: "'s redis_env \<Rightarrow> redis_queue \<Rightarrow> real option \<Rightarrow> real option \<Rightarrow> ('s, real) loop_op" where
  "removeOrphanedJobs_redis E B count limit s =
     (case rv_client E s of
        (Inl e, s') \<Rightarrow> Some (Inl e, s')
      | (Inr _, s') \<Rightarrow> orphan_loop E B (with_default 1000 count) (with_default 0 limit) (VStr ''0'') 0 s')"

text \<open>What the script removeOrphanedJobs deletes for a candidate that no state refers to.\<close>

definition orphan_keys :: "string \<Rightarrow> string list \<Rightarrow> string \<Rightarrow> string list" where
  "orphan_keys basePrefix subKeySuffixes jobId =
     (basePrefix @ jobId) # map (\<lambda>sfx. basePrefix @ jobId @ '':'' @ sfx) subKeySuffixes"

section \<open>Which jobs are candidates\<close>

lemma set_map_filter_iff: "y \<in> set (List.map_filter f xs) \<longleftrightarrow> (\<exists>x \<in> set xs. f x = Some y)"
  by (induction xs) (auto simp: List.map_filter_def)

lemma split_first_colon_plain: "CHR '':'' \<notin> set s \<Longrightarrow> split_first_colon s = (s, None)"
  unfolding split_first_colon_def by (induction s) auto

lemma split_first_colon_colon:
  "CHR '':'' \<notin> set a \<Longrightarrow> split_first_colon (a @ CHR '':'' # b) = (a, Some b)"
  unfolding split_first_colon_def by (induction a) auto

lemma first_colon_cases:
  obtains (plain) "CHR '':'' \<notin> set s" | (colon) a b where "s = a @ CHR '':'' # b" "CHR '':'' \<notin> set a"
  by (metis split_list_first)

text \<open>The ids found under a base prefix: the names of job hashes and the owners of job sub-keys.\<close>

definition job_key_of :: "string \<Rightarrow> string \<Rightarrow> string \<Rightarrow> bool" where
  "job_key_of base jobId key \<longleftrightarrow>
     key = base @ jobId \<or> (\<exists>sfx \<in> set jobSubKeySuffixes. key = base @ jobId @ '':'' @ sfx)"

lemma candidate_of_iff:
  assumes "\<forall>k \<in> set known. CHR '':'' \<notin> set k"
  shows "candidate_of known base (base @ sfx) = Some c
    \<longleftrightarrow> job_key_of base c (base @ sfx) \<and> c \<notin> set known \<and> CHR '':'' \<notin> set c"
proof (cases sfx rule: first_colon_cases)
  case plain
  then show ?thesis by (auto simp: candidate_of_def job_key_of_def split_first_colon_plain)
next
  case (colon a sub)
  with assms have "sfx \<notin> set known" by auto
  moreover have "sfx = c @ '':'' @ x \<longleftrightarrow> c = a \<and> x = sub" if "CHR '':'' \<notin> set c" for x
    using colon that append_colon_inj [of a c sub x] by auto
  moreover from colon have "split_first_colon sfx = (a, Some sub)" by (simp add: split_first_colon_colon)
  ultimately show ?thesis using colon
    by (auto simp: candidate_of_def job_key_of_def)
qed

lemma key_types_colon_free: "\<forall>k \<in> set key_types. CHR '':'' \<notin> set k"
  by (simp add: key_types_def)

lemma toKey_base: "toKey pre name t = toKey pre name '''' @ t"
  by (simp add: toKey_def)

lemma orphan_keys_job_key_of: "k \<in> set (orphan_keys base jobSubKeySuffixes c) \<longleftrightarrow> job_key_of base c k"
  by (auto simp: orphan_keys_def job_key_of_def)

text \<open>
  removeOrphanedJobs considers exactly the ids whose job hash or known sub-key was scanned,
  each once and never a name the queue itself uses, so that none of the keys its script may
  delete for a candidate is one of the queue's own keys.
\<close>

theorem orphan_candidates_exact:
  assumes "\<forall>k \<in> set scanned. prefix (toKey pre name '''') k"
  shows "distinct (candidates_of key_types (toKey pre name '''') scanned)
    \<and> (c \<in> set (candidates_of key_types (toKey pre name '''') scanned)
        \<longleftrightarrow> c \<notin> set key_types \<and> CHR '':'' \<notin> set c
          \<and> (\<exists>k \<in> set scanned. job_key_of (toKey pre name '''') c k))
    \<and> (c \<in> set (candidates_of key_types (toKey pre name '''') scanned)
        \<longrightarrow> set (orphan_keys (toKey pre name '''') jobSubKeySuffixes c) \<inter> set (map snd (getKeys pre name)) = {})"
proof -
  let ?base = "toKey pre name ''''"
  have ex: "c \<in> set (candidates_of key_types ?base scanned)
    \<longleftrightarrow> (\<exists>k \<in> set scanned. candidate_of key_types ?base k = Some c)"
    by (auto simp: candidates_of_def set_map_filter_iff)
  have one: "candidate_of key_types ?base k = Some c
    \<longleftrightarrow> job_key_of ?base c k \<and> c \<notin> set key_types \<and> CHR '':'' \<notin> set c" if "k \<in> set scanned" for k
    using assms that candidate_of_iff [OF key_types_colon_free, of ?base] by (force simp: prefix_def)
  have "?base @ t \<notin> set (orphan_keys ?base jobSubKeySuffixes c)"
    if "t \<in> set key_types" "c \<notin> set key_types" for t
    using that key_types_colon_free by (auto simp: orphan_keys_def)
  then have "set (orphan_keys ?base jobSubKeySuffixes c) \<inter> set (map snd (getKeys pre name)) = {}"
    if "c \<notin> set key_types"
    using that by (auto simp: getKeys_eq) (metis toKey_base)
  with ex one show ?thesis by (auto simp: candidates_of_def)
qed

theorem orphan_candidates_exact_witness:
  "candidates_of key_types ''bull:mails:'' [''bull:mails:wait'', ''bull:mails:7'', ''bull:mails:7:logs'', ''bull:mails:repeat:x'']
     = [''7'']
   \<and> set (orphan_keys ''bull:mails:'' jobSubKeySuffixes ''7'') \<inter> set (map snd (getKeys ''bull'' ''mails'')) = {}"
proof -
  have b: "toKey ''bull'' ''mails'' '''' = ''bull:mails:''" by (simp add: toKey_def getQueueQualifiedName_def)
  have c: "candidates_of key_types ''bull:mails:'' [''bull:mails:wait'', ''bull:mails:7'', ''bull:mails:7:logs'', ''bull:mails:repeat:x'']
     = [''7'']"
    by (simp add: candidates_of_def List.map_filter_def candidate_of_def key_types_def split_first_colon_def
        jobSubKeySuffixes_def unique_set_def)
  with orphan_candidates_exact [of "[''bull:mails:wait'', ''bull:mails:7'', ''bull:mails:7:logs'', ''bull:mails:repeat:x'']"
      "''bull''" "''mails''" "''7''"]
  show ?thesis unfolding b by simp
qed

text \<open>
  The metrics of failed jobs are mistaken for a job: the key metrics:failed that moveToFinished
  writes for every queue with metrics makes metrics a candidate, and the keys deleted for it
  include metrics:failed itself.
\<close>

theorem orphan_metrics_deleted:
  "candidates_of key_types (toKey pre name '''') [toKey pre name (''metrics:'' @ ''failed'')] = [''metrics'']
   \<and> toKey pre name (''metrics:'' @ ''failed'') \<in> set (orphan_keys (toKey pre name '''') jobSubKeySuffixes ''metrics'')"
proof -
  have "candidate_of key_types (toKey pre name '''') (toKey pre name '''' @ ''metrics:failed'') = Some ''metrics''"
    by (simp add: candidate_of_def key_types_def split_first_colon_def jobSubKeySuffixes_def)
  then show ?thesis
    by (simp add: toKey_base [of pre name "''metrics:failed''"] candidates_of_def List.map_filter_def unique_set_def
        orphan_keys_def jobSubKeySuffixes_def)
qed

end
