(* ===== verification/Script_Loader.thy ===== *)
theory Script_Loader
  imports Redis_Codec
begin

text \<open>
  The naming convention of src/commands: a script file is called \<open>cmdName-numKeys.lua\<close>, and
  splitFilename of src/commands/script-loader.ts reads the command name and the number of
  KEYS off the file name. \<open>command_files\<close> is the content of the directory, from which the
  table of declared key counts is computed.
\<close>

section \<open>File names\<close>

text \<open>\<open>path.basename(p, ext)\<close>: the last component, without the extension unless it is all of it.\<close>

definition strip_trailing_slashes :: "string \<Rightarrow> string" where
  "strip_trailing_slashes p = rev (dropWhile (\<lambda>c. c = CHR ''/'') (rev p))"

definition last_component :: "string \<Rightarrow> string" where
  "last_component p = rev (takeWhile (\<lambda>c. c \<noteq> CHR ''/'') (rev (strip_trailing_slashes p)))"

definition ends_with :: "string \<Rightarrow> string \<Rightarrow> bool" where
  "ends_with s e = prefix (rev e) (rev s)"

definition basename :: "string \<Rightarrow> string \<Rightarrow> string" where
  "basename p ext =
     (let b = last_component p in
      if ends_with b ext \<and> b \<noteq> ext then take (length b - length ext) b else b)"

fun split_dash :: "string \<Rightarrow> string list" where
  "split_dash [] = [[]]"
| "split_dash (c # cs) =
     (if c = CHR ''-'' then [] # split_dash cs
      else case split_dash cs of [] \<Rightarrow> [[c]] | w # ws \<Rightarrow> (c # w) # ws)"

text \<open>The number of keys is missing for a file without a dash; \<open>None\<close> inside stands for NaN.\<close>

definition splitFilename :: "string \<Rightarrow> string \<times> int option option" where
  "splitFilename filePath =
     (let parts = split_dash (basename filePath ''.lua''); n = nth_or_empty parts 1
      in (nth_or_empty parts 0, if n \<noteq> [] then Some (parseInt10 n) else None))"

section \<open>The commands directory\<close>

definition command_files :: "string list" where
  "command_files =
    [''addDelayedJob-6.lua'', ''addJobScheduler-11.lua'', ''addLog-2.lua'', ''addParentJob-6.lua'',
     ''addPrioritizedJob-9.lua'', ''addStandardJob-9.lua'', ''changeDelay-4.lua'', ''changePriority-7.lua'',
     ''cleanJobsInSet-3.lua'', ''drain-5.lua'', ''extendLock-2.lua'', ''extendLocks-1.lua'',
     ''getCounts-1.lua'', ''getCountsPerPriority-2.lua'', ''getDependencyCounts-4.lua'',
     ''getJobScheduler-1.lua'', ''getJobs-1.lua'', ''getMetrics-2.lua'', ''getRanges-1.lua'',
     ''getRateLimitTtl-2.lua'', ''getState-8.lua'', ''getStateV2-8.lua'', ''isFinished-3.lua'',
     ''isJobInList-1.lua'', ''isMaxed-2.lua'', ''moveJobFromActiveToWait-9.lua'', ''moveJobsToWait-8.lua'',
     ''moveStalledJobsToWait-9.lua'', ''moveToActive-11.lua'', ''moveToDelayed-12.lua'',
     ''moveToFinished-14.lua'', ''moveToWaitingChildren-7.lua'', ''obliterate-2.lua'', ''paginate-1.lua'',
     ''pause-7.lua'', ''promote-9.lua'', ''releaseLock-1.lua'', ''removeChildDependency-1.lua'',
     ''removeDeduplicationKey-1.lua'', ''removeJob-2.lua'', ''removeJobScheduler-3.lua'',
     ''removeOrphanedJobs-1.lua'', ''removeUnprocessedChildren-2.lua'', ''reprocessJob-8.lua'',
     ''retryJob-11.lua'', ''saveStacktrace-1.lua'', ''updateData-1.lua'', ''updateJobScheduler-12.lua'',
     ''updateProgress-3.lua'']"

definition key_counts :: "(string \<times> nat) list" where
  "key_counts =
     map (\<lambda>f. case splitFilename f of
                (n, Some (Some k)) \<Rightarrow> (n, nat k)
              | (n, _) \<Rightarrow> (n, 0)) command_files"

definition numberOfKeys :: "string \<Rightarrow> nat option" where
  "numberOfKeys command = map_of key_counts command"

section \<open>File names in the documented format\<close>

lemma split_dash_plain: "CHR ''-'' \<notin> set s \<Longrightarrow> split_dash s = [s]"
  by (induction s) auto

lemma split_dash_append: "CHR ''-'' \<notin> set n \<Longrightarrow> split_dash (n @ CHR ''-'' # s) = n # split_dash s"
  by (induction n) auto

lemma basename_plain:
  assumes "CHR ''/'' \<notin> set b" and "b \<noteq> []"
  shows "basename (b @ ''.lua'') ''.lua'' = b"
proof -
  have s: "strip_trailing_slashes (b @ ''.lua'') = b @ ''.lua''"
    by (simp add: strip_trailing_slashes_def)
  have "last_component (b @ ''.lua'') = b @ ''.lua''"
    unfolding last_component_def s using assms(1)
    by (subst takeWhile_eq_all_conv [THEN iffD2]) auto
  with assms(2) show ?thesis by (simp add: basename_def ends_with_def Let_def)
qed

lemma splitFilename_format:
  assumes "CHR ''-'' \<notin> set n" and "CHR ''/'' \<notin> set n"
  shows "splitFilename (n @ ''-'' @ string_of_nat k @ ''.lua'') = (n, Some (Some (int k)))"
proof -
  have d: "CHR ''-'' \<notin> set (string_of_nat k)" "CHR ''/'' \<notin> set (string_of_nat k)"
    using string_of_nat_chars [of k] by (auto simp: digit_chars_def)
  with assms have "basename ((n @ ''-'' @ string_of_nat k) @ ''.lua'') ''.lua'' = n @ ''-'' @ string_of_nat k"
    by (intro basename_plain) auto
  moreover from assms d have "split_dash (n @ ''-'' @ string_of_nat k) = [n, string_of_nat k]"
    by (simp add: split_dash_append split_dash_plain)
  ultimately show ?thesis
    by (simp add: splitFilename_def nth_or_empty_def parseInt10_string_of_nat)
qed

definition declared_keys :: "(string \<times> nat) list" where
  "declared_keys =
     [(''addDelayedJob'', 6), (''addJobScheduler'', 11), (''addLog'', 2), (''addParentJob'', 6),
      (''addPrioritizedJob'', 9), (''addStandardJob'', 9), (''changeDelay'', 4), (''changePriority'', 7),
      (''cleanJobsInSet'', 3), (''drain'', 5), (''extendLock'', 2), (''extendLocks'', 1),
      (''getCounts'', 1), (''getCountsPerPriority'', 2), (''getDependencyCounts'', 4),
      (''getJobScheduler'', 1), (''getJobs'', 1), (''getMetrics'', 2), (''getRanges'', 1),
      (''getRateLimitTtl'', 2), (''getState'', 8), (''getStateV2'', 8), (''isFinished'', 3),
      (''isJobInList'', 1), (''isMaxed'', 2), (''moveJobFromActiveToWait'', 9), (''moveJobsToWait'', 8),
      (''moveStalledJobsToWait'', 9), (''moveToActive'', 11), (''moveToDelayed'', 12),
      (''moveToFinished'', 14), (''moveToWaitingChildren'', 7), (''obliterate'', 2), (''paginate'', 1),
      (''pause'', 7), (''promote'', 9), (''releaseLock'', 1), (''removeChildDependency'', 1),
      (''removeDeduplicationKey'', 1), (''removeJob'', 2), (''removeJobScheduler'', 3),
      (''removeOrphanedJobs'', 1), (''removeUnprocessedChildren'', 2), (''reprocessJob'', 8),
      (''retryJob'', 11), (''saveStacktrace'', 1), (''updateData'', 1), (''updateJobScheduler'', 12),
      (''updateProgress'', 3)]"

lemma command_files_format:
  "command_files = map (\<lambda>(n, k). n @ ''-'' @ string_of_nat k @ ''.lua'') declared_keys"
  by (simp add: command_files_def declared_keys_def string_of_nat.simps string_of_digit_def)

lemma declared_names: "\<forall>e \<in> set declared_keys. CHR ''-'' \<notin> set (fst e) \<and> CHR ''/'' \<notin> set (fst e)"
  by (simp add: declared_keys_def)

lemma key_counts_eq: "key_counts = declared_keys"
proof -
  have "(case splitFilename (n @ ''-'' @ string_of_nat k @ ''.lua'') of
           (n, Some (Some k)) \<Rightarrow> (n, nat k) | (n, _) \<Rightarrow> (n, 0)) = (n, k)"
    if "(n, k) \<in> set declared_keys" for n k
    using bspec [OF declared_names that] by (simp add: splitFilename_format del: append_Cons append_Nil)
  then have "map (\<lambda>f. case splitFilename f of (n, Some (Some k)) \<Rightarrow> (n, nat k) | (n, _) \<Rightarrow> (n, 0)) command_files
    = map (\<lambda>e. e) declared_keys"
    unfolding command_files_format map_map by (intro map_cong [OF refl]) (clarsimp simp del: append_Cons append_Nil)
  then show ?thesis by (simp add: key_counts_def)
qed

end
