(* ===== verification/Redis_Instance.thy ===== *)
theory Redis_Instance
  imports Redis_Scan Script_Loader
begin

text \<open>
  The Redis adapter as an implementation of the backend contract, and what its scripts may
  touch. \<open>redis_backend\<close> collects the operations of the previous theories into a record of
  the contract; the contract's result types are the documented shapes of the replies.
  \<open>guarded\<close> is a client that refuses every script call whose KEYS are not as many as the
  script's file declares or leave the name space of the queue. Running the adapter on a
  guarded client changes nothing: it never issues such a call.
\<close>

section \<open>The contract's view of replies\<close>

definition num_cast :: "jsval \<Rightarrow> real" where
  "num_cast v = (case num_of v of Some n \<Rightarrow> n | None \<Rightarrow> 0)"

definition b_map :: "('a \<Rightarrow> 'b) \<Rightarrow> ('s, 'a) backend_op \<Rightarrow> ('s, 'b) backend_op" where
  "b_map f m = b_then m (\<lambda>a. b_ret (f a))"

definition str_map_of :: "jsval \<Rightarrow> (string, string) jsmap" where
  "str_map_of v = map (\<lambda>(k, s). (k, with_default '''' s)) (hash_of v)"

definition pair_cast :: "jsval \<Rightarrow> jsval \<times> jsval" where
  "pair_cast v = (case v of VArr vs \<Rightarrow> (elem_at vs 0, elem_at vs 1) | _ \<Rightarrow> (VUndef, VUndef))"

definition list_cast :: "jsval \<Rightarrow> string list option" where
  "list_cast v = (case v of VArr _ \<Rightarrow> Some (str_list_of v) | _ \<Rightarrow> None)"

definition marker_cast :: "(jsval \<times> jsval) option \<Rightarrow> (string \<times> real) option" where
  "marker_cast m = map_option (\<lambda>(i, sc). (with_default '''' (str_of i), num_cast sc)) m"

definition redis_backend :: "real option \<Rightarrow> 's redis_env \<Rightarrow> redis_queue \<Rightarrow> 's queue_backend" where
  "redis_backend latency E B =
     \<lparr>be_waitUntilReady = be_ready E B,
      be_addJob = (\<lambda>job i p. b_map str_of (addJob E B job i p)),
      be_addJobs = (\<lambda>es. b_map (map str_of) (addJobs E B es)),
      be_addFlow = addFlow E B,
      be_addJobScheduler = (\<lambda>i m t to opts d p.
        b_map (\<lambda>v. (with_default '''' (str_of (fst (pair_cast v))), snd (pair_cast v)))
          (addJobScheduler E B i m t to opts d p)),
      be_moveToActive = moveToActive_redis E B,
      be_moveToCompleted = moveToCompleted_redis E B,
      be_moveToFailed = (\<lambda>job r rm tok f upd. moveToFailed_redis E B job r rm tok f (Some upd)),
      be_moveToDelayed = (\<lambda>i ts d tok opts.
        moveToDelayed_redis E B i ts d tok (md_skipAttempt opts) (Some (md_fieldsToUpdate opts)) (md_fetchNext opts)),
      be_moveToWaitingChildren = moveToWaitingChildren_redis E B,
      be_moveJobFromActiveToWait = (\<lambda>i tok. b_map num_cast (moveJobFromActiveToWait E B i tok)),
      be_retryJob = (\<lambda>i lifo tok upd. retryJob E B i lifo tok (Some upd)),
      be_retryFinishedJob = retryFinishedJob E B,
      be_promote = promote_redis E B,
      be_moveStalledJobsToWait = b_map str_list_of (moveStalledJobsToWait_redis E B),
      be_extendLock = (\<lambda>i tok d. b_map num_cast (extendLock_redis E B i tok d)),
      be_updateData = updateData_redis E B,
      be_updateProgress = updateProgress_redis E B,
      be_addLog = (\<lambda>i row k. b_map num_cast (addLog E B i row k)),
      be_clearLogs = clearLogs_redis E B,
      be_changeDelay = changeDelay_redis E B,
      be_changePriority = changePriority_redis E B,
      be_remove = (\<lambda>i c. b_map num_cast (remove_redis E B i c)),
      be_removeUnprocessedChildren = removeUnprocessedChildren_redis E B,
      be_removeChildDependency = removeChildDependency_redis E B,
      be_removeDeduplicationKey = (\<lambda>d i. b_map num_cast (removeDeduplicationKey_redis E B d i)),
      be_updateJobSchedulerNextMillis = (\<lambda>i m t d p. b_map str_of (updateJobSchedulerNextMillis E B i m t d p)),
      be_removeJobScheduler = (\<lambda>i. b_map num_cast (removeJobScheduler_redis E B i)),
      be_getJobScheduler = (\<lambda>i. b_map (\<lambda>v. (list_cast (fst (pair_cast v)), str_of (snd (pair_cast v))))
        (getJobScheduler_redis E B i)),
      be_isJobScheduler = isJobScheduler E B,
      be_getJobSchedulerData = (\<lambda>k. b_map hash_of (getJobSchedulerData E B k)),
      be_getJobSchedulersRange = (\<lambda>s e asc. b_map str_list_of (getJobSchedulersRange E B (of_int s) (of_int e) asc)),
      be_getState = (\<lambda>i. b_map (\<lambda>v. with_default '''' (str_of v)) (getState_redis E B i)),
      be_isFinished = (\<lambda>i. b_map (\<lambda>v. (\<lfloor>num_cast (fst (pair_cast v))\<rfloor>, with_default '''' (str_of (snd (pair_cast v)))))
        (isFinished E B i True)),
      be_isJobInState = isJobInState E B,
      be_getJobData = getJobData E B,
      be_getRateLimitTtl = (\<lambda>m. b_map num_cast (getRateLimitTtl_redis E B m)),
      be_getDependencyCounts = (\<lambda>i ts. b_map (\<lambda>v. case v of VArr vs \<Rightarrow> map num_of vs | _ \<Rightarrow> [])
        (getDependencyCounts E B i ts)),
      be_getProcessedChildrenValues = (\<lambda>i. b_map (\<lambda>v. case v of VObj _ \<Rightarrow> Some (str_map_of v) | _ \<Rightarrow> None)
        (getProcessedChildrenValues E B i)),
      be_getIgnoredChildrenFailures = (\<lambda>i. b_map str_map_of (getIgnoredChildrenFailures_redis E B i)),
      be_waitForJob = (\<lambda>t s. case waitForJob E B latency t s of
        ((r, _), s') \<Rightarrow> (bind_result r (\<lambda>m. Inr (marker_cast m)), s')),
      be_reconnectBlocking = reconnectBlocking E B\<rparr>"

section \<open>A client that checks script calls\<close>

definition own_key :: "redis_queue \<Rightarrow> jsval \<Rightarrow> bool" where
  "own_key B k = (case k of VStr s \<Rightarrow> s = [] \<or> prefix (rq_toKey B '''') s | _ \<Rightarrow> False)"

definition script_ok :: "redis_queue \<Rightarrow> string \<Rightarrow> jsval list \<Rightarrow> bool" where
  "script_ok B command args =
     (case numberOfKeys command of
        Some n \<Rightarrow> n \<le> length args \<and> list_all (own_key B) (take n args)
      | None \<Rightarrow> False)"

text \<open>A command name with a colon is a script of some version.\<close>

definition command_ok :: "redis_queue \<Rightarrow> string \<times> jsval list \<Rightarrow> bool" where
  "command_ok B cmd =
     (case cmd of (name, args) \<Rightarrow>
        CHR '':'' \<in> set name
        \<longrightarrow> name = versioned B (takeWhile (\<lambda>c. c \<noteq> CHR '':'') name)
          \<and> script_ok B (takeWhile (\<lambda>c. c \<noteq> CHR '':'') name) args)"

definition refusal :: js_error where
  "refusal = new_err ErrorClass None ''CROSSSLOT Keys in request do not belong to the queue''"

definition guarded :: "redis_queue \<Rightarrow> 's redis_env \<Rightarrow> 's redis_env" where
  "guarded B E =
     E\<lparr>rv_call := (\<lambda>name args s. if command_ok B (name, args) then rv_call E name args s else (Inl refusal, s)),
       rv_exec := (\<lambda>multi cmds s. if multi \<or> list_all (command_ok B) cmds then rv_exec E multi cmds s
                                  else (Inl refusal, s))\<rparr>"

section \<open>The adapter passes the check\<close>

text \<open>What the constructor sets up for a queue: the keys of the queue and their builder.\<close>

definition addresses :: "redis_queue \<Rightarrow> string \<Rightarrow> string \<Rightarrow> bool" where
  "addresses B pre name \<longleftrightarrow>
     rq_keys B = getKeys pre name \<and> rq_toKey B = toKey pre name \<and> length (rq_moveToFinishedKeys B) = 14
     \<and> take 10 (rq_moveToFinishedKeys B)
         = map (key_in (getKeys pre name))
             [''wait'', ''active'', ''prioritized'', ''events'', ''stalled'', ''limiter'', ''delayed'', ''paused'',
              ''meta'', ''pc'']"

lemma new_backend_addresses:
  "addresses (new_RedisQueueBackend v srv n (getKeys pre name) (toKey pre name) opts blk own) pre name"
  by (simp add: addresses_def new_RedisQueueBackend_def)

lemma forQueue_addresses:
  "addresses (forQueue srv B queueName pre) (with_default (rq_redisPrefix B) pre) queueName"
  by (simp add: forQueue_def new_backend_addresses Let_def)

lemma key_in_getKeys: "k \<in> set key_types \<Longrightarrow> key_in (getKeys pre name) k = VStr (toKey pre name k)"
proof -
  have "map_of (map (\<lambda>t. (t, toKey pre name t)) ts) k = (if k \<in> set ts then Some (toKey pre name k) else None)" for ts
    by (induction ts) auto
  then show "k \<in> set key_types \<Longrightarrow> key_in (getKeys pre name) k = VStr (toKey pre name k)"
    by (simp add: key_in_def getKeys_eq)
qed

lemma own_toKey: "addresses B pre name \<Longrightarrow> own_key B (VStr (toKey pre name t @ x))"
  by (simp add: own_key_def addresses_def toKey_def)

lemma own_toKey_plain: "addresses B pre name \<Longrightarrow> own_key B (VStr (toKey pre name t))"
  using own_toKey [of B pre name t "[]"] by simp

lemma own_empty: "own_key B (VStr [])"
  by (simp add: own_key_def)

lemma own_qkey: "addresses B pre name \<Longrightarrow> k \<in> set key_types \<Longrightarrow> own_key B (qkey B k)"
  using own_toKey_plain by (simp add: key_in_getKeys addresses_def)

lemma own_tkey: "addresses B pre name \<Longrightarrow> own_key B (VStr (rq_toKey B t))"
  using own_toKey_plain by (simp add: addresses_def)

lemma own_tkey_append: "addresses B pre name \<Longrightarrow> own_key B (VStr (rq_toKey B t @ x))"
  using own_toKey by (simp add: addresses_def)

lemma own_key_str: "addresses B pre name \<Longrightarrow> k \<in> set key_types \<Longrightarrow> own_key B (VStr (key_str (rq_keys B) k @ x))"
  using key_in_getKeys [of k pre name] own_toKey [of B pre name]
  by (auto simp: key_str_def key_in_def addresses_def render_opt_def with_default_def split: option.splits)

lemmas own_simps = own_qkey own_tkey own_tkey_append own_key_str

lemma numberOfKeys_commands [simp]:
  "numberOfKeys ''addDelayedJob'' = Some 6" "numberOfKeys ''addJobScheduler'' = Some 11"
  "numberOfKeys ''addLog'' = Some 2" "numberOfKeys ''addParentJob'' = Some 6"
  "numberOfKeys ''addPrioritizedJob'' = Some 9" "numberOfKeys ''addStandardJob'' = Some 9"
  "numberOfKeys ''changeDelay'' = Some 4" "numberOfKeys ''changePriority'' = Some 7"
  "numberOfKeys ''extendLock'' = Some 2" "numberOfKeys ''getDependencyCounts'' = Some 4"
  "numberOfKeys ''getJobScheduler'' = Some 1" "numberOfKeys ''getRateLimitTtl'' = Some 2"
  "numberOfKeys ''getState'' = Some 8" "numberOfKeys ''getStateV2'' = Some 8"
  "numberOfKeys ''isFinished'' = Some 3" "numberOfKeys ''isJobInList'' = Some 1"
  "numberOfKeys ''moveJobFromActiveToWait'' = Some 9" "numberOfKeys ''moveStalledJobsToWait'' = Some 9"
  "numberOfKeys ''moveToActive'' = Some 11" "numberOfKeys ''moveToDelayed'' = Some 12"
  "numberOfKeys ''moveToFinished'' = Some 14" "numberOfKeys ''moveToWaitingChildren'' = Some 7"
  "numberOfKeys ''promote'' = Some 9" "numberOfKeys ''removeChildDependency'' = Some 1"
  "numberOfKeys ''removeDeduplicationKey'' = Some 1" "numberOfKeys ''removeJob'' = Some 2"
  "numberOfKeys ''removeJobScheduler'' = Some 3" "numberOfKeys ''removeUnprocessedChildren'' = Some 2"
  "numberOfKeys ''reprocessJob'' = Some 8" "numberOfKeys ''retryJob'' = Some 11"
  "numberOfKeys ''updateData'' = Some 1" "numberOfKeys ''updateJobScheduler'' = Some 12"
  "numberOfKeys ''updateProgress'' = Some 3"
  by (simp_all add: numberOfKeys_def key_counts_eq declared_keys_def)

lemma guarded_fields [simp]:
  "rv_client (guarded B E) = rv_client E" "rv_pack (guarded B E) = rv_pack E" "rv_json (guarded B E) = rv_json E"
  "rv_now (guarded B E) = rv_now E" "rv_stk (guarded B E) = rv_stk E" "rv_coerce (guarded B E) = rv_coerce E"
  "rv_lt (guarded B E) = rv_lt E"
  by (simp_all add: guarded_def)

lemma guarded_plain_call [simp]: "CHR '':'' \<notin> set name \<Longrightarrow> rv_call (guarded B E) name args = rv_call E name args"
  by (simp add: guarded_def command_ok_def fun_eq_iff)

lemma takeWhile_colon: "CHR '':'' \<notin> set c \<Longrightarrow> takeWhile (\<lambda>x. x \<noteq> CHR '':'') (c @ CHR '':'' # v) = c"
  by (induction c) auto

lemma versioned_ok: "script_ok B c args \<Longrightarrow> CHR '':'' \<notin> set c \<Longrightarrow> command_ok B (versioned B c, args)"
  by (simp add: command_ok_def versioned_def takeWhile_colon)

lemma exec_guarded:
  "script_ok B c args \<Longrightarrow> CHR '':'' \<notin> set c \<Longrightarrow> execCommand (guarded B E) B c args = execCommand E B c args"
  by (simp add: execCommand_def guarded_def versioned_ok fun_eq_iff)

lemma script_okI:
  "numberOfKeys c = Some n \<Longrightarrow> length ks = n \<Longrightarrow> list_all (own_key B) ks \<Longrightarrow> script_ok B c (ks @ args)"
  by (simp add: script_ok_def)

lemma list_all_own:
  assumes "addresses B pre name"
  shows "set ks \<subseteq> set key_types \<Longrightarrow> list_all (own_key B) (map (qkey B) ks)"
    and "list_all (own_key B) (map (tkey B) ts)"
  using own_qkey [OF assms] own_tkey [OF assms] by (auto simp: list_all_iff)

lemma add_scripts_ok:
  assumes "addresses B pre name"
  shows "script_ok B ''addDelayedJob'' (addDelayedJobArgs E job eo as (rq_keys B))"
    and "script_ok B ''addPrioritizedJob'' (addPrioritizedJobArgs E job eo as (rq_keys B))"
    and "script_ok B ''addParentJob'' (addParentJobArgs E job eo as (rq_keys B))"
    and "script_ok B ''addStandardJob'' (addStandardJobArgs E job eo as (rq_keys B))"
  unfolding addDelayedJobArgs_def addPrioritizedJobArgs_def addParentJobArgs_def addStandardJobArgs_def
  by (rule script_okI; simp add: own_qkey [OF assms] key_types_def)+

lemma add_command_ok:
  "addresses B pre name \<Longrightarrow>
     (case add_job_command E (rq_keys B) job i p of (c, as) \<Rightarrow> script_ok B c as \<and> CHR '':'' \<notin> set c)"
  by (simp add: add_job_command_def add_scripts_ok Let_def)

lemma finished_keys_own:
  assumes "addresses B pre name" and "target \<in> {''completed'', ''failed''}"
  shows "list_all (own_key B) ((rq_moveToFinishedKeys B)
     [10 := qkey B target, 11 := tkey B i, 12 := tkey B m, 13 := qkey B ''marker''])"
proof -
  let ?ks = "rq_moveToFinishedKeys B"
  from assms(1) have len: "length ?ks = 14" by (simp add: addresses_def)
  have "own_key B (?ks ! j)" if "j < 10" for j
  proof -
    from assms(1) have "take 10 ?ks = map (qkey B)
       [''wait'', ''active'', ''prioritized'', ''events'', ''stalled'', ''limiter'', ''delayed'', ''paused'', ''meta'', ''pc'']"
      by (simp add: addresses_def)
    moreover have "list_all (own_key B) (map (qkey B)
       [''wait'', ''active'', ''prioritized'', ''events'', ''stalled'', ''limiter'', ''delayed'', ''paused'', ''meta'', ''pc''])"
      by (rule list_all_own [OF assms(1)]) (simp add: key_types_def)
    ultimately have "list_all (own_key B) (take 10 ?ks)" by simp
    moreover from that len have "?ks ! j = take 10 ?ks ! j" and "j < length (take 10 ?ks)" by simp_all
    ultimately show ?thesis by (simp only: list_all_length)
  qed
  moreover have "own_key B (qkey B target)" "own_key B (qkey B ''marker'')"
    using assms own_qkey [OF assms(1)] by (auto simp: key_types_def)
  moreover have "own_key B (tkey B t)" for t by (rule own_tkey [OF assms(1)])
  ultimately show ?thesis
    by (auto simp: list_all_length len nth_list_update)
qed

lemma finish_scripts_ok:
  assumes "addresses B pre name" and "target \<in> {''completed'', ''failed''}"
  shows "script_ok B ''moveToFinished'' (moveToFinishedArgs E B job val pv rm target tok ts f upd)"
  unfolding moveToFinishedArgs_def Let_def
  using finished_keys_own [OF assms] assms(1) by (intro script_okI) (simp_all add: addresses_def)

lemma job_scripts_ok:
  assumes "addresses B pre name"
  shows "script_ok B ''isJobInList'' [tkey B st, opt_str_val i]"
    and "script_ok B ''removeDeduplicationKey'' (removeDeduplicationKeyArgs B d i)"
    and "script_ok B ''addJobScheduler'' (addJobSchedulerArgs E B si m t topts opts dopts p)"
    and "script_ok B ''updateJobScheduler'' (updateJobSchedulerArgs E B si m t dopts p)"
    and "script_ok B ''removeJobScheduler'' (removeJobSchedulerArgs B si)"
    and "script_ok B ''removeJob'' (removeArgs B i c)"
    and "script_ok B ''removeUnprocessedChildren'' (removeUnprocessedChildrenArgs B i)"
    and "script_ok B ''extendLock'' (extendLockArgs B i tok dur)"
    and "script_ok B ''updateData'' [jkey B i, v]"
    and "script_ok B ''updateProgress'' (updateProgressArgs B i v)"
    and "script_ok B ''addLog'' (addLogArgs B i row k)"
    and "script_ok B ''removeChildDependency'' (removeChildDependencyArgs B i pk)"
    and "script_ok B ''getDependencyCounts'' (getDependencyCountsArgs B i types)"
    and "script_ok B ''isFinished'' (isFinishedArgs B i rv)"
    and "script_ok B ''getState'' (getStateArgs B i)"
    and "script_ok B ''getStateV2'' (getStateArgs B i)"
    and "script_ok B ''changeDelay'' (changeDelayArgs E B i delay)"
    and "script_ok B ''changePriority'' (changePriorityArgs B i pr lifo)"
    and "script_ok B ''moveToDelayed'' (moveToDelayedArgs E B i ts tok delay sk upd f)"
    and "script_ok B ''moveToWaitingChildren'' (moveToWaitingChildrenArgs E B i tok ch)"
    and "script_ok B ''getRateLimitTtl'' (getRateLimitTtlArgs B mx)"
    and "script_ok B ''getJobScheduler'' (getJobSchedulerArgs B si)"
    and "script_ok B ''retryJob'' (retryJobArgs E B i lf tok upd)"
    and "script_ok B ''reprocessJob'' (reprocessJobArgs B job state ropts)"
    and "script_ok B ''moveToActive'' (moveToActiveArgs E B tok wname)"
    and "script_ok B ''promote'' (promoteArgs B i)"
    and "script_ok B ''moveStalledJobsToWait'' (moveStalledJobsToWaitArgs E B)"
    and "script_ok B ''moveJobFromActiveToWait'' (moveJobFromActiveToWaitArgs B i tok)"
  by (simp_all add: script_ok_def key_types_def scheduler_keys_def producer_key_def own_simps [OF assms] own_empty
      removeDeduplicationKeyArgs_def addJobSchedulerArgs_def updateJobSchedulerArgs_def removeJobSchedulerArgs_def
      removeArgs_def removeUnprocessedChildrenArgs_def extendLockArgs_def updateProgressArgs_def addLogArgs_def
      removeChildDependencyArgs_def getDependencyCountsArgs_def isFinishedArgs_def getStateArgs_def
      changeDelayArgs_def changePriorityArgs_def moveToDelayedArgs_def moveToWaitingChildrenArgs_def
      getRateLimitTtlArgs_def getJobSchedulerArgs_def retryJobArgs_def reprocessJobArgs_def moveToActiveArgs_def
      promoteArgs_def moveStalledJobsToWaitArgs_def moveJobFromActiveToWaitArgs_def Let_def)

lemma guarded_args [simp]:
  "finished_error (guarded B E) = finished_error E"
  "reject_negative (guarded B E) = reject_negative E"
  "with_client (guarded B E) = with_client E"
  "decode_next (guarded B E) = decode_next E"
  "version_below (guarded B E) = version_below E"
  "zero_true (guarded B E) = zero_true E"
  "type_error (guarded B E) = type_error E"
  "packed_fields (guarded B E) = packed_fields E"
  "add_job_command (guarded B E) = add_job_command E"
  "popped_marker (guarded B E) = popped_marker E"
  by (simp_all add: fun_eq_iff finished_error_def reject_negative_def with_client_def decode_next_def
      version_below_def zero_true_def type_error_def packed_fields_def add_job_command_def addDelayedJobArgs_def
      addPrioritizedJobArgs_def addParentJobArgs_def addStandardJobArgs_def popped_marker_def Let_def
      cong: if_cong split: jsval.split option.split)

lemma guarded_builders [simp]:
  "addJobSchedulerArgs (guarded B E) = addJobSchedulerArgs E"
  "updateJobSchedulerArgs (guarded B E) = updateJobSchedulerArgs E"
  "moveToFinishedArgs (guarded B E) = moveToFinishedArgs E"
  "moveToCompletedArgs (guarded B E) = moveToCompletedArgs E"
  "moveToFailedArgs (guarded B E) = moveToFailedArgs E"
  "changeDelayArgs (guarded B E) = changeDelayArgs E"
  "moveToDelayedArgs (guarded B E) = moveToDelayedArgs E"
  "moveToWaitingChildrenArgs (guarded B E) = moveToWaitingChildrenArgs E"
  "retryJobArgs (guarded B E) = retryJobArgs E"
  "moveToActiveArgs (guarded B E) = moveToActiveArgs E"
  "moveStalledJobsToWaitArgs (guarded B E) = moveStalledJobsToWaitArgs E"
  by (simp_all add: fun_eq_iff addJobSchedulerArgs_def updateJobSchedulerArgs_def moveToFinishedArgs_def
      moveToCompletedArgs_def moveToFailedArgs_def changeDelayArgs_def moveToDelayedArgs_def
      moveToWaitingChildrenArgs_def retryJobArgs_def moveToActiveArgs_def moveStalledJobsToWaitArgs_def Let_def
      cong: if_cong)

lemma guarded_pipeline:
  "list_all (command_ok B) cmds \<Longrightarrow> rv_exec (guarded B E) multi cmds = rv_exec E multi cmds"
  by (simp add: guarded_def fun_eq_iff)

lemma guarded_multi: "rv_exec (guarded B E) True cmds = rv_exec E True cmds"
  by (simp add: guarded_def fun_eq_iff)

lemma queued_command_ok:
  "addresses B pre name \<Longrightarrow> command_ok B (queued_command E B (rq_keys B) job i p)"
  using add_command_ok [of B pre name E job i p] by (auto simp: queued_command_def versioned_ok split: prod.splits)

lemma guarded_adds:
  assumes "addresses B pre name"
  shows "addJob (guarded B E) B = addJob E B"
    and "addJobs (guarded B E) B = addJobs E B"
    and "addFlow (guarded B E) B = addFlow E B"
proof -
  show "addJob (guarded B E) B = addJob E B"
  proof (intro ext)
    fix job i p s
    obtain c as where "add_job_command E (rq_keys B) job i p = (c, as)" by force
    with add_command_ok [OF assms, of E job i p] show "addJob (guarded B E) B job i p s = addJob E B job i p s"
      by (simp add: addJob_def exec_guarded)
  qed
  have q: "queued_command (guarded B E) B = queued_command E B" by (simp add: queued_command_def fun_eq_iff)
  show "addFlow (guarded B E) B = addFlow E B" 
    by (intro ext) (simp add: addFlow_def guarded_multi q)
  show "addJobs (guarded B E) B = addJobs E B"
    by (intro ext) (simp add: addJobs_def q guarded_pipeline list_all_iff queued_command_ok [OF assms])
qed

lemma guarded_lookups:
  assumes "addresses B pre name"
  shows "isJobInState_direct (guarded B E) B = isJobInState_direct E B"
    and "isJobInState (guarded B E) B = isJobInState E B"
    and "isFinished (guarded B E) B = isFinished E B"
    and "getState_redis (guarded B E) B = getState_redis E B"
    and "getRateLimitTtl_redis (guarded B E) B = getRateLimitTtl_redis E B"
    and "getDependencyCounts (guarded B E) B = getDependencyCounts E B"
    and "getJobScheduler_redis (guarded B E) B = getJobScheduler_redis E B"
    and "isJobScheduler (guarded B E) B = isJobScheduler E B"
    and "getJobSchedulerData (guarded B E) B = getJobSchedulerData E B"
    and "getJobSchedulersRange (guarded B E) B = getJobSchedulersRange E B"
    and "getJobData (guarded B E) B = getJobData E B"
    and "getProcessedChildrenValues (guarded B E) B = getProcessedChildrenValues E B"
    and "getIgnoredChildrenFailures_redis (guarded B E) B = getIgnoredChildrenFailures_redis E B"
proof -
  show *: "isJobInState_direct (guarded B E) B = isJobInState_direct E B"
    by (intro ext) (simp add: isJobInState_direct_def exec_guarded job_scripts_ok [OF assms] cong: if_cong)
  then show "isJobInState (guarded B E) B = isJobInState E B" by (intro ext) (simp add: isJobInState_def cong: if_cong)
qed (simp_all add: fun_eq_iff isFinished_def getState_redis_def getRateLimitTtl_redis_def getDependencyCounts_def
      getJobScheduler_redis_def isJobScheduler_def getJobSchedulerData_def getJobSchedulersRange_def getJobData_def
      getProcessedChildrenValues_def getIgnoredChildrenFailures_redis_def
      exec_guarded job_scripts_ok [OF assms] cong: if_cong)

lemma guarded_updates:
  assumes "addresses B pre name"
  shows "removeDeduplicationKey_redis (guarded B E) B = removeDeduplicationKey_redis E B"
    and "addJobScheduler (guarded B E) B = addJobScheduler E B"
    and "updateJobSchedulerNextMillis (guarded B E) B = updateJobSchedulerNextMillis E B"
    and "removeJobScheduler_redis (guarded B E) B = removeJobScheduler_redis E B"
    and "remove_redis (guarded B E) B = remove_redis E B"
    and "removeUnprocessedChildren_redis (guarded B E) B = removeUnprocessedChildren_redis E B"
    and "extendLock_redis (guarded B E) B = extendLock_redis E B"
    and "updateData_redis (guarded B E) B = updateData_redis E B"
    and "updateProgress_redis (guarded B E) B = updateProgress_redis E B"
    and "addLog (guarded B E) B = addLog E B"
    and "clearLogs_redis (guarded B E) B = clearLogs_redis E B"
    and "removeChildDependency_redis (guarded B E) B = removeChildDependency_redis E B"
    and "changeDelay_redis (guarded B E) B = changeDelay_redis E B"
    and "changePriority_redis (guarded B E) B = changePriority_redis E B"
  by (simp_all add: fun_eq_iff removeDeduplicationKey_redis_def addJobScheduler_def updateJobSchedulerNextMillis_def
      removeJobScheduler_redis_def remove_redis_def removeUnprocessedChildren_redis_def extendLock_redis_def updateData_redis_def
      updateProgress_redis_def addLog_def clearLogs_redis_def removeChildDependency_redis_def changeDelay_redis_def changePriority_redis_def
      exec_guarded job_scripts_ok [OF assms] cong: if_cong)

lemma guarded_moves:
  assumes "addresses B pre name"
  shows "moveToActive_redis (guarded B E) B = moveToActive_redis E B"
    and "moveToCompleted_redis (guarded B E) B = moveToCompleted_redis E B"
    and "moveToFailed_redis (guarded B E) B = moveToFailed_redis E B"
    and "moveToDelayed_redis (guarded B E) B = moveToDelayed_redis E B"
    and "moveToWaitingChildren_redis (guarded B E) B = moveToWaitingChildren_redis E B"
    and "moveJobFromActiveToWait (guarded B E) B = moveJobFromActiveToWait E B"
    and "retryJob (guarded B E) B = retryJob E B"
    and "retryFinishedJob (guarded B E) B = retryFinishedJob E B"
    and "promote_redis (guarded B E) B = promote_redis E B"
    and "moveStalledJobsToWait_redis (guarded B E) B = moveStalledJobsToWait_redis E B"
    and "be_ready (guarded B E) B = be_ready E B"
    and "waitForJob (guarded B E) B = waitForJob E B"
    and "reconnectBlocking (guarded B E) B = reconnectBlocking E B"
proof -
  have w: "watchdog_fires (guarded B E) B = watchdog_fires E B"
    by (simp add: watchdog_fires_def reconnect_ignoring_def fun_eq_iff Let_def)
  have r: "race_watchdog (guarded B E) B = race_watchdog E B"
    by (intro ext) (simp add: race_watchdog_def w split: option.split)
  show "waitForJob (guarded B E) B = waitForJob E B"
    by (intro ext) (simp add: waitForJob_def r split: prod.split sum.split)
qed (simp_all add: fun_eq_iff moveToActive_redis_def moveToCompleted_redis_def moveToFailed_redis_def moveToFinished_def
      moveToCompletedArgs_def moveToFailedArgs_def moveToDelayed_redis_def moveToWaitingChildren_redis_def
      moveJobFromActiveToWait_def retryJob_def retryFinishedJob_def promote_redis_def moveStalledJobsToWait_redis_def
      be_ready_def reconnectBlocking_def exec_guarded job_scripts_ok [OF assms] finish_scripts_ok [OF assms]
      cong: if_cong)


lemma demo_addresses: "addresses demo_backend ''bull'' ''mails''"
  by (simp add: demo_backend_def new_backend_addresses)


section \<open>Replies that look negative\<close>

lemma number_minus_one_half: "string_to_number ''-1.5'' = Some (- (3 / 2))"
proof -
  have t: "trim ''-1.5'' = ''-1.5''" by (simp add: trim_def is_space_def)
  show ?thesis
    by (simp add: string_to_number_def t decimal_value_def is_digit_def digit_chars_def split_fraction_def
        exponent_value_def digits_value_def fraction_value_def digit_val.simps)
qed

lemma negative_id_text: "js_negative J (VStr ''-1.5'')"
  by (simp add: js_negative_def number_of_string_def number_minus_one_half)

lemma parseInt10_minus: "parseInt10 ''-1.5'' = Some (-1)"
  by code_simp

text \<open>
  A custom id that reads as a negative number is accepted by the validation but reported as a
  failure: after the script has stored the job and returned its id, addJob takes the id for an
  error code and rejects, leaving the job in the queue.
\<close>

theorem addJob_negative_custom_id:
  assumes "num_ok (rv_json E)"
    and "oprop (j_opts job) ''jobId'' = VStr ''-1.5''"
    and "rv_client E s = (Inr (), s0)"
    and "add_job_command E (rq_keys B) json (Some ''-1.5'') p = (command, args)"
    and "rv_call E (versioned B command) args s0 = (Inr (VStr ''-1.5''), stored)"
  shows "check_jobId (rv_json E) stk job = Inr ()
    \<and> (\<exists>err. addJob E B json (Some ''-1.5'') p s = (Inl err, stored)
         \<and> err_message err = ''Unknown code -1.5 error for undefined. addJob'')"
proof -
  have "num_to_string (rv_json E) (of_int (-1)) = string_of_int (-1)"
    using assms(1) unfolding num_ok_def by (elim allE [of _ "-1"]) simp
  then have "\<not> reads_as_integer (rv_json E) ''-1.5''"
    by (simp add: reads_as_integer_def parseInt10_minus string_of_int_def string_of_nat.simps string_of_digit_def)
  with assms(2) have "check_jobId (rv_json E) stk job = Inr ()" by (simp add: check_jobId_def guard_err_def)
  moreover have "addJob E B json (Some ''-1.5'') p s
    = (Inl (finished_error E (VStr ''-1.5'') None (pk_parentKey p) ''addJob'' None), stored)"
    using assms(3-5)
    by (simp add: addJob_def with_client_def b_then_def execCommand_def reject_negative_def negative_id_text b_throw_def)
  ultimately show ?thesis by (simp add: finished_error_def new_err_def render_opt_def with_default_def)
qed

theorem addJob_negative_custom_id_witness:
  "\<exists>json err stored. asJSON demo_lib (new_Job 0 (Some ''a'') VNull [(''jobId'', VStr ''-1.5'')] None) = Inr json
     \<and> addJob replay_env demo_backend json (Some ''-1.5'')
         \<lparr>pk_addToWaitingChildren = False, pk_parentDependenciesKey = None, pk_parentKey = None\<rparr> ([], [VStr ''-1.5''])
       = (Inl err, stored)
     \<and> fst stored \<noteq> []"
proof -
  let ?job = "new_Job 0 (Some ''a'') VNull [(''jobId'', VStr ''-1.5'')] None"
  let ?p = "\<lparr>pk_addToWaitingChildren = False, pk_parentDependenciesKey = None, pk_parentKey = None\<rparr>"
  obtain json where json: "asJSON demo_lib ?job = Inr json" by (simp add: asJSON_def demo_lib_def)
  obtain c as where ca: "add_job_command replay_env (rq_keys demo_backend) json (Some ''-1.5'') ?p = (c, as)" by force
  have "\<exists>err. addJob replay_env demo_backend json (Some ''-1.5'') ?p ([], [VStr ''-1.5''])
      = (Inl err, ([(versioned demo_backend c, as)], []))"
    using addJob_negative_custom_id [of replay_env ?job "([], [VStr ''-1.5''])" "([], [VStr ''-1.5''])" demo_backend json
        ?p c as "([(versioned demo_backend c, as)], [])" None] ca
    by (auto simp: num_ok_demo_lib new_Job_opts b_ret_def replay_call_def next_reply_def)
  with json show ?thesis by fastforce
qed

end
