(* ===== verification/Job_Types.thy ===== *)
theory Job_Types
  imports Redis_Instance Job_Lifecycle
begin

text \<open>
  The declared types of a job's fields (src/classes/job.ts, src/interfaces/job-json.ts). The
  model keeps the fields as JavaScript values; here every job that was decoded from the store
  and then driven by any of its methods, in any order and whatever their outcome, is shown to
  carry numbers where the class declares numbers. In particular the counters are never strings,
  so that adding one never concatenates.
\<close>

section \<open>Types\<close>

text \<open>\<open>typeof v === 'number'\<close>, and an optional field: \<open>retry\<close> stores \<open>null\<close> in two of them.\<close>

fun is_number :: "jsval \<Rightarrow> bool" where
  "is_number (VNum _) = True"
| "is_number VNaN = True"
| "is_number _ = False"

definition opt_number :: "jsval \<Rightarrow> bool" where
  "opt_number v \<longleftrightarrow> is_number v \<or> v = VUndef \<or> v = VNull"

definition typed_json :: "job_json \<Rightarrow> bool" where
  "typed_json json \<longleftrightarrow>
     (\<forall>v \<in> {jj_delay json, jj_priority json, jj_timestamp json, jj_attemptsStarted json, jj_attemptsMade json,
            jj_stalledCounter json}. is_number v)
     \<and> (\<forall>v \<in> {jj_finishedOn json, jj_processedOn json}. opt_number v)"

definition typed_job :: "job \<Rightarrow> bool" where
  "typed_job job \<longleftrightarrow>
     (\<forall>v \<in> {j_delay job, j_priority job, j_timestamp job, j_attemptsStarted job, j_attemptsMade job,
            j_stalledCounter job}. is_number v)
     \<and> (\<forall>v \<in> {j_finishedOn job, j_processedOn job}. opt_number v)"

lemma is_number_parseInt [simp]: "is_number (parseInt_val s)"
  by (simp add: parseInt_val_def split: option.split)

lemma is_number_plus [simp]: "is_number (js_plus v k)"
  by (cases "(v, k)" rule: js_plus.cases) simp_all

lemma is_number_nullish [simp]: "is_number v \<Longrightarrow> is_number (nullish_or v d)"
  by (cases v) simp_all

lemma rawToJobJson_typed: "rawToJobJson J raw = Inr json \<Longrightarrow> typed_json json"
  by (auto simp: rawToJobJson_def typed_json_def opt_number_def)

lemma fromJSON_typed: "typed_json json \<Longrightarrow> fromJSON J now json jobId = Inr job \<Longrightarrow> typed_job job"
  by (auto simp: fromJSON_def typed_json_def typed_job_def opt_number_def new_Job_def Let_def)

section \<open>Methods keep the types\<close>

named_theorems keeps_rules

definition keeps :: "(job \<Rightarrow> bool) \<Rightarrow> ('s, 'a) job_op \<Rightarrow> bool" where
  "keeps P m \<longleftrightarrow> (\<forall>w. P (jw_job w) \<longrightarrow> P (jw_job (snd (m w))))"

lemma keepsD: "keeps P m \<Longrightarrow> P (jw_job w) \<Longrightarrow> m w = (r, w') \<Longrightarrow> P (jw_job w')"
  by (metis keeps_def snd_conv)

lemma keeps_andThen [keeps_rules]:
  fixes m :: "('s, 'a) job_op"
  assumes "keeps P m" "\<And>a. keeps P (f a)"
  shows "keeps P (andThen m f)"
  unfolding keeps_def
proof (intro allI impI)
  fix w :: "'s jworld" assume P: "P (jw_job w)"
  obtain r w' where m: "m w = (r, w')" by fastforce
  have "P (jw_job w')" by (rule keepsD[OF assms(1) P m])
  then show "P (jw_job (snd (andThen m f w)))"
    using assms(2) m by (cases r) (simp_all add: andThen_def keeps_def)
qed

lemma keeps_backend [keeps_rules]: "keeps P (backend call)"
  by (simp add: keeps_def backend_def split: prod.splits)

lemma keeps_backend_then:
  fixes call :: "('s, 'a) backend_op"
  assumes "\<And>s a s'. call s = (Inr a, s') \<Longrightarrow> keeps P (f a)"
  shows "keeps P (andThen (backend call) f)"
  unfolding keeps_def
proof (intro allI impI)
  fix w :: "'s jworld" assume P: "P (jw_job w)"
  obtain r s' where c: "call (jw_be w) = (r, s')" by fastforce
  then show "P (jw_job (snd (andThen (backend call) f w)))"
    using P assms by (cases r) (fastforce simp: run_backend keeps_def)+
qed

lemma keeps_reading [keeps_rules]: "(\<And>w. P (jw_job w) \<Longrightarrow> keeps P (h w)) \<Longrightarrow> keeps P (reading h)"
  by (simp add: keeps_def reading_def)

lemma keeps_reading_then: "(\<And>w. P (jw_job w) \<Longrightarrow> keeps P (andThen (h w) f)) \<Longrightarrow> keeps P (andThen (reading h) f)"
  by (simp add: keeps_def run_reading)

lemma keeps_basic [keeps_rules]:
  "keeps P (returning a)" "keeps P (throwing e)" "keeps P (lift_result r)" "keeps P (emit_out es)"
  "(\<And>job. P job \<Longrightarrow> P (g job)) \<Longrightarrow> keeps P (update_job g)"
  by (simp_all add: keeps_def job_op_defs)

lemma keeps_metrics [keeps_rules]: "keeps P (recordJobMetrics now Q state)"
  by (simp add: keeps_def recordJobMetrics_def job_op_defs)

lemma keeps_if [keeps_rules]: "(c \<Longrightarrow> keeps P m) \<Longrightarrow> (\<not> c \<Longrightarrow> keeps P m') \<Longrightarrow> keeps P (if c then m else m')"
  by simp

lemma keeps_prod [keeps_rules]: "(\<And>a b. x = (a, b) \<Longrightarrow> keeps P (f a b)) \<Longrightarrow> keeps P (case x of (a, b) \<Rightarrow> f a b)"
  by (cases x) simp

lemma keeps_opt [keeps_rules]: "keeps P m \<Longrightarrow> (\<And>a. keeps P (f a)) \<Longrightarrow> keeps P (case x of None \<Rightarrow> m | Some a \<Rightarrow> f a)"
  by (cases x) simp_all

text \<open>The datastore reports the finish time as a number.\<close>

definition finish_number :: "'s queue_backend \<Rightarrow> bool" where
  "finish_number B \<longleftrightarrow>
     (\<forall>job v rm tok f s res t s'. be_moveToCompleted B job v rm tok f s = (Inr (res, t), s') \<longrightarrow> is_number t)"

lemma finish_numberD: "finish_number B \<Longrightarrow> be_moveToCompleted B job v rm tok f s = (Inr (res, t), s') \<Longrightarrow> is_number t"
  unfolding finish_number_def by blast

lemma typed_updates [simp]:
  "typed_job job \<Longrightarrow> typed_job (job\<lparr>j_failedReason := f\<rparr>)"
  "typed_job job \<Longrightarrow> typed_job (job\<lparr>j_returnvalue := v\<rparr>)"
  "typed_job job \<Longrightarrow> typed_job (job\<lparr>j_data := v\<rparr>)"
  "typed_job job \<Longrightarrow> typed_job (job\<lparr>j_progress := v\<rparr>)"
  "typed_job job \<Longrightarrow> typed_job (job\<lparr>j_stacktrace := st\<rparr>)"
  "typed_job job \<Longrightarrow> typed_job (job\<lparr>j_parent := v, j_parentKey := pk\<rparr>)"
  "typed_job job \<Longrightarrow> is_number v \<Longrightarrow> typed_job (job\<lparr>j_delay := v\<rparr>)"
  "typed_job job \<Longrightarrow> is_number v \<Longrightarrow> typed_job (job\<lparr>j_priority := v\<rparr>)"
  "typed_job job \<Longrightarrow> is_number v \<Longrightarrow> typed_job (job\<lparr>j_finishedOn := v\<rparr>)"
  "typed_job job \<Longrightarrow> typed_job (j_attemptsMade_update (\<lambda>n. js_plus n k) job)"
  "typed_job job \<Longrightarrow> typed_job (job\<lparr>j_attemptsMade := VNum n\<rparr>)"
  "typed_job job \<Longrightarrow> typed_job (job\<lparr>j_attemptsStarted := VNum n\<rparr>)"
  "typed_job job \<Longrightarrow> typed_job (job\<lparr>j_failedReason := f, j_finishedOn := VNull, j_processedOn := VNull, j_returnvalue := v\<rparr>)"
  by (auto simp: typed_job_def opt_number_def)

lemma typed_updateStacktrace [simp]: "typed_job job \<Longrightarrow> typed_job (updateStacktrace err job)"
  by (subst updateStacktrace_frame) simp

lemma moveToCompleted_keeps:
  assumes "finish_number B"
  shows "keeps typed_job (moveToCompleted J now B Q rv token fetchNext)"
proof -
  have "keeps typed_job (andThen (reading (\<lambda>w. backend (be_moveToCompleted B (jw_job w) rv (oprop (j_opts (jw_job w)) ''removeOnComplete'') token fetchNext)))
     (\<lambda>(res, finishedOn).
     andThen (update_job (j_finishedOn_update (\<lambda>_. finishedOn))) (\<lambda>_.
     andThen (update_job (j_attemptsMade_update (\<lambda>n. js_plus n 1))) (\<lambda>_.
     andThen (recordJobMetrics now Q ''completed'') (\<lambda>_. returning res)))))"
    by (rule keeps_reading_then, rule keeps_backend_then, intro keeps_rules)
      (auto intro: typed_updates finish_numberD[OF assms])
  then show ?thesis unfolding moveToCompleted_def
    by (intro keeps_andThen[OF keeps_backend] keeps_andThen[OF keeps_basic(3)] keeps_andThen[OF keeps_basic(5)]) simp_all
qed

lemma is_true_number_number: "is_true_number v \<Longrightarrow> is_number v"
  by (cases v) (simp_all add: is_true_number_def)

lemma moveToFailed_keeps: "keeps typed_job (moveToFailed J r stk now B Q dst err token fetchNext)"
  unfolding moveToFailed_def move_failed_branch_def Let_def
  by (intro keeps_rules) (auto simp: is_true_number_number)

lemma other_methods_keep:
  "keeps typed_job (moveToWait now B Q tok)" "keeps typed_job (moveToDelayed now B Q ts tok)"
  "keeps typed_job (moveToWaitingChildren now B Q token child)" "keeps typed_job (promote B)"
  "keeps typed_job (retry B state opts)" "keeps typed_job (updateData B data)"
  "keeps typed_job (updateProgress B progress)" "keeps typed_job (removeChildDependency B)"
  "keeps typed_job (changeDelay B delay)"
  by (auto simp: moveToWait_def moveToDelayed_def moveToWaitingChildren_def promote_def retry_def updateData_def
      updateProgress_def removeChildDependency_def changeDelay_def Let_def intro!: keeps_rules)

lemma changePriority_keeps: "opt_number priority \<Longrightarrow> keeps typed_job (changePriority B priority lifo)"
  by (cases priority) (auto simp: changePriority_def opt_number_def logical_or_def intro!: keeps_rules)

text \<open>The life of a job object in a process: any method, with any arguments of the declared
  types, whatever it returns.\<close>

inductive job_step :: "json_lib \<Rightarrow> 's queue_backend \<Rightarrow> job_queue \<Rightarrow> 's jworld \<Rightarrow> 's jworld \<Rightarrow> bool"
  for J B Q where
  js_completed: "moveToCompleted J now B Q rv token fetchNext w = (r, w') \<Longrightarrow> job_step J B Q w w'"
| js_failed: "moveToFailed J d stk now B Q dst err token fetchNext w = (r, w') \<Longrightarrow> job_step J B Q w w'"
| js_wait: "moveToWait now B Q tok w = (r, w') \<Longrightarrow> job_step J B Q w w'"
| js_delayed: "moveToDelayed now B Q ts tok w = (r, w') \<Longrightarrow> job_step J B Q w w'"
| js_children: "moveToWaitingChildren now B Q token child w = (r, w') \<Longrightarrow> job_step J B Q w w'"
| js_promote: "promote B w = (r, w') \<Longrightarrow> job_step J B Q w w'"
| js_retry: "retry B state opts w = (r, w') \<Longrightarrow> job_step J B Q w w'"
| js_data: "updateData B data w = (r, w') \<Longrightarrow> job_step J B Q w w'"
| js_progress: "updateProgress B progress w = (r, w') \<Longrightarrow> job_step J B Q w w'"
| js_unlink: "removeChildDependency B w = (r, w') \<Longrightarrow> job_step J B Q w w'"
| js_delay: "changeDelay B delay w = (r, w') \<Longrightarrow> job_step J B Q w w'"
| js_priority: "changePriority B priority lifo w = (r, w') \<Longrightarrow> opt_number priority \<Longrightarrow> job_step J B Q w w'"

lemma job_step_typed:
  assumes "finish_number B" "job_step J B Q w w'" "typed_job (jw_job w)"
  shows "typed_job (jw_job w')"
  using assms(2,3)
  by cases (auto elim: keepsD[OF moveToCompleted_keeps[OF assms(1)]] keepsD[OF moveToFailed_keeps]
      keepsD[OF changePriority_keeps] keepsD[OF other_methods_keep(1)] keepsD[OF other_methods_keep(2)]
      keepsD[OF other_methods_keep(3)] keepsD[OF other_methods_keep(4)] keepsD[OF other_methods_keep(5)]
      keepsD[OF other_methods_keep(6)] keepsD[OF other_methods_keep(7)] keepsD[OF other_methods_keep(8)]
      keepsD[OF other_methods_keep(9)])

lemma job_run_typed:
  assumes "finish_number B" "(job_step J B Q)\<^sup>*\<^sup>* w w'" "typed_job (jw_job w)"
  shows "typed_job (jw_job w')"
  using assms(2,3) by induction (auto intro: job_step_typed[OF assms(1)])

section \<open>Jobs of the Redis adapter\<close>

lemma redis_finish_number:
  assumes "addresses B pre name"
  shows "finish_number (redis_backend latency E B)"
proof -
  have len: "length (rq_moveToFinishedKeys B) = 14" using assms by (simp add: addresses_def)
  have "finished_on B (moveToCompletedArgs E B job v rm token f) = VNum (rv_now E)" for job v rm token f
    by (simp add: finished_on_def moveToCompletedArgs_def moveToFinishedArgs_def Let_def len nth_append)
  then show ?thesis
    by (auto simp: finish_number_def redis_backend_def moveToCompleted_redis_def b_then_def b_ret_def Let_def
        split: prod.splits sum.splits)
qed


definition demo_hash :: "(string, string option) jsmap" where
  "demo_hash = [(''name'', Some ''n''), (''opts'', Some ''{}'')]"

lemma demo_hash_decodes:
  "\<exists>json job. rawToJobJson demo_lib demo_hash = Inr json \<and> fromJSON demo_lib 9 json (Some ''1'') = Inr job"
proof -
  have "\<exists>json. rawToJobJson demo_lib demo_hash = Inr json"
    by (simp add: rawToJobJson_def optsFromJSON_def demo_lib_def demo_hash_def)
  moreover have "\<exists>job. fromJSON demo_lib 9 json (Some ''1'') = Inr job" for json
    by (simp add: fromJSON_def demo_lib_def Let_def)
  ultimately show ?thesis by blast
qed


end
