(* ===== verification/Job_Wait.thy ===== *)
theory Job_Wait
  imports Job
begin

text \<open>
  Job.waitUntilFinished of src/classes/job.ts: the promise a producer awaits. The method
  registers three listeners and, with a time-to-live, a timer; then its executor waits for
  the event reader to be ready and polls the backend once. The theory models it as a state
  machine whose inputs are what the environment can deliver in any order: events of the
  job, the closing of the queue, the timer, and the answers to the two awaited calls.

  A promise settles once; \<open>settle\<close> ignores later calls of resolve and reject.
\<close>

section \<open>The machine\<close>

datatype wait_outcome = Resolved jsval | Rejected string

text \<open>How far the executor has come; \<open>ExecThrown\<close>: one of its awaits rejected. The
  executor is an \<open>async\<close> function, so that rejection is not delivered to the promise.\<close>

datatype wait_phase = AwaitReady | AwaitPoll | ExecDone | ExecThrown js_error

record wait_state =
  ws_settled :: "wait_outcome option"
  ws_onCompleted :: bool
  ws_onFailed :: bool
  ws_onClosing :: bool
  ws_timer :: bool
  ws_phase :: wait_phase

datatype wait_input =
    JobCompleted jsval
  | JobFailed string
  | QueueClosing string
  | TimerFires
  | EventsReady "(js_error, unit) result"
  | PollReply "(js_error, int \<times> string) result"

definition settle :: "wait_outcome \<Rightarrow> wait_state \<Rightarrow> wait_state" where
  "settle r st = (case ws_settled st of None \<Rightarrow> st\<lparr>ws_settled := Some r\<rparr> | Some _ \<Rightarrow> st)"

definition removeListeners :: "wait_state \<Rightarrow> wait_state" where
  "removeListeners st =
     st\<lparr>ws_timer := False, ws_onCompleted := False, ws_onFailed := False, ws_onClosing := False\<rparr>"

definition onCompleted :: "jsval \<Rightarrow> wait_state \<Rightarrow> wait_state" where
  "onCompleted returnvalue st = settle (Resolved returnvalue) (removeListeners st)"

definition onFailed :: "string \<Rightarrow> wait_state \<Rightarrow> wait_state" where
  "onFailed reason st = settle (Rejected reason) (removeListeners st)"

text \<open>\<open>args.failedReason || args\<close> on an event object: an empty reason falls back to the
  object itself, whose rendering is \<open>[object Object]\<close>. The timer and the closing event
  pass a plain string.\<close>

definition failure_text :: "string \<Rightarrow> string" where
  "failure_text failedReason = (if failedReason = [] then ''[object Object]'' else failedReason)"

text \<open>The state once the listeners are registered, before the first await.\<close>

definition wait_start :: "jsval \<Rightarrow> wait_state" where
  "wait_start ttl =
     \<lparr>ws_settled = None, ws_onCompleted = True, ws_onFailed = True, ws_onClosing = True,
      ws_timer = truthy ttl, ws_phase = AwaitReady\<rparr>"

definition timeout_message :: "json_lib \<Rightarrow> string option \<Rightarrow> real \<Rightarrow> string option \<Rightarrow> string" where
  "timeout_message J name ttl jobId =
     ''Job wait '' @ render_opt name
       @ '' timed out before finishing, no finish notification arrived after ''
       @ num_to_string J ttl @ ''ms (id='' @ render_opt jobId @ '')''"

fun wait_step :: "json_lib \<Rightarrow> string \<Rightarrow> wait_input \<Rightarrow> wait_state \<Rightarrow> wait_state" where
  "wait_step J timeoutMsg (JobCompleted rv) st = (if ws_onCompleted st then onCompleted rv st else st)"
| "wait_step J timeoutMsg (JobFailed reason) st = (if ws_onFailed st then onFailed (failure_text reason) st else st)"
| "wait_step J timeoutMsg (QueueClosing msg) st = (if ws_onClosing st then onFailed msg st else st)"
| "wait_step J timeoutMsg TimerFires st =
     (if ws_timer st then onFailed timeoutMsg (st\<lparr>ws_timer := False\<rparr>) else st)"
| "wait_step J timeoutMsg (EventsReady r) st =
     (if ws_phase st \<noteq> AwaitReady then st
      else case r of Inl e \<Rightarrow> st\<lparr>ws_phase := ExecThrown e\<rparr> | Inr _ \<Rightarrow> st\<lparr>ws_phase := AwaitPoll\<rparr>)"
| "wait_step J timeoutMsg (PollReply r) st =
     (if ws_phase st \<noteq> AwaitPoll then st
      else case r of
             Inl e \<Rightarrow> st\<lparr>ws_phase := ExecThrown e\<rparr>
           | Inr (status, value) \<Rightarrow>
               (let st' = st\<lparr>ws_phase := ExecDone\<rparr> in
                if status \<noteq> 0
                then if status = -1 \<or> status = 2 then onFailed (failure_text value) st'
                     else onCompleted (getReturnValue J value) st'
                else st'))"

definition wait_run :: "json_lib \<Rightarrow> string \<Rightarrow> wait_input list \<Rightarrow> wait_state \<Rightarrow> wait_state" where
  "wait_run J msg inputs st = fold (wait_step J msg) inputs st"

section \<open>Invariant\<close>

text \<open>Pending means listening: until the promise settles all three listeners are attached
  and the timer, when there is one, is armed; afterwards nothing is left behind.\<close>

definition wait_inv :: "jsval \<Rightarrow> wait_state \<Rightarrow> bool" where
  "wait_inv ttl st \<longleftrightarrow>
     (let pending = (ws_settled st = None)
      in ws_onCompleted st = pending \<and> ws_onFailed st = pending \<and> ws_onClosing st = pending
         \<and> ws_timer st = (pending \<and> truthy ttl))"

lemma settle_settled [simp]: "ws_settled (settle r st) \<noteq> None"
  by (simp add: settle_def split: option.split)

lemma settle_frame [simp]:
  "ws_onCompleted (settle r st) = ws_onCompleted st" "ws_onFailed (settle r st) = ws_onFailed st"
  "ws_onClosing (settle r st) = ws_onClosing st" "ws_timer (settle r st) = ws_timer st"
  "ws_phase (settle r st) = ws_phase st"
  by (simp_all add: settle_def split: option.split)

lemma wait_inv_on [simp]: "wait_inv ttl (onCompleted rv st)" "wait_inv ttl (onFailed m st)"
  by (simp_all add: wait_inv_def onCompleted_def onFailed_def removeListeners_def)

lemma wait_inv_phase [simp]: "wait_inv ttl (st\<lparr>ws_phase := p\<rparr>) = wait_inv ttl st"
  by (simp add: wait_inv_def)

lemma wait_inv_step: "wait_inv ttl st \<Longrightarrow> wait_inv ttl (wait_step J msg i st)"
  by (cases i) (auto simp: Let_def split: sum.split)

definition wait_trans :: "json_lib \<Rightarrow> string \<Rightarrow> wait_state \<Rightarrow> wait_state \<Rightarrow> bool" where
  "wait_trans J msg st st' \<longleftrightarrow> (\<exists>i. st' = wait_step J msg i st)"

interpretation wait: step_invariant "\<lambda>st. st = wait_start ttl" "wait_trans J msg" "wait_inv ttl"
  for ttl J msg
proof
  show "wait_inv ttl st" if "st = wait_start ttl" for st
    using that by (simp add: wait_inv_def wait_start_def)
  show "wait_inv ttl st'" if "wait_inv ttl st" and "wait_trans J msg st st'" for st st'
    using that by (auto simp: wait_trans_def intro: wait_inv_step)
qed

lemma wait_run_trans: "(wait_trans J msg)\<^sup>*\<^sup>* st (wait_run J msg inputs st)"
proof (induction inputs arbitrary: st)
  case (Cons i inputs)
  have "wait_trans J msg st (wait_step J msg i st)" by (auto simp: wait_trans_def)
  with Cons show ?case by (auto simp: wait_run_def intro: converse_rtranclp_into_rtranclp)
qed (simp add: wait_run_def)

lemma wait_run_inv: "wait_inv ttl (wait_run J msg inputs (wait_start ttl))"
  by (rule wait.inv_path [OF wait_run_trans]) (simp add: wait_inv_def wait_start_def)

lemma settled_stays:
  "ws_settled st = Some r \<Longrightarrow> ws_settled (wait_step J msg i st) = Some r"
  by (cases i) (auto simp: onCompleted_def onFailed_def removeListeners_def settle_def Let_def
      split: sum.split)

lemma settled_stays_run: "ws_settled st = Some r \<Longrightarrow> ws_settled (wait_run J msg inputs st) = Some r"
  by (induction inputs arbitrary: st) (simp_all add: wait_run_def settled_stays)

text \<open>An input that carries the end of the job for a promise still waiting.\<close>

fun decides :: "json_lib \<Rightarrow> string \<Rightarrow> jsval \<Rightarrow> wait_input \<Rightarrow> wait_outcome option" where
  "decides J msg ttl (JobCompleted rv) = Some (Resolved rv)"
| "decides J msg ttl (JobFailed reason) = Some (Rejected (failure_text reason))"
| "decides J msg ttl (QueueClosing m) = Some (Rejected m)"
| "decides J msg ttl TimerFires = (if truthy ttl then Some (Rejected msg) else None)"
| "decides J msg ttl (EventsReady r) = None"
| "decides J msg ttl (PollReply r) = None"

lemma pending_decides:
  assumes "wait_inv ttl st" and "ws_settled st = None" and "decides J msg ttl i = Some r"
  shows "ws_settled (wait_step J msg i st) = Some r"
  using assms
  by (cases i) (auto simp: wait_inv_def onCompleted_def onFailed_def removeListeners_def settle_def
      split: if_splits)

section \<open>Claims\<close>



text \<open>
  No completion is missed, but an error of the poll is lost: a poll that finds the job finished
  settles a pending promise (rejecting on the statuses -1 and 2, resolving on any other),
  whereas a rejection of one of the executor's two awaits leaves the promise pending with
  all its listeners, so without a time-to-live it waits for an event that may never come.
\<close>

theorem waitUntilFinished_poll:
  assumes "st = wait_run J msg inputs (wait_start ttl)" and "ws_settled st = None"
  shows "(ws_phase st = AwaitPoll \<and> status \<noteq> 0 \<longrightarrow>
            ws_settled (wait_step J msg (PollReply (Inr (status, v))) st)
              = Some (if status = -1 \<or> status = 2 then Rejected (failure_text v) else Resolved (getReturnValue J v)))
       \<and> ws_settled (wait_step J msg (PollReply (Inl e)) st) = None
       \<and> ws_settled (wait_step J msg (EventsReady (Inl e)) st) = None
       \<and> ws_timer (wait_step J msg (PollReply (Inl e)) st) = truthy ttl"
  using assms(2) wait_run_inv [of ttl J msg inputs, folded assms(1)]
  by (auto simp: wait_inv_def onCompleted_def onFailed_def removeListeners_def settle_def)

theorem waitUntilFinished_poll_witness:
  "ws_settled (wait_step demo_lib ''late'' (PollReply (Inr (2, ''boom'')))
     (wait_run demo_lib ''late'' [EventsReady (Inr ())] (wait_start VUndef))) = Some (Rejected ''boom'')"
  using waitUntilFinished_poll [OF refl, of demo_lib "''late''" "[EventsReady (Inr ())]" VUndef 2 "''boom''"]
  by (simp add: wait_run_def wait_start_def failure_text_def)

end
