(* ===== verification/Job_Scheduler.thy ===== *)
theory Job_Scheduler
  imports Job_Lifecycle
begin

text \<open>
  src/classes/job-scheduler.ts: repeated jobs. A scheduler is upserted with repeat options;
  each iteration is a delayed job whose id names the scheduler and the due time. The theory
  models the recognition of legacy keys, the validation of the repeat options, the options
  of the next iteration, the decoding of stored schedulers and the default strategies.

  Repeat options are \<open>jsobj\<close>s. The strategy that computes the due time of a cron pattern is
  a parameter (\<open>repeatStrategy\<close>), as is the cron parser inside the default one. All calls of
  \<open>Date.now()\<close> in one operation read the same \<open>now\<close>. The warning printed for
  \<open>immediately\<close> with \<open>every\<close> has no effect on the result.
\<close>

section \<open>Legacy keys\<close>

text \<open>\<open>key.indexOf(c, from)\<close>\<close>

fun index_from :: "char \<Rightarrow> nat \<Rightarrow> string \<Rightarrow> nat option" where
  "index_from c i [] = None"
| "index_from c i (x # xs) =
     (case i of
        0 \<Rightarrow> if x = c then Some 0 else map_option Suc (index_from c 0 xs)
      | Suc j \<Rightarrow> map_option Suc (index_from c j xs))"

definition isNumericSegment :: "string \<Rightarrow> nat \<Rightarrow> nat \<Rightarrow> bool" where
  "isNumericSegment key from to =
     (if from \<ge> to then False else list_all (\<lambda>c. c \<in> digit_chars) (slice from to key))"

definition hasLegacyRepeatableKeyShape :: "string \<Rightarrow> bool" where
  "hasLegacyRepeatableKeyShape key =
     (case index_from (CHR '':'') 0 key of None \<Rightarrow> False | Some firstColon \<Rightarrow>
      (case index_from (CHR '':'') (firstColon + 1) key of None \<Rightarrow> False | Some secondColon \<Rightarrow>
       (case index_from (CHR '':'') (secondColon + 1) key of None \<Rightarrow> False | Some thirdColon \<Rightarrow>
        (case index_from (CHR '':'') (thirdColon + 1) key of None \<Rightarrow> False | Some fourthColon \<Rightarrow>
          (if secondColon + 1 < thirdColon \<and> \<not> isNumericSegment key (secondColon + 1) thirdColon then False
           else let suffixStart = fourthColon + 1
                in if suffixStart \<ge> length key then False
                   else if index_from (CHR '' '') suffixStart key \<noteq> None then True
                   else isNumericSegment key suffixStart (length key))))))"

definition LEGACY_REPEATABLE_JOBS_MIGRATION_URL :: string where
  "LEGACY_REPEATABLE_JOBS_MIGRATION_URL =
     ''https://docs.bullmq.io/guide/migrations/migrate-from-v5-to-v6''"

definition getLegacyRepeatableJobError :: "string option \<Rightarrow> string \<Rightarrow> js_error" where
  "getLegacyRepeatableJobError stk key =
     new_err ErrorClass stk
       (''Legacy repeatable job metadata is not supported in BullMQ v6 ''
        @ ''(key: \"'' @ key @ ''\"). Migrate legacy repeatable jobs to Job Schedulers ''
        @ ''before upgrading. See '' @ LEGACY_REPEATABLE_JOBS_MIGRATION_URL)"

section \<open>The next iteration\<close>

type_synonym repeat_strategy = "real \<Rightarrow> jsobj \<Rightarrow> string option \<Rightarrow> (js_error, real option) result"

definition opt_num_val :: "real option \<Rightarrow> jsval" where
  "opt_num_val x = (case x of None \<Rightarrow> VUndef | Some n \<Rightarrow> VNum n)"

definition render_num_val :: "json_lib \<Rightarrow> jsval \<Rightarrow> string" where
  "render_num_val J v = (case v of VNum n \<Rightarrow> num_to_string J n | VNaN \<Rightarrow> ''NaN'' | _ \<Rightarrow> ''undefined'')"

definition getSchedulerNextJobId :: "json_lib \<Rightarrow> string \<Rightarrow> jsval \<Rightarrow> string" where
  "getSchedulerNextJobId J jobSchedulerId nextMillis =
     ''repeat:'' @ jobSchedulerId @ '':'' @ render_num_val J nextMillis"

definition date_or_undefined :: "json_lib \<Rightarrow> jsval \<Rightarrow> jsval" where
  "date_or_undefined J v = (if truthy v then date_millis J v else VUndef)"

text \<open>\<open>offset\<close> is a number or \<open>null\<close>, which adds 0; an undefined \<open>nextMillis\<close> makes the
  delay \<open>NaN\<close>.\<close>

definition getNextJobOpts ::
  "json_lib \<Rightarrow> real \<Rightarrow> jsval \<Rightarrow> string \<Rightarrow> jsobj \<Rightarrow> real \<Rightarrow> real option \<Rightarrow> jsobj" where
  "getNextJobOpts J now nextMillis jobSchedulerId opts currentCount offset =
     (let jobId = getSchedulerNextJobId J jobSchedulerId nextMillis;
          delay = js_plus nextMillis (with_default 0 offset - now);
          mergedOpts = object_assign opts
            [(''jobId'', VStr jobId),
             (''delay'', if js_less delay (VNum 0) then VNum 0 else delay),
             (''timestamp'', VNum now),
             (''prevMillis'', nextMillis),
             (''repeatJobKey'', VStr jobSchedulerId)];
          repeat = (case oprop opts ''repeat'' of VObj r \<Rightarrow> r | _ \<Rightarrow> [])
      in map_set ''repeat''
           (VObj (object_assign repeat
              [(''offset'', case offset of None \<Rightarrow> VNull | Some n \<Rightarrow> VNum n),
               (''count'', VNum currentCount),
               (''startDate'', date_or_undefined J (oprop repeat ''startDate'')),
               (''endDate'', date_or_undefined J (oprop repeat ''endDate''))])) mergedOpts)"

text \<open>The checks at the head of upsertJobScheduler.\<close>

definition check_repeat_opts :: "string option \<Rightarrow> jsobj \<Rightarrow> jsobj \<Rightarrow> (js_error, unit) result" where
  "check_repeat_opts stk repeatOpts opts =
     (let every = truthy (oprop repeatOpts ''every''); pattern = truthy (oprop repeatOpts ''pattern'') in
      bind_result (guard_err (pattern \<and> every) stk
        ''Both .pattern and .every options are defined for this repeatable job'') (\<lambda>_.
      bind_result (guard_err (\<not> pattern \<and> \<not> every) stk
        ''Either .pattern or .every options must be defined for this repeatable job'') (\<lambda>_.
      bind_result (guard_err (truthy (oprop repeatOpts ''immediately'') \<and> truthy (oprop repeatOpts ''startDate'')) stk
        ''Both .immediately and .startDate options are defined for this repeatable job'') (\<lambda>_.
      guard_err (''debounce'' \<in> set (map_keys opts)) stk
        ''Debounce option has been removed. Use deduplication option instead''))))"

definition iterationCount :: "jsobj \<Rightarrow> real" where
  "iterationCount repeatOpts = (case oprop repeatOpts ''count'' of VNum n \<Rightarrow> n + 1 | _ \<Rightarrow> 1)"

text \<open>The two early returns: the iteration limit and the end date.\<close>

definition schedule_over :: "json_lib \<Rightarrow> real \<Rightarrow> jsobj \<Rightarrow> bool" where
  "schedule_over J now repeatOpts \<longleftrightarrow>
     js_less (oprop repeatOpts ''limit'') (VNum (iterationCount repeatOpts))
     \<or> truthy (oprop repeatOpts ''endDate'')
       \<and> js_less (date_millis J (oprop repeatOpts ''endDate'')) (VNum now)"

definition current_millis :: "real \<Rightarrow> jsobj \<Rightarrow> real" where
  "current_millis now opts =
     (let prevMillis = (case oprop opts ''prevMillis'' of VNum p \<Rightarrow> p | _ \<Rightarrow> 0)
      in if prevMillis < now then now else prevMillis)"

text \<open>The due time: only a pattern consults the strategy, and the result is not in the past.\<close>

definition next_millis ::
  "repeat_strategy \<Rightarrow> real \<Rightarrow> jsobj \<Rightarrow> string option \<Rightarrow> (js_error, real option) result" where
  "next_millis repeatStrategy now repeatOpts jobName =
     (if truthy (oprop repeatOpts ''pattern'')
      then bind_result (repeatStrategy now repeatOpts jobName)
             (\<lambda>n. Inr (map_option (\<lambda>m. if m < now then now else m) n))
      else Inr None)"

definition scheduler_telemetry :: "string option \<Rightarrow> jsobj \<Rightarrow> jsval" where
  "scheduler_telemetry src opts =
     (let telemetry = oprop opts ''telemetry'';
          omitContext = vprop telemetry ''omitContext'';
          metadata = (if truthy (vprop telemetry ''metadata'') then vprop telemetry ''metadata''
                      else if truthy omitContext then VBool False else opt_str_val src)
      in if truthy_str src \<and> (truthy metadata \<or> truthy omitContext)
         then VObj [(''metadata'', metadata), (''omitContext'', omitContext)]
         else telemetry)"

definition scheduler_meta :: "json_lib \<Rightarrow> jsobj \<Rightarrow> string option \<Rightarrow> real option \<Rightarrow> jsobj" where
  "scheduler_meta J repeatOpts jobName offset =
     [(''name'', opt_str_val jobName),
      (''startDate'', date_or_undefined J (oprop repeatOpts ''startDate'')),
      (''endDate'', date_or_undefined J (oprop repeatOpts ''endDate'')),
      (''tz'', oprop repeatOpts ''tz''),
      (''pattern'', oprop repeatOpts ''pattern''),
      (''every'', oprop repeatOpts ''every''),
      (''limit'', oprop repeatOpts ''limit''),
      (''offset'', case offset of None \<Rightarrow> VNull | Some n \<Rightarrow> VNum n)]"

definition numericDelay :: "jsval \<Rightarrow> jsval" where
  "numericDelay delay =
     (case delay of VStr s \<Rightarrow> (case parseInt10 s of None \<Rightarrow> VNaN | Some i \<Rightarrow> VNum (of_int i)) | _ \<Rightarrow> delay)"

definition newOffset :: "jsobj \<Rightarrow> real option" where
  "newOffset repeatOpts =
     (if truthy (oprop repeatOpts ''every'') \<and> truthy (oprop repeatOpts ''offset'')
      then num_of (oprop repeatOpts ''offset'') else None)"

text \<open>The part of upsertJobScheduler that runs inside the trace, for a due time \<open>nextMillis\<close>.
  \<open>src\<close> is the trace context handed to it.\<close>

definition schedule_iteration ::
  "json_lib \<Rightarrow> 's queue_backend \<Rightarrow> real \<Rightarrow> string option \<Rightarrow> string \<Rightarrow> jsobj \<Rightarrow> string option \<Rightarrow> jsval
     \<Rightarrow> jsobj \<Rightarrow> bool \<Rightarrow> string option \<Rightarrow> real \<Rightarrow> real option \<Rightarrow> ('s, job option) backend_op" where
  "schedule_iteration J B now src jobSchedulerId repeatOpts jobName jobData opts override producerId
       millis nextMillis s =
     (let filteredRepeatOpts = map_del ''immediately'' repeatOpts;
          mergedOpts = getNextJobOpts J now (opt_num_val nextMillis) jobSchedulerId
            (object_assign opts [(''repeat'', VObj filteredRepeatOpts),
                                 (''telemetry'', scheduler_telemetry src opts)])
            (iterationCount repeatOpts) (newOffset repeatOpts)
      in case json_stringify J (if jobData = VUndef then VObj [] else jobData) of
           Inl e \<Rightarrow> (Inl e, s)
         | Inr text \<Rightarrow>
             (if override
              then let clamped = map_option (\<lambda>m. if m < millis then millis else m) nextMillis
                   in case be_addJobScheduler B jobSchedulerId (opt_num_val clamped) text opts
                             (scheduler_meta J repeatOpts jobName (newOffset repeatOpts)) mergedOpts producerId s of
                        (Inl e, s') \<Rightarrow> (Inl e, s')
                      | (Inr (jobId, delay), s') \<Rightarrow>
                          (Inr (Some (new_Job now jobName jobData
                                 (map_set ''delay'' (numericDelay delay) mergedOpts) (Some jobId))), s')
              else case be_updateJobSchedulerNextMillis B jobSchedulerId (opt_num_val nextMillis) text
                          mergedOpts producerId s of
                     (Inl e, s') \<Rightarrow> (Inl e, s')
                   | (Inr jobId, s') \<Rightarrow>
                       (Inr (if truthy_str jobId then Some (new_Job now jobName jobData mergedOpts jobId) else None), s')))"

definition upsertJobScheduler ::
  "json_lib \<Rightarrow> string option \<Rightarrow> repeat_strategy \<Rightarrow> 's queue_backend \<Rightarrow> real \<Rightarrow> string option \<Rightarrow> string \<Rightarrow> jsobj
     \<Rightarrow> string option \<Rightarrow> jsval \<Rightarrow> jsobj \<Rightarrow> bool \<Rightarrow> string option \<Rightarrow> ('s, job option) backend_op" where
  "upsertJobScheduler J stk repeatStrategy B now src jobSchedulerId repeatOpts jobName jobData opts
       override producerId s =
     (case check_repeat_opts stk repeatOpts opts of
        Inl e \<Rightarrow> (Inl e, s)
      | Inr _ \<Rightarrow>
          (if schedule_over J now repeatOpts then (Inr None, s)
           else let millis = current_millis now opts
                in case next_millis repeatStrategy millis repeatOpts jobName of
                     Inl e \<Rightarrow> (Inl e, s)
                   | Inr nextMillis \<Rightarrow>
                       (if truthy_num nextMillis \<or> truthy (oprop repeatOpts ''every'')
                        then schedule_iteration J B now src jobSchedulerId repeatOpts jobName jobData opts
                               override producerId millis nextMillis s
                        else (Inr None, s))))"

section \<open>Reading schedulers back\<close>

record scheduler_json =
  sj_key :: string
  sj_name :: "string option"
  sj_next :: jsval
  sj_iterationCount :: jsval
  sj_limit :: jsval
  sj_startDate :: jsval
  sj_endDate :: jsval
  sj_tz :: "string option"
  sj_pattern :: "string option"
  sj_every :: jsval
  sj_offset :: jsval
  sj_template :: "(jsval \<times> jsobj option) option"

definition parse_field :: "(string, string option) jsmap \<Rightarrow> string \<Rightarrow> jsval" where
  "parse_field m k = (if truthy_str (rfield m k) then parseInt_val (rfield m k) else VUndef)"

definition getTemplateFromJSON ::
  "json_lib \<Rightarrow> string option \<Rightarrow> string option \<Rightarrow> (js_error, jsval \<times> jsobj option) result" where
  "getTemplateFromJSON J rawData rawOpts =
     bind_result (if truthy_str rawData then json_parse J (the rawData) else Inr VUndef) (\<lambda>data.
     bind_result (if truthy_str rawOpts
                  then bind_result (optsFromJSON J rawOpts) (\<lambda>opts. Inr (Some opts)) else Inr None) (\<lambda>opts.
       Inr (data, opts)))"

definition transformSchedulerData ::
  "json_lib \<Rightarrow> string option \<Rightarrow> string \<Rightarrow> (string, string option) jsmap option \<Rightarrow> jsval
     \<Rightarrow> (js_error, scheduler_json option) result" where
  "transformSchedulerData J stk key jobData next =
     (case jobData of
        Some (e # m) \<Rightarrow>
          (let d = e # m in
           bind_result (if truthy_str (rfield d ''data'') \<or> truthy_str (rfield d ''opts'')
                        then bind_result (getTemplateFromJSON J (rfield d ''data'') (rfield d ''opts''))
                               (\<lambda>t. Inr (Some t))
                        else Inr None) (\<lambda>template.
             Inr (Some \<lparr>sj_key = key, sj_name = rfield d ''name'', sj_next = next,
                        sj_iterationCount = parse_field d ''ic'', sj_limit = parse_field d ''limit'',
                        sj_startDate = parse_field d ''startDate'', sj_endDate = parse_field d ''endDate'',
                        sj_tz = or_else (rfield d ''tz'') None, sj_pattern = or_else (rfield d ''pattern'') None,
                        sj_every = parse_field d ''every'', sj_offset = parse_field d ''offset'',
                        sj_template = template\<rparr>)))
      | _ \<Rightarrow> if hasLegacyRepeatableKeyShape key then Inl (getLegacyRepeatableJobError stk key)
             else Inr None)"

definition getSchedulerData ::
  "json_lib \<Rightarrow> string option \<Rightarrow> 's queue_backend \<Rightarrow> string \<Rightarrow> jsval \<Rightarrow> ('s, scheduler_json option) backend_op" where
  "getSchedulerData J stk B key next s =
     (case be_getJobSchedulerData B key s of
        (Inl e, s') \<Rightarrow> (Inl e, s')
      | (Inr jobData, s') \<Rightarrow>
          (case transformSchedulerData J stk key (Some jobData) next of
             Inl e \<Rightarrow> (Inl e, s')
           | Inr None \<Rightarrow>
               (case be_removeJobScheduler B key s' of
                  (Inl e, s'') \<Rightarrow> (Inl e, s'') | (Inr _, s'') \<Rightarrow> (Inr None, s''))
           | Inr (Some j) \<Rightarrow> (Inr (Some j), s')))"

definition getScheduler ::
  "json_lib \<Rightarrow> string option \<Rightarrow> 's queue_backend \<Rightarrow> string \<Rightarrow> ('s, scheduler_json option) backend_op" where
  "getScheduler J stk B key s =
     (case be_getJobScheduler B key s of
        (Inl e, s') \<Rightarrow> (Inl e, s')
      | (Inr (rawJobData, next), s') \<Rightarrow>
          (transformSchedulerData J stk key (map_option array2obj rawJobData)
             (if truthy_str next then parseInt_val next else VNull), s'))"

text \<open>getJobSchedulers starts one read per pair of the range reply and awaits them all; the
  model runs them in that order. One that rejects makes the whole call reject, after the
  others have run.\<close>

fun read_schedulers ::
  "json_lib \<Rightarrow> string option \<Rightarrow> 's queue_backend \<Rightarrow> string list \<Rightarrow> ('s, scheduler_json list) backend_op" where
  "read_schedulers J stk B [] s = (Inr [], s)"
| "read_schedulers J stk B [key] s =
     (case getSchedulerData J stk B key VNaN s of
        (Inl e, s') \<Rightarrow> (Inl e, s')
      | (Inr j, s') \<Rightarrow> (Inr (case j of None \<Rightarrow> [] | Some x \<Rightarrow> [x]), s'))"
| "read_schedulers J stk B (key # score # rest) s =
     (case getSchedulerData J stk B key (parseInt_val (Some score)) s of
        (Inl e, s') \<Rightarrow> (Inl e, snd (read_schedulers J stk B rest s'))
      | (Inr j, s') \<Rightarrow>
          (case read_schedulers J stk B rest s' of
             (Inl e, s'') \<Rightarrow> (Inl e, s'')
           | (Inr js, s'') \<Rightarrow> (Inr ((case j of None \<Rightarrow> [] | Some x \<Rightarrow> [x]) @ js), s'')))"

definition getJobSchedulers ::
  "json_lib \<Rightarrow> string option \<Rightarrow> 's queue_backend \<Rightarrow> int \<Rightarrow> int \<Rightarrow> bool \<Rightarrow> ('s, scheduler_json list) backend_op" where
  "getJobSchedulers J stk B start end asc s =
     (case be_getJobSchedulersRange B start end asc s of
        (Inl e, s') \<Rightarrow> (Inl e, s')
      | (Inr result, s') \<Rightarrow> read_schedulers J stk B result s')"

section \<open>Strategies\<close>

text \<open>The cron parser is third-party: \<open>cron pattern opts currentDate\<close> rejects a malformed
  pattern, and otherwise gives the outcome of \<open>interval.next()\<close>, whose exceptions are
  ignored.\<close>

type_synonym cron_parser = "jsval \<Rightarrow> jsobj \<Rightarrow> real \<Rightarrow> (js_error, (js_error, real) result) result"

definition start_or :: "json_lib \<Rightarrow> jsobj \<Rightarrow> real \<Rightarrow> real" where
  "start_or J opts millis =
     (if truthy (oprop opts ''startDate'')
      then (case date_millis J (oprop opts ''startDate'') of VNum d \<Rightarrow> if d > millis then d else millis | _ \<Rightarrow> millis)
      else millis)"

definition defaultRepeatStrategy :: "json_lib \<Rightarrow> cron_parser \<Rightarrow> real \<Rightarrow> repeat_strategy" where
  "defaultRepeatStrategy J cron clock millis opts jobName =
     bind_result (cron (oprop opts ''pattern'') opts (start_or J opts millis)) (\<lambda>interval.
       Inr (if truthy (oprop opts ''immediately'') then Some clock
            else case interval of Inl _ \<Rightarrow> None | Inr n \<Rightarrow> Some n))"

definition getNextMillis ::
  "json_lib \<Rightarrow> string option \<Rightarrow> cron_parser \<Rightarrow> real \<Rightarrow> real \<Rightarrow> jsobj \<Rightarrow> (js_error, real option) result" where
  "getNextMillis J stk cron clock millis opts =
     (if truthy (oprop opts ''pattern'') \<and> truthy (oprop opts ''every'')
      then Inl (new_err ErrorClass stk
             ''Both .pattern and .every options are defined for this repeatable job'')
      else case oprop opts ''every'' of
             VNum every \<Rightarrow>
               (if every \<noteq> 0
                then Inr (Some (math_floor (millis / every) * every
                            + (if truthy (oprop opts ''immediately'') then 0 else every)))
                else defaultRepeatStrategy J cron clock millis opts None)
           | _ \<Rightarrow> defaultRepeatStrategy J cron clock millis opts None)"

section \<open>Lemmas on keys\<close>

lemma index_from_0_Some:
  "index_from c 0 xs = Some k \<longleftrightarrow> (\<exists>a r. xs = a @ c # r \<and> c \<notin> set a \<and> k = length a)"
proof (induction xs arbitrary: k)
  case (Cons x xs)
  show ?case
  proof (cases "x = c")
    case True
    then show ?thesis by (auto simp: Cons_eq_append_conv)
  next
    case False
    then have "index_from c 0 (x # xs) = Some k \<longleftrightarrow> (\<exists>j. index_from c 0 xs = Some j \<and> k = Suc j)" by auto
    also have "\<dots> \<longleftrightarrow> (\<exists>a r. xs = a @ c # r \<and> c \<notin> set a \<and> k = Suc (length a))"
      unfolding Cons.IH by blast
    also have "\<dots> \<longleftrightarrow> (\<exists>a r. x # xs = a @ c # r \<and> c \<notin> set a \<and> k = length a)"
    proof
      assume "\<exists>a r. xs = a @ c # r \<and> c \<notin> set a \<and> k = Suc (length a)"
      then obtain a r where "x # xs = (x # a) @ c # r" "c \<notin> set (x # a)" "k = length (x # a)"
        using False by auto
      then show "\<exists>a r. x # xs = a @ c # r \<and> c \<notin> set a \<and> k = length a" by blast
    qed (use False in \<open>auto simp: Cons_eq_append_conv\<close>)
    finally show ?thesis .
  qed
qed simp

lemma index_from_0_None: "index_from c 0 xs = None \<longleftrightarrow> c \<notin> set xs"
proof
  assume none: "index_from c 0 xs = None"
  show "c \<notin> set xs"
  proof
    assume "c \<in> set xs"
    then obtain a r where "xs = a @ c # r" "c \<notin> set a" by (meson split_list_first)
    with index_from_0_Some none show False by (metis option.distinct(1))
  qed
qed (metis index_from_0_Some in_set_conv_decomp not_None_eq)

lemma index_from_append: "index_from c (length p) (p @ ys) = map_option (\<lambda>k. length p + k) (index_from c 0 ys)"
  by (induction p) (simp_all add: option.map_comp o_def option.map_ident)

lemma index_from_after:
  "index_from c (Suc (length p)) (p @ x # ys) = map_option (\<lambda>k. Suc (length p + k)) (index_from c 0 ys)"
  using index_from_append [of c "p @ [x]" ys] by simp

lemma slice_middle: "slice (length p) (length p + length q) (p @ q @ r) = q"
  by (simp add: slice_def)

lemma isNumericSegment_middle:
  "isNumericSegment (p @ q @ r) (length p) (length p + length q) \<longleftrightarrow> q \<noteq> [] \<and> set q \<subseteq> digit_chars"
  by (auto simp: isNumericSegment_def slice_middle list_all_iff)

text \<open>A legacy key: four colon-terminated segments, the third empty or numeric, and a suffix
  that holds a space or is numeric.\<close>

definition legacy_segments :: "string \<Rightarrow> string \<Rightarrow> string \<Rightarrow> string \<Rightarrow> string \<Rightarrow> bool" where
  "legacy_segments name jid endDate tz rest \<longleftrightarrow>
     CHR '':'' \<notin> set name \<and> CHR '':'' \<notin> set jid \<and> CHR '':'' \<notin> set endDate \<and> CHR '':'' \<notin> set tz
     \<and> set endDate \<subseteq> digit_chars \<and> rest \<noteq> []
     \<and> (CHR '' '' \<in> set rest \<or> set rest \<subseteq> digit_chars)"

definition legacy_key :: "string \<Rightarrow> string \<Rightarrow> string \<Rightarrow> string \<Rightarrow> string \<Rightarrow> string" where
  "legacy_key name jid endDate tz rest =
     name @ '':'' @ jid @ '':'' @ endDate @ '':'' @ tz @ '':'' @ rest"

lemma shape_of_segments:
  assumes "CHR '':'' \<notin> set a" and "CHR '':'' \<notin> set b" and "CHR '':'' \<notin> set c" and "CHR '':'' \<notin> set d"
  shows "hasLegacyRepeatableKeyShape (legacy_key a b c d e) \<longleftrightarrow> legacy_segments a b c d e"
proof -
  let ?k = "legacy_key a b c d e" and ?col = "CHR '':''"
  have first: "index_from ?col 0 (x @ ?col # y) = Some (length x)" if "?col \<notin> set x" for x y
    using that index_from_0_Some by blast
  have 1: "index_from ?col 0 ?k = Some (length a)"
    using first [OF assms(1)] by (simp add: legacy_key_def)
  have 2: "index_from ?col (length a + 1) ?k = Some (length (a @ ?col # b))"
    using index_from_after [of ?col a ?col "b @ ?col # c @ ?col # d @ ?col # e"] first [OF assms(2)]
    by (simp add: legacy_key_def)
  have 3: "index_from ?col (length (a @ ?col # b) + 1) ?k = Some (length (a @ ?col # b @ ?col # c))"
    using index_from_after [of ?col "a @ ?col # b" ?col "c @ ?col # d @ ?col # e"] first [OF assms(3)]
    by (simp add: legacy_key_def)
  have 4: "index_from ?col (length (a @ ?col # b @ ?col # c) + 1) ?k = Some (length (a @ ?col # b @ ?col # c @ ?col # d))"
    using index_from_after [of ?col "a @ ?col # b @ ?col # c" ?col "d @ ?col # e"] first [OF assms(4)]
    by (simp add: legacy_key_def)
  have 5: "isNumericSegment ?k (length (a @ ?col # b) + 1) (length (a @ ?col # b @ ?col # c))
      \<longleftrightarrow> c \<noteq> [] \<and> set c \<subseteq> digit_chars"
    using isNumericSegment_middle [of "a @ ?col # b @ [?col]" c "?col # d @ ?col # e"]
    by (simp add: legacy_key_def add.assoc)
  have 6: "isNumericSegment ?k (length (a @ ?col # b @ ?col # c @ ?col # d) + 1) (length ?k)
      \<longleftrightarrow> e \<noteq> [] \<and> set e \<subseteq> digit_chars"
    using isNumericSegment_middle [of "a @ ?col # b @ ?col # c @ ?col # d @ [?col]" e "[]"]
    by (simp add: legacy_key_def add.assoc)
  have 7: "index_from (CHR '' '') (length (a @ ?col # b @ ?col # c @ ?col # d) + 1) ?k = None \<longleftrightarrow> CHR '' '' \<notin> set e"
    using index_from_after [of "CHR '' ''" "a @ ?col # b @ ?col # c @ ?col # d" ?col e] index_from_0_None
    by (simp add: legacy_key_def)
  have 8: "length ?k = length (a @ ?col # b @ ?col # c @ ?col # d) + 1 + length e"
    by (simp add: legacy_key_def)
  have 9: "length (a @ ?col # b) + 1 < length (a @ ?col # b @ ?col # c) \<longleftrightarrow> c \<noteq> []" by simp
  show ?thesis
    unfolding hasLegacyRepeatableKeyShape_def 1 option.case 2 3 4 Let_def 5 6 7 9
    using assms by (auto simp: legacy_segments_def 8)
qed

lemma index_from_after_Some:
  assumes "index_from c (length p + 1) (p @ c # ys) = Some k"
  shows "\<exists>a r. ys = a @ c # r \<and> c \<notin> set a \<and> k = length (p @ c # a)"
  using assms index_from_0_Some [of c ys] by (auto simp: index_from_after)

lemma shape_has_segments:
  assumes "hasLegacyRepeatableKeyShape key"
  shows "\<exists>a b c d e. key = legacy_key a b c d e \<and> CHR '':'' \<notin> set a \<and> CHR '':'' \<notin> set b
           \<and> CHR '':'' \<notin> set c \<and> CHR '':'' \<notin> set d"
proof -
  let ?col = "CHR '':''"
  from assms obtain i1 i2 i3 i4 where
    i: "index_from ?col 0 key = Some i1" "index_from ?col (i1 + 1) key = Some i2"
      "index_from ?col (i2 + 1) key = Some i3" "index_from ?col (i3 + 1) key = Some i4"
    unfolding hasLegacyRepeatableKeyShape_def by (auto split: option.splits)
  from i(1) obtain a r1 where a: "key = a @ ?col # r1" "?col \<notin> set a" "i1 = length a"
    using index_from_0_Some by blast
  from index_from_after_Some [OF i(2) [unfolded a(1,3)]] obtain b r2 where
    b: "r1 = b @ ?col # r2" "?col \<notin> set b" "i2 = length (a @ ?col # b)" by blast
  have k2: "key = (a @ ?col # b) @ ?col # r2" using a(1) b(1) by simp
  from index_from_after_Some [OF i(3) [unfolded k2 b(3)]] obtain c r3 where
    c: "r2 = c @ ?col # r3" "?col \<notin> set c" "i3 = length ((a @ ?col # b) @ ?col # c)" by blast
  have k3: "key = ((a @ ?col # b) @ ?col # c) @ ?col # r3" using k2 c(1) by simp
  from index_from_after_Some [OF i(4) [unfolded k3 c(3)]] obtain d e where
    d: "r3 = d @ ?col # e" "?col \<notin> set d" by blast
  have "key = legacy_key a b c d e" using k3 d(1) by (simp add: legacy_key_def)
  with a(2) b(2) c(2) d(2) show ?thesis by blast
qed

section \<open>Lemmas on scheduling\<close>

lemma check_repeat_opts_iff:
  "check_repeat_opts stk repeatOpts opts = Inr () \<longleftrightarrow>
     truthy (oprop repeatOpts ''pattern'') \<noteq> truthy (oprop repeatOpts ''every'')
     \<and> \<not> (truthy (oprop repeatOpts ''immediately'') \<and> truthy (oprop repeatOpts ''startDate''))
     \<and> ''debounce'' \<notin> set (map_keys opts)"
  by (auto simp: check_repeat_opts_def Let_def)

lemma string_of_int_chars: "set (string_of_int i) \<subseteq> insert (CHR ''-'') digit_chars"
  using string_of_nat_chars by (auto simp: string_of_int_def)

lemma string_of_int_no_colon: "CHR '':'' \<notin> set (string_of_int i)"
  using string_of_int_chars [of i] by (auto simp: digit_chars_def)

lemma string_of_int_inj: "string_of_int i = string_of_int j \<Longrightarrow> i = j"
  by (metis option.inject parseInt_string_of_int)

text \<open>Splitting at the last colon is unambiguous.\<close>

lemma last_colon_inj:
  assumes "x @ '':'' @ a = y @ '':'' @ b" and "CHR '':'' \<notin> set a" and "CHR '':'' \<notin> set b"
  shows "x = y \<and> a = b"
proof -
  from arg_cong [OF assms(1), of rev] have "rev a @ '':'' @ rev x = rev b @ '':'' @ rev y" by simp
  with assms(2,3) have "rev a = rev b \<and> rev x = rev y" by (intro append_colon_inj) auto
  then show ?thesis by simp
qed

lemma getNextJobOpts_fields:
  "oprop (getNextJobOpts J now nextMillis sid opts cnt off) ''jobId'' = VStr (getSchedulerNextJobId J sid nextMillis)"
  "oprop (getNextJobOpts J now nextMillis sid opts cnt off) ''repeatJobKey'' = VStr sid"
  "oprop (getNextJobOpts J now nextMillis sid opts cnt off) ''prevMillis'' = nextMillis"
  "oprop (getNextJobOpts J now nextMillis sid opts cnt off) ''timestamp'' = VNum now"
  "oprop (getNextJobOpts J now nextMillis sid opts cnt off) ''delay'' = (let d = js_plus nextMillis (with_default 0 off - now)
                                in if js_less d (VNum 0) then VNum 0 else d)"
  "vprop (oprop (getNextJobOpts J now nextMillis sid opts cnt off) ''repeat'') ''count'' = VNum cnt"
  unfolding getNextJobOpts_def Let_def by (simp_all add: object_assign_def)

section \<open>Claims\<close>

text \<open>
  Which repeat keys count as legacy: exactly the keys \<open>name:id:endDate:tz:suffix\<close> whose first
  four segments hold no colon, whose end date is empty or numeric and whose suffix is not
  empty and either contains a space (a cron pattern) or is numeric (an interval).
\<close>

theorem legacy_key_shape:
  "hasLegacyRepeatableKeyShape key \<longleftrightarrow>
     (\<exists>name jid endDate tz rest. key = legacy_key name jid endDate tz rest
        \<and> legacy_segments name jid endDate tz rest)"
proof
  assume shape: "hasLegacyRepeatableKeyShape key"
  from shape_has_segments [OF shape] obtain a b c d e where
    key: "key = legacy_key a b c d e" "CHR '':'' \<notin> set a" "CHR '':'' \<notin> set b" "CHR '':'' \<notin> set c"
      "CHR '':'' \<notin> set d" by blast
  from shape_of_segments [OF key(2-5)] shape key(1) have "legacy_segments a b c d e" by blast
  with key(1) show "\<exists>a b c d e. key = legacy_key a b c d e \<and> legacy_segments a b c d e" by blast
next
  assume "\<exists>a b c d e. key = legacy_key a b c d e \<and> legacy_segments a b c d e"
  then obtain a b c d e where "key = legacy_key a b c d e" and seg: "legacy_segments a b c d e" by blast
  with shape_of_segments [of a b c d e] show "hasLegacyRepeatableKeyShape key"
    by (simp add: legacy_segments_def)
qed


definition demo_repeat :: jsobj where
  "demo_repeat = [(''every'', VNum 1000), (''limit'', VNum 2), (''count'', VNum 1)]"


text \<open>
  Iterations have distinct ids: the job id \<open>repeat:<scheduler>:<due time>\<close> determines the
  scheduler (whatever colons its id has) and the due time, and the delay of the iteration
  is never negative.
\<close>

theorem iteration_id_unique:
  assumes "num_ok J" and "\<bar>m\<bar> < 2 ^ 53" and "\<bar>n\<bar> < 2 ^ 53"
    and "a = getNextJobOpts J now (VNum (of_int m)) sid opts cnt off"
    and "b = getNextJobOpts J now' (VNum (of_int n)) sid' opts' cnt' off'"
    and "oprop a ''jobId'' = oprop b ''jobId''"
  shows "sid = sid' \<and> m = n \<and> (\<exists>d \<ge> 0. oprop a ''delay'' = VNum d)"
proof -
  have "getSchedulerNextJobId J i (VNum (of_int k)) = ''repeat:'' @ i @ '':'' @ string_of_int k"
    if "\<bar>k\<bar> < 2 ^ 53" for i k
    using assms(1) that by (simp add: getSchedulerNextJobId_def render_num_val_def num_ok_def)
  with assms(2-6) have "sid @ '':'' @ string_of_int m = sid' @ '':'' @ string_of_int n"
    by (simp add: getNextJobOpts_fields)
  then have "sid = sid' \<and> string_of_int m = string_of_int n"
    by (rule last_colon_inj) (rule string_of_int_no_colon)+
  moreover have "\<exists>d \<ge> 0. oprop a ''delay'' = VNum d"
    using assms(4) by (simp add: getNextJobOpts_fields Let_def not_less)
  ultimately show ?thesis using string_of_int_inj by blast
qed

theorem iteration_id_unique_witness:
  "let a = getNextJobOpts demo_lib 10 (VNum (of_int 5)) ''a:b'' [] 1 None
   in oprop a ''jobId'' = VStr ''repeat:a:b:5'' \<and> (\<exists>d \<ge> 0. oprop a ''delay'' = VNum d)"
proof -
  let ?a = "getNextJobOpts demo_lib 10 (VNum (of_int 5)) ''a:b'' [] 1 None"
  have "oprop ?a ''jobId'' = VStr ''repeat:a:b:5''"
    by (simp add: getNextJobOpts_fields getSchedulerNextJobId_def render_num_val_def demo_lib_def
        string_of_int_def string_of_nat.simps string_of_digit_def)
  moreover from iteration_id_unique [OF num_ok_demo_lib _ _ refl refl, of 5 5 10 "''a:b''" "[]" 1 None 10 "''a:b''" "[]" 1 None]
  have "\<exists>d \<ge> 0. oprop ?a ''delay'' = VNum d" by simp
  ultimately show ?thesis by (simp only: Let_def)
qed

text \<open>
  The slot of a fixed interval: for an interval \<open>every\<close> (positive) the next execution time of
  getNextMillis is the first multiple of \<open>every\<close> after the reference time; with
  \<open>immediately\<close> it is the last multiple not after it.
\<close>

theorem getNextMillis_every:
  assumes "oprop opts ''every'' = VNum e" and "0 < e" and "\<not> truthy (oprop opts ''pattern'')"
  shows "\<exists>k :: int. getNextMillis J stk cron clock millis opts = Inr (Some (of_int k * e))
           \<and> (if truthy (oprop opts ''immediately'') then of_int k * e \<le> millis \<and> millis < of_int (k + 1) * e
              else of_int (k - 1) * e \<le> millis \<and> millis < of_int k * e)"
proof -
  let ?f = "\<lfloor>millis / e\<rfloor>"
  have b: "of_int ?f * e \<le> millis" "millis < (of_int ?f + 1) * e"
    using floor_divide_lower [OF assms(2)] floor_divide_upper [OF assms(2)] by blast+
  show ?thesis
  proof (cases "truthy (oprop opts ''immediately'')")
    case True
    with assms b show ?thesis
      by (intro exI [of _ ?f]) (simp add: getNextMillis_def math_floor_def)
  next
    case False
    with assms b show ?thesis
      by (intro exI [of _ "?f + 1"]) (simp add: getNextMillis_def math_floor_def algebra_simps)
  qed
qed

theorem getNextMillis_every_witness:
  "\<exists>k :: int. getNextMillis demo_lib None (\<lambda>_ _ _. Inr (Inr 0)) 0 2500 [(''every'', VNum 1000)] = Inr (Some (of_int k * 1000))
      \<and> of_int (k - 1) * 1000 \<le> (2500 :: real) \<and> (2500 :: real) < of_int k * 1000"
  using getNextMillis_every [of "[(''every'', VNum 1000)]" 1000 demo_lib None "\<lambda>_ _ _. Inr (Inr 0)" 0 2500]
  by simp

end
