(* ===== verification/Worker.thy ===== *)
theory Worker
  imports Job_Scheduler Lock_Manager
begin

text \<open>
  The operations of src/classes/worker.ts that fetch, run and finish one job, together with
  the checks of its constructor, its delays and its retry loop. (The main loop that calls
  them concurrently is the theory \<open>Worker_Loop\<close>.)

  An operation runs on a \<open>wworld\<close>: the worker object with its lock manager, the job object it
  is working on, the state of the datastore and the events emitted so far, newest last. It
  either resolves, rejects, or (\<open>None\<close>) never returns, because retryIfFailed repeats a call
  for as long as it fails with connection errors. While the worker sleeps between two tries
  the world may change: \<open>we_pause\<close> is that change. \<open>Date.now()\<close> is \<open>we_now\<close> throughout one
  operation; telemetry spans are left out.
\<close>

section \<open>Options\<close>

definition worker_defaults :: jsobj where
  "worker_defaults =
     [(''drainDelay'', VNum 5), (''concurrency'', VNum 1), (''lockDuration'', VNum 30000),
      (''maximumRateLimitDelay'', VNum 30000), (''maxStalledCount'', VNum 1),
      (''stalledInterval'', VNum 30000), (''autorun'', VBool True), (''runRetryDelay'', VNum 15000)]"

definition number_below :: "jsval \<Rightarrow> (real \<Rightarrow> bool) \<Rightarrow> bool" where
  "number_below v bad = (case v of VNum n \<Rightarrow> bad n | _ \<Rightarrow> True)"

definition check_worker_opts :: "string option \<Rightarrow> jsobj \<Rightarrow> jsobj \<Rightarrow> (js_error, unit) result" where
  "check_worker_opts stk opts merged =
     bind_result (guard_err (\<not> truthy (oprop opts ''connection'')) stk ''Worker requires a connection'') (\<lambda>_.
     bind_result (guard_err (number_below (oprop merged ''maxStalledCount'') (\<lambda>n. n < 0)) stk
       ''maxStalledCount must be greater or equal than 0'') (\<lambda>_.
     bind_result (guard_err (case oprop merged ''maxStartedAttempts'' of VNum n \<Rightarrow> n < 0 | _ \<Rightarrow> False) stk
       ''maxStartedAttempts must be greater or equal than 0'') (\<lambda>_.
     bind_result (guard_err (number_below (oprop merged ''stalledInterval'') (\<lambda>n. n \<le> 0)) stk
       ''stalledInterval must be greater than 0'') (\<lambda>_.
     guard_err (number_below (oprop merged ''drainDelay'') (\<lambda>n. n \<le> 0)) stk
       ''drainDelay must be greater than 0''))))"

text \<open>The setter of \<open>concurrency\<close> (numbers of the model are finite).\<close>

definition set_concurrency :: "string option \<Rightarrow> jsval \<Rightarrow> (js_error, real) result" where
  "set_concurrency stk v =
     (case v of
        VNum n \<Rightarrow> if n < 1 then Inl (new_err ErrorClass stk ''concurrency must be a finite number greater than 0'')
                  else Inr n
      | _ \<Rightarrow> Inl (new_err ErrorClass stk ''concurrency must be a finite number greater than 0''))"

record worker_opts =
  wo_name :: "string option"
  wo_drainDelay :: real
  wo_maximumRateLimitDelay :: real
  wo_maxStartedAttempts :: "real option"
  wo_runRetryDelay :: real
  wo_lockDuration :: real
  wo_lockRenewTime :: real
  wo_concurrency :: real

definition num_or :: "real \<Rightarrow> jsval \<Rightarrow> real" where
  "num_or d v = (case v of VNum n \<Rightarrow> n | _ \<Rightarrow> d)"

definition worker_options :: "string option \<Rightarrow> jsobj \<Rightarrow> (js_error, worker_opts) result" where
  "worker_options stk opts =
     (let merged = map_set ''blockingConnection'' (VBool True) (object_assign worker_defaults opts) in
      bind_result (check_worker_opts stk opts merged) (\<lambda>_.
      bind_result (set_concurrency stk (oprop merged ''concurrency'')) (\<lambda>concurrency.
        let lockDuration = num_or 0 (oprop merged ''lockDuration'') in
        Inr \<lparr>wo_name = str_of (oprop merged ''name''),
             wo_drainDelay = num_or 0 (oprop merged ''drainDelay''),
             wo_maximumRateLimitDelay = num_or 0 (oprop merged ''maximumRateLimitDelay''),
             wo_maxStartedAttempts = num_of (oprop merged ''maxStartedAttempts''),
             wo_runRetryDelay = num_or 0 (oprop merged ''runRetryDelay''),
             wo_lockDuration = lockDuration,
             wo_lockRenewTime = (if truthy (oprop merged ''lockRenewTime'')
                                 then num_or 0 (oprop merged ''lockRenewTime'') else lockDuration / 2),
             wo_concurrency = concurrency\<rparr>)))"

section \<open>Worlds\<close>

record worker =
  wk_id :: string
  wk_opts :: worker_opts
  wk_acceptsSignal :: bool
  wk_closing :: bool
  wk_closed :: bool
  wk_paused :: bool
  wk_drained :: bool
  wk_waiting :: bool
  wk_limitUntil :: real
  wk_blockUntil :: jsnum
  wk_locks :: lock_manager

datatype worker_event =
    WDrained
  | WActive job
  | WError js_error
  | WCompleted job jsval
  | WFailed job js_error
  | WStalled string

record 's wworld =
  ww_worker :: worker
  ww_job :: job
  ww_be :: 's
  ww_backendClosing :: bool
  ww_events :: "worker_event list"

type_synonym ('s, 'a) worker_op = "'s wworld \<Rightarrow> ((js_error, 'a) result \<times> 's wworld) option"

text \<open>What a worker operation reads of its surroundings; the processor is the user's
  function, \<open>dst\<close> the trace context.\<close>

record 's worker_env =
  we_lib :: json_lib
  we_stack :: "string option"
  we_random :: real
  we_now :: real
  we_dst :: "string option"
  we_backend :: "'s queue_backend"
  we_queue :: job_queue
  we_repeatStrategy :: repeat_strategy
  we_minimumBlockTimeout :: real
  we_processFn :: "job \<Rightarrow> string \<Rightarrow> nat option \<Rightarrow> ('s, jsval) worker_op"
  we_pause :: "'s wworld \<Rightarrow> 's wworld"

definition w_return :: "'a \<Rightarrow> ('s, 'a) worker_op" where
  "w_return a w = Some (Inr a, w)"

definition w_throw :: "js_error \<Rightarrow> ('s, 'a) worker_op" where
  "w_throw e w = Some (Inl e, w)"

definition w_then :: "('s, 'a) worker_op \<Rightarrow> ('a \<Rightarrow> ('s, 'b) worker_op) \<Rightarrow> ('s, 'b) worker_op" where
  "w_then m f w =
     (case m w of None \<Rightarrow> None | Some (Inl e, w') \<Rightarrow> Some (Inl e, w') | Some (Inr a, w') \<Rightarrow> f a w')"

text \<open>\<open>try { m } catch (err) { h }\<close>\<close>

definition w_catch :: "('s, 'a) worker_op \<Rightarrow> (js_error \<Rightarrow> ('s, 'a) worker_op) \<Rightarrow> ('s, 'a) worker_op" where
  "w_catch m h w =
     (case m w of None \<Rightarrow> None | Some (Inl e, w') \<Rightarrow> h e w' | Some (Inr a, w') \<Rightarrow> Some (Inr a, w'))"

text \<open>\<open>try { m } finally { f }\<close>\<close>

definition w_finally :: "('s, 'a) worker_op \<Rightarrow> ('s wworld \<Rightarrow> 's wworld) \<Rightarrow> ('s, 'a) worker_op" where
  "w_finally m f w = (case m w of None \<Rightarrow> None | Some (r, w') \<Rightarrow> Some (r, f w'))"

definition w_read :: "('s wworld \<Rightarrow> ('s, 'a) worker_op) \<Rightarrow> ('s, 'a) worker_op" where
  "w_read f w = f w w"

definition w_worker :: "(worker \<Rightarrow> worker) \<Rightarrow> ('s, unit) worker_op" where
  "w_worker f w = Some (Inr (), w\<lparr>ww_worker := f (ww_worker w)\<rparr>)"

definition w_emit :: "worker_event \<Rightarrow> ('s, unit) worker_op" where
  "w_emit e w = Some (Inr (), w\<lparr>ww_events := ww_events w @ [e]\<rparr>)"

definition w_backend :: "('s, 'a) backend_op \<Rightarrow> ('s, 'a) worker_op" where
  "w_backend call w = (case call (ww_be w) of (r, s) \<Rightarrow> Some (r, w\<lparr>ww_be := s\<rparr>))"

definition w_lift :: "(js_error, 'a) result \<Rightarrow> ('s, 'a) worker_op" where
  "w_lift r w = Some (r, w)"

text \<open>A method of the job object the worker holds.\<close>

definition w_job :: "('s, 'a) job_op \<Rightarrow> ('s, 'a) worker_op" where
  "w_job op w =
     (case op \<lparr>jw_job = ww_job w, jw_be = ww_be w, jw_out = []\<rparr> of
        (r, jw) \<Rightarrow> Some (r, w\<lparr>ww_job := jw_job jw, ww_be := jw_be jw\<rparr>))"

section \<open>Retrying\<close>

text \<open>One failed try: connection errors are retried after a pause (unless the number of
  tries is used up), any other error is emitted unless the worker is paused or closing, and
  then swallowed or thrown.\<close>

definition emit_error :: "js_error \<Rightarrow> 's wworld \<Rightarrow> 's wworld" where
  "emit_error err w =
     (if \<not> wk_paused (ww_worker w) \<and> \<not> wk_closing (ww_worker w)
      then w\<lparr>ww_events := ww_events w @ [WError err]\<rparr> else w)"

definition retry_pause :: "'s worker_env \<Rightarrow> real \<Rightarrow> 's wworld \<Rightarrow> 's wworld" where
  "retry_pause E delayInMs w =
     (if delayInMs \<noteq> 0 \<and> \<not> wk_closing (ww_worker w) \<and> \<not> wk_closed (ww_worker w)
      then we_pause E w else w)"

definition last_try :: "nat option \<Rightarrow> nat \<Rightarrow> bool" where
  "last_try maxRetries n = (case maxRetries of None \<Rightarrow> False | Some m \<Rightarrow> m \<noteq> 0 \<and> Suc n \<ge> m)"

partial_function (option) retry_loop ::
  "'s worker_env \<Rightarrow> ('s, 'a) worker_op \<Rightarrow> real \<Rightarrow> nat option \<Rightarrow> bool \<Rightarrow> nat \<Rightarrow> ('s, 'a option) worker_op" where
  "retry_loop E fn delayInMs maxRetries onlyEmitError n w =
     (case fn w of
        None \<Rightarrow> None
      | Some (Inr a, w') \<Rightarrow> Some (Inr (Some a), w')
      | Some (Inl err, w') \<Rightarrow>
          (if isNotConnectionError err
           then Some (if onlyEmitError then Inr None else Inl err, emit_error err w')
           else if last_try maxRetries n then Some (Inl err, retry_pause E delayInMs w')
           else retry_loop E fn delayInMs maxRetries onlyEmitError (Suc n) (retry_pause E delayInMs w')))"

definition retryIfFailed ::
  "'s worker_env \<Rightarrow> ('s, 'a) worker_op \<Rightarrow> real \<Rightarrow> nat option \<Rightarrow> bool \<Rightarrow> ('s, 'a option) worker_op" where
  "retryIfFailed E fn delayInMs maxRetries onlyEmitError w =
     retry_loop E fn delayInMs maxRetries onlyEmitError 0 w"

text \<open>A call whose result may itself be nothing.\<close>

definition retry_flat ::
  "'s worker_env \<Rightarrow> ('s, 'a option) worker_op \<Rightarrow> real \<Rightarrow> bool \<Rightarrow> ('s, 'a option) worker_op" where
  "retry_flat E fn delayInMs onlyEmitError =
     w_then (retryIfFailed E fn delayInMs None onlyEmitError)
       (\<lambda>r. w_return (case r of None \<Rightarrow> None | Some x \<Rightarrow> x))"

section \<open>Delays\<close>

definition updateDelays :: "real \<Rightarrow> real option \<Rightarrow> real option \<Rightarrow> worker \<Rightarrow> worker" where
  "updateDelays now limitDelay delayUntil wk =
     (let clampedLimit = max (with_default 0 limitDelay) 0 in
      wk\<lparr>wk_limitUntil := (if clampedLimit > 0 then now + clampedLimit else 0),
         wk_blockUntil := Fin (max (with_default 0 delayUntil) 0)\<rparr>)"

definition isRateLimited :: "real \<Rightarrow> worker \<Rightarrow> bool" where
  "isRateLimited now wk = (wk_limitUntil wk > now)"

definition getRateLimitDelay :: "worker \<Rightarrow> real \<Rightarrow> real" where
  "getRateLimitDelay wk delay = min delay (wo_maximumRateLimitDelay (wk_opts wk))"

definition maximumBlockTimeout :: real where
  "maximumBlockTimeout = 10"

definition getBlockTimeout :: "real \<Rightarrow> real \<Rightarrow> worker \<Rightarrow> jsnum \<Rightarrow> real" where
  "getBlockTimeout now minimumBlockTimeout wk blockUntil =
     (case blockUntil of
        Infinity \<Rightarrow> maximumBlockTimeout
      | Fin t \<Rightarrow>
          (if t \<noteq> 0
           then let blockDelay = t - now
                in if blockDelay \<le> 0 then blockDelay
                   else if blockDelay < minimumBlockTimeout * 1000 then minimumBlockTimeout
                   else min (blockDelay / 1000) maximumBlockTimeout
           else max (wo_drainDelay (wk_opts wk)) minimumBlockTimeout))"

section \<open>Fetching\<close>

text \<open>The callback that schedules the next iteration of a repeated job.\<close>

definition schedule_repeat :: "'s worker_env \<Rightarrow> job \<Rightarrow> ('s, bool) worker_op" where
  "schedule_repeat E job =
     (let key = with_default '''' (j_repeatJobKey job);
          hasRepeatJobKey = (key \<noteq> '''');
          hasLegacyKeyShape = (hasRepeatJobKey \<and> hasLegacyRepeatableKeyShape key)
      in w_then (if hasLegacyKeyShape then w_backend (be_isJobScheduler (we_backend E) key)
                 else w_return hasRepeatJobKey) (\<lambda>isJobScheduler.
         w_then (if isJobScheduler
                 then (case oprop (j_opts job) ''repeat'' of
                         VObj repeat \<Rightarrow>
                           w_then (w_backend (upsertJobScheduler (we_lib E) (we_stack E) (we_repeatStrategy E)
                              (we_backend E) (we_now E) None key repeat (j_name job) (j_data job) (j_opts job)
                              False (j_id job))) (\<lambda>_. w_return ())
                       | _ \<Rightarrow> w_throw (new_err TypeErrorClass (we_stack E)
                                  ''repeatOpts is undefined''))
                 else w_return ()) (\<lambda>_.
           w_return (\<not> hasLegacyKeyShape \<or> isJobScheduler))))"

definition scheduling_error :: "'s worker_env \<Rightarrow> string \<Rightarrow> js_error" where
  "scheduling_error E msg =
     new_err ErrorClass (we_stack E) (''Failed to add repeatable job for next iteration: '' @ msg)"

definition nextJobFromJobData ::
  "'s worker_env \<Rightarrow> job_json option \<Rightarrow> string option \<Rightarrow> string \<Rightarrow> ('s, job option) worker_op" where
  "nextJobFromJobData E jobData jobId token =
     (case jobData of
        None \<Rightarrow>
          w_read (\<lambda>w.
            if \<not> wk_drained (ww_worker w)
            then w_then (w_emit WDrained) (\<lambda>_.
                 w_then (w_worker (wk_drained_update (\<lambda>_. True))) (\<lambda>_. w_return None))
            else w_return None)
      | Some json \<Rightarrow>
          w_then (w_worker (wk_drained_update (\<lambda>_. False))) (\<lambda>_.
          w_then (w_lift (fromJSON (we_lib E) (we_now E) json jobId)) (\<lambda>job0.
            let job = job0\<lparr>j_token := Some token\<rparr> in
            w_then
              (w_catch
                (w_then (w_read (\<lambda>w. retryIfFailed E (schedule_repeat E job)
                           (wo_runRetryDelay (wk_opts (ww_worker w))) None False)) (\<lambda>should.
                 w_then (if truthy_str (j_repeatJobKey job) \<and> should \<noteq> Some True
                         then w_emit (WError (scheduling_error E
                                (err_message (getLegacyRepeatableJobError (we_stack E) (the (j_repeatJobKey job))))))
                         else w_return ()) (\<lambda>_. w_return True)))
                (\<lambda>err. w_then (w_emit (WError (scheduling_error E (err_message err)))) (\<lambda>_. w_return False)))
              (\<lambda>ok. if ok then w_then (w_emit (WActive job)) (\<lambda>_. w_return (Some job)) else w_return None))))"

definition moveToActive :: "'s worker_env \<Rightarrow> string \<Rightarrow> ('s, job option) worker_op" where
  "moveToActive E token =
     w_then (w_read (\<lambda>w. w_backend (be_moveToActive (we_backend E) token (wo_name (wk_opts (ww_worker w)))))) (\<lambda>nj.
     w_then (w_worker (updateDelays (we_now E) (nj_rateLimitDelay nj) (nj_delayUntil nj))) (\<lambda>_.
       nextJobFromJobData E (nj_data nj) (nj_id nj) token))"

definition waitForJob_recover :: "'s worker_env \<Rightarrow> js_error \<Rightarrow> ('s, jsnum) worker_op" where
  "waitForJob_recover E error =
     w_then (if isNotConnectionError error then w_emit (WError error) else w_return ()) (\<lambda>_.
     w_then (w_read (\<lambda>w.
        if wk_closing (ww_worker w) then w_return ()
        else w_catch (w_backend (be_reconnectBlocking (we_backend E)))
               (\<lambda>e. if isNotConnectionError e then w_emit (WError e) else w_return ()))) (\<lambda>_.
     w_read (\<lambda>w w'. Some (Inr Infinity, if wk_closing (ww_worker w) then w' else we_pause E w'))))"

definition worker_waitForJob :: "'s worker_env \<Rightarrow> jsnum \<Rightarrow> ('s, jsnum) worker_op" where
  "worker_waitForJob E blockUntil =
     w_read (\<lambda>w.
       if wk_paused (ww_worker w) then w_return Infinity
       else if wk_closing (ww_worker w) \<or> isRateLimited (we_now E) (ww_worker w) then w_return Infinity
       else w_catch
         (let blockTimeout = getBlockTimeout (we_now E) (we_minimumBlockTimeout E) (ww_worker w) blockUntil in
          if blockTimeout > 0
          then w_then (w_worker (updateDelays (we_now E) None None)) (\<lambda>_.
               w_then (w_backend (be_waitForJob (we_backend E) blockTimeout)) (\<lambda>result.
                 case result of
                   None \<Rightarrow> w_return (Fin 0)
                 | Some (member, score) \<Rightarrow>
                     (case blockUntil of
                        Fin t \<Rightarrow> w_return (Fin (if t \<noteq> 0 \<and> score > t then t else score))
                      | Infinity \<Rightarrow> w_return (Fin score))))
          else w_return (Fin 0))
         (waitForJob_recover E))"

definition due :: "real \<Rightarrow> jsnum \<Rightarrow> bool" where
  "due now blockUntil = (case blockUntil of Fin t \<Rightarrow> t \<le> 0 \<or> t - now < 1 | Infinity \<Rightarrow> False)"

definition getNextJob :: "'s worker_env \<Rightarrow> string \<Rightarrow> bool \<Rightarrow> ('s, job option) worker_op" where
  "getNextJob E token block =
     w_read (\<lambda>w. let wk = ww_worker w in
       if wk_paused wk then w_return None
       else if wk_closing wk then w_return None
       else if wk_drained wk \<and> block \<and> wk_limitUntil wk = 0 \<and> \<not> wk_waiting wk
       then w_then (w_worker (wk_waiting_update (\<lambda>_. True))) (\<lambda>_.
            w_finally
              (w_then (worker_waitForJob E (wk_blockUntil wk)) (\<lambda>blockUntil.
               w_then (w_worker (wk_blockUntil_update (\<lambda>_. blockUntil))) (\<lambda>_.
                 if due (we_now E) blockUntil then moveToActive E token else w_return None)))
              (\<lambda>w'. w'\<lparr>ww_worker := (ww_worker w')\<lparr>wk_waiting := False\<rparr>\<rparr>))
       else if \<not> isRateLimited (we_now E) wk then moveToActive E token
       else w_return None)"

section \<open>Finishing a run\<close>

definition getUnrecoverableErrorMessage :: "worker \<Rightarrow> job \<Rightarrow> string option" where
  "getUnrecoverableErrorMessage wk job =
     (if truthy_str (j_deferredFailure job) then j_deferredFailure job
      else case wo_maxStartedAttempts (wk_opts wk) of
             Some m \<Rightarrow> (if m \<noteq> 0 \<and> js_less (VNum m) (j_attemptsStarted job)
                       then Some ''job started more than allowable limit'' else None)
           | None \<Rightarrow> None)"

definition may_fetch :: "bool \<Rightarrow> worker \<Rightarrow> bool" where
  "may_fetch fetchNext wk = (fetchNext \<and> \<not> (wk_closing wk \<or> wk_paused wk))"

text \<open>The reply of a finishing script, when it is an array, holds the next job.\<close>

definition continue_with :: "'s worker_env \<Rightarrow> string \<Rightarrow> next_job option \<Rightarrow> ('s, job option) worker_op" where
  "continue_with E token reply =
     (case reply of
        None \<Rightarrow> w_return None
      | Some nj \<Rightarrow>
          w_then (w_worker (updateDelays (we_now E) (nj_rateLimitDelay nj) (nj_delayUntil nj))) (\<lambda>_.
            nextJobFromJobData E (nj_data nj) (nj_id nj) token))"

definition handleCompleted ::
  "'s worker_env \<Rightarrow> jsval \<Rightarrow> string \<Rightarrow> bool \<Rightarrow> ('s, job option) worker_op" where
  "handleCompleted E result token fetchNext =
     w_read (\<lambda>w.
       if ww_backendClosing w then w_return None
       else w_then (w_job (moveToCompleted (we_lib E) (we_now E) (we_backend E) (we_queue E) result token
                      (may_fetch fetchNext (ww_worker w)))) (\<lambda>completed.
            w_then (w_read (\<lambda>w'. w_emit (WCompleted (ww_job w') result))) (\<lambda>_.
              continue_with E token completed)))"

definition moveLimitedBackToWait :: "'s worker_env \<Rightarrow> string \<Rightarrow> ('s, real) worker_op" where
  "moveLimitedBackToWait E token = w_job (moveToWait (we_now E) (we_backend E) (we_queue E) (Some token))"

definition parks_job :: "js_error \<Rightarrow> bool" where
  "parks_job err \<longleftrightarrow>
     err_class err = DelayedError \<or> err_name err = ''DelayedError''
     \<or> err_class err = WaitingError \<or> err_name err = ''WaitingError''
     \<or> err_class err = WaitingChildrenError \<or> err_name err = ''WaitingChildrenError''"

definition handleFailed ::
  "'s worker_env \<Rightarrow> js_error \<Rightarrow> string \<Rightarrow> bool \<Rightarrow> ('s, job option) worker_op" where
  "handleFailed E err token fetchNextCallback =
     w_read (\<lambda>w.
       if ww_backendClosing w then w_return None
       else if err_message err = RATE_LIMIT_ERROR
       then w_then (moveLimitedBackToWait E token) (\<lambda>rateLimitTtl.
            w_then (w_worker (wk_limitUntil_update
                      (\<lambda>_. if rateLimitTtl > 0 then we_now E + rateLimitTtl else 0))) (\<lambda>_.
              w_return None))
       else let fetchNext = may_fetch fetchNextCallback (ww_worker w)
            in if parks_job err
               then if \<not> fetchNext then w_return None else moveToActive E token
               else w_then (w_job (moveToFailed (we_lib E) (we_random E) (we_stack E) (we_now E) (we_backend E)
                              (we_queue E) (we_dst E) err token fetchNext)) (\<lambda>result.
                    w_then (w_read (\<lambda>w'. w_emit (WFailed (ww_job w') err))) (\<lambda>_.
                      continue_with E token result)))"

definition untrack :: "'s wworld \<Rightarrow> 's wworld" where
  "untrack w =
     w\<lparr>ww_worker := (ww_worker w)\<lparr>wk_locks :=
         lm_untrackJob (with_default '''' (j_id (ww_job w))) (wk_locks (ww_worker w))\<rparr>\<rparr>"

text \<open>The closures handed to retryIfFailed stop the lock renewal first.\<close>

definition untracked :: "('s, 'a) worker_op \<Rightarrow> ('s, 'a) worker_op" where
  "untracked m w = m (untrack w)"

definition runRetryDelay :: "'s wworld \<Rightarrow> real" where
  "runRetryDelay w = wo_runRetryDelay (wk_opts (ww_worker w))"

definition process_body ::
  "'s worker_env \<Rightarrow> string \<Rightarrow> bool \<Rightarrow> nat option \<Rightarrow> ('s, job option) worker_op" where
  "process_body E token fetchNext abort =
     w_read (\<lambda>w.
       case getUnrecoverableErrorMessage (ww_worker w) (ww_job w) of
         Some msg \<Rightarrow>
           retry_flat E (untracked (handleFailed E (new_UnrecoverableError (we_stack E) (Some msg)) token fetchNext))
             (runRetryDelay w) False
       | None \<Rightarrow>
           w_then (we_processFn E (ww_job w) token abort) (\<lambda>result.
             w_read (\<lambda>w'. retry_flat E (untracked (handleCompleted E result token fetchNext)) (runRetryDelay w') False)))"

definition processJob :: "'s worker_env \<Rightarrow> string \<Rightarrow> bool \<Rightarrow> ('s, job option) worker_op" where
  "processJob E token fetchNext w =
     (case lm_trackJob (with_default '''' (j_id (ww_job w))) token (num_of (j_processedOn (ww_job w)))
             (wk_acceptsSignal (ww_worker w)) (wk_locks (ww_worker w)) of
        (abort, lm) \<Rightarrow>
          w_finally
            (w_catch (process_body E token fetchNext abort)
               (\<lambda>err. w_read (\<lambda>w'. retry_flat E (untracked (handleFailed E err token fetchNext)) (runRetryDelay w') True)))
            untrack (w\<lparr>ww_worker := (ww_worker w)\<lparr>wk_locks := lm\<rparr>\<rparr>))"

text \<open>The stalled checker's action.\<close>

definition moveStalledJobsToWait :: "'s worker_env \<Rightarrow> ('s, unit) worker_op" where
  "moveStalledJobsToWait E =
     w_then (w_backend (be_moveStalledJobsToWait (we_backend E))) (\<lambda>stalled w.
       Some (Inr (), w\<lparr>ww_events := ww_events w @ map WStalled stalled\<rparr>))"

section \<open>Lemmas\<close>

lemma retry_loop_Inr: "fn w = Some (Inr a, w') \<Longrightarrow> retry_loop E fn d m oe n w = Some (Inr (Some a), w')"
  by (subst retry_loop.simps) simp

lemma retry_loop_other:
  "fn w = Some (Inl err, w') \<Longrightarrow> isNotConnectionError err \<Longrightarrow>
     retry_loop E fn d m oe n w = Some (if oe then Inr None else Inl err, emit_error err w')"
  by (subst retry_loop.simps) simp

lemma retry_loop_conn:
  "fn w = Some (Inl err, w') \<Longrightarrow> \<not> isNotConnectionError err \<Longrightarrow>
     retry_loop E fn d m oe n w =
       (if last_try m n then Some (Inl err, retry_pause E d w')
        else retry_loop E fn d m oe (Suc n) (retry_pause E d w'))"
  by (subst retry_loop.simps) simp

text \<open>The world after \<open>k\<close> tries that failed with connection errors.\<close>

fun after_outages :: "'s worker_env \<Rightarrow> ('s, 'a) worker_op \<Rightarrow> real \<Rightarrow> nat \<Rightarrow> 's wworld \<Rightarrow> 's wworld option" where
  "after_outages E fn d 0 w = Some w"
| "after_outages E fn d (Suc k) w =
     (case fn w of
        Some (Inl err, w') \<Rightarrow>
          if isNotConnectionError err then None else after_outages E fn d k (retry_pause E d w')
      | _ \<Rightarrow> None)"

lemma retry_loop_outages:
  assumes "after_outages E fn d k w = Some w'" and "\<forall>j < k. \<not> last_try m (n + j)"
  shows "retry_loop E fn d m oe n w = retry_loop E fn d m oe (n + k) w'"
  using assms
proof (induction k arbitrary: w n)
  case (Suc k)
  then obtain err w1 where fn: "fn w = Some (Inl err, w1)" "\<not> isNotConnectionError err"
    "after_outages E fn d k (retry_pause E d w1) = Some w'"
    by (auto split: option.splits sum.splits if_splits)
  from Suc.prems(2) have "\<not> last_try m n" by auto
  moreover have "\<forall>j < k. \<not> last_try m (Suc n + j)" using Suc.prems(2) by (auto dest: spec [of _ "Suc _"])
  ultimately show ?case using Suc.IH [OF fn(3), of "Suc n"] retry_loop_conn [of fn w err w1 E d m oe n] fn(1,2) by simp
qed simp

lemma w_then_run:
  "m w = Some (Inr a, w') \<Longrightarrow> w_then m f w = f a w'"
  "m w = Some (Inl e, w') \<Longrightarrow> w_then m f w = Some (Inl e, w')"
  "m w = None \<Longrightarrow> w_then m f w = None"
  by (simp_all add: w_then_def)

lemmas w_defs = w_return_def w_throw_def w_then_def w_catch_def w_finally_def w_read_def w_worker_def
  w_emit_def w_backend_def w_lift_def w_job_def

text \<open>A loop that only emits errors and has no limit on its tries never rejects.\<close>

lemma retry_loop_never_rejects:
  assumes "retry_loop E fn d None True n w = Some y"
  shows "\<exists>x. fst y = Inr x"
proof -
  have "None = (None :: nat option) \<longrightarrow> True \<longrightarrow> (\<exists>x. fst y = Inr x)"
    by (rule retry_loop.raw_induct
          [where P = "\<lambda>_ _ _ m oe _ _ y. m = None \<longrightarrow> oe \<longrightarrow> (\<exists>x. fst y = Inr x)", OF _ assms])
       (auto simp: last_try_def split: option.splits prod.splits sum.splits if_splits)
  then show ?thesis by simp
qed

lemma retry_flat_never_rejects:
  assumes "retry_flat E fn d True w = Some (r, w')"
  shows "\<exists>x. r = Inr x"
proof -
  from assms obtain y where y: "retryIfFailed E fn d None True w = Some y"
    by (auto simp: retry_flat_def w_then_def split: option.splits)
  from retry_loop_never_rejects [OF y [unfolded retryIfFailed_def]] obtain x where "fst y = Inr x" by auto
  with assms y show ?thesis
    by (cases y) (auto simp: retry_flat_def w_then_def w_return_def split: option.splits)
qed

lemma untrack_gone:
  "map_get (lm_tracked (wk_locks (ww_worker (untrack w)))) (with_default '''' (j_id (ww_job w))) = None"
  by (simp add: untrack_def lm_untrackJob_def)

lemma untrack_job [simp]: "ww_job (untrack w) = ww_job w"
  by (simp add: untrack_def)

section \<open>Claims\<close>

text \<open>
  C25. Worker.retryIfFailed rides out connection outages: if the call fails k times in a row with
  connection errors and then resolves, or fails for another reason, retryIfFailed returns
  after exactly these tries (unless a smaller maxRetries was given) with that result; an
  error that is not a connection error is thrown, or swallowed when only emitting.
\<close>

theorem retryIfFailed_outages:
  assumes "after_outages E fn d k w = Some w'" and "fn w' = Some (out, w'')"
    and "case out of Inl err \<Rightarrow> isNotConnectionError err | Inr _ \<Rightarrow> True"
    and "\<forall>j < k. \<not> last_try maxRetries j"
  shows "retryIfFailed E fn d maxRetries onlyEmit w =
    (case out of
       Inr a \<Rightarrow> Some (Inr (Some a), w'')
     | Inl err \<Rightarrow> Some (if onlyEmit then Inr None else Inl err, emit_error err w''))"
  using retry_loop_outages [OF assms(1), of maxRetries 0 onlyEmit] assms(2-4)
  by (cases out) (simp_all add: retryIfFailed_def retry_loop_Inr retry_loop_other)

definition demo_worker :: worker where
  "demo_worker =
     \<lparr>wk_id = ''w'', wk_opts = \<lparr>wo_name = None, wo_drainDelay = 5, wo_maximumRateLimitDelay = 30000,
        wo_maxStartedAttempts = None, wo_runRetryDelay = 15000, wo_lockDuration = 30000,
        wo_lockRenewTime = 15000, wo_concurrency = 1\<rparr>,
      wk_acceptsSignal = False, wk_closing = False, wk_closed = False, wk_paused = False,
      wk_drained = False, wk_waiting = False, wk_limitUntil = 0, wk_blockUntil = Fin 0,
      wk_locks = lm_new 15000 30000\<rparr>"

definition demo_env :: "'s queue_backend \<Rightarrow> 's worker_env" where
  "demo_env B =
     \<lparr>we_lib = demo_lib, we_stack = None, we_random = 0, we_now = 0, we_dst = None,
      we_backend = B, we_queue = demo_queue, we_repeatStrategy = (\<lambda>_ _ _. Inr None),
      we_minimumBlockTimeout = 1, we_processFn = (\<lambda>_ _ _ w. Some (Inr VNull, w)), we_pause = (\<lambda>w. w)\<rparr>"

definition demo_wworld :: "string list \<Rightarrow> string list wworld" where
  "demo_wworld s =
     \<lparr>ww_worker = demo_worker, ww_job = new_Job 0 (Some ''a'') VNull [] (Some ''7''), ww_be = s,
      ww_backendClosing = False, ww_events = []\<rparr>"

text \<open>A datastore that is down for two calls.\<close>

definition flaky_call :: "(string list, string) worker_op" where
  "flaky_call w =
     (if length (ww_be w) < 2
      then Some (Inl (new_ConnectionClosedError None None), w\<lparr>ww_be := ww_be w @ [''down'']\<rparr>)
      else Some (Inr ''ok'', w))"

theorem retryIfFailed_outages_witness:
  "retryIfFailed (demo_env log_backend) flaky_call 100 None False (demo_wworld [])
     = Some (Inr (Some ''ok''), demo_wworld [''down'', ''down''])"
proof -
  let ?E = "demo_env log_backend"
  have "after_outages ?E flaky_call 100 2 (demo_wworld []) = Some (demo_wworld [''down'', ''down''])"
    by (simp add: flaky_call_def isNotConnectionError_def new_ConnectionClosedError_def new_err_def
        retry_pause_def demo_env_def demo_worker_def demo_wworld_def eval_nat_numeral)
  moreover have "flaky_call (demo_wworld [''down'', ''down'']) = Some (Inr ''ok'', demo_wworld [''down'', ''down''])"
    by (simp add: flaky_call_def demo_wworld_def)
  ultimately show ?thesis
    using retryIfFailed_outages [of ?E flaky_call 100 2 "demo_wworld []" "demo_wworld [''down'', ''down'']" "Inr ''ok''"
        "demo_wworld [''down'', ''down'']" None False]
    by (simp add: last_try_def)
qed

text \<open>
  C12. Worker.processJob never rejects and always releases the lock bookkeeping: whatever the
  processor and the backend do, if it returns it resolves (its promise goes to the queue of
  the main loop, where a rejection would be lost) and the lock manager no longer tracks the
  job.
\<close>

theorem processJob_resolves:
  assumes "processJob E token fetchNext w = Some (r, w')"
  shows "(\<exists>next. r = Inr next)
       \<and> map_get (lm_tracked (wk_locks (ww_worker w'))) (with_default '''' (j_id (ww_job w'))) = None"
proof -
  obtain abort lm where track: "lm_trackJob (with_default '''' (j_id (ww_job w))) token
      (num_of (j_processedOn (ww_job w))) (wk_acceptsSignal (ww_worker w)) (wk_locks (ww_worker w)) = (abort, lm)"
    by force
  from assms obtain w1 where
    run: "w_catch (process_body E token fetchNext abort)
       (\<lambda>err. w_read (\<lambda>w'. retry_flat E (untracked (handleFailed E err token fetchNext)) (runRetryDelay w') True))
       (w\<lparr>ww_worker := (ww_worker w)\<lparr>wk_locks := lm\<rparr>\<rparr>) = Some (r, w1)"
    and w': "w' = untrack w1"
    by (auto simp: processJob_def track w_finally_def split: prod.splits option.splits)
  have "\<exists>next. r = Inr next"
    using run by (auto simp: w_catch_def w_read_def split: option.splits prod.splits sum.splits
        dest: retry_flat_never_rejects)
  then show ?thesis unfolding w' using untrack_gone [of w1] by simp
qed

lemma demo_env_fields:
  "we_lib (demo_env B) = demo_lib" "we_now (demo_env B) = 0" "we_backend (demo_env B) = B"
  "we_queue (demo_env B) = demo_queue" "we_processFn (demo_env B) = (\<lambda>_ _ _ w. Some (Inr VNull, w))"
  by (simp_all add: demo_env_def)

lemma demo_wworld_fields:
  "ww_worker (demo_wworld s) = demo_worker" "ww_job (demo_wworld s) = new_Job 0 (Some ''a'') VNull [] (Some ''7'')"
  "wk_locks demo_worker = lm_new 15000 30000" "wk_acceptsSignal demo_worker = False"
  "wo_maxStartedAttempts (wk_opts demo_worker) = None"
  by (simp_all add: demo_wworld_def demo_worker_def)

lemma demo_moveToCompleted:
  "moveToCompleted demo_lib now log_backend Q rv token f \<lparr>jw_job = job, jw_be = s, jw_out = out\<rparr> =
     (Inr None, \<lparr>jw_job = job\<lparr>j_returnvalue := logical_or rv VUndef, j_finishedOn := VNum 1,
                              j_attemptsMade := js_plus (j_attemptsMade job) 1\<rparr>,
        jw_be = s @ [''waitUntilReady'', ''moveToCompleted''],
        jw_out = out @ job_metrics now Q ''completed'' (job\<lparr>j_returnvalue := logical_or rv VUndef,
          j_finishedOn := VNum 1, j_attemptsMade := js_plus (j_attemptsMade job) 1\<rparr>)\<rparr>)"
  by (simp add: moveToCompleted_def run_simps run_backend log_backend_ops logged_def)
     (simp add: demo_lib_def lift_result_def andThen_def reading_def backend_def update_job_def
        recordJobMetrics_def emit_out_def returning_def log_backend_ops logged_def job_metrics_def)

lemma demo_handleCompleted:
  assumes "\<not> ww_backendClosing w"
  shows "\<exists>w'. handleCompleted (demo_env log_backend) rv token f w = Some (Inr None, w')
           \<and> ww_be w' = ww_be w @ [''waitUntilReady'', ''moveToCompleted''] \<and> j_id (ww_job w') = j_id (ww_job w)"
  using assms
  by (simp add: handleCompleted_def demo_env_fields w_defs demo_moveToCompleted continue_with_def)

lemma retry_flat_Inr:
  "fn w = Some (Inr a, w') \<Longrightarrow> retry_flat E fn d oe w = Some (Inr a, w')"
  by (simp add: retry_flat_def retryIfFailed_def retry_loop.simps w_defs)

lemma untrack_frame [simp]:
  "ww_backendClosing (untrack w) = ww_backendClosing w" "ww_be (untrack w) = ww_be w"
  by (simp_all add: untrack_def)

theorem processJob_resolves_witness:
  "\<exists>w'. processJob (demo_env log_backend) ''t'' True (demo_wworld []) = Some (Inr None, w')
        \<and> map_get (lm_tracked (wk_locks (ww_worker w'))) ''7'' = None"
proof -
  let ?E = "demo_env log_backend"
  obtain abort lm where lm: "lm_trackJob ''7'' ''t'' None False (lm_new 15000 30000) = (abort, lm)" by force
  let ?w = "(demo_wworld [])\<lparr>ww_worker := demo_worker\<lparr>wk_locks := lm\<rparr>\<rparr>"
  obtain w1 where "handleCompleted ?E VNull ''t'' True (untrack ?w) = Some (Inr None, w1)"
    and id: "j_id (ww_job w1) = Some ''7''"
    using demo_handleCompleted [of "untrack ?w" VNull "''t''" True] by (auto simp: demo_wworld_def)
  then have "retry_flat ?E (untracked (handleCompleted ?E VNull ''t'' True)) (runRetryDelay ?w) False ?w = Some (Inr None, w1)"
    by (intro retry_flat_Inr) (simp add: untracked_def)
  then have "process_body ?E ''t'' True abort ?w = Some (Inr None, w1)"
    by (simp add: process_body_def demo_env_fields demo_wworld_fields w_defs getUnrecoverableErrorMessage_def)
  then have p: "processJob ?E ''t'' True (demo_wworld []) = Some (Inr None, untrack w1)"
    using lm by (simp add: processJob_def w_finally_def w_catch_def demo_wworld_fields with_default_def)
  with processJob_resolves [OF p] id show ?thesis by (simp add: with_default_def)
qed

text \<open>
  How long a worker blocks: with a minimum block timeout between 0 and 10 seconds, a blocking
  wait lasts at least that minimum and at most 10 seconds (or \<open>drainDelay\<close> on a queue with
  no delayed job), it does not outlast the next delayed job unless the minimum forces it
  to, and no wait takes place exactly when that job is due already.
\<close>

theorem getBlockTimeout_bounds:
  assumes "0 < m" and "m \<le> 10" and "0 < wo_drainDelay (wk_opts wk)"
    and "t = getBlockTimeout now m wk blockUntil"
  shows "(t \<le> 0 \<longleftrightarrow> (\<exists>u. blockUntil = Fin u \<and> u \<noteq> 0 \<and> u \<le> now))
       \<and> (0 < t \<longrightarrow> m \<le> t \<and> t \<le> max 10 (wo_drainDelay (wk_opts wk))
            \<and> (\<forall>u. blockUntil = Fin u \<and> u \<noteq> 0 \<longrightarrow> t \<le> 10 \<and> t * 1000 \<le> max (u - now) (m * 1000)))"
proof (cases blockUntil)
  case (Fin u)
  show ?thesis
  proof (cases "u = 0")
    case True
    with Fin assms show ?thesis by (auto simp: getBlockTimeout_def max_def)
  next
    case False
    with Fin assms show ?thesis
      by (auto simp: getBlockTimeout_def Let_def maximumBlockTimeout_def min_def max_def not_less
          split: if_splits)
  qed
next
  case Infinity
  with assms show ?thesis by (auto simp: getBlockTimeout_def maximumBlockTimeout_def)
qed

theorem getBlockTimeout_bounds_witness:
  "let t = getBlockTimeout 1000 1 demo_worker (Fin 5000) in t = 4 \<and> 1 \<le> t \<and> t \<le> max 10 5"
proof -
  have d: "wo_drainDelay (wk_opts demo_worker) = 5" by (simp add: demo_worker_def)
  have "getBlockTimeout 1000 1 demo_worker (Fin 5000) = 4"
    by (simp add: getBlockTimeout_def Let_def maximumBlockTimeout_def)
  with getBlockTimeout_bounds [of 1 demo_worker "getBlockTimeout 1000 1 demo_worker (Fin 5000)" 1000 "Fin 5000"] d
  show ?thesis by (simp add: Let_def)
qed

text \<open>
  A rejected schedule does not run: when the next iteration of a repeated job cannot be scheduled
  (for a reason that is not a connection error), nextJobFromJobData reports the error and
  resolves to nothing, although the job it was given has already been moved to the active
  list; no \<open>active\<close> event is emitted for it.
\<close>

theorem scheduling_failure_drops_job:
  assumes "fromJSON (we_lib E) (we_now E) json jobId = Inr job0"
    and "schedule_repeat E (job0\<lparr>j_token := Some token\<rparr>)
           (w\<lparr>ww_worker := (ww_worker w)\<lparr>wk_drained := False\<rparr>\<rparr>) = Some (Inl err, w1)"
    and "isNotConnectionError err"
  shows "\<exists>w'. nextJobFromJobData E (Some json) jobId token w = Some (Inr None, w')
           \<and> ww_events w' = ww_events (emit_error err w1) @ [WError (scheduling_error E (err_message err))]"
proof -
  let ?w = "w\<lparr>ww_worker := (ww_worker w)\<lparr>wk_drained := False\<rparr>\<rparr>"
  have "retryIfFailed E (schedule_repeat E (job0\<lparr>j_token := Some token\<rparr>))
      (wo_runRetryDelay (wk_opts (ww_worker ?w))) None False ?w = Some (Inl err, emit_error err w1)"
    using retry_loop_other [of "schedule_repeat E (job0\<lparr>j_token := Some token\<rparr>)" ?w err w1] assms(2,3)
    by (simp add: retryIfFailed_def)
  with assms(1) show ?thesis by (simp add: nextJobFromJobData_def w_defs Let_def)
qed

definition demo_json :: job_json where
  "demo_json =
     \<lparr>jj_id = Some ''7'', jj_name = Some ''a'', jj_data = ''{}'', jj_opts = [], jj_progress = VNum 0,
      jj_delay = VNum 0, jj_priority = VNum 0, jj_timestamp = VNum 1, jj_attemptsStarted = VNum 1,
      jj_attemptsMade = VNum 0, jj_stalledCounter = VNum 0, jj_finishedOn = VUndef, jj_processedOn = VNum 5,
      jj_repeatJobKey = Some ''nightly'', jj_deduplicationId = None, jj_failedReason = None,
      jj_deferredFailure = None, jj_stacktrace = None, jj_returnvalue = None, jj_parentKey = None,
      jj_parent = VUndef, jj_processedBy = None\<rparr>"

theorem scheduling_failure_drops_job_witness:
  "\<exists>w'. nextJobFromJobData (demo_env log_backend) (Some demo_json) (Some ''7'') ''t'' (demo_wworld []) = Some (Inr None, w')
     \<and> length (ww_events w') = 2"
proof -
  let ?E = "demo_env log_backend"
  obtain job0 where job0: "fromJSON (we_lib ?E) (we_now ?E) demo_json (Some ''7'') = Inr job0"
    and j: "j_repeatJobKey job0 = Some ''nightly''" "oprop (j_opts job0) ''repeat'' = VUndef"
    by (simp add: fromJSON_def demo_env_fields demo_json_def demo_lib_def or_else_def new_Job_opts Let_def)
  let ?w = "(demo_wworld [])\<lparr>ww_worker := (ww_worker (demo_wworld []))\<lparr>wk_drained := False\<rparr>\<rparr>"
  have legacy: "\<not> hasLegacyRepeatableKeyShape ''nightly''"
    by (simp add: hasLegacyRepeatableKeyShape_def)
  have "schedule_repeat ?E (job0\<lparr>j_token := Some ''t''\<rparr>) ?w
      = Some (Inl (new_err TypeErrorClass None ''repeatOpts is undefined''), ?w)"
    using j legacy by (simp add: schedule_repeat_def w_defs with_default_def) (simp add: demo_env_def)
  from scheduling_failure_drops_job [OF job0 this] show ?thesis
    by (auto simp: isNotConnectionError_def new_err_def CONNECTION_CLOSED_ERROR_MSG_def emit_error_def
        demo_wworld_def demo_worker_def)
qed

end
