(* ===== verification/Worker_Loop.thy ===== *)
theory Worker_Loop
  imports Async_Fifo_Queue
begin

text \<open>
  Worker.mainLoop of src/classes/worker.ts: how a worker keeps up to \<open>concurrency\<close> jobs in
  flight. The loop is a state machine over the model of its AsyncFifoQueue. Its program
  counter names the points between which the source runs without yielding; at every point
  the environment may interleave: a pending promise settles, the worker is closed, paused
  or resumed, its \<open>waiting\<close> promise, its rate limit, \<open>blockUntil\<close> or the concurrency
  change. The source yields only at \<open>await\<close>, so the machine has all of its behaviours.

  Two kinds of promises are added to the queue: fetches (\<open>retryIfFailed(() => _getNextJob(token))\<close>)
  and runs of a job (\<open>processJob(job, token)\<close>). Both resolve to nothing or to a job that
  carries the token of the promise (nextJobFromJobData stores it on the job).
  \<open>ml_peakConcurrency\<close>, the largest concurrency set so far, is ghost state.
\<close>

section \<open>State\<close>

record loop_job =
  lj_id :: string
  lj_token :: string

datatype loop_promise = FetchNext string | ProcessJob loop_job

fun promise_token :: "loop_promise \<Rightarrow> string" where
  "promise_token (FetchNext token) = token"
| "promise_token (ProcessJob job) = lj_token job"

datatype loop_pc =
    OuterTest
  | InnerTest
  | AwaitFetched nat
  | FetchJob
  | FetchWait nat
  | GotJob "loop_job option"
  | RateLimitWait
  | LoopDone

record main_loop =
  ml_pc :: loop_pc
  ml_queue :: "(nat, loop_job) afq"
  ml_promises :: "nat \<Rightarrow> loop_promise option"
  ml_results :: "nat \<Rightarrow> loop_job option option"
  ml_fresh :: nat
  ml_tokenPostfix :: nat
  ml_workerId :: string
  ml_concurrency :: real
  ml_peakConcurrency :: real
  ml_closing :: bool
  ml_paused :: bool
  ml_waiting :: bool
  ml_rateLimited :: bool
  ml_blockUntil :: bool

definition loop_start :: "string \<Rightarrow> real \<Rightarrow> main_loop" where
  "loop_start wid c =
     \<lparr>ml_pc = OuterTest, ml_queue = afq_new False, ml_promises = Map.empty, ml_results = Map.empty,
      ml_fresh = 0, ml_tokenPostfix = 0, ml_workerId = wid, ml_concurrency = c,
      ml_peakConcurrency = c, ml_closing = False, ml_paused = False, ml_waiting = False, ml_rateLimited = False,
      ml_blockUntil = False\<rparr>"

definition loop_token :: "string \<Rightarrow> nat \<Rightarrow> string" where
  "loop_token wid n = wid @ '':'' @ string_of_nat n"

section \<open>Steps of the loop\<close>

text \<open>\<open>asyncFifoQueue.add(promise)\<close> with a new promise.\<close>

definition add_promise :: "loop_promise \<Rightarrow> main_loop \<Rightarrow> main_loop" where
  "add_promise p s =
     s\<lparr>ml_queue := afq_add (ml_fresh s) (ml_queue s),
       ml_promises := (ml_promises s)(ml_fresh s \<mapsto> p), ml_fresh := Suc (ml_fresh s)\<rparr>"

definition outer_condition :: "main_loop \<Rightarrow> bool" where
  "outer_condition s \<longleftrightarrow> (\<not> ml_closing s \<and> \<not> ml_paused s) \<or> afq_numTotal (ml_queue s) > 0"

definition inner_condition :: "main_loop \<Rightarrow> bool" where
  "inner_condition s \<longleftrightarrow>
     \<not> ml_closing s \<and> \<not> ml_paused s \<and> \<not> ml_waiting s
     \<and> real (afq_numTotal (ml_queue s)) < ml_concurrency s \<and> \<not> ml_rateLimited s"

text \<open>The body of the inner loop up to \<open>await fetchedJob\<close>. Calling \<open>_getNextJob\<close> may start
  to wait for a job at once; \<open>starts\<close> says whether it does.\<close>

definition start_fetch :: "bool \<Rightarrow> main_loop \<Rightarrow> main_loop" where
  "start_fetch starts s =
     (let token = loop_token (ml_workerId s) (ml_tokenPostfix s);
          p = ml_fresh s;
          s1 = add_promise (FetchNext token)
                 (s\<lparr>ml_tokenPostfix := Suc (ml_tokenPostfix s), ml_waiting := starts\<rparr>)
      in if ml_waiting s1 \<and> afq_numTotal (ml_queue s1) > 1
         then s1\<lparr>ml_pc := FetchJob\<rparr> else s1\<lparr>ml_pc := AwaitFetched p\<rparr>)"

definition after_fetched :: "loop_job option \<Rightarrow> main_loop \<Rightarrow> main_loop" where
  "after_fetched job s =
     (if job = None \<and> afq_numTotal (ml_queue s) > 1 then s\<lparr>ml_pc := FetchJob\<rparr>
      else if ml_blockUntil s then s\<lparr>ml_pc := FetchJob\<rparr>
      else s\<lparr>ml_pc := InnerTest\<rparr>)"

fun store_fetch :: "loop_job option fetching \<times> (nat, loop_job) afq \<Rightarrow> main_loop \<Rightarrow> main_loop" where
  "store_fetch (Waiting k, q) s = s\<lparr>ml_queue := q, ml_pc := FetchWait k\<rparr>"
| "store_fetch (Delivered job, q) s = s\<lparr>ml_queue := q, ml_pc := GotJob job\<rparr>"
| "store_fetch (NothingTracked, q) s = s\<lparr>ml_queue := q, ml_pc := GotJob None\<rparr>"

text \<open>What follows \<open>job = await asyncFifoQueue.fetch()\<close>.\<close>

definition after_fetch :: "loop_job option \<Rightarrow> main_loop \<Rightarrow> main_loop" where
  "after_fetch job s =
     (case job of
        None \<Rightarrow>
          (if afq_numQueued (ml_queue s) > 0 then s\<lparr>ml_pc := FetchJob\<rparr>
           else if ml_rateLimited s then s\<lparr>ml_pc := RateLimitWait\<rparr>
           else s\<lparr>ml_pc := OuterTest\<rparr>)
      | Some j \<Rightarrow> (add_promise (ProcessJob j) s)\<lparr>ml_pc := OuterTest\<rparr>)"

text \<open>One step of the loop; \<open>None\<close> when it has to wait (or has ended).\<close>

definition loop_step :: "bool \<Rightarrow> main_loop \<Rightarrow> main_loop option" where
  "loop_step starts s =
     (case ml_pc s of
        OuterTest \<Rightarrow> Some (s\<lparr>ml_pc := (if outer_condition s then InnerTest else LoopDone)\<rparr>)
      | InnerTest \<Rightarrow> Some (if inner_condition s then start_fetch starts s else s\<lparr>ml_pc := FetchJob\<rparr>)
      | AwaitFetched p \<Rightarrow> map_option (\<lambda>job. after_fetched job s) (ml_results s p)
      | FetchJob \<Rightarrow> map_option (\<lambda>r. store_fetch r s) (afq_fetch (ml_queue s))
      | FetchWait k \<Rightarrow>
          (if k < afq_promise (ml_queue s)
           then map_option (\<lambda>r. store_fetch r s) (afq_fetch_resume k (ml_queue s)) else None)
      | GotJob job \<Rightarrow> Some (after_fetch job s)
      | RateLimitWait \<Rightarrow> Some (s\<lparr>ml_rateLimited := False, ml_pc := OuterTest\<rparr>)
      | LoopDone \<Rightarrow> None)"

section \<open>Steps of the environment\<close>

datatype env_step =
    Settle nat "string option"
  | CloseWorker
  | SetPaused bool
  | SetWaiting bool
  | SetRateLimited bool
  | SetBlockUntil bool
  | SetConcurrency real

text \<open>A promise settles with nothing or with a job id; the job gets the promise's token.\<close>

definition settle_promise :: "nat \<Rightarrow> string option \<Rightarrow> main_loop \<Rightarrow> main_loop option" where
  "settle_promise p jid s =
     (if p \<in> set (afq_pending (ml_queue s))
      then case ml_promises s p of
             None \<Rightarrow> None
           | Some pr \<Rightarrow>
               (let job = map_option (\<lambda>i. \<lparr>lj_id = i, lj_token = promise_token pr\<rparr>) jid
                in map_option (\<lambda>q. s\<lparr>ml_queue := q, ml_results := (ml_results s)(p \<mapsto> job)\<rparr>)
                     (afq_onResolve p job (ml_queue s)))
      else None)"

fun env_exec :: "env_step \<Rightarrow> main_loop \<Rightarrow> main_loop option" where
  "env_exec (Settle p jid) s = settle_promise p jid s"
| "env_exec CloseWorker s = Some (s\<lparr>ml_closing := True\<rparr>)"
| "env_exec (SetPaused b) s = Some (s\<lparr>ml_paused := b\<rparr>)"
| "env_exec (SetWaiting b) s = Some (s\<lparr>ml_waiting := b\<rparr>)"
| "env_exec (SetRateLimited b) s = Some (s\<lparr>ml_rateLimited := b\<rparr>)"
| "env_exec (SetBlockUntil b) s = Some (s\<lparr>ml_blockUntil := b\<rparr>)"
| "env_exec (SetConcurrency c) s =
     (if c < 1 then None
      else Some (s\<lparr>ml_concurrency := c, ml_peakConcurrency := max c (ml_peakConcurrency s)\<rparr>))"

datatype loop_event = Loop bool | Env env_step

fun loop_exec :: "loop_event \<Rightarrow> main_loop \<Rightarrow> main_loop option" where
  "loop_exec (Loop starts) s = loop_step starts s"
| "loop_exec (Env e) s = env_exec e s"

fun loop_run :: "loop_event list \<Rightarrow> main_loop \<Rightarrow> main_loop option" where
  "loop_run [] s = Some s"
| "loop_run (e # es) s = (case loop_exec e s of None \<Rightarrow> None | Some t \<Rightarrow> loop_run es t)"

definition loop_trans :: "main_loop \<Rightarrow> main_loop \<Rightarrow> bool" where
  "loop_trans s t \<longleftrightarrow> (\<exists>e. loop_exec e s = Some t)"

section \<open>Invariant\<close>

abbreviation pending :: "main_loop \<Rightarrow> nat list" where
  "pending s \<equiv> afq_pending (ml_queue s)"

abbreviation queued :: "main_loop \<Rightarrow> loop_job option list" where
  "queued s \<equiv> ll_contents (afq_queue (ml_queue s))"

fun held_job :: "loop_pc \<Rightarrow> loop_job list" where
  "held_job (GotJob (Some job)) = [job]"
| "held_job _ = []"

definition jobs_of :: "loop_job option list \<Rightarrow> loop_job list" where
  "jobs_of xs = concat (map (\<lambda>x. case x of None \<Rightarrow> [] | Some j \<Rightarrow> [j]) xs)"

definition pending_tokens :: "main_loop \<Rightarrow> string list" where
  "pending_tokens s = map (\<lambda>p. promise_token (the (ml_promises s p))) (pending s)"

text \<open>The lock tokens in use: of promises still pending, of jobs waiting in the queue and of
  the job the loop has just taken out.\<close>

definition live_tokens :: "main_loop \<Rightarrow> string list" where
  "live_tokens s = pending_tokens s @ map lj_token (jobs_of (queued s)) @ map lj_token (held_job (ml_pc s))"

definition promises_inv :: "main_loop \<Rightarrow> bool" where
  "promises_inv s \<longleftrightarrow>
     ll_inv (afq_queue (ml_queue s)) \<and> distinct (pending s) \<and> (\<forall>p \<in> set (pending s). p < ml_fresh s)
     \<and> (\<forall>p < ml_fresh s. ml_promises s p \<noteq> None \<and> (p \<in> set (pending s) \<or> ml_results s p \<noteq> None))"

definition bound_inv :: "main_loop \<Rightarrow> bool" where
  "bound_inv s \<longleftrightarrow>
     real (afq_numTotal (ml_queue s) + length (held_job (ml_pc s))) < ml_peakConcurrency s + 1
     \<and> ml_concurrency s \<le> ml_peakConcurrency s"

definition tokens_inv :: "main_loop \<Rightarrow> bool" where
  "tokens_inv s \<longleftrightarrow>
     distinct (live_tokens s)
     \<and> (\<forall>t \<in> set (live_tokens s). \<exists>n < ml_tokenPostfix s. t = loop_token (ml_workerId s) n)"

definition pc_inv :: "main_loop \<Rightarrow> bool" where
  "pc_inv s \<longleftrightarrow>
     (case ml_pc s of
        AwaitFetched p \<Rightarrow> p < ml_fresh s
      | FetchWait k \<Rightarrow> k \<le> afq_promise (ml_queue s) \<and> (queued s \<noteq> [] \<longrightarrow> k < afq_promise (ml_queue s)) \<and> (pending s \<noteq> [] \<or> queued s \<noteq> [])
      | LoopDone \<Rightarrow> pending s = [] \<and> queued s = []
      | _ \<Rightarrow> True)"

definition loop_inv :: "main_loop \<Rightarrow> bool" where
  "loop_inv s \<longleftrightarrow> promises_inv s \<and> bound_inv s \<and> tokens_inv s \<and> pc_inv s"

lemma jobs_of_simps [simp]:
  "jobs_of [] = []" "jobs_of (None # xs) = jobs_of xs" "jobs_of (Some j # xs) = j # jobs_of xs"
  "jobs_of (xs @ ys) = jobs_of xs @ jobs_of ys"
  by (simp_all add: jobs_of_def)

lemma loop_token_inj [simp]: "loop_token wid m = loop_token wid n \<longleftrightarrow> m = n"
  by (simp add: loop_token_def)

lemma numTotal_promises_inv:
  "promises_inv s \<Longrightarrow> afq_numTotal (ml_queue s) = length (pending s) + length (queued s)"
  by (simp add: promises_inv_def afq_numTotal_eq)

lemma ll_length_new: "ll_length ll_new = 0"
  by (simp add: ll_new_def)

lemma loop_start_inv: "1 \<le> c \<Longrightarrow> loop_inv (loop_start wid c)"
  by (simp add: loop_inv_def promises_inv_def bound_inv_def tokens_inv_def pc_inv_def loop_start_def
      afq_new_def afq_numTotal_def live_tokens_def pending_tokens_def ll.new_inv ll.new_contents ll_length_new)

text \<open>Adding a promise.\<close>

lemma add_promise_fields [simp]:
  "ml_pc (add_promise p s) = ml_pc s" "ml_workerId (add_promise p s) = ml_workerId s"
  "ml_tokenPostfix (add_promise p s) = ml_tokenPostfix s" "ml_waiting (add_promise p s) = ml_waiting s"
  "ml_concurrency (add_promise p s) = ml_concurrency s"
  "ml_peakConcurrency (add_promise p s) = ml_peakConcurrency s"
  "ml_fresh (add_promise p s) = Suc (ml_fresh s)" "queued (add_promise p s) = queued s"
  by (simp_all add: add_promise_def afq_add_def)

lemma add_promise_pending:
  "promises_inv s \<Longrightarrow> pending (add_promise p s) = pending s @ [ml_fresh s]"
  by (auto simp: add_promise_def afq_add_def promises_inv_def)

lemma add_promise_inv: "promises_inv s \<Longrightarrow> promises_inv (add_promise p s)"
  by (auto simp: promises_inv_def add_promise_def afq_add_def less_Suc_eq)

lemma add_promise_numTotal:
  "promises_inv s \<Longrightarrow> afq_numTotal (ml_queue (add_promise p s)) = Suc (afq_numTotal (ml_queue s))"
  by (simp add: numTotal_promises_inv [OF add_promise_inv] numTotal_promises_inv add_promise_pending)

lemma add_promise_tokens:
  assumes "promises_inv s"
  shows "pending_tokens (add_promise p s) = pending_tokens s @ [promise_token p]"
proof -
  from assms have "\<forall>q \<in> set (pending s). q \<noteq> ml_fresh s" by (auto simp: promises_inv_def)
  then show ?thesis
    by (simp add: pending_tokens_def add_promise_pending [OF assms]) (simp add: add_promise_def)
qed

text \<open>Changing only the program counter or a flag.\<close>

lemma promises_inv_cong:
  "ml_queue s = ml_queue t \<Longrightarrow> ml_fresh s = ml_fresh t \<Longrightarrow> ml_promises s = ml_promises t \<Longrightarrow>
     ml_results s = ml_results t \<Longrightarrow> promises_inv s = promises_inv t"
  by (simp add: promises_inv_def)

lemma live_tokens_cong:
  "ml_queue s = ml_queue t \<Longrightarrow> ml_promises s = ml_promises t \<Longrightarrow> held_job (ml_pc s) = held_job (ml_pc t) \<Longrightarrow>
     live_tokens s = live_tokens t"
  by (simp add: live_tokens_def pending_tokens_def)

lemma goto_inv:
  assumes "loop_inv s" and "held_job (ml_pc s) = []" and "held_job pc = []"
    and "pc_inv (s\<lparr>ml_pc := pc\<rparr>)"
  shows "loop_inv (s\<lparr>ml_pc := pc\<rparr>)"
proof -
  have "live_tokens (s\<lparr>ml_pc := pc\<rparr>) = live_tokens s" by (rule live_tokens_cong) (simp_all add: assms)
  moreover have "promises_inv (s\<lparr>ml_pc := pc\<rparr>) = promises_inv s" by (rule promises_inv_cong) simp_all
  ultimately show ?thesis using assms by (simp add: loop_inv_def bound_inv_def tokens_inv_def)
qed

lemma flag_inv:
  assumes "loop_inv s"
  shows "loop_inv (s\<lparr>ml_closing := b\<rparr>)" "loop_inv (s\<lparr>ml_paused := b\<rparr>)" "loop_inv (s\<lparr>ml_waiting := b\<rparr>)"
    "loop_inv (s\<lparr>ml_rateLimited := b\<rparr>)" "loop_inv (s\<lparr>ml_blockUntil := b\<rparr>)"
  using assms by (simp_all add: loop_inv_def bound_inv_def tokens_inv_def pc_inv_def promises_inv_def
      live_tokens_def pending_tokens_def split: loop_pc.splits)

text \<open>The steps one by one.\<close>

lemma start_fetch_inv:
  assumes inv: "loop_inv s" and pc: "ml_pc s = InnerTest" and c: "inner_condition s"
  shows "loop_inv (start_fetch starts s)"
proof -
  let ?token = "loop_token (ml_workerId s) (ml_tokenPostfix s)"
  let ?s0 = "s\<lparr>ml_tokenPostfix := Suc (ml_tokenPostfix s), ml_waiting := starts\<rparr>"
  let ?s1 = "add_promise (FetchNext ?token) ?s0"
  have p0: "promises_inv ?s0" using inv by (simp add: loop_inv_def promises_inv_def)
  have same: "live_tokens ?s0 = live_tokens s" by (rule live_tokens_cong) simp_all
  have fetch: "loop_inv (?s1\<lparr>ml_pc := pc\<rparr>)" if "held_job pc = []" "pc = FetchJob \<or> pc = AwaitFetched (ml_fresh s)" for pc
  proof -
    let ?t = "?s1\<lparr>ml_pc := pc\<rparr>"
    have "promises_inv ?t" using add_promise_inv [OF p0] by (simp add: promises_inv_def)
    moreover have "bound_inv ?t"
      using inv c that add_promise_numTotal [OF p0, of "FetchNext ?token"]
      by (auto simp: loop_inv_def bound_inv_def inner_condition_def)
    moreover have "set (live_tokens ?t) = insert ?token (set (live_tokens s)) \<and> (distinct (live_tokens s) \<and> ?token \<notin> set (live_tokens s) \<longrightarrow> distinct (live_tokens ?t))"
    proof -
      have "live_tokens ?t = pending_tokens s @ [?token] @ map lj_token (jobs_of (queued s))"
        using add_promise_tokens [OF p0, of "FetchNext ?token"] that(1)
        by (simp add: live_tokens_def) (simp add: pending_tokens_def)
      moreover have "live_tokens s = pending_tokens s @ map lj_token (jobs_of (queued s))"
        using pc by (simp add: live_tokens_def)
      ultimately show ?thesis by auto
    qed
    then have "tokens_inv ?t"
      using inv by (auto simp: loop_inv_def tokens_inv_def less_Suc_eq)
    moreover have "pc_inv ?t" using that(2) by (auto simp: pc_inv_def)
    ultimately show ?thesis by (simp add: loop_inv_def)
  qed
  from fetch [of FetchJob] fetch [of "AwaitFetched (ml_fresh s)"] show ?thesis
    by (auto simp: start_fetch_def Let_def)
qed

lemma fetch_delivers_inv:
  assumes inv: "loop_inv s" and held: "held_job (ml_pc s) = []"
    and q: "afq_pending q = pending s" "afq_promise q = afq_promise (ml_queue s)" "ll_inv (afq_queue q)"
      "queued s = v # ll_contents (afq_queue q)"
  shows "loop_inv (s\<lparr>ml_queue := q, ml_pc := GotJob v\<rparr>)"
proof -
  let ?t = "s\<lparr>ml_queue := q, ml_pc := GotJob v\<rparr>"
  have p: "promises_inv ?t" using inv q by (simp add: loop_inv_def promises_inv_def)
  moreover have "bound_inv ?t"
    using inv numTotal_promises_inv [OF p] numTotal_promises_inv [of s] q held
    by (cases v) (simp_all add: loop_inv_def bound_inv_def)
  moreover have "tokens_inv ?t"
    using inv q held by (cases v) (auto simp: loop_inv_def tokens_inv_def live_tokens_def pending_tokens_def)
  ultimately show ?thesis by (simp add: loop_inv_def pc_inv_def)
qed

lemma fetch_loop_inv:
  assumes inv: "loop_inv s" and held: "held_job (ml_pc s) = []" and r: "afq_fetch_loop (ml_queue s) = Some r"
    and live: "pending s \<noteq> [] \<or> queued s \<noteq> []"
  shows "loop_inv (store_fetch r s)"
proof -
  from inv have ll: "ll_inv (afq_queue (ml_queue s))" by (simp add: loop_inv_def promises_inv_def)
  show ?thesis
  proof (cases "queued s")
    case Nil
    with afq_fetch_loop_ok [OF ll] r have "r = (Waiting (afq_promise (ml_queue s)), ml_queue s)" by simp
    with goto_inv [OF inv held, of "FetchWait (afq_promise (ml_queue s))"] live Nil show ?thesis
      by (simp add: pc_inv_def)
  next
    case (Cons v vs)
    with afq_fetch_loop_ok [OF ll] r obtain l where
      "r = (Delivered v, (ml_queue s)\<lparr>afq_queue := l\<rparr>)" "ll_inv l" "ll_contents l = vs" by auto
    with fetch_delivers_inv [OF inv held] Cons show ?thesis by simp
  qed
qed

lemma fetch_inv:
  assumes inv: "loop_inv s" and pc: "ml_pc s = FetchJob" and r: "afq_fetch (ml_queue s) = Some r"
  shows "loop_inv (store_fetch r s)"
proof -
  from inv have ll: "ll_inv (afq_queue (ml_queue s))" by (simp add: loop_inv_def promises_inv_def)
  have held: "held_job (ml_pc s) = []" using pc by simp
  show ?thesis
  proof (cases "pending s = [] \<and> queued s = []")
    case True
    with r have "r = (NothingTracked, ml_queue s)" by (simp add: afq_fetch_ok [OF ll])
    with goto_inv [OF inv held, of "GotJob None"] show ?thesis by (simp add: pc_inv_def)
  next
    case False
    with r fetch_loop_inv [OF inv held] show ?thesis by (simp add: afq_fetch_ok [OF ll])
  qed
qed

lemma after_fetch_inv:
  assumes inv: "loop_inv s" and pc: "ml_pc s = GotJob job"
  shows "loop_inv (after_fetch job s)"
proof (cases job)
  case None
  then show ?thesis
    using inv pc goto_inv [OF inv] by (simp add: after_fetch_def pc_inv_def)
next
  case (Some j)
  let ?t = "(add_promise (ProcessJob j) s)\<lparr>ml_pc := OuterTest\<rparr>"
  have p: "promises_inv s" using inv by (simp add: loop_inv_def)
  have "promises_inv ?t" using add_promise_inv [OF p, of "ProcessJob j"] by (simp add: promises_inv_def)
  moreover have "bound_inv ?t"
    using inv pc Some add_promise_numTotal [OF p, of "ProcessJob j"] by (simp add: loop_inv_def bound_inv_def)
  moreover have "live_tokens ?t = pending_tokens s @ [lj_token j] @ map lj_token (jobs_of (queued s))"
    using add_promise_tokens [OF p, of "ProcessJob j"] by (simp add: live_tokens_def) (simp add: pending_tokens_def)
  then have "tokens_inv ?t"
    using inv pc Some by (auto simp: loop_inv_def tokens_inv_def live_tokens_def)
  ultimately show ?thesis using Some by (simp add: after_fetch_def loop_inv_def pc_inv_def)
qed

text \<open>A promise settles: its token moves from the pending promise to the queued job, or is
  given up.\<close>

lemma map_removeAll_split:
  assumes "distinct xs" and "x \<in> set xs"
  shows "\<exists>as bs. xs = as @ x # bs \<and> removeAll x xs = as @ bs"
proof -
  from assms(2) obtain as bs where xs: "xs = as @ x # bs" by (meson split_list)
  with assms(1) have "removeAll x xs = as @ bs" by simp
  with xs show ?thesis by blast
qed

lemma settle_inv:
  assumes inv: "loop_inv s" and t: "settle_promise p jid s = Some t"
  shows "loop_inv t"
proof -
  from t obtain pr where p: "p \<in> set (pending s)" and pr: "ml_promises s p = Some pr"
    by (auto simp: settle_promise_def split: if_splits option.splits)
  define job where "job = map_option (\<lambda>i. \<lparr>lj_id = i, lj_token = promise_token pr\<rparr>) jid"
  from inv have ll: "ll_inv (afq_queue (ml_queue s))" and d: "distinct (pending s)"
    by (simp_all add: loop_inv_def promises_inv_def)
  from afq_onResolve_ok [OF ll, of p job] obtain q where q: "afq_onResolve p job (ml_queue s) = Some q"
    "ll_inv (afq_queue q)" "ll_contents (afq_queue q) = queued s @ [job]"
    "afq_pending q = removeAll p (pending s)"
    "afq_promise q = (if queued s = [] then Suc (afq_promise (ml_queue s)) else afq_promise (ml_queue s))"
    by blast
  have t': "t = s\<lparr>ml_queue := q, ml_results := (ml_results s)(p \<mapsto> job)\<rparr>"
    using t p pr q(1) by (simp add: settle_promise_def job_def [symmetric])
  from map_removeAll_split [OF d p] obtain as bs where
    split: "pending s = as @ p # bs" and rem: "afq_pending q = as @ bs" using q(4) by auto
  have pt: "promises_inv t" using inv q by (auto simp: t' loop_inv_def promises_inv_def distinct_removeAll)
  moreover have "bound_inv t"
    using inv numTotal_promises_inv [OF pt] numTotal_promises_inv [of s] q(3) split rem
    by (simp add: t' loop_inv_def bound_inv_def)
  moreover have "tokens_inv t"
    using inv q(3) split rem pr
    by (cases jid) (auto simp: t' job_def loop_inv_def tokens_inv_def live_tokens_def pending_tokens_def)
  moreover have "pc_inv t"
    using inv q p by (auto simp: t' loop_inv_def pc_inv_def split: loop_pc.splits)
  ultimately show ?thesis by (simp add: loop_inv_def)
qed

lemma concurrency_inv:
  assumes "loop_inv s" and "1 \<le> c"
  shows "loop_inv (s\<lparr>ml_concurrency := c, ml_peakConcurrency := max c (ml_peakConcurrency s)\<rparr>)" (is "loop_inv ?t")
proof -
  have "promises_inv ?t = promises_inv s" by (rule promises_inv_cong) simp_all
  moreover have "live_tokens ?t = live_tokens s" by (rule live_tokens_cong) simp_all
  moreover have "pc_inv ?t = pc_inv s" by (simp add: pc_inv_def split: loop_pc.split)
  ultimately show ?thesis using assms by (simp add: loop_inv_def bound_inv_def tokens_inv_def max_def)
qed

lemma env_exec_inv: "loop_inv s \<Longrightarrow> env_exec e s = Some t \<Longrightarrow> loop_inv t"
  by (cases e) (auto intro: settle_inv flag_inv concurrency_inv split: if_splits)

lemma loop_step_inv:
  assumes inv: "loop_inv s" and t: "loop_step starts s = Some t"
  shows "loop_inv t"
proof (cases "ml_pc s")
  case OuterTest
  have "numTotal0": "afq_numTotal (ml_queue s) = 0 \<longleftrightarrow> pending s = [] \<and> queued s = []"
    using numTotal_promises_inv [of s] inv by (simp add: loop_inv_def)
  have "pc_inv (s\<lparr>ml_pc := LoopDone\<rparr>)" if "\<not> outer_condition s"
    using that numTotal0 by (simp add: outer_condition_def pc_inv_def)
  then show ?thesis
    using t OuterTest goto_inv [OF inv] by (auto simp: loop_step_def pc_inv_def)
next
  case InnerTest
  then show ?thesis
    using t start_fetch_inv [OF inv] goto_inv [OF inv, of FetchJob] by (auto simp: loop_step_def pc_inv_def)
next
  case (AwaitFetched p)
  then show ?thesis
    using t goto_inv [OF inv] by (auto simp: loop_step_def after_fetched_def pc_inv_def)
next
  case FetchJob
  then show ?thesis using t fetch_inv [OF inv] by (auto simp: loop_step_def)
next
  case (FetchWait k)
  with inv have "pending s \<noteq> [] \<or> queued s \<noteq> []" by (simp add: loop_inv_def pc_inv_def)
  with FetchWait show ?thesis
    using t fetch_loop_inv [OF inv] by (auto simp: loop_step_def afq_fetch_resume_def split: if_splits)
next
  case (GotJob job)
  then show ?thesis using t after_fetch_inv [OF inv] by (auto simp: loop_step_def)
next
  case RateLimitWait
  then show ?thesis
    using t goto_inv [OF flag_inv(4) [OF inv, of False], of OuterTest] by (auto simp: loop_step_def pc_inv_def)
next
  case LoopDone
  then show ?thesis using t by (simp add: loop_step_def)
qed

lemma loop_exec_inv: "loop_inv s \<Longrightarrow> loop_exec e s = Some t \<Longrightarrow> loop_inv t"
  by (cases e) (auto intro: loop_step_inv env_exec_inv)

interpretation main_loop: step_invariant
  "\<lambda>s. \<exists>wid c. 1 \<le> c \<and> s = loop_start wid c" loop_trans loop_inv
  by unfold_locales (auto simp: loop_trans_def intro: loop_start_inv loop_exec_inv)

lemma loop_run_path: "loop_run es s = Some t \<Longrightarrow> loop_trans\<^sup>*\<^sup>* s t"
proof (induction es arbitrary: s)
  case (Cons e es)
  then obtain u where "loop_trans s u" and "loop_run es u = Some t"
    by (auto simp: loop_trans_def split: option.splits)
  with Cons.IH show ?case by (meson converse_rtranclp_into_rtranclp)
qed simp

lemma loop_run_inv: "loop_run es (loop_start wid c) = Some s \<Longrightarrow> 1 \<le> c \<Longrightarrow> loop_inv s"
  by (blast intro: main_loop.inv_path [OF loop_run_path] loop_start_inv)

text \<open>The concurrency values a run sets.\<close>

fun limits_set :: "loop_event list \<Rightarrow> real list" where
  "limits_set [] = []"
| "limits_set (Env (SetConcurrency c) # es) = c # limits_set es"
| "limits_set (_ # es) = limits_set es"

lemma store_fetch_peak [simp]: "ml_peakConcurrency (store_fetch r s) = ml_peakConcurrency s"
  by (cases "(r, s)" rule: store_fetch.cases) simp_all

lemma loop_step_peak: "loop_step b s = Some t \<Longrightarrow> ml_peakConcurrency t = ml_peakConcurrency s"
  by (auto simp: loop_step_def start_fetch_def after_fetched_def after_fetch_def Let_def
      split: loop_pc.splits if_splits option.splits)

lemma env_exec_peak:
  "env_exec e s = Some t \<Longrightarrow>
     ml_peakConcurrency t = fold max (limits_set [Env e]) (ml_peakConcurrency s)"
  by (cases e) (auto simp: settle_promise_def Let_def split: if_splits option.splits)

lemma limits_set_Cons: "limits_set (e # es) = limits_set [e] @ limits_set es"
  by (cases "e # es" rule: limits_set.cases) auto

lemma loop_run_peak:
  "loop_run es s = Some t \<Longrightarrow> ml_peakConcurrency t = fold max (limits_set es) (ml_peakConcurrency s)"
proof (induction es arbitrary: s)
  case (Cons e es)
  then obtain u where u: "loop_exec e s = Some u" "loop_run es u = Some t"
    by (auto split: option.splits)
  have "ml_peakConcurrency u = fold max (limits_set [e]) (ml_peakConcurrency s)"
    using u(1) by (cases e) (auto dest: loop_step_peak env_exec_peak)
  with Cons.IH [OF u(2)] show ?case by (subst limits_set_Cons) simp
qed simp

definition processing :: "main_loop \<Rightarrow> nat list" where
  "processing s = filter (\<lambda>p. \<exists>job. ml_promises s p = Some (ProcessJob job)) (pending s)"

lemma processing_le: "length (processing s) \<le> afq_numTotal (ml_queue s)"
  by (simp add: processing_def afq_numTotal_def trans_le_add1)

section \<open>Claims\<close>

text \<open>
  C3. The concurrency limit: whatever the backend answers and whenever the worker is paused, resumed,
  rate limited, closed or given another concurrency, the main loop never has more promises
  in its queue than the largest concurrency set so far (rounded up when it is not whole);
  in particular at most that many jobs are being processed at the same time.
\<close>

theorem loop_concurrency_limit:
  assumes "1 \<le> c" and "loop_run es (loop_start wid c) = Some s"
  shows "length (processing s) \<le> afq_numTotal (ml_queue s)
       \<and> real (afq_numTotal (ml_queue s)) < fold max (limits_set es) c + 1"
proof -
  from loop_run_inv [OF assms(2,1)] loop_run_peak [OF assms(2)] processing_le [of s]
  show ?thesis by (simp add: loop_inv_def bound_inv_def loop_start_def)
qed

theorem loop_concurrency_limit_witness:
  "\<exists>s. loop_run [Loop False, Loop False, Env (Settle 0 (Some ''7'')), Loop False, Loop False,
           Env (SetBlockUntil True), Env (Settle 1 (Some ''8'')), Loop False, Loop False, Loop False]
         (loop_start ''w'' 2) = Some s
     \<and> afq_numTotal (ml_queue s) = 2 \<and> processing s = [2]"
proof -
  let ?es = "[Loop False, Loop False, Env (Settle 0 (Some ''7'')), Loop False, Loop False,
           Env (SetBlockUntil True), Env (Settle 1 (Some ''8'')), Loop False, Loop False, Loop False]"
  obtain s where s: "loop_run ?es (loop_start ''w'' 2) = Some s" and p: "processing s = [2]"
    and l: "ll_length (afq_queue (ml_queue s)) = 1" "afq_pending (ml_queue s) = [2]"
    by (simp add: loop_step_def outer_condition_def inner_condition_def start_fetch_def after_fetched_def
        after_fetch_def add_promise_def settle_promise_def loop_start_def afq_defs afq_new_def ll_new_def
        ll_push_def ll_shift_def processing_def Let_def eval_nat_numeral)
  from loop_concurrency_limit [OF _ s] l have "afq_numTotal (ml_queue s) = 2"
    by (simp add: afq_numTotal_def)
  with s p show ?thesis by blast
qed

text \<open>
  C4. Lock tokens are exclusive: in every run the tokens of the fetches and job runs in flight, of
  the jobs waiting in the queue and of the job just taken from it are pairwise different,
  so no two jobs a worker holds are locked with the same token.
\<close>

theorem loop_tokens_exclusive:
  assumes "1 \<le> c" and "loop_run es (loop_start wid c) = Some s"
  shows "distinct (live_tokens s)"
  using loop_run_inv [OF assms(2,1)] by (simp add: loop_inv_def tokens_inv_def)

theorem loop_tokens_exclusive_witness:
  "\<exists>s. loop_run [Loop False, Loop False, Env (Settle 0 (Some ''7'')), Loop False, Loop False] (loop_start ''w'' 2) = Some s
     \<and> live_tokens s = [loop_token ''w'' 1, loop_token ''w'' 0] \<and> distinct (live_tokens s)"
proof -
  let ?es = "[Loop False, Loop False, Env (Settle 0 (Some ''7'')), Loop False, Loop False]"
  obtain s where s: "loop_run ?es (loop_start ''w'' 2) = Some s"
    and t: "live_tokens s = [loop_token ''w'' 1, loop_token ''w'' 0]"
    by (simp add: loop_step_def outer_condition_def inner_condition_def start_fetch_def after_fetched_def
        after_fetch_def add_promise_def settle_promise_def loop_start_def afq_defs afq_new_def ll_new_def
        ll_push_def ll_shift_def live_tokens_def pending_tokens_def ll_contents_def Let_def eval_nat_numeral)
  from loop_tokens_exclusive [OF _ s] s t show ?thesis by auto
qed

text \<open>
  C5. The loop neither abandons work nor hangs: when it has ended nothing is pending and nothing is
  queued (so awaiting it, as close does, waits for every job), and whenever it has not ended
  and cannot take a step, a promise is still pending whose settlement it awaits.
\<close>

theorem loop_graceful:
  assumes "1 \<le> c" and "loop_run es (loop_start wid c) = Some s"
  shows "(ml_pc s = LoopDone \<longrightarrow> pending s = [] \<and> queued s = [])
       \<and> (ml_pc s \<noteq> LoopDone \<and> loop_step b s = None \<longrightarrow> pending s \<noteq> [])"
proof -
  have inv: "loop_inv s" by (rule loop_run_inv [OF assms(2,1)])
  then have ll: "ll_inv (afq_queue (ml_queue s))" by (simp add: loop_inv_def promises_inv_def)
  have fl: "afq_fetch_loop (ml_queue s) \<noteq> None"
    using afq_fetch_loop_ok [OF ll] by (auto split: list.splits)
  have "pending s \<noteq> []" if "ml_pc s \<noteq> LoopDone" and "loop_step b s = None"
    using that inv fl
    by (auto simp: loop_step_def afq_fetch_ok [OF ll] afq_fetch_resume_def loop_inv_def pc_inv_def
        promises_inv_def split: loop_pc.splits if_splits)
  with inv show ?thesis by (auto simp: loop_inv_def pc_inv_def)
qed

theorem loop_graceful_witness:
  "\<exists>s. loop_run [Loop False, Loop False, Env CloseWorker] (loop_start ''w'' 1) = Some s
     \<and> loop_step False s = None \<and> pending s \<noteq> []"
proof -
  let ?es = "[Loop False, Loop False, Env CloseWorker]"
  obtain s where s: "loop_run ?es (loop_start ''w'' 1) = Some s"
    and b: "loop_step False s = None" "ml_pc s = AwaitFetched 0"
    by (simp add: loop_step_def outer_condition_def inner_condition_def start_fetch_def after_fetched_def
        add_promise_def loop_start_def afq_defs afq_new_def ll_new_def Let_def)
  from loop_graceful [OF _ s, of False] s b show ?thesis by auto
qed

end
