(* ===== verification/Queue_Store.thy ===== *)
theory Queue_Store
  imports Job_Lifecycle
begin

text \<open>
  The rest of IQueueBackend (src/interfaces/queue-backend.ts): the queue-level operations that
  Queue and QueueGetters call, as a second record over the state of the datastore, and the
  world of a Queue object, which adds the events it emitted.
\<close>

section \<open>The contract\<close>

record store_page =
  sp_cursor :: jsval
  sp_items :: "(jsval \<times> jsval option \<times> string option) list"
  sp_total :: jsval
  sp_jobs :: "job_json list"

text \<open>\<open>qs_getJobs\<close> exists for the Redis backend only: it answers with the job ids of each type.\<close>

record 's queue_store =
  qs_pause :: "bool \<Rightarrow> ('s, unit) loop_op"
  qs_drain :: "bool \<Rightarrow> ('s, unit) backend_op"
  qs_cleanJobsByState :: "string \<Rightarrow> real \<Rightarrow> real \<Rightarrow> ('s, string list) backend_op"
  qs_obliterate :: "bool \<Rightarrow> real \<Rightarrow> ('s, real) backend_op"
  qs_retryFinishedJobs :: "string option \<Rightarrow> real option \<Rightarrow> real option \<Rightarrow> ('s, real) backend_op"
  qs_promoteJobs :: "real option \<Rightarrow> ('s, real) backend_op"
  qs_removeOrphanedJobs :: "real \<Rightarrow> real \<Rightarrow> ('s, real) loop_op"
  qs_getCounts :: "string list \<Rightarrow> ('s, real option list) backend_op"
  qs_getCountsPerPriority :: "real list \<Rightarrow> ('s, real option list) backend_op"
  qs_getRanges :: "string list \<Rightarrow> int \<Rightarrow> int \<Rightarrow> bool \<Rightarrow> ('s, string list option list) backend_op"
  qs_getJobs :: "(string list \<Rightarrow> int \<Rightarrow> int \<Rightarrow> bool \<Rightarrow> ('s, string list option list) backend_op) option"
  qs_getJobLogs :: "string \<Rightarrow> int \<Rightarrow> int \<Rightarrow> bool \<Rightarrow> ('s, string list \<times> real) backend_op"
  qs_getClientList :: "('s, string list) backend_op"
  qs_getMetrics :: "string \<Rightarrow> int \<Rightarrow> int \<Rightarrow> ('s, string option list \<times> string list \<times> real) backend_op"
  qs_paginate :: "string \<Rightarrow> real \<Rightarrow> real \<Rightarrow> bool \<Rightarrow> ('s, store_page) loop_op"
  qs_setQueueMeta :: "jsobj \<Rightarrow> ('s, real) backend_op"
  qs_getQueueMetaField :: "string \<Rightarrow> ('s, string option) backend_op"
  qs_getQueueMetaFields :: "string list \<Rightarrow> ('s, string option list) backend_op"
  qs_getQueueMeta :: "('s, (string, string) jsmap) backend_op"
  qs_removeQueueMetaFields :: "string list \<Rightarrow> ('s, real) backend_op"
  qs_hasQueueMetaField :: "string \<Rightarrow> ('s, bool) backend_op"
  qs_setRateLimit :: "real \<Rightarrow> ('s, unit) backend_op"
  qs_removeRateLimitKey :: "('s, real) backend_op"
  qs_removeDeprecatedPriorityKey :: "('s, real) backend_op"
  qs_deleteDeduplicationKey :: "string \<Rightarrow> ('s, real) backend_op"
  qs_getDeduplicationJobId :: "string \<Rightarrow> ('s, string option) backend_op"
  qs_trimEvents :: "real \<Rightarrow> ('s, real) backend_op"
  qs_isMaxed :: "('s, bool) backend_op"

section \<open>The world of a queue\<close>

datatype queue_event =
    EvWaiting job
  | EvPaused
  | EvResumed
  | EvRemoved string
  | EvProgress string jsval
  | EvCleaned "string list" string

record 's qworld =
  qw_store :: 's
  qw_events :: "queue_event list"

type_synonym ('s, 'a) queue_op = "'s qworld \<Rightarrow> ((js_error, 'a) result \<times> 's qworld) option"

definition q_ret :: "'a \<Rightarrow> ('s, 'a) queue_op" where
  "q_ret a w = Some (Inr a, w)"

definition q_throw :: "js_error \<Rightarrow> ('s, 'a) queue_op" where
  "q_throw e w = Some (Inl e, w)"

definition q_loop :: "('s, 'a) loop_op \<Rightarrow> ('s, 'a) queue_op" where
  "q_loop m w = map_option (\<lambda>(r, s). (r, w\<lparr>qw_store := s\<rparr>)) (m (qw_store w))"

definition q_call :: "('s, 'a) backend_op \<Rightarrow> ('s, 'a) queue_op" where
  "q_call m = q_loop (\<lambda>s. Some (m s))"

definition q_then :: "('s, 'a) queue_op \<Rightarrow> ('a \<Rightarrow> ('s, 'b) queue_op) \<Rightarrow> ('s, 'b) queue_op" where
  "q_then m f w =
     (case m w of
        None \<Rightarrow> None
      | Some (Inl e, w') \<Rightarrow> Some (Inl e, w')
      | Some (Inr a, w') \<Rightarrow> f a w')"

definition q_emit :: "queue_event \<Rightarrow> ('s, unit) queue_op" where
  "q_emit ev w = Some (Inr (), w\<lparr>qw_events := qw_events w @ [ev]\<rparr>)"

lemma q_call_eq: "q_call m w = Some (case m (qw_store w) of (r, s) \<Rightarrow> (r, w\<lparr>qw_store := s\<rparr>))"
  by (simp add: q_call_def q_loop_def)

lemmas queue_run = q_then_def q_call_eq q_ret_def q_throw_def q_emit_def q_loop_def

section \<open>A logging store\<close>

definition logged_loop :: "string \<Rightarrow> 'a \<Rightarrow> (string list, 'a) loop_op" where
  "logged_loop op a s = Some (Inr a, s @ [op])"

definition log_store :: "string list queue_store" where
  "log_store =
     \<lparr>qs_pause = (\<lambda>_. logged_loop ''pause'' ()),
      qs_drain = (\<lambda>_. logged ''drain'' ()),
      qs_cleanJobsByState = (\<lambda>_ _ _. logged ''cleanJobsByState'' []),
      qs_obliterate = (\<lambda>_ _. logged ''obliterate'' 0),
      qs_retryFinishedJobs = (\<lambda>_ _ _. logged ''retryFinishedJobs'' 0),
      qs_promoteJobs = (\<lambda>_. logged ''promoteJobs'' 0),
      qs_removeOrphanedJobs = (\<lambda>_ _. logged_loop ''removeOrphanedJobs'' 0),
      qs_getCounts = (\<lambda>ts. logged ''getCounts'' (map (\<lambda>_. Some 1) ts)),
      qs_getCountsPerPriority = (\<lambda>ps. logged ''getCountsPerPriority'' (map (\<lambda>_. Some 1) ps)),
      qs_getRanges = (\<lambda>ts _ _ _. logged ''getRanges'' (map (\<lambda>_. None) ts)),
      qs_getJobs = None,
      qs_getJobLogs = (\<lambda>_ _ _ _. logged ''getJobLogs'' ([], 0)),
      qs_getClientList = logged ''getClientList'' [],
      qs_getMetrics = (\<lambda>_ _ _. logged ''getMetrics'' ([], [], 0)),
      qs_paginate = (\<lambda>_ _ _ _. logged_loop ''paginate''
         \<lparr>sp_cursor = VStr ''0'', sp_items = [], sp_total = VNum 0, sp_jobs = []\<rparr>),
      qs_setQueueMeta = (\<lambda>_. logged ''setQueueMeta'' 1),
      qs_getQueueMetaField = (\<lambda>_. logged ''getQueueMetaField'' None),
      qs_getQueueMetaFields = (\<lambda>fs. logged ''getQueueMetaFields'' (map (\<lambda>_. None) fs)),
      qs_getQueueMeta = logged ''getQueueMeta'' [],
      qs_removeQueueMetaFields = (\<lambda>_. logged ''removeQueueMetaFields'' 1),
      qs_hasQueueMetaField = (\<lambda>_. logged ''hasQueueMetaField'' False),
      qs_setRateLimit = (\<lambda>_. logged ''setRateLimit'' ()),
      qs_removeRateLimitKey = logged ''removeRateLimitKey'' 1,
      qs_removeDeprecatedPriorityKey = logged ''removeDeprecatedPriorityKey'' 1,
      qs_deleteDeduplicationKey = (\<lambda>_. logged ''deleteDeduplicationKey'' 1),
      qs_getDeduplicationJobId = (\<lambda>_. logged ''getDeduplicationJobId'' None),
      qs_trimEvents = (\<lambda>_. logged ''trimEvents'' 0),
      qs_isMaxed = logged ''isMaxed'' False\<rparr>"

lemma log_store_ops:
  "qs_getCounts log_store = (\<lambda>ts. logged ''getCounts'' (map (\<lambda>_. Some 1) ts))"
  "qs_cleanJobsByState log_store = (\<lambda>_ _ _. logged ''cleanJobsByState'' [])"
  "qs_pause log_store = (\<lambda>_. logged_loop ''pause'' ())"
  by (simp_all add: log_store_def)

end
