(* ===== verification/Redis_Lists.thy ===== *)
theory Redis_Lists
  imports Prelude
begin

text \<open>
  Ranges of a list by index, as Redis documents them for LRANGE and for ZRANGE by index:
  negative indices count from the end, indices past the ends are cut off.
\<close>

definition lrange :: "int \<Rightarrow> int \<Rightarrow> 'a list \<Rightarrow> 'a list" where
  "lrange s e xs =
     (let n = int (length xs);
          a = max 0 (if s < 0 then n + s else s);
          b = min (n - 1) (if e < 0 then n + e else e)
      in if a > b then [] else take (nat (b - a + 1)) (drop (nat a) xs))"

lemma rev_take_drop:
  assumes "a + k \<le> length xs"
  shows "rev (take k (drop a xs)) = take k (drop (length xs - a - k) (rev xs))"
proof -
  have "rev (take k (drop a xs)) = drop (length xs - a - k) (take (length xs - a) (rev xs))"
    by (simp add: rev_take rev_drop)
  also have "\<dots> = take k (drop (length xs - a - k) (rev xs))"
    using assms by (simp add: drop_take)
  finally show ?thesis .
qed

lemma lrange_reversed: "rev (lrange (- (e + 1)) (- (s + 1)) xs) = lrange s e (rev xs)"
proof -
  define n where "n = int (length xs)"
  define a where "a = max 0 (if s < 0 then n + s else s)"
  define b where "b = min (n - 1) (if e < 0 then n + e else e)"
  have a': "max 0 (if - (e + 1) < 0 then n + - (e + 1) else - (e + 1)) = n - 1 - b"
    by (auto simp: b_def n_def)
  have b': "min (n - 1) (if - (s + 1) < 0 then n + - (s + 1) else - (s + 1)) = n - 1 - a"
    by (auto simp: a_def n_def)
  have l: "lrange (- (e + 1)) (- (s + 1)) xs
    = (if n - 1 - b > n - 1 - a then [] else take (nat (b - a + 1)) (drop (nat (n - 1 - b)) xs))"
    unfolding lrange_def Let_def n_def [symmetric] a' b' by simp
  have r: "lrange s e (rev xs) = (if a > b then [] else take (nat (b - a + 1)) (drop (nat a) (rev xs)))"
    unfolding lrange_def Let_def length_rev n_def [symmetric] a_def [symmetric] b_def [symmetric] ..
  show ?thesis
  proof (cases "a > b")
    case True
    with l r show ?thesis by simp
  next
    case False
    moreover have "0 \<le> a" "b \<le> n - 1" by (simp_all add: a_def b_def)
    ultimately have "nat (n - 1 - b) + nat (b - a + 1) \<le> length xs"
      and "length xs - nat (n - 1 - b) - nat (b - a + 1) = nat a" by (auto simp: n_def)
    with rev_take_drop [of "nat (n - 1 - b)" "nat (b - a + 1)" xs] l r False show ?thesis by simp
  qed
qed

end
