(* ===== verification/Queue_Getters.thy ===== *)
theory Queue_Getters
  imports Queue_Store Js_Strings Redis_Lists
begin

text \<open>
  The read side of a queue, src/classes/queue-getters.ts: job counts, ranges of jobs, metadata,
  metrics, the list of workers and the Prometheus export. The getters only read; they run on
  the store and the backend of the queue (\<open>S\<close> and \<open>B\<close>) and return what the store answers in
  the shape the callers expect.
\<close>

section \<open>Job types and counts\<close>

definition all_job_types :: "string list" where
  "all_job_types = [''active'', ''completed'', ''delayed'', ''failed'', ''prioritized'', ''waiting'', ''waiting-children'']"

definition sanitizeJobTypes :: "string list \<Rightarrow> string list" where
  "sanitizeJobTypes types = (if types \<noteq> [] then unique_set types else all_job_types)"

text \<open>The callback of commandByType is called for the known types only.\<close>

definition commandByType :: "string list \<Rightarrow> bool \<Rightarrow> string list" where
  "commandByType types count =
     concat (map (\<lambda>t. let type = (if t = ''waiting'' then ''wait'' else t) in
        if type \<in> {''completed'', ''failed'', ''delayed'', ''prioritized'', ''repeat'', ''waiting-children''}
        then [if count then ''zcard'' else ''zrange'']
        else if type \<in> {''active'', ''wait''} then [if count then ''llen'' else ''lrange''] else []) types)"

definition count_or_zero :: "real option \<Rightarrow> real" where
  "count_or_zero res = with_default 0 res"

text \<open>\<open>counts[types[index]] = res || 0\<close> for every reply.\<close>

fun collect_counts :: "(string, real) jsmap \<Rightarrow> string list \<Rightarrow> real option list \<Rightarrow> (string, real) jsmap" where
  "collect_counts counts _ [] = counts"
| "collect_counts counts [] (res # responses) =
     collect_counts (map_set ''undefined'' (count_or_zero res) counts) [] responses"
| "collect_counts counts (t # types) (res # responses) =
     collect_counts (map_set t (count_or_zero res) counts) types responses"

definition getJobCounts :: "'s queue_store \<Rightarrow> string list \<Rightarrow> ('s, (string, real) jsmap) backend_op" where
  "getJobCounts S types s =
     (let currentTypes = sanitizeJobTypes types in
      case qs_getCounts S currentTypes s of
        (Inl e, s') \<Rightarrow> (Inl e, s')
      | (Inr responses, s') \<Rightarrow> (Inr (collect_counts [] currentTypes responses), s'))"

definition getJobCountByTypes :: "'s queue_store \<Rightarrow> string list \<Rightarrow> ('s, real) backend_op" where
  "getJobCountByTypes S types s =
     (case getJobCounts S types s of
        (Inl e, s') \<Rightarrow> (Inl e, s')
      | (Inr counts, s') \<Rightarrow> (Inr (fold (\<lambda>(k, n) acc. acc + n) counts 0), s'))"

definition count_queue :: "'s queue_store \<Rightarrow> ('s, real) backend_op" where
  "count_queue S = getJobCountByTypes S [''waiting'', ''delayed'', ''prioritized'', ''waiting-children'']"

definition getCompletedCount :: "'s queue_store \<Rightarrow> ('s, real) backend_op" where
  "getCompletedCount S = getJobCountByTypes S [''completed'']"

definition getFailedCount :: "'s queue_store \<Rightarrow> ('s, real) backend_op" where
  "getFailedCount S = getJobCountByTypes S [''failed'']"

definition getDelayedCount :: "'s queue_store \<Rightarrow> ('s, real) backend_op" where
  "getDelayedCount S = getJobCountByTypes S [''delayed'']"

definition getActiveCount :: "'s queue_store \<Rightarrow> ('s, real) backend_op" where
  "getActiveCount S = getJobCountByTypes S [''active'']"

definition getPrioritizedCount :: "'s queue_store \<Rightarrow> ('s, real) backend_op" where
  "getPrioritizedCount S = getJobCountByTypes S [''prioritized'']"

definition getWaitingCount :: "'s queue_store \<Rightarrow> ('s, real) backend_op" where
  "getWaitingCount S = getJobCountByTypes S [''waiting'']"

definition getWaitingChildrenCount :: "'s queue_store \<Rightarrow> ('s, real) backend_op" where
  "getWaitingChildrenCount S = getJobCountByTypes S [''waiting-children'']"

definition getCountsPerPriority :: "json_lib \<Rightarrow> 's queue_store \<Rightarrow> real list \<Rightarrow> ('s, (string, real) jsmap) backend_op" where
  "getCountsPerPriority J S priorities s =
     (let uniquePriorities = unique_set priorities in
      case qs_getCountsPerPriority S uniquePriorities s of
        (Inl e, s') \<Rightarrow> (Inl e, s')
      | (Inr responses, s') \<Rightarrow> (Inr (collect_counts [] (map (num_to_string J) uniquePriorities) responses), s'))"

text \<open>A gauge reading per state when the queue has a meter.\<close>

definition recordJobCountsMetric ::
  "'s queue_store \<Rightarrow> bool \<Rightarrow> string list \<Rightarrow> 's \<Rightarrow> ((js_error, (string, real) jsmap) result \<times> (string \<times> real) list) \<times> 's" where
  "recordJobCountsMetric S meter types s =
     (case getJobCounts S types s of
        (Inl e, s') \<Rightarrow> ((Inl e, []), s')
      | (Inr counts, s') \<Rightarrow> ((Inr counts, if meter then counts else []), s'))"

section \<open>Metadata\<close>

definition getGlobalConcurrency :: "'s queue_store \<Rightarrow> ('s, jsval) backend_op" where
  "getGlobalConcurrency S s =
     (case qs_getQueueMetaField S ''concurrency'' s of
        (Inl e, s') \<Rightarrow> (Inl e, s')
      | (Inr c, s') \<Rightarrow> (Inr (if truthy_str c then number_of_string (the c) else VNull), s'))"

definition getGlobalRateLimit :: "'s queue_store \<Rightarrow> ('s, (jsval \<times> jsval) option) backend_op" where
  "getGlobalRateLimit S s =
     (case qs_getQueueMetaFields S [''max'', ''duration''] s of
        (Inl e, s') \<Rightarrow> (Inl e, s')
      | (Inr replies, s') \<Rightarrow>
          (let mx = (case replies of m # _ \<Rightarrow> m | [] \<Rightarrow> None);
               duration = (case replies of _ # d # _ \<Rightarrow> d | _ \<Rightarrow> None)
           in (Inr (if truthy_str mx \<and> truthy_str duration
                    then Some (number_of_string (the mx), number_of_string (the duration)) else None), s')))"

definition set_number :: "string \<Rightarrow> string \<Rightarrow> (string, string) jsmap \<Rightarrow> jsobj \<Rightarrow> jsobj" where
  "set_number field target config parsed =
     (if truthy_str (map_get config field) then map_set target (number_of_string (the (map_get config field))) parsed
      else parsed)"

definition parse_meta :: "(string, string) jsmap \<Rightarrow> jsobj" where
  "parse_meta config =
     (let rest = filter (\<lambda>(k, v). k \<notin> {''concurrency'', ''max'', ''duration'', ''paused'', ''opts.maxLenEvents''}) config;
          parsed0 = map (\<lambda>(k, v). (k, VStr v)) rest;
          parsed1 = set_number ''concurrency'' ''concurrency'' config parsed0;
          parsed2 = set_number ''opts.maxLenEvents'' ''maxLenEvents'' config parsed1;
          parsed3 = set_number ''max'' ''max'' config parsed2;
          parsed4 = set_number ''duration'' ''duration'' config parsed3
      in map_set ''paused'' (VBool (map_get config ''paused'' = Some ''1'')) parsed4)"

definition getMeta :: "'s queue_store \<Rightarrow> ('s, jsobj) backend_op" where
  "getMeta S s =
     (case qs_getQueueMeta S s of
        (Inl e, s') \<Rightarrow> (Inl e, s')
      | (Inr config, s') \<Rightarrow> (Inr (parse_meta config), s'))"

section \<open>Jobs\<close>

fun merge_ranges :: "bool \<Rightarrow> string list \<Rightarrow> string list option list \<Rightarrow> string list" where
  "merge_ranges asc commands [] = []"
| "merge_ranges asc commands (response # responses) =
     (let result = with_default [] response in
      if asc \<and> commands \<noteq> [] \<and> hd commands = ''lrange'' then rev result else result)
     @ merge_ranges asc (drop 1 commands) responses"

definition getRanges_queue :: "'s queue_store \<Rightarrow> string list \<Rightarrow> int \<Rightarrow> int \<Rightarrow> bool \<Rightarrow> ('s, string list) backend_op" where
  "getRanges_queue S types start end asc s =
     (case qs_getRanges S types start end asc s of
        (Inl e, s') \<Rightarrow> (Inl e, s')
      | (Inr responses, s') \<Rightarrow> (Inr (unique_set (merge_ranges asc (commandByType types False) responses)), s'))"

definition getJob :: "json_lib \<Rightarrow> real \<Rightarrow> 's queue_backend \<Rightarrow> string \<Rightarrow> ('s, job option) backend_op" where
  "getJob J now B jobId = fromId J B now (Some jobId)"

text \<open>\<open>Promise.all\<close> over the ids: every job is read, the first rejection is the result.\<close>

fun read_jobs :: "json_lib \<Rightarrow> real \<Rightarrow> 's queue_backend \<Rightarrow> string list \<Rightarrow> ('s, job option list) backend_op" where
  "read_jobs J now B [] s = (Inr [], s)"
| "read_jobs J now B (i # ids) s =
     (case getJob J now B i s of (r, s1) \<Rightarrow>
        case read_jobs J now B ids s1 of (rs, s2) \<Rightarrow>
          (bind_result r (\<lambda>j. bind_result rs (\<lambda>js. Inr (j # js))), s2))"

definition job_ids :: "'s queue_store \<Rightarrow> string list \<Rightarrow> int \<Rightarrow> int \<Rightarrow> bool \<Rightarrow> ('s, string list) backend_op" where
  "job_ids S currentTypes start end asc s =
     (case qs_getJobs S of
        Some fetch \<Rightarrow>
          (case fetch currentTypes start end asc s of
             (Inl e, s') \<Rightarrow> (Inl e, s')
           | (Inr byType, s') \<Rightarrow> (Inr (unique_set (concat (map (with_default []) byType))), s'))
      | None \<Rightarrow> getRanges_queue S currentTypes start end asc s)"

definition getJobs ::
  "json_lib \<Rightarrow> real \<Rightarrow> 's queue_backend \<Rightarrow> 's queue_store \<Rightarrow> string list \<Rightarrow> int \<Rightarrow> int \<Rightarrow> bool \<Rightarrow> ('s, job list) backend_op" where
  "getJobs J now B S types start end asc s =
     (case job_ids S (sanitizeJobTypes types) start end asc s of
        (Inl e, s') \<Rightarrow> (Inl e, s')
      | (Inr ids, s') \<Rightarrow>
          (case read_jobs J now B ids s' of
             (Inl e, s'') \<Rightarrow> (Inl e, s'')
           | (Inr jobs, s'') \<Rightarrow> (Inr (List.map_filter id jobs), s'')))"

definition getWaiting :: "json_lib \<Rightarrow> real \<Rightarrow> 's queue_backend \<Rightarrow> 's queue_store \<Rightarrow> int \<Rightarrow> int \<Rightarrow> ('s, job list) backend_op" where
  "getWaiting J now B S start end = getJobs J now B S [''waiting''] start end True"

definition getWaitingChildren :: "json_lib \<Rightarrow> real \<Rightarrow> 's queue_backend \<Rightarrow> 's queue_store \<Rightarrow> int \<Rightarrow> int \<Rightarrow> ('s, job list) backend_op" where
  "getWaitingChildren J now B S start end = getJobs J now B S [''waiting-children''] start end True"

definition getActive :: "json_lib \<Rightarrow> real \<Rightarrow> 's queue_backend \<Rightarrow> 's queue_store \<Rightarrow> int \<Rightarrow> int \<Rightarrow> ('s, job list) backend_op" where
  "getActive J now B S start end = getJobs J now B S [''active''] start end True"

definition getDelayed :: "json_lib \<Rightarrow> real \<Rightarrow> 's queue_backend \<Rightarrow> 's queue_store \<Rightarrow> int \<Rightarrow> int \<Rightarrow> ('s, job list) backend_op" where
  "getDelayed J now B S start end = getJobs J now B S [''delayed''] start end True"

definition getPrioritized :: "json_lib \<Rightarrow> real \<Rightarrow> 's queue_backend \<Rightarrow> 's queue_store \<Rightarrow> int \<Rightarrow> int \<Rightarrow> ('s, job list) backend_op" where
  "getPrioritized J now B S start end = getJobs J now B S [''prioritized''] start end True"

definition getCompleted :: "json_lib \<Rightarrow> real \<Rightarrow> 's queue_backend \<Rightarrow> 's queue_store \<Rightarrow> int \<Rightarrow> int \<Rightarrow> ('s, job list) backend_op" where
  "getCompleted J now B S start end = getJobs J now B S [''completed''] start end False"

definition getFailed :: "json_lib \<Rightarrow> real \<Rightarrow> 's queue_backend \<Rightarrow> 's queue_store \<Rightarrow> int \<Rightarrow> int \<Rightarrow> ('s, job list) backend_op" where
  "getFailed J now B S start end = getJobs J now B S [''failed''] start end False"

definition getDependencies ::
  "'s queue_store \<Rightarrow> (string \<Rightarrow> string) \<Rightarrow> string \<Rightarrow> string \<Rightarrow> real \<Rightarrow> real \<Rightarrow> ('s, store_page) loop_op" where
  "getDependencies S toKeyFn parentId type start end =
     qs_paginate S
       (toKeyFn (if type = ''processed'' then parentId @ '':processed'' else parentId @ '':dependencies''))
       start end True"

section \<open>Single jobs and limits\<close>

definition getRateLimitTtl :: "'s queue_backend \<Rightarrow> real option \<Rightarrow> ('s, real) backend_op" where
  "getRateLimitTtl B maxJobs = be_getRateLimitTtl B maxJobs"

definition getDebounceJobId :: "'s queue_store \<Rightarrow> string \<Rightarrow> ('s, string option) backend_op" where
  "getDebounceJobId S debounceId = qs_getDeduplicationJobId S debounceId"

definition getDeduplicationJobId :: "'s queue_store \<Rightarrow> string \<Rightarrow> ('s, string option) backend_op" where
  "getDeduplicationJobId S deduplicationId = qs_getDeduplicationJobId S deduplicationId"

definition getJobState :: "'s queue_backend \<Rightarrow> string \<Rightarrow> ('s, string) backend_op" where
  "getJobState B jobId = be_getState B (Some jobId)"

definition getJobLogs :: "'s queue_store \<Rightarrow> string \<Rightarrow> int option \<Rightarrow> int option \<Rightarrow> bool option \<Rightarrow> ('s, string list \<times> real) backend_op" where
  "getJobLogs S jobId start end asc =
     qs_getJobLogs S jobId (with_default 0 start) (with_default (-1) end) (with_default True asc)"

section \<open>Clients\<close>

text \<open>\<open>split(/\r?\n/)\<close> and \<open>split(' ')\<close>.\<close>

fun split_on :: "char \<Rightarrow> string \<Rightarrow> string list" where
  "split_on sep [] = [[]]"
| "split_on sep (c # cs) =
     (if c = sep then [] # split_on sep cs
      else case split_on sep cs of [] \<Rightarrow> [[c]] | w # ws \<Rightarrow> (c # w) # ws)"

definition chop_cr :: "string \<Rightarrow> string" where
  "chop_cr l = (if l \<noteq> [] \<and> last l = CHR 0x0D then butlast l else l)"

definition split_lines :: "string \<Rightarrow> string list" where
  "split_lines s = (let ls = split_on (CHR 0x0A) s in map chop_cr (butlast ls) @ [last ls])"

text \<open>\<open>indexOf('=')\<close> and the two substrings; without an equals sign the key is empty.\<close>

definition split_pair :: "string \<Rightarrow> string \<times> string" where
  "split_pair kv =
     (if CHR ''='' \<in> set kv
      then (takeWhile (\<lambda>c. c \<noteq> CHR ''='') kv, tl (dropWhile (\<lambda>c. c \<noteq> CHR ''='') kv))
      else ([], kv))"

definition parse_client :: "string \<Rightarrow> (string, string) jsmap" where
  "parse_client line = fold (\<lambda>kv client. map_set (fst (split_pair kv)) (snd (split_pair kv)) client) (split_on (CHR '' '') line) []"

definition parseClientList :: "string \<Rightarrow> (string option \<Rightarrow> bool) \<Rightarrow> string \<Rightarrow> (string, string) jsmap list" where
  "parseClientList queueName matcher list =
     List.map_filter (\<lambda>line.
       let client = parse_client line; name = map_get client ''name'' in
       if matcher name
       then Some (map_set ''rawname'' (render_opt name) (map_set ''name'' queueName client)) else None)
       (split_lines list)"

definition longest :: "'a list list \<Rightarrow> 'a list" where
  "longest xss = foldl (\<lambda>prev current. if length prev > length current then prev else current) [] xss"

definition baseGetClients ::
  "'s queue_store \<Rightarrow> string \<Rightarrow> (string option \<Rightarrow> bool) \<Rightarrow> ('s, (string, string) jsmap list) backend_op" where
  "baseGetClients S queueName matcher s =
     (case qs_getClientList S s of
        (Inl err, s') \<Rightarrow>
          (if \<not> clientCommandMessageReg (err_message err) then (Inl err, s')
           else (Inr [[(''name'', ''GCP does not support client list'')]], s'))
      | (Inr perNode, s') \<Rightarrow>
          (if length perNode > 1
           then (Inr (longest (map (parseClientList queueName matcher) perNode)), s')
           else (Inr (parseClientList queueName matcher (case perNode of [] \<Rightarrow> [] | l # _ \<Rightarrow> l)), s')))"

definition worker_matcher :: "string \<Rightarrow> string option \<Rightarrow> bool" where
  "worker_matcher clientName name =
     (truthy_str name \<and> (the name = clientName \<or> prefix (clientName @ '':w:'') (the name)))"

definition getWorkers :: "'s queue_store \<Rightarrow> string \<Rightarrow> string \<Rightarrow> ('s, (string, string) jsmap list) backend_op" where
  "getWorkers S queueName clientName = baseGetClients S queueName (worker_matcher clientName)"

definition getWorkersCount :: "'s queue_store \<Rightarrow> string \<Rightarrow> string \<Rightarrow> ('s, real) backend_op" where
  "getWorkersCount S queueName clientName s =
     (case getWorkers S queueName clientName s of
        (Inl e, s') \<Rightarrow> (Inl e, s')
      | (Inr workers, s') \<Rightarrow> (Inr (real (length workers)), s'))"

definition QUEUE_EVENT_SUFFIX :: string where
  "QUEUE_EVENT_SUFFIX = '':qe''"

definition getQueueEvents :: "'s queue_store \<Rightarrow> string \<Rightarrow> string \<Rightarrow> ('s, (string, string) jsmap list) backend_op" where
  "getQueueEvents S queueName clientName =
     baseGetClients S queueName (\<lambda>name. name = Some (clientName @ QUEUE_EVENT_SUFFIX))"

section \<open>Metrics\<close>

record queue_metrics =
  qm_count :: "int option"
  qm_prevTS :: "int option"
  qm_prevCount :: "int option"
  qm_data :: "real list"
  qm_total :: real

definition meta_number :: "string option list \<Rightarrow> nat \<Rightarrow> int option" where
  "meta_number meta i =
     (let v = (if i < length meta then meta ! i else None) in parseInt10 (if truthy_str v then the v else ''0''))"

definition data_point :: "string \<Rightarrow> real" where
  "data_point p = (case number_of_string p of VNum n \<Rightarrow> n | _ \<Rightarrow> 0)"

definition getMetrics :: "'s queue_store \<Rightarrow> string \<Rightarrow> int \<Rightarrow> int \<Rightarrow> ('s, queue_metrics) backend_op" where
  "getMetrics S type start end s =
     (case qs_getMetrics S type start end s of
        (Inl e, s') \<Rightarrow> (Inl e, s')
      | (Inr (meta, data, n), s') \<Rightarrow>
          (Inr \<lparr>qm_count = meta_number meta 0, qm_prevTS = meta_number meta 1, qm_prevCount = meta_number meta 2,
                qm_data = map data_point data, qm_total = n\<rparr>, s'))"

text \<open>The three replacements of escapePrometheusLabelValue, one after the other.\<close>

definition replace_char :: "char \<Rightarrow> string \<Rightarrow> string \<Rightarrow> string" where
  "replace_char c r s = concat (map (\<lambda>x. if x = c then r else [x]) s)"

definition escapePrometheusLabelValue :: "string \<Rightarrow> string" where
  "escapePrometheusLabelValue value =
     replace_char (CHR 0x0A) [CHR 0x5C, CHR ''n'']
       (replace_char (CHR 0x22) [CHR 0x5C, CHR 0x22]
          (replace_char (CHR 0x5C) [CHR 0x5C, CHR 0x5C] value))"

definition quoted :: "string \<Rightarrow> string" where
  "quoted s = [CHR 0x22] @ escapePrometheusLabelValue s @ [CHR 0x22]"

definition prometheus_variables :: "(string, string) jsmap option \<Rightarrow> string" where
  "prometheus_variables globals =
     (case globals of None \<Rightarrow> '''' | Some vars \<Rightarrow> concat (map (\<lambda>(k, v). '', '' @ k @ ''='' @ quoted v) vars))"

definition render_count :: "int option \<Rightarrow> string" where
  "render_count c = (case c of None \<Rightarrow> ''NaN'' | Some i \<Rightarrow> string_of_int i)"

definition prometheus_lines ::
  "json_lib \<Rightarrow> string \<Rightarrow> string \<Rightarrow> (string, real) jsmap \<Rightarrow> int option \<Rightarrow> int option \<Rightarrow> string list" where
  "prometheus_lines J queueName variables counts completed failed =
     [''# HELP bullmq_job_count Number of jobs in the queue by state'', ''# TYPE bullmq_job_count gauge'']
     @ map (\<lambda>(state, n). ''bullmq_job_count{queue='' @ quoted queueName @ '', state='' @ [CHR 0x22] @ state @ [CHR 0x22]
              @ variables @ ''} '' @ num_to_string J n) counts
     @ [''# HELP bullmq_job_completed_total Total number of completed jobs'',
        ''# TYPE bullmq_job_completed_total counter'',
        ''bullmq_job_completed_total{queue='' @ quoted queueName @ variables @ ''} '' @ render_count completed,
        ''# HELP bullmq_job_failed_total Total number of failed jobs'',
        ''# TYPE bullmq_job_failed_total counter'',
        ''bullmq_job_failed_total{queue='' @ quoted queueName @ variables @ ''} '' @ render_count failed]"

definition exportPrometheusMetrics ::
  "json_lib \<Rightarrow> 's queue_store \<Rightarrow> string \<Rightarrow> (string, string) jsmap option \<Rightarrow> ('s, string) backend_op" where
  "exportPrometheusMetrics J S queueName globals s =
     (case getJobCounts S [] s of
        (Inl e, s1) \<Rightarrow> (Inl e, s1)
      | (Inr counts, s1) \<Rightarrow>
          (case getMetrics S ''completed'' 0 (-1) s1 of (completed, s2) \<Rightarrow>
             case getMetrics S ''failed'' 0 (-1) s2 of (failed, s3) \<Rightarrow>
               (bind_result completed (\<lambda>c. bind_result failed (\<lambda>f.
                  Inr (join_with [CHR 0x0A]
                         (prometheus_lines J queueName (prometheus_variables globals) counts (qm_count c) (qm_count f))))), s3)))"

section \<open>Labels\<close>

definition escape_char :: "char \<Rightarrow> string" where
  "escape_char c =
     (if c = CHR 0x5C then [CHR 0x5C, CHR 0x5C]
      else if c = CHR 0x22 then [CHR 0x5C, CHR 0x22]
      else if c = CHR 0x0A then [CHR 0x5C, CHR ''n''] else [c])"

lemma replace_char_append: "replace_char c r (xs @ ys) = replace_char c r xs @ replace_char c r ys"
  by (simp add: replace_char_def)

lemma escape_charwise: "escapePrometheusLabelValue s = concat (map escape_char s)"
proof (induction s)
  case (Cons c s)
  have "escapePrometheusLabelValue (c # s) = escapePrometheusLabelValue [c] @ escapePrometheusLabelValue s"
    by (simp add: escapePrometheusLabelValue_def replace_char_append [symmetric])
  moreover have "escapePrometheusLabelValue [c] = escape_char c"
    by (simp add: escapePrometheusLabelValue_def replace_char_def escape_char_def)
  ultimately show ?case using Cons by simp
qed (simp add: escapePrometheusLabelValue_def replace_char_def)

text \<open>How a Prometheus parser reads a label value.\<close>

fun unescape :: "string \<Rightarrow> string" where
  "unescape [] = []"
| "unescape [c] = [c]"
| "unescape (c # d # s) =
     (if c = CHR 0x5C then (if d = CHR ''n'' then CHR 0x0A else d) # unescape s else c # unescape (d # s))"

lemma unescape_escape_char: "unescape (escape_char c @ s) = c # unescape s"
  by (cases s) (auto simp: escape_char_def)

text \<open>
  A label value survives the Prometheus export: a reader that undoes the escapes of the
  exposition format gets the original text back, so that distinct queue names never share a
  label, and the escaped text contains neither a line break nor an unescaped quote.
\<close>

theorem prometheus_label_roundtrip:
  "unescape (escapePrometheusLabelValue s) = s \<and> CHR 0x0A \<notin> set (escapePrometheusLabelValue s)
   \<and> (\<forall>xs ys. escapePrometheusLabelValue s = xs @ CHR 0x22 # ys \<longrightarrow> xs \<noteq> [] \<and> last xs = CHR 0x5C)"
proof -
  have "unescape (concat (map escape_char s)) = s"
    by (induction s) (simp_all add: unescape_escape_char)
  moreover have "CHR 0x0A \<notin> set (concat (map escape_char s))"
    by (auto simp: escape_char_def split: if_splits)
  moreover have "xs \<noteq> [] \<and> last xs = CHR 0x5C" if "concat (map escape_char s) = xs @ CHR 0x22 # ys" for xs ys
    using that
  proof (induction s arbitrary: xs)
    case (Cons c s)
    from Cons.prems have "(\<exists>us. xs = escape_char c @ us \<and> concat (map escape_char s) = us @ CHR 0x22 # ys)
      \<or> (\<exists>us. escape_char c = xs @ CHR 0x22 # us)"
      by (auto simp: append_eq_append_conv2 append_eq_Cons_conv Cons_eq_append_conv)
    then show ?case
    proof
      assume "\<exists>us. xs = escape_char c @ us \<and> concat (map escape_char s) = us @ CHR 0x22 # ys"
      with Cons.IH show ?thesis by auto
    next
      assume "\<exists>us. escape_char c = xs @ CHR 0x22 # us"
      then show ?thesis
        by (auto simp: escape_char_def Cons_eq_append_conv split: if_splits)
    qed
  qed simp
  ultimately show ?thesis by (simp add: escape_charwise)
qed

theorem prometheus_label_roundtrip_witness:
  "unescape (escapePrometheusLabelValue [CHR ''a'', CHR 0x22, CHR 0x0A]) = [CHR ''a'', CHR 0x22, CHR 0x0A]
   \<and> escapePrometheusLabelValue [CHR ''a'', CHR 0x22, CHR 0x0A] = [CHR ''a'', CHR 0x5C, CHR 0x22, CHR 0x5C, CHR ''n'']"
  using prometheus_label_roundtrip [of "[CHR ''a'', CHR 0x22, CHR 0x0A]"]
  by (simp add: escape_charwise escape_char_def)

section \<open>The order of ranges\<close>

text \<open>
  What the script getRanges-1.lua answers for one type, given the members of its key: lists are
  read from the other end when ascending order is asked for, sorted sets by ZRANGE or
  ZREVRANGE.
\<close>

definition list_type :: "string \<Rightarrow> bool" where
  "list_type t = (t \<in> {''wait'', ''paused'', ''active''})"

definition script_range :: "(string \<Rightarrow> string list) \<Rightarrow> bool \<Rightarrow> int \<Rightarrow> int \<Rightarrow> string \<Rightarrow> string list" where
  "script_range members asc start end t =
     (if list_type t
      then if asc then lrange (- (end + 1)) (- (start + 1)) (members t) else lrange start end (members t)
      else if asc then lrange start end (members t) else lrange start end (rev (members t)))"

definition known_types :: "string list" where
  "known_types = [''completed'', ''failed'', ''delayed'', ''prioritized'', ''repeat'', ''waiting-children'', ''active'', ''wait'', ''waiting'']"

definition alias_of :: "string \<Rightarrow> string" where
  "alias_of t = (if t = ''waiting'' then ''wait'' else t)"

text \<open>The members of a type from the oldest to the newest: jobs are pushed to the head of a
  list, sorted sets are ordered by score.\<close>

definition oldest_first :: "(string \<Rightarrow> string list) \<Rightarrow> string \<Rightarrow> string list" where
  "oldest_first members t = (if list_type (alias_of t) then rev (members (alias_of t)) else members (alias_of t))"

lemma commandByType_known:
  "set types \<subseteq> set known_types \<Longrightarrow>
     commandByType types False = map (\<lambda>t. if list_type (alias_of t) then ''lrange'' else ''zrange'') types"
  unfolding commandByType_def
  by (induction types) (auto simp: known_types_def list_type_def alias_of_def)

lemma merge_ranges_known:
  "merge_ranges asc (map (\<lambda>t. if list_type (alias_of t) then ''lrange'' else ''zrange'') types)
     (map (\<lambda>t. Some (script_range members asc start end (alias_of t))) types)
   = concat (map (\<lambda>t. lrange start end (if asc then oldest_first members t else rev (oldest_first members t))) types)"
proof (induction types)
  case (Cons t types)
  then show ?case using lrange_reversed [of "end" start "members (alias_of t)"]
    by (auto simp: script_range_def oldest_first_def with_default_def)
qed simp

text \<open>
  Ranges come back in the order that was asked for: with ascending order every type contributes
  the requested index range counted from its oldest job, otherwise from its newest, for lists
  and sorted sets alike and for all indices, and an id occurs once in the result.
\<close>

theorem getRanges_order:
  assumes "set types \<subseteq> set known_types"
    and "qs_getRanges S types start end asc s
           = (Inr (map (\<lambda>t. Some (script_range members asc start end (alias_of t))) types), s')"
  shows "getRanges_queue S types start end asc s
    = (Inr (unique_set (concat (map (\<lambda>t. lrange start end
          (if asc then oldest_first members t else rev (oldest_first members t))) types))), s')"
  using assms by (simp add: getRanges_queue_def commandByType_known merge_ranges_known)

section \<open>Counts\<close>

lemma collect_counts_zip:
  assumes "distinct types" and "length responses = length types" and "set types \<inter> set (map_keys counts) = {}"
  shows "collect_counts counts types responses = counts @ zip types (map count_or_zero responses)"
  using assms
proof (induction types responses arbitrary: counts rule: list_induct2')
  case (4 t types res responses)
  then have "collect_counts (map_set t (count_or_zero res) counts) types responses
    = map_set t (count_or_zero res) counts @ zip types (map count_or_zero responses)"
    by (intro 4(1)) (auto simp: map_keys_set)
  with 4 show ?case by (simp add: map_set_fresh)
qed auto

text \<open>
  Counting jobs by types adds every requested type once: for a store that answers one count per
  type, getJobCountByTypes is the sum over the distinct types asked for, missing counts being 0,
  and without types over the seven states of a job.
\<close>

theorem getJobCountByTypes_sum:
  assumes "qs_getCounts S (sanitizeJobTypes types) s = (Inr (map f (sanitizeJobTypes types)), s')"
  shows "getJobCountByTypes S types s
    = (Inr (\<Sum>t \<in> (if types = [] then set all_job_types else set types). count_or_zero (f t)), s')"
proof -
  let ?ts = "sanitizeJobTypes types"
  have d: "distinct ?ts" by (simp add: sanitizeJobTypes_def all_job_types_def)
  have st: "set ?ts = (if types = [] then set all_job_types else set types)" by (simp add: sanitizeJobTypes_def)
  have add: "fold (\<lambda>(k :: string, n) acc. acc + n) xs (a :: real) = a + sum_list (map snd xs)" for xs a
    by (induction xs arbitrary: a) auto
  from collect_counts_zip [OF d, of "map f ?ts" "[]"]
  have "collect_counts [] ?ts (map f ?ts) = zip ?ts (map (count_or_zero \<circ> f) ?ts)" by simp
  moreover have "sum_list (map snd (zip ?ts (map (count_or_zero \<circ> f) ?ts))) = (\<Sum>t \<in> set ?ts. count_or_zero (f t))"
    using d by (simp add: sum_list_distinct_conv_sum_set)
  ultimately show ?thesis using assms st by (simp add: getJobCountByTypes_def getJobCounts_def Let_def add)
qed

theorem getJobCountByTypes_sum_witness:
  "fst (getJobCountByTypes log_store [''waiting'', ''delayed'', ''waiting''] []) = Inr 2"
  using getJobCountByTypes_sum [of log_store "[''waiting'', ''delayed'', ''waiting'']" "[]" "\<lambda>_. Some 1" "[''getCounts'']"]
  by (simp add: log_store_ops logged_def count_or_zero_def with_default_def insert_commute)

theorem getRanges_order_witness:
  "fst (getRanges_queue
      (log_store\<lparr>qs_getRanges := (\<lambda>ts a b asc. logged ''getRanges''
          (map (\<lambda>t. Some (script_range (\<lambda>_. [''3'', ''2'', ''1'']) asc a b (alias_of t))) ts))\<rparr>)
      [''waiting''] 0 1 True []) = Inr [''1'', ''2'']"
  by (subst getRanges_order [where members = "\<lambda>_. [''3'', ''2'', ''1'']" and s' = "[''getRanges'']"])
     (simp_all add: known_types_def logged_def oldest_first_def list_type_def alias_of_def lrange_def unique_set_def)

end
