(* ===== verification/Queue_Api.thy ===== *)
theory Queue_Api
  imports Queue_Getters Job_Scheduler
begin

text \<open>
  The Queue class, src/classes/queue.ts: adding jobs, schedulers, pausing, and the maintenance
  operations, several of which call the datastore in a loop until nothing is left. An operation
  runs on the world of the queue (the datastore and the events emitted so far); \<open>None\<close> is a
  loop that does not end. Spans only record attributes and are left out, except that the
  propagation metadata of the active span (\<open>src\<close>) ends up in the options of new jobs.
\<close>

record queue_cfg =
  qc_name :: string
  qc_jobsOpts :: jsobj
  qc_opts :: jsobj
  qc_closing :: bool

definition new_Queue :: "string \<Rightarrow> jsobj option \<Rightarrow> queue_cfg" where
  "new_Queue name opts =
     \<lparr>qc_name = name,
      qc_jobsOpts = (case oprop (with_default [] opts) ''defaultJobOptions'' of VObj jobOpts \<Rightarrow> jobOpts | _ \<Rightarrow> []),
      qc_opts = with_default [] opts, qc_closing = False\<rparr>"

definition defaultJobOptions :: "queue_cfg \<Rightarrow> jsobj" where
  "defaultJobOptions Q = object_assign [] (qc_jobsOpts Q)"

section \<open>Metadata\<close>

definition metaValues :: "string \<Rightarrow> queue_cfg \<Rightarrow> jsobj" where
  "metaValues version Q =
     [(''opts.maxLenEvents'',
       nullish_or (vprop (vprop (oprop (qc_opts Q) ''streams'') ''events'') ''maxLen'') (VNum 10000)),
      (''version'', VStr (''bullmq:'' @ version))]"

text \<open>The constructor's promise: write the metadata once the connection is ready; errors are
  swallowed.\<close>

definition queueMetaInitialized ::
  "string \<Rightarrow> queue_cfg \<Rightarrow> 's queue_backend \<Rightarrow> 's queue_store \<Rightarrow> 's \<Rightarrow> 's" where
  "queueMetaInitialized version Q B S s =
     (case be_waitUntilReady B s of
        (Inl _, s') \<Rightarrow> s'
      | (Inr _, s') \<Rightarrow>
          (if \<not> qc_closing Q \<and> \<not> truthy (oprop (qc_opts Q) ''skipMetasUpdate'')
           then snd (qs_setQueueMeta S (metaValues version Q) s') else s'))"

definition getVersion :: "string \<Rightarrow> queue_cfg \<Rightarrow> 's queue_backend \<Rightarrow> 's queue_store \<Rightarrow> ('s, string option) backend_op" where
  "getVersion version Q B S s =
     qs_getQueueMetaField S ''version''
       (if \<not> truthy (oprop (qc_opts Q) ''skipMetasUpdate'') then queueMetaInitialized version Q B S s else s)"

definition setGlobalConcurrency :: "'s queue_store \<Rightarrow> real \<Rightarrow> ('s, real) backend_op" where
  "setGlobalConcurrency S concurrency = qs_setQueueMeta S [(''concurrency'', VNum concurrency)]"

definition setGlobalRateLimit :: "'s queue_store \<Rightarrow> real \<Rightarrow> real \<Rightarrow> ('s, real) backend_op" where
  "setGlobalRateLimit S mx duration = qs_setQueueMeta S [(''max'', VNum mx), (''duration'', VNum duration)]"

definition removeGlobalConcurrency :: "'s queue_store \<Rightarrow> ('s, real) backend_op" where
  "removeGlobalConcurrency S = qs_removeQueueMetaFields S [''concurrency'']"

definition removeGlobalRateLimit :: "'s queue_store \<Rightarrow> ('s, real) backend_op" where
  "removeGlobalRateLimit S = qs_removeQueueMetaFields S [''max'', ''duration'']"

section \<open>Adding jobs\<close>

definition check_zero_id :: "string option \<Rightarrow> jsval \<Rightarrow> (js_error, unit) result" where
  "check_zero_id stk jobId =
     (let zero = Inl (new_err ErrorClass stk (''JobId cannot be '' @ [CHR 0x27] @ ''0'' @ [CHR 0x27] @ '' or start with ''
                   @ [CHR 0x27] @ ''0:'' @ [CHR 0x27]))
      in case jobId of
           VStr s \<Rightarrow> if s = ''0'' \<or> prefix ''0:'' s then zero else Inr ()
         | VNum n \<Rightarrow> if n = 0 then zero
                     else Inl (new_err TypeErrorClass stk ''jobId.startsWith is not a function'')
         | _ \<Rightarrow> Inr ())"

definition merge_opts :: "jsobj \<Rightarrow> jsobj option \<Rightarrow> jsobj" where
  "merge_opts jobsOpts opts =
     map_set ''jobId'' (oprop (with_default [] opts) ''jobId'')
       (object_assign (object_assign [] jobsOpts) (with_default [] opts))"

definition addJob_queue ::
  "json_lib \<Rightarrow> string option \<Rightarrow> real \<Rightarrow> queue_cfg \<Rightarrow> 's queue_backend \<Rightarrow> string \<Rightarrow> jsval \<Rightarrow> jsobj option \<Rightarrow> ('s, job) queue_op" where
  "addJob_queue J stk now Q B name data opts =
     (case check_zero_id stk (oprop (with_default [] opts) ''jobId'') of
        Inl e \<Rightarrow> q_throw e
      | Inr _ \<Rightarrow>
          q_then (q_call (create J stk B now name data (Some (merge_opts (qc_jobsOpts Q) opts)))) (\<lambda>job.
          q_then (q_emit (EvWaiting job)) (\<lambda>_. q_ret job)))"

definition add ::
  "json_lib \<Rightarrow> string option \<Rightarrow> real \<Rightarrow> queue_cfg \<Rightarrow> 's queue_backend \<Rightarrow> string option \<Rightarrow> string \<Rightarrow> jsval \<Rightarrow> jsobj option
     \<Rightarrow> ('s, job) queue_op" where
  "add J stk now Q B src name data opts =
     addJob_queue J stk now Q B name data
       (if truthy_str src \<and> \<not> truthy (vprop (oprop (with_default [] opts) ''telemetry'') ''omitContext'')
        then Some (map_set ''telemetry'' (VObj [(''metadata'', opt_str_val src)]) (with_default [] opts)) else opts)"

definition bulk_telemetry :: "string option \<Rightarrow> jsobj option \<Rightarrow> jsval" where
  "bulk_telemetry src opts =
     (let telemetry = oprop (with_default [] opts) ''telemetry'' in
      if truthy_str src
      then let omitContext = vprop telemetry ''omitContext'';
               telemetryMetadata =
                 logical_or (vprop telemetry ''metadata'') (if truthy omitContext then VBool False else opt_str_val src)
           in if truthy telemetryMetadata \<or> truthy omitContext
              then VObj [(''metadata'', telemetryMetadata), (''omitContext'', omitContext)] else telemetry
      else telemetry)"

definition bulk_job :: "queue_cfg \<Rightarrow> string option \<Rightarrow> string \<times> jsval \<times> jsobj option \<Rightarrow> string \<times> jsval \<times> jsobj option" where
  "bulk_job Q src j =
     (case j of (name, data, opts) \<Rightarrow>
        (name, data, Some (map_set ''telemetry'' (bulk_telemetry src opts) (merge_opts (qc_jobsOpts Q) opts))))"

definition addBulk ::
  "json_lib \<Rightarrow> string option \<Rightarrow> real \<Rightarrow> queue_cfg \<Rightarrow> 's queue_backend \<Rightarrow> string option
     \<Rightarrow> (string \<times> jsval \<times> jsobj option) list \<Rightarrow> ('s, job list) queue_op" where
  "addBulk J stk now Q B src jobs = q_call (createBulk J stk B now (map (bulk_job Q src) jobs))"

section \<open>Schedulers\<close>

record job_template =
  jt_name :: "string option"
  jt_data :: jsval
  jt_opts :: jsobj

definition upsertJobScheduler_queue ::
  "json_lib \<Rightarrow> string option \<Rightarrow> repeat_strategy \<Rightarrow> real \<Rightarrow> queue_cfg \<Rightarrow> 's queue_backend \<Rightarrow> string option \<Rightarrow> string \<Rightarrow> jsobj
     \<Rightarrow> job_template option \<Rightarrow> ('s, job option) queue_op" where
  "upsertJobScheduler_queue J stk strategy now Q B src jobSchedulerId repeatOpts template =
     (if truthy (oprop repeatOpts ''endDate'')
         \<and> js_less (date_millis J (oprop repeatOpts ''endDate'')) (VNum now)
      then q_throw (new_err ErrorClass stk ''End date must be greater than current timestamp'')
      else q_call
        (upsertJobScheduler J stk strategy B now src jobSchedulerId repeatOpts
           (Some (case template of Some t \<Rightarrow> with_default jobSchedulerId (jt_name t) | None \<Rightarrow> jobSchedulerId))
           (nullish_or (case template of Some t \<Rightarrow> jt_data t | None \<Rightarrow> VUndef) (VObj []))
           (object_assign (object_assign [] (qc_jobsOpts Q)) (case template of Some t \<Rightarrow> jt_opts t | None \<Rightarrow> []))
           True None))"

definition removeJobScheduler :: "'s queue_backend \<Rightarrow> string \<Rightarrow> ('s, bool) queue_op" where
  "removeJobScheduler B jobSchedulerId =
     q_then (q_call (be_removeJobScheduler B jobSchedulerId)) (\<lambda>removed. q_ret (removed = 0))"

definition getJobScheduler_queue :: "json_lib \<Rightarrow> string option \<Rightarrow> 's queue_backend \<Rightarrow> string \<Rightarrow> ('s, scheduler_json option) queue_op" where
  "getJobScheduler_queue J stk B schedulerId = q_call (getScheduler J stk B schedulerId)"

text \<open>The defaults of the three arguments are those of the scheduler's method.\<close>

definition getJobSchedulers_queue ::
  "json_lib \<Rightarrow> string option \<Rightarrow> 's queue_backend \<Rightarrow> int option \<Rightarrow> int option \<Rightarrow> bool option \<Rightarrow> ('s, scheduler_json list) queue_op" where
  "getJobSchedulers_queue J stk B start end asc =
     q_call (getJobSchedulers J stk B (with_default 0 start) (with_default (-1) end) (with_default False asc))"

definition removeDebounceKey :: "'s queue_store \<Rightarrow> string \<Rightarrow> ('s, real) queue_op" where
  "removeDebounceKey S debounceId = q_call (qs_deleteDeduplicationKey S debounceId)"

definition removeRateLimitKey_queue :: "'s queue_store \<Rightarrow> ('s, real) queue_op" where
  "removeRateLimitKey_queue S = q_call (qs_removeRateLimitKey S)"

section \<open>Pausing, limits, single jobs\<close>

definition pause :: "'s queue_store \<Rightarrow> ('s, unit) queue_op" where
  "pause S = q_then (q_loop (qs_pause S True)) (\<lambda>_. q_emit EvPaused)"

definition resume :: "'s queue_store \<Rightarrow> ('s, unit) queue_op" where
  "resume S = q_then (q_loop (qs_pause S False)) (\<lambda>_. q_emit EvResumed)"

definition isPaused :: "'s queue_store \<Rightarrow> ('s, bool) backend_op" where
  "isPaused S = qs_hasQueueMetaField S ''paused''"

definition isMaxed :: "'s queue_store \<Rightarrow> ('s, bool) backend_op" where
  "isMaxed S = qs_isMaxed S"

definition rateLimit :: "'s queue_store \<Rightarrow> real \<Rightarrow> ('s, unit) backend_op" where
  "rateLimit S expireTimeMs = qs_setRateLimit S expireTimeMs"

definition removeDeduplicationKey_queue :: "'s queue_store \<Rightarrow> string \<Rightarrow> ('s, real) backend_op" where
  "removeDeduplicationKey_queue S deduplicationId = qs_deleteDeduplicationKey S deduplicationId"

definition remove :: "'s queue_backend \<Rightarrow> string \<Rightarrow> bool option \<Rightarrow> ('s, real) queue_op" where
  "remove B jobId removeChildren =
     q_then (q_call (be_remove B (Some jobId) (with_default True removeChildren))) (\<lambda>code.
       if code = 1 then q_then (q_emit (EvRemoved jobId)) (\<lambda>_. q_ret code) else q_ret code)"

definition updateJobProgress :: "'s queue_backend \<Rightarrow> string \<Rightarrow> jsval \<Rightarrow> ('s, unit) queue_op" where
  "updateJobProgress B jobId progress =
     q_then (q_call (be_updateProgress B (Some jobId) progress)) (\<lambda>_. q_emit (EvProgress jobId progress))"

definition addJobLog_queue :: "'s queue_backend \<Rightarrow> string \<Rightarrow> string \<Rightarrow> jsval \<Rightarrow> ('s, real) queue_op" where
  "addJobLog_queue B jobId logRow keepLogs = q_call (addJobLog B (Some jobId) logRow keepLogs)"

definition drain :: "'s queue_store \<Rightarrow> bool \<Rightarrow> ('s, unit) queue_op" where
  "drain S delayed = q_call (qs_drain S delayed)"

definition trimEvents :: "'s queue_store \<Rightarrow> real \<Rightarrow> ('s, real) queue_op" where
  "trimEvents S maxLength = q_call (qs_trimEvents S maxLength)"

definition removeDeprecatedPriorityKey :: "'s queue_store \<Rightarrow> ('s, real) queue_op" where
  "removeDeprecatedPriorityKey S = q_call (qs_removeDeprecatedPriorityKey S)"

definition removeOrphanedJobs :: "'s queue_store \<Rightarrow> real option \<Rightarrow> real option \<Rightarrow> ('s, real) queue_op" where
  "removeOrphanedJobs S batch limit = q_loop (qs_removeOrphanedJobs S (with_default 1000 batch) (with_default 0 limit))"

section \<open>Loops\<close>

text \<open>\<open>limit || Infinity\<close> and \<open>Math.min(10000, maxCount)\<close>.\<close>

definition max_count :: "real \<Rightarrow> jsnum" where
  "max_count limit = (if limit \<noteq> 0 then Fin limit else Infinity)"

definition max_per_call :: "jsnum \<Rightarrow> real" where
  "max_per_call m = (case m of Fin n \<Rightarrow> min 10000 n | Infinity \<Rightarrow> 10000)"

definition below :: "real \<Rightarrow> jsnum \<Rightarrow> bool" where
  "below n m = (case m of Fin k \<Rightarrow> n < k | Infinity \<Rightarrow> True)"

definition emit_event :: "queue_event \<Rightarrow> 's qworld \<Rightarrow> 's qworld" where
  "emit_event ev w = w\<lparr>qw_events := qw_events w @ [ev]\<rparr>"

partial_function (option) clean_loop ::
  "'s queue_store \<Rightarrow> string \<Rightarrow> real \<Rightarrow> jsnum \<Rightarrow> string list \<Rightarrow> ('s, string list) queue_op" where
  "clean_loop S type timestamp maxCount deleted w =
     (if \<not> below (real (length deleted)) maxCount then Some (Inr deleted, w)
      else case qs_cleanJobsByState S type timestamp (max_per_call maxCount) (qw_store w) of
             (Inl e, s') \<Rightarrow> Some (Inl e, w\<lparr>qw_store := s'\<rparr>)
           | (Inr ids, s') \<Rightarrow>
               (if real (length ids) < max_per_call maxCount
                then Some (Inr (deleted @ ids), emit_event (EvCleaned ids type) (w\<lparr>qw_store := s'\<rparr>))
                else clean_loop S type timestamp maxCount (deleted @ ids)
                       (emit_event (EvCleaned ids type) (w\<lparr>qw_store := s'\<rparr>))))"

definition clean :: "real \<Rightarrow> 's queue_store \<Rightarrow> real \<Rightarrow> real \<Rightarrow> string option \<Rightarrow> ('s, string list) queue_op" where
  "clean now S grace limit type =
     (let t = with_default ''completed'' type
      in clean_loop S (if t = ''waiting'' then ''wait'' else t) (now - grace) (max_count limit) [])"

text \<open>\<open>do { cursor = await call } while (cursor)\<close>.\<close>

partial_function (option) cursor_loop :: "('s, real) backend_op \<Rightarrow> ('s, unit) queue_op" where
  "cursor_loop call w =
     (case call (qw_store w) of
        (Inl e, s') \<Rightarrow> Some (Inl e, w\<lparr>qw_store := s'\<rparr>)
      | (Inr cursor, s') \<Rightarrow>
          (if cursor \<noteq> 0 then cursor_loop call (w\<lparr>qw_store := s'\<rparr>) else Some (Inr (), w\<lparr>qw_store := s'\<rparr>)))"

definition obliterate :: "'s queue_store \<Rightarrow> bool option \<Rightarrow> real option \<Rightarrow> ('s, unit) queue_op" where
  "obliterate S force batch =
     q_then (pause S) (\<lambda>_. cursor_loop (qs_obliterate S (with_default False force) (with_default 1000 batch)))"

definition retryJobs :: "'s queue_store \<Rightarrow> string option \<Rightarrow> real option \<Rightarrow> real option \<Rightarrow> ('s, unit) queue_op" where
  "retryJobs S state batch timestamp = cursor_loop (qs_retryFinishedJobs S state batch timestamp)"

definition promoteJobs :: "'s queue_store \<Rightarrow> real option \<Rightarrow> ('s, unit) queue_op" where
  "promoteJobs S batch = cursor_loop (qs_promoteJobs S batch)"

section \<open>Cleaning\<close>

text \<open>What the loop needs of the datastore: a call deletes at most as many jobs as it was asked
  to, and what it returns is what it deleted.\<close>

definition cleans :: "'s queue_store \<Rightarrow> string \<Rightarrow> ('s \<Rightarrow> nat) \<Rightarrow> bool" where
  "cleans S type stored \<longleftrightarrow>
     (\<forall>t n s. case qs_cleanJobsByState S type t n s of
                (Inl _, s') \<Rightarrow> stored s' \<le> stored s
              | (Inr ids, s') \<Rightarrow> real (length ids) \<le> max 0 n \<and> stored s' + length ids = stored s)"

lemma cleansD:
  assumes "cleans S type stored" and "qs_cleanJobsByState S type t n s = (Inr ids, s')"
  shows "real (length ids) \<le> max 0 n" and "stored s' + length ids = stored s"
  using assms unfolding cleans_def by (fastforce split: prod.splits sum.splits)+

text \<open>What a finished loop has done: it deleted what it returned and what its events reported,
  never more than one batch past the limit, and it stopped for one of its two reasons.\<close>

definition clean_done ::
  "('s \<Rightarrow> nat) \<Rightarrow> string \<Rightarrow> jsnum \<Rightarrow> string list \<Rightarrow> 's qworld \<Rightarrow> (js_error, string list) result \<Rightarrow> 's qworld \<Rightarrow> bool" where
  "clean_done stored type m deleted w r w' \<longleftrightarrow>
     (\<forall>ids. r = Inr ids \<longrightarrow> (\<exists>batches. ids = deleted @ concat batches
        \<and> qw_events w' = qw_events w @ map (\<lambda>b. EvCleaned b type) batches
        \<and> stored (qw_store w') + length (concat batches) = stored (qw_store w)
        \<and> (\<forall>n. m = Fin n \<longrightarrow> real (length deleted) < n + max_per_call m \<longrightarrow> real (length ids) < n + max_per_call m)
        \<and> (below (real (length ids)) m \<longrightarrow> batches \<noteq> [] \<and> real (length (last batches)) < max_per_call m)))"

lemma clean_done_stop: "\<not> below (real (length deleted)) m \<Longrightarrow> clean_done stored type m deleted w (Inr deleted) w"
  unfolding clean_done_def by (intro allI impI exI[of _ "[]"]) auto

lemma clean_done_batch:
  assumes "stored s' + length b = stored (qw_store w)" "real (length b) \<le> max_per_call m"
    and "below (real (length deleted)) m"
    and "clean_done stored type m (deleted @ b) (emit_event (EvCleaned b type) (w\<lparr>qw_store := s'\<rparr>)) r w'"
  shows "clean_done stored type m deleted w r w'"
  unfolding clean_done_def
proof (intro allI impI)
  fix ids assume "r = Inr ids"
  with assms(4) obtain batches where B: "ids = (deleted @ b) @ concat batches"
    "qw_events w' = qw_events w @ [EvCleaned b type] @ map (\<lambda>b. EvCleaned b type) batches"
    "stored (qw_store w') + length (concat batches) = stored s'"
    "\<forall>n. m = Fin n \<longrightarrow> real (length (deleted @ b)) < n + max_per_call m \<longrightarrow> real (length ids) < n + max_per_call m"
    "below (real (length ids)) m \<longrightarrow> batches \<noteq> [] \<and> real (length (last batches)) < max_per_call m"
    by (auto simp: clean_done_def emit_event_def)
  have "real (length (deleted @ b)) < n + max_per_call m" if "m = Fin n" for n
    using assms(2,3) that by (simp add: below_def)
  with B assms(1) show "\<exists>batches. ids = deleted @ concat batches
      \<and> qw_events w' = qw_events w @ map (\<lambda>b. EvCleaned b type) batches
      \<and> stored (qw_store w') + length (concat batches) = stored (qw_store w)
      \<and> (\<forall>n. m = Fin n \<longrightarrow> real (length deleted) < n + max_per_call m \<longrightarrow> real (length ids) < n + max_per_call m)
      \<and> (below (real (length ids)) m \<longrightarrow> batches \<noteq> [] \<and> real (length (last batches)) < max_per_call m)"
    by (intro exI[of _ "b # batches"]) auto
qed

lemma clean_done_short:
  assumes "stored s' + length b = stored (qw_store w)" "real (length b) < max_per_call m"
    and "below (real (length deleted)) m"
  shows "clean_done stored type m deleted w (Inr (deleted @ b)) (emit_event (EvCleaned b type) (w\<lparr>qw_store := s'\<rparr>))"
  unfolding clean_done_def using assms
  by (intro allI impI exI[of _ "[b]"]) (auto simp: emit_event_def below_def)

lemma clean_loop_done:
  assumes C: "cleans S type stored" and pos: "0 < max_per_call m"
  shows "\<exists>r w'. clean_loop S type t m deleted w = Some (r, w') \<and> clean_done stored type m deleted w r w'"
proof (induction "stored (qw_store w)" arbitrary: w deleted rule: less_induct)
  case less
  obtain r s' where call: "qs_cleanJobsByState S type t (max_per_call m) (qw_store w) = (r, s')" by fastforce
  consider "\<not> below (real (length deleted)) m"
    | e where "below (real (length deleted)) m" "r = Inl e"
    | ids where "below (real (length deleted)) m" "r = Inr ids"
    by (cases r) auto
  then show ?case
  proof cases
    case 1
    then have "clean_loop S type t m deleted w = Some (Inr deleted, w)" by (subst clean_loop.simps) simp
    then show ?thesis using clean_done_stop[OF 1] by blast
  next
    case 2
    then show ?thesis using call by (subst clean_loop.simps) (simp add: clean_done_def)
  next
    case (3 b)
    let ?w = "emit_event (EvCleaned b type) (w\<lparr>qw_store := s'\<rparr>)"
    have del: "real (length b) \<le> max_per_call m" "stored s' + length b = stored (qw_store w)"
      using cleansD[OF C, of t "max_per_call m" "qw_store w" b s'] call 3 pos by auto
    show ?thesis
    proof (cases "real (length b) < max_per_call m")
      case True
      then have "clean_loop S type t m deleted w = Some (Inr (deleted @ b), ?w)"
        using call 3 by (subst clean_loop.simps) simp
      then show ?thesis using clean_done_short[where stored = stored, OF del(2) True 3(1)] by blast
    next
      case False
      then have "0 < length b" using pos by (cases b) auto
      then have "stored s' < stored (qw_store w)" using del(2) by linarith
      then have "stored (qw_store ?w) < stored (qw_store w)" by (simp add: emit_event_def)
      from less[OF this, of "deleted @ b"] obtain r' w' where
        rec: "clean_loop S type t m (deleted @ b) ?w = Some (r', w')"
          "clean_done stored type m (deleted @ b) ?w r' w'" by blast
      have "clean_loop S type t m deleted w = Some (r', w')"
        using call 3 False rec(1) by (subst clean_loop.simps) simp
      then show ?thesis using clean_done_batch[OF del(2,1) 3(1) rec(2)] by blast
    qed
  qed
qed

lemma clean_small_limit:
  assumes C: "cleans S type stored" and "0 < n" "n \<le> 10000"
    and "clean_loop S type t (Fin n) [] w = Some (Inr ids, w')"
  shows "real (length ids) \<le> n"
proof (cases "qs_cleanJobsByState S type t n (qw_store w)")
  case (Pair r s')
  have mpc: "max_per_call (Fin n) = n" using assms(3) by (simp add: max_per_call_def)
  show ?thesis
  proof (cases r)
    case (Inl e)
    then show ?thesis using assms(2,4) Pair mpc by (subst (asm) clean_loop.simps) (simp add: below_def)
  next
    case (Inr b)
    then have le: "real (length b) \<le> n" using cleansD(1)[OF C] Pair assms(2) by fastforce
    show ?thesis
    proof (cases "real (length b) < n")
      case True
      then show ?thesis using assms(2,4) Pair mpc Inr by (subst (asm) clean_loop.simps) (simp add: below_def)
    next
      case False
      then have "clean_loop S type t (Fin n) b (emit_event (EvCleaned b type) (w\<lparr>qw_store := s'\<rparr>)) = Some (Inr ids, w')"
        using assms(2,4) Pair mpc Inr by (subst (asm) clean_loop.simps) (simp add: below_def)
      then have "ids = b" using False by (subst (asm) clean_loop.simps) (simp add: below_def)
      then show ?thesis using le by simp
    qed
  qed
qed

text \<open>
  C20. clean always returns on a datastore that deletes what it reports and at most what it is
  asked to. On success the returned ids are those of its cleaned events, batch by batch, and
  exactly the jobs the datastore lost; with a limit up to 10000 there are at most that many, with
  a larger limit fewer than the limit plus one batch; and fewer than the limit only when the
  last call found less than a full batch.
\<close>

theorem clean_bounded:
  assumes "cleans S (if with_default ''completed'' type = ''waiting'' then ''wait'' else with_default ''completed'' type) stored"
    and "0 \<le> limit"
  shows "\<exists>r w'. clean now S grace limit type w = Some (r, w')
     \<and> (\<forall>ids. r = Inr ids \<longrightarrow>
          (\<exists>batches ty. ids = concat batches \<and> qw_events w' = qw_events w @ map (\<lambda>b. EvCleaned b ty) batches
             \<and> stored (qw_store w') + length ids = stored (qw_store w)
             \<and> (0 < limit \<longrightarrow> real (length ids) < limit + min 10000 limit)
             \<and> (0 < limit \<and> limit \<le> 10000 \<longrightarrow> real (length ids) \<le> limit)
             \<and> (limit = 0 \<or> real (length ids) < limit \<longrightarrow> batches \<noteq> [] \<and> length (last batches) < 10000)))"
proof -
  let ?ty = "if with_default ''completed'' type = ''waiting'' then ''wait'' else with_default ''completed'' type"
  have pos: "0 < max_per_call (max_count limit)" using assms(2) by (simp add: max_per_call_def max_count_def)
  from clean_loop_done[OF assms(1) pos, of "now - grace" "[]" w] obtain r w' where
    L: "clean_loop S ?ty (now - grace) (max_count limit) [] w = Some (r, w')"
    and D: "clean_done stored ?ty (max_count limit) [] w r w'" by blast
  have small: "real (length ids) \<le> limit" if "0 < limit" "limit \<le> 10000" "r = Inr ids" for ids
    using clean_small_limit[OF assms(1) that(1,2)] L that by (simp add: max_count_def)
  have "clean now S grace limit type w = Some (r, w')" using L by (simp add: clean_def Let_def)
  moreover have "\<exists>batches ty. ids = concat batches \<and> qw_events w' = qw_events w @ map (\<lambda>b. EvCleaned b ty) batches
      \<and> stored (qw_store w') + length ids = stored (qw_store w)
      \<and> (0 < limit \<longrightarrow> real (length ids) < limit + min 10000 limit)
      \<and> (0 < limit \<and> limit \<le> 10000 \<longrightarrow> real (length ids) \<le> limit)
      \<and> (limit = 0 \<or> real (length ids) < limit \<longrightarrow> batches \<noteq> [] \<and> length (last batches) < 10000)"
    if r: "r = Inr ids" for ids
  proof -
    from D r obtain batches where B: "ids = concat batches"
      "qw_events w' = qw_events w @ map (\<lambda>b. EvCleaned b ?ty) batches"
      "stored (qw_store w') + length ids = stored (qw_store w)"
      "\<forall>n. max_count limit = Fin n \<longrightarrow> 0 < n + max_per_call (max_count limit) \<longrightarrow> real (length ids) < n + max_per_call (max_count limit)"
      "below (real (length ids)) (max_count limit) \<longrightarrow> batches \<noteq> [] \<and> real (length (last batches)) < max_per_call (max_count limit)"
      by (auto simp: clean_done_def)
    have "real (length ids) < limit + min 10000 limit" if "0 < limit"
      using B(4) that by (simp add: max_count_def max_per_call_def)
    moreover have "batches \<noteq> [] \<and> length (last batches) < 10000" if "limit = 0 \<or> real (length ids) < limit"
      using B(5) that by (auto simp: max_count_def max_per_call_def below_def)
    ultimately show ?thesis using B(1,2,3) small[OF _ _ r] by (intro exI[of _ batches] exI[of _ ?ty]) blast
  qed
  ultimately show ?thesis by blast
qed

text \<open>A datastore that holds the ids of the jobs of one type and deletes the oldest first.\<close>

definition pile_store :: "string list queue_store" where
  "pile_store = log_store\<lparr>qs_cleanJobsByState := (\<lambda>_ _ n s. (Inr (take (nat \<lfloor>n\<rfloor>) s), drop (nat \<lfloor>n\<rfloor>) s))\<rparr>"

lemma pile_store_cleans: "cleans pile_store type length"
  by (auto simp: cleans_def pile_store_def le_nat_iff) linarith+

lemma pile_clean: "qs_cleanJobsByState pile_store type t 10000 s = (Inr (take 10000 s), drop 10000 s)"
  by (simp add: pile_store_def)

theorem clean_bounded_witness:
  "\<exists>r w'. clean 9 pile_store 4 2 None \<lparr>qw_store = [''a'', ''b'', ''c''], qw_events = []\<rparr> = Some (r, w')
     \<and> (\<forall>ids. r = Inr ids \<longrightarrow> length ids \<le> 2)"
  using clean_bounded [where type = None and now = 9 and grace = 4 and w = "\<lparr>qw_store = [''a'', ''b'', ''c''], qw_events = []\<rparr>",
      OF pile_store_cleans, of 2]
  by fastforce

text \<open>
  The limit of clean is rounded up to whole batches of 10000: with limit 15000 and enough
  jobs, 20000 jobs are deleted.
\<close>

theorem clean_overshoots:
  assumes "20000 \<le> length jobs"
  shows "clean now pile_store grace 15000 None \<lparr>qw_store = jobs, qw_events = evs\<rparr>
           = Some (Inr (take 20000 jobs),
                   \<lparr>qw_store = drop 20000 jobs,
                    qw_events = evs @ [EvCleaned (take 10000 jobs) ''completed'',
                                       EvCleaned (take 10000 (drop 10000 jobs)) ''completed'']\<rparr>)"
proof -
  have mpc: "max_per_call (Fin 15000) = 10000" by (simp add: max_per_call_def)
  have split: "take 10000 jobs @ take 10000 (drop 10000 jobs) = take 20000 jobs"
    using take_add[of 10000 10000 jobs] by simp
  let ?w = "\<lambda>n bs. \<lparr>qw_store = drop n jobs, qw_events = evs @ map (\<lambda>b. EvCleaned b ''completed'') bs\<rparr>"
  have "clean_loop pile_store ''completed'' (now - grace) (Fin 15000) [] (?w 0 [])
      = clean_loop pile_store ''completed'' (now - grace) (Fin 15000) (take 10000 jobs) (?w 10000 [take 10000 jobs])"
    using assms by (subst clean_loop.simps) (simp add: mpc pile_clean below_def emit_event_def)
  also have "\<dots> = clean_loop pile_store ''completed'' (now - grace) (Fin 15000) (take 20000 jobs)
      (?w 20000 [take 10000 jobs, take 10000 (drop 10000 jobs)])"
    using assms by (subst clean_loop.simps) (simp add: mpc pile_clean below_def emit_event_def split)
  also have "\<dots> = Some (Inr (take 20000 jobs), ?w 20000 [take 10000 jobs, take 10000 (drop 10000 jobs)])"
    using assms by (subst clean_loop.simps) (simp add: below_def)
  finally show ?thesis by (simp add: clean_def with_default_def max_count_def)
qed

theorem clean_overshoots_witness:
  "\<exists>ids w'. clean 9 pile_store 4 15000 None \<lparr>qw_store = replicate 30000 ''a'', qw_events = []\<rparr> = Some (Inr ids, w')
     \<and> length ids = 20000"
  using clean_overshoots [of "replicate 30000 ''a''" 9 4 "[]"] by simp

section \<open>Bulk insertion\<close>

definition valid_entry :: "json_lib \<Rightarrow> string option \<Rightarrow> job \<Rightarrow> add_entry \<Rightarrow> bool" where
  "valid_entry J stk job en \<longleftrightarrow>
     asJSON J job = Inr (ae_job en) \<and> validateOptions J stk job (ae_job en) = Inr ()
     \<and> ae_jobId en = j_id job \<and> ae_parentKeyOpts en = parent_link job"

lemma bulk_entries_valid: "bulk_entries J stk jobs = Inr entries \<Longrightarrow> list_all2 (valid_entry J stk) jobs entries"
  by (induction jobs arbitrary: entries) (auto simp: valid_entry_def split: sum.splits)

lemma bulk_entries_total:
  "\<forall>job\<in>set jobs. \<exists>en. valid_entry J stk job en \<Longrightarrow> \<exists>entries. bulk_entries J stk jobs = Inr entries"
  by (induction jobs) (auto simp: valid_entry_def)

lemma bulk_entries_invalid:
  "bulk_entries J stk jobs = Inl e \<Longrightarrow> \<exists>job\<in>set jobs. \<nexists>en. valid_entry J stk job en"
  using bulk_entries_total[of jobs J stk] by fastforce

lemma assign_ids_length: "length (assign_ids jobs ids) = length jobs"
  by (induction jobs ids rule: assign_ids.induct) simp_all

lemma assign_ids_read: "length ids = length jobs \<Longrightarrow> map j_id (assign_ids jobs ids) = ids"
  by (induction jobs ids rule: assign_ids.induct) simp_all

definition bulk_instances :: "queue_cfg \<Rightarrow> string option \<Rightarrow> real \<Rightarrow> (string \<times> jsval \<times> jsobj option) list \<Rightarrow> job list" where
  "bulk_instances Q src now jobs =
     map (\<lambda>(name, data, opts). new_Job now (Some name) data (with_default [] opts)
                                 (str_of (oprop (with_default [] opts) ''jobId''))) (map (bulk_job Q src) jobs)"

text \<open>
  addBulk is all or nothing before it reaches the datastore: either some job is invalid,
  then nothing was called and no event was emitted, or every job is valid and exactly one
  addJobs call is made with one entry per job, in order, whose outcome it returns: its error, or
  the jobs with the ids of the reply.
\<close>

theorem addBulk_atomic:
  "(\<exists>e job. job \<in> set (bulk_instances Q src now jobs) \<and> (\<nexists>en. valid_entry J stk job en)
       \<and> addBulk J stk now Q B src jobs w = Some (Inl e, w))
   \<or> (\<exists>entries. list_all2 (valid_entry J stk) (bulk_instances Q src now jobs) entries
       \<and> addBulk J stk now Q B src jobs w
           = Some (case be_addJobs B entries (qw_store w) of
                     (Inl e, s') \<Rightarrow> (Inl e, w\<lparr>qw_store := s'\<rparr>)
                   | (Inr ids, s') \<Rightarrow> (Inr (assign_ids (bulk_instances Q src now jobs) ids), w\<lparr>qw_store := s'\<rparr>)))"
proof (cases "bulk_entries J stk (bulk_instances Q src now jobs)")
  case (Inl e)
  then have "addBulk J stk now Q B src jobs w = Some (Inl e, w)"
    by (simp add: addBulk_def q_call_eq createBulk_def bulk_instances_def)
  then show ?thesis using bulk_entries_invalid[OF Inl] by blast
next
  case (Inr entries)
  then have "addBulk J stk now Q B src jobs w
           = Some (case be_addJobs B entries (qw_store w) of
                     (Inl e, s') \<Rightarrow> (Inl e, w\<lparr>qw_store := s'\<rparr>)
                   | (Inr ids, s') \<Rightarrow> (Inr (assign_ids (bulk_instances Q src now jobs) ids), w\<lparr>qw_store := s'\<rparr>))"
    by (simp add: addBulk_def q_call_eq createBulk_def bulk_instances_def split: prod.split sum.split)
  then show ?thesis using bulk_entries_valid[OF Inr] by blast
qed

text \<open>The ids that stand for markers, \<open>0\<close> and those starting with \<open>0:\<close>, are refused by add
  before the datastore is called; addBulk makes jobs of them.\<close>

lemma marker_ids:
  assumes "jobId = ''0'' \<or> prefix ''0:'' jobId"
  shows "(\<exists>e. addJob_queue J stk now Q B name data (Some [(''jobId'', VStr jobId)]) w = Some (Inl e, w))
    \<and> map j_id (bulk_instances Q None now [(name, data, Some [(''jobId'', VStr jobId)])]) = [Some jobId]"
  using assms by (auto simp: addJob_queue_def check_zero_id_def with_default_def q_throw_def Let_def oprop_def
      bulk_instances_def bulk_job_def merge_opts_def)

section \<open>Cursor loops\<close>

text \<open>A call makes progress when every reply with another cursor leaves less to do.\<close>

definition progresses :: "('s, real) backend_op \<Rightarrow> ('s \<Rightarrow> nat) \<Rightarrow> bool" where
  "progresses call todo \<longleftrightarrow> (\<forall>s c s'. call s = (Inr c, s') \<longrightarrow> c \<noteq> 0 \<longrightarrow> todo s' < todo s)"

text \<open>The states a cursor loop goes through: one call after the other while the cursor is not
  zero.\<close>

inductive cursor_steps :: "('s, real) backend_op \<Rightarrow> 's \<Rightarrow> (js_error, unit) result \<Rightarrow> 's \<Rightarrow> bool"
  for call :: "('s, real) backend_op" where
  cs_fail: "call s = (Inl e, s') \<Longrightarrow> cursor_steps call s (Inl e) s'"
| cs_last: "call s = (Inr 0, s') \<Longrightarrow> cursor_steps call s (Inr ()) s'"
| cs_more: "call s = (Inr c, s') \<Longrightarrow> c \<noteq> 0 \<Longrightarrow> cursor_steps call s' r s'' \<Longrightarrow> cursor_steps call s r s''"

lemma cursor_loop_steps:
  assumes "progresses call todo"
  shows "\<exists>r s'. cursor_steps call (qw_store w) r s' \<and> cursor_loop call w = Some (r, w\<lparr>qw_store := s'\<rparr>)"
proof (induction "todo (qw_store w)" arbitrary: w rule: less_induct)
  case less
  obtain r s' where call: "call (qw_store w) = (r, s')" by fastforce
  consider e where "r = Inl e" | "r = Inr 0" | c where "r = Inr c" "c \<noteq> 0" by (cases r) auto
  then show ?case
  proof cases
    case 1
    then show ?thesis using call cs_fail by (subst cursor_loop.simps) fastforce
  next
    case 2
    then show ?thesis using call cs_last by (subst cursor_loop.simps) fastforce
  next
    case 3
    then have "todo s' < todo (qw_store w)" using assms call by (auto simp: progresses_def)
    then obtain r' s'' where rec: "cursor_steps call s' r' s''"
      "cursor_loop call (w\<lparr>qw_store := s'\<rparr>) = Some (r', w\<lparr>qw_store := s''\<rparr>)"
      using less[of "w\<lparr>qw_store := s'\<rparr>"] by auto
    then show ?thesis using call 3 cs_more[of call "qw_store w" c s' r' s'']
      by (intro exI[of _ r'] exI[of _ s'']) (subst cursor_loop.simps, simp)
  qed
qed

text \<open>
  obliterate pauses first: an error of the pause is returned and nothing is deleted. Otherwise
  it ends, on a datastore that makes progress, after a run of obliterate calls of which only the
  last returned no cursor or failed, and it reports exactly that failure.
\<close>

theorem obliterate_ends:
  assumes "progresses (qs_obliterate S (with_default False force) (with_default 1000 batch)) todo"
    and "qs_pause S True (qw_store w) = Some (p, s1)"
  shows "case p of
      Inl e \<Rightarrow> obliterate S force batch w = Some (Inl e, w\<lparr>qw_store := s1\<rparr>)
    | Inr _ \<Rightarrow> \<exists>r s'. cursor_steps (qs_obliterate S (with_default False force) (with_default 1000 batch)) s1 r s'
        \<and> obliterate S force batch w = Some (r, w\<lparr>qw_events := qw_events w @ [EvPaused], qw_store := s'\<rparr>)"
proof (cases p)
  case (Inl e)
  then show ?thesis using assms(2) by (simp add: obliterate_def pause_def queue_run)
next
  case (Inr u)
  then have "obliterate S force batch w
      = cursor_loop (qs_obliterate S (with_default False force) (with_default 1000 batch))
          (w\<lparr>qw_store := s1, qw_events := qw_events w @ [EvPaused]\<rparr>)"
    using assms(2) by (simp add: obliterate_def pause_def queue_run)
  then show ?thesis
    using cursor_loop_steps[OF assms(1), of "w\<lparr>qw_store := s1, qw_events := qw_events w @ [EvPaused]\<rparr>"] Inr by auto
qed

definition obliterate_store :: "string list queue_store" where
  "obliterate_store = log_store\<lparr>qs_pause := (\<lambda>_ s. Some (Inr (), s)),
     qs_obliterate := (\<lambda>_ _ s. (Inr (if length s \<le> 1 then 0 else 1), tl s))\<rparr>"

lemma obliterate_store_progresses: "progresses (qs_obliterate obliterate_store f n) length"
  by (auto simp: progresses_def obliterate_store_def neq_Nil_conv)

theorem obliterate_ends_witness:
  "\<exists>r s'. cursor_steps (qs_obliterate obliterate_store False 1000) [''a'', ''b''] r s'
     \<and> obliterate obliterate_store None None \<lparr>qw_store = [''a'', ''b''], qw_events = []\<rparr>
         = Some (r, \<lparr>qw_store = s', qw_events = [EvPaused]\<rparr>)"
  using obliterate_ends [of obliterate_store None None length "\<lparr>qw_store = [''a'', ''b''], qw_events = []\<rparr>"
      "Inr ()" "[''a'', ''b'']", OF obliterate_store_progresses]
  by (simp add: with_default_def) (simp add: obliterate_store_def)

end
