(* ===== verification/Flow_Producer.thy ===== *)
theory Flow_Producer
  imports Job_Lifecycle
begin

text \<open>
  FlowProducer of src/classes/flow-producer.ts: a flow is a tree of jobs that is inserted by
  one atomic addFlow of the backend, parents before children.

  addNode is an asynchronous recursion: a call builds its job and pushes its entry before the
  first await, and the continuations that descend into the children run later in the order
  in which they were queued. Since every call awaits the same number of times, all nodes of
  one level push their entries, from left to right, before any node of the next level does.
  \<open>add_level\<close> runs the producer level by level and builds the tree of jobs from the results of
  the level below. What the backend knows about other queues (forQueue) is a record of
  functions.
\<close>

section \<open>Flows\<close>

datatype flow_job =
  FlowJob (fj_name: string) (fj_queueName: string) (fj_data: jsval) (fj_prefix: "string option")
    (fj_opts: "jsobj option") (fj_children: "flow_job list")

datatype job_node =
  JobNode (jn_job: job) (jn_entry: flow_entry) (jn_children: "job_node list")

record flow_parent =
  fp_parentOpts :: jsval
  fp_parentDependenciesKey :: "string option"

text \<open>The siblings that \<open>backend.forQueue(queueName, prefix)\<close> gives.\<close>

record flow_queues =
  fq_qualifiedName :: "string \<Rightarrow> string option \<Rightarrow> string"
  fq_toKey :: "string \<Rightarrow> string option \<Rightarrow> string \<Rightarrow> string"
  fq_parseNodeKey :: "string \<Rightarrow> string \<times> string \<times> string"

text \<open>What a producer reads: its options, the clock, the random ids (the n-th draw of
  randomUUID), the propagation metadata of the span of a job, and the default job options of
  a queue.\<close>

record flow_env =
  fl_json :: json_lib
  fl_stk :: "string option"
  fl_now :: real
  fl_prefix :: "string option"
  fl_uuid :: "nat \<Rightarrow> string"
  fl_metadata :: "string \<Rightarrow> string option"
  fl_queueDefaults :: "string \<Rightarrow> jsobj"
  fl_queues :: flow_queues

fun validateFlowJobs :: "string option \<Rightarrow> flow_job list \<Rightarrow> (js_error, unit) result" where
  "validateFlowJobs stk [] = Inr ()"
| "validateFlowJobs stk (FlowJob name q data pre opts children # nodes) =
     bind_result
       (if children \<noteq> []
        then if truthy (oprop (with_default [] opts) ''deduplication'')
             then Inl (new_err ErrorClass stk ''Deduplication options cannot be used on flow nodes with children'')
             else validateFlowJobs stk children
        else Inr ())
       (\<lambda>_. validateFlowJobs stk nodes)"

section \<open>One node\<close>

definition node_prefix :: "flow_env \<Rightarrow> flow_job \<Rightarrow> string option" where
  "node_prefix E node = (if truthy_str (fj_prefix node) then fj_prefix node else fl_prefix E)"

definition queueFromNode :: "flow_env \<Rightarrow> string \<Rightarrow> string option \<Rightarrow> job_queue" where
  "queueFromNode E queueName pre =
     \<lparr>jq_name = queueName, jq_qualifiedName = fq_qualifiedName (fl_queues E) queueName pre,
      jq_backoffStrategy = None, jq_meter = False\<rparr>"

definition own_jobId :: "flow_job \<Rightarrow> string option" where
  "own_jobId node =
     (case oprop (with_default [] (fj_opts node)) ''jobId'' of VStr s \<Rightarrow> if s = [] then None else Some s | _ \<Rightarrow> None)"

definition node_telemetry :: "flow_env \<Rightarrow> string \<Rightarrow> flow_job \<Rightarrow> jsval" where
  "node_telemetry E jobId node =
     (let telemetry = oprop (with_default [] (fj_opts node)) ''telemetry'' in
      if truthy_str (fl_metadata E jobId) \<and> fj_opts node \<noteq> None
      then let omitContext = vprop telemetry ''omitContext'';
               telemetryMetadata =
                 logical_or (vprop telemetry ''metadata'')
                   (if truthy omitContext then VBool False else opt_str_val (fl_metadata E jobId))
           in if truthy telemetryMetadata \<or> truthy omitContext
              then VObj [(''metadata'', telemetryMetadata), (''omitContext'', omitContext)] else telemetry
      else telemetry)"

definition node_opts :: "flow_env \<Rightarrow> string \<Rightarrow> flow_job \<Rightarrow> flow_parent \<Rightarrow> jsobj" where
  "node_opts E jobId node parent =
     map_set ''telemetry'' (node_telemetry E jobId node)
       (map_set ''parent'' (fp_parentOpts parent)
          (object_assign (object_assign [] (fl_queueDefaults E (fj_queueName node))) (with_default [] (fj_opts node))))"

text \<open>The part of addNode before its first await: the job, its entry and the parent data
  handed to the children. \<open>n\<close> is the number of random ids drawn so far.\<close>

definition node_job :: "flow_env \<Rightarrow> string \<Rightarrow> flow_job \<Rightarrow> flow_parent \<Rightarrow> job" where
  "node_job E jobId node parent =
     new_Job (fl_now E) (Some (fj_name node)) (fj_data node) (node_opts E jobId node parent) (Some jobId)"

definition collectFlowEntry :: "flow_env \<Rightarrow> flow_job \<Rightarrow> flow_parent \<Rightarrow> job \<Rightarrow> (js_error, flow_entry) result" where
  "collectFlowEntry E node parent job =
     toFlowEntry (fl_json E) (fl_stk E) (queueFromNode E (fj_queueName node) (node_prefix E node))
       \<lparr>pk_addToWaitingChildren = fj_children node \<noteq> [],
        pk_parentDependenciesKey = fp_parentDependenciesKey parent,
        pk_parentKey = getParentKey (parent_of_val (fp_parentOpts parent))\<rparr> job"

definition child_parent :: "flow_env \<Rightarrow> string \<Rightarrow> flow_job \<Rightarrow> flow_parent" where
  "child_parent E parentId node =
     \<lparr>fp_parentOpts = VObj [(''id'', VStr parentId),
        (''queue'', VStr (fq_qualifiedName (fl_queues E) (fj_queueName node) (node_prefix E node)))],
      fp_parentDependenciesKey =
        Some (fq_toKey (fl_queues E) (fj_queueName node) (node_prefix E node) parentId @ '':dependencies'')\<rparr>"

type_synonym made_node = "job \<times> flow_entry \<times> (flow_job \<times> flow_parent) list"

definition make_node ::
  "flow_env \<Rightarrow> nat \<Rightarrow> flow_job \<times> flow_parent \<Rightarrow> (js_error, made_node) result \<times> nat" where
  "make_node E n np =
     (case np of (node, parent) \<Rightarrow>
        let (jobId, n') = (case own_jobId node of Some i \<Rightarrow> (i, n) | None \<Rightarrow> (fl_uuid E n, Suc n));
            job = node_job E jobId node parent
        in (bind_result (collectFlowEntry E node parent job) (\<lambda>entry.
              Inr (job, entry, map (\<lambda>c. (c, child_parent E jobId node)) (fj_children node))), n'))"

fun make_nodes ::
  "flow_env \<Rightarrow> nat \<Rightarrow> (flow_job \<times> flow_parent) list \<Rightarrow> (js_error, made_node list) result \<times> nat" where
  "make_nodes E n [] = (Inr [], n)"
| "make_nodes E n (np # nps) =
     (case make_node E n np of (r, n1) \<Rightarrow>
        case make_nodes E n1 nps of (rs, n2) \<Rightarrow>
          (bind_result r (\<lambda>m. bind_result rs (\<lambda>ms. Inr (m # ms))), n2))"

section \<open>All nodes\<close>

definition next_level :: "(flow_job \<times> flow_parent) list \<Rightarrow> made_node list \<Rightarrow> (flow_job \<times> flow_parent) list" where
  "next_level lvl ms = concat (map (\<lambda>m. snd (snd m)) ms)"

text \<open>Handing each node the trees of its own children.\<close>

fun attach :: "made_node list \<Rightarrow> job_node list \<Rightarrow> job_node list" where
  "attach [] ts = []"
| "attach ((job, entry, children) # ms) ts =
     JobNode job entry (take (length children) ts) # attach ms (drop (length children) ts)"

lemma make_node_children:
  "make_node E n (node, parent) = (Inr (job, entry, children), n') \<Longrightarrow> map fst children = fj_children node"
  by (auto simp: make_node_def Let_def comp_def split: option.splits)

lemma make_nodes_children:
  "make_nodes E n lvl = (Inr ms, n') \<Longrightarrow> map fst (concat (map (\<lambda>m. snd (snd m)) ms)) = concat (map (fj_children \<circ> fst) lvl)"
proof (induction lvl arbitrary: n ms n')
  case (Cons np lvl)
  obtain node parent where np: "np = (node, parent)" by force
  with Cons.prems obtain job entry children ms' n1 n2 where
    m: "make_node E n (node, parent) = (Inr (job, entry, children), n1)"
      "make_nodes E n1 lvl = (Inr ms', n2)" "ms = (job, entry, children) # ms'"
    by (auto split: prod.splits)
  from make_node_children [OF m(1)] Cons.IH [OF m(2)] m(3) np show ?case by simp
qed simp

definition flow_size :: "(flow_job \<times> flow_parent) list \<Rightarrow> nat" where
  "flow_size lvl = sum_list (map (size \<circ> fst) lvl)"

lemma size_children: "sum_list (map size (fj_children node)) < size node"
proof (cases node)
  case (FlowJob a b c d e children)
  have "sum_list (map size ts) \<le> size_list size ts" for ts :: "flow_job list"
    by (induction ts) auto
  with FlowJob show ?thesis by (simp add: le_imp_less_Suc)
qed

lemma flow_size_children:
  "lvl \<noteq> [] \<Longrightarrow> sum_list (map size (concat (map (fj_children \<circ> fst) lvl))) < flow_size lvl"
proof (induction lvl)
  case (Cons np lvl)
  then show ?case using size_children [of "fst np"]
    by (cases lvl) (auto simp: flow_size_def)
qed simp

function add_level ::
  "flow_env \<Rightarrow> nat \<Rightarrow> (flow_job \<times> flow_parent) list \<Rightarrow> (js_error, flow_entry list \<times> job_node list) result" where
  "add_level E n lvl =
     (if lvl = [] then Inr ([], [])
      else case make_nodes E n lvl of
             (Inl e, _) \<Rightarrow> Inl e
           | (Inr ms, n') \<Rightarrow>
               bind_result (add_level E n' (next_level lvl ms)) (\<lambda>(entries, trees).
                 Inr (map (\<lambda>m. fst (snd m)) ms @ entries, attach ms trees)))"
  by pat_completeness auto
termination
proof (relation "measure (\<lambda>(E, n, lvl). flow_size lvl)", goal_cases)
  case (2 E n lvl x y ms)
  then have "map fst (next_level lvl ms) = concat (map (fj_children \<circ> fst) lvl)"
    using make_nodes_children [of E n lvl ms y] by (simp add: next_level_def)
  then have "flow_size (next_level lvl ms) = sum_list (map size (concat (map (fj_children \<circ> fst) lvl)))"
    by (metis flow_size_def map_map)
  with flow_size_children [OF 2(1)] show ?case by simp
qed simp

declare add_level.simps [simp del]

section \<open>Adding flows\<close>

text \<open>A root may itself have a parent, given by its options.\<close>

definition root_parent :: "flow_job \<Rightarrow> flow_parent" where
  "root_parent flow =
     (let parentOpts = oprop (with_default [] (fj_opts flow)) ''parent''; parentKey = getParentKey (parent_of_val parentOpts)
      in \<lparr>fp_parentOpts = parentOpts,
          fp_parentDependenciesKey = map_option (\<lambda>k. k @ '':dependencies'') parentKey\<rparr>)"

definition toFlowError :: "flow_env \<Rightarrow> real \<Rightarrow> string option \<Rightarrow> js_error" where
  "toFlowError E code parentKey =
     (if code = of_int (code_of ParentJobNotExist)
      then new_err ErrorClass (fl_stk E) (''Missing key for parent job '' @ render_opt parentKey @ ''. addJob'')
      else if code = of_int (code_of ParentJobCannotBeReplaced)
      then new_err ErrorClass (fl_stk E) (''The parent job '' @ render_opt parentKey @ '' cannot be replaced. addJob'')
      else new_err ErrorClass (fl_stk E)
             (''Unknown code '' @ num_to_string (fl_json E) code @ '' error for addJob''))
     \<lparr>err_code := Some (NumCode \<lfloor>code\<rfloor>)\<rparr>"

definition set_node_id :: "string \<Rightarrow> job_node \<Rightarrow> job_node" where
  "set_node_id jobId t = JobNode ((jn_job t)\<lparr>j_id := Some jobId\<rparr>) (jn_entry t) (jn_children t)"

text \<open>The reply for the root decides about the whole flow.\<close>

definition settle_root :: "flow_env \<Rightarrow> string option \<Rightarrow> (js_error option \<times> jsval) list \<Rightarrow> job_node \<Rightarrow> (js_error, job_node) result" where
  "settle_root E parentKey results tree =
     (case results of
        [] \<Rightarrow> Inr tree
      | (Some err, _) # _ \<Rightarrow> Inl err
      | (None, VNum code) # _ \<Rightarrow> if code < 0 then Inl (toFlowError E code parentKey) else Inr tree
      | (None, VStr jobId) # _ \<Rightarrow> Inr (set_node_id jobId tree)
      | (None, _) # _ \<Rightarrow> Inr tree)"

definition add_flow ::
  "flow_env \<Rightarrow> 's queue_backend \<Rightarrow> bool \<Rightarrow> flow_job \<Rightarrow> 's \<Rightarrow> (js_error, job_node option) result \<times> 's" where
  "add_flow E B closing flow s =
     (if closing then (Inr None, s)
      else case validateFlowJobs (fl_stk E) [flow] of
             Inl e \<Rightarrow> (Inl e, s)
           | Inr _ \<Rightarrow>
               (case be_waitUntilReady B s of
                  (Inl e, s') \<Rightarrow> (Inl e, s')
                | (Inr _, s') \<Rightarrow>
                    (case add_level E 0 [(flow, root_parent flow)] of
                       Inl e \<Rightarrow> (Inl e, s')
                     | Inr (entries, trees) \<Rightarrow>
                         (case be_addFlow B entries s' of
                            (Inl e, s'') \<Rightarrow> (Inl e, s'')
                          | (Inr results, s'') \<Rightarrow>
                              (bind_result
                                 (settle_root E (getParentKey (parent_of_val (fp_parentOpts (root_parent flow)))) results (hd trees))
                                 (\<lambda>t. Inr (Some t)), s'')))))"

text \<open>addBulk pairs the i-th tree with the i-th reply, and errors of single entries are not
  reported.\<close>

definition node_with_reply :: "js_error option \<times> jsval \<Rightarrow> job_node \<Rightarrow> job_node" where
  "node_with_reply r t = (case r of (None, VStr jobId) \<Rightarrow> set_node_id jobId t | _ \<Rightarrow> t)"

fun assign_root_ids :: "job_node list \<Rightarrow> (js_error option \<times> jsval) list \<Rightarrow> job_node list" where
  "assign_root_ids [] results = []"
| "assign_root_ids (t # ts) [] = t # assign_root_ids ts []"
| "assign_root_ids (t # ts) (r # results) =
     node_with_reply r t # assign_root_ids ts results"

definition addBulk_flows ::
  "flow_env \<Rightarrow> 's queue_backend \<Rightarrow> bool \<Rightarrow> flow_job list \<Rightarrow> 's \<Rightarrow> (js_error, job_node list option) result \<times> 's" where
  "addBulk_flows E B closing flows s =
     (if closing then (Inr None, s)
      else case validateFlowJobs (fl_stk E) flows of
             Inl e \<Rightarrow> (Inl e, s)
           | Inr _ \<Rightarrow>
               (case be_waitUntilReady B s of
                  (Inl e, s') \<Rightarrow> (Inl e, s')
                | (Inr _, s') \<Rightarrow>
                    (case add_level (E\<lparr>fl_queueDefaults := (\<lambda>_. [])\<rparr>) 0 (map (\<lambda>f. (f, root_parent f)) flows) of
                       Inl e \<Rightarrow> (Inl e, s')
                     | Inr (entries, trees) \<Rightarrow>
                         (case be_addFlow B entries s' of
                            (Inl e, s'') \<Rightarrow> (Inl e, s'')
                          | (Inr results, s'') \<Rightarrow> (Inr (Some (assign_root_ids trees results)), s'')))))"

section \<open>The order of entries\<close>

lemma size_node_children: "sum_list (map size (jn_children t)) < size t"
proof (cases t)
  case (JobNode a b children)
  have "sum_list (map size ts) \<le> size_list size ts" for ts :: "job_node list"
    by (induction ts) auto
  with JobNode show ?thesis by (simp add: le_imp_less_Suc)
qed

lemma size_level_children:
  "ts \<noteq> [] \<Longrightarrow> sum_list (map size (concat (map jn_children ts))) < sum_list (map size ts)"
proof (induction ts)
  case (Cons t ts)
  then show ?case using size_node_children [of t] by (cases ts) auto
qed simp

text \<open>The entries of a list of trees, level by level.\<close>

function level_order :: "job_node list \<Rightarrow> flow_entry list" where
  "level_order ts =
     (if ts = [] then [] else map jn_entry ts @ level_order (concat (map jn_children ts)))"
  by pat_completeness auto
termination
proof (relation "measure (\<lambda>ts. sum_list (map size ts))", goal_cases)
  case (2 ts)
  then show ?case by (simp only: in_measure) (rule size_level_children)
qed simp

declare level_order.simps [simp del]

fun node_count :: "flow_job \<Rightarrow> nat" where
  "node_count (FlowJob name q data pre opts children) = Suc (sum_list (map node_count children))"

lemma node_count_children: "node_count node = Suc (sum_list (map node_count (fj_children node)))"
  by (cases node) simp

lemma make_nodes_length: "make_nodes E n lvl = (Inr ms, n') \<Longrightarrow> length ms = length lvl"
  by (induction lvl arbitrary: n ms n') (auto split: prod.splits)

lemma attach_spec:
  assumes "length ts = length (concat (map (\<lambda>m. snd (snd m)) ms))"
  shows "length (attach ms ts) = length ms \<and> map jn_entry (attach ms ts) = map (\<lambda>m. fst (snd m)) ms
    \<and> concat (map jn_children (attach ms ts)) = ts"
  using assms
proof (induction ms ts rule: attach.induct)
  case (2 job entry children ms ts)
  from 2(2) have "length (drop (length children) ts) = length (concat (map (\<lambda>m. snd (snd m)) ms))" by simp
  from 2(1) [OF this] show ?case by simp
qed simp

lemma next_level_nodes:
  "make_nodes E n lvl = (Inr ms, n') \<Longrightarrow> map fst (next_level lvl ms) = concat (map (fj_children \<circ> fst) lvl)"
  by (simp add: next_level_def make_nodes_children)

lemma add_level_spec:
  assumes "add_level E n lvl = Inr (entries, trees)"
  shows "length trees = length lvl \<and> entries = level_order trees
    \<and> length entries = sum_list (map node_count (map fst lvl))"
  using assms
proof (induction E n lvl arbitrary: entries trees rule: add_level.induct)
  case (1 E n lvl)
  show ?case
  proof (cases "lvl = []")
    case True
    with "1.prems" show ?thesis by (simp add: add_level.simps level_order.simps)
  next
    case False
    with "1.prems" obtain ms n' es ts where
      m: "make_nodes E n lvl = (Inr ms, n')" and l: "add_level E n' (next_level lvl ms) = Inr (es, ts)"
      and r: "entries = map (\<lambda>m. fst (snd m)) ms @ es" "trees = attach ms ts"
      by (subst (asm) add_level.simps) (auto split: prod.splits sum.splits)
    from "1.IH" [OF False m [symmetric] refl l] False
    have ih: "length ts = length (next_level lvl ms)" "es = level_order ts"
      "length es = sum_list (map node_count (map fst (next_level lvl ms)))" by blast+
    from ih(1) have a: "length (attach ms ts) = length ms" "map jn_entry (attach ms ts) = map (\<lambda>m. fst (snd m)) ms"
      "concat (map jn_children (attach ms ts)) = ts" using attach_spec by (auto simp: next_level_def)
    from False make_nodes_length [OF m] a(1) have "attach ms ts \<noteq> []" by auto
    then have "level_order (attach ms ts) = map (\<lambda>m. fst (snd m)) ms @ level_order ts"
      using a by (subst level_order.simps) simp
    moreover have "sum_list (map node_count (map fst lvl))
        = length lvl + sum_list (map node_count (concat (map (fj_children \<circ> fst) lvl)))"
    proof (induction lvl)
      case (Cons np lvl)
      then show ?case using node_count_children [of "fst np"] by simp
    qed simp
    ultimately show ?thesis
      using r a ih make_nodes_length [OF m] next_level_nodes [OF m] by simp
  qed
qed

section \<open>Links between parents and children\<close>

text \<open>
  A tree of jobs realises a flow: each node has the job and entry of its flow node, refers to
  its parent by the parent's key, waits for children exactly when there are some, and its
  children realise the children of the flow node.
\<close>

inductive realises :: "flow_env \<Rightarrow> flow_parent \<Rightarrow> flow_job \<Rightarrow> job_node \<Rightarrow> bool" for E where
  realisesI:
    "j_id job = Some jobId \<Longrightarrow> j_name job = Some (fj_name node) \<Longrightarrow> fe_jobId entry = Some jobId
     \<Longrightarrow> fe_queueName entry = fj_queueName node
     \<Longrightarrow> fe_parentKeyOpts entry = \<lparr>pk_addToWaitingChildren = fj_children node \<noteq> [],
           pk_parentDependenciesKey = fp_parentDependenciesKey parent,
           pk_parentKey = getParentKey (parent_of_val (fp_parentOpts parent))\<rparr>
     \<Longrightarrow> list_all2 (realises E (child_parent E jobId node)) (fj_children node) kids
     \<Longrightarrow> realises E parent node (JobNode job entry kids)"

inductive_cases realisesE: "realises E parent node (JobNode job entry kids)"

lemma new_Job_id_name [simp]: "j_id (new_Job now nm data opts i) = i" "j_name (new_Job now nm data opts i) = nm"
  by (simp_all add: new_Job_def Let_def)

lemma make_node_spec:
  assumes "make_node E n (node, parent) = (Inr (job, entry, children), n')"
  obtains jobId where "j_id job = Some jobId" "j_name job = Some (fj_name node)" "fe_jobId entry = Some jobId"
    "fe_queueName entry = fj_queueName node"
    "fe_parentKeyOpts entry = \<lparr>pk_addToWaitingChildren = fj_children node \<noteq> [],
       pk_parentDependenciesKey = fp_parentDependenciesKey parent,
       pk_parentKey = getParentKey (parent_of_val (fp_parentOpts parent))\<rparr>"
    "children = map (\<lambda>c. (c, child_parent E jobId node)) (fj_children node)"
proof -
  obtain jobId m where i: "(case own_jobId node of Some i \<Rightarrow> (i, n) | None \<Rightarrow> (fl_uuid E n, Suc n)) = (jobId, m)" by force
  with assms have job: "job = node_job E jobId node parent"
    and entry: "collectFlowEntry E node parent job = Inr entry"
    and ch: "children = map (\<lambda>c. (c, child_parent E jobId node)) (fj_children node)"
    by (auto simp: make_node_def Let_def)
  show ?thesis
    by (rule that [of jobId]) (use job entry ch in \<open>auto simp: node_job_def collectFlowEntry_def toFlowEntry_def queueFromNode_def\<close>)
qed

lemma attach_realises:
  assumes "make_nodes E n lvl = (Inr ms, n')"
    and "list_all2 (\<lambda>np t. realises E (snd np) (fst np) t) (concat (map (\<lambda>m. snd (snd m)) ms)) ts"
  shows "list_all2 (\<lambda>np t. realises E (snd np) (fst np) t) lvl (attach ms ts)"
  using assms
proof (induction lvl arbitrary: n ms ts)
  case (Cons np lvl)
  obtain node parent where np: "np = (node, parent)" by force
  with Cons.prems(1) obtain job entry children ms' n1 n2 where
    m: "make_node E n (node, parent) = (Inr (job, entry, children), n1)"
      "make_nodes E n1 lvl = (Inr ms', n2)" "ms = (job, entry, children) # ms'"
    by (auto split: prod.splits)
  from Cons.prems(2) m(3) obtain ts1 ts2 where ts: "ts = ts1 @ ts2"
    "list_all2 (\<lambda>np t. realises E (snd np) (fst np) t) children ts1"
    "list_all2 (\<lambda>np t. realises E (snd np) (fst np) t) (concat (map (\<lambda>m. snd (snd m)) ms')) ts2"
    by (auto simp: list_all2_append1)
  from ts(2) have len: "length ts1 = length children" by (simp add: list_all2_lengthD)
  from m(2) Cons.prems(1) m(1,3) np have n2: "n2 = n'" by (simp split: prod.splits)
  obtain jobId where s: "j_id job = Some jobId" "j_name job = Some (fj_name node)" "fe_jobId entry = Some jobId"
    "fe_queueName entry = fj_queueName node"
    "fe_parentKeyOpts entry = \<lparr>pk_addToWaitingChildren = fj_children node \<noteq> [],
       pk_parentDependenciesKey = fp_parentDependenciesKey parent,
       pk_parentKey = getParentKey (parent_of_val (fp_parentOpts parent))\<rparr>"
    "children = map (\<lambda>c. (c, child_parent E jobId node)) (fj_children node)"
    by (rule make_node_spec [OF m(1)])
  from ts(2) s(6) have "list_all2 (realises E (child_parent E jobId node)) (fj_children node) ts1"
    by (simp add: list_all2_map1)
  with s have "realises E parent node (JobNode job entry ts1)" by (intro realisesI)
  with Cons.IH [OF m(2) [unfolded n2] ts(3)] m(3) np ts(1) len show ?case by simp
qed simp

lemma add_level_realises:
  assumes "add_level E n lvl = Inr (entries, trees)"
  shows "list_all2 (\<lambda>np t. realises E (snd np) (fst np) t) lvl trees"
  using assms
proof (induction E n lvl arbitrary: entries trees rule: add_level.induct)
  case (1 E n lvl)
  show ?case
  proof (cases "lvl = []")
    case True
    with "1.prems" show ?thesis by (simp add: add_level.simps)
  next
    case False
    with "1.prems" obtain ms n' es ts where
      m: "make_nodes E n lvl = (Inr ms, n')" and l: "add_level E n' (next_level lvl ms) = Inr (es, ts)"
      and r: "trees = attach ms ts"
      by (subst (asm) add_level.simps) (auto split: prod.splits sum.splits)
    from "1.IH" [OF False m [symmetric] refl l] attach_realises [OF m] r show ?thesis
      by (simp add: next_level_def)
  qed
qed

section \<open>Claims\<close>

lemma realises_entry: "realises E parent node t \<Longrightarrow> fe_jobId (jn_entry t) = j_id (jn_job t)"
  by (cases t) (auto elim: realisesE)


definition demo_flow_env :: flow_env where
  "demo_flow_env =
     \<lparr>fl_json = demo_lib, fl_stk = None, fl_now = 0, fl_prefix = Some ''bull'', fl_uuid = (\<lambda>n. ''u'' @ string_of_nat n),
      fl_metadata = (\<lambda>_. None), fl_queueDefaults = (\<lambda>_. []),
      fl_queues = \<lparr>fq_qualifiedName = (\<lambda>q p. with_default ''bull'' p @ '':'' @ q),
                   fq_toKey = (\<lambda>q p t. toKey (with_default ''bull'' p) q t), fq_parseNodeKey = parseNodeKey\<rparr>\<rparr>"

definition demo_flow :: flow_job where
  "demo_flow = FlowJob ''root'' ''a'' VNull None None [FlowJob ''leaf'' ''b'' VNull None None []]"


lemma assign_root_ids_nth:
  "i < length ts \<Longrightarrow> length ts \<le> length results \<Longrightarrow>
     assign_root_ids ts results ! i = node_with_reply (results ! i) (ts ! i)"
proof (induction ts results arbitrary: i rule: assign_root_ids.induct)
  case (3 t ts r results)
  then show ?case by (cases i) auto
qed auto

text \<open>
  addBulk gives every root the id that the datastore chose for it: the entries of the roots come
  first, in the order of the flows, so that reply i belongs to flow i. It reports no error of
  a single entry: whatever the replies are, the call resolves with all trees.
\<close>

theorem addBulk_root_ids:
  assumes "validateFlowJobs (fl_stk E) flows = Inr ()"
    and "be_waitUntilReady B s = (Inr (), s')"
    and "add_level (E\<lparr>fl_queueDefaults := (\<lambda>_. [])\<rparr>) 0 (map (\<lambda>f. (f, root_parent f)) flows) = Inr (entries, trees)"
    and "be_addFlow B entries s' = (Inr results, s'')" and "length results = length entries"
  shows "\<exists>out. addBulk_flows E B False flows s = (Inr (Some out), s'') \<and> length out = length flows
    \<and> take (length flows) entries = map jn_entry trees
    \<and> (\<forall>i < length flows. j_id (jn_job (out ! i))
          = (case results ! i of (None, VStr jobId) \<Rightarrow> Some jobId | _ \<Rightarrow> fe_jobId (entries ! i)))"
proof -
  let ?E = "E\<lparr>fl_queueDefaults := (\<lambda>_. [])\<rparr>"
  from add_level_spec [OF assms(3)] have len: "length trees = length flows" and es: "entries = level_order trees" by simp_all
  have head: "map jn_entry trees = take (length flows) entries"
    unfolding es using len by (subst level_order.simps) auto
  have le: "length trees \<le> length results" unfolding assms(5) es by (subst level_order.simps) auto
  have "length (assign_root_ids ts rs) = length ts" for ts rs by (induction ts rs rule: assign_root_ids.induct) auto
  moreover have "j_id (jn_job (assign_root_ids trees results ! i))
      = (case results ! i of (None, VStr jobId) \<Rightarrow> Some jobId | _ \<Rightarrow> fe_jobId (entries ! i))" if i: "i < length flows" for i
  proof -
    from add_level_realises [OF assms(3)] i len have "realises ?E (root_parent (flows ! i)) (flows ! i) (trees ! i)"
      by (auto simp: list_all2_conv_all_nth)
    then have "fe_jobId (jn_entry (trees ! i)) = j_id (jn_job (trees ! i))" by (rule realises_entry)
    moreover have "jn_entry (trees ! i) = entries ! i"
      by (metis head i len nth_map nth_take)
    ultimately show ?thesis using assign_root_ids_nth [of i trees results] i len le
      by (auto simp: node_with_reply_def set_node_id_def split: prod.split option.split jsval.split)
  qed
  ultimately show ?thesis using assms head len
    by (intro exI [of _ "assign_root_ids trees results"]) (simp add: addBulk_flows_def)
qed

lemma demo_leaf_level:
  "\<exists>entries trees. add_level demo_flow_env 0 [(FlowJob ''leaf'' ''b'' VNull None None [], root_parent (FlowJob ''leaf'' ''b'' VNull None None []))]
     = Inr (entries, trees) \<and> length entries = 1 \<and> fe_jobId (entries ! 0) = Some ''u0''"
proof -
  let ?f = "FlowJob ''leaf'' ''b'' VNull None None []"
  let ?job = "node_job demo_flow_env ''u0'' ?f (root_parent ?f)"
  have opts: "node_opts demo_flow_env ''u0'' ?f (root_parent ?f) = [(''parent'', VUndef), (''telemetry'', VUndef)]"
    by (simp add: node_opts_def demo_flow_env_def object_assign_def root_parent_def node_telemetry_def with_default_def Let_def)
  obtain json where json: "asJSON demo_lib ?job = Inr json" by (simp add: asJSON_def demo_lib_def)
  have v: "validateOptions demo_lib None ?job json = Inr ()"
    unfolding node_job_def opts
    by (simp add: validateOptions_iff size_ok_def exclusiveOptions_def jobId_ok_def priority_ok_def
        deduplication_ok_def jitter_ok_def new_Job_opts new_Job_backoff normalize_val_def)
       (simp add: new_Job_def object_assign_def)
  have e: "fl_json demo_flow_env = demo_lib" "fl_stk demo_flow_env = None" "fl_uuid demo_flow_env 0 = ''u0''"
    by (simp_all add: demo_flow_env_def string_of_nat.simps string_of_digit_def)
  obtain entry where entry: "collectFlowEntry demo_flow_env ?f (root_parent ?f) ?job = Inr entry" "fe_jobId entry = Some ''u0''"
    using json v by (simp add: collectFlowEntry_def toFlowEntry_def e) (simp add: node_job_def)
  then have "make_nodes demo_flow_env 0 [(?f, root_parent ?f)] = (Inr [(?job, entry, [])], 1)"
    by (simp add: make_node_def own_jobId_def with_default_def e)
  with entry(2) show ?thesis
    by (subst add_level.simps) (simp add: next_level_def add_level.simps [of _ _ "[]"])
qed

theorem addBulk_root_ids_witness:
  "\<exists>out s''. addBulk_flows demo_flow_env log_backend False [FlowJob ''leaf'' ''b'' VNull None None []] []
     = (Inr (Some out), s'') \<and> map (j_id \<circ> jn_job) out = [Some ''u0'']"
proof -
  let ?f = "FlowJob ''leaf'' ''b'' VNull None None []"
  obtain entries trees where et: "add_level demo_flow_env 0 [(?f, root_parent ?f)] = Inr (entries, trees)"
    "length entries = 1" "fe_jobId (entries ! 0) = Some ''u0''" using demo_leaf_level by blast
  have d: "demo_flow_env\<lparr>fl_queueDefaults := (\<lambda>_. [])\<rparr> = demo_flow_env" by (simp add: demo_flow_env_def)
  from et(2) obtain e where e: "entries = [e]" by (cases entries) auto
  have "\<exists>out. addBulk_flows demo_flow_env log_backend False [?f] [] = (Inr (Some out), [''waitUntilReady'', ''addFlow''])
     \<and> length out = length [?f]
     \<and> take (length [?f]) entries = map jn_entry trees
     \<and> (\<forall>i < length [?f]. j_id (jn_job (out ! i))
          = (case [(None :: js_error option, opt_str_val (fe_jobId e))] ! i of (None, VStr jobId) \<Rightarrow> Some jobId | _ \<Rightarrow> fe_jobId (entries ! i)))"
    by (rule addBulk_root_ids) (simp_all add: et(1) d e log_backend_def logged_def)
  then obtain out where "addBulk_flows demo_flow_env log_backend False [?f] [] = (Inr (Some out), [''waitUntilReady'', ''addFlow''])"
    "length out = 1" "j_id (jn_job (out ! 0)) = Some ''u0''" using et(3) e by (auto simp: opt_str_val_def)
  moreover from this have "map (j_id \<circ> jn_job) out = [Some ''u0'']" by (cases out) auto
  ultimately show ?thesis by (intro exI conjI)
qed

section \<open>Reading a flow back\<close>

text \<open>
  getFlow follows the children of a job, at most \<open>depth\<close> levels down. The keys of the children
  are those that getDependencies of the job's queue returns (first pages only). The counter
  \<open>fuel\<close> bounds the recursion of the model: \<open>None\<close> means that it was used up. A child whose
  job is gone appears as a missing node.
\<close>

record child_keys =
  ck_processed :: "string list"
  ck_unprocessed :: "string list"
  ck_failed :: "string list"
  ck_ignored :: "string list"

record 's flow_reader =
  fr_forQueue :: "string \<Rightarrow> string option \<Rightarrow> 's queue_backend"
  fr_getDependencies :: "string \<Rightarrow> string option \<Rightarrow> string option \<Rightarrow> real \<Rightarrow> ('s, child_keys) backend_op"
  fr_parseNodeKey :: "string \<Rightarrow> string \<times> string \<times> string"

datatype flow_node = FlowNode (fn_job: job) (fn_children: "flow_node option list option")

text \<open>\<open>Promise.all\<close>: all reads run, the first rejection is the result.\<close>

fun read_all :: "('s, 'a) loop_op list \<Rightarrow> ('s, 'a list) loop_op" where
  "read_all [] s = Some (Inr [], s)"
| "read_all (m # ms) s =
     (case m s of
        None \<Rightarrow> None
      | Some (r, s1) \<Rightarrow>
          (case read_all ms s1 of
             None \<Rightarrow> None
           | Some (rs, s2) \<Rightarrow> Some (bind_result r (\<lambda>a. bind_result rs (\<lambda>as. Inr (a # as))), s2)))"

definition all_child_keys :: "child_keys \<Rightarrow> string list" where
  "all_child_keys d = ck_processed d @ ck_unprocessed d @ ck_failed d @ ck_ignored d"

primrec getNode ::
  "json_lib \<Rightarrow> real \<Rightarrow> 's flow_reader \<Rightarrow> real \<Rightarrow> nat \<Rightarrow> int \<Rightarrow> string \<Rightarrow> string option \<Rightarrow> string
     \<Rightarrow> ('s, flow_node option) loop_op" where
  "getNode J now R maxChildren 0 depth queueName pre jid = (\<lambda>s. None)"
| "getNode J now R maxChildren (Suc fuel) depth queueName pre jid = (\<lambda>s.
     case fromId J (fr_forQueue R queueName pre) now (Some jid) s of
       (Inl e, s1) \<Rightarrow> Some (Inl e, s1)
     | (Inr None, s1) \<Rightarrow> Some (Inr None, s1)
     | (Inr (Some job), s1) \<Rightarrow>
         (case fr_getDependencies R queueName pre (j_id job) maxChildren s1 of
            (Inl e, s2) \<Rightarrow> Some (Inl e, s2)
          | (Inr deps, s2) \<Rightarrow>
              (if all_child_keys deps \<noteq> [] \<and> depth - 1 \<noteq> 0
               then (case read_all
                            (map (\<lambda>key. case fr_parseNodeKey R key of (p, q, i) \<Rightarrow>
                                    getNode J now R maxChildren fuel (depth - 1) q (Some p) i)
                               (all_child_keys deps)) s2 of
                       None \<Rightarrow> None
                     | Some (r, s3) \<Rightarrow>
                         Some (bind_result r (\<lambda>children. Inr (Some (FlowNode job (Some children)))), s3))
               else Some (Inr (Some (FlowNode job None)), s2))))"

record node_query =
  nq_queueName :: string
  nq_prefix :: "string option"
  nq_id :: string
  nq_depth :: "int option"
  nq_maxChildren :: "real option"

definition getFlow ::
  "json_lib \<Rightarrow> real \<Rightarrow> 's flow_reader \<Rightarrow> 's queue_backend \<Rightarrow> bool \<Rightarrow> string option \<Rightarrow> nat \<Rightarrow> node_query
     \<Rightarrow> ('s, flow_node option) loop_op" where
  "getFlow J now R B closing optsPrefix fuel q s =
     (if closing then Some (Inr None, s)
      else case be_waitUntilReady B s of
             (Inl e, s') \<Rightarrow> Some (Inl e, s')
           | (Inr _, s') \<Rightarrow>
               getNode J now R (with_default 20 (nq_maxChildren q)) fuel (with_default 10 (nq_depth q)) (nq_queueName q)
                 (case nq_prefix q of Some p \<Rightarrow> Some p | None \<Rightarrow> optsPrefix) (nq_id q) s')"

text \<open>The number of levels of a node.\<close>

fun levels_within :: "nat \<Rightarrow> flow_node \<Rightarrow> bool" where
  "levels_within 0 t = False"
| "levels_within (Suc d) (FlowNode job None) = True"
| "levels_within (Suc d) (FlowNode job (Some ts)) = (\<forall>t \<in> set ts. case t of None \<Rightarrow> True | Some u \<Rightarrow> levels_within d u)"

lemma read_all_total:
  assumes "\<And>m s. m \<in> set ms \<Longrightarrow> \<exists>r s'. m s = Some (r, s') \<and> (\<forall>a. r = Inr a \<longrightarrow> P a)"
  shows "\<exists>r s'. read_all ms s = Some (r, s') \<and> (\<forall>as. r = Inr as \<longrightarrow> (\<forall>a \<in> set as. P a))"
  using assms
proof (induction ms arbitrary: s)
  case (Cons m ms)
  from Cons.prems [of m s] obtain r s1 where m: "m s = Some (r, s1)" "\<forall>a. r = Inr a \<longrightarrow> P a" by auto
  from Cons.IH [of s1] Cons.prems obtain rs s2 where ms: "read_all ms s1 = Some (rs, s2)"
    "\<forall>as. rs = Inr as \<longrightarrow> (\<forall>a \<in> set as. P a)" by auto
  from m ms show ?case by auto
qed simp

lemma getNode_bounded:
  "\<exists>r s'. getNode J now R mc (Suc fuel) (int (Suc fuel)) q p i s = Some (r, s')
     \<and> (\<forall>t. r = Inr (Some t) \<longrightarrow> levels_within (Suc fuel) t)"
proof (induction fuel arbitrary: q p i s)
  case 0
  show ?case by (auto split: prod.split sum.split option.split)
next
  case (Suc fuel)
  have kids: "\<exists>r s'. read_all (map (\<lambda>key. case fr_parseNodeKey R key of (p, q, i) \<Rightarrow>
        getNode J now R mc (Suc fuel) (int (Suc fuel)) q (Some p) i) keys) s = Some (r, s')
      \<and> (\<forall>as. r = Inr as \<longrightarrow> (\<forall>a \<in> set as. case a of None \<Rightarrow> True | Some u \<Rightarrow> levels_within (Suc fuel) u))" for keys s
  proof (rule read_all_total)
    fix m s assume "m \<in> set (map (\<lambda>key. case fr_parseNodeKey R key of (p, q, i) \<Rightarrow>
        getNode J now R mc (Suc fuel) (int (Suc fuel)) q (Some p) i) keys)"
    then obtain p q i where m: "m = getNode J now R mc (Suc fuel) (int (Suc fuel)) q (Some p) i" by (auto split: prod.splits)
    from Suc.IH [of q "Some p" i s] show "\<exists>r s'. m s = Some (r, s')
        \<and> (\<forall>a. r = Inr a \<longrightarrow> (case a of None \<Rightarrow> True | Some u \<Rightarrow> levels_within (Suc fuel) u))"
      unfolding m by (auto split: option.split)
  qed
  have d: "int (Suc (Suc fuel)) - 1 = int (Suc fuel)" by simp
  show ?case
  proof (cases "fromId J (fr_forQueue R q p) now (Some i) s")
    case (Pair r s1)
    show ?thesis
    proof (cases "\<exists>job. r = Inr (Some job)")
      case False
      with Pair show ?thesis by (cases r) (auto split: option.split)
    next
      case True
      then obtain job where r: "r = Inr (Some job)" by blast
      show ?thesis
      proof (cases "fr_getDependencies R q p (j_id job) mc s1")
        case dp: (Pair rd s2)
        show ?thesis
        proof (cases rd)
          case (Inl e)
          with Pair r dp show ?thesis by simp
        next
          case (Inr deps)
          from kids [of "all_child_keys deps" s2] obtain rs s3 where
            k: "read_all (map (\<lambda>key. case fr_parseNodeKey R key of (p, q, i) \<Rightarrow>
                  getNode J now R mc (Suc fuel) (int (Suc fuel)) q (Some p) i) (all_child_keys deps)) s2 = Some (rs, s3)"
              "\<forall>as. rs = Inr as \<longrightarrow> (\<forall>a \<in> set as. case a of None \<Rightarrow> True | Some u \<Rightarrow> levels_within (Suc fuel) u)" by blast
          show ?thesis
            unfolding getNode.simps(2) [of J now R mc "Suc fuel"] d using Pair r dp Inr k
            by (cases "all_child_keys deps = []") (auto simp del: getNode.simps)
        qed
      qed
    qed
  qed
qed

text \<open>
  C32. getFlow with a depth of at least 1 always ends, and the tree it returns has at most that many
  levels, whatever the datastore answers (also when the stored links form a cycle).
\<close>

theorem getFlow_bounded:
  assumes "nq_depth q = Some (int (Suc d))"
  shows "\<exists>r s'. getFlow J now R B closing pre (Suc d) q s = Some (r, s')
    \<and> (\<forall>t. r = Inr (Some t) \<longrightarrow> levels_within (Suc d) t)"
  using getNode_bounded [of J now R "with_default 20 (nq_maxChildren q)" d "nq_queueName q"
      "case nq_prefix q of Some p \<Rightarrow> Some p | None \<Rightarrow> pre" "nq_id q"] assms
  by (auto simp: getFlow_def with_default_def simp del: getNode.simps split: prod.split sum.split option.split)

text \<open>A store in which a job is its own child.\<close>

definition cyclic_reader :: "string list flow_reader" where
  "cyclic_reader =
     \<lparr>fr_forQueue = (\<lambda>_ _. log_backend\<lparr>be_getJobData := (\<lambda>i. logged ''getJobData''
          (case asJSON demo_lib (new_Job 0 (Some ''a'') VNull [] (Some i)) of Inr j \<Rightarrow> Some j | Inl _ \<Rightarrow> None))\<rparr>),
      fr_getDependencies = (\<lambda>_ _ i _. logged ''getDependencies''
          \<lparr>ck_processed = [''bull:q:'' @ render_opt i], ck_unprocessed = [], ck_failed = [], ck_ignored = []\<rparr>),
      fr_parseNodeKey = parseNodeKey\<rparr>"

theorem getFlow_bounded_witness:
  "\<exists>r s'. getFlow demo_lib 0 cyclic_reader log_backend False None 3
      \<lparr>nq_queueName = ''q'', nq_prefix = None, nq_id = ''1'', nq_depth = Some 3, nq_maxChildren = None\<rparr> [] = Some (r, s')
    \<and> (\<forall>t. r = Inr (Some t) \<longrightarrow> levels_within 3 t)"
  using getFlow_bounded [of "\<lparr>nq_queueName = ''q'', nq_prefix = None, nq_id = ''1'', nq_depth = Some 3, nq_maxChildren = None\<rparr>"
      2 demo_lib 0 cyclic_reader log_backend False None "[]"]
  by (simp add: numeral_3_eq_3)

end
