(* ===== verification/Redis_Pages.thy ===== *)
theory Redis_Pages
  imports Redis_Scan Redis_Lists
begin

text \<open>
  What the adapter's paging arithmetic means on the lists and sorted sets of the server:
  reading logs from the newest, paging failed children, collecting the pages of paginate and
  resuming a queue.
\<close>

section \<open>Logs from the newest\<close>

text \<open>A server that keeps the logs of the job in a list and answers the two queued commands.\<close>

definition serves_logs :: "'s redis_env \<Rightarrow> jsval \<Rightarrow> jsval list \<Rightarrow> 's \<Rightarrow> bool" where
  "serves_logs E key logs s \<longleftrightarrow>
     (\<forall>a b. rv_exec E True [(''lrange'', [key, VNum (of_int a), VNum (of_int b)]), (''llen'', [key])] s
              = (Inr [(None, VArr (lrange a b logs)), (None, VNum (real (length logs)))], s))"

text \<open>
  Reading logs in descending order is the same as reading the reversed log in ascending order:
  for all indices, negative ones included, getJobLogs returns the requested range of the newest
  entries first, with the total count.
\<close>

theorem getJobLogs_range:
  assumes "rv_client E s = (Inr (), s)"
    and "serves_logs E (tkey B (render_opt jobId @ '':logs'')) logs s"
  shows "getJobLogs_redis E B jobId start end asc s
    = (Inr (VArr (lrange start end (if asc then logs else rev logs)), VNum (real (length logs))), s)"
  using assms lrange_reversed [of "end" start logs]
  by (auto simp: getJobLogs_redis_def with_client_def b_then_def b_lift_def b_ret_def serves_logs_def logs_range_def Let_def
      reply_at_def reverse_val_def)

definition logs_server :: "jsval list redis_env" where
  "logs_server =
     \<lparr>rv_client = b_ret (), rv_call = (\<lambda>_ _ s. (Inr VNull, s)),
      rv_exec = (\<lambda>_ cmds s. (Inr (case cmds of
          (_, [_, VNum a, VNum b]) # _ \<Rightarrow> [(None, VArr (lrange \<lfloor>a\<rfloor> \<lfloor>b\<rfloor> s)), (None, VNum (real (length s)))]
        | _ \<Rightarrow> []), s)),
      rv_pack = (\<lambda>v. v), rv_json = demo_lib, rv_now = 0, rv_stk = None, rv_coerce = id, rv_lt = (\<lambda>_ _. False)\<rparr>"

theorem getJobLogs_range_witness:
  "getJobLogs_redis logs_server demo_backend (Some ''1'') 0 1 False [VStr ''a'', VStr ''b'', VStr ''c'']
     = (Inr (VArr [VStr ''c'', VStr ''b''], VNum 3), [VStr ''a'', VStr ''b'', VStr ''c''])"
  using getJobLogs_range [of logs_server "[VStr ''a'', VStr ''b'', VStr ''c'']" demo_backend "Some ''1''"
      "[VStr ''a'', VStr ''b'', VStr ''c'']" 0 1 False]
  by (simp add: logs_server_def b_ret_def serves_logs_def lrange_def)

section \<open>Failed children\<close>

text \<open>
  The second page of failed children is always empty: getDependencies asks ZRANGE for the
  indices from cursor to count - 1, so that continuing with the nextFailedCursor it returned
  selects nothing, however many children failed.
\<close>

theorem failed_pages_after_first_empty:
  assumes "0 \<le> cursor" and "0 < count"
  defines "q \<equiv> \<lparr>cp_cursor = Some (of_int (cursor + count)), cp_count = Some (of_int count)\<rparr>"
  shows "failed_entry vars (Some \<lparr>cp_cursor = Some (of_int cursor), cp_count = Some (of_int count)\<rparr>)
           = [(''failed'', oprop vars ''failed''), (''nextFailedCursor'', VNum (of_int (cursor + count)))]
    \<and> failed_command key q = (''zrange'', [key, VNum (of_int (cursor + count)), VNum (of_int (count - 1))])
    \<and> lrange (cursor + count) (count - 1) members = []"
proof -
  have "real_of_int cursor + of_int count = of_int (cursor + count)" by simp
  moreover from assms have "real_of_int (cursor + count) \<noteq> 0" by simp
  ultimately show ?thesis using assms
    by (auto simp: failed_entry_def failed_command_def page_cursor_def page_count_def with_default_def lrange_def Let_def)
qed

theorem failed_pages_after_first_empty_witness:
  "failed_command (VStr ''k'') \<lparr>cp_cursor = Some 20, cp_count = Some 20\<rparr> = (''zrange'', [VStr ''k'', VNum 20, VNum 19])
   \<and> lrange 20 19 [1 .. 100] = []"
  using failed_pages_after_first_empty [of 0 20 "[]" "VStr ''k''" "[1 .. (100::int)]"] by simp

section \<open>Collecting pages\<close>

text \<open>A server that gives out a set page by page: \<open>n\<close> pages, the last one with cursor 0.\<close>

definition serves_pages ::
  "'s redis_env \<Rightarrow> redis_queue \<Rightarrow> string \<Rightarrow> real \<Rightarrow> real \<Rightarrow> (nat \<Rightarrow> 's) \<Rightarrow> (nat \<Rightarrow> jsval) \<Rightarrow> (nat \<Rightarrow> jsval)
     \<Rightarrow> (nat \<Rightarrow> jsval list) \<Rightarrow> jsval \<Rightarrow> nat \<Rightarrow> bool" where
  "serves_pages E B key start end st cur off items cardinality n \<longleftrightarrow>
     cur 0 = VStr ''0'' \<and> off 0 = VNum 0 \<and> 0 < n \<and> \<not> loose_not_zero (cur n)
     \<and> (\<forall>i < n. (0 < i \<longrightarrow> loose_not_zero (cur i))
          \<and> execCommand E B ''paginate''
              (paginateArgs key start end False (cur i) (off i) (length (concat (map items [0..<i])))) (st i)
            = (Inr (VArr [cur (Suc i), off (Suc i), VArr (items i), cardinality]), st (Suc i)))"

lemma paginate_loop_pages:
  assumes "serves_pages E B key start end st cur off items cardinality n" and "end < 0" and "i < n"
  shows "paginate_loop E B key start end False (cur i) (off i) (concat (map items [0..<i])) [] (st i)
    = Some (Inr (cur n, concat (map items [0..<n]), cardinality, []), st n)"
  using assms(3)
proof (induction "n - i" arbitrary: i)
  case 0
  then show ?case by simp
next
  case (Suc d)
  from assms(1) Suc.prems have step: "execCommand E B ''paginate''
      (paginateArgs key start end False (cur i) (off i) (length (concat (map items [0..<i])))) (st i)
    = (Inr (VArr [cur (Suc i), off (Suc i), VArr (items i), cardinality]), st (Suc i))"
    unfolding serves_pages_def by blast
  have unbounded: "below_size m (page_size start end)" for m using assms(2) by (simp add: page_size_def)
  have page: "concat_val (concat (map items [0..<i])) (VArr (items i)) = concat (map items [0..<Suc i])"
    by (simp add: concat_val_def)
  show ?case
  proof (cases "Suc i = n")
    case True
    with assms(1) have "\<not> loose_not_zero (cur (Suc i))" unfolding serves_pages_def by blast
    with step page True show ?thesis
      by (subst paginate_loop.simps) (simp add: reply_parts_def page_jobs_def elem_at_def)
  next
    case False
    with Suc.prems have "Suc i < n" by simp
    with assms(1) have "loose_not_zero (cur (Suc i))" unfolding serves_pages_def by blast
    moreover from Suc \<open>Suc i < n\<close> have "paginate_loop E B key start end False (cur (Suc i)) (off (Suc i))
        (concat (map items [0..<Suc i])) [] (st (Suc i))
      = Some (Inr (cur n, concat (map items [0..<n]), cardinality, []), st n)" by (intro Suc.hyps) simp_all
    ultimately show ?thesis using step page unbounded
      by (subst paginate_loop.simps) (simp add: reply_parts_def page_jobs_def elem_at_def del: upt_Suc)
  qed
qed

text \<open>
  paginate without an upper bound ends after the page whose cursor is 0 and returns the items of
  all pages, in order, each call continuing from the cursor, the offset and the number of items
  already collected.
\<close>

theorem paginate_collects:
  assumes "serves_pages E B key start end st cur off items cardinality n" and "end < 0"
    and "rv_client E s = (Inr (), st 0)"
  shows "paginate E B key start end False s
    = Some (Inr \<lparr>pr_cursor = cur n, pr_items = page_items E (concat (map items [0..<n])), pr_total = cardinality,
                 pr_jobs = []\<rparr>, st n)"
proof -
  from assms(1) have "cur 0 = VStr ''0''" "off 0 = VNum 0" "0 < n" unfolding serves_pages_def by blast+
  with paginate_loop_pages [OF assms(1,2), of 0] assms(3) show ?thesis by (simp add: paginate_def)
qed

definition demo_pages :: "jsval list" where
  "demo_pages = [VArr [VStr ''7'', VNum 0, VArr [VStr ''a''], VNum 2], VArr [VStr ''0'', VNum 0, VArr [VStr ''b''], VNum 2]]"

theorem paginate_collects_witness:
  "\<exists>st. paginate replay_env demo_backend ''k'' 0 (-1) False ([], demo_pages)
     = Some (Inr \<lparr>pr_cursor = VStr ''0'', pr_items = [\<lparr>pi_id = VStr ''a'', pi_v = None, pi_err = None\<rparr>,
                 \<lparr>pi_id = VStr ''b'', pi_v = None, pi_err = None\<rparr>], pr_total = VNum 2, pr_jobs = []\<rparr>, st)"
proof -
  let ?cur = "\<lambda>i. if i = 1 then VStr ''7'' else VStr ''0''"
  let ?items = "\<lambda>i. if i = 0 then [VStr ''a''] else [VStr ''b'']"
  let ?arg = "\<lambda>i. paginateArgs ''k'' 0 (-1) False (?cur i) (VNum 0) i"
  let ?name = "versioned demo_backend ''paginate''"
  let ?st = "\<lambda>i. (map (\<lambda>j. (?name, ?arg j)) [0..<i], drop i demo_pages)"
  have "serves_pages replay_env demo_backend ''k'' 0 (-1) ?st ?cur (\<lambda>_. VNum 0) ?items (VNum 2) 2"
    unfolding serves_pages_def
    by (auto simp: less_Suc_eq execCommand_def replay_call_def next_reply_def demo_pages_def paginateArgs_def
        numeral_2_eq_2)
  from paginate_collects [OF this] show ?thesis
    by (intro exI [of _ "?st 2"]) (simp add: b_ret_def page_items_def is_array_def numeral_2_eq_2)
qed

section \<open>Resuming\<close>

text \<open>
  Resuming ends: if every call of the pause script reports how many legacy paused jobs remain and
  a call that leaves some has moved at least one, the loop stops with nothing left to move.
\<close>

theorem resume_terminates:
  fixes left :: "'s \<Rightarrow> nat"
  assumes "rv_client E s = (Inr (), s0)"
    and "\<And>s emitEvent. \<exists>s'. execCommand E B ''pause'' (pauseArgs B False emitEvent) s = (Inr (VNum (real (left s'))), s')
            \<and> (left s' = 0 \<or> left s' < left s)"
  shows "\<exists>s'. pause_queue E B False s = Some (Inr (), s') \<and> left s' = 0"
proof -
  have "\<exists>s'. resume_loop E B emitEvent t = Some (Inr (), s') \<and> left s' = 0" for emitEvent t
  proof (induction "left t" arbitrary: t emitEvent rule: less_induct)
    case less
    from assms(2) obtain s' where s': "execCommand E B ''pause'' (pauseArgs B False emitEvent) t
        = (Inr (VNum (real (left s'))), s')" "left s' = 0 \<or> left s' < left t" by blast
    then show ?case
    proof (cases "left s' = 0")
      case True
      with s' show ?thesis by (subst resume_loop.simps) simp
    next
      case False
      with s' less [of s' False] show ?thesis by (subst resume_loop.simps) simp
    qed
  qed
  with assms(1) show ?thesis by (simp add: pause_queue_def)
qed

definition resume_server :: "nat redis_env" where
  "resume_server =
     \<lparr>rv_client = b_ret (), rv_call = (\<lambda>_ _ n. (Inr (VNum (real (n - 1000))), n - 1000)), rv_exec = (\<lambda>_ _ s. (Inr [], s)),
      rv_pack = (\<lambda>v. v), rv_json = demo_lib, rv_now = 0, rv_stk = None, rv_coerce = id, rv_lt = (\<lambda>_ _. False)\<rparr>"

theorem resume_terminates_witness:
  "\<exists>n. pause_queue resume_server demo_backend False 2500 = Some (Inr (), n) \<and> id n = 0"
proof (rule resume_terminates [where s = 2500])
  show "rv_client resume_server 2500 = (Inr (), 2500)" by (simp add: resume_server_def b_ret_def)
  show "\<exists>s'. execCommand resume_server demo_backend ''pause'' (pauseArgs demo_backend False ev) s
      = (Inr (VNum (real (id s'))), s') \<and> (id s' = 0 \<or> id s' < id s)" for s ev
    by (intro exI [of _ "s - 1000"]) (auto simp: execCommand_def resume_server_def)
qed

end
