(* ===== verification/Redis_Locks.thy ===== *)
theory Redis_Locks
  imports Redis_Instance Lock_Manager
begin

text \<open>
  The lock scripts on the server, src/commands/extendLock-2.lua and extendLocks-1.lua, on a
  store of typed keys with expiry times, and the abstract lock table they implement: who holds
  the lock of a job until when, and which jobs are marked as stalled. The adapter's
  \<open>extendLock\<close> and \<open>extendLocks\<close>, running these scripts, refine the renewal of the table; the
  lock manager on top of them reports a renewal only of locks the worker really holds.
\<close>

section \<open>The store\<close>

datatype rvalue = RStr string | RSet "string set"

record redis_db =
  db_now :: real
  db_keys :: "string \<Rightarrow> (rvalue \<times> real option) option"

definition db_live :: "redis_db \<Rightarrow> string \<Rightarrow> rvalue option" where
  "db_live db k =
     (case db_keys db k of
        None \<Rightarrow> None
      | Some (v, None) \<Rightarrow> Some v
      | Some (v, Some e) \<Rightarrow> if db_now db < e then Some v else None)"

definition wrongtype :: js_error where
  "wrongtype = new_err ErrorClass None ''WRONGTYPE Operation against a key holding the wrong kind of value''"

definition redis_get :: "string \<Rightarrow> (redis_db, string option) backend_op" where
  "redis_get k db =
     (case db_live db k of
        None \<Rightarrow> (Inr None, db)
      | Some (RStr s) \<Rightarrow> (Inr (Some s), db)
      | Some (RSet _) \<Rightarrow> (Inl wrongtype, db))"

text \<open>\<open>SET key value PX ms\<close> replaces whatever the key holds; \<open>ms\<close> must be a positive integer.\<close>

definition valid_px :: "real \<Rightarrow> bool" where
  "valid_px ms \<longleftrightarrow> 0 < ms \<and> ms = of_int \<lfloor>ms\<rfloor>"

definition redis_set_px :: "string \<Rightarrow> string \<Rightarrow> real \<Rightarrow> (redis_db, unit) backend_op" where
  "redis_set_px k v ms db =
     (if valid_px ms
      then (Inr (), db\<lparr>db_keys := (db_keys db)(k \<mapsto> (RStr v, Some (db_now db + ms)))\<rparr>)
      else (Inl (new_err ErrorClass None ''ERR value is not an integer or out of range''), db))"

definition redis_srem :: "string \<Rightarrow> string \<Rightarrow> (redis_db, unit) backend_op" where
  "redis_srem k m db =
     (case db_live db k of
        None \<Rightarrow> (Inr (), db)
      | Some (RStr _) \<Rightarrow> (Inl wrongtype, db)
      | Some (RSet ms) \<Rightarrow>
          (Inr (), db\<lparr>db_keys := (db_keys db)
             (k := if ms - {m} = {} then None
                   else Some (RSet (ms - {m}), snd (the (db_keys db k))))\<rparr>))"

section \<open>The scripts\<close>

definition bad_args :: js_error where
  "bad_args = new_err ErrorClass None ''ERR Error running script''"

text \<open>\<open>KEYS\<close> and \<open>ARGV\<close> are the argument list of the call, cut after the declared number of
  keys.\<close>

definition lua_extendLock :: "jsval list \<Rightarrow> (redis_db, jsval) backend_op" where
  "lua_extendLock args =
     (case args of
        [VStr lockKey, VStr stalledKey, VStr token, VNum duration, VStr jobId] \<Rightarrow>
          b_then (redis_get lockKey) (\<lambda>current.
            if current = Some token
            then b_then (redis_set_px lockKey token duration) (\<lambda>_.
                 b_then (redis_srem stalledKey jobId) (\<lambda>_. b_ret (VNum 1)))
            else b_ret (VNum 0))
      | _ \<Rightarrow> b_throw bad_args)"

text \<open>The loop over the jobs; \<open>tokens[i]\<close> past the end is \<open>nil\<close>, which equals no token.\<close>

fun lua_extend_loop ::
  "string \<Rightarrow> string \<Rightarrow> real \<Rightarrow> (string \<times> string option) list \<Rightarrow> string list \<Rightarrow> (redis_db, string list) backend_op" where
  "lua_extend_loop stalledKey baseKey lockDuration [] failedJobs = b_ret failedJobs"
| "lua_extend_loop stalledKey baseKey lockDuration ((jobId, token) # jobs) failedJobs =
     b_then (redis_get (baseKey @ jobId @ '':lock'')) (\<lambda>currentToken.
       if currentToken \<noteq> None \<and> currentToken = token
       then b_then (redis_set_px (baseKey @ jobId @ '':lock'') (the token) lockDuration) (\<lambda>_.
            b_then (redis_srem stalledKey jobId) (\<lambda>_.
              lua_extend_loop stalledKey baseKey lockDuration jobs failedJobs))
       else lua_extend_loop stalledKey baseKey lockDuration jobs (failedJobs @ [jobId]))"

fun with_tokens :: "string list \<Rightarrow> string list \<Rightarrow> (string \<times> string option) list" where
  "with_tokens [] ts = []"
| "with_tokens (i # is) [] = (i, None) # with_tokens is []"
| "with_tokens (i # is) (t # ts) = (i, Some t) # with_tokens is ts"

definition lua_extendLocks :: "(jsval \<Rightarrow> string list) \<Rightarrow> jsval list \<Rightarrow> (redis_db, jsval) backend_op" where
  "lua_extendLocks unpack args =
     (case args of
        [VStr stalledKey, VStr baseKey, tokens, jobIds, VNum lockDuration] \<Rightarrow>
          b_then (lua_extend_loop stalledKey baseKey lockDuration (with_tokens (unpack jobIds) (unpack tokens)) [])
            (\<lambda>failedJobs. b_ret (VArr (map VStr failedJobs)))
      | _ \<Rightarrow> b_throw bad_args)"

text \<open>A client whose server runs the two scripts; other commands are those of the given
  client.\<close>

definition lock_env :: "(jsval \<Rightarrow> string list) \<Rightarrow> redis_queue \<Rightarrow> redis_db redis_env \<Rightarrow> redis_db redis_env" where
  "lock_env unpack B E = E\<lparr>rv_call := (\<lambda>cmd args.
     if cmd = versioned B ''extendLock'' then lua_extendLock args
     else if cmd = versioned B ''extendLocks'' then lua_extendLocks unpack args
     else rv_call E cmd args)\<rparr>"

section \<open>The lock table\<close>

record lock_table =
  lt_holder :: "string \<Rightarrow> (string \<times> real) option"
  lt_stalled :: "string set"

definition holds :: "real \<Rightarrow> lock_table \<Rightarrow> string \<Rightarrow> string \<Rightarrow> bool" where
  "holds now T jobId token =
     (case lt_holder T jobId of None \<Rightarrow> False | Some (t, expires) \<Rightarrow> t = token \<and> now < expires)"

definition renew1 :: "real \<Rightarrow> real \<Rightarrow> string \<Rightarrow> string \<Rightarrow> lock_table \<Rightarrow> lock_table" where
  "renew1 now d jobId token T =
     T\<lparr>lt_holder := (lt_holder T)(jobId \<mapsto> (token, now + d)), lt_stalled := lt_stalled T - {jobId}\<rparr>"

fun renew :: "real \<Rightarrow> real \<Rightarrow> (string \<times> string option) list \<Rightarrow> lock_table \<Rightarrow> string list \<times> lock_table" where
  "renew now d [] T = ([], T)"
| "renew now d ((jobId, token) # jobs) T =
     (case token of
        Some t \<Rightarrow>
          if holds now T jobId t then renew now d jobs (renew1 now d jobId t T)
          else (jobId # fst (renew now d jobs T), snd (renew now d jobs T))
      | None \<Rightarrow> (jobId # fst (renew now d jobs T), snd (renew now d jobs T)))"

definition lock_key :: "redis_queue \<Rightarrow> string \<Rightarrow> string" where
  "lock_key B jobId = rq_toKey B jobId @ '':lock''"

definition set_of_value :: "(rvalue \<times> real option) option \<Rightarrow> string set" where
  "set_of_value v = (case v of Some (RSet ms, _) \<Rightarrow> ms | _ \<Rightarrow> {})"

definition lock_of_value :: "(rvalue \<times> real option) option \<Rightarrow> (string \<times> real) option" where
  "lock_of_value v = (case v of Some (RStr t, Some e) \<Rightarrow> Some (t, e) | _ \<Rightarrow> None)"

definition lock_table_of :: "redis_queue \<Rightarrow> redis_db \<Rightarrow> lock_table" where
  "lock_table_of B db =
     \<lparr>lt_holder = (\<lambda>i. lock_of_value (db_keys db (lock_key B i))),
      lt_stalled = set_of_value (db_keys db (rq_toKey B ''stalled''))\<rparr>"

text \<open>The types of the keys involved: a lock is a string that expires, the stalled jobs are a
  set that does not.\<close>

fun lock_value :: "(rvalue \<times> real option) option \<Rightarrow> bool" where
  "lock_value None = True"
| "lock_value (Some (RStr _, Some _)) = True"
| "lock_value _ = False"

fun stalled_value :: "(rvalue \<times> real option) option \<Rightarrow> bool" where
  "stalled_value None = True"
| "stalled_value (Some (RSet _, None)) = True"
| "stalled_value _ = False"

definition lock_typed :: "redis_queue \<Rightarrow> redis_db \<Rightarrow> bool" where
  "lock_typed B db \<longleftrightarrow>
     (\<forall>i. lock_value (db_keys db (lock_key B i))) \<and> stalled_value (db_keys db (rq_toKey B ''stalled''))"

section \<open>Refinement\<close>

lemma lock_key_inj: "addresses B pre name \<Longrightarrow> lock_key B i = lock_key B j \<longleftrightarrow> i = j"
  by (simp add: lock_key_def addresses_def toKey_def)

lemma lock_key_not_stalled: "addresses B pre name \<Longrightarrow> lock_key B i \<noteq> rq_toKey B ''stalled''"
proof
  assume a: "addresses B pre name" and "lock_key B i = rq_toKey B ''stalled''"
  then have "i @ '':lock'' = ''stalled''" by (simp add: lock_key_def addresses_def toKey_def)
  then have "last (i @ '':lock'') = last ''stalled''" by (rule arg_cong)
  then show False by simp
qed

lemma redis_get_lock:
  assumes "lock_typed B db"
  shows "redis_get (lock_key B i) db
           = (Inr (case lt_holder (lock_table_of B db) i of
                     Some (t, e) \<Rightarrow> if db_now db < e then Some t else None | None \<Rightarrow> None), db)"
proof -
  have "lock_value (db_keys db (lock_key B i))" using assms by (simp add: lock_typed_def)
  then show ?thesis
    by (cases "db_keys db (lock_key B i)" rule: lock_value.cases)
      (simp_all add: redis_get_def db_live_def lock_table_of_def lock_of_value_def)
qed

lemma redis_get_holds:
  assumes "lock_typed B db"
  shows "\<exists>c. redis_get (lock_key B i) db = (Inr c, db)
           \<and> (\<forall>t. c = Some t \<longleftrightarrow> holds (db_now db) (lock_table_of B db) i t)"
  using redis_get_lock[OF assms, of i] by (auto simp: holds_def split: option.splits)

lemma renew_one_refines:
  assumes "addresses B pre name" "lock_typed B db" "valid_px d"
  shows "\<exists>db'. b_then (redis_set_px (lock_key B i) t d) (\<lambda>_. b_then (redis_srem (rq_toKey B ''stalled'') i) k) db = k () db'
           \<and> lock_typed B db' \<and> db_now db' = db_now db
           \<and> lock_table_of B db' = renew1 (db_now db) d i t (lock_table_of B db)"
proof -
  let ?db1 = "db\<lparr>db_keys := (db_keys db)(lock_key B i \<mapsto> (RStr t, Some (db_now db + d)))\<rparr>"
  have ne: "lock_key B j \<noteq> rq_toKey B ''stalled''" "rq_toKey B ''stalled'' \<noteq> lock_key B j" for j
    using lock_key_not_stalled[OF assms(1), of j] by simp_all
  note inj = lock_key_inj[OF assms(1)]
  have set: "redis_set_px (lock_key B i) t d db = (Inr (), ?db1)" using assms(3) by (simp add: redis_set_px_def)
  consider "db_keys db (rq_toKey B ''stalled'') = None" | ms where "db_keys db (rq_toKey B ''stalled'') = Some (RSet ms, None)"
    using assms(2) by (cases "db_keys db (rq_toKey B ''stalled'')" rule: stalled_value.cases) (auto simp: lock_typed_def)
  then show ?thesis
  proof cases
    case 1
    then have "redis_srem (rq_toKey B ''stalled'') i ?db1 = (Inr (), ?db1)"
      using ne by (simp add: redis_srem_def db_live_def)
    moreover have "lock_typed B ?db1" using assms(2) 1 ne by (auto simp: lock_typed_def)
    ultimately show ?thesis using set 1 ne
      by (intro exI[of _ ?db1])
        (auto simp: b_then_def lock_table_of_def renew1_def lock_of_value_def set_of_value_def inj fun_eq_iff)
  next
    case (2 ms)
    let ?db2 = "?db1\<lparr>db_keys := (db_keys ?db1)(rq_toKey B ''stalled'' :=
                   if ms - {i} = {} then None else Some (RSet (ms - {i}), None))\<rparr>"
    have "redis_srem (rq_toKey B ''stalled'') i ?db1 = (Inr (), ?db2)"
      using ne 2 by (simp add: redis_srem_def db_live_def)
    moreover have "lock_typed B ?db2" using assms(2) ne by (auto simp: lock_typed_def)
    moreover have "lock_table_of B ?db2 = renew1 (db_now db) d i t (lock_table_of B db)"
      using 2 ne by (auto simp: lock_table_of_def renew1_def lock_of_value_def set_of_value_def inj fun_eq_iff)
    ultimately show ?thesis using set by (intro exI[of _ ?db2]) (simp add: b_then_def)
  qed
qed

lemma lock_key_base: "addresses B pre name \<Longrightarrow> rq_toKey B '''' @ i @ '':lock'' = lock_key B i"
  by (simp add: lock_key_def addresses_def toKey_def)

lemma extend_loop_refines:
  assumes A: "addresses B pre name" and "lock_typed B db" and d: "valid_px d"
  shows "\<exists>db'. lua_extend_loop (rq_toKey B ''stalled'') (rq_toKey B '''') d jobs failed db
             = (Inr (failed @ fst (renew (db_now db) d jobs (lock_table_of B db))), db')
           \<and> lock_typed B db' \<and> db_now db' = db_now db
           \<and> lock_table_of B db' = snd (renew (db_now db) d jobs (lock_table_of B db))"
  using assms(2)
proof (induction jobs arbitrary: failed db)
  case Nil
  then show ?case by (simp add: b_ret_def)
next
  case (Cons job jobs)
  obtain i tok where job: "job = (i, tok)" by fastforce
  note key = lock_key_base[OF A, of i]
  from redis_get_holds[OF Cons.prems, of i] obtain c where
    get: "redis_get (lock_key B i) db = (Inr c, db)" "\<And>t. c = Some t \<longleftrightarrow> holds (db_now db) (lock_table_of B db) i t" by blast
  show ?case
  proof (cases "c \<noteq> None \<and> c = tok")
    case True
    then obtain t where t: "tok = Some t" "holds (db_now db) (lock_table_of B db) i t" using get(2) by auto
    obtain db1 where one: "b_then (redis_set_px (lock_key B i) t d) (\<lambda>_. b_then (redis_srem (rq_toKey B ''stalled'') i)
          (\<lambda>_. lua_extend_loop (rq_toKey B ''stalled'') (rq_toKey B '''') d jobs failed)) db
        = lua_extend_loop (rq_toKey B ''stalled'') (rq_toKey B '''') d jobs failed db1"
      "lock_typed B db1" "db_now db1 = db_now db"
      "lock_table_of B db1 = renew1 (db_now db) d i t (lock_table_of B db)"
      using renew_one_refines[OF A Cons.prems d, where k = "\<lambda>_. lua_extend_loop (rq_toKey B ''stalled'') (rq_toKey B '''') d jobs failed"]
      by metis
    have "lua_extend_loop (rq_toKey B ''stalled'') (rq_toKey B '''') d (job # jobs) failed db
        = lua_extend_loop (rq_toKey B ''stalled'') (rq_toKey B '''') d jobs failed db1"
      using True t(1) get(1) one(1) by (simp add: job key b_then_def)
    then show ?thesis using Cons.IH[OF one(2), of failed] one(3,4) t by (simp add: job)
  next
    case False
    then have "\<not> (\<exists>t. tok = Some t \<and> holds (db_now db) (lock_table_of B db) i t)" using get(2) by auto
    then have "renew (db_now db) d (job # jobs) (lock_table_of B db)
        = (i # fst (renew (db_now db) d jobs (lock_table_of B db)), snd (renew (db_now db) d jobs (lock_table_of B db)))"
      by (auto simp: job split: option.split)
    moreover have "lua_extend_loop (rq_toKey B ''stalled'') (rq_toKey B '''') d (job # jobs) failed db
        = lua_extend_loop (rq_toKey B ''stalled'') (rq_toKey B '''') d jobs (failed @ [i]) db"
      using False get(1) by (auto simp: job key b_then_def)
    ultimately show ?thesis using Cons.IH[OF Cons.prems, of "failed @ [i]"] by simp
  qed
qed

definition unpacks :: "(jsval \<Rightarrow> jsval) \<Rightarrow> (jsval \<Rightarrow> string list) \<Rightarrow> bool" where
  "unpacks pack unpack \<longleftrightarrow> (\<forall>xs. unpack (pack (VArr (map VStr xs))) = xs)"

definition client_ready :: "'s redis_env \<Rightarrow> bool" where
  "client_ready E \<longleftrightarrow> (\<forall>s. rv_client E s = (Inr (), s))"

lemma qkey_stalled: "addresses B pre name \<Longrightarrow> qkey B ''stalled'' = VStr (rq_toKey B ''stalled'')"
  by (simp add: addresses_def key_in_getKeys key_types_def)

lemma lock_env_simps [simp]:
  "rv_client (lock_env unpack B E) = rv_client E" "rv_pack (lock_env unpack B E) = rv_pack E"
  "rv_call (lock_env unpack B E) (versioned B ''extendLock'') = lua_extendLock"
  "rv_call (lock_env unpack B E) (versioned B ''extendLocks'') = lua_extendLocks unpack"
  by (simp_all add: lock_env_def versioned_def fun_eq_iff)

lemma extendLocks_refines:
  assumes "addresses B pre name" "lock_typed B db" "valid_px d" "unpacks (rv_pack E) unpack" "client_ready E"
  shows "\<exists>db'. extendLocks (lock_env unpack B E) B ids toks d db
             = (Inr (VArr (map VStr (fst (renew (db_now db) d (with_tokens ids toks) (lock_table_of B db))))), db')
           \<and> lock_typed B db' \<and> db_now db' = db_now db
           \<and> lock_table_of B db' = snd (renew (db_now db) d (with_tokens ids toks) (lock_table_of B db))"
proof -
  from extend_loop_refines[OF assms(1-3), of "with_tokens ids toks" "[]"] obtain db' where
    "lua_extend_loop (rq_toKey B ''stalled'') (rq_toKey B '''') d (with_tokens ids toks) [] db
       = (Inr (fst (renew (db_now db) d (with_tokens ids toks) (lock_table_of B db))), db')"
    "lock_typed B db'" "db_now db' = db_now db"
    "lock_table_of B db' = snd (renew (db_now db) d (with_tokens ids toks) (lock_table_of B db))" by auto
  then show ?thesis using assms(4,5)
    by (intro exI[of _ db'])
      (simp add: extendLocks_def with_client_def client_ready_def execCommand_def extendLocksArgs_def b_then_def
        lua_extendLocks_def qkey_stalled[OF assms(1)] unpacks_def b_ret_def)
qed

lemma extendLock_args:
  "addresses B pre name \<Longrightarrow> extendLockArgs B (Some i) t d
     = [VStr (lock_key B i), VStr (rq_toKey B ''stalled''), VStr t, VNum d, VStr i]"
  by (simp add: extendLockArgs_def qkey_stalled lock_key_def render_opt_def with_default_def opt_str_val_def)

lemma extendLock_refines:
  assumes A: "addresses B pre name" and T: "lock_typed B db" and "valid_px d" "client_ready E"
  shows "\<exists>db'. extendLock_redis (lock_env unpack B E) B (Some i) t d db
             = (Inr (VNum (if holds (db_now db) (lock_table_of B db) i t then 1 else 0)), db')
           \<and> lock_typed B db' \<and> db_now db' = db_now db
           \<and> lock_table_of B db' = snd (renew (db_now db) d [(i, Some t)] (lock_table_of B db))"
proof -
  from redis_get_holds[OF T, of i] obtain c where
    get: "redis_get (lock_key B i) db = (Inr c, db)" "\<And>t. c = Some t \<longleftrightarrow> holds (db_now db) (lock_table_of B db) i t" by blast
  have run: "extendLock_redis (lock_env unpack B E) B (Some i) t d db
      = (if holds (db_now db) (lock_table_of B db) i t
         then b_then (redis_set_px (lock_key B i) t d) (\<lambda>_. b_then (redis_srem (rq_toKey B ''stalled'') i) (\<lambda>_. b_ret (VNum 1))) db
         else (Inr (VNum 0), db))"
    using assms(4) get(1) get(2)[of t]
    by (simp add: extendLock_redis_def with_client_def client_ready_def execCommand_def extendLock_args[OF A]
        lua_extendLock_def b_then_def b_ret_def)
  show ?thesis
  proof (cases "holds (db_now db) (lock_table_of B db) i t")
    case True
    then show ?thesis
      using renew_one_refines[OF A T assms(3), of i t "\<lambda>_. b_ret (VNum 1)"] run by (simp add: b_ret_def)
  next
    case False
    then show ?thesis using run T by simp
  qed
qed

text \<open>
  C6. Lock renewal through the Redis adapter implements the renewal of a lock table. Running the
  scripts on a store whose keys are well typed, extendLock and extendLocks renew exactly the jobs
  whose unexpired lock carries the given token: these get the new expiry time and leave the
  stalled set, all others are reported (0, or their ids in order) and untouched; the store stays
  well typed.
\<close>

theorem locks_refine:
  assumes "addresses B pre name" "lock_typed B db" "valid_px d" "unpacks (rv_pack E) unpack" "client_ready E"
  shows "\<exists>db1 db2.
     extendLock_redis (lock_env unpack B E) B (Some i) t d db
       = (Inr (VNum (if holds (db_now db) (lock_table_of B db) i t then 1 else 0)), db1)
     \<and> lock_table_of B db1 = snd (renew (db_now db) d [(i, Some t)] (lock_table_of B db)) \<and> lock_typed B db1
     \<and> extendLocks (lock_env unpack B E) B ids toks d db
       = (Inr (VArr (map VStr (fst (renew (db_now db) d (with_tokens ids toks) (lock_table_of B db))))), db2)
     \<and> lock_table_of B db2 = snd (renew (db_now db) d (with_tokens ids toks) (lock_table_of B db)) \<and> lock_typed B db2"
  using extendLock_refines[OF assms(1-3,5), of unpack i t] extendLocks_refines[OF assms, of ids toks] by blast

definition demo_db :: redis_db where
  "demo_db = \<lparr>db_now = 100, db_keys = [''bull:mails:7:lock'' \<mapsto> (RStr ''t'', Some 130),
      ''bull:mails:8:lock'' \<mapsto> (RStr ''u'', Some 130), ''bull:mails:stalled'' \<mapsto> (RSet {''7'', ''8''}, None)]\<rparr>"

definition demo_lock_env :: "redis_db redis_env" where
  "demo_lock_env =
     \<lparr>rv_client = b_ret (), rv_call = (\<lambda>_ _. b_ret VNull), rv_exec = (\<lambda>_ _. b_ret []), rv_pack = (\<lambda>v. v),
      rv_json = demo_lib, rv_now = 1000, rv_stk = None, rv_coerce = id, rv_lt = (\<lambda>a b. False)\<rparr>"

lemma demo_codec: "unpacks (rv_pack demo_lock_env) str_list_of"
  by (auto simp: unpacks_def demo_lock_env_def str_list_of_def comp_def)

lemma demo_client_ready: "client_ready demo_lock_env"
  by (simp add: client_ready_def demo_lock_env_def b_ret_def)

lemma demo_lock_key: "lock_key demo_backend i = ''bull:mails:'' @ i @ '':lock''"
  by (simp add: lock_key_def demo_backend_def new_RedisQueueBackend_def toKey_def getQueueQualifiedName_def)

lemma demo_lock_typed: "lock_typed demo_backend demo_db"
proof -
  have st: "rq_toKey demo_backend ''stalled'' = ''bull:mails:stalled''"
    by (simp add: demo_backend_def new_RedisQueueBackend_def toKey_def getQueueQualifiedName_def)
  have "lock_key demo_backend i \<noteq> ''bull:mails:stalled''" for i
    using lock_key_not_stalled[OF demo_addresses, of i] st by simp
  then show ?thesis by (auto simp: lock_typed_def demo_db_def st)
qed

theorem locks_refine_witness:
  "fst (extendLocks (lock_env str_list_of demo_backend demo_lock_env) demo_backend [''7'', ''8''] [''t'', ''x''] 30 demo_db)
     = Inr (VArr [VStr ''8''])"
proof -
  have T: "lt_holder (lock_table_of demo_backend demo_db) ''7'' = Some (''t'', 130)"
    "lt_holder (lock_table_of demo_backend demo_db) ''8'' = Some (''u'', 130)"
    by (simp_all add: lock_table_of_def demo_lock_key demo_db_def lock_of_value_def)
  have now: "db_now demo_db = 100" by (simp add: demo_db_def)
  have "fst (renew (db_now demo_db) 30 (with_tokens [''7'', ''8''] [''t'', ''x'']) (lock_table_of demo_backend demo_db)) = [''8'']"
    by (simp add: now holds_def T renew1_def)
  then show ?thesis
    using locks_refine [OF demo_addresses demo_lock_typed _ demo_codec demo_client_ready,
        of 30 "''7''" "''t''" "[''7'', ''8'']" "[''t'', ''x'']"]
    by (fastforce simp: valid_px_def)
qed

section \<open>The contract of a lock service\<close>

text \<open>What a worker relies on: renewals are atomic, never fail on a valid duration, and act on
  a lock table. The clock of the store does not run during a script.\<close>

locale lock_service =
  fixes extend :: "string list \<Rightarrow> string list \<Rightarrow> real \<Rightarrow> ('s, string list) backend_op"
    and table :: "'s \<Rightarrow> lock_table"
    and clock :: "'s \<Rightarrow> real"
    and wf :: "'s \<Rightarrow> bool"
  assumes extend_table:
    "wf s \<Longrightarrow> valid_px d \<Longrightarrow>
       \<exists>s'. extend ids toks d s = (Inr (fst (renew (clock s) d (with_tokens ids toks) (table s))), s')
          \<and> table s' = snd (renew (clock s) d (with_tokens ids toks) (table s)) \<and> wf s' \<and> clock s' = clock s"
begin

lemma extend_total: "wf s \<Longrightarrow> valid_px d \<Longrightarrow> \<exists>failed s'. extend ids toks d s = (Inr failed, s') \<and> wf s' \<and> clock s' = clock s"
  using extend_table by blast

lemma extend_one:
  assumes "wf s" "valid_px d" "extend [i] [t] d s = (Inr failed, s')"
  shows "i \<notin> set failed \<longleftrightarrow> holds (clock s) (table s) i t"
    and "holds (clock s) (table s) i t \<Longrightarrow> table s' = renew1 (clock s) d i t (table s)"
    and "\<not> holds (clock s) (table s) i t \<Longrightarrow> table s' = table s"
    and "wf s'" "clock s' = clock s"
  using extend_table[OF assms(1,2), of "[i]" "[t]"] assms(3) by auto

text \<open>Two workers with different tokens cannot both renew one lock.\<close>

lemma extend_exclusive:
  assumes "wf s" "valid_px d" "t \<noteq> t'"
    and one: "extend [i] [t] d s = (Inr failed, s')" and two: "extend [i] [t'] d s' = (Inr failed', s'')"
  shows "i \<in> set failed \<or> i \<in> set failed'"
proof (rule ccontr)
  assume "\<not> (i \<in> set failed \<or> i \<in> set failed')"
  then have h: "holds (clock s) (table s) i t" and "holds (clock s') (table s') i t'"
    using extend_one(1)[OF assms(1,2) one] extend_one(1)[OF extend_one(4)[OF assms(1,2) one] assms(2) two] by auto
  moreover have "table s' = renew1 (clock s) d i t (table s)" by (rule extend_one(2)[OF assms(1,2) one h])
  ultimately show False using assms(3) by (simp add: holds_def renew1_def)
qed

end

definition redis_extend ::
  "(jsval \<Rightarrow> string list) \<Rightarrow> redis_db redis_env \<Rightarrow> redis_queue \<Rightarrow> string list \<Rightarrow> string list \<Rightarrow> real
     \<Rightarrow> (redis_db, string list) backend_op" where
  "redis_extend unpack E B ids toks d = b_map str_list_of (extendLocks (lock_env unpack B E) B ids toks d)"

lemma redis_lock_service:
  assumes "addresses B pre name" "unpacks (rv_pack E) unpack" "client_ready E"
  shows "lock_service (redis_extend unpack E B) (lock_table_of B) db_now (lock_typed B)"
proof
  fix s :: redis_db and d ids toks assume "lock_typed B s" "valid_px d"
  from extendLocks_refines[OF assms(1) this assms(2,3), of ids toks]
  show "\<exists>s'. redis_extend unpack E B ids toks d s
      = (Inr (fst (renew (db_now s) d (with_tokens ids toks) (lock_table_of B s))), s')
      \<and> lock_table_of B s' = snd (renew (db_now s) d (with_tokens ids toks) (lock_table_of B s))
      \<and> lock_typed B s' \<and> db_now s' = db_now s"
    by (auto simp: redis_extend_def b_map_def b_then_def b_ret_def str_list_of_def comp_def)
qed

interpretation redis_locks:
  lock_service "redis_extend str_list_of demo_lock_env (new_RedisQueueBackend v srv n (getKeys pre name) (toKey pre name) opts blk own)"
    "lock_table_of (new_RedisQueueBackend v srv n (getKeys pre name) (toKey pre name) opts blk own)" db_now
    "lock_typed (new_RedisQueueBackend v srv n (getKeys pre name) (toKey pre name) opts blk own)"
  by (rule redis_lock_service[OF new_backend_addresses demo_codec demo_client_ready])

section \<open>Composition with the lock manager\<close>

lemma renew_frame:
  "i \<notin> fst ` set jobs \<Longrightarrow>
     i \<notin> set (fst (renew now d jobs T)) \<and> lt_holder (snd (renew now d jobs T)) i = lt_holder T i
     \<and> (i \<in> lt_stalled (snd (renew now d jobs T)) \<longleftrightarrow> i \<in> lt_stalled T)"
  by (induction now d jobs T rule: renew.induct) (auto simp: renew1_def split: option.splits)

lemma renew_member:
  assumes "distinct (map fst jobs)" "(i, Some t) \<in> set jobs"
  shows "(i \<notin> set (fst (renew now d jobs T)) \<longleftrightarrow> holds now T i t)
     \<and> (holds now T i t \<longrightarrow> lt_holder (snd (renew now d jobs T)) i = Some (t, now + d)
          \<and> i \<notin> lt_stalled (snd (renew now d jobs T)))"
  using assms
proof (induction now d jobs T rule: renew.induct)
  case (2 now d jobId token jobs T)
  show ?case
  proof (cases "jobId = i")
    case True
    then have "token = Some t" and "i \<notin> fst ` set jobs" using "2.prems" by (auto simp: rev_image_eqI)
    then show ?thesis
      using True renew_frame[of i jobs now d "renew1 now d i t T"] renew_frame[of i jobs now d T]
      by (auto simp: renew1_def)
  next
    case False
    then have rest: "distinct (map fst jobs)" "(i, Some t) \<in> set jobs" using "2.prems" by auto
    moreover have "holds now (renew1 now d jobId t' T) i t \<longleftrightarrow> holds now T i t" for t'
      using False by (simp add: holds_def renew1_def)
    ultimately show ?thesis using "2.IH" False by (cases token) auto
  qed
qed simp

lemma with_tokens_map: "with_tokens ids (map f ids) = map (\<lambda>i. (i, Some (f i))) ids"
  by (induction ids) simp_all

text \<open>The token the manager sends for a job.\<close>

definition lm_token :: "lock_manager \<Rightarrow> string \<Rightarrow> string" where
  "lm_token lm i = (case map_get (lm_tracked lm) i of None \<Rightarrow> '''' | Some t \<Rightarrow> tr_token t)"

text \<open>
  C15. The lock manager on top of the Redis adapter tells the truth: a job reported as renewed was
  locked by this worker's token when the timer ran, its lock now runs for the lock duration from
  then on and it is no longer marked as stalled; a job reported as lost was not locked by that
  token.
\<close>

theorem renewals_sound:
  assumes A: "addresses B pre name" "lock_typed B db" "unpacks (rv_pack E) unpack" "client_ready E"
    and "valid_px (lm_lockDuration lm)" "distinct ids" "i \<in> set ids"
    and db': "db' = snd (redis_extend unpack E B ids (lm_jobTokens lm ids) (lm_lockDuration lm) db)"
    and evs: "evs = lm_extendLocks (\<lambda>js ts d. fst (redis_extend unpack E B js ts d db)) stk lm ids"
  shows "if holds (db_now db) (lock_table_of B db) i (lm_token lm i)
     then (\<exists>n rs. LocksRenewed n rs \<in> set evs \<and> i \<in> set rs)
        \<and> lt_holder (lock_table_of B db') i = Some (lm_token lm i, db_now db + lm_lockDuration lm)
        \<and> i \<notin> lt_stalled (lock_table_of B db')
     else (\<exists>failed. LockRenewalFailed failed \<in> set evs \<and> i \<in> set failed)
        \<and> \<not> (\<exists>n rs. LocksRenewed n rs \<in> set evs \<and> i \<in> set rs)"
proof -
  let ?jobs = "map (\<lambda>i. (i, Some (lm_token lm i))) ids" and ?d = "lm_lockDuration lm"
  let ?renew = "renew (db_now db) ?d ?jobs (lock_table_of B db)"
  have toks: "with_tokens ids (lm_jobTokens lm ids) = ?jobs"
    by (simp add: lm_jobTokens_def with_tokens_map lm_token_def)
  from lock_service.extend_table[OF redis_lock_service[OF A(1,3,4)] A(2) assms(5), of ids "lm_jobTokens lm ids"]
  have run: "redis_extend unpack E B ids (lm_jobTokens lm ids) ?d db = (Inr (fst ?renew), db')"
    "lock_table_of B db' = snd ?renew" using db' by (auto simp: toks)
  have ext: "fst (redis_extend unpack E B ids (lm_jobTokens lm ids) ?d db) = Inr (fst ?renew)" using run(1) by simp
  note ren = lm_extendLocks_renewed[where ext = "\<lambda>js ts d. fst (redis_extend unpack E B js ts d db)" and stk = stk, OF ext]
  have mem: "(i \<notin> set (fst ?renew) \<longleftrightarrow> holds (db_now db) (lock_table_of B db) i (lm_token lm i))
     \<and> (holds (db_now db) (lock_table_of B db) i (lm_token lm i) \<longrightarrow>
          lt_holder (snd ?renew) i = Some (lm_token lm i, db_now db + ?d) \<and> i \<notin> lt_stalled (snd ?renew))"
    using assms(6,7) by (intro renew_member) (auto simp: comp_def)
  have renewed: "(\<exists>n rs. LocksRenewed n rs \<in> set evs \<and> i \<in> set rs) \<longleftrightarrow> i \<notin> set (fst ?renew)"
    unfolding evs ren using assms(7) by (auto simp: filter_empty_conv)
  have lost: "LockRenewalFailed (fst ?renew) \<in> set evs" if "i \<in> set (fst ?renew)"
    using that by (auto simp: evs lm_extendLocks_def ext Let_def)
  show ?thesis using mem run(2) renewed lost by (cases "i \<in> set (fst ?renew)") auto
qed

definition demo_manager :: lock_manager where
  "demo_manager = (lm_new 15 30)\<lparr>lm_tracked := [(''7'', \<lparr>tr_token = ''t'', tr_ts = Some 1, tr_abort = None\<rparr>)]\<rparr>"

theorem renewals_sound_witness:
  "\<exists>n rs. LocksRenewed n rs \<in> set (lm_extendLocks
       (\<lambda>js ts d. fst (redis_extend str_list_of demo_lock_env demo_backend js ts d demo_db)) None demo_manager [''7''])
     \<and> ''7'' \<in> set rs"
proof -
  have "holds (db_now demo_db) (lock_table_of demo_backend demo_db) ''7'' (lm_token demo_manager ''7'')"
    by (simp add: holds_def lock_table_of_def demo_lock_key demo_db_def lock_of_value_def demo_manager_def lm_token_def)
  then show ?thesis
    using renewals_sound [OF demo_addresses demo_lock_typed demo_codec demo_client_ready, of demo_manager "[''7'']" "''7''"
        _ _ None, OF _ _ _ refl refl]
    by (simp add: demo_manager_def lm_new_def valid_px_def)
qed

text \<open>
  A lock has one holder: if two workers with different tokens ask one after the other, within
  one instant of the store's clock, to renew the lock of the same job of a queue, at least one of
  them is told that it failed.
\<close>

theorem renewal_exclusive:
  assumes "B = new_RedisQueueBackend v srv n (getKeys pre name) (toKey pre name) opts blk own"
    and "lock_typed B db" "valid_px d" "t \<noteq> t'"
    and "redis_extend str_list_of demo_lock_env B [i] [t] d db = (Inr failed, db')"
    and "redis_extend str_list_of demo_lock_env B [i] [t'] d db' = (Inr failed', db'')"
  shows "i \<in> set failed \<or> i \<in> set failed'"
  using redis_locks.extend_exclusive assms by blast

theorem renewal_exclusive_witness:
  "\<exists>failed db' failed' db''. redis_extend str_list_of demo_lock_env demo_backend [''7''] [''t''] 30 demo_db = (Inr failed, db')
     \<and> redis_extend str_list_of demo_lock_env demo_backend [''7''] [''x''] 30 db' = (Inr failed', db'')
     \<and> (''7'' \<in> set failed \<or> ''7'' \<in> set failed')"
proof -
  note svc = redis_lock_service[OF demo_addresses demo_codec demo_client_ready]
  have px: "valid_px 30" by (simp add: valid_px_def)
  from lock_service.extend_total[OF svc demo_lock_typed px, of "[''7'']" "[''t'']"] obtain failed db' where
    one: "redis_extend str_list_of demo_lock_env demo_backend [''7''] [''t''] 30 demo_db = (Inr failed, db')"
      "lock_typed demo_backend db'" by blast
  from lock_service.extend_total[OF svc one(2) px, of "[''7'']" "[''x'']"] obtain failed' db'' where
    two: "redis_extend str_list_of demo_lock_env demo_backend [''7''] [''x''] 30 db' = (Inr failed', db'')" by blast
  show ?thesis
    using renewal_exclusive [OF demo_backend_def demo_lock_typed px _ one(1) two] one two by auto
qed

end
