(* ===== verification/Script_Includes.thy ===== *)
theory Script_Includes
  imports Script_Loader
begin

text \<open>
  The include mechanism of src/commands/script-loader.ts: finding \<open>@include\<close> directives, resolving
  them to files, loading files recursively with the detection of circular references, and the
  interpolation of the loaded files into one script.

  Reading files, globbing and hashing are parameters. A loaded file is a tree whose children are
  its includes; a file that is included from several places is loaded once and shared through
  the cache, which the model keeps as a map from keys to trees.
\<close>

section \<open>Paths\<close>

text \<open>Node's \<open>path\<close> functions on POSIX paths.\<close>

fun split_slash :: "string \<Rightarrow> string list" where
  "split_slash [] = [[]]"
| "split_slash (c # cs) =
     (if c = CHR ''/'' then [] # split_slash cs
      else case split_slash cs of [] \<Rightarrow> [[c]] | w # ws \<Rightarrow> (c # w) # ws)"

text \<open>The segments of a path without \<open>.\<close> and \<open>..\<close>; only a relative path keeps leading \<open>..\<close>. The
  accumulator holds the segments in reverse.\<close>

fun norm_segments :: "bool \<Rightarrow> string list \<Rightarrow> string list \<Rightarrow> string list" where
  "norm_segments absolute acc [] = rev acc"
| "norm_segments absolute acc (s # ss) =
     (if s = [] \<or> s = ''.'' then norm_segments absolute acc ss
      else if s = ''..''
      then (case acc of
              a # as \<Rightarrow> if a = ''..'' then norm_segments absolute (s # acc) ss else norm_segments absolute as ss
            | [] \<Rightarrow> if absolute then norm_segments absolute [] ss else norm_segments absolute [s] ss)
      else norm_segments absolute (s # acc) ss)"

fun join_slash :: "string list \<Rightarrow> string" where
  "join_slash [] = []"
| "join_slash [s] = s"
| "join_slash (s # t # ss) = s @ ''/'' @ join_slash (t # ss)"

definition is_absolute :: "string \<Rightarrow> bool" where
  "is_absolute p \<longleftrightarrow> prefix ''/'' p"

definition path_normalize :: "string \<Rightarrow> string" where
  "path_normalize p =
     (if p = [] then ''.''
      else let body = join_slash (norm_segments (is_absolute p) [] (split_slash p));
               body1 = (if body = [] \<and> \<not> is_absolute p then ''.'' else body);
               body2 = (if body1 \<noteq> [] \<and> last p = CHR ''/'' then body1 @ ''/'' else body1)
           in if is_absolute p then ''/'' @ body2 else body2)"

definition path_join :: "string \<Rightarrow> string \<Rightarrow> string" where
  "path_join a b =
     (if a = [] \<and> b = [] then ''.'' else if a = [] then path_normalize b else if b = [] then path_normalize a
      else path_normalize (a @ ''/'' @ b))"

text \<open>\<open>path.resolve(dir, p)\<close> in the working directory \<open>cwd\<close>.\<close>

definition path_resolve :: "string \<Rightarrow> string \<Rightarrow> string \<Rightarrow> string" where
  "path_resolve cwd dir p =
     (let full = (if is_absolute p then p else if is_absolute dir then dir @ ''/'' @ p else cwd @ ''/'' @ dir @ ''/'' @ p)
      in ''/'' @ join_slash (norm_segments True [] (split_slash full)))"

text \<open>The extension: from the last dot of the last component, unless it is the first character.\<close>

definition path_extname :: "string \<Rightarrow> string" where
  "path_extname p =
     (let b = last_component p; r = rev b; tl_rev = takeWhile (\<lambda>c. c \<noteq> CHR ''.'') r
      in if CHR ''.'' \<notin> set b \<or> length tl_rev + 1 = length b then []
         else if b = ''..'' then [] else CHR ''.'' # rev tl_rev)"

definition path_dirname :: "string \<Rightarrow> string" where
  "path_dirname p =
     (let b = strip_trailing_slashes p; d = rev (dropWhile (\<lambda>c. c \<noteq> CHR ''/'') (rev b))
      in if d = [] then (if is_absolute p then ''/'' else ''.'')
         else if strip_trailing_slashes d = [] then ''/'' else strip_trailing_slashes d)"

definition ensureExt :: "string \<Rightarrow> string" where
  "ensureExt filename =
     (if path_extname filename \<noteq> [] \<and> path_extname filename \<noteq> ''.'' then filename else filename @ ''.lua'')"

section \<open>Directives\<close>

text \<open>The regular expression \<open>IncludeRegex\<close>: at the start of a line two or three dashes,
  \<open>@include\<close>, a quoted reference, then separators up to the end of a line.\<close>

definition blank :: "char \<Rightarrow> bool" where
  "blank c \<longleftrightarrow> c = CHR '' '' \<or> c = CHR 0x09"

definition line_end :: "char \<Rightarrow> bool" where
  "line_end c \<longleftrightarrow> c = CHR 0x0A \<or> c = CHR 0x0D"

definition sep_char :: "char \<Rightarrow> bool" where
  "sep_char c \<longleftrightarrow> c = CHR '';'' \<or> blank c \<or> c = CHR 0x0A"

text \<open>The separators: as many as possible such that a line ends behind them; the result is what
  remains.\<close>

definition match_tail :: "string \<Rightarrow> string option" where
  "match_tail cs =
     (let run = takeWhile sep_char cs; rest = dropWhile sep_char cs in
      if rest = [] \<or> line_end (hd rest) then Some rest
      else if CHR 0x0A \<in> set run
      then Some (CHR 0x0A # rev (takeWhile (\<lambda>c. c \<noteq> CHR 0x0A) (rev run)) @ rest)
      else None)"

text \<open>The reference: the shortest non-empty text before a closing quote from which the tail
  matches.\<close>

fun match_reference :: "char \<Rightarrow> string \<Rightarrow> string \<Rightarrow> (string \<times> string) option" where
  "match_reference q acc [] = None"
| "match_reference q acc (c # cs) =
     (if c = q \<and> acc \<noteq> [] \<and> match_tail cs \<noteq> None then Some (rev acc, the (match_tail cs))
      else if line_end c then None else match_reference q (c # acc) cs)"

definition match_include :: "string \<Rightarrow> (string \<times> string) option" where
  "match_include s =
     (let dashes = takeWhile (\<lambda>c. c = CHR ''-'') s; r = dropWhile blank (drop (length dashes) s) in
      if length dashes \<in> {2, 3} \<and> prefix ''@include'' r
      then let r1 = drop 8 r; r2 = dropWhile blank r1 in
           if r1 \<noteq> r2 then (case r2 of
                             q # body \<Rightarrow> if q = CHR 0x22 \<or> q = CHR 0x27 then match_reference q [] body else None
                           | [] \<Rightarrow> None)
           else None
      else None)"

text \<open>\<open>exec\<close>: the first match, as the matched text and the reference.\<close>

fun exec_include :: "bool \<Rightarrow> string \<Rightarrow> (string \<times> string) option" where
  "exec_include line_start s =
     (case (if line_start then match_include s else None) of
        Some (ref, rest) \<Rightarrow> Some (take (length s - length rest) s, ref)
      | None \<Rightarrow> (case s of [] \<Rightarrow> None | c # cs \<Rightarrow> exec_include (line_end c) cs))"

declare exec_include.simps [simp del]

section \<open>String replacement\<close>

text \<open>\<open>s.replace(pattern, replacement)\<close> with a string pattern: the first occurrence, where the
  replacement is a template in which \<open>$$\<close>, \<open>$&\<close>, \<open>$`\<close> and \<open>$'\<close> stand for a dollar sign, the match and
  the text before and after it.\<close>

fun expand_template :: "string \<Rightarrow> string \<Rightarrow> string \<Rightarrow> string \<Rightarrow> string" where
  "expand_template before matched after [] = []"
| "expand_template before matched after [c] = [c]"
| "expand_template before matched after (c # d # cs) =
     (if c = CHR ''$'' \<and> d = CHR ''$'' then CHR ''$'' # expand_template before matched after cs
      else if c = CHR ''$'' \<and> d = CHR ''&'' then matched @ expand_template before matched after cs
      else if c = CHR ''$'' \<and> d = CHR 0x60 then before @ expand_template before matched after cs
      else if c = CHR ''$'' \<and> d = CHR 0x27 then after @ expand_template before matched after cs
      else c # expand_template before matched after (d # cs))"

text \<open>The text before and after the first occurrence.\<close>

fun split_at :: "string \<Rightarrow> string \<Rightarrow> (string \<times> string) option" where
  "split_at p [] = (if p = [] then Some ([], []) else None)"
| "split_at p (c # cs) =
     (if prefix p (c # cs) then Some ([], drop (length p) (c # cs))
      else map_option (\<lambda>(b, a). (c # b, a)) (split_at p cs))"

definition replace_first :: "string \<Rightarrow> string \<Rightarrow> string \<Rightarrow> string" where
  "replace_first p template s =
     (case split_at p s of
        None \<Rightarrow> s
      | Some (before, after) \<Rightarrow> before @ expand_template before p after template @ after)"

text \<open>\<open>replaceAll(str, find, '')\<close> for a pattern without special characters.\<close>

function remove_all :: "string \<Rightarrow> string \<Rightarrow> string" where
  "remove_all p s =
     (if p = [] then s
      else case split_at p s of None \<Rightarrow> s | Some (before, after) \<Rightarrow> before @ remove_all p after)"
  by pat_completeness auto

lemma split_at_length: "split_at p s = Some (b, a) \<Longrightarrow> length s = length b + length p + length a"
  by (induction s arbitrary: b) (auto split: if_splits simp: prefix_length_le dest: prefix_length_le)

termination remove_all
  by (relation "measure (\<lambda>(p, s). length s)") (auto dest: split_at_length)

declare remove_all.simps [simp del]

text \<open>\<open>removeEmptyLines\<close>: the expression \<open>^\s*[\r\n]\<close>, applied to every match. At the start of a line
  the white space that ends in a line end is dropped.\<close>

definition drop_blank_lines :: "string \<Rightarrow> string" where
  "drop_blank_lines s =
     (let ws = takeWhile is_space s in
      if \<exists>c \<in> set ws. line_end c
      then rev (takeWhile (\<lambda>c. \<not> line_end c) (rev ws)) @ drop (length ws) s else s)"

lemma drop_blank_lines_length: "length (drop_blank_lines s) \<le> length s"
proof -
  have "length (takeWhile (\<lambda>c. \<not> line_end c) (rev (takeWhile is_space s))) \<le> length (takeWhile is_space s)"
    using length_takeWhile_le[of "\<lambda>c. \<not> line_end c" "rev (takeWhile is_space s)"] by simp
  then show ?thesis using length_takeWhile_le[of is_space s] by (auto simp: drop_blank_lines_def Let_def)
qed

function remove_empty_from :: "bool \<Rightarrow> string \<Rightarrow> string" where
  "remove_empty_from line_start s =
     (case (if line_start then drop_blank_lines s else s) of
        [] \<Rightarrow> []
      | c # cs \<Rightarrow> c # remove_empty_from (line_end c) cs)"
  by pat_completeness auto

termination remove_empty_from
proof (relation "measure (\<lambda>(b, s). length s)", simp, clarsimp)
  fix b s c cs
  assume "(if b then drop_blank_lines s else s) = c # cs"
  then show "length cs < length s" using drop_blank_lines_length[of s] by (cases b) auto
qed

declare remove_empty_from.simps [simp del]

definition removeEmptyLines :: "string \<Rightarrow> string" where
  "removeEmptyLines s = remove_empty_from True s"

fun join_lines :: "string list \<Rightarrow> string" where
  "join_lines [] = []"
| "join_lines [s] = s"
| "join_lines (s # t # ss) = s @ [CHR 0x0A] @ join_lines (t # ss)"

section \<open>Loading\<close>

datatype script =
  Script (sc_dir: string) (sc_name: string) (sc_numberOfKeys: "int option option") (sc_path: string)
    (sc_content: string) (sc_token: string) (sc_includes: "script list") (sc_isAlias: bool)

record script_error =
  se_message :: string
  se_path :: string
  se_includes :: "string list"
  se_line :: nat
  se_position :: nat

text \<open>Errors of the loader and other errors of reading a file.\<close>

datatype load_error = Loader script_error | ReadError string

datatype read_error = ENOENT | OtherError string

record loader =
  ld_cwd :: string
  ld_root :: string
  ld_mappings :: "(string, string) jsmap"
  ld_read :: "string \<Rightarrow> (read_error, string) result"
  ld_hasMagic :: "string \<Rightarrow> bool"
  ld_glob :: "string \<Rightarrow> string list"
  ld_sha1 :: "string \<Rightarrow> string"

definition new_ScriptLoaderError :: "string \<Rightarrow> string \<Rightarrow> string list \<Rightarrow> nat \<times> nat \<Rightarrow> load_error" where
  "new_ScriptLoaderError msg path stack pos =
     Loader \<lparr>se_message = msg, se_path = path, se_includes = stack, se_line = fst pos, se_position = snd pos\<rparr>"

definition quoted_name :: "string \<Rightarrow> string" where
  "quoted_name s = [CHR 0x22] @ s @ [CHR 0x22]"

definition getPathHash :: "loader \<Rightarrow> string \<Rightarrow> string" where
  "getPathHash L path = ''@@'' @ ld_sha1 L path"

definition isPossiblyMappedPath :: "string \<Rightarrow> bool" where
  "isPossiblyMappedPath path \<longleftrightarrow> path \<noteq> [] \<and> hd path \<in> {CHR ''~'', CHR ''<''}"

definition resolvePath :: "loader \<Rightarrow> string \<Rightarrow> string list \<Rightarrow> (load_error, string) result" where
  "resolvePath L scriptName stack =
     (case scriptName of
        [] \<Rightarrow> Inr (path_normalize scriptName)
      | c # cs \<Rightarrow>
          if c = CHR ''~'' then Inr (path_normalize (path_join (ld_root L) (drop 1 cs)))
          else if c = CHR ''<'' \<and> CHR ''>'' \<in> set cs
          then let name = takeWhile (\<lambda>x. x \<noteq> CHR ''>'') cs; rest = drop 1 (dropWhile (\<lambda>x. x \<noteq> CHR ''>'') cs) in
               (case map_get (ld_mappings L) name of
                  Some m \<Rightarrow> if m \<noteq> [] then Inr (path_normalize (path_join m rest))
                           else Inl (new_ScriptLoaderError (''No path mapping found for '' @ quoted_name name) scriptName stack (0, 0))
                | None \<Rightarrow> Inl (new_ScriptLoaderError (''No path mapping found for '' @ quoted_name name) scriptName stack (0, 0)))
          else Inr (path_normalize scriptName))"

definition addPathMapping :: "loader \<Rightarrow> string \<Rightarrow> string \<Rightarrow> string \<Rightarrow> (load_error, loader) result" where
  "addPathMapping L callerPath name mappedPath =
     bind_result (if isPossiblyMappedPath mappedPath then resolvePath L mappedPath []
                  else Inr (path_normalize (path_resolve (ld_cwd L) callerPath mappedPath))) (\<lambda>resolved.
       let r = (if resolved \<noteq> [] \<and> last resolved = CHR ''/'' then butlast resolved else resolved)
       in Inr (L\<lparr>ld_mappings := map_set name r (ld_mappings L)\<rparr>))"

text \<open>Line and column of a directive.\<close>

fun content_lines :: "string \<Rightarrow> string list" where
  "content_lines [] = [[]]"
| "content_lines (c # cs) =
     (if c = CHR 0x0A then [] # content_lines cs
      else case content_lines cs of [] \<Rightarrow> [[c]] | w # ws \<Rightarrow> (c # w) # ws)"

definition findPos :: "string \<Rightarrow> string \<Rightarrow> nat \<times> nat" where
  "findPos content match =
     (let before = (case split_at match content of Some (b, _) \<Rightarrow> b | None \<Rightarrow> butlast content);
          ls = content_lines before;
          at_include = (case split_at ''@include'' match of Some (b, _) \<Rightarrow> length b + 1 | None \<Rightarrow> 0)
      in (length ls, length (last ls) + at_include))"

definition raise_at :: "script \<Rightarrow> string list \<Rightarrow> string \<Rightarrow> string \<Rightarrow> load_error" where
  "raise_at file stack msg match = new_ScriptLoaderError msg (sc_path file) stack (findPos (sc_content file) match)"

text \<open>The files a reference stands for.\<close>

definition include_paths :: "loader \<Rightarrow> string \<Rightarrow> string \<Rightarrow> string list \<Rightarrow> (load_error, string list) result" where
  "include_paths L dir reference stack =
     bind_result (if isPossiblyMappedPath reference then resolvePath L (ensureExt reference) stack
                  else Inr (path_resolve (ld_cwd L) dir (ensureExt reference))) (\<lambda>includeFilename.
       Inr (filter (\<lambda>f. path_extname f = ''.lua'')
              (if ld_hasMagic L includeFilename
               then map (path_resolve (ld_cwd L) []) (ld_glob L includeFilename) else [includeFilename])))"

type_synonym script_cache = "(string, script) jsmap"

definition raw_script :: "loader \<Rightarrow> string \<Rightarrow> string \<Rightarrow> script" where
  "raw_script L path content =
     Script (path_dirname path) (fst (splitFilename path)) (snd (splitFilename path)) path content (getPathHash L path) [] False"

text \<open>An include that is not in the cache is read.\<close>

definition load_include ::
  "loader \<Rightarrow> script \<Rightarrow> string \<Rightarrow> string \<Rightarrow> string list \<Rightarrow> string \<Rightarrow> script_cache \<Rightarrow> (load_error, script \<times> script_cache) result" where
  "load_include L file reference match stack path cache =
     (case map_get cache path of
        Some meta \<Rightarrow> Inr (meta, cache)
      | None \<Rightarrow>
          (case ld_read L path of
             Inl ENOENT \<Rightarrow> Inl (raise_at file stack (''include not found: '' @ quoted_name reference) match)
           | Inl (OtherError e) \<Rightarrow> Inl (ReadError e)
           | Inr content \<Rightarrow> let meta = raw_script L path content in Inr (meta, map_set path meta cache)))"

text \<open>The files of one directive; \<open>rec\<close> processes an included file.\<close>

type_synonym load_rec = "script \<Rightarrow> script_cache \<Rightarrow> (load_error, script \<times> script_cache) result option"

fun include_each ::
  "load_rec \<Rightarrow> loader \<Rightarrow> script \<Rightarrow> string \<Rightarrow> string \<Rightarrow> string list \<Rightarrow> string list \<Rightarrow> string list \<Rightarrow> script list \<Rightarrow> script_cache
     \<Rightarrow> (load_error, string list \<times> script list \<times> script_cache) result option" where
  "include_each rec L file reference match stack [] tokens incs cache = Some (Inr (tokens, incs, cache))"
| "include_each rec L file reference match stack (p # ps) tokens incs cache =
     (if p \<in> set (map sc_path incs)
      then Some (Inl (raise_at file stack
             (''file '' @ quoted_name reference @ '' already included in '' @ quoted_name (sc_path file)) match))
      else case load_include L file reference match stack p cache of
             Inl e \<Rightarrow> Some (Inl e)
           | Inr (meta, cache1) \<Rightarrow>
               (case rec meta cache1 of
                  None \<Rightarrow> None
                | Some (Inl e) \<Rightarrow> Some (Inl e)
                | Some (Inr (meta1, cache2)) \<Rightarrow>
                    include_each rec L file reference match stack ps (tokens @ [sc_token meta]) (incs @ [meta1]) cache2))"

text \<open>The loop over the directives. The first argument bounds its rounds (\<open>None\<close>: not enough).\<close>

fun include_loop ::
  "nat \<Rightarrow> load_rec \<Rightarrow> loader \<Rightarrow> script \<Rightarrow> string list \<Rightarrow> string \<Rightarrow> script list \<Rightarrow> script_cache
     \<Rightarrow> (load_error, string \<times> script list \<times> script_cache) result option" where
  "include_loop 0 rec L file stack content incs cache = None"
| "include_loop (Suc m) rec L file stack content incs cache =
     (case exec_include True content of
        None \<Rightarrow> Some (Inr (content, incs, cache))
      | Some (match, reference) \<Rightarrow>
          (case include_paths L (sc_dir file) reference stack of
             Inl e \<Rightarrow> Some (Inl e)
           | Inr paths \<Rightarrow>
               if paths = [] then Some (Inl (raise_at file stack (''include not found: '' @ quoted_name reference) match))
               else case include_each rec L file reference match stack paths [] incs cache of
                      None \<Rightarrow> None
                    | Some (Inl e) \<Rightarrow> Some (Inl e)
                    | Some (Inr (tokens, incs1, cache1)) \<Rightarrow>
                        include_loop m rec L file stack (replace_first match (join_lines tokens) content) incs1 cache1))"

text \<open>The recursion over files. The first argument bounds its depth; the stack is the list of files
  being processed.\<close>

fun resolveDependencies ::
  "nat \<Rightarrow> nat \<Rightarrow> loader \<Rightarrow> bool \<Rightarrow> string list \<Rightarrow> script \<Rightarrow> script_cache \<Rightarrow> (load_error, script \<times> script_cache) result option" where
  "resolveDependencies 0 m L isInclude stack file cache = None"
| "resolveDependencies (Suc n) m L isInclude stack file cache =
     (if sc_path file \<in> set stack
      then Some (Inl (new_ScriptLoaderError (''circular reference: '' @ quoted_name (sc_path file)) (sc_path file) stack (0, 0)))
      else let stack1 = stack @ [sc_path file] in
           case include_loop m (resolveDependencies n m L True stack1) L file stack1 (sc_content file) (sc_includes file) cache of
             None \<Rightarrow> None
           | Some (Inl e) \<Rightarrow> Some (Inl e)
           | Some (Inr (content, incs, cache1)) \<Rightarrow>
               let file1 = Script (sc_dir file) (sc_name file) (sc_numberOfKeys file) (sc_path file) content (sc_token file) incs (sc_isAlias file) in
               Some (Inr (file1, map_set (if isInclude then sc_path file else sc_name file) file1 cache1)))"

definition parseScript ::
  "nat \<Rightarrow> nat \<Rightarrow> loader \<Rightarrow> string \<Rightarrow> string \<Rightarrow> string \<Rightarrow> script_cache \<Rightarrow> bool \<Rightarrow> (load_error, script \<times> script_cache) result option" where
  "parseScript n m L filename content dir cache isLoadingIncludes =
     (let (name, keys) = splitFilename filename; filePath = (if isLoadingIncludes then filename else name) in
      case map_get cache filePath of
        Some meta \<Rightarrow>
          if sc_content meta = content then Some (Inr (meta, cache))
          else resolveDependencies n m L isLoadingIncludes [] (Script dir name keys filePath content (getPathHash L filePath) [] False) cache
      | None \<Rightarrow> resolveDependencies n m L isLoadingIncludes [] (Script dir name keys filePath content (getPathHash L filePath) [] False) cache)"

section \<open>Interpolation\<close>

text \<open>The includes are inserted for their tokens, each file the first time it is met.\<close>

definition insert_fragment :: "bool \<Rightarrow> string \<Rightarrow> string \<Rightarrow> string \<Rightarrow> string" where
  "insert_fragment emitted token fragment content =
     (if emitted \<or> fragment = [] then remove_all token content
      else remove_all token (replace_first token fragment content))"

fun interpolate :: "script \<Rightarrow> string set \<Rightarrow> string \<times> string set" where
  "interpolate (Script dir name keys path content token incs isAlias) processed =
     fold (\<lambda>child (acc, done).
        case interpolate child done of (fragment, done1) \<Rightarrow>
          (insert_fragment (sc_path child \<in> done) (sc_token child) fragment acc, insert (sc_path child) done1))
       incs (content, processed)"

section \<open>Commands\<close>

record script_command =
  cm_name :: string
  cm_numberOfKeys :: "int option option"
  cm_lua :: string
  cm_includes :: "script list"

text \<open>Under an alias the script is entered, or the content and the includes of the object entered
  there are replaced. The object is shared: the change shows under every key and in every tree
  that holds it. (A script that includes the object it replaces would become cyclic; trees
  leave that out.)\<close>

fun update_object :: "string \<Rightarrow> string \<Rightarrow> script list \<Rightarrow> script \<Rightarrow> script" where
  "update_object p content1 incs1 (Script dir name keys path content token incs isAlias) =
     (if path = p then Script dir name keys path content1 token incs1 True
      else Script dir name keys path content token (map (update_object p content1 incs1) incs) isAlias)"

definition set_alias :: "string \<Rightarrow> script \<Rightarrow> script_cache \<Rightarrow> script_cache" where
  "set_alias fileAlias script cache =
     (case map_get cache fileAlias of
        None \<Rightarrow> map_set fileAlias script cache
      | Some old \<Rightarrow>
          map (\<lambda>(key, s). (key, update_object (sc_path old) (sc_content script) (sc_includes script) s)) cache)"

definition command_of :: "script \<Rightarrow> script_command" where
  "command_of script =
     \<lparr>cm_name = sc_name script, cm_numberOfKeys = sc_numberOfKeys script,
      cm_lua = removeEmptyLines (fst (interpolate script {})), cm_includes = sc_includes script\<rparr>"

definition loadCommand ::
  "nat \<Rightarrow> nat \<Rightarrow> loader \<Rightarrow> string \<Rightarrow> string \<Rightarrow> script_cache \<Rightarrow> bool \<Rightarrow> string
     \<Rightarrow> (load_error, script_command \<times> script_cache) result option" where
  "loadCommand n m L file dir cache isLoadingIncludes fileAlias =
     (let filename = path_resolve (ld_cwd L) [] file; scriptName = fst (splitFilename filename);
          loaded = (case map_get cache (if isLoadingIncludes then filename else scriptName) of
                      Some script \<Rightarrow> Some (Inr (script, cache))
                    | None \<Rightarrow>
                        (case ld_read L filename of
                           Inl ENOENT \<Rightarrow> Some (Inl (ReadError ''ENOENT''))
                         | Inl (OtherError e) \<Rightarrow> Some (Inl (ReadError e))
                         | Inr content \<Rightarrow> parseScript n m L filename content dir cache isLoadingIncludes))
      in case loaded of
           None \<Rightarrow> None
         | Some (Inl e) \<Rightarrow> Some (Inl e)
         | Some (Inr (script, cache1)) \<Rightarrow>
             Some (Inr (command_of script,
               if isLoadingIncludes \<and> fileAlias \<noteq> [] then set_alias fileAlias script cache1 else cache1)))"

fun load_files ::
  "nat \<Rightarrow> nat \<Rightarrow> loader \<Rightarrow> string \<Rightarrow> string \<Rightarrow> bool \<Rightarrow> string list \<Rightarrow> script_command list \<Rightarrow> script_cache
     \<Rightarrow> (load_error, script_command list \<times> script_cache) result option" where
  "load_files n m L dir directoryAlias isLoadingIncludes [] commands cache = Some (Inr (commands, cache))"
| "load_files n m L dir directoryAlias isLoadingIncludes (f # fs) commands cache =
     (case loadCommand n m L (path_join dir f) dir cache isLoadingIncludes (path_join directoryAlias f) of
        None \<Rightarrow> None
      | Some (Inl e) \<Rightarrow> Some (Inl e)
      | Some (Inr (command, cache1)) \<Rightarrow>
          load_files n m L dir directoryAlias isLoadingIncludes fs
            (if isLoadingIncludes then commands else commands @ [command]) cache1)"

text \<open>Include names that stand for several files: what the loader warns about.\<close>

definition include_names :: "script_cache \<Rightarrow> (string, string list) jsmap" where
  "include_names cache =
     fold (\<lambda>(_, script) acc.
        if sc_numberOfKeys script = None \<and> \<not> sc_isAlias script
        then let paths = with_default [] (map_get acc (sc_name script)) in
             map_set (sc_name script) (if sc_path script \<in> set paths then paths else paths @ [sc_path script]) acc
        else acc) cache []"

definition name_conflicts :: "script_cache \<Rightarrow> string list" where
  "name_conflicts cache = map fst (filter (\<lambda>(_, paths). length paths > 1) (include_names cache))"

text \<open>Loading a directory, with the command cache of the loader; the last component is the list of
  names warned about.\<close>

definition loadScripts ::
  "nat \<Rightarrow> nat \<Rightarrow> loader \<Rightarrow> (string \<Rightarrow> string list) \<Rightarrow> string \<Rightarrow> script_cache \<Rightarrow> bool \<Rightarrow> string
     \<Rightarrow> (string, script_command list) jsmap
     \<Rightarrow> (load_error, script_command list \<times> (string, script_command list) jsmap \<times> script_cache \<times> string list) result option" where
  "loadScripts n m L readdir directory cache isLoadingIncludes directoryAlias commandCache =
     (let dir = path_normalize directory in
      case map_get commandCache dir of
        Some commands \<Rightarrow> Some (Inr (commands, commandCache, cache, []))
      | None \<Rightarrow>
          let luaFiles = filter (\<lambda>f. path_extname f = ''.lua'') (readdir dir) in
          if luaFiles = [] then Some (Inl (new_ScriptLoaderError ''No .lua files found!'' dir [] (0, 0)))
          else case load_files n m L dir directoryAlias isLoadingIncludes luaFiles [] cache of
                 None \<Rightarrow> None
               | Some (Inl e) \<Rightarrow> Some (Inl e)
               | Some (Inr (commands, cache1)) \<Rightarrow>
                   Some (Inr (commands, map_set dir commands commandCache, cache1,
                     if isLoadingIncludes then [] else name_conflicts cache1)))"

text \<open>Attaching scripts to a client: every directory once, and only commands the client does not
  have yet. The client is its set of paths and its defined commands.\<close>

definition define_commands :: "script_command list \<Rightarrow> (string, script_command) jsmap \<Rightarrow> (string, script_command) jsmap" where
  "define_commands scripts client =
     fold (\<lambda>c acc. if map_get acc (cm_name c) = None then map_set (cm_name c) c acc else acc) scripts client"

definition load_into ::
  "string list \<Rightarrow> (string, script_command) jsmap \<Rightarrow> string \<Rightarrow> (load_error, script_command list) result
     \<Rightarrow> (load_error, unit) result \<times> string list \<times> (string, script_command) jsmap" where
  "load_into paths client pathname loaded =
     (if pathname \<in> set paths then (Inr (), paths, client)
      else case loaded of
             Inl e \<Rightarrow> (Inl e, paths @ [pathname], client)
           | Inr scripts \<Rightarrow> (Inr (), paths @ [pathname], define_commands scripts client))"

section \<open>Termination\<close>

text \<open>A script is complete when it has no directive left. A cache is sound for a stack when it
  files every script under its path and every script in it is complete or being processed. The
  universe \<open>U\<close> holds the files that can be read and the keys of the cache: it is finite.\<close>

definition complete :: "script \<Rightarrow> bool" where
  "complete s \<longleftrightarrow> exec_include True (sc_content s) = None"

definition sound_cache :: "string set \<Rightarrow> script_cache \<Rightarrow> string list \<Rightarrow> bool" where
  "sound_cache U cache stack \<longleftrightarrow>
     (\<forall>k s. map_get cache k = Some s \<longrightarrow> k \<in> U \<and> sc_path s = k \<and> (complete s \<or> k \<in> set stack))"

definition readable :: "loader \<Rightarrow> string set \<Rightarrow> bool" where
  "readable L U \<longleftrightarrow> (\<forall>p content. ld_read L p = Inr content \<longrightarrow> p \<in> U)"

text \<open>What the processing of an included file guarantees to the loop that calls it.\<close>

definition rec_ok :: "string set \<Rightarrow> string list \<Rightarrow> load_rec \<Rightarrow> bool" where
  "rec_ok U stack rec \<longleftrightarrow>
     (\<forall>meta cache. sound_cache U cache (stack @ [sc_path meta]) \<longrightarrow> sc_path meta \<in> U \<longrightarrow> sc_includes meta = [] \<or> complete meta \<longrightarrow>
        (\<exists>r. rec meta cache = Some r
           \<and> (\<forall>meta1 cache1. r = Inr (meta1, cache1) \<longrightarrow> sound_cache U cache1 stack \<and> sc_path meta1 = sc_path meta)))"

lemma load_include_ok:
  assumes "readable L U" "sound_cache U cache stack" "load_include L file reference match stk p cache = Inr (meta, cache1)"
  shows "sound_cache U cache1 (stack @ [p]) \<and> sc_path meta = p \<and> p \<in> U \<and> (sc_includes meta = [] \<or> complete meta \<or> p \<in> set stack)"
proof (cases "map_get cache p")
  case None
  then obtain content where c: "ld_read L p = Inr content" "meta = raw_script L p content" "cache1 = map_set p meta cache"
    using assms(3) by (auto simp: load_include_def Let_def split: sum.splits read_error.splits)
  then show ?thesis using assms(1,2) by (auto simp: readable_def raw_script_def sound_cache_def update_conv')
next
  case (Some s)
  then show ?thesis using assms(2,3) by (auto simp: load_include_def sound_cache_def)
qed

lemma include_each_ok:
  assumes "rec_ok U stack rec" "readable L U"
  shows "sound_cache U cache stack \<Longrightarrow> distinct (map sc_path incs) \<Longrightarrow> set (map sc_path incs) \<subseteq> U \<Longrightarrow>
    (\<And>meta cache. sc_path meta \<in> set stack \<Longrightarrow> \<exists>e. rec meta cache = Some (Inl e)) \<Longrightarrow>
    \<exists>r. include_each rec L file reference match stack ps tokens incs cache = Some r
      \<and> (\<forall>tokens1 incs1 cache1. r = Inr (tokens1, incs1, cache1) \<longrightarrow>
           sound_cache U cache1 stack \<and> distinct (map sc_path incs1) \<and> set (map sc_path incs1) \<subseteq> U
           \<and> length incs1 = length incs + length ps)"
proof (induction ps arbitrary: tokens incs cache)
  case (Cons p ps)
  show ?case
  proof (cases "p \<in> set (map sc_path incs)")
    case False
    show ?thesis
    proof (cases "load_include L file reference match stack p cache")
      case (Inr mc)
      obtain meta cache1 where mc: "mc = (meta, cache1)" by fastforce
      have li: "sound_cache U cache1 (stack @ [p])" "sc_path meta = p" "p \<in> U" "sc_includes meta = [] \<or> complete meta \<or> p \<in> set stack"
        using load_include_ok[OF assms(2) Cons.prems(1)] Inr mc by blast+
      show ?thesis
      proof (cases "p \<in> set stack")
        case True
        then show ?thesis using Cons.prems(4)[of meta cache1] False Inr mc li(2) by auto
      next
        case notin: False
        then obtain r where r: "rec meta cache1 = Some r"
            "\<And>meta1 cache2. r = Inr (meta1, cache2) \<Longrightarrow> sound_cache U cache2 stack \<and> sc_path meta1 = p"
          using assms(1) li unfolding rec_ok_def by metis
        show ?thesis
        proof (cases r)
          case (Inl e)
          then show ?thesis using False Inr mc r(1) by simp
        next
          case ok: (Inr mc1)
          obtain meta1 cache2 where mc1: "mc1 = (meta1, cache2)" by fastforce
          have "sound_cache U cache2 stack" "sc_path meta1 = p" using r(2) ok mc1 by auto
          then have "\<exists>r. include_each rec L file reference match stack ps (tokens @ [sc_token meta]) (incs @ [meta1]) cache2 = Some r
              \<and> (\<forall>tokens1 incs1 cache1. r = Inr (tokens1, incs1, cache1) \<longrightarrow>
                   sound_cache U cache1 stack \<and> distinct (map sc_path incs1) \<and> set (map sc_path incs1) \<subseteq> U
                   \<and> length incs1 = length (incs @ [meta1]) + length ps)"
            using Cons.prems(2,3) False li(3) by (intro Cons.IH Cons.prems(4)) auto
          then show ?thesis using False Inr mc r(1) ok mc1 by auto
        qed
      qed
    qed (use False in simp)
  qed simp
qed auto

lemma card_includes: "finite U \<Longrightarrow> distinct (map sc_path incs) \<Longrightarrow> set (map sc_path incs) \<subseteq> U \<Longrightarrow> length incs \<le> card U"
  by (metis card_mono distinct_card length_map)

lemma include_loop_ok:
  assumes "rec_ok U stack rec" "readable L U" "finite U"
    and "\<And>meta cache. sc_path meta \<in> set stack \<Longrightarrow> \<exists>e. rec meta cache = Some (Inl e)"
  shows "sound_cache U cache stack \<Longrightarrow> distinct (map sc_path incs) \<Longrightarrow> set (map sc_path incs) \<subseteq> U \<Longrightarrow> card U < m + length incs \<Longrightarrow>
    \<exists>r. include_loop m rec L file stack content incs cache = Some r
      \<and> (\<forall>content1 incs1 cache1. r = Inr (content1, incs1, cache1) \<longrightarrow>
           sound_cache U cache1 stack \<and> exec_include True content1 = None)"
proof (induction m arbitrary: content incs cache)
  case 0
  then show ?case using card_includes[OF assms(3)] by force
next
  case (Suc m)
  show ?case
  proof (cases "exec_include True content")
    case (Some mr)
    obtain match reference where mr: "mr = (match, reference)" by fastforce
    show ?thesis
    proof (cases "include_paths L (sc_dir file) reference stack")
      case (Inr paths)
      show ?thesis
      proof (cases "paths = []")
        case False
        obtain r where r: "include_each rec L file reference match stack paths [] incs cache = Some r"
            "\<And>tokens1 incs1 cache1. r = Inr (tokens1, incs1, cache1) \<Longrightarrow>
               sound_cache U cache1 stack \<and> distinct (map sc_path incs1) \<and> set (map sc_path incs1) \<subseteq> U
               \<and> length incs1 = length incs + length paths"
          using include_each_ok[OF assms(1,2) Suc.prems(1-3) assms(4)] by meson
        show ?thesis
        proof (cases r)
          case ok: (Inr t)
          obtain tokens1 incs1 cache1 where t: "t = (tokens1, incs1, cache1)" by (cases t) auto
          have "card U < m + (length incs + length paths)" using False Suc.prems(4) by (cases paths) auto
          then have "\<exists>r. include_loop m rec L file stack (replace_first match (join_lines tokens1) content) incs1 cache1 = Some r
              \<and> (\<forall>content1 incs1 cache1. r = Inr (content1, incs1, cache1) \<longrightarrow>
                   sound_cache U cache1 stack \<and> exec_include True content1 = None)"
            using r(2)[of tokens1 incs1 cache1] ok t by (intro Suc.IH) auto
          then show ?thesis using Some mr Inr False r(1) ok t by auto
        qed (use Some mr Inr False r(1) in simp)
      qed (use Some mr Inr in simp)
    qed (use Some mr in simp)
  qed (use Suc.prems in simp)
qed

lemma resolve_circular: "0 < n \<Longrightarrow> sc_path file \<in> set stack \<Longrightarrow> \<exists>e. resolveDependencies n m L isInclude stack file cache = Some (Inl e)"
  by (cases n) auto

lemma resolve_ok:
  assumes "readable L U" "finite U" "card U < m"
  shows "distinct stack \<Longrightarrow> set stack \<subseteq> U \<Longrightarrow> sc_path file \<in> U \<Longrightarrow> sound_cache U cache (stack @ [sc_path file]) \<Longrightarrow>
    sc_includes file = [] \<or> complete file \<Longrightarrow> isInclude \<or> sc_name file = sc_path file \<Longrightarrow> card U < n + length stack \<Longrightarrow>
    \<exists>r. resolveDependencies n m L isInclude stack file cache = Some r
      \<and> (\<forall>file1 cache1. r = Inr (file1, cache1) \<longrightarrow> sound_cache U cache1 stack \<and> sc_path file1 = sc_path file \<and> complete file1)"
proof (induction n arbitrary: stack "file" cache isInclude)
  case 0
  then show ?case using card_mono[OF assms(2) 0(2)] distinct_card[of stack] by force
next
  case (Suc n)
  let ?p = "sc_path file" and ?key = "if isInclude then sc_path file else sc_name file"
  let ?stack = "stack @ [?p]"
  show ?case
  proof (cases "?p \<in> set stack")
    case False
    have ds: "distinct ?stack" "set ?stack \<subseteq> U" using Suc.prems False by auto
    have "length ?stack \<le> card U" using card_mono[OF assms(2) ds(2)] distinct_card[OF ds(1)] by simp
    then have n: "0 < n" using Suc.prems(7) by simp
    have rec: "rec_ok U ?stack (resolveDependencies n m L True ?stack)"
      unfolding rec_ok_def using Suc.IH[OF ds] Suc.prems(7) by (metis Suc_eq_plus1 add_Suc_shift length_append_singleton)
    have loop: "\<exists>r. include_loop m (resolveDependencies n m L True ?stack) L file ?stack (sc_content file) (sc_includes file) cache = Some r
      \<and> (\<forall>content1 incs1 cache1. r = Inr (content1, incs1, cache1) \<longrightarrow> sound_cache U cache1 ?stack \<and> exec_include True content1 = None)"
    proof (cases "complete file")
      case True
      then show ?thesis using Suc.prems(4) assms(3) by (cases m) (auto simp: complete_def)
    next
      case inc: False
      then show ?thesis
        using include_loop_ok[OF rec assms(1,2) resolve_circular[OF n] Suc.prems(4), of "sc_includes file" m] Suc.prems(5) assms(3) by simp
    qed
    then obtain r where r: "include_loop m (resolveDependencies n m L True ?stack) L file ?stack (sc_content file) (sc_includes file) cache = Some r"
      "\<And>content1 incs1 cache1. r = Inr (content1, incs1, cache1) \<Longrightarrow> sound_cache U cache1 ?stack \<and> exec_include True content1 = None" by blast
    have key: "?key = ?p" using Suc.prems(6) by auto
    show ?thesis
    proof (cases r)
      case (Inr t)
      obtain content1 incs1 cache1 where t: "t = (content1, incs1, cache1)" by (cases t) auto
      then show ?thesis using r(1) r(2)[of content1 incs1 cache1] Inr False key Suc.prems(3)
        by (auto simp: Let_def sound_cache_def complete_def update_conv')
    qed (use r(1) False in simp)
  qed simp
qed

lemma sound_cache_weaken: "sound_cache U cache [] \<Longrightarrow> sound_cache U cache stack"
  by (fastforce simp: sound_cache_def)

text \<open>C37. Loading a script always ends: with more rounds and depth than there are readable files the
  loader returns, whatever the files include, and circular or repeated includes end in an error.
  On success the script has no include directive left.\<close>

theorem parseScript_terminates:
  assumes "finite U" and "readable L U" and "sound_cache U cache []"
    and "(if isLoadingIncludes then filename else fst (splitFilename filename)) \<in> U"
    and "card U < n" and "card U < m"
  shows "\<exists>r. parseScript n m L filename content dir cache isLoadingIncludes = Some r
    \<and> (\<forall>s cache1. r = Inr (s, cache1) \<longrightarrow> exec_include True (sc_content s) = None)"
proof -
  obtain name keys where sf: "splitFilename filename = (name, keys)" by fastforce
  let ?path = "if isLoadingIncludes then filename else name"
  let ?file = "Script dir name keys ?path content (getPathHash L ?path) [] False"
  have fresh: "\<exists>r. resolveDependencies n m L isLoadingIncludes [] ?file cache = Some r
      \<and> (\<forall>s cache1. r = Inr (s, cache1) \<longrightarrow> exec_include True (sc_content s) = None)"
    using resolve_ok[OF assms(2,1,6), of "[]" ?file cache isLoadingIncludes n] assms(4,5) sf sound_cache_weaken[OF assms(3)]
    unfolding complete_def by fastforce
  have cached: "exec_include True (sc_content s) = None" if "map_get cache ?path = Some s" for s
    using assms(3) that by (auto simp: sound_cache_def complete_def)
  show ?thesis using fresh cached sf by (auto simp: parseScript_def Let_def split: option.splits)
qed

section \<open>A concrete directory\<close>

text \<open>A directory \<open>/s\<close> with the fragments \<open>b\<close> and \<open>c\<close>; \<open>c\<close> includes \<open>b\<close>, and \<open>x\<close> and \<open>y\<close> include
  each other.\<close>

definition newline :: string where
  "newline = [CHR 0x0A]"

definition include_line :: "string \<Rightarrow> string" where
  "include_line reference = ''--- @include '' @ quoted_name reference @ newline"

definition demo_read :: "string \<Rightarrow> (read_error, string) result" where
  "demo_read p =
     (if p = ''/s/b.lua'' then Inr (''local b = 1'' @ newline)
      else if p = ''/s/c.lua'' then Inr (include_line ''b'' @ ''local c = b'' @ newline)
      else if p = ''/s/x.lua'' then Inr (include_line ''y'')
      else if p = ''/s/y.lua'' then Inr (include_line ''x'')
      else Inl ENOENT)"

definition demo_loader :: loader where
  "demo_loader =
     \<lparr>ld_cwd = ''/s'', ld_root = ''/'', ld_mappings = [], ld_read = demo_read,
      ld_hasMagic = (\<lambda>_. False), ld_glob = (\<lambda>_. []), ld_sha1 = (\<lambda>p. map (\<lambda>c. if c = CHR ''/'' then CHR ''0'' else c) p)\<rparr>"

definition demo_content :: string where
  "demo_content = include_line ''c'' @ include_line ''b'' @ ''return c''"

theorem parseScript_terminates_witness:
  "\<exists>r. parseScript 6 6 demo_loader ''/s/a-1.lua'' demo_content ''/s'' [] False = Some r
    \<and> (\<forall>s cache1. r = Inr (s, cache1) \<longrightarrow> exec_include True (sc_content s) = None)"
proof (rule parseScript_terminates[where U = "{''a'', ''/s/b.lua'', ''/s/c.lua'', ''/s/x.lua'', ''/s/y.lua''}"])
  show "readable demo_loader {''a'', ''/s/b.lua'', ''/s/c.lua'', ''/s/x.lua'', ''/s/y.lua''}"
    by (auto simp: readable_def demo_loader_def demo_read_def split: if_splits)
  show "(if False then ''/s/a-1.lua'' else fst (splitFilename ''/s/a-1.lua'')) \<in> {''a'', ''/s/b.lua'', ''/s/c.lua'', ''/s/x.lua'', ''/s/y.lua''}"
    by code_simp
qed (simp_all add: sound_cache_def)

text \<open>A fragment included twice is emitted once, before its first use, and a cycle is reported with
  the files that lead to it.\<close>

lemma demo_loads:
  "map_option (map_sum id (\<lambda>(s, _). removeEmptyLines (fst (interpolate s {})))) (parseScript 6 6 demo_loader ''/s/a-1.lua'' demo_content ''/s'' [] False)
   = Some (Inr (''local b = 1'' @ newline @ ''local c = b'' @ newline @ ''return c''))"
  by code_simp

lemma demo_circular:
  "map_option (map_sum id (\<lambda>_. ())) (parseScript 6 6 demo_loader ''/s/a-1.lua'' (include_line ''x'') ''/s'' [] False)
   = Some (Inl (new_ScriptLoaderError (''circular reference: '' @ quoted_name ''/s/x.lua'') ''/s/x.lua'' [''a'', ''/s/x.lua'', ''/s/y.lua''] (0, 0)))"
  by code_simp

section \<open>Fragments are templates\<close>

lemma expand_template_verbatim: "CHR ''$'' \<notin> set t \<Longrightarrow> expand_template b m a t = t"
  by (induction b m a t rule: expand_template.induct) auto

text \<open>A fragment without a dollar sign is inserted as it is.\<close>

lemma fragment_verbatim:
  assumes "CHR ''$'' \<notin> set fragment" "fragment \<noteq> []" "split_at token content = Some (before, after)"
  shows "insert_fragment False token fragment content = remove_all token (before @ fragment @ after)"
  using assms by (simp add: insert_fragment_def replace_first_def expand_template_verbatim)

text \<open>A Lua pattern in single quotes that is anchored at its end is not: \<open>$'\<close> inserts the text that
  follows the token.\<close>

lemma fragment_dollar:
  "insert_fragment False ''@@b'' (''m(s, '' @ [CHR 0x27] @ ''%d+$'' @ [CHR 0x27] @ '')'') (''@@b'' @ newline @ ''return s'')
   = ''m(s, '' @ [CHR 0x27] @ ''%d+'' @ newline @ ''return s)'' @ newline @ ''return s''"
  by code_simp

end
