(* ===== verification/Postgres_Client.thy ===== *)
theory Postgres_Client
  imports Redis_Backend Queue_Store
begin

text \<open>
  What the PostgreSQL backend of src/postgres/postgres-queue-backend.ts is built on: queries on
  a connection pool, the rows they return and their translation into the shapes the rest of the
  program reads.

  The driver (node-postgres) and the SQL commands it runs are parameters: \<open>pg_env\<close> holds the
  readiness of the connection, whether it is closing, and the execution of a command by the name
  of its file. A query that is issued while the connection closes never settles; an operation is
  therefore a function into option, \<open>None\<close> being a promise that stays pending. Errors of the
  driver carry an optional detail beside the code.
\<close>

section \<open>Queries\<close>

type_synonym pg_row = jsobj

record pg_result =
  pr_rows :: "pg_row list"
  pr_rowCount :: "real option"

type_synonym pg_error = "js_error \<times> string option"

record 's pg_env =
  pv_ready :: "('s, unit) backend_op"
  pv_isClosing :: "'s \<Rightarrow> bool"
  pv_query :: "string \<Rightarrow> jsval list \<Rightarrow> 's \<Rightarrow> (pg_error, pg_result) result \<times> 's"
  pv_json :: json_lib
  pv_now :: real
  pv_stk :: "string option"

type_synonym ('s, 'a) pg_op = "'s \<Rightarrow> ((pg_error, 'a) result \<times> 's) option"

definition p_ret :: "'a \<Rightarrow> ('s, 'a) pg_op" where
  "p_ret a s = Some (Inr a, s)"

definition p_throw :: "js_error \<Rightarrow> ('s, 'a) pg_op" where
  "p_throw e s = Some (Inl (e, None), s)"

definition p_lift :: "(js_error, 'a) result \<Rightarrow> ('s, 'a) pg_op" where
  "p_lift r = (case r of Inl e \<Rightarrow> p_throw e | Inr a \<Rightarrow> p_ret a)"

definition p_then :: "('s, 'a) pg_op \<Rightarrow> ('a \<Rightarrow> ('s, 'b) pg_op) \<Rightarrow> ('s, 'b) pg_op" where
  "p_then m f s =
     (case m s of
        None \<Rightarrow> None
      | Some (Inl e, s') \<Rightarrow> Some (Inl e, s')
      | Some (Inr a, s') \<Rightarrow> f a s')"

text \<open>\<open>try { m } catch (err) { h }\<close>.\<close>

definition p_catch :: "('s, 'a) pg_op \<Rightarrow> (pg_error \<Rightarrow> ('s, 'a) pg_op) \<Rightarrow> ('s, 'a) pg_op" where
  "p_catch m h s =
     (case m s of
        None \<Rightarrow> None
      | Some (Inl e, s') \<Rightarrow> h e s'
      | Some (Inr a, s') \<Rightarrow> Some (Inr a, s'))"

definition p_rethrow :: "pg_error \<Rightarrow> ('s, 'a) pg_op" where
  "p_rethrow err s = Some (Inl err, s)"

lemma p_monad [simp]:
  "p_then (p_ret a) f = f a"
  "p_then m p_ret = m"
  "p_then (p_throw e) f = p_throw e"
  "p_catch (p_ret a) h = p_ret a"
  "p_catch (p_throw e) h = h (e, None)"
  "p_catch m p_rethrow = m"
  by (auto simp: p_then_def p_ret_def p_throw_def p_catch_def p_rethrow_def fun_eq_iff
      split: option.split prod.split sum.split)

lemma p_then_assoc: "p_then (p_then m f) g = p_then m (\<lambda>a. p_then (f a) g)"
  by (auto simp: p_then_def fun_eq_iff split: option.split prod.split sum.split)

text \<open>The promise as the callers see it: an error is the error object alone.\<close>

definition settled_op :: "('s, 'a) pg_op \<Rightarrow> ('s, 'a) loop_op" where
  "settled_op m s = map_option (\<lambda>(r, s'). (case r of Inl e \<Rightarrow> Inl (fst e) | Inr a \<Rightarrow> Inr a, s')) (m s)"

definition query :: "'s pg_env \<Rightarrow> string \<Rightarrow> jsval list \<Rightarrow> ('s, pg_result) pg_op" where
  "query E command params s =
     (case pv_ready E s of
        (Inl e, s1) \<Rightarrow> Some (Inl (e, None), s1)
      | (Inr _, s1) \<Rightarrow>
          if pv_isClosing E s1 then None
          else case pv_query E command params s1 of
                 (Inr r, s2) \<Rightarrow> Some (Inr r, s2)
               | (Inl err, s2) \<Rightarrow>
                   if pv_isClosing E s2 \<and> str_includes ''after calling end on the pool'' (err_message (fst err))
                   then None else Some (Inl err, s2))"

definition rows_of :: "'s pg_env \<Rightarrow> string \<Rightarrow> jsval list \<Rightarrow> ('s, pg_row list) pg_op" where
  "rows_of E command params = p_then (query E command params) (\<lambda>r. p_ret (pr_rows r))"

text \<open>\<open>rows[0].column\<close> throws on an empty reply; \<open>rows[0]?.column\<close> reads \<open>undefined\<close>.\<close>

definition first_row :: "'s pg_env \<Rightarrow> pg_row list \<Rightarrow> ('s, pg_row) pg_op" where
  "first_row E rows =
     (case rows of
        [] \<Rightarrow> p_throw (new_err TypeErrorClass (pv_stk E) ''Cannot read properties of undefined'')
      | row # _ \<Rightarrow> p_ret row)"

definition first_col :: "pg_row list \<Rightarrow> string \<Rightarrow> jsval" where
  "first_col rows c = (case rows of [] \<Rightarrow> VUndef | row # _ \<Rightarrow> oprop row c)"

definition column :: "'s pg_env \<Rightarrow> string \<Rightarrow> jsval list \<Rightarrow> string \<Rightarrow> ('s, jsval) pg_op" where
  "column E command params c =
     p_then (rows_of E command params) (\<lambda>rows. p_then (first_row E rows) (\<lambda>row. p_ret (oprop row c)))"

definition id_column :: "pg_row list \<Rightarrow> string list" where
  "id_column rows = map (\<lambda>r. with_default '''' (str_of (oprop r ''id''))) rows"

definition text_or_null :: "string option \<Rightarrow> jsval" where
  "text_or_null s = (case s of None \<Rightarrow> VNull | Some t \<Rightarrow> VStr t)"

definition num_or_null :: "real option \<Rightarrow> jsval" where
  "num_or_null n = (case n of None \<Rightarrow> VNull | Some x \<Rightarrow> VNum x)"

text \<open>\<open>JSON.stringify\<close> as a parameter of a query.\<close>

definition stringified :: "'s pg_env \<Rightarrow> jsval \<Rightarrow> ('s, jsval) pg_op" where
  "stringified E v = p_then (p_lift (json_stringify (pv_json E) v)) (\<lambda>s. p_ret (opt_str_val s))"

section \<open>Rows\<close>

definition bigintOrUndefined :: "json_lib \<Rightarrow> jsval \<Rightarrow> jsval" where
  "bigintOrUndefined J value = (if value = VNull \<or> value = VUndef then VUndef else to_number J value)"

record keep_params =
  kp_removeAll :: bool
  kp_keepAge :: jsval
  kp_keepCount :: jsval

definition normalizeKeep :: "jsval \<Rightarrow> keep_params" where
  "normalizeKeep opt =
     (case opt of
        VBool True \<Rightarrow> \<lparr>kp_removeAll = True, kp_keepAge = VNull, kp_keepCount = VNull\<rparr>
      | VBool False \<Rightarrow> \<lparr>kp_removeAll = False, kp_keepAge = VNull, kp_keepCount = VNull\<rparr>
      | VUndef \<Rightarrow> \<lparr>kp_removeAll = False, kp_keepAge = VNull, kp_keepCount = VNull\<rparr>
      | VNull \<Rightarrow> \<lparr>kp_removeAll = False, kp_keepAge = VNull, kp_keepCount = VNull\<rparr>
      | VNum n \<Rightarrow> \<lparr>kp_removeAll = False, kp_keepAge = VNull, kp_keepCount = VNum n\<rparr>
      | VNaN \<Rightarrow> \<lparr>kp_removeAll = False, kp_keepAge = VNull, kp_keepCount = VNaN\<rparr>
      | keep \<Rightarrow> \<lparr>kp_removeAll = False, kp_keepAge = nullish_or (vprop keep ''age'') VNull,
                 kp_keepCount = nullish_or (vprop keep ''count'') VNull\<rparr>)"

definition keep_vals :: "keep_params \<Rightarrow> jsval list" where
  "keep_vals k = [VBool (kp_removeAll k), kp_keepAge k, kp_keepCount k]"

text \<open>A row of the job table as a JobJson; a field that \<open>removeUndefined\<close> deletes is
  \<open>undefined\<close> in the record.\<close>

definition row_opts :: "jsval \<Rightarrow> jsobj" where
  "row_opts v = (case v of VObj obj \<Rightarrow> obj | _ \<Rightarrow> [])"

definition row_parent :: "pg_row \<Rightarrow> jsval" where
  "row_parent row =
     (if oprop row ''parent_id'' = VNull \<or> oprop row ''parent_id'' = VUndef then VUndef
      else VObj [(''id'', oprop row ''parent_id''), (''queueKey'', nullish_or (oprop row ''parent_queue'') (VStr ''''))])"

definition rowToJobJson :: "json_lib \<Rightarrow> pg_row \<Rightarrow> (js_error, job_json) result" where
  "rowToJobJson J row =
     bind_result (json_stringify J (nullish_or (oprop row ''data'') (VObj []))) (\<lambda>data.
     bind_result (json_stringify J (nullish_or (oprop row ''stacktrace'') (VArr []))) (\<lambda>stacktrace.
     bind_result (json_stringify J (nullish_or (oprop row ''return_value'') VNull)) (\<lambda>returnvalue.
     Inr \<lparr>jj_id = str_of (oprop row ''id''),
          jj_name = str_of (oprop row ''name''),
          jj_data = with_default '''' data,
          jj_opts = row_opts (oprop row ''opts''),
          jj_progress = nullish_or (oprop row ''progress'') (VNum 0),
          jj_delay = bigintOrUndefined J (oprop row ''delay_ms''),
          jj_priority = nullish_or (oprop row ''priority'') VUndef,
          jj_timestamp = to_number J (oprop row ''added_at_ms''),
          jj_attemptsStarted = nullish_or (oprop row ''attempts_started'') (VNum 0),
          jj_attemptsMade = nullish_or (oprop row ''attempts_made'') (VNum 0),
          jj_stalledCounter = nullish_or (oprop row ''stalled_count'') (VNum 0),
          jj_finishedOn = bigintOrUndefined J (oprop row ''finished_at_ms''),
          jj_processedOn = bigintOrUndefined J (oprop row ''processed_at_ms''),
          jj_repeatJobKey = str_of (oprop row ''scheduler_id''),
          jj_deduplicationId = str_of (oprop row ''dedup_id''),
          jj_failedReason = str_of (oprop row ''failed_reason''),
          jj_deferredFailure = str_of (oprop row ''deferred_failure''),
          jj_stacktrace = stacktrace,
          jj_returnvalue = returnvalue,
          jj_parentKey = str_of (oprop row ''parent_key''),
          jj_parent = row_parent row,
          jj_processedBy = str_of (oprop row ''processed_by'')\<rparr>)))"

definition notImplemented :: "'s pg_env \<Rightarrow> string \<Rightarrow> ('s, 'a) pg_op" where
  "notImplemented E op =
     p_throw (new_err ErrorClass (pv_stk E)
       (''PostgresQueueBackend: operation '' @ [CHR 0x27] @ op @ [CHR 0x27] @ '' is not implemented yet.''))"

text \<open>A row of the scheduler table as the metadata hash of the Redis backend and the next run.\<close>

definition add_text :: "json_lib \<Rightarrow> pg_row \<Rightarrow> string \<Rightarrow> string \<Rightarrow> (string, string) jsmap \<Rightarrow> (string, string) jsmap" where
  "add_text J row c field hash =
     (if oprop row c = VNull \<or> oprop row c = VUndef then hash
      else map_set field (js_string J (oprop row c)) hash)"

definition add_json ::
  "json_lib \<Rightarrow> pg_row \<Rightarrow> string \<Rightarrow> string \<Rightarrow> (string, string) jsmap \<Rightarrow> (js_error, (string, string) jsmap) result" where
  "add_json J row c field hash =
     (if oprop row c = VNull \<or> oprop row c = VUndef then Inr hash
      else bind_result (json_stringify J (oprop row c)) (\<lambda>s.
             Inr (if s = Some ''{}'' then hash else map_set field (with_default '''' s) hash)))"

definition mapSchedulerRow ::
  "json_lib \<Rightarrow> pg_row \<Rightarrow> (js_error, (string, string) jsmap \<times> string option) result" where
  "mapSchedulerRow J row =
     (let hash = fold (\<lambda>(c, field). add_text J row c field)
                   [(''name'', ''name''), (''iteration_count'', ''ic''), (''limit_count'', ''limit''),
                    (''start_date_ms'', ''startDate''), (''end_date_ms'', ''endDate''), (''tz'', ''tz''),
                    (''pattern'', ''pattern''), (''every_ms'', ''every''), (''offset_ms'', ''offset'')] []
      in bind_result (add_json J row ''template_data'' ''data'' hash) (\<lambda>hash1.
         bind_result (add_json J row ''template_opts'' ''opts'' hash1) (\<lambda>hash2.
         Inr (hash2, if oprop row ''next_run_ms'' = VNull \<or> oprop row ''next_run_ms'' = VUndef then None
                     else Some (js_string J (oprop row ''next_run_ms''))))))"

section \<open>The backend object\<close>

record pg_queue =
  pq_name :: string
  pq_opts :: jsobj
  pq_ownsConnection :: bool
  pq_listenClientName :: "string option"
  pq_closing :: bool

definition new_PostgresQueueBackend :: "string \<Rightarrow> jsobj \<Rightarrow> bool \<Rightarrow> string option \<Rightarrow> pg_queue" where
  "new_PostgresQueueBackend queueName opts ownsConnection listenClientName =
     \<lparr>pq_name = queueName, pq_opts = opts, pq_ownsConnection = ownsConnection,
      pq_listenClientName = listenClientName, pq_closing = False\<rparr>"

definition forQueue_pg :: "pg_queue \<Rightarrow> string \<Rightarrow> string option \<Rightarrow> pg_queue" where
  "forQueue_pg B queueName pre = new_PostgresQueueBackend queueName (pq_opts B) False None"

definition qualifiedName_pg :: "pg_queue \<Rightarrow> string" where
  "qualifiedName_pg B = pq_name B"

definition toKey_pg :: "pg_queue \<Rightarrow> string \<Rightarrow> string" where
  "toKey_pg B type = pq_name B @ '':'' @ type"

text \<open>\<open>slice(0, idx)\<close> and \<open>slice(idx + 1)\<close> at the last colon; without a colon the index is -1,
  so that the last character is cut off the queue name.\<close>

definition parseNodeKey_pg :: "string \<Rightarrow> string \<times> string \<times> string" where
  "parseNodeKey_pg key =
     (if CHR '':'' \<in> set key
      then ('''', rev (tl (dropWhile (\<lambda>c. c \<noteq> CHR '':'') (rev key))), rev (takeWhile (\<lambda>c. c \<noteq> CHR '':'') (rev key)))
      else ('''', butlast key, key))"

definition clientName_pg :: "pg_queue \<Rightarrow> string \<Rightarrow> string" where
  "clientName_pg B sfx = pq_name B @ sfx"

definition minimumBlockTimeout_pg :: real where
  "minimumBlockTimeout_pg = 0.001"

text \<open>The factory: workers and event readers name their dedicated connection, producers do
  not.\<close>

definition listen_name :: "string \<Rightarrow> jsobj \<Rightarrow> bool \<Rightarrow> bool \<Rightarrow> string option" where
  "listen_name name opts withBlockingConnection blocking =
     (if withBlockingConnection
      then Some (name @ (if truthy (oprop opts ''name'')
                         then '':w:'' @ with_default '''' (str_of (oprop opts ''name'')) else ''''))
      else if blocking then Some (name @ '':qe'') else None)"

definition createPostgresBackend :: "string \<Rightarrow> jsobj \<Rightarrow> bool \<Rightarrow> bool \<Rightarrow> pg_queue" where
  "createPostgresBackend name opts withBlockingConnection blocking =
     new_PostgresQueueBackend name opts True (listen_name name opts withBlockingConnection blocking)"

abbreviation qname :: "pg_queue \<Rightarrow> jsval" where
  "qname B \<equiv> VStr (pq_name B)"

definition workerName :: "pg_queue \<Rightarrow> jsval" where
  "workerName B = oprop (pq_opts B) ''name''"

definition is_BM001 :: "pg_error \<Rightarrow> bool" where
  "is_BM001 err \<longleftrightarrow> err_code (fst err) = Some (StrCode ''BM001'')"

text \<open>\<open>finishedErrors\<close> on a code that may be \<open>NaN\<close>.\<close>

definition finished_error_pg ::
  "'s pg_env \<Rightarrow> jsval \<Rightarrow> string option \<Rightarrow> string option \<Rightarrow> string \<Rightarrow> string option \<Rightarrow> js_error" where
  "finished_error_pg E code jobId parentKey command state =
     (case code of
        VNum n \<Rightarrow> finishedErrors (pv_stk E) \<lfloor>n\<rfloor> jobId parentKey command state
      | v \<Rightarrow> new_err ErrorClass (pv_stk E)
               (''Unknown code '' @ js_string (pv_json E) v @ '' error for '' @ render_opt jobId @ ''. '' @ command))"

definition detail_code :: "pg_error \<Rightarrow> jsval" where
  "detail_code err = (case snd err of None \<Rightarrow> VNaN | Some d \<Rightarrow> number_of_string d)"

text \<open>The handler shared by the operations whose SQL function raises BM001.\<close>

definition on_BM001 ::
  "'s pg_env \<Rightarrow> string option \<Rightarrow> string option \<Rightarrow> string \<Rightarrow> string option \<Rightarrow> pg_error \<Rightarrow> ('s, 'a) pg_op" where
  "on_BM001 E jobId parentKey command state err =
     (if is_BM001 err then p_throw (finished_error_pg E (detail_code err) jobId parentKey command state)
      else p_rethrow err)"

definition mapFinishError :: "'s pg_env \<Rightarrow> string option \<Rightarrow> string \<Rightarrow> pg_error \<Rightarrow> ('s, 'a) pg_op" where
  "mapFinishError E jobId command err = on_BM001 E jobId None command (Some ''active'') err"

end
