(* ===== verification/Postgres_Backend.thy ===== *)
theory Postgres_Backend
  imports Postgres_Client
begin

text \<open>
  The operations of PostgresQueueBackend (src/postgres/postgres-queue-backend.ts): each runs one
  or more commands of the schema, maps negative codes and the error state BM001 to the errors the
  Redis backend raises, and shapes the rows into the replies the callers expect. Everything holds
  for every behaviour of the SQL functions.
\<close>

section \<open>Adding jobs\<close>

definition null_of :: "jsval \<Rightarrow> jsval" where
  "null_of v = nullish_or v VNull"

text \<open>The upd that \<open>addJob\<close> and the batch entries share: \<open>a ?? b ?? default\<close>.\<close>

definition job_priority :: "job_json \<Rightarrow> jsval" where
  "job_priority job = nullish_or (jj_priority job) (nullish_or (oprop (jj_opts job) ''priority'') (VNum 0))"

definition job_delay :: "job_json \<Rightarrow> jsval" where
  "job_delay job = nullish_or (jj_delay job) (nullish_or (oprop (jj_opts job) ''delay'') (VNum 0))"

definition job_timestamp :: "'s pg_env \<Rightarrow> job_json \<Rightarrow> jsval" where
  "job_timestamp E job = nullish_or (jj_timestamp job) (VNum (pv_now E))"

definition job_id_text :: "string option \<Rightarrow> job_json \<Rightarrow> jsval" where
  "job_id_text jobId job = VStr (with_default '''' (or_else (or_else jobId (jj_id job)) (Some '''')))"

definition opt_or :: "'a option \<Rightarrow> 'a option \<Rightarrow> 'a option" where
  "opt_or a b = (case a of None \<Rightarrow> b | Some _ \<Rightarrow> a)"

definition addJob_pg ::
  "'s pg_env \<Rightarrow> pg_queue \<Rightarrow> job_json \<Rightarrow> string option \<Rightarrow> parent_key_opts \<Rightarrow> ('s, jsval) pg_op" where
  "addJob_pg E B job jobId parentKeyOpts =
     (let opts = jj_opts job; parentKey = opt_or (pk_parentKey parentKeyOpts) (jj_parentKey job) in
      p_then
        (p_catch
          (p_then (stringified E (VObj opts)) (\<lambda>optsText.
             rows_of E ''add_job''
               [qname B, job_id_text jobId job, opt_str_val (jj_name job), VStr (jj_data job), optsText,
                job_priority job, job_delay job, job_timestamp E job, nullish_or (oprop opts ''attempts'') (VNum 1),
                null_of (vprop (jj_parent job) ''queueKey''), null_of (vprop (jj_parent job) ''id''),
                text_or_null parentKey, text_or_null (jj_deduplicationId job), text_or_null (jj_repeatJobKey job),
                nullish_or (oprop opts ''lifo'') (VBool False)]))
          (on_BM001 E jobId parentKey ''addJob'' None))
        (\<lambda>rows. p_then (first_row E rows) (\<lambda>row. p_ret (oprop row ''id''))))"

definition toBatchEntry ::
  "'s pg_env \<Rightarrow> string \<Rightarrow> job_json \<Rightarrow> string option \<Rightarrow> parent_key_opts option \<Rightarrow> jsobj" where
  "toBatchEntry E queueName data jobId parentKeyOpts =
     (let opts = jj_opts data in
      [(''queue'', VStr queueName), (''id'', job_id_text jobId data), (''name'', opt_str_val (jj_name data)),
       (''data'', VStr (jj_data data)), (''opts'', VObj opts), (''priority'', job_priority data),
       (''delay'', job_delay data), (''timestamp'', job_timestamp E data),
       (''attempts'', nullish_or (oprop opts ''attempts'') (VNum 1)),
       (''parentQueue'', null_of (vprop (jj_parent data) ''queueKey'')),
       (''parentId'', null_of (vprop (jj_parent data) ''id'')),
       (''parentKey'', text_or_null (opt_or (Option.bind parentKeyOpts pk_parentKey) (jj_parentKey data))),
       (''dedupId'', text_or_null (jj_deduplicationId data)), (''schedulerId'', text_or_null (jj_repeatJobKey data)),
       (''lifo'', nullish_or (oprop opts ''lifo'') (VBool False)),
       (''addToWaitingChildren'', VBool (case parentKeyOpts of None \<Rightarrow> False | Some p \<Rightarrow> pk_addToWaitingChildren p))])"

definition no_value :: "jsobj \<Rightarrow> string \<Rightarrow> bool" where
  "no_value e k \<longleftrightarrow> oprop e k = VNull \<or> oprop e k = VUndef"

definition independent :: "jsobj list \<Rightarrow> bool" where
  "independent payload \<longleftrightarrow>
     (\<forall>e \<in> set payload. no_value e ''parentId'' \<and> no_value e ''parentQueue'' \<and> no_value e ''dedupId'')"

definition batch_payload :: "'s pg_env \<Rightarrow> pg_queue \<Rightarrow> add_entry list \<Rightarrow> jsobj list" where
  "batch_payload E B entries =
     map (\<lambda>e. toBatchEntry E (pq_name B) (ae_job e) (ae_jobId e) (Some (ae_parentKeyOpts e))) entries"

definition addJobs_pg :: "'s pg_env \<Rightarrow> pg_queue \<Rightarrow> add_entry list \<Rightarrow> ('s, jsval list) pg_op" where
  "addJobs_pg E B entries =
     (let payload = batch_payload E B entries in
      p_then (stringified E (VArr (map VObj payload))) (\<lambda>text.
      p_then (if independent payload then rows_of E ''add_jobs_bulk'' [qname B, text] else rows_of E ''add_flow'' [text])
        (\<lambda>rows. p_ret (map (\<lambda>r. oprop r ''id'') rows))))"

text \<open>A row of \<open>addFlow\<close>: an id whose number is a negative integer is a code.\<close>

definition flow_result :: "'s pg_env \<Rightarrow> pg_row \<Rightarrow> js_error option \<times> jsval" where
  "flow_result E r =
     (let code = to_number (pv_json E) (oprop r ''id'') in
      (None, if is_integer code \<and> js_less code (VNum 0) then code else oprop r ''id''))"

definition addFlow_pg :: "'s pg_env \<Rightarrow> flow_entry list \<Rightarrow> ('s, (js_error option \<times> jsval) list) pg_op" where
  "addFlow_pg E entries =
     (let payload = map (\<lambda>e. toBatchEntry E (fe_queueName e) (fe_jobData e) (fe_jobId e) (Some (fe_parentKeyOpts e))) entries in
      p_catch
        (p_then (stringified E (VArr (map VObj payload))) (\<lambda>text.
         p_then (rows_of E ''add_flow'' [text]) (\<lambda>rows. p_ret (map (flow_result E) rows))))
        (\<lambda>err. p_ret (map (\<lambda>_. (Some (fst err), VNum 0)) entries)))"

definition addJobScheduler_pg ::
  "'s pg_env \<Rightarrow> pg_queue \<Rightarrow> string \<Rightarrow> jsval \<Rightarrow> string option \<Rightarrow> jsobj \<Rightarrow> jsobj \<Rightarrow> jsobj \<Rightarrow> string option
     \<Rightarrow> ('s, jsval \<times> jsval) pg_op" where
  "addJobScheduler_pg E B jobSchedulerId nextMillis templateData templateOpts opts delayedJobOpts producerId =
     p_then
       (p_catch
         (p_then (stringified E (VObj templateOpts)) (\<lambda>templateText.
          p_then (stringified E (VObj opts)) (\<lambda>optsText.
          p_then (stringified E (VObj delayedJobOpts)) (\<lambda>delayedText.
            rows_of E ''add_job_scheduler''
              [qname B, VStr jobSchedulerId, null_of nextMillis, VStr (with_default '''' (or_else templateData (Some ''{}''))),
               templateText, optsText, delayedText, VNum (pv_now E), text_or_null producerId]))))
         (on_BM001 E None None ''addJobScheduler'' None))
       (\<lambda>rows. p_then (first_row E rows) (\<lambda>row. p_ret (oprop row ''job_id'', to_number (pv_json E) (oprop row ''delay''))))"

section \<open>Job state transitions\<close>

definition lock_duration :: "pg_queue \<Rightarrow> jsval" where
  "lock_duration B = nullish_or (oprop (pq_opts B) ''lockDuration'') (VNum 30000)"

definition limiter_max :: "pg_queue \<Rightarrow> jsval" where
  "limiter_max B = null_of (vprop (oprop (pq_opts B) ''limiter'') ''max'')"

definition limiter_duration :: "pg_queue \<Rightarrow> jsval" where
  "limiter_duration B = null_of (vprop (oprop (pq_opts B) ''limiter'') ''duration'')"

definition no_next :: "jsval \<Rightarrow> jsval \<Rightarrow> next_job" where
  "no_next rateLimitTtl delayUntil =
     \<lparr>nj_data = None, nj_id = Some '''', nj_rateLimitDelay = num_of rateLimitTtl, nj_delayUntil = num_of delayUntil\<rparr>"

definition buildNextJobResult ::
  "'s pg_env \<Rightarrow> pg_queue \<Rightarrow> pg_row list \<Rightarrow> jsval \<Rightarrow> ('s, next_job) pg_op" where
  "buildNextJobResult E B rows limiterMax =
     (case rows of
        row # _ \<Rightarrow>
          p_then (p_lift (rowToJobJson (pv_json E) row)) (\<lambda>json.
            p_ret \<lparr>nj_data = Some json, nj_id = str_of (oprop row ''id''),
                   nj_rateLimitDelay = Some 0, nj_delayUntil = Some 0\<rparr>)
      | [] \<Rightarrow>
          p_then (rows_of E ''next_signal'' [qname B, limiterMax, VNum (pv_now E)]) (\<lambda>sigRows.
            let rateLimitTtl = to_number (pv_json E) (nullish_or (first_col sigRows ''rate_limit_ttl'') (VNum 0)) in
            if js_less (VNum 0) rateLimitTtl then p_ret (no_next rateLimitTtl (VNum 0))
            else p_ret (no_next (VNum 0)
                   (nullish_or (bigintOrUndefined (pv_json E) (null_of (first_col sigRows ''next_delay''))) (VNum 0)))))"

definition moveToActive_pg :: "'s pg_env \<Rightarrow> pg_queue \<Rightarrow> string \<Rightarrow> jsval \<Rightarrow> ('s, next_job) pg_op" where
  "moveToActive_pg E B token name =
     p_then (rows_of E ''move_to_active''
               [qname B, VStr token, lock_duration B, VNum (pv_now E), null_of name, limiter_max B, limiter_duration B])
       (\<lambda>rows. buildNextJobResult E B rows (limiter_max B))"

definition collectMetrics :: "'s pg_env \<Rightarrow> pg_queue \<Rightarrow> string \<Rightarrow> ('s, unit) pg_op" where
  "collectMetrics E B kind =
     (let maxDataPoints = vprop (oprop (pq_opts B) ''metrics'') ''maxDataPoints'' in
      if truthy maxDataPoints
      then p_then (query E ''collect_metrics'' [qname B, VStr kind, maxDataPoints, VNum (pv_now E)]) (\<lambda>_. p_ret ())
      else p_ret ())"

text \<open>What \<open>moveToCompleted\<close> and \<open>moveToFailed\<close> share: the fused command when a next job is
  wanted and the backend stays open, the plain command otherwise, then the metrics. \<open>args\<close> are
  the arguments up to the retention parameters.\<close>

definition finish_pg ::
  "'s pg_env \<Rightarrow> pg_queue \<Rightarrow> string \<Rightarrow> string \<Rightarrow> string option \<Rightarrow> ('s, jsval list) pg_op \<Rightarrow> keep_params \<Rightarrow> bool
     \<Rightarrow> ('s, next_job option \<times> jsval) pg_op" where
  "finish_pg E B command kind jobId args keep fetchNext =
     (if fetchNext \<and> \<not> pq_closing B
      then p_then
             (p_catch
               (p_then args (\<lambda>xs. rows_of E (command @ ''_fetch'')
                  (xs @ keep_vals keep @ [lock_duration B, VNum (pv_now E), null_of (workerName B),
                                         limiter_max B, limiter_duration B])))
               (mapFinishError E jobId ''moveToFinished''))
             (\<lambda>rows. p_then (collectMetrics E B kind) (\<lambda>_.
                     p_then (buildNextJobResult E B rows (limiter_max B)) (\<lambda>result.
                       p_ret (Some result, VNum (pv_now E)))))
      else p_then
             (p_catch
               (p_then args (\<lambda>xs. p_then (query E command (xs @ keep_vals keep)) (\<lambda>_. p_ret ())))
               (mapFinishError E jobId ''moveToFinished''))
             (\<lambda>_. p_then (collectMetrics E B kind) (\<lambda>_. p_ret (None, VNum (pv_now E)))))"

definition moveToCompleted_pg ::
  "'s pg_env \<Rightarrow> pg_queue \<Rightarrow> job \<Rightarrow> jsval \<Rightarrow> jsval \<Rightarrow> string \<Rightarrow> bool \<Rightarrow> ('s, next_job option \<times> jsval) pg_op" where
  "moveToCompleted_pg E B job returnValue removeOnComplete token fetchNext =
     finish_pg E B ''move_to_completed'' ''completed'' (j_id job)
       (p_then (stringified E (null_of returnValue)) (\<lambda>text.
          p_ret [qname B, opt_str_val (j_id job), VStr token, text, VNum (pv_now E)]))
       (normalizeKeep (nullish_or removeOnComplete (oprop (pq_opts B) ''removeOnComplete''))) fetchNext"

definition moveToFailed_pg ::
  "'s pg_env \<Rightarrow> pg_queue \<Rightarrow> job \<Rightarrow> string option \<Rightarrow> jsval \<Rightarrow> string \<Rightarrow> bool \<Rightarrow> jsobj \<Rightarrow> ('s, next_job option \<times> jsval) pg_op" where
  "moveToFailed_pg E B job failedReason removeOnFail token fetchNext upd =
     finish_pg E B ''move_to_failed'' ''failed'' (j_id job)
       (p_ret [qname B, opt_str_val (j_id job), VStr token, opt_str_val failedReason,
               null_of (oprop upd ''stacktrace''), VNum (pv_now E)])
       (normalizeKeep (nullish_or removeOnFail (oprop (pq_opts B) ''removeOnFail''))) fetchNext"

definition moveToDelayed_pg ::
  "'s pg_env \<Rightarrow> pg_queue \<Rightarrow> string option \<Rightarrow> real \<Rightarrow> real \<Rightarrow> string option \<Rightarrow> move_to_delayed_opts
     \<Rightarrow> ('s, next_job option) pg_op" where
  "moveToDelayed_pg E B jobId timestamp delay token opts =
     (let upd = md_fieldsToUpdate opts in
      p_then
        (p_catch
          (query E ''move_to_delayed''
             [qname B, opt_str_val jobId, VStr (with_default '''' token), VNum (timestamp + delay), VNum delay,
              VBool (md_skipAttempt opts), null_of (oprop upd ''failedReason''), null_of (oprop upd ''stacktrace'')])
          (mapFinishError E jobId ''moveToDelayed''))
        (\<lambda>_. if md_fetchNext opts \<and> \<not> pq_closing B \<and> truthy_str token
             then p_then (moveToActive_pg E B (the token) (workerName B)) (\<lambda>next.
                    p_ret (if nj_data next = None then None else Some next))
             else p_ret None))"

text \<open>Throwing the error of a code: \<open>if (code < 0) throw finishedErrors({...})\<close>.\<close>

definition reject_negative_pg ::
  "'s pg_env \<Rightarrow> string option \<Rightarrow> string \<Rightarrow> string option \<Rightarrow> jsval \<Rightarrow> ('s, jsval) pg_op" where
  "reject_negative_pg E jobId command state code =
     (if js_negative (pv_json E) code then p_throw (finished_error_pg E code jobId None command state) else p_ret code)"

definition moveToWaitingChildren_pg :: "'s pg_env \<Rightarrow> pg_queue \<Rightarrow> string option \<Rightarrow> string \<Rightarrow> ('s, bool) pg_op" where
  "moveToWaitingChildren_pg E B jobId token =
     p_then
       (p_catch (rows_of E ''move_to_waiting_children'' [qname B, opt_str_val jobId, VStr token])
          (mapFinishError E jobId ''moveToWaitingChildren''))
       (\<lambda>rows. p_then (first_row E rows) (\<lambda>row.
               p_then (reject_negative_pg E jobId ''moveToWaitingChildren'' (Some ''active'') (oprop row ''code''))
                 (\<lambda>code. p_ret (code = VNum 1))))"

definition moveJobFromActiveToWait_pg :: "'s pg_env \<Rightarrow> pg_queue \<Rightarrow> string option \<Rightarrow> string option \<Rightarrow> ('s, jsval) pg_op" where
  "moveJobFromActiveToWait_pg E B jobId token =
     p_then (column E ''move_active_to_wait''
               [qname B, opt_str_val jobId, VStr (with_default ''0'' token), VNum (pv_now E)] ''n'')
       (\<lambda>n. reject_negative_pg E jobId ''moveJobFromActiveToWait'' None (to_number (pv_json E) n))"

definition retryJob_pg :: "'s pg_env \<Rightarrow> pg_queue \<Rightarrow> string option \<Rightarrow> jsval \<Rightarrow> string option \<Rightarrow> jsobj \<Rightarrow> ('s, unit) pg_op" where
  "retryJob_pg E B jobId lifo token upd =
     p_then
       (p_catch
         (query E ''retry_job''
            [qname B, opt_str_val jobId, VStr (with_default '''' token), lifo,
             null_of (oprop upd ''failedReason''), null_of (oprop upd ''stacktrace'')])
         (mapFinishError E jobId ''retryJob''))
       (\<lambda>_. p_ret ())"

definition retryFinishedJob_pg :: "'s pg_env \<Rightarrow> pg_queue \<Rightarrow> job \<Rightarrow> string \<Rightarrow> retry_options \<Rightarrow> ('s, unit) pg_op" where
  "retryFinishedJob_pg E B job state opts =
     p_then (column E ''reprocess_job''
               [qname B, opt_str_val (j_id job), VStr state, nullish_or (oprop (j_opts job) ''lifo'') (VBool False),
                VBool (ro_resetAttemptsMade opts), VBool (ro_resetAttemptsStarted opts)] ''code'')
       (\<lambda>code. if code = VNum 1 then p_ret ()
               else p_throw (finished_error_pg E code (j_id job) None ''reprocessJob'' (Some state)))"

definition promote_pg :: "'s pg_env \<Rightarrow> pg_queue \<Rightarrow> string option \<Rightarrow> ('s, unit) pg_op" where
  "promote_pg E B jobId =
     p_then (column E ''promote'' [qname B, opt_str_val jobId] ''code'')
       (\<lambda>code. p_then (reject_negative_pg E jobId ''promote'' (Some ''delayed'') code) (\<lambda>_. p_ret ()))"

definition moveStalledJobsToWait_pg :: "'s pg_env \<Rightarrow> pg_queue \<Rightarrow> ('s, string list) pg_op" where
  "moveStalledJobsToWait_pg E B =
     p_then (rows_of E ''move_stalled_jobs_to_wait''
               [qname B, nullish_or (oprop (pq_opts B) ''maxStalledCount'') (VNum 1), VNum (pv_now E),
                nullish_or (oprop (pq_opts B) ''stalledInterval'') (VNum 30000)])
       (\<lambda>rows. p_ret (id_column rows))"

section \<open>Bulk admin transitions\<close>

definition number_column :: "'s pg_env \<Rightarrow> string \<Rightarrow> jsval list \<Rightarrow> string \<Rightarrow> ('s, jsval) pg_op" where
  "number_column E command params c =
     p_then (column E command params c) (\<lambda>v. p_ret (to_number (pv_json E) v))"

definition run_pg :: "'s pg_env \<Rightarrow> string \<Rightarrow> jsval list \<Rightarrow> ('s, unit) pg_op" where
  "run_pg E command params = p_then (query E command params) (\<lambda>_. p_ret ())"

definition retryFinishedJobs_pg ::
  "'s pg_env \<Rightarrow> pg_queue \<Rightarrow> string option \<Rightarrow> real option \<Rightarrow> real option \<Rightarrow> ('s, jsval) pg_op" where
  "retryFinishedJobs_pg E B state cnt timestamp =
     number_column E ''retry_jobs''
       [qname B, VStr (with_default ''failed'' state), num_or_null cnt, num_or_null timestamp] ''n''"

definition promoteJobs_pg :: "'s pg_env \<Rightarrow> pg_queue \<Rightarrow> real option \<Rightarrow> ('s, jsval) pg_op" where
  "promoteJobs_pg E B cnt = number_column E ''promote_jobs'' [qname B, num_or_null cnt] ''n''"

definition pause_pg :: "'s pg_env \<Rightarrow> pg_queue \<Rightarrow> bool \<Rightarrow> ('s, unit) pg_op" where
  "pause_pg E B pause = run_pg E ''pause'' [qname B, VBool pause]"

definition drain_pg :: "'s pg_env \<Rightarrow> pg_queue \<Rightarrow> bool \<Rightarrow> ('s, unit) pg_op" where
  "drain_pg E B delayed = run_pg E ''drain'' [qname B, VBool delayed]"

definition cleanJobsByState_pg :: "'s pg_env \<Rightarrow> pg_queue \<Rightarrow> string \<Rightarrow> real \<Rightarrow> real option \<Rightarrow> ('s, string list) pg_op" where
  "cleanJobsByState_pg E B state timestamp limit =
     p_then (rows_of E ''clean'' [qname B, VStr state, VNum timestamp, VNum (with_default 0 limit)])
       (\<lambda>rows. p_ret (id_column rows))"

definition obliterate_pg :: "'s pg_env \<Rightarrow> pg_queue \<Rightarrow> bool \<Rightarrow> real \<Rightarrow> ('s, jsval) pg_op" where
  "obliterate_pg E B force cnt =
     p_then (number_column E ''obliterate'' [qname B, VNum cnt, VBool force] ''cursor'') (\<lambda>cursor.
       if cursor = VNum (-1) then p_throw (new_err ErrorClass (pv_stk E) ''Cannot obliterate non-paused queue'')
       else if cursor = VNum (-2) then p_throw (new_err ErrorClass (pv_stk E) ''Cannot obliterate queue with active jobs'')
       else p_ret cursor)"

definition removeOrphanedJobs_pg :: "real option \<Rightarrow> real option \<Rightarrow> ('s, real) pg_op" where
  "removeOrphanedJobs_pg cnt limit = p_ret 0"

end
