(* ===== verification/Postgres_Queries.thy ===== *)
theory Postgres_Queries
  imports Postgres_Backend
begin

text \<open>
  The locks, job mutations, schedulers, getters, pagination and metadata of PostgresQueueBackend
  (src/postgres/postgres-queue-backend.ts).
\<close>

section \<open>Locks\<close>

definition extendLock_pg :: "'s pg_env \<Rightarrow> pg_queue \<Rightarrow> string option \<Rightarrow> string \<Rightarrow> real \<Rightarrow> ('s, jsval) pg_op" where
  "extendLock_pg E B jobId token duration =
     column E ''extend_lock'' [qname B, opt_str_val jobId, VStr token, VNum duration, VNum (pv_now E)] ''n''"

definition extendLocks_pg :: "'s pg_env \<Rightarrow> pg_queue \<Rightarrow> string list \<Rightarrow> string list \<Rightarrow> real \<Rightarrow> ('s, string list) pg_op" where
  "extendLocks_pg E B jobIds tokens duration =
     p_then (rows_of E ''extend_locks''
               [qname B, VArr (map VStr jobIds), VArr (map VStr tokens), VNum duration, VNum (pv_now E)])
       (\<lambda>rows. p_ret (id_column rows))"

section \<open>Job mutations\<close>

definition missing_job :: "'s pg_env \<Rightarrow> string option \<Rightarrow> string \<Rightarrow> js_error" where
  "missing_job E jobId command = finishedErrors (pv_stk E) (-1) jobId None command None"

definition updateData_pg :: "'s pg_env \<Rightarrow> pg_queue \<Rightarrow> job \<Rightarrow> jsval \<Rightarrow> ('s, unit) pg_op" where
  "updateData_pg E B job data =
     p_then (stringified E (nullish_or data (VObj []))) (\<lambda>text.
     p_then (rows_of E ''update_data'' [qname B, opt_str_val (j_id job), text]) (\<lambda>rows.
       if rows = [] then p_throw (missing_job E (j_id job) ''updateData'') else p_ret ()))"

definition updateProgress_pg :: "'s pg_env \<Rightarrow> pg_queue \<Rightarrow> string option \<Rightarrow> jsval \<Rightarrow> ('s, unit) pg_op" where
  "updateProgress_pg E B jobId progress =
     p_then (stringified E (null_of progress)) (\<lambda>text.
     p_then (column E ''update_progress'' [qname B, opt_str_val jobId, text] ''updated'') (\<lambda>updated.
       if truthy updated then p_ret () else p_throw (missing_job E jobId ''updateProgress'')))"

definition on_foreign_key :: "'s pg_env \<Rightarrow> string option \<Rightarrow> string \<Rightarrow> pg_error \<Rightarrow> ('s, 'a) pg_op" where
  "on_foreign_key E jobId command err =
     (if err_code (fst err) = Some (StrCode ''23503'') then p_throw (missing_job E jobId command) else p_rethrow err)"

text \<open>\<open>keepLogs && count > keepLogs\<close>: the old rows are trimmed.\<close>

definition addLog_pg :: "'s pg_env \<Rightarrow> pg_queue \<Rightarrow> string option \<Rightarrow> string \<Rightarrow> real option \<Rightarrow> ('s, jsval) pg_op" where
  "addLog_pg E B jobId logRow keepLogs =
     p_then
       (p_catch (rows_of E ''add_log'' [qname B, opt_str_val jobId, VStr logRow]) (on_foreign_key E jobId ''addLog''))
       (\<lambda>rows. p_then (first_row E rows) (\<lambda>row.
          let cnt = js_plus (to_number (pv_json E) (oprop row ''idx'')) 1 in
          case (keepLogs, cnt) of
            (Some keep, VNum c) \<Rightarrow>
              if keep \<noteq> 0 \<and> c > keep
              then p_then (query E ''trim_logs'' [qname B, opt_str_val jobId, VNum (c - keep)]) (\<lambda>_. p_ret (VNum keep))
              else p_ret cnt
          | _ \<Rightarrow> p_ret cnt))"

definition clearLogs_pg :: "'s pg_env \<Rightarrow> pg_queue \<Rightarrow> string option \<Rightarrow> real option \<Rightarrow> ('s, unit) pg_op" where
  "clearLogs_pg E B jobId keepLogs = run_pg E ''clear_logs'' [qname B, opt_str_val jobId, num_or_null keepLogs]"

definition changeDelay_pg :: "'s pg_env \<Rightarrow> pg_queue \<Rightarrow> string option \<Rightarrow> real \<Rightarrow> ('s, unit) pg_op" where
  "changeDelay_pg E B jobId delay =
     p_then (column E ''change_delay'' [qname B, opt_str_val jobId, VNum delay, VNum (pv_now E)] ''code'')
       (\<lambda>code. p_then (reject_negative_pg E jobId ''changeDelay'' (Some ''delayed'') code) (\<lambda>_. p_ret ()))"

definition changePriority_pg :: "'s pg_env \<Rightarrow> pg_queue \<Rightarrow> string option \<Rightarrow> real option \<Rightarrow> bool option \<Rightarrow> ('s, unit) pg_op" where
  "changePriority_pg E B jobId priority lifo =
     p_then (column E ''change_priority''
               [qname B, opt_str_val jobId, VNum (with_default 0 priority), VBool (with_default False lifo)] ''code'')
       (\<lambda>code. p_then (reject_negative_pg E jobId ''changePriority'' None code) (\<lambda>_. p_ret ()))"

definition remove_pg :: "'s pg_env \<Rightarrow> pg_queue \<Rightarrow> string option \<Rightarrow> bool \<Rightarrow> ('s, jsval) pg_op" where
  "remove_pg E B jobId removeChildren =
     p_then
       (p_catch (rows_of E ''remove'' [qname B, opt_str_val jobId, VBool removeChildren])
          (on_BM001 E jobId None ''remove'' None))
       (\<lambda>rows. p_then (first_row E rows) (\<lambda>row. p_ret (oprop row ''n'')))"

definition removeUnprocessedChildren_pg :: "'s pg_env \<Rightarrow> pg_queue \<Rightarrow> string option \<Rightarrow> ('s, unit) pg_op" where
  "removeUnprocessedChildren_pg E B jobId = run_pg E ''remove_unprocessed_children'' [qname B, opt_str_val jobId]"

definition removeChildDependency_pg :: "'s pg_env \<Rightarrow> pg_queue \<Rightarrow> string option \<Rightarrow> string option \<Rightarrow> ('s, bool) pg_op" where
  "removeChildDependency_pg E B jobId parentKey =
     p_catch
       (p_then (column E ''remove_child_dependency'' [qname B, opt_str_val jobId, opt_str_val parentKey, VNum (pv_now E)] ''n'')
          (\<lambda>n. p_ret (n = VNum 0)))
       (on_BM001 E jobId parentKey ''removeChildDependency'' None)"

definition removeDeduplicationKey_pg :: "'s pg_env \<Rightarrow> pg_queue \<Rightarrow> string \<Rightarrow> string option \<Rightarrow> ('s, nat) pg_op" where
  "removeDeduplicationKey_pg E B deduplicationId jobId =
     p_then (rows_of E ''remove_deduplication_key'' [qname B, VStr deduplicationId, opt_str_val jobId, VNum (pv_now E)])
       (\<lambda>rows. p_ret (length rows))"

definition deleteDeduplicationKey_pg :: "'s pg_env \<Rightarrow> pg_queue \<Rightarrow> string \<Rightarrow> ('s, nat) pg_op" where
  "deleteDeduplicationKey_pg E B deduplicationId =
     p_then (rows_of E ''delete_deduplication_key'' [qname B, VStr deduplicationId]) (\<lambda>rows. p_ret (length rows))"

section \<open>Job schedulers\<close>

definition updateJobSchedulerNextMillis_pg ::
  "'s pg_env \<Rightarrow> pg_queue \<Rightarrow> string \<Rightarrow> jsval \<Rightarrow> string option \<Rightarrow> jsobj \<Rightarrow> string option \<Rightarrow> ('s, jsval) pg_op" where
  "updateJobSchedulerNextMillis_pg E B jobSchedulerId nextMillis templateData delayedJobOpts producerId =
     p_then (stringified E (VObj delayedJobOpts)) (\<lambda>text.
     p_then (rows_of E ''update_job_scheduler''
               [qname B, VStr jobSchedulerId, null_of nextMillis, VStr (with_default '''' (or_else templateData (Some ''{}''))),
                text, VNum (pv_now E), text_or_null producerId])
       (\<lambda>rows. p_ret (null_of (first_col rows ''job_id''))))"

definition removeJobScheduler_pg :: "'s pg_env \<Rightarrow> pg_queue \<Rightarrow> string \<Rightarrow> ('s, jsval) pg_op" where
  "removeJobScheduler_pg E B jobSchedulerId =
     p_then (rows_of E ''remove_job_scheduler'' [qname B, VStr jobSchedulerId])
       (\<lambda>rows. p_ret (nullish_or (first_col rows ''removed'') (VNum 0)))"

definition getJobScheduler_pg :: "'s pg_env \<Rightarrow> pg_queue \<Rightarrow> string \<Rightarrow> ('s, string list option \<times> string option) pg_op" where
  "getJobScheduler_pg E B schedulerId =
     p_then (rows_of E ''get_job_scheduler'' [qname B, VStr schedulerId]) (\<lambda>rows.
       case rows of
         [] \<Rightarrow> p_ret (None, None)
       | row # _ \<Rightarrow> p_then (p_lift (mapSchedulerRow (pv_json E) row)) (\<lambda>(hash, next).
                    p_ret (Some (concat (map (\<lambda>(k, v). [k, v]) hash)), next)))"

definition isJobScheduler_pg :: "'s pg_env \<Rightarrow> pg_queue \<Rightarrow> string \<Rightarrow> ('s, jsval) pg_op" where
  "isJobScheduler_pg E B schedulerId =
     p_then (rows_of E ''is_job_scheduler'' [qname B, VStr schedulerId])
       (\<lambda>rows. p_ret (nullish_or (first_col rows ''exists'') (VBool False)))"

definition getJobSchedulerData_pg :: "'s pg_env \<Rightarrow> pg_queue \<Rightarrow> string \<Rightarrow> ('s, (string, string) jsmap) pg_op" where
  "getJobSchedulerData_pg E B key =
     p_then (rows_of E ''get_job_scheduler'' [qname B, VStr key]) (\<lambda>rows.
       case rows of
         [] \<Rightarrow> p_ret []
       | row # _ \<Rightarrow> p_then (p_lift (mapSchedulerRow (pv_json E) row)) (\<lambda>(hash, next). p_ret hash))"

definition schedulers_count :: "real \<Rightarrow> real \<Rightarrow> jsval" where
  "schedulers_count start end = (if end < 0 then VNull else VNum (end - start + 1))"

definition getJobSchedulersRange_pg :: "'s pg_env \<Rightarrow> pg_queue \<Rightarrow> real \<Rightarrow> real \<Rightarrow> bool \<Rightarrow> ('s, string list) pg_op" where
  "getJobSchedulersRange_pg E B start end asc =
     p_then (rows_of E ''get_job_schedulers_range'' [qname B, VBool asc, VNum start, schedulers_count start end])
       (\<lambda>rows. p_ret (concat (map (\<lambda>r. [with_default '''' (str_of (oprop r ''scheduler_id'')),
                                       js_string (pv_json E) (oprop r ''next_run_ms'')]) rows)))"

definition getJobSchedulersCount_pg :: "'s pg_env \<Rightarrow> pg_queue \<Rightarrow> ('s, jsval) pg_op" where
  "getJobSchedulersCount_pg E B =
     p_then (rows_of E ''get_job_schedulers_count'' [qname B])
       (\<lambda>rows. p_ret (nullish_or (first_col rows ''count'') (VNum 0)))"

section \<open>Queries\<close>

definition getState_pg :: "'s pg_env \<Rightarrow> pg_queue \<Rightarrow> string option \<Rightarrow> ('s, jsval) pg_op" where
  "getState_pg E B jobId =
     p_then (rows_of E ''get_state'' [qname B, opt_str_val jobId]) (\<lambda>rows.
       case rows of
         [] \<Rightarrow> p_ret (VStr ''unknown'')
       | row # _ \<Rightarrow>
           if oprop row ''state'' = VStr ''waiting'' \<and> js_less (VNum 0) (oprop row ''priority'')
           then p_ret (VStr ''prioritized'') else p_ret (oprop row ''state''))"

definition finished_status :: "'s pg_env \<Rightarrow> pg_queue \<Rightarrow> string option \<Rightarrow> pg_row list \<Rightarrow> (js_error, real \<times> string) result" where
  "finished_status E B jobId rows =
     (case rows of
        [] \<Rightarrow> Inr (-1, ''Missing key for job '' @ toKey_pg B (render_opt jobId) @ ''. isFinished'')
      | row # _ \<Rightarrow>
          if oprop row ''state'' = VStr ''completed''
          then bind_result (json_stringify (pv_json E) (null_of (oprop row ''return_value'')))
                 (\<lambda>text. Inr (1, with_default '''' text))
          else if oprop row ''state'' = VStr ''failed''
          then Inr (2, with_default '''' (str_of (oprop row ''failed_reason'')))
          else Inr (0, ''''))"

definition isFinished_pg :: "'s pg_env \<Rightarrow> pg_queue \<Rightarrow> string option \<Rightarrow> bool \<Rightarrow> ('s, jsval) pg_op" where
  "isFinished_pg E B jobId returnValue =
     p_then (rows_of E ''is_finished'' [qname B, opt_str_val jobId]) (\<lambda>rows.
     p_then (p_lift (finished_status E B jobId rows)) (\<lambda>(status, value).
       p_ret (if returnValue then VArr [VNum status, VStr value] else VNum status)))"

definition isMaxed_pg :: "'s pg_env \<Rightarrow> pg_queue \<Rightarrow> ('s, jsval) pg_op" where
  "isMaxed_pg E B = column E ''is_maxed'' [qname B] ''maxed''"

text \<open>One state; the recursion of 'waiting' goes through 'wait' and 'paused' only.\<close>

definition isJobInState_one :: "'s pg_env \<Rightarrow> pg_queue \<Rightarrow> string \<Rightarrow> string option \<Rightarrow> ('s, jsval) pg_op" where
  "isJobInState_one E B state jobId =
     (if state = ''active'' then column E ''is_job_in_state'' [qname B, opt_str_val jobId, VStr ''active''] ''present''
      else if state = ''wait'' \<or> state = ''paused''
      then column E ''is_job_in_wait'' [qname B, opt_str_val jobId, VBool (state = ''paused'')] ''present''
      else if state = ''prioritized'' then column E ''is_job_prioritized'' [qname B, opt_str_val jobId] ''present''
      else if state \<in> {''completed'', ''failed'', ''delayed'', ''waiting-children''}
      then column E ''is_job_in_state'' [qname B, opt_str_val jobId, VStr state] ''present''
      else p_throw (new_err ErrorClass (pv_stk E) (''Unknown job state: '' @ state)))"

definition isJobInState_pg :: "'s pg_env \<Rightarrow> pg_queue \<Rightarrow> string \<Rightarrow> string option \<Rightarrow> ('s, jsval) pg_op" where
  "isJobInState_pg E B state jobId =
     (if state = ''waiting''
      then p_then (isJobInState_one E B ''wait'' jobId) (\<lambda>waiting.
             if truthy waiting then p_ret waiting else isJobInState_one E B ''paused'' jobId)
      else isJobInState_one E B state jobId)"

definition getJobData_pg :: "'s pg_env \<Rightarrow> pg_queue \<Rightarrow> string \<Rightarrow> ('s, job_json option) pg_op" where
  "getJobData_pg E B jobId =
     p_then (rows_of E ''get_job_data'' [qname B, VStr jobId]) (\<lambda>rows.
       case rows of
         [] \<Rightarrow> p_ret None
       | row # _ \<Rightarrow> p_then (p_lift (rowToJobJson (pv_json E) row)) (\<lambda>json. p_ret (Some json)))"

definition getDeduplicationJobId_pg :: "'s pg_env \<Rightarrow> pg_queue \<Rightarrow> string \<Rightarrow> ('s, jsval) pg_op" where
  "getDeduplicationJobId_pg E B deduplicationId =
     p_then (rows_of E ''get_deduplication_job_id'' [qname B, VStr deduplicationId, VNum (pv_now E)])
       (\<lambda>rows. p_ret (null_of (first_col rows ''job_id'')))"

text \<open>\<open>start\<close> and \<open>end\<close> are inclusive indexes, negative ones from the end.\<close>

definition logs_window :: "real \<Rightarrow> real \<Rightarrow> real \<Rightarrow> real \<times> real" where
  "logs_window cnt start end =
     (let from = (if start < 0 then max (cnt + start) 0 else start); to = (if end < 0 then cnt + end else end) in
      (from, to - from + 1))"

definition getJobLogs_pg :: "'s pg_env \<Rightarrow> pg_queue \<Rightarrow> string \<Rightarrow> real \<Rightarrow> real \<Rightarrow> bool \<Rightarrow> ('s, jsval list \<times> jsval) pg_op" where
  "getJobLogs_pg E B jobId start end asc =
     p_then (column E ''get_job_logs_count'' [qname B, VStr jobId] ''count'') (\<lambda>c.
       case to_number (pv_json E) c of
         VNum cnt \<Rightarrow>
           (case logs_window cnt start end of (from, limit) \<Rightarrow>
              if limit \<le> 0 then p_ret ([], VNum cnt)
              else p_then (rows_of E (if asc then ''get_job_logs_asc'' else ''get_job_logs_desc'')
                             [qname B, VStr jobId, VNum from, VNum limit])
                     (\<lambda>rows. p_ret (map (\<lambda>r. oprop r ''row'') rows, VNum cnt)))
       | nan \<Rightarrow>
           if 0 \<le> start \<and> 0 \<le> end \<and> end - start + 1 \<le> 0 then p_ret ([], nan)
           else p_then (rows_of E (if asc then ''get_job_logs_asc'' else ''get_job_logs_desc'')
                          [qname B, VStr jobId, if start < 0 then nan else VNum start,
                           if start < 0 \<or> end < 0 then nan else VNum (end - start + 1)])
                  (\<lambda>rows. p_ret (map (\<lambda>r. oprop r ''row'') rows, nan)))"

definition getRateLimitTtl_pg :: "'s pg_env \<Rightarrow> pg_queue \<Rightarrow> real option \<Rightarrow> ('s, jsval) pg_op" where
  "getRateLimitTtl_pg E B maxJobs =
     number_column E ''get_rate_limit_ttl'' [qname B, VNum (with_default 0 maxJobs), VNum (pv_now E)] ''ttl''"

definition counts_lookup :: "json_lib \<Rightarrow> pg_row \<Rightarrow> jsobj" where
  "counts_lookup J counts =
     (let waiting = to_number J (oprop counts ''waiting''); isPaused = (oprop counts ''paused'' = VStr ''1'') in
      [(''active'', to_number J (oprop counts ''active'')), (''completed'', to_number J (oprop counts ''completed'')),
       (''failed'', to_number J (oprop counts ''failed'')), (''delayed'', to_number J (oprop counts ''delayed'')),
       (''wait'', if isPaused then VNum 0 else waiting), (''waiting'', if isPaused then VNum 0 else waiting),
       (''prioritized'', to_number J (oprop counts ''prioritized'')),
       (''waiting-children'', to_number J (oprop counts ''waiting-children'')),
       (''paused'', if isPaused then waiting else VNum 0)])"

definition getCounts_pg :: "'s pg_env \<Rightarrow> pg_queue \<Rightarrow> string list \<Rightarrow> ('s, jsval list) pg_op" where
  "getCounts_pg E B types =
     p_then (rows_of E ''get_counts'' [qname B]) (\<lambda>rows.
     p_then (first_row E rows) (\<lambda>counts.
       p_ret (map (\<lambda>type. nullish_or (oprop (counts_lookup (pv_json E) counts) type) (VNum 0)) types)))"

definition getCountsPerPriority_pg :: "'s pg_env \<Rightarrow> pg_queue \<Rightarrow> real list \<Rightarrow> ('s, jsval list) pg_op" where
  "getCountsPerPriority_pg E B priorities =
     p_then (rows_of E ''get_counts_per_priority'' [qname B, VArr (map VNum priorities)])
       (\<lambda>rows. p_ret (map (\<lambda>r. to_number (pv_json E) (oprop r ''cnt'')) rows))"

text \<open>One query per type, in the order of the types.\<close>

fun getRanges_pg :: "'s pg_env \<Rightarrow> pg_queue \<Rightarrow> real \<Rightarrow> real \<Rightarrow> bool \<Rightarrow> string list \<Rightarrow> ('s, string list list) pg_op" where
  "getRanges_pg E B start end asc [] = p_ret []"
| "getRanges_pg E B start end asc (type # types) =
     p_then (rows_of E ''get_range'' [qname B, VStr type, VNum start, VNum end, VBool asc]) (\<lambda>rows.
     p_then (getRanges_pg E B start end asc types) (\<lambda>rest. p_ret (id_column rows # rest)))"

definition getDependencyCounts_pg :: "'s pg_env \<Rightarrow> pg_queue \<Rightarrow> string option \<Rightarrow> string list \<Rightarrow> ('s, jsval list) pg_op" where
  "getDependencyCounts_pg E B jobId types =
     p_then (rows_of E ''get_dependency_counts'' [qname B, opt_str_val jobId]) (\<lambda>rows.
     p_then (first_row E rows) (\<lambda>c.
       p_ret (map (\<lambda>t. if t \<in> {''processed'', ''unprocessed'', ''ignored'', ''failed''}
                       then to_number (pv_json E) (oprop c t) else VNum 0) types)))"

section \<open>Children\<close>

text \<open>Without a requested category every child is sorted into its own by its status; the
  accumulator holds the four variables in the order of the returned object.\<close>

record child_groups =
  cg_processed :: jsobj
  cg_unprocessed :: "jsval list"
  cg_ignored :: jsobj
  cg_failed :: "jsval list"

definition child_name :: "pg_row \<Rightarrow> string" where
  "child_name r = with_default '''' (str_of (oprop r ''child_key''))"

definition group_child :: "pg_row \<Rightarrow> child_groups \<Rightarrow> child_groups" where
  "group_child r g =
     (let status = oprop r ''status'' in
      if status = VStr ''processed'' then g\<lparr>cg_processed := map_set (child_name r) (oprop r ''value'') (cg_processed g)\<rparr>
      else if status = VStr ''pending'' then g\<lparr>cg_unprocessed := cg_unprocessed g @ [oprop r ''child_key'']\<rparr>
      else if status = VStr ''ignored'' then g\<lparr>cg_ignored := map_set (child_name r) (oprop r ''value'') (cg_ignored g)\<rparr>
      else if status = VStr ''failed'' then g\<lparr>cg_failed := cg_failed g @ [oprop r ''child_key'']\<rparr>
      else g)"

definition group_children :: "pg_row list \<Rightarrow> child_groups" where
  "group_children rows =
     fold group_child rows \<lparr>cg_processed = [], cg_unprocessed = [], cg_ignored = [], cg_failed = []\<rparr>"

definition values_by_child :: "pg_row list \<Rightarrow> string \<Rightarrow> jsobj" where
  "values_by_child rows c = fold (\<lambda>r acc. map_set (child_name r) (oprop r c) acc) rows []"

text \<open>A page and the cursor of the next one, 0 after a short page.\<close>

definition page_of :: "'s pg_env \<Rightarrow> pg_queue \<Rightarrow> string option \<Rightarrow> string \<Rightarrow> child_page \<Rightarrow> ('s, pg_row list \<times> real) pg_op" where
  "page_of E B jobId status p =
     p_then (rows_of E ''get_dependencies_page''
               [qname B, opt_str_val jobId, VStr status, VNum (page_cursor p), VNum (page_count p)])
       (\<lambda>rows. p_ret (rows, if real (length rows) < page_count p then 0 else page_cursor p + page_count p))"

text \<open>One requested category: the two properties it adds to the result.\<close>

definition category ::
  "'s pg_env \<Rightarrow> pg_queue \<Rightarrow> string option \<Rightarrow> child_page option \<Rightarrow> string \<Rightarrow> string \<Rightarrow> string \<Rightarrow> (pg_row list \<Rightarrow> jsval)
     \<Rightarrow> ('s, jsobj) pg_op" where
  "category E B jobId p status field cursorField shape =
     (case p of
        None \<Rightarrow> p_ret []
      | Some q \<Rightarrow> p_then (page_of E B jobId status q)
                   (\<lambda>(rows, next). p_ret [(field, shape rows), (cursorField, VNum next)]))"

definition getDependencies_pg :: "'s pg_env \<Rightarrow> pg_queue \<Rightarrow> string option \<Rightarrow> dependencies_opts \<Rightarrow> ('s, jsobj) pg_op" where
  "getDependencies_pg E B jobId opts =
     (if do_processed opts = None \<and> do_unprocessed opts = None \<and> do_ignored opts = None \<and> do_failed opts = None
      then p_then (rows_of E ''get_dependencies'' [qname B, opt_str_val jobId]) (\<lambda>rows.
             let g = group_children rows in
             p_ret [(''processed'', VObj (cg_processed g)), (''unprocessed'', VArr (cg_unprocessed g)),
                    (''ignored'', VObj (cg_ignored g)), (''failed'', VArr (cg_failed g))])
      else p_then (category E B jobId (do_processed opts) ''processed'' ''processed'' ''nextProcessedCursor''
                     (\<lambda>rows. VObj (values_by_child rows ''value''))) (\<lambda>processed.
           p_then (category E B jobId (do_unprocessed opts) ''pending'' ''unprocessed'' ''nextUnprocessedCursor''
                     (\<lambda>rows. VArr (map (\<lambda>r. oprop r ''child_key'') rows))) (\<lambda>unprocessed.
           p_then (category E B jobId (do_ignored opts) ''ignored'' ''ignored'' ''nextIgnoredCursor''
                     (\<lambda>rows. VObj (values_by_child rows ''value''))) (\<lambda>ignored.
           p_then (category E B jobId (do_failed opts) ''failed'' ''failed'' ''nextFailedCursor''
                     (\<lambda>rows. VArr (map (\<lambda>r. oprop r ''child_key'') rows))) (\<lambda>failed.
             p_ret (processed @ unprocessed @ ignored @ failed))))))"

definition getProcessedChildrenValues_pg :: "'s pg_env \<Rightarrow> pg_queue \<Rightarrow> string option \<Rightarrow> ('s, jsobj) pg_op" where
  "getProcessedChildrenValues_pg E B jobId =
     p_then (rows_of E ''get_processed_children_values'' [qname B, opt_str_val jobId])
       (\<lambda>rows. p_ret (values_by_child rows ''value''))"

definition getIgnoredChildrenFailures_pg :: "'s pg_env \<Rightarrow> pg_queue \<Rightarrow> string option \<Rightarrow> ('s, jsobj) pg_op" where
  "getIgnoredChildrenFailures_pg E B jobId =
     p_then (rows_of E ''get_ignored_children_failures'' [qname B, opt_str_val jobId])
       (\<lambda>rows. p_ret (values_by_child rows ''reason''))"

section \<open>Metrics and clients\<close>

definition arr_items :: "jsval \<Rightarrow> jsval list" where
  "arr_items v = (case v of VArr vs \<Rightarrow> vs | _ \<Rightarrow> [])"

definition getMetrics_pg ::
  "'s pg_env \<Rightarrow> pg_queue \<Rightarrow> string \<Rightarrow> real option \<Rightarrow> real option \<Rightarrow> ('s, jsval list \<times> string list \<times> nat) pg_op" where
  "getMetrics_pg E B type start end =
     p_then (rows_of E ''get_metrics'' [qname B, VStr type, VNum (with_default 0 start), VNum (with_default (-1) end)])
       (\<lambda>rows. let data = map (js_string (pv_json E)) (arr_items (nullish_or (first_col rows ''data'') (VArr []))) in
               p_ret ([nullish_or (first_col rows ''total'') (VStr ''0''), VStr ''0'', VStr ''0''], data, length data))"

definition getClientList_pg :: "'s pg_env \<Rightarrow> ('s, string list) pg_op" where
  "getClientList_pg E =
     p_then (rows_of E ''get_client_list'' [])
       (\<lambda>rows. p_ret [join_with [CHR 0x0A]
          (map (\<lambda>r. ''name='' @ js_string (pv_json E) (oprop r ''application_name'')) rows)])"

section \<open>Pagination\<close>

definition strip_prefix :: "string \<Rightarrow> string \<Rightarrow> string" where
  "strip_prefix pre key = (if prefix pre key then drop (length pre) key else key)"

definition strip_suffix :: "string \<Rightarrow> string \<Rightarrow> string" where
  "strip_suffix sfx key = take (length key - length sfx) key"

text \<open>The status and the parent that a pagination key names.\<close>

definition dependencies_key :: "pg_queue \<Rightarrow> string \<Rightarrow> (string \<times> string) option" where
  "dependencies_key B key =
     (let inner = strip_prefix (pq_name B @ '':'') key in
      if suffix '':processed'' inner then Some (''processed'', strip_suffix '':processed'' inner)
      else if suffix '':dependencies'' inner then Some (''pending'', strip_suffix '':dependencies'' inner)
      else None)"

record pg_page =
  pp_items :: "(jsval \<times> jsval option) list"
  pp_total :: jsval
  pp_jobs :: "job_json list option"

fun map_rows :: "json_lib \<Rightarrow> pg_row list \<Rightarrow> (js_error, job_json list) result" where
  "map_rows J [] = Inr []"
| "map_rows J (r # rs) = bind_result (rowToJobJson J r) (\<lambda>j. bind_result (map_rows J rs) (\<lambda>js. Inr (j # js)))"

definition page_limit :: "real \<Rightarrow> real option \<Rightarrow> jsval" where
  "page_limit offset end = (case end of None \<Rightarrow> VNull | Some e \<Rightarrow> if e \<ge> 0 then VNum (e - offset + 1) else VNull)"

definition paginate_pg ::
  "'s pg_env \<Rightarrow> pg_queue \<Rightarrow> string \<Rightarrow> real option \<Rightarrow> real option \<Rightarrow> bool \<Rightarrow> ('s, pg_page) pg_op" where
  "paginate_pg E B key start end fetchJobs =
     (case dependencies_key B key of
        None \<Rightarrow> notImplemented E ''paginate''
      | Some (status, parentId) \<Rightarrow>
          let offset = max (with_default 0 start) 0 in
          p_then (rows_of E ''paginate_dependencies''
                    [qname B, VStr parentId, VStr status, VNum offset, page_limit offset end]) (\<lambda>rows.
          p_then (if fetchJobs
                  then p_then (p_lift (map_rows (pv_json E) (filter (\<lambda>r. \<not> no_value r ''id'') rows))) (\<lambda>js. p_ret (Some js))
                  else p_ret None) (\<lambda>jobs.
          p_ret \<lparr>pp_items = map (\<lambda>r. (oprop r ''child_key'',
                                    if status = ''processed'' then Some (oprop r ''dep_value'') else None)) rows,
                 pp_total = (case rows of [] \<Rightarrow> VNum 0 | r # _ \<Rightarrow> to_number (pv_json E) (oprop r ''total'')),
                 pp_jobs = jobs\<rparr>)))"

section \<open>Queue metadata\<close>

definition setQueueMeta_pg :: "'s pg_env \<Rightarrow> pg_queue \<Rightarrow> jsobj \<Rightarrow> ('s, real) pg_op" where
  "setQueueMeta_pg E B values =
     (let names = map fst values in
      if names = [] then p_ret 0
      else p_then (query E ''set_queue_meta''
                     [qname B, VArr (map VStr names), VArr (map (\<lambda>f. VStr (js_string (pv_json E) (oprop values f))) names)])
             (\<lambda>r. p_ret (with_default (real (length names)) (pr_rowCount r))))"

definition getQueueMetaField_pg :: "'s pg_env \<Rightarrow> pg_queue \<Rightarrow> string \<Rightarrow> ('s, jsval) pg_op" where
  "getQueueMetaField_pg E B field =
     p_then (rows_of E ''get_queue_meta_field'' [qname B, VStr field]) (\<lambda>rows. p_ret (null_of (first_col rows ''value'')))"

text \<open>\<open>new Map(rows.map(...))\<close>: a later row with the same field replaces an earlier one.\<close>

definition fields_map :: "pg_row list \<Rightarrow> jsobj" where
  "fields_map rows = fold (\<lambda>r acc. map_set (with_default '''' (str_of (oprop r ''field''))) (oprop r ''value'') acc) rows []"

definition getQueueMetaFields_pg :: "'s pg_env \<Rightarrow> pg_queue \<Rightarrow> string list \<Rightarrow> ('s, jsval list) pg_op" where
  "getQueueMetaFields_pg E B names =
     (if names = [] then p_ret []
      else p_then (rows_of E ''get_queue_meta_fields'' [qname B, VArr (map VStr names)])
             (\<lambda>rows. p_ret (map (\<lambda>f. null_of (oprop (fields_map rows) f)) names)))"

definition getQueueMeta_pg :: "'s pg_env \<Rightarrow> pg_queue \<Rightarrow> ('s, jsobj) pg_op" where
  "getQueueMeta_pg E B = p_then (rows_of E ''get_queue_meta'' [qname B]) (\<lambda>rows. p_ret (fields_map rows))"

definition removeQueueMetaFields_pg :: "'s pg_env \<Rightarrow> pg_queue \<Rightarrow> string list \<Rightarrow> ('s, real) pg_op" where
  "removeQueueMetaFields_pg E B names =
     (if names = [] then p_ret 0
      else p_then (query E ''remove_queue_meta_fields'' [qname B, VArr (map VStr names)])
             (\<lambda>r. p_ret (with_default 0 (pr_rowCount r))))"

definition hasQueueMetaField_pg :: "'s pg_env \<Rightarrow> pg_queue \<Rightarrow> string \<Rightarrow> ('s, jsval) pg_op" where
  "hasQueueMetaField_pg E B field = column E ''has_queue_meta_field'' [qname B, VStr field] ''exists''"

definition setRateLimit_pg :: "'s pg_env \<Rightarrow> pg_queue \<Rightarrow> real \<Rightarrow> ('s, unit) pg_op" where
  "setRateLimit_pg E B expireTimeMs = run_pg E ''set_rate_limit'' [qname B, VNum expireTimeMs, VNum (pv_now E)]"

definition removeRateLimitKey_pg :: "'s pg_env \<Rightarrow> pg_queue \<Rightarrow> ('s, jsval) pg_op" where
  "removeRateLimitKey_pg E B = column E ''remove_rate_limit'' [qname B] ''n''"

definition removeDeprecatedPriorityKey_pg :: "'s pg_env \<Rightarrow> ('s, real) pg_op" where
  "removeDeprecatedPriorityKey_pg E = notImplemented E ''removeDeprecatedPriorityKey''"

definition trimEvents_pg :: "'s pg_env \<Rightarrow> real \<Rightarrow> ('s, real) pg_op" where
  "trimEvents_pg E maxLength = notImplemented E ''trimEvents''"

definition publishEvent_pg :: "'s pg_env \<Rightarrow> pg_queue \<Rightarrow> jsobj \<Rightarrow> ('s, string) pg_op" where
  "publishEvent_pg E B flds =
     p_then (stringified E (VObj (map_del ''event'' flds))) (\<lambda>rest.
     p_then (column E ''publish_event'' [qname B, VStr (js_string (pv_json E) (oprop flds ''event'')), rest] ''id'')
       (\<lambda>i. p_ret (js_string (pv_json E) i)))"

end
