(* ===== verification/Postgres_Blocking.thy ===== *)
theory Postgres_Blocking
  imports Postgres_Queries
begin

text \<open>
  The blocking primitives of PostgresQueueBackend (src/postgres/postgres-queue-backend.ts):
  \<open>waitForJob\<close> and \<open>waitForEvent\<close> park a promise until a notification, a timer, a probe of the
  tables or an interruption settles it. The callbacks of one wait are a state machine over the
  variables they close over; the clock is in milliseconds. The event loop is the step relation:
  time does not pass beyond the deadline of the armed timer, everything else may happen in any
  order.
\<close>

section \<open>One wait\<close>

definition NOTIFY_CHANNEL :: string where
  "NOTIFY_CHANNEL = ''bullmq_jobs''"

definition EVENTS_CHANNEL :: string where
  "EVENTS_CHANNEL = ''bullmq_events''"

type_synonym marker = "string \<times> real"

text \<open>The variables of a wait, the listeners on the shared client, the fields
  \<open>cancelWait\<close> and \<open>blockingDisconnected\<close> of the backend, the probes in flight and the values
  that were passed to \<open>resolve\<close>.\<close>

record pg_wait =
  w_clock :: real
  w_settled :: bool
  w_timer :: "real option"
  w_listeners :: nat
  w_cancel :: bool
  w_disconnected :: bool
  w_waitingProbe :: bool
  w_delayProbe :: bool
  w_resolved :: "marker option list"

definition finish :: "marker option \<Rightarrow> pg_wait \<Rightarrow> pg_wait" where
  "finish value w =
     (if w_settled w then w
      else w\<lparr>w_settled := True, w_timer := None, w_listeners := w_listeners w - 1, w_cancel := False,
             w_resolved := w_resolved w @ [value]\<rparr>)"

definition onNotify :: "string \<Rightarrow> string \<Rightarrow> string \<Rightarrow> string option \<Rightarrow> pg_wait \<Rightarrow> pg_wait" where
  "onNotify listened queue channel payload w =
     (if channel = listened \<and> payload = Some queue \<and> \<not> w_settled w
      then finish (Some (queue, 0)) w else w)"

definition wait_millis :: "real \<Rightarrow> real" where
  "wait_millis blockTimeout = max blockTimeout 0 * 1000"

definition onWaitingProbe :: "string \<Rightarrow> jsval option \<Rightarrow> pg_wait \<Rightarrow> pg_wait" where
  "onWaitingProbe queue reply w =
     (let w1 = w\<lparr>w_waitingProbe := False\<rparr> in
      case reply of
        None \<Rightarrow> w1
      | Some present \<Rightarrow> if truthy present then finish (Some (queue, 0)) w1 else w1)"

definition onDelayProbe :: "json_lib \<Rightarrow> real \<Rightarrow> jsval option \<Rightarrow> pg_wait \<Rightarrow> pg_wait" where
  "onDelayProbe J blockTimeout reply w =
     (let w1 = w\<lparr>w_delayProbe := False\<rparr> in
      case reply of
        None \<Rightarrow> w1
      | Some next_delay \<Rightarrow>
          (case bigintOrUndefined J (null_of next_delay) of
             VNum next \<Rightarrow>
               if w_settled w1 then w1
               else let dueIn = next - w_clock w1 in
                    if dueIn \<le> 0 then finish None w1
                    else if dueIn < wait_millis blockTimeout then w1\<lparr>w_timer := Some (w_clock w1 + dueIn)\<rparr>
                    else w1
           | _ \<Rightarrow> w1))"

text \<open>\<open>disconnectBlocking\<close>: the flag, then \<open>cancelWait?.()\<close>.\<close>

definition disconnectBlocking_pg :: "pg_wait \<Rightarrow> pg_wait" where
  "disconnectBlocking_pg w =
     (let w1 = w\<lparr>w_disconnected := True\<rparr> in if w_cancel w1 then finish None w1 else w1)"

definition reconnectBlocking_pg :: "pg_wait \<Rightarrow> pg_wait" where
  "reconnectBlocking_pg w = w\<lparr>w_disconnected := False\<rparr>"

text \<open>The executor of the promise: timer, \<open>cancelWait\<close>, listener, the guard against a disconnect
  that came before, then the two probes.\<close>

definition waitForJob_start :: "real \<Rightarrow> nat \<Rightarrow> bool \<Rightarrow> real \<Rightarrow> pg_wait" where
  "waitForJob_start now listeners disconnected blockTimeout =
     (let w = \<lparr>w_clock = now, w_settled = False, w_timer = Some (now + wait_millis blockTimeout),
               w_listeners = listeners + 1, w_cancel = True, w_disconnected = disconnected,
               w_waitingProbe = False, w_delayProbe = False, w_resolved = []\<rparr> in
      if disconnected then finish None w else w\<lparr>w_waitingProbe := True, w_delayProbe := True\<rparr>)"

text \<open>Subscribing the dedicated client once; the result is the field \<open>listening\<close> afterwards.\<close>

definition ensureListening :: "('s, unit) pg_op \<Rightarrow> ('s, unit) pg_op \<Rightarrow> bool \<Rightarrow> ('s, bool) pg_op" where
  "ensureListening getListenClient listen listening =
     p_then getListenClient (\<lambda>_. if listening then p_ret True else p_then listen (\<lambda>_. p_ret True))"

text \<open>The guards around the subscription; \<open>Inl\<close> returns without a wait. \<open>flags\<close> reads the clock,
  the listeners of the client, \<open>closing\<close> and \<open>blockingDisconnected\<close>.\<close>

definition waitForJob_pg ::
  "('s \<Rightarrow> real \<times> nat \<times> bool \<times> bool) \<Rightarrow> ('s, bool) pg_op \<Rightarrow> real \<Rightarrow> ('s, (marker option, pg_wait) result) pg_op" where
  "waitForJob_pg flags ensure blockTimeout s =
     (case flags s of (_, _, closing, disconnected) \<Rightarrow>
        if closing \<or> disconnected then Some (Inr (Inl None), s)
        else p_then ensure (\<lambda>_ s1.
               case flags s1 of (now, listeners, closing1, disconnected1) \<Rightarrow>
                 Some (Inr (if closing1 \<or> disconnected1 then Inl None
                            else Inr (waitForJob_start now listeners disconnected1 blockTimeout)), s1)) s)"

definition waitForEvent_start :: "real \<Rightarrow> nat \<Rightarrow> real \<Rightarrow> pg_wait" where
  "waitForEvent_start now listeners blockTimeout =
     \<lparr>w_clock = now, w_settled = False, w_timer = Some (now + max (if blockTimeout = 0 then 5000 else blockTimeout) 1),
      w_listeners = listeners + 1, w_cancel = True, w_disconnected = False,
      w_waitingProbe = False, w_delayProbe = False, w_resolved = []\<rparr>"

section \<open>The event loop\<close>

datatype wait_event =
    Tick real
  | TimerFired
  | Notified string "string option"
  | WaitingReply "jsval option"
  | DelayReply "jsval option"
  | Disconnected

fun wait_enabled :: "wait_event \<Rightarrow> pg_wait \<Rightarrow> bool" where
  "wait_enabled (Tick d) w = (0 \<le> d \<and> (case w_timer w of None \<Rightarrow> True | Some t \<Rightarrow> w_clock w + d \<le> t))"
| "wait_enabled TimerFired w = (w_timer w = Some (w_clock w))"
| "wait_enabled (Notified _ _) w = True"
| "wait_enabled (WaitingReply _) w = w_waitingProbe w"
| "wait_enabled (DelayReply _) w = w_delayProbe w"
| "wait_enabled Disconnected w = True"

fun wait_do :: "json_lib \<Rightarrow> string \<Rightarrow> string \<Rightarrow> real \<Rightarrow> wait_event \<Rightarrow> pg_wait \<Rightarrow> pg_wait" where
  "wait_do J ch q T (Tick d) w = w\<lparr>w_clock := w_clock w + d\<rparr>"
| "wait_do J ch q T TimerFired w = finish None w"
| "wait_do J ch q T (Notified c p) w = onNotify ch q c p w"
| "wait_do J ch q T (WaitingReply r) w = onWaitingProbe q r w"
| "wait_do J ch q T (DelayReply r) w = onDelayProbe J T r w"
| "wait_do J ch q T Disconnected w = disconnectBlocking_pg w"

inductive wait_reach :: "json_lib \<Rightarrow> string \<Rightarrow> string \<Rightarrow> real \<Rightarrow> pg_wait \<Rightarrow> wait_event list \<Rightarrow> pg_wait \<Rightarrow> bool"
  for J ch q T w0 where
  reach_start: "wait_reach J ch q T w0 [] w0"
| reach_step: "wait_reach J ch q T w0 es w \<Longrightarrow> wait_enabled e w \<Longrightarrow> wait_reach J ch q T w0 (es @ [e]) (wait_do J ch q T e w)"

section \<open>Reading events\<close>

definition EVENT_READ_BATCH :: real where
  "EVENT_READ_BATCH = 100"

definition event_fields :: "json_lib \<Rightarrow> pg_row \<Rightarrow> jsval \<times> jsval list" where
  "event_fields J r =
     (VStr (js_string J (oprop r ''id'')),
      VStr ''event'' # oprop r ''event'' #
        concat (map (\<lambda>(k, v). [VStr k, VStr (js_string J v)])
                  (case nullish_or (oprop r ''data'') (VObj []) of VObj obj \<Rightarrow> obj | _ \<Rightarrow> [])))"

definition fetchEvents :: "'s pg_env \<Rightarrow> pg_queue \<Rightarrow> jsval \<Rightarrow> ('s, (jsval \<times> jsval list) list) pg_op" where
  "fetchEvents E B cursor =
     p_then (rows_of E ''read_events'' [qname B, cursor, VNum EVENT_READ_BATCH])
       (\<lambda>rows. p_ret (map (event_fields (pv_json E)) rows))"

text \<open>\<open>wait\<close> is \<open>waitForEvent(blockTimeout)\<close>; \<open>closing\<close> and the closing of the connection are read
  before it and again after it. The reply has the shape of XREAD.\<close>

definition read_closing :: "'s pg_env \<Rightarrow> pg_queue \<Rightarrow> ('s, bool) pg_op" where
  "read_closing E B s = Some (Inr (pq_closing B \<or> pv_isClosing E s), s)"

definition events_reply :: "(jsval \<times> jsval list) list \<Rightarrow> (string \<times> (jsval \<times> jsval list) list) list option" where
  "events_reply events = (if events = [] then None else Some [(''events'', events)])"

definition readEvents_pg ::
  "'s pg_env \<Rightarrow> pg_queue \<Rightarrow> ('s, unit) pg_op \<Rightarrow> string
     \<Rightarrow> ('s, (string \<times> (jsval \<times> jsval list) list) list option) pg_op" where
  "readEvents_pg E B wait lastId =
     p_then (read_closing E B) (\<lambda>closed.
       if closed then p_ret None
       else p_then (if lastId = ''$'' then column E ''read_events_max'' [qname B] ''max'' else p_ret (VStr lastId)) (\<lambda>cursor.
            p_then (fetchEvents E B cursor) (\<lambda>events.
              if events = []
              then p_then wait (\<lambda>_.
                   p_then (read_closing E B) (\<lambda>closed1.
                     if closed1 then p_ret None
                     else p_then (fetchEvents E B cursor) (\<lambda>events1. p_ret (events_reply events1))))
              else p_ret (events_reply events))))"

section \<open>Invariant of a wait\<close>

text \<open>A wait that is parked has its listener, its timer and its cancellation in place and no value
  delivered; a settled one has given all of them back and delivered exactly one value. As long as
  the delay probe is out the deadline is the original one, afterwards it may have moved.\<close>

definition parked_inv :: "nat \<Rightarrow> real \<Rightarrow> real \<Rightarrow> pg_wait \<Rightarrow> bool" where
  "parked_inv n t0 T w \<longleftrightarrow>
     (if w_settled w
      then w_timer w = None \<and> w_listeners w = n \<and> \<not> w_cancel w \<and> length (w_resolved w) = 1
      else w_listeners w = n + 1 \<and> w_cancel w \<and> \<not> w_disconnected w \<and> w_resolved w = []
           \<and> (\<exists>d. w_timer w = Some d \<and> w_clock w \<le> d \<and> d \<le> t0 + 2 * wait_millis T
                  \<and> (w_delayProbe w \<longrightarrow> d \<le> t0 + wait_millis T)))"

lemma finish_settles [simp]: "w_settled (finish v w)"
  by (simp add: finish_def)

lemma wait_millis_nonneg [simp]: "0 \<le> wait_millis T"
  by (simp add: wait_millis_def)

lemma parked_inv_start:
  "parked_inv n t0 T (waitForJob_start t0 n disc T)"
  by (simp add: waitForJob_start_def parked_inv_def finish_def Let_def)

lemma finish_inv: "parked_inv n t0 T w \<Longrightarrow> parked_inv n t0 T (finish v w)"
  by (simp add: parked_inv_def finish_def)

lemma finish_inv':
  "w_listeners w = n + 1 \<Longrightarrow> \<not> w_settled w \<Longrightarrow> w_resolved w = [] \<Longrightarrow> parked_inv n t0 T (finish v w)"
  by (simp add: parked_inv_def finish_def)

lemma onNotify_inv: "parked_inv n t0 T w \<Longrightarrow> parked_inv n t0 T (onNotify ch q c p w)"
  by (simp add: onNotify_def finish_inv)

lemma waiting_probe_inv: "parked_inv n t0 T w \<Longrightarrow> parked_inv n t0 T (onWaitingProbe q r w)"
proof -
  assume "parked_inv n t0 T w"
  then have "parked_inv n t0 T (w\<lparr>w_waitingProbe := False\<rparr>)" by (simp add: parked_inv_def)
  then show ?thesis by (simp add: onWaitingProbe_def Let_def finish_inv split: option.split)
qed

lemma disconnect_inv: "parked_inv n t0 T w \<Longrightarrow> parked_inv n t0 T (disconnectBlocking_pg w)"
  by (auto simp: disconnectBlocking_pg_def Let_def parked_inv_def finish_def split: if_splits)

lemma delay_probe_inv:
  assumes "parked_inv n t0 T w" "w_delayProbe w"
  shows "parked_inv n t0 T (onDelayProbe J T r w)"
proof -
  have probed: "parked_inv n t0 T (w\<lparr>w_delayProbe := False\<rparr>)" using assms(1) by (auto simp: parked_inv_def)
  have moved: "parked_inv n t0 T (w\<lparr>w_delayProbe := False, w_timer := Some (w_clock w + dueIn)\<rparr>)"
    if "\<not> w_settled w" "0 < dueIn" "dueIn < wait_millis T" for dueIn
    using that assms by (auto simp: parked_inv_def)
  show ?thesis
    using probed moved[of "x - w_clock w" for x]
    by (auto simp: onDelayProbe_def Let_def finish_inv split: option.split jsval.split)
qed

lemma tick_inv:
  "parked_inv n t0 T w \<Longrightarrow> wait_enabled (Tick d) w \<Longrightarrow> parked_inv n t0 T (w\<lparr>w_clock := w_clock w + d\<rparr>)"
  by (auto simp: parked_inv_def)

lemma wait_step_inv: "parked_inv n t0 T w \<Longrightarrow> wait_enabled e w \<Longrightarrow> parked_inv n t0 T (wait_do J ch q T e w)"
  by (cases e) (simp_all add: finish_inv onNotify_inv waiting_probe_inv delay_probe_inv disconnect_inv tick_inv del: wait_enabled.simps(1))

lemma wait_reach_inv: "wait_reach J ch q T w0 es w \<Longrightarrow> parked_inv n t0 T w0 \<Longrightarrow> parked_inv n t0 T w"
  by (induction rule: wait_reach.induct) (simp_all add: wait_step_inv)

lemma reach_wait_inv: "wait_reach J ch q T (waitForJob_start t0 n disc T) es w \<Longrightarrow> parked_inv n t0 T w"
  by (rule wait_reach_inv[OF _ parked_inv_start])

section \<open>Waiting for a job\<close>

text \<open>A wait for a job resolves at most once, whatever the order of notifications, timer,
  probes and interruptions; and at every moment the listener, the timer and the cancellation are in
  place exactly while the promise is pending, so that no wait leaves a listener on the shared
  connection.\<close>

theorem waitForJob_settles_once:
  assumes "wait_reach J NOTIFY_CHANNEL q T (waitForJob_start t0 n disc T) es w"
  shows "length (w_resolved w) = (if w_settled w then 1 else 0)
    \<and> w_listeners w = n + (if w_settled w then 0 else 1)
    \<and> (w_timer w \<noteq> None) = (\<not> w_settled w) \<and> w_cancel w = (\<not> w_settled w)"
  using reach_wait_inv[OF assms] by (auto simp: parked_inv_def split: if_splits)

definition demo_wait :: "real \<Rightarrow> pg_wait" where
  "demo_wait T = waitForJob_start 0 0 False T"

lemma demo_wait_unfold:
  "demo_wait T =
     \<lparr>w_clock = 0, w_settled = False, w_timer = Some (wait_millis T), w_listeners = 1, w_cancel = True,
      w_disconnected = False, w_waitingProbe = True, w_delayProbe = True, w_resolved = []\<rparr>"
  by (simp add: demo_wait_def waitForJob_start_def)

lemma reach_from: "wait_enabled e w0 \<Longrightarrow> wait_reach J ch q T w0 [e] (wait_do J ch q T e w0)"
  using reach_step[OF reach_start, of e w0 J ch q T] by simp

theorem waitForJob_settles_once_witness:
  "length (w_resolved (finish (Some (''q'', 0)) (demo_wait 5))) = 1"
proof -
  have "wait_reach demo_opts_lib NOTIFY_CHANNEL ''q'' 5 (demo_wait 5) [Notified NOTIFY_CHANNEL (Some ''q'')]
          (wait_do demo_opts_lib NOTIFY_CHANNEL ''q'' 5 (Notified NOTIFY_CHANNEL (Some ''q'')) (demo_wait 5))"
    by (rule reach_from) simp
  then have "wait_reach demo_opts_lib NOTIFY_CHANNEL ''q'' 5 (waitForJob_start 0 0 False 5)
               [Notified NOTIFY_CHANNEL (Some ''q'')] (finish (Some (''q'', 0)) (demo_wait 5))"
    by (simp add: onNotify_def demo_wait_unfold flip: demo_wait_def)
  from waitForJob_settles_once[OF this] show ?thesis by simp
qed

text \<open>A parked wait always ends: no reachable pending state lies more than twice the block
  timeout after the start, its timer is armed at or after the present moment, and when that
  moment comes the promise resolves with \<open>null\<close>.\<close>

theorem waitForJob_pg_bounded:
  assumes "wait_reach J NOTIFY_CHANNEL q T (waitForJob_start t0 n disc T) es w" "\<not> w_settled w"
  shows "w_clock w \<le> t0 + 2 * wait_millis T
    \<and> (\<exists>d w'. 0 \<le> d \<and> wait_reach J NOTIFY_CHANNEL q T (waitForJob_start t0 n disc T) (es @ [Tick d, TimerFired]) w'
          \<and> w_resolved w' = [None] \<and> w_clock w' \<le> t0 + 2 * wait_millis T)"
proof -
  obtain d where d: "w_timer w = Some d" "w_clock w \<le> d" "d \<le> t0 + 2 * wait_millis T" "w_resolved w = []"
    using reach_wait_inv[OF assms(1)] assms(2) by (auto simp: parked_inv_def)
  define w1 where "w1 = w\<lparr>w_clock := d\<rparr>"
  have "wait_reach J NOTIFY_CHANNEL q T (waitForJob_start t0 n disc T) (es @ [Tick (d - w_clock w)]) w1"
    using reach_step[OF assms(1), of "Tick (d - w_clock w)"] d by (simp add: w1_def)
  from reach_step[OF this, of TimerFired]
  have "wait_reach J NOTIFY_CHANNEL q T (waitForJob_start t0 n disc T) (es @ [Tick (d - w_clock w), TimerFired]) (finish None w1)"
    using d by (simp add: w1_def)
  moreover have "w_resolved (finish None w1) = [None]" "w_clock (finish None w1) = d"
    using d assms(2) by (simp_all add: finish_def w1_def)
  moreover have "0 \<le> d - w_clock w" "w_clock w \<le> t0 + 2 * wait_millis T" using d by linarith+
  ultimately show ?thesis using d(3) by blast
qed

theorem waitForJob_pg_bounded_witness:
  "w_clock (demo_wait 5) \<le> 0 + 2 * wait_millis 5"
proof -
  have "wait_reach demo_opts_lib NOTIFY_CHANNEL ''q'' 5 (waitForJob_start 0 0 False 5) [] (demo_wait 5)"
    unfolding demo_wait_def by (rule reach_start)
  moreover have "\<not> w_settled (demo_wait 5)" by (simp add: demo_wait_unfold)
  ultimately show ?thesis by (blast dest: waitForJob_pg_bounded)
qed

text \<open>The wait can outlast its block timeout. The reply of the delay probe re-arms the timer
  for the time that is left until the delayed job is due, and compares that time with the whole
  timeout instead of with what is left of it: here a wait of ten seconds whose probe answers
  after nine is still pending after seventeen.\<close>

theorem waitForJob_overstays:
  "\<exists>es w. wait_reach J NOTIFY_CHANNEL q 10 (waitForJob_start 0 n False 10) es w
     \<and> \<not> w_settled w \<and> w_clock w = 17000 \<and> w_clock w > 0 + wait_millis 10"
proof -
  let ?w0 = "waitForJob_start 0 n False 10"
  define w1 where "w1 = wait_do J NOTIFY_CHANNEL q 10 (Tick 9000) ?w0"
  define w2 where "w2 = wait_do J NOTIFY_CHANNEL q 10 (DelayReply (Some (VNum 18000))) w1"
  define w3 where "w3 = wait_do J NOTIFY_CHANNEL q 10 (Tick 8000) w2"
  have m: "wait_millis 10 = 10000" by (simp add: wait_millis_def)
  have s1: "w_clock w1 = 9000" "w_timer w1 = Some 10000" "\<not> w_settled w1" "w_delayProbe w1"
    by (simp_all add: w1_def waitForJob_start_def m)
  have s2: "w_clock w2 = 9000" "w_timer w2 = Some 18000" "\<not> w_settled w2"
    using s1 by (simp_all add: w2_def onDelayProbe_def Let_def m bigintOrUndefined_def null_of_def)
  have "wait_reach J NOTIFY_CHANNEL q 10 ?w0 [Tick 9000] w1"
    unfolding w1_def by (rule reach_from) (simp add: waitForJob_start_def m)
  from reach_step[OF this, of "DelayReply (Some (VNum 18000))"]
  have "wait_reach J NOTIFY_CHANNEL q 10 ?w0 [Tick 9000, DelayReply (Some (VNum 18000))] w2"
    using s1 by (simp add: w2_def)
  from reach_step[OF this, of "Tick 8000"]
  have "wait_reach J NOTIFY_CHANNEL q 10 ?w0 [Tick 9000, DelayReply (Some (VNum 18000)), Tick 8000] w3"
    using s2 by (simp add: w3_def)
  moreover have "w_clock w3 = 17000" "\<not> w_settled w3" using s2 by (simp_all add: w3_def)
  moreover have "w_clock w3 > 0 + wait_millis 10" using m calculation(2) by simp
  ultimately show ?thesis by blast
qed

text \<open>The events that wake a pending wait, with the value they deliver.\<close>

definition wakes :: "json_lib \<Rightarrow> string \<Rightarrow> wait_event \<Rightarrow> pg_wait \<Rightarrow> marker option \<Rightarrow> bool" where
  "wakes J q e w v \<longleftrightarrow>
     (case e of
        Notified c p \<Rightarrow> c = NOTIFY_CHANNEL \<and> p = Some q \<and> v = Some (q, 0)
      | WaitingReply r \<Rightarrow> (\<exists>x. r = Some x \<and> truthy x) \<and> v = Some (q, 0)
      | DelayReply r \<Rightarrow> (\<exists>x t. r = Some x \<and> bigintOrUndefined J (null_of x) = VNum t \<and> t \<le> w_clock w) \<and> v = None
      | TimerFired \<Rightarrow> v = None
      | Disconnected \<Rightarrow> v = None
      | Tick _ \<Rightarrow> False)"

text \<open>A pending wait is woken at once by a notification for its queue, by a probe that finds a
  waiting job, by a delayed job that is already due and by a disconnect; a notification for
  another queue or on another channel leaves it as it was.\<close>

theorem waitForJob_wakes:
  assumes "wait_reach J NOTIFY_CHANNEL q T (waitForJob_start t0 n disc T) es w" "\<not> w_settled w"
  shows "(wakes J q e w v \<longrightarrow> w_resolved (wait_do J NOTIFY_CHANNEL q T e w) = [v])
    \<and> (c \<noteq> NOTIFY_CHANNEL \<or> p \<noteq> Some q \<longrightarrow> wait_do J NOTIFY_CHANNEL q T (Notified c p) w = w)"
proof -
  have "w_resolved w = []" "w_cancel w" using reach_wait_inv[OF assms(1)] assms(2) by (auto simp: parked_inv_def)
  then show ?thesis using assms(2)
    by (cases e)
      (auto simp: wakes_def onNotify_def onWaitingProbe_def onDelayProbe_def disconnectBlocking_pg_def finish_def Let_def
         split: option.splits)
qed

theorem waitForJob_wakes_witness:
  "w_resolved (wait_do demo_opts_lib NOTIFY_CHANNEL ''q'' 5 (WaitingReply (Some (VBool True))) (demo_wait 5)) = [Some (''q'', 0)]
   \<and> wait_do demo_opts_lib NOTIFY_CHANNEL ''q'' 5 (Notified NOTIFY_CHANNEL (Some ''other'')) (demo_wait 5) = demo_wait 5"
proof -
  have r: "wait_reach demo_opts_lib NOTIFY_CHANNEL ''q'' 5 (waitForJob_start 0 0 False 5) [] (demo_wait 5)"
    unfolding demo_wait_def by (rule reach_start)
  have s: "\<not> w_settled (demo_wait 5)" by (simp add: demo_wait_unfold)
  have "wakes demo_opts_lib ''q'' (WaitingReply (Some (VBool True))) (demo_wait 5) (Some (''q'', 0))" by (simp add: wakes_def)
  then show ?thesis
    using waitForJob_wakes[OF r s, of "WaitingReply (Some (VBool True))" "Some (''q'', 0)" NOTIFY_CHANNEL "Some ''other''"] by simp
qed

end
