(* ===== verification/Postgres_Logs.thy ===== *)
theory Postgres_Logs
  imports Postgres_Queries Redis_Pages
begin

text \<open>
  Job logs on the two datastores. The PostgreSQL backend keeps the lines of a job in a table with
  an ordinal (src/postgres/commands/add_log.sql, trim_logs.sql, clear_logs.sql, get_job_logs_*.sql),
  the Redis backend in a list (src/commands/addLog-2.lua). Both implement one interface, a log of
  which the latest lines may be kept, and any history of operations leaves the same lines on both.
\<close>

section \<open>Numbers in rows\<close>

lemma digits_value_nat: "set s \<subseteq> digit_chars \<Longrightarrow>
  foldl (\<lambda>a c. a * real 10 + real (case digit_val c of Some d \<Rightarrow> d | None \<Rightarrow> 0)) (of_int acc) s
    = of_int (foldl (\<lambda>a c. a * 10 + int (the (digit_val c))) acc s)"
proof (induction s arbitrary: acc)
  case (Cons c s)
  then obtain d where "digit_val c = Some d" using digit_val_digit_char[of c] by auto
  then show ?case using Cons.IH[of "acc * 10 + int d"] Cons.prems by simp
qed simp

lemma trim_digits: "set s \<subseteq> digit_chars \<Longrightarrow> trim s = s"
proof -
  assume s: "set s \<subseteq> digit_chars"
  have "dropWhile is_space t = t" if "set t \<subseteq> digit_chars" for t
    using that digit_char_plain by (cases t) auto
  then show ?thesis using s by (simp add: trim_def)
qed

lemma digits_plain_prefix:
  assumes "set s \<subseteq> digit_chars" "c \<notin> digit_chars"
  shows "\<not> prefix [d, c] s"
  using assms by (auto elim!: prefixE)

lemma string_to_number_nat: "string_to_number (string_of_nat n) = Some (real n)"
proof -
  let ?s = "string_of_nat n"
  have chars: "set ?s \<subseteq> digit_chars" by (rule string_of_nat_chars)
  have np: "\<not> prefix [CHR ''0'', CHR ''x''] ?s" "\<not> prefix [CHR ''0'', CHR ''X''] ?s" "\<not> prefix [CHR ''0'', CHR ''o''] ?s"
     "\<not> prefix [CHR ''0'', CHR ''O''] ?s" "\<not> prefix [CHR ''0'', CHR ''b''] ?s" "\<not> prefix [CHR ''0'', CHR ''B''] ?s"
    by (rule digits_plain_prefix[OF chars], simp add: digit_chars_def)+
  have whole: "takeWhile is_digit ?s = ?s" "dropWhile is_digit ?s = []"
    using chars by (auto simp: takeWhile_eq_all_conv dropWhile_eq_Nil_conv is_digit_def)
  have "digits_value 10 ?s = real n"
    using digits_value_nat[OF chars, of 0] by (simp add: digits_value_def foldl_string_of_nat)
  then have "decimal_value ?s = Some (real n)"
    by (simp add: decimal_value_def whole split_fraction_def exponent_value_def fraction_value_def digits_value_def)
  then show ?thesis
    using strip_digits(2)[OF chars] by (simp add: string_to_number_def trim_digits[OF chars] np)
qed

lemma number_of_nat [simp]: "number_of_string (string_of_nat n) = VNum (real n)"
  by (simp add: number_of_string_def string_to_number_nat)

section \<open>The table\<close>

record log_db =
  ld_jobs :: "(string \<times> string) list"
  ld_logs :: "string \<times> string \<Rightarrow> (nat \<times> string) list"

definition max_idx :: "(nat \<times> string) list \<Rightarrow> nat option" where
  "max_idx t = (if t = [] then None else Some (Max (set (map fst t))))"

definition fk_violation :: js_error where
  "fk_violation = (new_err ErrorClass None ''insert or update violates foreign key constraint'')\<lparr>err_code := Some (StrCode ''23503'')\<rparr>"

text \<open>\<open>COALESCE((SELECT MAX(idx) + 1 ...), 0)\<close>.\<close>

definition sql_add_log :: "string \<times> string \<Rightarrow> string \<Rightarrow> log_db \<Rightarrow> (pg_error, pg_result) result \<times> log_db" where
  "sql_add_log j row D =
     (if j \<notin> set (ld_jobs D) then (Inl (fk_violation, None), D)
      else let i = (case max_idx (ld_logs D j) of None \<Rightarrow> 0 | Some m \<Rightarrow> m + 1) in
           (Inr \<lparr>pr_rows = [[(''idx'', VStr (string_of_nat i))]], pr_rowCount = Some 1\<rparr>,
            D\<lparr>ld_logs := (ld_logs D)(j := ld_logs D j @ [(i, row)])\<rparr>))"

definition sql_trim_logs :: "string \<times> string \<Rightarrow> real \<Rightarrow> log_db \<Rightarrow> log_db" where
  "sql_trim_logs j m D =
     D\<lparr>ld_logs := (ld_logs D)(j := filter (\<lambda>(i, _). \<not> real i < m) (ld_logs D j))\<rparr>"

text \<open>\<open>idx < COALESCE(MAX(idx) - $3 + 1, idx + 1)\<close>: with NULL every row is deleted.\<close>

definition sql_clear_logs :: "string \<times> string \<Rightarrow> jsval \<Rightarrow> log_db \<Rightarrow> log_db" where
  "sql_clear_logs j keep D =
     D\<lparr>ld_logs := (ld_logs D)(j := filter (\<lambda>(i, _).
         \<not> real i < (case (max_idx (ld_logs D j), keep) of
                      (Some m, VNum k) \<Rightarrow> real m - k + 1 | _ \<Rightarrow> real i + 1)) (ld_logs D j))\<rparr>"

definition log_page :: "nat \<Rightarrow> nat \<Rightarrow> (nat \<times> string) list \<Rightarrow> pg_row list" where
  "log_page off limit t = map (\<lambda>(_, row). [(''row'', VStr row)]) (take limit (drop off t))"

definition rows_result :: "pg_row list \<Rightarrow> pg_result" where
  "rows_result rows = \<lparr>pr_rows = rows, pr_rowCount = Some (real (length rows))\<rparr>"

definition log_query :: "string \<Rightarrow> jsval list \<Rightarrow> log_db \<Rightarrow> (pg_error, pg_result) result \<times> log_db" where
  "log_query command params D =
     (case params of
        VStr q # VStr j # rest \<Rightarrow>
          (let t = ld_logs D (q, j) in
           if command = ''add_log'' then (case rest of [VStr row] \<Rightarrow> sql_add_log (q, j) row D | _ \<Rightarrow> (Inr (rows_result []), D))
           else if command = ''trim_logs'' then (case rest of [VNum m] \<Rightarrow> (Inr (rows_result []), sql_trim_logs (q, j) m D)
                                               | _ \<Rightarrow> (Inr (rows_result []), D))
           else if command = ''clear_logs'' then (case rest of [k] \<Rightarrow> (Inr (rows_result []), sql_clear_logs (q, j) k D)
                                               | _ \<Rightarrow> (Inr (rows_result []), D))
           else if command = ''get_job_logs_count''
           then (Inr (rows_result [[(''count'', VStr (string_of_nat (length t)))]]), D)
           else if command = ''get_job_logs_asc''
           then (case rest of [VNum off, VNum n] \<Rightarrow> (Inr (rows_result (log_page (nat \<lfloor>off\<rfloor>) (nat \<lfloor>n\<rfloor>) (sort_key fst t))), D)
                 | _ \<Rightarrow> (Inr (rows_result []), D))
           else if command = ''get_job_logs_desc''
           then (case rest of [VNum off, VNum n] \<Rightarrow> (Inr (rows_result (log_page (nat \<lfloor>off\<rfloor>) (nat \<lfloor>n\<rfloor>) (rev (sort_key fst t)))), D)
                 | _ \<Rightarrow> (Inr (rows_result []), D))
           else (Inr (rows_result []), D))
      | _ \<Rightarrow> (Inr (rows_result []), D))"

definition log_env :: "json_lib \<Rightarrow> log_db pg_env" where
  "log_env J =
     \<lparr>pv_ready = (\<lambda>s. (Inr (), s)), pv_isClosing = (\<lambda>_. False), pv_query = log_query, pv_json = J, pv_now = 0, pv_stk = None\<rparr>"

lemma log_env_query [simp]:
  "query (log_env J) command params D = (case log_query command params D of (r, D') \<Rightarrow> Some (r, D'))"
  by (auto simp: query_def log_env_def split: prod.split sum.split)

text \<open>Ordinals of a job are consecutive: what insertion at the maximum and deletion below a bound
  keep.\<close>

definition consecutive :: "(nat \<times> string) list \<Rightarrow> bool" where
  "consecutive t \<longleftrightarrow> (\<exists>a. map fst t = [a..<a + length t])"

lemma consecutive_max: "map fst t = [a..<a + length t] \<Longrightarrow> t \<noteq> [] \<Longrightarrow> max_idx t = Some (a + length t - 1)"
proof -
  assume m: "map fst t = [a..<a + length t]" and "t \<noteq> []"
  then obtain n where n: "length t = Suc n" by (cases t) auto
  have "Max {a..<a + length t} = a + length t - 1" unfolding n by (intro Max_eqI) auto
  then show ?thesis using \<open>t \<noteq> []\<close> by (simp only: max_idx_def m set_upt if_False)
qed

lemma filter_below:
  assumes "map fst t = [a..<a + length t]"
  shows "filter (\<lambda>(i, _). \<not> real i < b) t = drop (nat \<lceil>b - real a\<rceil>) t"
  using assms
proof (induction t arbitrary: a)
  case (Cons p t)
  then have p: "fst p = a" "map fst t = [Suc a..<Suc a + length t]"
    by (simp_all add: upt_conv_Cons del: upt_Suc)
  have "filter (\<lambda>(i, _). \<not> real i < b) t = drop (nat \<lceil>b - real (Suc a)\<rceil>) t" by (rule Cons.IH[OF p(2)])
  moreover have "nat \<lceil>b - real a\<rceil> = (if real a < b then Suc (nat \<lceil>b - real (Suc a)\<rceil>) else 0)"
    by (simp split: if_split) linarith
  moreover have "nat \<lceil>b - real (Suc a)\<rceil> = 0" if "\<not> real a < b" using that by linarith
  ultimately show ?case using p(1) by (cases p) auto
qed simp

lemma consecutive_drop: "consecutive t \<Longrightarrow> consecutive (drop k t)"
proof -
  assume "consecutive t"
  then obtain a where "map fst t = [a..<a + length t]" by (auto simp: consecutive_def)
  then have "map fst (drop k t) = [a + k..<a + length t]" by (simp add: drop_map [symmetric] drop_upt)
  then show ?thesis
    by (cases "k \<le> length t") (auto simp: consecutive_def intro: exI[of _ "a + k"])
qed

lemma consecutive_sorted: "consecutive t \<Longrightarrow> sort_key fst t = t"
  by (auto simp: consecutive_def intro!: sort_key_id_if_sorted)

section \<open>The interface of a log\<close>

text \<open>The lines of a job, appended one at a time; \<open>keep\<close> (0 for none) asks for the latest lines
  only. The laws are what the documentation of \<open>addLog\<close> and \<open>clearLogs\<close> promises.\<close>

definition latest :: "nat \<Rightarrow> 'a list \<Rightarrow> 'a list" where
  "latest k xs = drop (length xs - k) xs"

datatype log_op = LogAdd string nat | LogClear nat

locale job_log =
  fixes lines_of :: "'s \<Rightarrow> string list"
    and log_inv :: "'s \<Rightarrow> bool"
    and add :: "string \<Rightarrow> nat \<Rightarrow> 's \<Rightarrow> 's"
    and clear :: "nat \<Rightarrow> 's \<Rightarrow> 's"
  assumes add_lines:
    "log_inv s \<Longrightarrow> lines_of (add row k s) = (if k = 0 then lines_of s @ [row] else latest k (lines_of s @ [row]))"
    and clear_lines: "log_inv s \<Longrightarrow> lines_of (clear k s) = latest k (lines_of s)"
    and add_inv: "log_inv s \<Longrightarrow> log_inv (add row k s)"
    and clear_inv: "log_inv s \<Longrightarrow> log_inv (clear k s)"
begin

definition do_op :: "log_op \<Rightarrow> 's \<Rightarrow> 's" where
  "do_op op = (case op of LogAdd row k \<Rightarrow> add row k | LogClear k \<Rightarrow> clear k)"

definition spec_op :: "log_op \<Rightarrow> string list \<Rightarrow> string list" where
  "spec_op op xs =
     (case op of LogAdd row k \<Rightarrow> if k = 0 then xs @ [row] else latest k (xs @ [row]) | LogClear k \<Rightarrow> latest k xs)"

lemma op_refines: "log_inv s \<Longrightarrow> lines_of (do_op op s) = spec_op op (lines_of s) \<and> log_inv (do_op op s)"
  by (cases op) (simp_all add: do_op_def spec_op_def add_lines clear_lines add_inv clear_inv)

lemma history_refines:
  "log_inv s \<Longrightarrow> lines_of (fold do_op ops s) = fold spec_op ops (lines_of s) \<and> log_inv (fold do_op ops s)"
  by (induction ops arbitrary: s) (simp_all add: op_refines)

end

section \<open>The log on PostgreSQL\<close>

definition done_state :: "('s, 'a) pg_op \<Rightarrow> 's \<Rightarrow> 's" where
  "done_state m s = (case m s of None \<Rightarrow> s | Some (_, s') \<Rightarrow> s')"

definition keep_arg :: "nat \<Rightarrow> real option" where
  "keep_arg k = (if k = 0 then None else Some (real k))"

definition pg_add :: "json_lib \<Rightarrow> pg_queue \<Rightarrow> string \<Rightarrow> string \<Rightarrow> nat \<Rightarrow> log_db \<Rightarrow> log_db" where
  "pg_add J B j row k = done_state (addLog_pg (log_env J) B (Some j) row (keep_arg k))"

definition pg_clear :: "json_lib \<Rightarrow> pg_queue \<Rightarrow> string \<Rightarrow> nat \<Rightarrow> log_db \<Rightarrow> log_db" where
  "pg_clear J B j k = done_state (clearLogs_pg (log_env J) B (Some j) (keep_arg k))"

definition pg_lines :: "pg_queue \<Rightarrow> string \<Rightarrow> log_db \<Rightarrow> string list" where
  "pg_lines B j D = map snd (ld_logs D (pq_name B, j))"

definition pg_log_inv :: "pg_queue \<Rightarrow> string \<Rightarrow> log_db \<Rightarrow> bool" where
  "pg_log_inv B j D \<longleftrightarrow> (pq_name B, j) \<in> set (ld_jobs D) \<and> consecutive (ld_logs D (pq_name B, j))"

lemma add_log_row:
  assumes "(q, j) \<in> set (ld_jobs D)" "map fst (ld_logs D (q, j)) = [a..<a + length (ld_logs D (q, j))]"
  defines "i \<equiv> (if ld_logs D (q, j) = [] then 0 else a + length (ld_logs D (q, j)))"
  shows "sql_add_log (q, j) row D
    = (Inr \<lparr>pr_rows = [[(''idx'', VStr (string_of_nat i))]], pr_rowCount = Some 1\<rparr>,
       D\<lparr>ld_logs := (ld_logs D)((q, j) := ld_logs D (q, j) @ [(i, row)])\<rparr>)"
proof -
  have "(case max_idx (ld_logs D (q, j)) of None \<Rightarrow> 0 | Some m \<Rightarrow> m + 1) = i"
  proof (cases "ld_logs D (q, j)")
    case Nil
    then show ?thesis by (simp add: i_def max_idx_def)
  next
    case (Cons p t)
    then show ?thesis using consecutive_max[OF assms(2)] by (simp add: i_def)
  qed
  then show ?thesis using assms(1) by (simp add: sql_add_log_def Let_def)
qed

text \<open>The whole operation: the new ordinal, the rows after trimming and the returned number.\<close>

lemma addLog_pg_effect:
  fixes row :: string
  assumes "(pq_name B, j) \<in> set (ld_jobs D)"
    and "map fst (ld_logs D (pq_name B, j)) = [a..<a + length (ld_logs D (pq_name B, j))]"
  defines "i \<equiv> (if ld_logs D (pq_name B, j) = [] then 0 else a + length (ld_logs D (pq_name B, j)))"
  defines "t \<equiv> ld_logs D (pq_name B, j) @ [(i, row)]"
  shows "addLog_pg (log_env J) B (Some j) row (keep_arg k) D
    = (if k \<noteq> 0 \<and> i + 1 > k
       then Some (Inr (VNum (real k)),
              D\<lparr>ld_logs := (ld_logs D)((pq_name B, j) := filter (\<lambda>(n, _). \<not> real n < real (i + 1) - real k) t)\<rparr>)
       else Some (Inr (VNum (real (i + 1))), D\<lparr>ld_logs := (ld_logs D)((pq_name B, j) := t)\<rparr>))"
proof -
  let ?D1 = "D\<lparr>ld_logs := (ld_logs D)((pq_name B, j) := t)\<rparr>"
  have q: "query (log_env J) ''add_log'' [qname B, VStr j, VStr row] D
      = Some (Inr \<lparr>pr_rows = [[(''idx'', VStr (string_of_nat i))]], pr_rowCount = Some 1\<rparr>, ?D1)"
    using add_log_row[OF assms(1,2), of row] by (simp add: log_query_def t_def i_def)
  have trim: "query (log_env J) ''trim_logs'' [qname B, VStr j, VNum m] ?D1
      = Some (Inr (rows_result []), sql_trim_logs (pq_name B, j) m ?D1)" for m
    by (simp add: log_query_def)
  have gt: "(real k < 1 + real i) = (k < Suc i)" by linarith
  show ?thesis
    using q trim
    by (cases "k = 0")
      (simp_all add: addLog_pg_def rows_of_def p_then_def p_catch_def p_ret_def first_row_def keep_arg_def Let_def gt
         opt_str_val_def sql_trim_logs_def algebra_simps log_env_query del: log_env_query)
qed

lemma latest_all: "length xs \<le> k \<Longrightarrow> latest k xs = xs"
  by (simp add: latest_def)

lemma latest_map: "latest k (map f xs) = map f (latest k xs)"
  by (simp add: latest_def drop_map)

lemma pg_add_table:
  assumes "pg_log_inv B j D"
  defines "t \<equiv> ld_logs D (pq_name B, j)"
  shows "\<exists>i. consecutive (t @ [(i, row)])
    \<and> ld_logs (pg_add J B j row k D) (pq_name B, j) = (if k = 0 then t @ [(i, row)] else latest k (t @ [(i, row)]))
    \<and> ld_jobs (pg_add J B j row k D) = ld_jobs D"
proof -
  obtain a where job: "(pq_name B, j) \<in> set (ld_jobs D)" and a: "map fst t = [a..<a + length t]"
    using assms(1) by (auto simp: pg_log_inv_def consecutive_def t_def)
  define i where "i = (if t = [] then 0 else a + length t)"
  define a' where "a' = (if t = [] then 0 else a)"
  define t' where "t' = t @ [(i, row)]"
  have c: "map fst t' = [a'..<a' + length t']" using a by (auto simp: t'_def i_def a'_def)
  have i: "i + 1 = a' + length t'" by (simp add: i_def a'_def t'_def)
  have kept: "filter (\<lambda>(n, _). \<not> real n < real (i + 1) - real k) t' = latest k t'" if "k < i + 1"
  proof -
    have "nat \<lceil>real (i + 1) - real k - real a'\<rceil> = length t' - k" unfolding i by (simp add: of_nat_diff) linarith
    then show ?thesis using filter_below[OF c] by (simp add: latest_def)
  qed
  have none: "latest k t' = t'" if "\<not> k < i + 1" using that i by (intro latest_all) simp
  have eff: "addLog_pg (log_env J) B (Some j) row (keep_arg k) D
    = (if k \<noteq> 0 \<and> i + 1 > k
       then Some (Inr (VNum (real k)), D\<lparr>ld_logs := (ld_logs D)((pq_name B, j) := latest k t')\<rparr>)
       else Some (Inr (VNum (real (i + 1))), D\<lparr>ld_logs := (ld_logs D)((pq_name B, j) := t')\<rparr>))"
    using addLog_pg_effect[OF job, where a = a and row = row and J = J and k = k, folded t_def, OF a, folded i_def t'_def]
      kept by (cases "k \<noteq> 0 \<and> i + 1 > k") (simp_all only: if_True if_False simp_thms)
  show ?thesis
    using eff none c by (intro exI[of _ i]) (auto simp: pg_add_def done_state_def consecutive_def t'_def)
qed

lemma pg_clear_table:
  assumes "pg_log_inv B j D"
  shows "ld_logs (pg_clear J B j k D) (pq_name B, j) = latest k (ld_logs D (pq_name B, j))
    \<and> ld_jobs (pg_clear J B j k D) = ld_jobs D"
proof -
  let ?t = "ld_logs D (pq_name B, j)"
  obtain a where a: "map fst ?t = [a..<a + length ?t]"
    using assms by (auto simp: pg_log_inv_def consecutive_def)
  have cleared: "pg_clear J B j k D = sql_clear_logs (pq_name B, j) (num_or_null (keep_arg k)) D"
    by (simp add: pg_clear_def done_state_def clearLogs_pg_def run_pg_def p_then_def p_ret_def opt_str_val_def log_query_def)
  have "filter (\<lambda>(i, _). \<not> real i < real (a + length ?t - 1) - real k + 1) ?t = latest k ?t" if nonempty: "?t \<noteq> []"
  proof -
    obtain n where n: "length ?t = Suc n" using nonempty by (cases ?t) auto
    have "nat \<lceil>real (a + length ?t - 1) - real k + 1 - real a\<rceil> = length ?t - k" unfolding n by simp linarith
    then show ?thesis using filter_below[OF a] by (simp add: latest_def)
  qed
  then show ?thesis
    using consecutive_max[OF a] unfolding cleared
    by (cases "?t = []") (auto simp: sql_clear_logs_def num_or_null_def keep_arg_def latest_def max_idx_def filter_empty_conv)
qed

interpretation pg_log: job_log "pg_lines B j" "pg_log_inv B j" "pg_add J B j" "pg_clear J B j"
proof
  fix D row k
  assume inv: "pg_log_inv B j D"
  from pg_add_table[OF inv, of row J k]
  show "pg_lines B j (pg_add J B j row k D)
          = (if k = 0 then pg_lines B j D @ [row] else latest k (pg_lines B j D @ [row]))"
    by (auto simp: pg_lines_def latest_map [symmetric])
  from pg_clear_table[OF inv, of J k] show "pg_lines B j (pg_clear J B j k D) = latest k (pg_lines B j D)"
    by (simp add: pg_lines_def latest_map)
  have "consecutive (latest k t)" if "consecutive t" for t k using that by (simp add: latest_def consecutive_drop)
  with pg_add_table[OF inv, of row J k] inv show "pg_log_inv B j (pg_add J B j row k D)"
    by (auto simp: pg_log_inv_def)
  from pg_clear_table[OF inv, of J k] inv show "pg_log_inv B j (pg_clear J B j k D)"
    by (auto simp: pg_log_inv_def latest_def consecutive_drop)
qed

section \<open>The log on Redis\<close>

text \<open>The list of one existing job; the script appends and trims, the commands LTRIM, DEL, LRANGE
  and LLEN are those of the server.\<close>

definition addLog_lua :: "string \<Rightarrow> jsval \<Rightarrow> string list \<Rightarrow> jsval \<times> string list" where
  "addLog_lua row keepLogs xs =
     (let ys = xs @ [row] in
      case keepLogs of
        VNum k \<Rightarrow> (VNum (min k (real (length ys))), lrange (- \<lfloor>k\<rfloor>) (-1) ys)
      | _ \<Rightarrow> (VNum (real (length ys)), ys))"

definition redis_log_call :: "redis_queue \<Rightarrow> string \<Rightarrow> jsval list \<Rightarrow> string list \<Rightarrow> (js_error, jsval) result \<times> string list" where
  "redis_log_call B command args xs =
     (if command = versioned B ''addLog''
      then (case args of
              [_, _, _, VStr row, keepLogs] \<Rightarrow> (case addLog_lua row keepLogs xs of (n, ys) \<Rightarrow> (Inr n, ys))
            | _ \<Rightarrow> (Inr VNull, xs))
      else if command = ''ltrim''
      then (case args of [_, VNum a, VNum b] \<Rightarrow> (Inr (VStr ''OK''), lrange \<lfloor>a\<rfloor> \<lfloor>b\<rfloor> xs) | _ \<Rightarrow> (Inr VNull, xs))
      else if command = ''del'' then (Inr (VNum 1), [])
      else (Inr VNull, xs))"

definition redis_log_env :: "redis_queue \<Rightarrow> json_lib \<Rightarrow> string list redis_env" where
  "redis_log_env B J =
     \<lparr>rv_client = b_ret (), rv_call = redis_log_call B,
      rv_exec = (\<lambda>_ cmds xs. (Inr (case cmds of
          (_, [_, VNum a, VNum b]) # _ \<Rightarrow>
             [(None, VArr (lrange \<lfloor>a\<rfloor> \<lfloor>b\<rfloor> (map VStr xs))), (None, VNum (real (length xs)))]
        | _ \<Rightarrow> []), xs)),
      rv_pack = (\<lambda>v. v), rv_json = J, rv_now = 0, rv_stk = None, rv_coerce = id, rv_lt = (\<lambda>_ _. False)\<rparr>"

definition keep_val :: "nat \<Rightarrow> jsval" where
  "keep_val k = (if k = 0 then VUndef else VNum (real k))"

definition redis_add :: "json_lib \<Rightarrow> redis_queue \<Rightarrow> string \<Rightarrow> string \<Rightarrow> nat \<Rightarrow> string list \<Rightarrow> string list" where
  "redis_add J B j row k xs = snd (addLog (redis_log_env B J) B (Some j) row (keep_val k) xs)"

definition redis_clear :: "json_lib \<Rightarrow> redis_queue \<Rightarrow> string \<Rightarrow> nat \<Rightarrow> string list \<Rightarrow> string list" where
  "redis_clear J B j k xs = snd (clearLogs_redis (redis_log_env B J) B (Some j) (keep_val k) xs)"

lemma lrange_latest: "0 < k \<Longrightarrow> lrange (- int k) (-1) xs = latest k xs"
proof -
  assume "0 < k"
  then have "max 0 (if - int k < 0 then int (length xs) + - int k else - int k) = int (length xs - k)" by simp
  moreover have "min (int (length xs) - 1) (if - 1 < (0::int) then int (length xs) + - 1 else - 1) = int (length xs) - 1" by simp
  ultimately show ?thesis
    by (cases "xs = []") (auto simp: lrange_def latest_def Let_def)
qed

lemma lrange_latest_real: "0 < k \<Longrightarrow> lrange \<lfloor>- real k\<rfloor> \<lfloor>- 1 :: real\<rfloor> xs = latest k xs"
proof -
  assume "0 < k"
  have "\<lfloor>- real k\<rfloor> = - int k" "\<lfloor>- 1 :: real\<rfloor> = -1" by linarith+
  then show ?thesis using lrange_latest[OF \<open>0 < k\<close>] by simp
qed

lemma not_addLog [simp]: "''ltrim'' \<noteq> versioned B ''addLog''" "''del'' \<noteq> versioned B ''addLog''"
  by (simp_all add: versioned_def)

lemma redis_add_latest:
  "redis_add J B j row k xs = (if k = 0 then xs @ [row] else latest k (xs @ [row]))"
  by (simp add: redis_add_def addLog_def with_client_def b_then_def b_ret_def execCommand_def addLogArgs_def
      redis_log_env_def redis_log_call_def addLog_lua_def keep_val_def Let_def lrange_latest reject_negative_def b_throw_def)

lemma redis_clear_latest: "redis_clear J B j k xs = latest k xs"
  by (simp add: redis_clear_def clearLogs_redis_def with_client_def b_then_def b_ret_def redis_log_env_def
      redis_log_call_def keep_val_def Let_def lrange_latest_real) (simp add: latest_def)

interpretation redis_log: job_log "\<lambda>xs. xs" "\<lambda>xs. True" "redis_add J B j" "redis_clear J B j"
  by unfold_locales (simp_all add: redis_add_latest redis_clear_latest)

section \<open>Reading the log\<close>

lemma window_is_lrange:
  fixes start stop :: int and xs :: "'a list"
  defines "from \<equiv> (if start < 0 then max (int (length xs) + start) 0 else start)"
  defines "limit \<equiv> (if stop < 0 then int (length xs) + stop else stop) - from + 1"
  shows "lrange start stop xs = (if limit \<le> 0 then [] else take (nat limit) (drop (nat from) xs))"
proof -
  have a: "max 0 (if start < 0 then int (length xs) + start else start) = from" by (simp add: from_def max.commute)
  define b where "b = min (int (length xs) - 1) (if stop < 0 then int (length xs) + stop else stop)"
  have l: "lrange start stop xs = (if from > b then [] else take (nat (b - from + 1)) (drop (nat from) xs))"
    unfolding lrange_def Let_def a b_def ..
  have b: "b = min (int (length xs) - 1) (limit + from - 1)" by (simp add: b_def limit_def)
  show ?thesis
  proof (cases "limit \<le> 0 \<or> from \<ge> int (length xs)")
    case True
    then show ?thesis using l b by (auto simp: from_def)
  next
    case False
    then have pos: "from \<le> b" using b by linarith
    have "take (nat (b - from + 1)) (drop (nat from) xs) = take (nat limit) (drop (nat from) xs)"
    proof (cases "limit + from - 1 \<le> int (length xs) - 1")
      case True
      then have "b - from + 1 = limit" using b by linarith
      then show ?thesis by simp
    next
      case past: False
      have "0 \<le> from" by (simp add: from_def)
      then have "length (drop (nat from) xs) \<le> nat (b - from + 1)" "length (drop (nat from) xs) \<le> nat limit"
        using b past by auto
      then show ?thesis by simp
    qed
    then show ?thesis using l False pos by simp
  qed
qed

lemma logs_window_int:
  "logs_window (real n) (of_int start) (of_int stop)
     = (of_int (if start < 0 then max (int n + start) 0 else start),
        of_int ((if stop < 0 then int n + stop else stop) - (if start < 0 then max (int n + start) 0 else start) + 1))"
  by (simp add: logs_window_def Let_def of_int_max)

lemma map_log_page: "map (\<lambda>r. oprop r ''row'') (log_page off n t) = map VStr (take n (drop off (map snd t)))"
  by (simp add: log_page_def take_map drop_map split_def oprop_def)

lemma log_env_json: "pv_json (log_env J) = J"
  by (simp add: log_env_def)

lemma getJobLogs_pg_range:
  assumes "pg_log_inv B j D"
  defines "xs \<equiv> pg_lines B j D"
  shows "getJobLogs_pg (log_env J) B j (of_int start) (of_int stop) asc D
    = Some (Inr (map VStr (lrange start stop (if asc then xs else rev xs)), VNum (real (length xs))), D)"
proof -
  let ?t = "ld_logs D (pq_name B, j)"
  define ys where "ys = (if asc then xs else rev xs)"
  define f where "f = (if start < 0 then max (int (length xs) + start) 0 else start)"
  define l where "l = (if stop < 0 then int (length xs) + stop else stop) - f + 1"
  have sorted: "sort_key fst ?t = ?t" using assms(1) by (simp add: pg_log_inv_def consecutive_sorted)
  have len: "length ?t = length xs" by (simp add: xs_def pg_lines_def)
  have cnt: "column (log_env J) ''get_job_logs_count'' [qname B, VStr j] ''count'' D
      = Some (Inr (VStr (string_of_nat (length xs))), D)"
    by (simp add: column_def rows_of_def p_then_def p_ret_def first_row_def log_query_def rows_result_def len oprop_def)
  have page: "rows_of (log_env J) (if asc then ''get_job_logs_asc'' else ''get_job_logs_desc'')
      [qname B, VStr j, VNum (of_int f), VNum (of_int l)] D
      = Some (Inr (log_page (nat f) (nat l) (if asc then ?t else rev ?t)), D)"
    by (simp add: rows_of_def p_then_def p_ret_def log_query_def rows_result_def sorted Let_def)
  have ys: "map snd (if asc then ?t else rev ?t) = ys" by (simp add: ys_def xs_def pg_lines_def rev_map)
  have leny: "length ys = length xs" by (simp add: ys_def)
  have win: "logs_window (real (length xs)) (of_int start) (of_int stop) = (of_int f, of_int l)"
    unfolding logs_window_int f_def l_def ..
  have "lrange start stop ys = (if l \<le> 0 then [] else take (nat l) (drop (nat f) ys))"
    using window_is_lrange[of start stop ys] leny by (simp only: f_def l_def)
  then show ?thesis
    using cnt page win map_log_page[of "nat f" "nat l" "if asc then ?t else rev ?t", unfolded ys]
    unfolding ys_def [symmetric] by (cases "l \<le> 0"; cases asc)
      (simp_all add: getJobLogs_pg_def p_then_def p_ret_def log_env_json)
qed

definition pg_log_step :: "json_lib \<Rightarrow> pg_queue \<Rightarrow> string \<Rightarrow> log_op \<Rightarrow> log_db \<Rightarrow> log_db" where
  "pg_log_step J B j op = (case op of LogAdd row k \<Rightarrow> pg_add J B j row k | LogClear k \<Rightarrow> pg_clear J B j k)"

definition redis_log_step :: "json_lib \<Rightarrow> redis_queue \<Rightarrow> string \<Rightarrow> log_op \<Rightarrow> string list \<Rightarrow> string list" where
  "redis_log_step J R j op = (case op of LogAdd row k \<Rightarrow> redis_add J R j row k | LogClear k \<Rightarrow> redis_clear J R j k)"

lemma steps_are_ops:
  "pg_log_step J B j = pg_log.do_op J B j" "redis_log_step J R j = redis_log.do_op J R j"
  by (simp_all add: fun_eq_iff pg_log_step_def redis_log_step_def pg_log.do_op_def redis_log.do_op_def)

lemma histories_agree:
  assumes "pg_log_inv B j D"
  shows "pg_lines B j (fold (pg_log_step J B j) ops D) = fold (redis_log_step J R j) ops (pg_lines B j D)
    \<and> pg_log_inv B j (fold (pg_log_step J B j) ops D)"
  using pg_log.history_refines[OF assms, where J = J and ops = ops]
    redis_log.history_refines[where J = J and B = R and j = j and ops = ops and s = "pg_lines B j D"]
  by (simp add: steps_are_ops)
lemma redis_serves: "serves_logs (redis_log_env R J) key (map VStr xs) xs"
  by (simp add: serves_logs_def redis_log_env_def)

lemma getJobLogs_redis_range:
  "getJobLogs_redis (redis_log_env R J) R (Some j) start stop asc xs
    = (Inr (VArr (map VStr (lrange start stop (if asc then xs else rev xs))), VNum (real (length xs))), xs)"
proof -
  have lr: "lrange start stop (map VStr ys) = map VStr (lrange start stop ys)" for ys :: "string list"
    by (simp add: lrange_def Let_def take_map drop_map)
  let ?ys = "map VStr xs" let ?lr = "lrange (fst (logs_range start stop asc)) (snd (logs_range start stop asc)) ?ys"
  have "(if asc then ?lr else rev ?lr) = lrange start stop (if asc then ?ys else rev ?ys)"
    using lrange_reversed[of stop start ?ys] by (simp add: logs_range_def)
  also have "\<dots> = map VStr (lrange start stop (if asc then xs else rev xs))"
    by (simp add: rev_map lr)
  finally show ?thesis
    using redis_serves[of R J "tkey R (j @ '':logs'')" xs]
    by (cases asc)
      (auto simp: getJobLogs_redis_def with_client_def b_then_def b_lift_def b_ret_def serves_logs_def Let_def
        reply_at_def reverse_val_def render_opt_def redis_log_env_def)
qed

text \<open>C21. The two datastores are interchangeable as job logs: after any sequence of \<open>addLog\<close> and
  \<open>clearLogs\<close> calls, with any limits on the lines to keep, \<open>getJobLogs\<close> answers the same lines and
  the same count on PostgreSQL and on Redis, for every range of indices, negative ones included,
  and in both directions.\<close>

theorem getJobLogs_backends_agree:
  fixes J :: json_lib and R :: redis_queue and ops :: "log_op list"
  assumes "pg_log_inv B j D"
  defines "D' \<equiv> fold (pg_log_step J B j) ops D"
    and "xs' \<equiv> fold (redis_log_step J R j) ops (pg_lines B j D)"
  shows "\<exists>logs. getJobLogs_pg (log_env J) B j (of_int start) (of_int stop) asc D'
             = Some (Inr (logs, VNum (real (length xs'))), D')
         \<and> getJobLogs_redis (redis_log_env R J) R (Some j) start stop asc xs'
             = (Inr (VArr logs, VNum (real (length xs'))), xs')"
proof -
  have h: "pg_lines B j D' = xs'" "pg_log_inv B j D'"
    using histories_agree[OF assms(1)] unfolding D'_def xs'_def by blast+
  show ?thesis
    using getJobLogs_pg_range[OF h(2), where J = J] unfolding h(1) getJobLogs_redis_range by blast
qed

definition empty_logs :: log_db where
  "empty_logs = \<lparr>ld_jobs = [(''q'', ''1'')], ld_logs = (\<lambda>_. [])\<rparr>"

definition demo_pg :: pg_queue where
  "demo_pg = new_PostgresQueueBackend ''q'' [] True None"

lemma empty_logs_inv: "pg_log_inv demo_pg ''1'' empty_logs" "pg_lines demo_pg ''1'' empty_logs = []"
  by (simp_all add: pg_log_inv_def empty_logs_def demo_pg_def new_PostgresQueueBackend_def consecutive_def pg_lines_def)

theorem getJobLogs_backends_agree_witness:
  "\<exists>logs. getJobLogs_pg (log_env demo_lib) demo_pg ''1'' (of_int 0) (of_int (-1)) False
            (fold (pg_log_step demo_lib demo_pg ''1'') [LogAdd ''a'' 0, LogAdd ''b'' 1] empty_logs)
          = Some (Inr (logs, VNum 1), fold (pg_log_step demo_lib demo_pg ''1'') [LogAdd ''a'' 0, LogAdd ''b'' 1] empty_logs)"
proof -
  have "fold (redis_log_step demo_lib demo_backend ''1'') [LogAdd ''a'' 0, LogAdd ''b'' 1] [] = [''b'']"
    by (simp add: redis_log_step_def redis_add_latest latest_def)
  with getJobLogs_backends_agree[OF empty_logs_inv(1), where J = demo_lib and R = demo_backend and start = 0 and stop = "-1" and asc = False
      and ops = "[LogAdd ''a'' 0, LogAdd ''b'' 1]"]
  show ?thesis unfolding empty_logs_inv(2) by (auto simp del: fold_simps)
qed

text \<open>The number that \<open>addLog\<close> returns on PostgreSQL is the ordinal of the line plus one and not
  the number of lines: after three lines of which all but the last were cleared, the fourth call
  answers 4 there and 2 on Redis, while both logs hold the same two lines.\<close>

theorem addLog_counts_differ:
  fixes a b c d :: string and J :: json_lib and R :: redis_queue
  defines "ops \<equiv> [LogAdd a 0, LogAdd b 0, LogAdd c 0, LogClear 1]"
  defines "D \<equiv> fold (pg_log_step J demo_pg ''1'') ops empty_logs"
    and "xs \<equiv> fold (redis_log_step J R ''1'') ops []"
  shows "fst (the (addLog_pg (log_env J) demo_pg (Some ''1'') d None D)) = Inr (VNum 4)
    \<and> fst (addLog (redis_log_env R J) R (Some ''1'') d VUndef xs) = Inr (VNum 2)
    \<and> pg_lines demo_pg ''1'' (pg_add J demo_pg ''1'' d 0 D) = [c, d]
    \<and> redis_add J R ''1'' d 0 xs = [c, d]"
proof -
  let ?q = "pq_name demo_pg"
  have q: "?q = ''q''" by (simp add: demo_pg_def new_PostgresQueueBackend_def)
  have step: "pg_add J demo_pg ''1'' row 0 \<lparr>ld_jobs = [(''q'', ''1'')], ld_logs = f\<rparr>
      = \<lparr>ld_jobs = [(''q'', ''1'')], ld_logs = f((''q'', ''1'') := f (''q'', ''1'') @ [(length (f (''q'', ''1'')), row)])\<rparr>"
    if "map fst (f (''q'', ''1'')) = [0..<length (f (''q'', ''1''))]" for f row
    using addLog_pg_effect[of demo_pg "''1''" "\<lparr>ld_jobs = [(''q'', ''1'')], ld_logs = f\<rparr>" 0 J row 0] that
    by (simp add: pg_add_def done_state_def q)
  have cleared: "pg_clear J demo_pg ''1'' 1 \<lparr>ld_jobs = [(''q'', ''1'')], ld_logs = f((''q'', ''1'') := [(0, a), (1, b), (2, c)])\<rparr>
      = \<lparr>ld_jobs = [(''q'', ''1'')], ld_logs = f((''q'', ''1'') := [(2, c)])\<rparr>" for f
    by (simp add: pg_clear_def done_state_def clearLogs_pg_def run_pg_def p_then_def p_ret_def opt_str_val_def log_query_def q
        keep_arg_def num_or_null_def sql_clear_logs_def max_idx_def)
  have D: "D = \<lparr>ld_jobs = [(''q'', ''1'')], ld_logs = (\<lambda>_. [])((''q'', ''1'') := [(2, c)])\<rparr>"
  proof -
    let ?S = "\<lambda>t. \<lparr>ld_jobs = [(''q'', ''1'')], ld_logs = (\<lambda>_. [])((''q'', ''1'') := t)\<rparr>"
    have "pg_add J demo_pg ''1'' a 0 empty_logs = ?S [(0, a)]" using step[of "\<lambda>_. []" a] by (simp add: empty_logs_def)
    moreover have "pg_add J demo_pg ''1'' b 0 (?S [(0, a)]) = ?S [(0, a), (1, b)]"
      using step[of "(\<lambda>_. [])((''q'', ''1'') := [(0, a)])" b] by simp
    moreover have "pg_add J demo_pg ''1'' c 0 (?S [(0, a), (1, b)]) = ?S [(0, a), (1, b), (2, c)]"
      using step[of "(\<lambda>_. [])((''q'', ''1'') := [(0, a), (1, b)])" c] by (simp add: upt_conv_Cons numeral_2_eq_2)
    ultimately show ?thesis using cleared by (simp add: D_def ops_def pg_log_step_def)
  qed
  have xs: "xs = [c]" unfolding xs_def ops_def by (simp add: redis_log_step_def redis_add_latest redis_clear_latest latest_def)
  have eff: "addLog_pg (log_env J) demo_pg (Some ''1'') d None D
      = Some (Inr (VNum 4), D\<lparr>ld_logs := (ld_logs D)((''q'', ''1'') := [(2, c), (3, d)])\<rparr>)"
    using addLog_pg_effect[of demo_pg "''1''" D 2 J d 0] by (simp add: q D keep_arg_def upt_conv_Cons)
  show ?thesis
    using eff xs
    by (simp add: pg_add_def keep_arg_def done_state_def pg_lines_def q redis_add_latest addLog_def with_client_def b_then_def
        b_ret_def execCommand_def addLogArgs_def redis_log_env_def redis_log_call_def addLog_lua_def Let_def reject_negative_def)
qed

end
