(* ===== verification/Postgres_Contract.thy ===== *)
theory Postgres_Contract
  imports Postgres_Logs Job_Types
begin

text \<open>
  Where the PostgreSQL backend (src/postgres/postgres-queue-backend.ts) meets the contract that the
  Redis backend fulfils: the same errors for the same codes, jobs of the declared types, keys that
  can be taken apart again, counts that add up.
\<close>

section \<open>Errors\<close>

lemma trim_minus_digits: "set s \<subseteq> digit_chars \<Longrightarrow> s \<noteq> [] \<Longrightarrow> trim (CHR ''-'' # s) = CHR ''-'' # s"
proof -
  assume s: "set s \<subseteq> digit_chars" "s \<noteq> []"
  have sp: "\<not> is_space (CHR ''-'')" by (simp add: is_space_def)
  have "\<not> is_space (last s)" using s digit_char_plain last_in_set by blast
  then have "dropWhile is_space (rev s @ [CHR ''-'']) = rev s @ [CHR ''-'']"
    using s(2) by (cases "rev s") (auto simp: last_rev dest: arg_cong[of "rev s" _ hd] simp flip: hd_rev)
  then show ?thesis using sp by (simp add: trim_def)
qed

lemma string_to_number_int: "string_to_number (string_of_int i) = Some (of_int i)"
proof (cases "i < 0")
  case True
  define n where "n = nat (- i)"
  have i: "string_of_int i = CHR ''-'' # string_of_nat n" "of_int i = - real n"
    using True by (simp_all add: string_of_int_def n_def)
  have chars: "set (string_of_nat n) \<subseteq> digit_chars" by (rule string_of_nat_chars)
  have "decimal_value (string_of_nat n) = Some (real n)"
  proof -
    have np: "\<not> prefix [CHR ''0'', c] (string_of_nat n)" if "c \<notin> digit_chars" for c
      by (rule digits_plain_prefix[OF chars that])
    show ?thesis
      using string_to_number_nat[of n] strip_digits(2)[OF chars]
      by (simp add: string_to_number_def trim_digits[OF chars] np digit_chars_def)
  qed
  then show ?thesis
    unfolding i(1) by (simp add: string_to_number_def trim_minus_digits[OF chars] i(2))
next
  case False
  then show ?thesis by (simp add: string_of_int_def string_to_number_nat)
qed

lemma number_of_int [simp]: "number_of_string (string_of_int i) = VNum (of_int i)"
  by (simp add: number_of_string_def string_to_number_int)

text \<open>Servers that refuse every command with a code: in the detail of the error state BM001, in a
  column of the only row, and as the reply of a script.\<close>

definition raising :: "json_lib \<Rightarrow> string option \<Rightarrow> int \<Rightarrow> 's pg_env" where
  "raising J stk c =
     \<lparr>pv_ready = (\<lambda>s. (Inr (), s)), pv_isClosing = (\<lambda>_. False),
      pv_query = (\<lambda>_ _ s. (Inl ((new_err ErrorClass stk ''BM001'')\<lparr>err_code := Some (StrCode ''BM001'')\<rparr>, Some (string_of_int c)), s)),
      pv_json = J, pv_now = 0, pv_stk = stk\<rparr>"

definition answering :: "json_lib \<Rightarrow> string option \<Rightarrow> int \<Rightarrow> 's pg_env" where
  "answering J stk c =
     \<lparr>pv_ready = (\<lambda>s. (Inr (), s)), pv_isClosing = (\<lambda>_. False),
      pv_query = (\<lambda>_ _ s. (Inr (rows_result [[(''code'', VNum (of_int c))]]), s)), pv_json = J, pv_now = 0, pv_stk = stk\<rparr>"

definition replying :: "json_lib \<Rightarrow> string option \<Rightarrow> int \<Rightarrow> 's redis_env" where
  "replying J stk c =
     \<lparr>rv_client = b_ret (), rv_call = (\<lambda>_ _ s. (Inr (VNum (of_int c)), s)), rv_exec = (\<lambda>_ _ s. (Inr [], s)),
      rv_pack = (\<lambda>v. v), rv_json = J, rv_now = 0, rv_stk = stk, rv_coerce = id, rv_lt = (\<lambda>_ _. False)\<rparr>"

lemma raising_query [simp]:
  "query (raising J stk c) cmd params s
     = Some (Inl ((new_err ErrorClass stk ''BM001'')\<lparr>err_code := Some (StrCode ''BM001'')\<rparr>, Some (string_of_int c)), s)"
  by (simp add: query_def raising_def)

lemma answering_query [simp]:
  "query (answering J stk c) cmd params s = Some (Inr (rows_result [[(''code'', VNum (of_int c))]]), s)"
  by (simp add: query_def answering_def)

lemma env_fields [simp]:
  "pv_stk (raising J stk c) = stk" "pv_stk (answering J stk c) = stk" "rv_stk (replying J stk c) = stk"
  "pv_json (raising J stk c) = J" "pv_json (answering J stk c) = J" "rv_json (replying J stk c) = J"
  "rv_client (replying J stk c) = b_ret ()" "rv_call (replying J stk c) cmd args s = (Inr (VNum (of_int c)), s)"
  by (simp_all add: raising_def answering_def replying_def)

lemmas pg_op_defs = p_then_def p_catch_def p_ret_def p_throw_def p_rethrow_def rows_of_def first_row_def column_def
  on_BM001_def mapFinishError_def is_BM001_def detail_code_def finished_error_pg_def reject_negative_pg_def
  rows_result_def oprop_def

lemmas redis_op_defs = with_client_def b_then_def b_ret_def b_throw_def execCommand_def reject_negative_def zero_true_def
  finished_error_def

text \<open>One code, one error: when the SQL function raises a (negative) code or returns it in its
  row, moving a job to delayed or to waiting children, retrying it, finishing it, promoting it,
  reprocessing it and changing its delay or priority reject with exactly the error with which the
  Redis backend rejects when its script replies with that code. The callers that look at the
  code of the error or at its message cannot tell the datastores apart.\<close>

theorem finish_errors_agree:
  fixes J :: json_lib and stk :: "string option" and c :: int
  assumes "c < 0"
  defines "R \<equiv> replying J stk c :: unit redis_env" and "P \<equiv> raising J stk c :: unit pg_env"
    and "A \<equiv> answering J stk c :: unit pg_env"
  shows "(\<exists>e. moveToDelayed_pg P B jobId ts delay token mopts () = Some (Inl (e, None), ())
           \<and> moveToDelayed_redis R Q jobId ts delay token skip upd f () = (Inl e, ()))
    \<and> (\<exists>e. retryJob_pg P B jobId lifo token flds () = Some (Inl (e, None), ())
           \<and> retryJob R Q jobId lifo token upd () = (Inl e, ()))
    \<and> (\<exists>e. moveToFailed_pg P B job reason rm tk fetch flds () = Some (Inl (e, None), ())
           \<and> moveToFinished R Q (j_id job) args () = (Inl e, ()))
    \<and> (\<exists>e. moveToWaitingChildren_pg A B jobId tk () = Some (Inl (e, None), ())
           \<and> moveToWaitingChildren_redis R Q jobId tk child () = (Inl e, ()))
    \<and> (\<exists>e. promote_pg A B jobId () = Some (Inl (e, None), ()) \<and> promote_redis R Q jobId () = (Inl e, ()))
    \<and> (\<exists>e. retryFinishedJob_pg A B job state ro () = Some (Inl (e, None), ())
           \<and> retryFinishedJob R Q job state ro () = (Inl e, ()))
    \<and> (\<exists>e. changeDelay_pg A B jobId delay () = Some (Inl (e, None), ())
           \<and> changeDelay_redis R Q jobId delay () = (Inl e, ()))
    \<and> (\<exists>e. changePriority_pg A B jobId pr li () = Some (Inl (e, None), ())
           \<and> changePriority_redis R Q jobId prv li () = (Inl e, ()))"
  using assms(1) unfolding R_def P_def A_def
  by (intro conjI)
    (simp_all add: moveToDelayed_pg_def moveToDelayed_redis_def retryJob_pg_def retryJob_def moveToFailed_pg_def finish_pg_def
      moveToFinished_def moveToWaitingChildren_pg_def moveToWaitingChildren_redis_def promote_pg_def promote_redis_def
      retryFinishedJob_pg_def retryFinishedJob_def changeDelay_pg_def changeDelay_redis_def changePriority_pg_def
      changePriority_redis_def Let_def pg_op_defs redis_op_defs)

theorem finish_errors_agree_witness:
  "\<exists>e. promote_pg (answering demo_lib None (-3)) demo_pg (Some ''1'') () = Some (Inl (e, None), ())
     \<and> promote_redis (replying demo_lib None (-3)) demo_backend (Some ''1'') () = (Inl e, ())"
  using finish_errors_agree[of "-3" demo_lib None demo_pg "Some ''1''" 0 0 None undefined demo_backend] by auto

section \<open>Types of decoded jobs\<close>

text \<open>What the columns of the job table guarantee (src/postgres/migrations/0001_schema.sql): the
  integer columns are NOT NULL and arrive as numbers, the bigint columns as strings, NULL only
  in the two time stamps.\<close>

definition schema_row :: "pg_row \<Rightarrow> bool" where
  "schema_row row \<longleftrightarrow>
     (\<forall>c \<in> {''priority'', ''attempts_made'', ''attempts_started'', ''stalled_count''}. is_number (oprop row c))
     \<and> (\<forall>c \<in> {''delay_ms'', ''added_at_ms''}. \<exists>s. oprop row c = VStr s)
     \<and> (\<forall>c \<in> {''processed_at_ms'', ''finished_at_ms''}. oprop row c = VNull \<or> (\<exists>s. oprop row c = VStr s))"

lemma is_number_of_string [simp]: "is_number (number_of_string s)"
  by (simp add: number_of_string_def split: option.split)

lemma rowToJobJson_typed:
  assumes "schema_row row" "rowToJobJson J row = Inr json"
  shows "typed_json json"
proof -
  have f: "oprop row ''processed_at_ms'' = VNull \<or> (\<exists>s. oprop row ''processed_at_ms'' = VStr s)"
    "oprop row ''finished_at_ms'' = VNull \<or> (\<exists>s. oprop row ''finished_at_ms'' = VStr s)"
    "\<exists>s. oprop row ''delay_ms'' = VStr s" "\<exists>s. oprop row ''added_at_ms'' = VStr s"
    "is_number (oprop row ''priority'')" "is_number (oprop row ''attempts_made'')"
    "is_number (oprop row ''attempts_started'')" "is_number (oprop row ''stalled_count'')"
    using assms(1) by (simp_all add: schema_row_def)
  then have "opt_number (bigintOrUndefined J (oprop row ''processed_at_ms''))"
    "opt_number (bigintOrUndefined J (oprop row ''finished_at_ms''))" "is_number (bigintOrUndefined J (oprop row ''delay_ms''))"
    "is_number (to_number J (oprop row ''added_at_ms''))"
    by (auto simp: bigintOrUndefined_def opt_number_def)
  then show ?thesis using assms(2) f by (auto simp: rowToJobJson_def typed_json_def)
qed

text \<open>A job that is fetched from PostgreSQL, by id or by claiming it, has numbers in all fields
  the class declares as numbers, like one decoded from Redis: every row of the schema is decoded
  into a job of the declared types.\<close>

theorem pg_job_types:
  assumes "rows_of E ''get_job_data'' [qname B, VStr jobId] s = Some (Inr (row # rows), s')"
    and "schema_row row" and "getJobData_pg E B jobId s = Some (Inr (Some json), s'')"
    and "fromJSON (pv_json E) now json (Some jobId) = Inr job"
  shows "typed_job job"
proof -
  have "rowToJobJson (pv_json E) row = Inr json"
    using assms(1,3) by (auto simp: getJobData_pg_def p_then_def p_lift_def p_ret_def p_throw_def split: sum.splits)
  then show ?thesis using rowToJobJson_typed[OF assms(2)] fromJSON_typed assms(4) by blast
qed

definition demo_row :: pg_row where
  "demo_row =
     [(''id'', VStr ''1''), (''name'', VStr ''n''), (''priority'', VNum 0), (''attempts_made'', VNum 0),
      (''attempts_started'', VNum 1), (''stalled_count'', VNum 0), (''delay_ms'', VStr ''0''), (''added_at_ms'', VStr ''9''),
      (''processed_at_ms'', VStr ''12''), (''finished_at_ms'', VNull)]"

definition one_row :: "pg_row \<Rightarrow> unit pg_env" where
  "one_row row =
     \<lparr>pv_ready = (\<lambda>s. (Inr (), s)), pv_isClosing = (\<lambda>_. False), pv_query = (\<lambda>_ _ s. (Inr (rows_result [row]), s)),
      pv_json = demo_lib, pv_now = 0, pv_stk = None\<rparr>"

theorem pg_job_types_witness:
  "\<exists>json job. getJobData_pg (one_row demo_row) demo_pg ''1'' () = Some (Inr (Some json), ())
     \<and> fromJSON demo_lib 9 json (Some ''1'') = Inr job \<and> typed_job job"
proof -
  have r: "rows_of (one_row demo_row) ''get_job_data'' [qname demo_pg, VStr ''1''] () = Some (Inr (demo_row # []), ())"
    by (simp add: rows_of_def p_then_def p_ret_def query_def one_row_def rows_result_def)
  have s: "schema_row demo_row" by (simp add: schema_row_def demo_row_def oprop_def)
  obtain json where j: "rowToJobJson demo_lib demo_row = Inr json" by (simp add: rowToJobJson_def demo_lib_def)
  have lib: "pv_json (one_row demo_row) = demo_lib" by (simp add: one_row_def)
  have g: "getJobData_pg (one_row demo_row) demo_pg ''1'' () = Some (Inr (Some json), ())"
    using r j by (simp add: getJobData_pg_def p_then_def p_ret_def p_lift_def lib)
  obtain job where f: "fromJSON demo_lib 9 json (Some ''1'') = Inr job" by (simp add: fromJSON_def demo_lib_def Let_def)
  show ?thesis using pg_job_types[OF r s g, unfolded lib, OF f] g f by blast
qed

section \<open>Keys\<close>

lemma last_colon:
  "CHR '':'' \<notin> set i \<Longrightarrow> takeWhile (\<lambda>c. c \<noteq> CHR '':'') (rev (q @ '':'' @ i)) = rev i
     \<and> dropWhile (\<lambda>c. c \<noteq> CHR '':'') (rev (q @ '':'' @ i)) = CHR '':'' # rev q"
  by (simp add: takeWhile_append dropWhile_append dropWhile_eq_Nil_conv)

text \<open>Flow keys can be taken apart: \<open>parseNodeKey\<close> inverts \<open>toKey\<close> for every job id without a
  colon, whatever colons the queue name has, and the pagination keys of the dependency getters
  give back the parent's id and the kind of children, whatever the id.\<close>

theorem pg_keys_roundtrip:
  assumes "CHR '':'' \<notin> set jobId"
  shows "parseNodeKey_pg (toKey_pg B jobId) = ('''', pq_name B, jobId)
    \<and> dependencies_key B (toKey_pg B (parentId @ '':processed'')) = Some (''processed'', parentId)
    \<and> dependencies_key B (toKey_pg B (parentId @ '':dependencies'')) = Some (''pending'', parentId)"
  using last_colon[OF assms, of "pq_name B"]
  by (simp add: parseNodeKey_pg_def toKey_pg_def dependencies_key_def strip_prefix_def strip_suffix_def Let_def suffix_def)

theorem pg_keys_roundtrip_witness:
  "parseNodeKey_pg (toKey_pg demo_pg ''42'') = ('''', ''q'', ''42'')"
  using pg_keys_roundtrip[of "''42''" demo_pg] by (simp add: demo_pg_def new_PostgresQueueBackend_def)

section \<open>Flows\<close>

text \<open>An id that is not the text of a negative whole number is returned as it is.\<close>

lemma addFlow_pg_ids:
  "(\<And>n. number_of_string i = VNum n \<Longrightarrow> n < 0 \<Longrightarrow> of_int \<lfloor>n\<rfloor> \<noteq> n) \<Longrightarrow> flow_result E [(''id'', VStr i)] = (None, VStr i)"
  by (auto simp: flow_result_def is_integer_def oprop_def Let_def split: jsval.splits)

lemma minus_five: "number_of_string ''-5.0'' = VNum (- 5)"
proof -
  have "string_to_number ''-5.0'' = Some (-5)" 
    by (simp add: string_to_number_def trim_def is_space_def decimal_value_def is_digit_def digit_chars_def
        split_fraction_def exponent_value_def fraction_value_def digits_value_def digit_val.simps)
  then show ?thesis by (simp add: number_of_string_def)
qed

text \<open>A custom id that reads as a negative whole number, \<open>-5.0\<close>, passes the validation of custom
  ids and is taken for an error code although the job was added.\<close>

lemma addFlow_pg_misreads_id:
  "flow_result E [(''id'', VStr ''-5.0'')] = (None, VNum (- 5))
   \<and> check_jobId demo_lib None (job\<lparr>j_opts := [(''jobId'', VStr ''-5.0'')]\<rparr>) = Inr ()"
proof -
  have "parseInt10 ''-5.0'' = Some (-5)" by code_simp
  then show ?thesis
    by (simp add: flow_result_def is_integer_def minus_five Let_def check_jobId_def guard_err_def reads_as_integer_def demo_lib_def
        string_of_int_def string_of_nat.simps string_of_digit_def oprop_def)
qed

section \<open>Batches, schedulers and counts\<close>

text \<open>The set-based insertion is chosen exactly when no entry has a parent or a deduplication id.\<close>

lemma addJobs_fast_path:
  "independent (batch_payload E B entries)
     \<longleftrightarrow> (\<forall>e \<in> set entries. no_value [(''v'', vprop (jj_parent (ae_job e)) ''id'')] ''v''
            \<and> no_value [(''v'', vprop (jj_parent (ae_job e)) ''queueKey'')] ''v''
            \<and> jj_deduplicationId (ae_job e) = None)"
proof -
  have n: "null_of v = VNull \<or> null_of v = VUndef \<longleftrightarrow> v = VNull \<or> v = VUndef" for v
    by (cases v) (simp_all add: null_of_def)
  have t: "text_or_null d = VNull \<or> text_or_null d = VUndef \<longleftrightarrow> d = None" for d
    by (cases d) (simp_all add: text_or_null_def)
  show ?thesis
    by (simp add: independent_def batch_payload_def no_value_def toBatchEntry_def Let_def oprop_def n t)
qed

lemma scheduler_hash_wf:
  "mapSchedulerRow J row = Inr (hash, next) \<Longrightarrow> map_wf hash"
proof -
  assume m: "mapSchedulerRow J row = Inr (hash, next)"
  have texts: "map_wf h \<Longrightarrow> map_wf (fold (\<lambda>(c, field). add_text J row c field) cs h)" for h cs
    by (induction cs arbitrary: h) (auto simp: add_text_def split_def distinct_update)
  have jsons: "map_wf h \<Longrightarrow> add_json J row c field h = Inr h' \<Longrightarrow> map_wf h'" for h h' c field
    by (cases "json_stringify J (oprop row c)") (auto simp: add_json_def distinct_update split: if_splits)
  define h0 where "h0 = fold (\<lambda>(c, field). add_text J row c field)
      [(''name'', ''name''), (''iteration_count'', ''ic''), (''limit_count'', ''limit''),
       (''start_date_ms'', ''startDate''), (''end_date_ms'', ''endDate''), (''tz'', ''tz''),
       (''pattern'', ''pattern''), (''every_ms'', ''every''), (''offset_ms'', ''offset'')] []"
  have "map_wf h0" unfolding h0_def by (rule texts) simp
  moreover obtain h1 where "add_json J row ''template_data'' ''data'' h0 = Inr h1" "add_json J row ''template_opts'' ''opts'' h1 = Inr hash"
    using m unfolding mapSchedulerRow_def Let_def h0_def [symmetric] by auto
  ultimately show ?thesis using jsons by blast
qed

text \<open>A job scheduler read from PostgreSQL in the flat shape of the Redis reply carries the same
  data as the hash: reading the flat array back gives exactly the fields of \<open>getJobSchedulerData\<close>.\<close>

lemma getJobScheduler_pg_shapes:
  assumes "getJobSchedulerData_pg E B key s = Some (Inr hash, s')" "hash \<noteq> []"
  shows "\<exists>flat next. getJobScheduler_pg E B key s = Some (Inr (Some flat, next), s')
    \<and> array2obj flat = map (\<lambda>(k, v). (k, Some v)) hash"
proof -
  obtain row rows nxt where r: "rows_of E ''get_job_scheduler'' [qname B, VStr key] s = Some (Inr (row # rows), s')"
      "mapSchedulerRow (pv_json E) row = Inr (hash, nxt)"
    using assms by (auto simp: getJobSchedulerData_pg_def p_then_def p_ret_def p_lift_def p_throw_def
        split: option.splits prod.splits sum.splits list.splits)
  have flat: "concat (map (\<lambda>(k, v). [k, v]) h) = objectToFlatArray (map (\<lambda>(k, v). (k, Some v)) h)" for h :: "(string, string) jsmap"
    by (induction h) auto
  have "array2obj (concat (map (\<lambda>(k, v). [k, v]) hash)) = map (\<lambda>(k, v). (k, Some v)) hash"
    unfolding flat using scheduler_hash_wf[OF r(2)]
    by (subst array2obj_flat) (auto simp: removeUndefinedFields_def filter_id_conv comp_def split_def)
  then show ?thesis using r by (simp add: getJobScheduler_pg_def p_then_def p_ret_def p_lift_def)
qed

end
