(* ===== verification/Postgres_Migrator.thy ===== *)
theory Postgres_Migrator
  imports Postgres_Client
begin

text \<open>
  The schema migrations of the PostgreSQL backend (src/postgres/migrator.ts and
  src/postgres/migrations/index.ts): the checks of the server and of the schema name, and the
  migration itself as a program over the statements it sends. The statements run on a database
  with transactions, in which each of them may fail.
\<close>

section \<open>Constants and errors\<close>

definition DEFAULT_SCHEMA :: string where
  "DEFAULT_SCHEMA = ''bullmq''"

definition MINIMUM_POSTGRES_VERSION :: int where
  "MINIMUM_POSTGRES_VERSION = 13"

definition RECOMMENDED_POSTGRES_VERSION :: int where
  "RECOMMENDED_POSTGRES_VERSION = 14"

definition bullmq_version :: string where
  "bullmq_version = ''6.2.0''"

definition BULLMQ_MAJOR_VERSION :: int where
  "BULLMQ_MAJOR_VERSION = with_default 0 (parseInt10 (takeWhile (\<lambda>c. c \<noteq> CHR ''.'') bullmq_version))"

text \<open>\<open>JSON.stringify\<close> of a string.\<close>

definition hex_digit :: "nat \<Rightarrow> char" where
  "hex_digit n = ''0123456789abcdef'' ! (n mod 16)"

definition json_char :: "char \<Rightarrow> string" where
  "json_char c =
     (let n = of_char c :: nat in
      if n = 0x22 then [CHR 0x5C, CHR 0x22]
      else if n = 0x5C then [CHR 0x5C, CHR 0x5C]
      else if n = 8 then [CHR 0x5C, CHR ''b''] else if n = 9 then [CHR 0x5C, CHR ''t'']
      else if n = 10 then [CHR 0x5C, CHR ''n''] else if n = 12 then [CHR 0x5C, CHR ''f'']
      else if n = 13 then [CHR 0x5C, CHR ''r'']
      else if n < 32 then [CHR 0x5C] @ ''u00'' @ [hex_digit (n div 16), hex_digit n]
      else [c])"

definition json_quote :: "string \<Rightarrow> string" where
  "json_quote s = [CHR 0x22] @ concat (map json_char s) @ [CHR 0x22]"

definition named_err :: "string \<Rightarrow> string \<Rightarrow> js_error" where
  "named_err name msg = (new_err ErrorClass None msg)\<lparr>err_name := name\<rparr>"

definition UnsupportedPostgresVersionError :: "string \<Rightarrow> int \<Rightarrow> js_error" where
  "UnsupportedPostgresVersionError serverVersion minimumVersion =
     named_err ''UnsupportedPostgresVersionError''
       (''BullMQ: the PostgreSQL backend requires server version '' @ string_of_int minimumVersion
        @ '' or newer, but the server reports '' @ serverVersion @ ''. Upgrade PostgreSQL, or pass `skipVersionCheck: true` on the ''
        @ ''connection to bypass this check at your own risk.'')"

definition SchemaVersionMismatchError :: "int \<Rightarrow> int \<Rightarrow> js_error" where
  "SchemaVersionMismatchError minimumClientVersion clientVersion =
     named_err ''SchemaVersionMismatchError''
       (''BullMQ: the PostgreSQL schema requires BullMQ major version '' @ string_of_int minimumClientVersion
        @ '' or newer, but this client is major version '' @ string_of_int clientVersion
        @ ''. Upgrade BullMQ to use this schema.'')"

definition SchemaMigrationRequiredError :: "string \<Rightarrow> js_error" where
  "SchemaMigrationRequiredError schema =
     named_err ''SchemaMigrationRequiredError''
       (''BullMQ: PostgreSQL schema '' @ json_quote schema @ '' is not initialized. ''
        @ ''Run the migrations explicitly or pass `migrate: true` on the connection.'')"

section \<open>Checks\<close>

text \<open>The character classes of the regular expression for schema names.\<close>

definition in_span :: "nat \<Rightarrow> nat \<Rightarrow> char \<Rightarrow> bool" where
  "in_span lo hi c \<longleftrightarrow> lo \<le> of_char c \<and> of_char c \<le> hi"

definition ident_start :: "char \<Rightarrow> bool" where
  "ident_start c \<longleftrightarrow> in_span 65 90 c \<or> in_span 97 122 c \<or> c = CHR ''_''"

definition ident_rest :: "char \<Rightarrow> bool" where
  "ident_rest c \<longleftrightarrow> ident_start c \<or> in_span 48 57 c \<or> c = CHR ''$''"

definition quoteSchemaName :: "string \<Rightarrow> (js_error, string) result" where
  "quoteSchemaName schema =
     (if \<not> (schema \<noteq> [] \<and> ident_start (hd schema) \<and> list_all ident_rest (tl schema)) \<or> length schema > 63
      then Inl (new_err ErrorClass None
             (''BullMQ: invalid PostgreSQL schema name '' @ json_quote schema
              @ ''. Use a simple identifier (letters, digits, underscores; max 63 chars).''))
      else Inr ([CHR 0x22] @ schema @ [CHR 0x22]))"

text \<open>The result is whether this call warns; \<open>NaN\<close> compares false with every version.\<close>

definition assertPostgresVersionValues :: "bool \<Rightarrow> string \<Rightarrow> string \<Rightarrow> (js_error, bool) result" where
  "assertPostgresVersionValues warned num reported =
     (case parseInt10 num of
        None \<Rightarrow> Inr False
      | Some n \<Rightarrow>
          let major = n div 10000 in
          if major < MINIMUM_POSTGRES_VERSION then Inl (UnsupportedPostgresVersionError reported MINIMUM_POSTGRES_VERSION)
          else Inr (major < RECOMMENDED_POSTGRES_VERSION \<and> \<not> warned))"

section \<open>Migrations\<close>

record migration =
  mg_version :: int
  mg_name :: string
  mg_minClientVersion :: int

definition MIGRATIONS :: "migration list" where
  "MIGRATIONS =
     [\<lparr>mg_version = 1, mg_name = ''0001_schema'', mg_minClientVersion = 6\<rparr>,
      \<lparr>mg_version = 2, mg_name = ''0002_functions'', mg_minClientVersion = 6\<rparr>]"

definition LATEST_SCHEMA_VERSION :: int where
  "LATEST_SCHEMA_VERSION = (if MIGRATIONS \<noteq> [] then mg_version (last MIGRATIONS) else 0)"

datatype mig_cmd =
    ServerVersion
  | Begin
  | AdvisoryLock string
  | CreateSchema string
  | SetSearchPath string
  | CreateLedger
  | AddMinClientColumn
  | FillMinClient int
  | RequireMinClient
  | SelectVersion
  | SelectMinClient int
  | RunSql string
  | InsertLedger int string int
  | SchemaState string int
  | Commit
  | Rollback

type_synonym 's mig_client = "mig_cmd \<Rightarrow> ('s, pg_row list) backend_op"

definition run_cmd :: "'s mig_client \<Rightarrow> mig_cmd \<Rightarrow> ('s, unit) backend_op" where
  "run_cmd q c = b_then (q c) (\<lambda>_. b_ret ())"

text \<open>A column that the statement casts to \<open>int\<close>: \<open>rows[0]?.c ?? d\<close>.\<close>

definition int_col :: "pg_row list \<Rightarrow> string \<Rightarrow> int \<Rightarrow> int" where
  "int_col rows c d = (case first_col rows c of VNum n \<Rightarrow> \<lfloor>n\<rfloor> | _ \<Rightarrow> d)"

definition assertPostgresVersion :: "'s mig_client \<Rightarrow> bool \<Rightarrow> bool \<Rightarrow> ('s, unit) backend_op" where
  "assertPostgresVersion q warned skipVersionCheck =
     (if skipVersionCheck then b_ret ()
      else b_then (q ServerVersion) (\<lambda>rows.
           b_then (b_lift (assertPostgresVersionValues warned
                     (with_default ''0'' (str_of (first_col rows ''num''))) (with_default ''unknown'' (str_of (first_col rows ''ver'')))))
             (\<lambda>_. b_ret ())))"

definition ensureLedgerTable :: "'s mig_client \<Rightarrow> ('s, unit) backend_op" where
  "ensureLedgerTable q =
     b_then (run_cmd q CreateLedger) (\<lambda>_.
     b_then (run_cmd q AddMinClientColumn) (\<lambda>_.
     b_then (run_cmd q (FillMinClient BULLMQ_MAJOR_VERSION)) (\<lambda>_. run_cmd q RequireMinClient)))"

definition getCurrentSchemaVersion :: "'s mig_client \<Rightarrow> ('s, int) backend_op" where
  "getCurrentSchemaVersion q = b_then (q SelectVersion) (\<lambda>rows. b_ret (int_col rows ''version'' 0))"

definition getMinimumClientVersion :: "'s mig_client \<Rightarrow> ('s, int) backend_op" where
  "getMinimumClientVersion q =
     b_then (q (SelectMinClient BULLMQ_MAJOR_VERSION)) (\<lambda>rows. b_ret (int_col rows ''min_client_version'' BULLMQ_MAJOR_VERSION))"

definition applyMigration :: "'s mig_client \<Rightarrow> migration \<Rightarrow> ('s, unit) backend_op" where
  "applyMigration q m =
     b_then (run_cmd q (RunSql (mg_name m))) (\<lambda>_.
       run_cmd q (InsertLedger (mg_version m) (mg_name m) (mg_minClientVersion m)))"

fun apply_pending :: "'s mig_client \<Rightarrow> int \<Rightarrow> migration list \<Rightarrow> ('s, unit) backend_op" where
  "apply_pending q currentVersion [] = b_ret ()"
| "apply_pending q currentVersion (m # ms) =
     b_then (if mg_version m > currentVersion then applyMigration q m else b_ret ())
       (\<lambda>_. apply_pending q currentVersion ms)"

text \<open>The statements inside the transaction, up to the commit.\<close>

definition migration_body :: "'s mig_client \<Rightarrow> string \<Rightarrow> string \<Rightarrow> ('s, int) backend_op" where
  "migration_body q schema quotedSchema =
     b_then (run_cmd q (AdvisoryLock schema)) (\<lambda>_.
     b_then (run_cmd q (CreateSchema quotedSchema)) (\<lambda>_.
     b_then (run_cmd q (SetSearchPath quotedSchema)) (\<lambda>_.
     b_then (ensureLedgerTable q) (\<lambda>_.
     b_then (getCurrentSchemaVersion q) (\<lambda>currentVersion.
     b_then (getMinimumClientVersion q) (\<lambda>minimumClientVersion.
       if minimumClientVersion > BULLMQ_MAJOR_VERSION
       then b_throw (SchemaVersionMismatchError minimumClientVersion BULLMQ_MAJOR_VERSION)
       else b_then (if currentVersion < LATEST_SCHEMA_VERSION then apply_pending q currentVersion MIGRATIONS else b_ret ())
              (\<lambda>_. b_ret currentVersion)))))))"

definition runMigrations :: "'s mig_client \<Rightarrow> bool \<Rightarrow> string \<Rightarrow> bool \<Rightarrow> ('s, int) backend_op" where
  "runMigrations q warned schema skipVersionCheck =
     b_then (b_lift (quoteSchemaName schema)) (\<lambda>quotedSchema.
     b_then (assertPostgresVersion q warned skipVersionCheck) (\<lambda>_.
     b_then (run_cmd q Begin) (\<lambda>_.
       b_catch
         (b_then (migration_body q schema quotedSchema) (\<lambda>currentVersion.
          b_then (run_cmd q Commit) (\<lambda>_. b_ret (max currentVersion LATEST_SCHEMA_VERSION))))
         (\<lambda>err. b_then (run_cmd q Rollback) (\<lambda>_. b_throw err)))))"

text \<open>The check without migration; a missing ledger is the error state 42P01.\<close>

definition assertSchemaCompatibility :: "'s mig_client \<Rightarrow> bool \<Rightarrow> string \<Rightarrow> bool \<Rightarrow> ('s, int) backend_op" where
  "assertSchemaCompatibility q warned schema skipVersionCheck =
     b_then (b_lift (quoteSchemaName schema)) (\<lambda>quotedSchema.
     b_then (b_catch (q (SchemaState quotedSchema BULLMQ_MAJOR_VERSION))
               (\<lambda>err. if err_code err = Some (StrCode ''42P01'') then b_throw (SchemaMigrationRequiredError schema) else b_throw err))
       (\<lambda>rows.
     b_then (if skipVersionCheck then b_ret ()
             else b_then (b_lift (assertPostgresVersionValues warned
                            (with_default ''0'' (str_of (first_col rows ''server_version_num'')))
                            (with_default ''unknown'' (str_of (first_col rows ''server_version''))))) (\<lambda>_. b_ret ())) (\<lambda>_.
       let minimumClientVersion = int_col rows ''min_client_version'' BULLMQ_MAJOR_VERSION in
       if minimumClientVersion > BULLMQ_MAJOR_VERSION
       then b_throw (SchemaVersionMismatchError minimumClientVersion BULLMQ_MAJOR_VERSION)
       else b_ret (int_col rows ''version'' 0))))"

definition bootstrap :: "'s mig_client \<Rightarrow> bool \<Rightarrow> string \<Rightarrow> bool \<Rightarrow> bool \<Rightarrow> ('s, unit) backend_op" where
  "bootstrap q warned schema skipVersionCheck migrateOnConnect =
     b_then (if migrateOnConnect then runMigrations q warned schema skipVersionCheck
             else assertSchemaCompatibility q warned schema skipVersionCheck) (\<lambda>_. b_ret ())"

section \<open>A database with transactions\<close>

text \<open>The objects a migration creates, by the name of its file in the order of execution, and
  the ledger (absent before the first migration).\<close>

record mig_db =
  md_schemas :: "string list"
  md_applied :: "string list"
  md_ledger :: "(int \<times> string \<times> int option) list option"

record mig_session =
  ms_committed :: mig_db
  ms_txn :: "mig_db option"

definition sql_error :: "string \<Rightarrow> js_error" where
  "sql_error code = (new_err ErrorClass None ''SQL error'')\<lparr>err_code := Some (StrCode code)\<rparr>"

definition max_or :: "int \<Rightarrow> int list \<Rightarrow> int" where
  "max_or d xs = (if xs = [] then d else Max (set xs))"

text \<open>One statement on a database, without failures of the server.\<close>

fun mig_eval :: "mig_cmd \<Rightarrow> mig_db \<Rightarrow> (js_error, pg_row list \<times> mig_db) result" where
  "mig_eval (CreateSchema s) d = Inr ([], d\<lparr>md_schemas := (if s \<in> set (md_schemas d) then md_schemas d else s # md_schemas d)\<rparr>)"
| "mig_eval CreateLedger d = Inr ([], d\<lparr>md_ledger := Some (with_default [] (md_ledger d))\<rparr>)"
| "mig_eval (FillMinClient n) d =
     Inr ([], d\<lparr>md_ledger := map_option (map (\<lambda>(v, nm, m). (v, nm, Some (with_default n m)))) (md_ledger d)\<rparr>)"
| "mig_eval SelectVersion d =
     (case md_ledger d of
        None \<Rightarrow> Inl (sql_error ''42P01'')
      | Some l \<Rightarrow> Inr ([[(''version'', VNum (of_int (max_or 0 (map fst l))))]], d))"
| "mig_eval (SelectMinClient n) d =
     (case md_ledger d of
        None \<Rightarrow> Inl (sql_error ''42P01'')
      | Some l \<Rightarrow> Inr ([[(''min_client_version'', VNum (of_int (max_or n (List.map_filter (\<lambda>(_, _, m). m) l))))]], d))"
| "mig_eval (RunSql nm) d = Inr ([], d\<lparr>md_applied := md_applied d @ [nm]\<rparr>)"
| "mig_eval (InsertLedger v nm m) d =
     (case md_ledger d of
        None \<Rightarrow> Inl (sql_error ''42P01'')
      | Some l \<Rightarrow> if v \<in> set (map fst l) then Inl (sql_error ''23505'')
                 else Inr ([], d\<lparr>md_ledger := Some (l @ [(v, nm, Some m)])\<rparr>))"
| "mig_eval ServerVersion d = Inr ([[(''num'', VStr ''160002''), (''ver'', VStr ''16.2'')]], d)"
| "mig_eval _ d = Inr ([], d)"

text \<open>A session: \<open>fails\<close> says which statements the server refuses for reasons of its own. A
  statement that fails inside a transaction leaves nothing of it; outside one it commits by itself.\<close>

definition mig_exec :: "(mig_cmd \<Rightarrow> bool) \<Rightarrow> mig_session mig_client" where
  "mig_exec fails c s =
     (case c of
        Begin \<Rightarrow> if fails c then (Inl (sql_error ''08006''), s) else (Inr [], s\<lparr>ms_txn := Some (ms_committed s)\<rparr>)
      | Commit \<Rightarrow>
          (case ms_txn s of
             None \<Rightarrow> (Inr [], s)
           | Some d \<Rightarrow> if fails c then (Inl (sql_error ''08006''), s\<lparr>ms_txn := None\<rparr>)
                      else (Inr [], s\<lparr>ms_committed := d, ms_txn := None\<rparr>))
      | Rollback \<Rightarrow> (if fails c then Inl (sql_error ''08006'') else Inr [], s\<lparr>ms_txn := None\<rparr>)
      | _ \<Rightarrow>
          if fails c then (Inl (sql_error ''XX000''), s)
          else (case ms_txn s of
                  Some d \<Rightarrow> (case mig_eval c d of Inl e \<Rightarrow> (Inl e, s) | Inr (rows, d') \<Rightarrow> (Inr rows, s\<lparr>ms_txn := Some d'\<rparr>))
                | None \<Rightarrow> (case mig_eval c (ms_committed s) of
                            Inl e \<Rightarrow> (Inl e, s) | Inr (rows, d') \<Rightarrow> (Inr rows, s\<lparr>ms_committed := d'\<rparr>))))"

section \<open>Reasoning inside a transaction\<close>

text \<open>\<open>in_txn m d Q\<close>: run inside a transaction whose view is \<open>d\<close>, the program never touches what is
  committed, stays in the transaction, and if it returns, its value and the new view satisfy \<open>Q\<close>.\<close>

definition in_txn :: "(mig_session, 'a) backend_op \<Rightarrow> mig_db \<Rightarrow> ('a \<Rightarrow> mig_db \<Rightarrow> bool) \<Rightarrow> bool" where
  "in_txn m d Q \<longleftrightarrow>
     (\<forall>s. ms_txn s = Some d \<longrightarrow>
        ms_committed (snd (m s)) = ms_committed s
        \<and> (\<exists>d'. ms_txn (snd (m s)) = Some d' \<and> (\<forall>a. fst (m s) = Inr a \<longrightarrow> Q a d')))"

definition statement :: "mig_cmd \<Rightarrow> bool" where
  "statement c \<longleftrightarrow> c \<noteq> Begin \<and> c \<noteq> Commit \<and> c \<noteq> Rollback"

lemma in_txn_ret: "Q a d \<Longrightarrow> in_txn (b_ret a) d Q"
  by (simp add: in_txn_def b_ret_def)

lemma in_txn_throw: "in_txn (b_throw e) d Q"
  by (simp add: in_txn_def b_throw_def)

lemma in_txn_then:
  assumes "in_txn m d Q" "\<And>a d'. Q a d' \<Longrightarrow> in_txn (f a) d' R"
  shows "in_txn (b_then m f) d R"
  unfolding in_txn_def
proof (intro allI impI)
  fix s :: mig_session
  assume s: "ms_txn s = Some d"
  obtain r s' where m: "m s = (r, s')" by fastforce
  from assms(1) s m obtain d' where d': "ms_committed s' = ms_committed s" "ms_txn s' = Some d'" "\<And>a. r = Inr a \<Longrightarrow> Q a d'"
    by (fastforce simp: in_txn_def)
  show "ms_committed (snd (b_then m f s)) = ms_committed s
      \<and> (\<exists>d'. ms_txn (snd (b_then m f s)) = Some d' \<and> (\<forall>a. fst (b_then m f s) = Inr a \<longrightarrow> R a d'))"
  proof (cases r)
    case (Inl e)
    then show ?thesis using m d' by (simp add: b_then_def)
  next
    case (Inr a)
    from assms(2)[OF d'(3)[OF Inr]] d'(2) have "ms_committed (snd (f a s')) = ms_committed s'
        \<and> (\<exists>d'. ms_txn (snd (f a s')) = Some d' \<and> (\<forall>b. fst (f a s') = Inr b \<longrightarrow> R b d'))"
      by (simp add: in_txn_def)
    then show ?thesis using m d'(1) Inr by (simp add: b_then_def)
  qed
qed

lemma in_txn_cmd:
  "statement c \<Longrightarrow> (\<And>rows d'. mig_eval c d = Inr (rows, d') \<Longrightarrow> Q rows d') \<Longrightarrow> in_txn (mig_exec fails c) d Q"
  by (cases c) (auto simp: in_txn_def mig_exec_def statement_def split: sum.split)

lemma in_txn_run:
  "statement c \<Longrightarrow> (\<And>rows d'. mig_eval c d = Inr (rows, d') \<Longrightarrow> Q () d') \<Longrightarrow> in_txn (run_cmd (mig_exec fails) c) d Q"
  unfolding run_cmd_def by (rule in_txn_then[OF in_txn_cmd]) (auto intro: in_txn_ret)

section \<open>What a migration does\<close>

definition entry_of :: "migration \<Rightarrow> int \<times> string \<times> int option" where
  "entry_of m = (mg_version m, mg_name m, Some (mg_minClientVersion m))"

definition ledger_of :: "mig_db \<Rightarrow> (int \<times> string \<times> int option) list" where
  "ledger_of d = with_default [] (md_ledger d)"

definition current_version :: "mig_db \<Rightarrow> int" where
  "current_version d = max_or 0 (map fst (ledger_of d))"

definition opened :: "string \<Rightarrow> mig_db \<Rightarrow> mig_db" where
  "opened quoted d =
     d\<lparr>md_schemas := (if quoted \<in> set (md_schemas d) then md_schemas d else quoted # md_schemas d),
       md_ledger := Some (map (\<lambda>(v, nm, m). (v, nm, Some (with_default BULLMQ_MAJOR_VERSION m))) (ledger_of d))\<rparr>"

definition add_migrations :: "migration list \<Rightarrow> mig_db \<Rightarrow> mig_db" where
  "add_migrations ms d =
     d\<lparr>md_applied := md_applied d @ map mg_name ms, md_ledger := Some (ledger_of d @ map entry_of ms)\<rparr>"

definition upgrade :: "string \<Rightarrow> mig_db \<Rightarrow> mig_db" where
  "upgrade quoted d = add_migrations (filter (\<lambda>m. mg_version m > current_version d) MIGRATIONS) (opened quoted d)"

lemma add_migrations_ledger [simp]:
  "md_ledger (add_migrations ms d) = Some (ledger_of d @ map entry_of ms)"
  "md_applied (add_migrations ms d) = md_applied d @ map mg_name ms"
  "ledger_of (add_migrations ms d) = ledger_of d @ map entry_of ms"
  by (simp_all add: add_migrations_def ledger_of_def with_default_def)

lemma apply_pending_effect:
  "md_ledger d \<noteq> None \<Longrightarrow>
   in_txn (apply_pending (mig_exec fails) v ms) d (\<lambda>_ d'. d' = add_migrations (filter (\<lambda>m. mg_version m > v) ms) d)"
proof (induction ms arbitrary: d)
  case Nil
  then show ?case by (auto simp: add_migrations_def ledger_of_def with_default_def intro: in_txn_ret)
next
  case (Cons m ms)
  show ?case
  proof (cases "mg_version m > v")
    case True
    have one: "in_txn (applyMigration (mig_exec fails) m) d (\<lambda>_ d'. d' = add_migrations [m] d)"
      unfolding applyMigration_def
    proof (rule in_txn_then[OF in_txn_run[where Q = "\<lambda>_ d'. d' = d\<lparr>md_applied := md_applied d @ [mg_name m]\<rparr>"]])
      fix a d' assume d': "d' = d\<lparr>md_applied := md_applied d @ [mg_name m]\<rparr>"
      show "in_txn (run_cmd (mig_exec fails) (InsertLedger (mg_version m) (mg_name m) (mg_minClientVersion m))) d'
              (\<lambda>_ d'. d' = add_migrations [m] d)"
        using Cons.prems
        by (intro in_txn_run)
          (auto simp: statement_def d' add_migrations_def entry_of_def ledger_of_def with_default_def split: option.splits if_splits)
    qed (auto simp: statement_def)
    have "in_txn (apply_pending (mig_exec fails) v ms) (add_migrations [m] d)
        (\<lambda>_ d'. d' = add_migrations (filter (\<lambda>m. mg_version m > v) ms) (add_migrations [m] d))"
      by (rule Cons.IH) simp
    moreover have "add_migrations ns (add_migrations [m] d) = add_migrations (m # ns) d" for ns
      by (simp add: add_migrations_def ledger_of_def with_default_def)
    ultimately show ?thesis using one True by (auto intro: in_txn_then)
  next
    case False
    then show ?thesis using Cons by (auto intro!: in_txn_then[OF in_txn_ret, where Q = "\<lambda>_ d'. d' = d"])
  qed
qed

definition filled :: "mig_db \<Rightarrow> mig_db" where
  "filled d = d\<lparr>md_ledger := Some (map (\<lambda>(v, nm, m). (v, nm, Some (with_default BULLMQ_MAJOR_VERSION m))) (ledger_of d))\<rparr>"

lemma ensureLedger_effect: "in_txn (ensureLedgerTable (mig_exec fails)) d (\<lambda>_ d'. d' = filled d)"
proof -
  let ?e = "mig_exec fails" and ?d1 = "d\<lparr>md_ledger := Some (ledger_of d)\<rparr>"
  have create: "in_txn (run_cmd ?e CreateLedger) d (\<lambda>_ e. e = ?d1)"
    by (rule in_txn_run) (auto simp: statement_def ledger_of_def)
  have add_col: "in_txn (run_cmd ?e AddMinClientColumn) ?d1 (\<lambda>_ e. e = ?d1)" by (rule in_txn_run) (auto simp: statement_def)
  have fill: "in_txn (run_cmd ?e (FillMinClient BULLMQ_MAJOR_VERSION)) ?d1 (\<lambda>_ e. e = filled d)"
    by (rule in_txn_run) (auto simp: statement_def filled_def)
  have require: "in_txn (run_cmd ?e RequireMinClient) (filled d) (\<lambda>_ e. e = filled d)"
    by (rule in_txn_run) (auto simp: statement_def)
  show ?thesis unfolding ensureLedgerTable_def
    by (auto intro!: in_txn_then[OF create] in_txn_then[OF add_col] in_txn_then[OF fill] require)
qed

lemma opened_versions: "current_version (opened quoted d) = current_version d"
  by (auto simp: current_version_def opened_def ledger_of_def with_default_def comp_def split_def split: option.split)

lemma no_pending: "LATEST_SCHEMA_VERSION \<le> v \<Longrightarrow> filter (\<lambda>m. mg_version m > v) MIGRATIONS = []"
  by (simp add: MIGRATIONS_def LATEST_SCHEMA_VERSION_def)

lemma body_effect:
  "in_txn (migration_body (mig_exec fails) schema quoted) d (\<lambda>v d'. v = current_version d \<and> d' = upgrade quoted d)"
proof -
  let ?e = "mig_exec fails"
  let ?d1 = "d\<lparr>md_schemas := (if quoted \<in> set (md_schemas d) then md_schemas d else quoted # md_schemas d)\<rparr>"
  let ?o = "opened quoted d"
  have led: "md_ledger ?o = Some (ledger_of ?o)" by (simp add: opened_def ledger_of_def with_default_def)
  have lock: "in_txn (run_cmd ?e (AdvisoryLock schema)) d (\<lambda>_ e. e = d)" by (rule in_txn_run) (auto simp: statement_def)
  have schema: "in_txn (run_cmd ?e (CreateSchema quoted)) d (\<lambda>_ e. e = ?d1)" by (rule in_txn_run) (auto simp: statement_def)
  have path: "in_txn (run_cmd ?e (SetSearchPath quoted)) ?d1 (\<lambda>_ e. e = ?d1)" by (rule in_txn_run) (auto simp: statement_def)
  have ledger: "in_txn (ensureLedgerTable ?e) ?d1 (\<lambda>_ e. e = ?o)"
    using ensureLedger_effect[of fails ?d1] by (simp add: opened_def filled_def ledger_of_def)
  have version: "in_txn (getCurrentSchemaVersion ?e) ?o (\<lambda>v e. e = ?o \<and> v = current_version d)"
    unfolding getCurrentSchemaVersion_def
    by (rule in_txn_then[OF in_txn_cmd[where Q = "\<lambda>rows e. e = ?o \<and> int_col rows ''version'' 0 = current_version d"]])
      (auto simp: statement_def led int_col_def first_col_def oprop_def opened_versions[of quoted d, unfolded current_version_def, symmetric]
        current_version_def intro: in_txn_ret)
  have client: "in_txn (getMinimumClientVersion ?e) ?o (\<lambda>v e. e = ?o)"
    unfolding getMinimumClientVersion_def
    by (rule in_txn_then[OF in_txn_cmd[where Q = "\<lambda>rows e. e = ?o"]]) (auto simp: statement_def led intro: in_txn_ret)
  have self: "add_migrations [] ?o = ?o" by (simp add: add_migrations_def led [symmetric])
  have pending: "in_txn (if v < LATEST_SCHEMA_VERSION then apply_pending ?e v MIGRATIONS else b_ret ()) ?o (\<lambda>_ e. e = upgrade quoted d)"
    if "v = current_version d" for v
  proof (cases "v < LATEST_SCHEMA_VERSION")
    case True
    then show ?thesis using apply_pending_effect[of ?o fails v MIGRATIONS] led that by (simp add: upgrade_def)
  next
    case False
    then have "filter (\<lambda>m. mg_version m > current_version d) MIGRATIONS = []" using that by (simp add: no_pending)
    then have "upgrade quoted d = ?o" unfolding upgrade_def using self by (rule ssubst)
    then show ?thesis using False by (simp add: in_txn_ret)
  qed
  have tail: "in_txn (if least > BULLMQ_MAJOR_VERSION then b_throw (SchemaVersionMismatchError least BULLMQ_MAJOR_VERSION)
      else b_then (if v < LATEST_SCHEMA_VERSION then apply_pending ?e v MIGRATIONS else b_ret ()) (\<lambda>_. b_ret v)) ?o
      (\<lambda>v d'. v = current_version d \<and> d' = upgrade quoted d)" if "v = current_version d" for v least
  proof (cases "least > BULLMQ_MAJOR_VERSION")
    case False
    show ?thesis unfolding if_not_P[OF False] by (rule in_txn_then[OF pending[OF that]]) (simp add: in_txn_ret that)
  qed (simp add: in_txn_throw)
  show ?thesis
    unfolding migration_body_def
    by (rule in_txn_then[OF lock], hypsubst, rule in_txn_then[OF schema], hypsubst, rule in_txn_then[OF path], hypsubst,
        rule in_txn_then[OF ledger], hypsubst, rule in_txn_then[OF version], erule conjE, hypsubst,
        rule in_txn_then[OF client], hypsubst, rule tail[OF refl])
qed

section \<open>Properties\<close>

lemma server_check_keeps:
  "ms_txn s = None \<Longrightarrow> snd (assertPostgresVersion (mig_exec fails) warned skip s) = s"
  by (simp add: assertPostgresVersion_def b_then_def b_lift_def b_ret_def mig_exec_def split: sum.split)

text \<open>The try block: what it commits, whatever statement fails.\<close>

lemma rollback_closes:
  "ms_txn (snd (run_cmd (mig_exec fails) Rollback t)) = None"
  "ms_committed (snd (run_cmd (mig_exec fails) Rollback t)) = ms_committed t"
  by (auto simp: run_cmd_def b_then_def b_ret_def mig_exec_def)

lemma try_block:
  fixes s :: mig_session and m :: "(mig_session, int) backend_op" and f :: "int \<Rightarrow> int" and fails :: "mig_cmd \<Rightarrow> bool"
  assumes "ms_txn s = Some d" "in_txn m d (\<lambda>v d'. v = w \<and> d' = target)"
  defines "out \<equiv> b_catch (b_then m (\<lambda>v. b_then (run_cmd (mig_exec fails) Commit) (\<lambda>_. b_ret (f v))))
                    (\<lambda>err. b_then (run_cmd (mig_exec fails) Rollback) (\<lambda>_. b_throw err)) s"
  shows "ms_txn (snd out) = None
    \<and> (case fst out of Inl _ \<Rightarrow> ms_committed (snd out) = ms_committed s | Inr v \<Rightarrow> ms_committed (snd out) = target \<and> v = f w)"
proof -
  obtain r sb where m: "m s = (r, sb)" by fastforce
  with assms(1,2) obtain d' where d': "ms_committed sb = ms_committed s" "ms_txn sb = Some d'" "\<And>v. r = Inr v \<Longrightarrow> v = w \<and> d' = target"
    by (fastforce simp: in_txn_def)
  have commit: "run_cmd (mig_exec fails) Commit sb
      = (if fails Commit then (Inl (sql_error ''08006''), sb\<lparr>ms_txn := None\<rparr>) else (Inr (), sb\<lparr>ms_committed := d', ms_txn := None\<rparr>))"
    using d'(2) by (simp add: run_cmd_def b_then_def b_ret_def mig_exec_def)
  show ?thesis
  proof (cases "r = Inr w \<and> \<not> fails Commit")
    case True
    then show ?thesis using m commit d'(3)[of w] by (simp add: out_def b_catch_def b_then_def b_ret_def)
  next
    case False
    define t where "t = (case r of Inl _ \<Rightarrow> sb | Inr _ \<Rightarrow> sb\<lparr>ms_txn := None\<rparr>)"
    have "\<exists>err. out = b_then (run_cmd (mig_exec fails) Rollback) (\<lambda>_. b_throw err) t"
      using False m commit d'(3) by (cases r) (auto simp: out_def b_catch_def b_then_def t_def split: if_splits)
    moreover have "ms_committed t = ms_committed s" using d'(1) by (cases r) (simp_all add: t_def)
    moreover obtain a u where u: "run_cmd (mig_exec fails) Rollback t = (a, u)" by fastforce
    ultimately show ?thesis using rollback_closes[of fails t]
      by (cases a) (auto simp: b_then_def b_throw_def)
  qed
qed

lemma runMigrations_effect:
  fixes s :: mig_session and fails :: "mig_cmd \<Rightarrow> bool" and warned skip :: bool and schema :: string
  assumes "ms_txn s = None"
  defines "out \<equiv> runMigrations (mig_exec fails) warned schema skip s"
  shows "ms_txn (snd out) = None
    \<and> (case fst out of
         Inl _ \<Rightarrow> ms_committed (snd out) = ms_committed s
       | Inr v \<Rightarrow> ms_committed (snd out) = upgrade ([CHR 0x22] @ schema @ [CHR 0x22]) (ms_committed s)
                 \<and> v = max (current_version (ms_committed s)) LATEST_SCHEMA_VERSION)"
proof (cases "quoteSchemaName schema")
  case (Inl e)
  then show ?thesis using assms(1) by (simp add: out_def runMigrations_def b_lift_def b_then_def)
next
  case (Inr quoted)
  then have q: "quoted = [CHR 0x22] @ schema @ [CHR 0x22]" by (auto simp: quoteSchemaName_def split: if_splits)
  let ?e = "mig_exec fails"
  obtain r where check: "assertPostgresVersion ?e warned skip s = (r, s)"
    using server_check_keeps[OF assms(1)] by (metis prod.collapse)
  let ?s1 = "s\<lparr>ms_txn := Some (ms_committed s)\<rparr>"
  have txn: "run_cmd ?e Begin s = (if fails Begin then (Inl (sql_error ''08006''), s) else (Inr (), ?s1))"
    by (simp add: run_cmd_def b_then_def b_ret_def mig_exec_def)
  have "out = (case r of Inl e \<Rightarrow> (Inl e, s) | Inr _ \<Rightarrow>
      if fails Begin then (Inl (sql_error ''08006''), s)
      else b_catch (b_then (migration_body ?e schema quoted) (\<lambda>v. b_then (run_cmd ?e Commit) (\<lambda>_. b_ret (max v LATEST_SCHEMA_VERSION))))
             (\<lambda>err. b_then (run_cmd ?e Rollback) (\<lambda>_. b_throw err)) ?s1)"
    using Inr check txn by (simp add: out_def runMigrations_def b_lift_def b_then_def[of "b_lift _"] b_then_def[of "assertPostgresVersion _ _ _"]
        b_then_def[of "run_cmd _ Begin"] split: sum.split)
  moreover note try_block[of ?s1 "ms_committed s" "migration_body ?e schema quoted" "current_version (ms_committed s)"
      "upgrade quoted (ms_committed s)" fails "\<lambda>v. max v LATEST_SCHEMA_VERSION", OF _ body_effect]
  ultimately show ?thesis using assms(1) unfolding q [symmetric]
    by (cases r; cases "fails Begin") (auto split: sum.splits)
qed

text \<open>C26. Migrations are atomic: whichever statement the server refuses (the commit and the rollback
  included), \<open>runMigrations\<close> leaves no open transaction, and either rejects with the database as it
  was or returns with every pending migration applied and recorded, together with the version
  the database is at.\<close>

theorem runMigrations_atomic:
  assumes "ms_txn s = None" "runMigrations (mig_exec fails) warned schema skip s = (r, s')"
  shows "ms_txn s' = None
    \<and> (\<forall>e. r = Inl e \<longrightarrow> ms_committed s' = ms_committed s)
    \<and> (\<forall>v. r = Inr v \<longrightarrow>
         ms_committed s' = upgrade ([CHR 0x22] @ schema @ [CHR 0x22]) (ms_committed s)
         \<and> v = max (current_version (ms_committed s)) LATEST_SCHEMA_VERSION)"
  using runMigrations_effect[OF assms(1), of fails warned schema skip] unfolding assms(2) by (cases r) simp_all

definition fresh_db :: mig_db where
  "fresh_db = \<lparr>md_schemas = [], md_applied = [], md_ledger = None\<rparr>"

definition fresh_session :: mig_session where
  "fresh_session = \<lparr>ms_committed = fresh_db, ms_txn = None\<rparr>"

theorem runMigrations_atomic_witness:
  "\<exists>r s'. runMigrations (mig_exec (\<lambda>c. c = RunSql ''0002_functions'')) False ''app'' True fresh_session = (r, s')
     \<and> ms_txn s' = None \<and> (\<forall>e. r = Inl e \<longrightarrow> ms_committed s' = fresh_db)"
proof -
  obtain r s' where r: "runMigrations (mig_exec (\<lambda>c. c = RunSql ''0002_functions'')) False ''app'' True fresh_session = (r, s')"
    by fastforce
  have "ms_txn fresh_session = None" by (simp add: fresh_session_def)
  from runMigrations_atomic[OF this r] r show ?thesis by (auto simp: fresh_session_def)
qed

text \<open>A database is clean when it is untouched or has all migrations once.\<close>

definition clean_db :: "mig_db \<Rightarrow> bool" where
  "clean_db d \<longleftrightarrow>
     d = fresh_db
     \<or> md_applied d = map mg_name MIGRATIONS \<and> md_ledger d = Some (map entry_of MIGRATIONS)"

lemma major_version: "BULLMQ_MAJOR_VERSION = 6"
  by code_simp

lemma latest_version: "LATEST_SCHEMA_VERSION = 2"
  by (simp add: LATEST_SCHEMA_VERSION_def MIGRATIONS_def)

lemma current_fresh: "current_version fresh_db = 0"
  by (simp add: current_version_def ledger_of_def fresh_db_def with_default_def max_or_def)

lemma current_full: "md_ledger d = Some (map entry_of MIGRATIONS) \<Longrightarrow> current_version d = 2"
  by (simp add: current_version_def ledger_of_def with_default_def max_or_def MIGRATIONS_def entry_of_def)

lemma clean_cases:
  assumes "clean_db d"
  shows "upgrade quoted d = d\<lparr>md_schemas := (if quoted \<in> set (md_schemas d) then md_schemas d else quoted # md_schemas d),
           md_applied := map mg_name MIGRATIONS, md_ledger := Some (map entry_of MIGRATIONS)\<rparr>"
proof (cases "d = fresh_db")
  case True
  then show ?thesis
    by (simp add: upgrade_def current_fresh) (simp add: fresh_db_def opened_def add_migrations_def ledger_of_def with_default_def MIGRATIONS_def)
next
  case False
  then have d: "md_applied d = map mg_name MIGRATIONS" "md_ledger d = Some (map entry_of MIGRATIONS)"
    using assms by (auto simp: clean_db_def)
  then show ?thesis
    by (simp add: upgrade_def current_full) (simp add: opened_def add_migrations_def ledger_of_def with_default_def MIGRATIONS_def entry_of_def)
qed

lemma upgrade_clean: "clean_db d \<Longrightarrow> clean_db (upgrade quoted d)"
  by (simp add: clean_cases clean_db_def)

text \<open>Without failures the body goes through.\<close>

lemma body_succeeds:
  assumes "clean_db d"
  shows "\<exists>v s'. migration_body (mig_exec (\<lambda>_. False)) schema quoted (s\<lparr>ms_txn := Some d\<rparr>) = (Inr v, s')"
proof -
  have "d = fresh_db \<or> md_ledger d = Some (map entry_of MIGRATIONS)" using assms by (auto simp: clean_db_def)
  then show ?thesis
    by (elim disjE)
      (simp_all add: migration_body_def run_cmd_def b_then_def b_ret_def mig_exec_def ensureLedgerTable_def getCurrentSchemaVersion_def
        getMinimumClientVersion_def int_col_def first_col_def oprop_def fresh_db_def with_default_def max_or_def major_version
        latest_version MIGRATIONS_def entry_of_def applyMigration_def List.map_filter_def)
qed

lemma run_succeeds:
  assumes "clean_db (ms_committed s)" "quoteSchemaName schema = Inr quoted"
  shows "\<exists>s'. runMigrations (mig_exec (\<lambda>_. False)) warned schema True s = (Inr LATEST_SCHEMA_VERSION, s')"
proof -
  let ?e = "mig_exec (\<lambda>_. False)" and ?s1 = "s\<lparr>ms_txn := Some (ms_committed s)\<rparr>"
  obtain v s1 where body: "migration_body ?e schema quoted ?s1 = (Inr v, s1)" using body_succeeds[OF assms(1)] by blast
  have v: "v = current_version (ms_committed s) \<and> (\<exists>d. ms_txn s1 = Some d)"
    using body_effect[of "\<lambda>_. False" schema quoted "ms_committed s", unfolded in_txn_def, rule_format, of ?s1] body by auto
  have "current_version (ms_committed s) \<le> LATEST_SCHEMA_VERSION"
    using assms(1) by (auto simp: clean_db_def current_fresh current_full latest_version)
  then show ?thesis using assms(2) body v
    by (auto simp: runMigrations_def b_lift_def b_then_def b_ret_def b_catch_def run_cmd_def assertPostgresVersion_def mig_exec_def)
qed

definition start_up :: "string \<Rightarrow> (mig_cmd \<Rightarrow> bool) \<times> bool \<Rightarrow> mig_session \<Rightarrow> mig_session" where
  "start_up schema run s = snd (runMigrations (mig_exec (fst run)) False schema (snd run) s)"

text \<open>C23. Migrations run exactly once: after any number of start-ups, each with failures of its own,
  the database is either untouched or has every migration applied once and in order, with the
  ledger to match; and from every such point a start-up without failures succeeds with the latest
  version. The start-ups are serialised by the advisory lock.\<close>

theorem migrations_run_once:
  fixes runs :: "((mig_cmd \<Rightarrow> bool) \<times> bool) list"
  assumes "quoteSchemaName schema = Inr quoted"
  defines "s \<equiv> fold (start_up schema) runs fresh_session"
  shows "ms_txn s = None \<and> clean_db (ms_committed s)
    \<and> (\<exists>s'. runMigrations (mig_exec (\<lambda>_. False)) False schema True s = (Inr LATEST_SCHEMA_VERSION, s')
           \<and> md_applied (ms_committed s') = map mg_name MIGRATIONS)"
proof -
  have step: "ms_txn (start_up schema run t) = None \<and> clean_db (ms_committed (start_up schema run t))"
    if "ms_txn t = None" "clean_db (ms_committed t)" for run t
    using runMigrations_effect[OF that(1), of "fst run" False schema "snd run"] that(2) upgrade_clean
    by (auto simp: start_up_def split: sum.splits)
  have inv: "ms_txn s = None \<and> clean_db (ms_committed s)" if "ms_txn t = None" "clean_db (ms_committed t)" "s = fold (start_up schema) runs t"
    for s t runs using that by (induction runs arbitrary: t) (auto simp: step)
  have c: "ms_txn s = None" "clean_db (ms_committed s)"
    using inv[of fresh_session s runs] by (auto simp: s_def fresh_session_def clean_db_def)
  obtain s' where s': "runMigrations (mig_exec (\<lambda>_. False)) False schema True s = (Inr LATEST_SCHEMA_VERSION, s')"
    using run_succeeds[OF c(2) assms(1)] by blast
  have "md_applied (ms_committed s') = map mg_name MIGRATIONS"
    using runMigrations_effect[OF c(1), of "\<lambda>_. False" False schema True] s' clean_cases[OF c(2)] by simp
  then show ?thesis using c s' by blast
qed

theorem migrations_run_once_witness:
  "md_applied (ms_committed (snd (runMigrations (mig_exec (\<lambda>_. False)) False ''app'' True
     (fold (start_up ''app'') [(\<lambda>c. c = Commit, True), (\<lambda>c. c = Begin, True)] fresh_session)))) = map mg_name MIGRATIONS"
proof -
  have "quoteSchemaName ''app'' = Inr [CHR 0x22, CHR ''a'', CHR ''p'', CHR ''p'', CHR 0x22]" by code_simp
  from migrations_run_once[OF this, of "[(\<lambda>c. c = Commit, True), (\<lambda>c. c = Begin, True)]"] show ?thesis by auto
qed

text \<open>The schema name cannot break out of its quotes: a name that \<open>quoteSchemaName\<close> accepts has at
  most 63 characters and no quote, semicolon, white space or backslash, and is returned between double quotes.\<close>

theorem quoteSchemaName_safe:
  assumes "quoteSchemaName schema = Inr quoted"
  shows "quoted = [CHR 0x22] @ schema @ [CHR 0x22] \<and> length schema \<le> 63 \<and> schema \<noteq> []
    \<and> set schema \<inter> {CHR 0x22, CHR 0x27, CHR '';'', CHR '' '', CHR 0x0A, CHR 0x5C, CHR 0x00} = {}"
proof -
  have ok: "schema \<noteq> []" "ident_start (hd schema)" "list_all ident_rest (tl schema)" "length schema \<le> 63"
    using assms by (auto simp: quoteSchemaName_def split: if_splits)
  have "\<forall>c \<in> set schema. ident_rest c" using ok(1-3) by (cases schema) (auto simp: ident_rest_def list_all_iff)
  moreover have "\<not> ident_rest c" if "c \<in> {CHR 0x22, CHR 0x27, CHR '';'', CHR '' '', CHR 0x0A, CHR 0x5C, CHR 0x00}" for c
    using that by (auto simp: ident_rest_def ident_start_def in_span_def)
  ultimately show ?thesis using assms ok by (auto simp: quoteSchemaName_def split: if_splits)
qed

theorem quoteSchemaName_safe_witness:
  "length ''tenant_7'' \<le> 63 \<and> CHR 0x22 \<notin> set ''tenant_7''"
proof -
  have "quoteSchemaName ''tenant_7'' = Inr ([CHR 0x22] @ ''tenant_7'' @ [CHR 0x22])" by code_simp
  from quoteSchemaName_safe[OF this] show ?thesis by auto
qed

end
