(* ===== verification/Postgres_Connection.thy ===== *)
theory Postgres_Connection
  imports Postgres_Migrator Postgres_Blocking
begin

text \<open>
  The connection of the PostgreSQL backend (src/postgres/postgres-connection.ts) and the life cycle
  of the backend on top of it: what the options select, which client listens, what closing gives
  back. The driver's pool and clients are the targets of the actions.
\<close>

section \<open>Options\<close>

datatype pg_connection_options =
    PoolInstance
  | ConnectionString string
  | PoolConfig jsobj

record pg_connection =
  pc_schema :: string
  pc_ownsPool :: bool
  pc_skipVersionCheck :: bool
  pc_migrateOnConnect :: bool
  pc_listenClientConfig :: "jsobj option"
  pc_listenClient :: "bool option"
  pc_listenPromise :: "(js_error, bool) result option"
  pc_readyPromise :: "(js_error, unit) result option"
  pc_closing :: bool

text \<open>The configuration object; a connection string is wrapped into one.\<close>

definition config_of :: "pg_connection_options \<Rightarrow> jsobj" where
  "config_of connection =
     (case connection of ConnectionString s \<Rightarrow> [(''connectionString'', VStr s)] | PoolConfig c \<Rightarrow> c | PoolInstance \<Rightarrow> [])"

definition pool_config :: "jsobj \<Rightarrow> jsobj" where
  "pool_config c = filter (\<lambda>(k, _). k \<notin> {''schema'', ''skipVersionCheck'', ''migrate'', ''skipMigrations''}) c"

definition search_path_options :: "jsobj \<Rightarrow> string \<Rightarrow> string" where
  "search_path_options c quotedSchema =
     (let searchPathOption = ''-c search_path='' @ quotedSchema in
      case oprop c ''options'' of
        VStr existing \<Rightarrow> if existing \<noteq> [] then existing @ '' '' @ searchPathOption else searchPathOption
      | _ \<Rightarrow> searchPathOption)"

definition migrate_mode :: "jsval \<Rightarrow> jsval \<Rightarrow> bool" where
  "migrate_mode migrate skipMigrations =
     truthy (nullish_or migrate (if skipMigrations = VUndef then VBool False else VBool (\<not> truthy skipMigrations)))"

definition new_PostgresConnection :: "pg_connection_options \<Rightarrow> (js_error, pg_connection) result" where
  "new_PostgresConnection connection =
     (case connection of
        PoolInstance \<Rightarrow>
          Inr \<lparr>pc_schema = DEFAULT_SCHEMA, pc_ownsPool = False, pc_skipVersionCheck = False, pc_migrateOnConnect = False,
               pc_listenClientConfig = None, pc_listenClient = None, pc_listenPromise = None, pc_readyPromise = None, pc_closing = False\<rparr>
      | _ \<Rightarrow>
          let c = config_of connection; migrate = oprop c ''migrate''; skipMigrations = oprop c ''skipMigrations'' in
          if migrate \<noteq> VUndef \<and> skipMigrations \<noteq> VUndef
          then Inl (new_err ErrorClass None ''BullMQ: `migrate` and `skipMigrations` are mutually exclusive. Set only one.'')
          else let schema = with_default DEFAULT_SCHEMA (str_of (oprop c ''schema'')) in
               bind_result (quoteSchemaName schema) (\<lambda>quotedSchema.
                 Inr \<lparr>pc_schema = schema, pc_ownsPool = True,
                      pc_skipVersionCheck = truthy (oprop c ''skipVersionCheck''),
                      pc_migrateOnConnect = migrate_mode migrate skipMigrations,
                      pc_listenClientConfig =
                        Some (map_set ''options'' (VStr (search_path_options c quotedSchema)) (pool_config c)),
                      pc_listenClient = None, pc_listenPromise = None, pc_readyPromise = None, pc_closing = False\<rparr>))"

section \<open>Loading commands\<close>

text \<open>The text of a command or migration, read once and cached; \<open>readFileSync\<close> may throw.\<close>

definition load_cached ::
  "(string \<Rightarrow> (js_error, string) result) \<Rightarrow> string \<Rightarrow> string \<Rightarrow> (string, string) jsmap
     \<Rightarrow> (js_error, string) result \<times> (string, string) jsmap" where
  "load_cached readFile path key cache =
     (case map_get cache key of
        Some sql \<Rightarrow> (Inr sql, cache)
      | None \<Rightarrow> (case readFile path of Inl e \<Rightarrow> (Inl e, cache) | Inr sql \<Rightarrow> (Inr sql, map_set key sql cache)))"

definition loadMigrationSql ::
  "(string \<Rightarrow> (js_error, string) result) \<Rightarrow> string \<Rightarrow> (string, string) jsmap \<Rightarrow> (js_error, string) result \<times> (string, string) jsmap" where
  "loadMigrationSql readFile file = load_cached readFile (''migrations/'' @ file) file"

definition loadCommandSql ::
  "(string \<Rightarrow> (js_error, string) result) \<Rightarrow> string \<Rightarrow> (string, string) jsmap \<Rightarrow> (js_error, string) result \<times> (string, string) jsmap" where
  "loadCommandSql readFile name = load_cached readFile (''commands/'' @ name @ ''.sql'') name"

lemma load_cached_once:
  "load_cached readFile path key cache = (Inr sql, cache') \<Longrightarrow> load_cached other path key cache' = (Inr sql, cache')"
  by (auto simp: load_cached_def update_conv' split: option.splits sum.splits)

section \<open>Listening and closing\<close>

datatype pg_action =
    ConnectStandalone
  | CheckOutOfPool
  | RemoveListeners
  | EndClient
  | ReleaseClient
  | EndPool
  | EmitClose

text \<open>A memoized promise: the first call starts the work, whose outcome is \<open>attempt\<close>; every later
  call gets the promise of the first.\<close>

definition waitUntilReady_conn :: "(js_error, unit) result \<Rightarrow> pg_connection \<Rightarrow> (js_error, unit) result \<times> pg_connection" where
  "waitUntilReady_conn attempt C =
     (case pc_readyPromise C of Some r \<Rightarrow> (r, C) | None \<Rightarrow> (attempt, C\<lparr>pc_readyPromise := Some attempt\<rparr>))"

text \<open>The listening client: standalone if the connection built its pool, else checked out of the
  pool it was given. \<open>failure\<close> is the error of connecting, if any.\<close>

definition getListenClient ::
  "js_error option \<Rightarrow> pg_connection \<Rightarrow> (js_error, bool) result \<times> pg_connection \<times> pg_action list" where
  "getListenClient failure C =
     (case pc_listenPromise C of
        Some r \<Rightarrow> (r, C, [])
      | None \<Rightarrow>
          let standalone = (pc_listenClientConfig C \<noteq> None);
              act = (if standalone then ConnectStandalone else CheckOutOfPool) in
          (case failure of
             Some e \<Rightarrow> (Inl e, C\<lparr>pc_listenPromise := Some (Inl e)\<rparr>, [act])
           | None \<Rightarrow> (Inr standalone, C\<lparr>pc_listenPromise := Some (Inr standalone), pc_listenClient := Some standalone\<rparr>, [act])))"

definition close_connection :: "pg_connection \<Rightarrow> pg_connection \<times> pg_action list" where
  "close_connection C =
     (if pc_closing C then (C, [])
      else (C\<lparr>pc_closing := True, pc_listenClient := None, pc_listenPromise := None\<rparr>,
            (case pc_listenClient C of
               None \<Rightarrow> []
             | Some standalone \<Rightarrow> [RemoveListeners, if standalone then EndClient else ReleaseClient])
            @ (if pc_ownsPool C then [EndPool] else []) @ [EmitClose]))"

definition emit_error_guarded :: "nat \<Rightarrow> js_error \<Rightarrow> js_error list" where
  "emit_error_guarded listeners err = (if listeners > 0 then [err] else [])"

section \<open>The backend's life cycle\<close>

text \<open>Naming is best effort: the readiness of the backend is the readiness of its connection.\<close>

definition setName_pg :: "('s, unit) pg_op \<Rightarrow> ('s, unit) pg_op \<Rightarrow> (string \<Rightarrow> ('s, unit) pg_op) \<Rightarrow> string \<Rightarrow> ('s, unit) pg_op" where
  "setName_pg ready listenClient set_config name = p_then ready (\<lambda>_. p_then listenClient (\<lambda>_. set_config name))"

definition waitUntilReady_pg ::
  "pg_queue \<Rightarrow> ('s, unit) pg_op \<Rightarrow> ('s, unit) pg_op \<Rightarrow> (string \<Rightarrow> ('s, unit) pg_op) \<Rightarrow> ('s, unit) pg_op" where
  "waitUntilReady_pg B ready listenClient set_config =
     p_then ready (\<lambda>_.
       case pq_listenClientName B of
         None \<Rightarrow> p_ret ()
       | Some name \<Rightarrow> if name = [] then p_ret ()
                     else p_catch (setName_pg ready listenClient set_config name) (\<lambda>_. p_ret ()))"

definition close_pg :: "pg_queue \<Rightarrow> pg_connection \<Rightarrow> (pg_queue \<times> pg_connection) \<times> pg_action list" where
  "close_pg B C =
     (if \<not> pq_ownsConnection B then ((B, C), [])
      else if pq_closing B then ((B, C), [])
      else (case close_connection C of (C', acts) \<Rightarrow> ((B\<lparr>pq_closing := True\<rparr>, C'), acts)))"

text \<open>Disconnecting interrupts the wait in flight; a sibling backend leaves the connection alone.\<close>

definition disconnect_pg :: "pg_queue \<Rightarrow> pg_connection \<Rightarrow> pg_wait \<Rightarrow> (pg_connection \<times> pg_wait) \<times> pg_action list" where
  "disconnect_pg B C w =
     (let w' = (if w_cancel w then finish None w else w) in
      if \<not> pq_ownsConnection B then ((C, w'), [])
      else (case close_connection C of (C', acts) \<Rightarrow> ((C', w'), acts)))"

section \<open>Properties\<close>

text \<open>Closing is idempotent, ends the pool only if the connection built it, and gives back the
  listening client the way it was obtained.\<close>

lemma close_twice: "close_connection (fst (close_connection C)) = (fst (close_connection C), [])"
  by (simp add: close_connection_def)

lemma close_returns_client:
  assumes "\<not> pc_closing C" "pc_listenPromise C = None" "getListenClient None C = (r, C', acts)"
  shows "(ConnectStandalone \<in> set acts \<longleftrightarrow> EndClient \<in> set (snd (close_connection C')))
    \<and> (CheckOutOfPool \<in> set acts \<longleftrightarrow> ReleaseClient \<in> set (snd (close_connection C')))
    \<and> (EndPool \<in> set (snd (close_connection C')) \<longleftrightarrow> pc_ownsPool C)"
proof -
  let ?standalone = "pc_listenClientConfig C \<noteq> None"
  have "C' = C\<lparr>pc_listenPromise := Some (Inr ?standalone), pc_listenClient := Some ?standalone\<rparr>"
    "acts = [if ?standalone then ConnectStandalone else CheckOutOfPool]"
    using assms(2,3) by (auto simp: getListenClient_def Let_def)
  then show ?thesis using assms(1) by (cases ?standalone; cases "pc_ownsPool C") (simp_all add: close_connection_def)
qed

text \<open>A failure to connect is remembered: after the first attempt to open the listening
  connection failed, every later call rejects with the error of that attempt and none tries to
  connect again, however often it is called and whatever connecting would do by then; and the same
  holds for the check of the schema that every operation of the backend waits for. Only a new
  connection object recovers.\<close>

theorem connect_failure_is_final:
  fixes C :: pg_connection and e :: js_error
  assumes "pc_listenPromise C = None" "pc_readyPromise C = None"
  defines "C' \<equiv> fst (snd (getListenClient (Some e) C))"
  shows "fold (\<lambda>failure (c, acts). (fst (snd (getListenClient failure c)), acts @ snd (snd (getListenClient failure c)))) later (C', [])
           = (C', [])
    \<and> fst (getListenClient None C') = Inl e
    \<and> fst (waitUntilReady_conn (Inr ()) (snd (waitUntilReady_conn (Inl e) C))) = Inl e"
proof -
  have stuck: "getListenClient f C' = (Inl e, C', [])" for f
    using assms(1) by (simp add: C'_def getListenClient_def Let_def)
  have "fold (\<lambda>f (c, acts). (fst (snd (getListenClient f c)), acts @ snd (snd (getListenClient f c)))) later (C', acts) = (C', acts)" for acts
    by (induction later arbitrary: acts) (simp_all add: stuck)
  moreover have "fst (getListenClient None C') = Inl e" by (simp add: stuck)
  ultimately show ?thesis using assms(2) by (simp add: waitUntilReady_conn_def)
qed

definition demo_connection :: pg_connection where
  "demo_connection =
     \<lparr>pc_schema = DEFAULT_SCHEMA, pc_ownsPool = True, pc_skipVersionCheck = False, pc_migrateOnConnect = False,
      pc_listenClientConfig = Some [], pc_listenClient = None, pc_listenPromise = None, pc_readyPromise = None, pc_closing = False\<rparr>"

theorem connect_failure_is_final_witness:
  "fst (waitUntilReady_conn (Inr ()) (snd (waitUntilReady_conn (Inl (sql_error ''08006'')) demo_connection))) = Inl (sql_error ''08006'')"
  using connect_failure_is_final[of demo_connection "[None, None]" "sql_error ''08006''"] by (simp add: demo_connection_def)

lemma connection_schema_quotable:
  "new_PostgresConnection opts = Inr C \<Longrightarrow> \<exists>quoted. quoteSchemaName (pc_schema C) = Inr quoted"
proof -
  assume "new_PostgresConnection opts = Inr C"
  moreover have "quoteSchemaName DEFAULT_SCHEMA = Inr ([CHR 0x22] @ DEFAULT_SCHEMA @ [CHR 0x22])" by code_simp
  ultimately show ?thesis
    by (cases opts) (auto simp: new_PostgresConnection_def Let_def split: if_splits)
qed

lemma ready_despite_naming:
  assumes "ready s = Some (Inr (), s1)" and "\<And>m t. m \<in> {setName_pg ready listenClient set_config n | n. True} \<Longrightarrow> m t \<noteq> None"
  shows "\<exists>s2. waitUntilReady_pg B ready listenClient set_config s = Some (Inr (), s2)"
proof -
  have "\<exists>r t. setName_pg ready listenClient set_config n s1 = Some (r, t)" for n using assms(2) by fastforce
  then obtain r t where "setName_pg ready listenClient set_config (the (pq_listenClientName B)) s1 = Some (r, t)" by blast
  then show ?thesis using assms(1)
    by (cases r) (auto simp: waitUntilReady_pg_def p_then_def p_catch_def p_ret_def split: option.split)
qed

end
