(* ===== verification/Worker_Life.thy ===== *)
theory Worker_Life
  imports Lock_Manager
begin

text \<open>
  The life cycle of a worker, src/classes/worker.ts: run, pause, resume, close, the stalled
  checker and whenCurrentJobsFinished. All of them are asynchronous and may overlap, so the
  model is a machine. A call of the user runs up to its first \<open>await\<close> in one step; every
  continuation of a method that waits is a step of its own, and steps of different methods
  interleave freely. The main loop (modelled in detail in Worker_Loop) is seen here through the
  number of jobs it has in flight: it fetches only while the worker is neither closing nor
  paused, and it leaves when it may not fetch and nothing is in flight.
\<close>

section \<open>State\<close>

text \<open>A call of run that passed its guards: before the main loop, in it, and after it while the
  continuation of run is pending. Main loops are numbered.\<close>

datatype run_phase = RunStart | RunLoop nat nat | RunLoopDone nat

text \<open>The stalled checker: in a check, in the delay after a failed check, asleep (sleeps are
  numbered), woken up, and ended while its \<open>finally\<close> is pending.\<close>

datatype checker_phase = Checking | Delaying | Sleeping nat | Woken | Ended

text \<open>A call of whenCurrentJobsFinished.\<close>

datatype jobs_wait_phase = WDisconnect | WLoop nat | WReconnect | WDone | WFailed js_error

datatype close_phase = Waiting jobs_wait_phase | LocksClosing | PoolCleaning | BackendClosing

datatype life_act =
    EmitPaused | EmitResumed | EmitClosing | EmitClosed | EmitError js_error
  | DisconnectBlocking | ReconnectBlocking | CloseLocks | CleanPool | CloseBackend bool

record worker_life =
  wl_processFn :: bool
  wl_skipStalledCheck :: bool
  wl_skipLockRenewal :: bool
  wl_paused :: bool
  wl_closing :: bool
  wl_force :: bool
  wl_closed :: bool
  wl_running :: bool
  wl_stalledCheckerRunning :: bool
  wl_mainLoopRunning :: "nat option"
  wl_stopper :: "nat option"
  wl_runs :: "run_phase list"
  wl_checkers :: "checker_phase list"
  wl_sleeps :: nat
  wl_pauses :: "jobs_wait_phase list"
  wl_close :: "close_phase option"
  wl_locks :: lock_manager
  wl_trace :: "life_act list"

definition life_start :: "bool \<Rightarrow> bool \<Rightarrow> bool \<Rightarrow> lock_manager \<Rightarrow> worker_life" where
  "life_start processFn skipStalled skipRenewal lm =
     \<lparr>wl_processFn = processFn, wl_skipStalledCheck = skipStalled, wl_skipLockRenewal = skipRenewal,
      wl_paused = False, wl_closing = False, wl_force = False, wl_closed = False, wl_running = False,
      wl_stalledCheckerRunning = False, wl_mainLoopRunning = None, wl_stopper = None, wl_runs = [],
      wl_checkers = [], wl_sleeps = 0, wl_pauses = [], wl_close = None, wl_locks = lm, wl_trace = []\<rparr>"

definition act :: "life_act \<Rightarrow> worker_life \<Rightarrow> worker_life" where
  "act a s = s\<lparr>wl_trace := wl_trace s @ [a]\<rparr>"

definition halted :: "worker_life \<Rightarrow> bool" where
  "halted s \<longleftrightarrow> wl_closing s \<or> wl_paused s"

section \<open>The stalled checker\<close>

definition startStalledCheckTimer :: "worker_life \<Rightarrow> worker_life" where
  "startStalledCheckTimer s =
     (if \<not> wl_skipStalledCheck s \<and> \<not> wl_closing s \<and> \<not> wl_stalledCheckerRunning s
      then s\<lparr>wl_stalledCheckerRunning := True,
             wl_checkers := wl_checkers s @ [if halted s then Ended else Checking]\<rparr>
      else s)"

definition sleep :: "nat \<Rightarrow> worker_life \<Rightarrow> worker_life" where
  "sleep i s = s\<lparr>wl_checkers := (wl_checkers s)[i := Sleeping (wl_sleeps s)], wl_stopper := Some (wl_sleeps s),
                 wl_sleeps := Suc (wl_sleeps s)\<rparr>"

text \<open>checkConnectionError: an error is emitted unless it is a connection error; while the worker
  is open the checker waits before it goes on.\<close>

definition check_done :: "nat \<Rightarrow> (js_error, unit) result \<Rightarrow> worker_life \<Rightarrow> worker_life" where
  "check_done i r s =
     (case r of
        Inr _ \<Rightarrow> sleep i s
      | Inl e \<Rightarrow>
          let s1 = (if isNotConnectionError e then act (EmitError e) s else s) in
          if \<not> wl_closing s1 then s1\<lparr>wl_checkers := (wl_checkers s1)[i := Delaying]\<rparr> else sleep i s1)"

text \<open>The stopper clears the timer of its own sleep and wakes the sleeper, if it still sleeps.\<close>

definition stalledCheckStopper :: "worker_life \<Rightarrow> worker_life" where
  "stalledCheckStopper s =
     (case wl_stopper s of
        None \<Rightarrow> s
      | Some k \<Rightarrow> s\<lparr>wl_checkers := map (\<lambda>c. if c = Sleeping k then Woken else c) (wl_checkers s)\<rparr>)"

section \<open>Waiting for the current jobs\<close>

definition current_jobs_start :: "worker_life \<Rightarrow> jobs_wait_phase" where
  "current_jobs_start s = (if wl_mainLoopRunning s = None then WDone else WDisconnect)"

definition current_jobs_call :: "worker_life \<Rightarrow> worker_life" where
  "current_jobs_call s = (if wl_mainLoopRunning s = None then s else act DisconnectBlocking s)"

text \<open>A main loop is settled when it is no longer running.\<close>

definition settled :: "nat \<Rightarrow> worker_life \<Rightarrow> bool" where
  "settled k s \<longleftrightarrow> (\<forall>n. RunLoop k n \<notin> set (wl_runs s))"

definition loop_running :: "nat \<Rightarrow> run_phase \<Rightarrow> bool" where
  "loop_running k r = (case r of RunLoop j _ \<Rightarrow> j = k | _ \<Rightarrow> False)"

lemma settled_code [code]: "settled k s \<longleftrightarrow> \<not> list_ex (loop_running k) (wl_runs s)"
  by (auto simp: settled_def list_ex_iff loop_running_def split: run_phase.splits)

fun current_jobs_step :: "bool \<Rightarrow> (js_error, unit) result \<Rightarrow> jobs_wait_phase \<Rightarrow> worker_life \<Rightarrow> (jobs_wait_phase \<times> worker_life) option" where
  "current_jobs_step reconnect r WDisconnect s =
     (case r of
        Inl e \<Rightarrow> Some (WFailed e, s)
      | Inr _ \<Rightarrow> Some (case wl_mainLoopRunning s of Some k \<Rightarrow> WLoop k | None \<Rightarrow> WDone, s))"
| "current_jobs_step reconnect r (WLoop k) s =
     (if settled k s then Some (if reconnect then (WReconnect, act ReconnectBlocking s) else (WDone, s)) else None)"
| "current_jobs_step reconnect r WReconnect s = (case r of Inl e \<Rightarrow> Some (WFailed e, s) | Inr _ \<Rightarrow> Some (WDone, s))"
| "current_jobs_step reconnect r WDone s = None"
| "current_jobs_step reconnect r (WFailed e) s = None"

section \<open>Calls\<close>

definition run_worker :: "worker_life \<Rightarrow> (js_error, unit) result \<times> worker_life" where
  "run_worker s =
     (if \<not> wl_processFn s then (Inl (new_err ErrorClass None ''No process function is defined.''), s)
      else if wl_running s then (Inl (new_err ErrorClass None ''Worker is already running.''), s)
      else if halted s then (Inr (), s)
      else let s1 = startStalledCheckTimer (s\<lparr>wl_running := True\<rparr>)
           in (Inr (), s1\<lparr>wl_runs := wl_runs s1 @ [RunStart]\<rparr>))"

definition pause_worker :: "bool \<Rightarrow> worker_life \<Rightarrow> worker_life" where
  "pause_worker doNotWaitActive s =
     (if wl_paused s then s
      else let s1 = s\<lparr>wl_paused := True\<rparr> in
           if doNotWaitActive then act EmitPaused (stalledCheckStopper s1)
           else let s2 = current_jobs_call s1 in s2\<lparr>wl_pauses := wl_pauses s2 @ [current_jobs_start s2]\<rparr>)"

definition resume_worker :: "worker_life \<Rightarrow> worker_life" where
  "resume_worker s =
     (if \<not> wl_running s \<or> wl_paused s
      then let s1 = s\<lparr>wl_paused := False\<rparr> in
           act EmitResumed (if \<not> wl_running s1 then (if wl_processFn s1 then snd (run_worker s1) else s1) else startStalledCheckTimer s1)
      else s)"

definition close_worker :: "bool \<Rightarrow> worker_life \<Rightarrow> worker_life" where
  "close_worker force s =
     (if wl_closing s then s
      else let s1 = act EmitClosing (s\<lparr>wl_closing := True, wl_force := force\<rparr>) in
           if force then s1\<lparr>wl_close := Some (Waiting WDone)\<rparr>
           else let s2 = current_jobs_call s1 in s2\<lparr>wl_close := Some (Waiting (current_jobs_start s2))\<rparr>)"

section \<open>Continuations\<close>

text \<open>After the first \<open>await\<close> of run the lock manager and the main loop are started.\<close>

definition run_continues :: "nat \<Rightarrow> worker_life \<Rightarrow> worker_life" where
  "run_continues i s =
     (let s1 = (if wl_skipLockRenewal s then s else s\<lparr>wl_locks := lm_start (wl_locks s)\<rparr>);
          k = (case wl_mainLoopRunning s1 of None \<Rightarrow> 0 | Some j \<Rightarrow> Suc j)
      in s1\<lparr>wl_mainLoopRunning := Some k, wl_runs := (wl_runs s1)[i := RunLoop k 0]\<rparr>)"

definition run_finally :: "nat \<Rightarrow> worker_life \<Rightarrow> worker_life" where
  "run_finally i s = s\<lparr>wl_running := False, wl_runs := take i (wl_runs s) @ drop (Suc i) (wl_runs s)\<rparr>"

text \<open>The end of a pause: its promise resolves after the event, or rejects without it.\<close>

definition pause_returns :: "nat \<Rightarrow> worker_life \<Rightarrow> worker_life" where
  "pause_returns j s =
     (let s1 = s\<lparr>wl_pauses := take j (wl_pauses s) @ drop (Suc j) (wl_pauses s)\<rparr> in
      if wl_pauses s ! j = WDone then act EmitPaused (stalledCheckStopper s1) else s1)"

text \<open>The cleanups of close, one after the other; a failure is emitted and the next one runs.\<close>

definition emit_failure :: "(js_error, unit) result \<Rightarrow> worker_life \<Rightarrow> worker_life" where
  "emit_failure r s = (case r of Inl e \<Rightarrow> act (EmitError e) s | Inr _ \<Rightarrow> s)"

fun close_step :: "(js_error, unit) result \<Rightarrow> close_phase \<Rightarrow> worker_life \<Rightarrow> worker_life option" where
  "close_step r (Waiting w) s =
     (case w of
        WDone \<Rightarrow> Some (act CloseLocks (s\<lparr>wl_locks := lm_close (wl_locks s), wl_close := Some LocksClosing\<rparr>))
      | WFailed e \<Rightarrow> Some (act CloseLocks ((act (EmitError e) s)\<lparr>wl_locks := lm_close (wl_locks s), wl_close := Some LocksClosing\<rparr>))
      | _ \<Rightarrow> map_option (\<lambda>(w1, s1). s1\<lparr>wl_close := Some (Waiting w1)\<rparr>) (current_jobs_step False r w s))"
| "close_step r LocksClosing s = Some (act CleanPool (s\<lparr>wl_close := Some PoolCleaning\<rparr>))"
| "close_step r PoolCleaning s = Some (act (CloseBackend (wl_force s)) ((emit_failure r s)\<lparr>wl_close := Some BackendClosing\<rparr>))"
| "close_step r BackendClosing s =
     Some (act EmitClosed ((stalledCheckStopper (emit_failure r s))\<lparr>wl_close := None, wl_closed := True\<rparr>))"

section \<open>Steps\<close>

fun wait_over :: "jobs_wait_phase \<Rightarrow> bool" where
  "wait_over WDone = True"
| "wait_over (WFailed e) = True"
| "wait_over _ = False"

datatype life_event =
    CallRun | CallPause bool | CallResume | CallClose bool | CallStartChecker
  | RunContinues nat | LoopFetches nat | JobEnds nat | LoopExits nat | RunReturns nat
  | CheckDone nat "(js_error, unit) result" | DelayOver nat | TimerFires nat | CheckerContinues nat | CheckerFinally nat
  | PauseWaits nat "(js_error, unit) result" | PauseReturns nat | CloseContinues "(js_error, unit) result"

definition at_phase :: "nat \<Rightarrow> 'a list \<Rightarrow> 'a option" where
  "at_phase i xs = (if i < length xs then Some (xs ! i) else None)"

fun life_exec :: "life_event \<Rightarrow> worker_life \<Rightarrow> worker_life option" where
  "life_exec CallRun s = Some (snd (run_worker s))"
| "life_exec (CallPause b) s = Some (pause_worker b s)"
| "life_exec CallResume s = Some (resume_worker s)"
| "life_exec (CallClose b) s = Some (close_worker b s)"
| "life_exec CallStartChecker s = Some (startStalledCheckTimer s)"
| "life_exec (RunContinues i) s =
     (case at_phase i (wl_runs s) of Some RunStart \<Rightarrow> Some (run_continues i s) | _ \<Rightarrow> None)"
| "life_exec (LoopFetches i) s =
     (case at_phase i (wl_runs s) of
        Some (RunLoop k n) \<Rightarrow> if halted s then None else Some (s\<lparr>wl_runs := (wl_runs s)[i := RunLoop k (Suc n)]\<rparr>)
      | _ \<Rightarrow> None)"
| "life_exec (JobEnds i) s =
     (case at_phase i (wl_runs s) of
        Some (RunLoop k (Suc n)) \<Rightarrow> Some (s\<lparr>wl_runs := (wl_runs s)[i := RunLoop k n]\<rparr>) | _ \<Rightarrow> None)"
| "life_exec (LoopExits i) s =
     (case at_phase i (wl_runs s) of
        Some (RunLoop k n) \<Rightarrow> if halted s \<and> n = 0 then Some (s\<lparr>wl_runs := (wl_runs s)[i := RunLoopDone k]\<rparr>) else None
      | _ \<Rightarrow> None)"
| "life_exec (RunReturns i) s =
     (case at_phase i (wl_runs s) of Some (RunLoopDone k) \<Rightarrow> Some (run_finally i s) | _ \<Rightarrow> None)"
| "life_exec (CheckDone i r) s =
     (case at_phase i (wl_checkers s) of Some Checking \<Rightarrow> Some (check_done i r s) | _ \<Rightarrow> None)"
| "life_exec (DelayOver i) s = (case at_phase i (wl_checkers s) of Some Delaying \<Rightarrow> Some (sleep i s) | _ \<Rightarrow> None)"
| "life_exec (TimerFires i) s =
     (case at_phase i (wl_checkers s) of
        Some (Sleeping k) \<Rightarrow> Some (s\<lparr>wl_checkers := (wl_checkers s)[i := Woken]\<rparr>) | _ \<Rightarrow> None)"
| "life_exec (CheckerContinues i) s =
     (case at_phase i (wl_checkers s) of
        Some Woken \<Rightarrow> Some (s\<lparr>wl_checkers := (wl_checkers s)[i := if halted s then Ended else Checking]\<rparr>) | _ \<Rightarrow> None)"
| "life_exec (CheckerFinally i) s =
     (case at_phase i (wl_checkers s) of
        Some Ended \<Rightarrow> Some (s\<lparr>wl_stalledCheckerRunning := False,
                             wl_checkers := take i (wl_checkers s) @ drop (Suc i) (wl_checkers s)\<rparr>) | _ \<Rightarrow> None)"
| "life_exec (PauseWaits j r) s =
     (case at_phase j (wl_pauses s) of
        Some w \<Rightarrow> map_option (\<lambda>(w1, s1). s1\<lparr>wl_pauses := (wl_pauses s1)[j := w1]\<rparr>) (current_jobs_step True r w s)
      | None \<Rightarrow> None)"
| "life_exec (PauseReturns j) s =
     (case at_phase j (wl_pauses s) of
        Some w \<Rightarrow> if wait_over w then Some (pause_returns j s) else None
      | None \<Rightarrow> None)"
| "life_exec (CloseContinues r) s = (case wl_close s of Some c \<Rightarrow> close_step r c s | None \<Rightarrow> None)"

fun life_run :: "life_event list \<Rightarrow> worker_life \<Rightarrow> worker_life option" where
  "life_run [] s = Some s"
| "life_run (e # es) s = (case life_exec e s of Some s1 \<Rightarrow> life_run es s1 | None \<Rightarrow> None)"

definition life_trans :: "worker_life \<Rightarrow> worker_life \<Rightarrow> bool" where
  "life_trans s t \<longleftrightarrow> (\<exists>e. life_exec e s = Some t)"

definition life_init :: "worker_life \<Rightarrow> bool" where
  "life_init s \<longleftrightarrow> (\<exists>p sc sr lm. \<not> lm_closed lm \<and> s = life_start p sc sr lm)"

section \<open>Invariant\<close>

text \<open>One activity at most of each kind, tracked by its flag. A loop that runs is the one that
  \<open>mainLoopRunning\<close> names.\<close>

definition at_most_one :: "bool \<Rightarrow> 'a list \<Rightarrow> bool" where
  "at_most_one b xs \<longleftrightarrow> (if b then length xs = 1 else xs = [])"

definition loops_named :: "worker_life \<Rightarrow> bool" where
  "loops_named s \<longleftrightarrow>
     (\<forall>k n. RunLoop k n \<in> set (wl_runs s) \<longrightarrow> wl_mainLoopRunning s = Some k)"

text \<open>While the worker closes, jobs are in flight only as long as close waits for them, unless close
  was forced or the wait failed.\<close>

definition wait_failed :: "worker_life \<Rightarrow> bool" where
  "wait_failed s \<longleftrightarrow> (\<exists>e. EmitError e \<in> set (wl_trace s)) \<or> (\<exists>e. wl_close s = Some (Waiting (WFailed e)))"

definition covered :: "worker_life \<Rightarrow> nat \<Rightarrow> bool" where
  "covered s k \<longleftrightarrow> wl_close s = Some (Waiting WDisconnect) \<or> wl_close s = Some (Waiting (WLoop k))"

definition close_inv :: "worker_life \<Rightarrow> bool" where
  "close_inv s \<longleftrightarrow>
     (\<forall>k n. wl_closing s \<longrightarrow> \<not> wl_force s \<longrightarrow> \<not> wait_failed s \<longrightarrow> RunLoop k (Suc n) \<in> set (wl_runs s) \<longrightarrow> covered s k)"

text \<open>The cleanups that have been started, in order.\<close>

definition is_cleanup :: "life_act \<Rightarrow> bool" where
  "is_cleanup a = (case a of CloseLocks \<Rightarrow> True | CleanPool \<Rightarrow> True | CloseBackend _ \<Rightarrow> True | EmitClosing \<Rightarrow> True | EmitClosed \<Rightarrow> True | _ \<Rightarrow> False)"

definition cleanups :: "worker_life \<Rightarrow> life_act list" where
  "cleanups s = filter is_cleanup (wl_trace s)"

definition expected_cleanups :: "worker_life \<Rightarrow> life_act list" where
  "expected_cleanups s =
     (if \<not> wl_closing s then []
      else take (case wl_close s of
                   Some (Waiting _) \<Rightarrow> 1 | Some LocksClosing \<Rightarrow> 2 | Some PoolCleaning \<Rightarrow> 3 | Some BackendClosing \<Rightarrow> 4 | None \<Rightarrow> 5)
             [EmitClosing, CloseLocks, CleanPool, CloseBackend (wl_force s), EmitClosed])"

definition order_inv :: "worker_life \<Rightarrow> bool" where
  "order_inv s \<longleftrightarrow>
     cleanups s = expected_cleanups s \<and> (wl_closed s \<longleftrightarrow> wl_closing s \<and> wl_close s = None)
   \<and> (\<not> wl_closing s \<longrightarrow> wl_close s = None)
   \<and> (wl_closing s \<longrightarrow> (\<forall>w. wl_close s \<noteq> Some (Waiting w)) \<longrightarrow> lm_closed (wl_locks s))"

definition single_inv :: "worker_life \<Rightarrow> bool" where
  "single_inv s \<longleftrightarrow>
     at_most_one (wl_running s) (wl_runs s) \<and> at_most_one (wl_stalledCheckerRunning s) (wl_checkers s) \<and> loops_named s"

text \<open>Helper facts: what the small operations leave alone.\<close>

lemma act_simps [simp]:
  "wl_paused (act a s) = wl_paused s" "wl_closing (act a s) = wl_closing s" "wl_force (act a s) = wl_force s"
  "wl_closed (act a s) = wl_closed s" "wl_running (act a s) = wl_running s"
  "wl_stalledCheckerRunning (act a s) = wl_stalledCheckerRunning s" "wl_mainLoopRunning (act a s) = wl_mainLoopRunning s"
  "wl_stopper (act a s) = wl_stopper s" "wl_runs (act a s) = wl_runs s" "wl_checkers (act a s) = wl_checkers s"
  "wl_pauses (act a s) = wl_pauses s" "wl_close (act a s) = wl_close s" "wl_locks (act a s) = wl_locks s"
  "wl_trace (act a s) = wl_trace s @ [a]" "wl_processFn (act a s) = wl_processFn s"
  "wl_skipLockRenewal (act a s) = wl_skipLockRenewal s" "wl_skipStalledCheck (act a s) = wl_skipStalledCheck s"
  by (simp_all add: act_def)

lemma stopper_simps [simp]:
  "wl_paused (stalledCheckStopper s) = wl_paused s" "wl_closing (stalledCheckStopper s) = wl_closing s"
  "wl_force (stalledCheckStopper s) = wl_force s" "wl_closed (stalledCheckStopper s) = wl_closed s"
  "wl_running (stalledCheckStopper s) = wl_running s" "wl_runs (stalledCheckStopper s) = wl_runs s"
  "wl_stalledCheckerRunning (stalledCheckStopper s) = wl_stalledCheckerRunning s"
  "wl_mainLoopRunning (stalledCheckStopper s) = wl_mainLoopRunning s" "wl_close (stalledCheckStopper s) = wl_close s"
  "wl_locks (stalledCheckStopper s) = wl_locks s" "wl_trace (stalledCheckStopper s) = wl_trace s"
  "length (wl_checkers (stalledCheckStopper s)) = length (wl_checkers s)"
  by (simp_all add: stalledCheckStopper_def split: option.splits)

lemma checker_start_simps [simp]:
  "wl_paused (startStalledCheckTimer s) = wl_paused s" "wl_closing (startStalledCheckTimer s) = wl_closing s"
  "wl_force (startStalledCheckTimer s) = wl_force s" "wl_closed (startStalledCheckTimer s) = wl_closed s"
  "wl_running (startStalledCheckTimer s) = wl_running s" "wl_runs (startStalledCheckTimer s) = wl_runs s"
  "wl_mainLoopRunning (startStalledCheckTimer s) = wl_mainLoopRunning s" "wl_close (startStalledCheckTimer s) = wl_close s"
  "wl_locks (startStalledCheckTimer s) = wl_locks s" "wl_trace (startStalledCheckTimer s) = wl_trace s"
  by (simp_all add: startStalledCheckTimer_def)

lemma sleep_simps [simp]:
  "wl_paused (sleep i s) = wl_paused s" "wl_closing (sleep i s) = wl_closing s" "wl_force (sleep i s) = wl_force s"
  "wl_closed (sleep i s) = wl_closed s" "wl_running (sleep i s) = wl_running s" "wl_runs (sleep i s) = wl_runs s"
  "wl_stalledCheckerRunning (sleep i s) = wl_stalledCheckerRunning s" "wl_mainLoopRunning (sleep i s) = wl_mainLoopRunning s"
  "wl_close (sleep i s) = wl_close s" "wl_locks (sleep i s) = wl_locks s" "wl_trace (sleep i s) = wl_trace s"
  "length (wl_checkers (sleep i s)) = length (wl_checkers s)"
  by (simp_all add: sleep_def)

lemma current_jobs_call_simps [simp]:
  "wl_paused (current_jobs_call s) = wl_paused s" "wl_closing (current_jobs_call s) = wl_closing s" "wl_force (current_jobs_call s) = wl_force s"
  "wl_closed (current_jobs_call s) = wl_closed s" "wl_running (current_jobs_call s) = wl_running s" "wl_runs (current_jobs_call s) = wl_runs s"
  "wl_stalledCheckerRunning (current_jobs_call s) = wl_stalledCheckerRunning s" "wl_mainLoopRunning (current_jobs_call s) = wl_mainLoopRunning s"
  "wl_close (current_jobs_call s) = wl_close s" "wl_locks (current_jobs_call s) = wl_locks s" "wl_checkers (current_jobs_call s) = wl_checkers s"
  "filter is_cleanup (wl_trace (current_jobs_call s)) = filter is_cleanup (wl_trace s)"
  "EmitError e \<in> set (wl_trace (current_jobs_call s)) \<longleftrightarrow> EmitError e \<in> set (wl_trace s)"
  by (auto simp: current_jobs_call_def is_cleanup_def)

lemma current_jobs_step_keeps:
  assumes "current_jobs_step reconnect r w s = Some (w1, s1)"
  shows "s1 = s \<or> s1 = act ReconnectBlocking s"
  using assms by (cases w) (auto split: sum.splits if_splits)

text \<open>At most one activity.\<close>

lemma at_most_one_pos: "at_most_one b xs \<Longrightarrow> i < length xs \<Longrightarrow> b \<and> i = 0 \<and> xs = [xs ! 0]"
  by (cases xs) (auto simp: at_most_one_def split: if_splits)

lemma at_most_one_update [simp]: "at_most_one b (xs[i := x]) \<longleftrightarrow> at_most_one b xs"
  by (simp add: at_most_one_def)

lemma at_most_one_length: "length xs = length ys \<Longrightarrow> at_most_one b xs \<longleftrightarrow> at_most_one b ys"
  by (cases xs; cases ys) (auto simp: at_most_one_def)

lemma at_most_one_drop: "at_most_one b xs \<Longrightarrow> i < length xs \<Longrightarrow> at_most_one False (take i xs @ drop (Suc i) xs)"
  by (auto simp: at_most_one_def split: if_splits)

lemma at_most_one_first: "at_most_one False xs \<Longrightarrow> at_most_one True (xs @ [x])"
  by (simp add: at_most_one_def)

lemmas at_phase_splits = option.splits run_phase.splits checker_phase.splits nat.splits if_splits

lemma at_phaseD: "at_phase i xs = Some x \<Longrightarrow> i < length xs \<and> xs ! i = x"
  by (simp add: at_phase_def split: if_splits)

lemma set_update_elim: "x \<in> set (xs[i := y]) \<Longrightarrow> x = y \<or> x \<in> set xs"
  by (metis insertE set_update_subset_insert subsetD)

lemma set_take_drop: "x \<in> set (take i xs @ drop j xs) \<Longrightarrow> x \<in> set xs"
  by (auto dest: in_set_takeD in_set_dropD)

lemma start_single: "single_inv s \<Longrightarrow> single_inv (startStalledCheckTimer s)"
  by (auto simp: single_inv_def loops_named_def startStalledCheckTimer_def at_most_one_def)

lemma run_single: "single_inv s \<Longrightarrow> single_inv (snd (run_worker s))"
proof (cases "wl_processFn s \<and> \<not> wl_running s \<and> \<not> halted s")
  case True
  assume inv: "single_inv s"
  let ?s1 = "startStalledCheckTimer (s\<lparr>wl_running := True\<rparr>)"
  have "at_most_one (wl_stalledCheckerRunning ?s1) (wl_checkers ?s1)"
    using inv by (auto simp: single_inv_def startStalledCheckTimer_def at_most_one_def)
  moreover have "wl_runs s = []" using inv True by (simp add: single_inv_def at_most_one_def)
  ultimately show ?thesis using True by (simp add: run_worker_def Let_def single_inv_def loops_named_def at_most_one_def)
qed (auto simp: run_worker_def)

lemma stopper_single [simp]: "single_inv (stalledCheckStopper s) \<longleftrightarrow> single_inv s"
  using at_most_one_length[of "wl_checkers (stalledCheckStopper s)" "wl_checkers s"] by (simp add: single_inv_def loops_named_def)

lemma act_single [simp]: "single_inv (act a s) \<longleftrightarrow> single_inv s"
  by (simp add: single_inv_def loops_named_def)

lemma current_jobs_call_single [simp]: "single_inv (current_jobs_call s) \<longleftrightarrow> single_inv s"
  by (simp add: single_inv_def loops_named_def)

lemma sleep_single [simp]: "single_inv (sleep i s) \<longleftrightarrow> single_inv s"
  using at_most_one_length[of "wl_checkers (sleep i s)" "wl_checkers s"] by (simp add: single_inv_def loops_named_def)

lemma single_irrelevant [simp]:
  "single_inv (s\<lparr>wl_paused := b\<rparr>) = single_inv s" "single_inv (s\<lparr>wl_closing := b, wl_force := f\<rparr>) = single_inv s"
  "single_inv (s\<lparr>wl_pauses := ps\<rparr>) = single_inv s" "single_inv (s\<lparr>wl_close := c\<rparr>) = single_inv s"
  "single_inv (s\<lparr>wl_close := c, wl_closed := b\<rparr>) = single_inv s" "single_inv (s\<lparr>wl_locks := l, wl_close := c\<rparr>) = single_inv s"
  "single_inv (s\<lparr>wl_locks := l\<rparr>) = single_inv s"
  "single_inv (s\<lparr>wl_checkers := (wl_checkers s)[i := x]\<rparr>) = single_inv s"
  by (simp_all add: single_inv_def loops_named_def)

lemma single_act_checkers [simp]:
  "single_inv ((act a s)\<lparr>wl_checkers := (wl_checkers s)[i := x]\<rparr>) = single_inv s"
  by (simp add: single_inv_def loops_named_def)

lemma emit_failure_single [simp]: "single_inv (emit_failure r s) = single_inv s"
  by (simp add: emit_failure_def split: sum.splits)

lemma close_step_single: "close_step r c s = Some t \<Longrightarrow> single_inv s \<Longrightarrow> single_inv t"
proof (cases c)
  case (Waiting w)
  assume "close_step r c s = Some t" "single_inv s"
  then show ?thesis using Waiting current_jobs_step_keeps[of False r w s] by (cases w) (fastforce split: sum.splits if_splits)+
qed auto

lemma loop_update_single:
  assumes "single_inv s" "i < length (wl_runs s)" "\<And>k n. x = RunLoop k n \<Longrightarrow> wl_mainLoopRunning s = Some k"
  shows "single_inv (s\<lparr>wl_runs := (wl_runs s)[i := x]\<rparr>)"
  using assms by (fastforce simp: single_inv_def loops_named_def dest: set_update_elim)

lemma loop_named: "single_inv s \<Longrightarrow> i < length (wl_runs s) \<Longrightarrow> wl_runs s ! i = RunLoop k n \<Longrightarrow> wl_mainLoopRunning s = Some k"
  unfolding single_inv_def loops_named_def by (metis nth_mem)

lemma run_continues_single: "single_inv s \<Longrightarrow> i < length (wl_runs s) \<Longrightarrow> single_inv (run_continues i s)"
  using at_most_one_pos[of "wl_running s" "wl_runs s" i]
  by (cases "wl_runs s") (auto simp: run_continues_def Let_def single_inv_def loops_named_def at_most_one_def)

lemma life_exec_single:
  assumes "life_exec e s = Some t" "single_inv s"
  shows "single_inv t"
proof (cases e)
  case (CheckDone i r)
  then show ?thesis using assms
    by (auto simp: check_done_def Let_def  split: at_phase_splits sum.splits)
next
  case (RunContinues i)
  then show ?thesis using assms by (auto dest!: at_phaseD intro: run_continues_single split: at_phase_splits)
next
  case (RunReturns i)
  then obtain k where "at_phase i (wl_runs s) = Some (RunLoopDone k)" "t = run_finally i s"
    using assms(1) by (auto split: at_phase_splits)
  then show ?thesis using assms(2) at_most_one_drop[of "wl_running s" "wl_runs s" i]
    by (auto simp: run_finally_def single_inv_def loops_named_def at_most_one_def dest!: at_phaseD dest: in_set_takeD)
next
  case (CheckerFinally i)
  then show ?thesis using assms at_most_one_drop[of "wl_stalledCheckerRunning s" "wl_checkers s" i]
    by (fastforce simp: single_inv_def loops_named_def dest!: at_phaseD split: at_phase_splits)
next
  case (PauseWaits j r)
  then obtain w w1 s1 where w: "current_jobs_step True r w s = Some (w1, s1)" "t = s1\<lparr>wl_pauses := (wl_pauses s1)[j := w1]\<rparr>"
    using assms(1) by (auto split: at_phase_splits)
  show ?thesis using current_jobs_step_keeps[OF w(1)] w(2) assms(2) by auto
next
  case (PauseReturns j)
  then show ?thesis using assms by (auto simp: pause_returns_def Let_def  split: at_phase_splits)
next
  case (CloseContinues r)
  then show ?thesis using assms close_step_single by (auto split: at_phase_splits)
next
  case (CallPause b)
  then show ?thesis using assms by (auto simp: pause_worker_def Let_def )
next
  case CallResume
  then show ?thesis using assms by (auto simp: resume_worker_def Let_def intro!: run_single start_single)
next
  case (LoopFetches i)
  then show ?thesis using assms by (auto dest!: at_phaseD intro!: loop_update_single dest: loop_named split: at_phase_splits)
next
  case (JobEnds i)
  then show ?thesis using assms by (auto dest!: at_phaseD intro!: loop_update_single dest: loop_named split: at_phase_splits)
next
  case (LoopExits i)
  then show ?thesis using assms by (auto dest!: at_phaseD intro!: loop_update_single split: at_phase_splits)
qed (use assms in \<open>auto simp: close_worker_def Let_def intro: run_single start_single split: at_phase_splits\<close>)

text \<open>Everything but close leaves the state of closing alone, starts no cleanup, and puts no job in
  flight while the worker closes.\<close>

definition frame :: "worker_life \<Rightarrow> worker_life \<Rightarrow> bool" where
  "frame s t \<longleftrightarrow>
     wl_closing t = wl_closing s \<and> wl_force t = wl_force s \<and> wl_close t = wl_close s \<and> wl_closed t = wl_closed s
   \<and> cleanups t = cleanups s \<and> set (wl_trace s) \<subseteq> set (wl_trace t)
   \<and> (lm_closed (wl_locks s) \<longrightarrow> lm_closed (wl_locks t))
   \<and> (\<forall>k n. wl_closing s \<longrightarrow> RunLoop k (Suc n) \<in> set (wl_runs t) \<longrightarrow> (\<exists>m. RunLoop k (Suc m) \<in> set (wl_runs s)))"

lemma frame_refl: "frame s s"
  by (auto simp: frame_def)

lemma frame_act: "frame s t \<Longrightarrow> \<not> is_cleanup a \<Longrightarrow> frame s (act a t)"
  by (auto simp: frame_def cleanups_def)

lemma frame_stopper: "frame s t \<Longrightarrow> frame s (stalledCheckStopper t)"
  by (auto simp: frame_def cleanups_def)

lemma frame_sleep: "frame s t \<Longrightarrow> frame s (sleep i t)"
  by (auto simp: frame_def cleanups_def)

lemma frame_start: "frame s t \<Longrightarrow> frame s (startStalledCheckTimer t)"
  by (auto simp: frame_def cleanups_def)

lemma frame_wait: "frame s t \<Longrightarrow> frame s (current_jobs_call t)"
  by (auto simp: current_jobs_call_def is_cleanup_def intro: frame_act)

lemma frame_update [simp]:
  "frame s (t\<lparr>wl_paused := b\<rparr>) = frame s t" "frame s (t\<lparr>wl_running := b\<rparr>) = frame s t" "frame s (t\<lparr>wl_pauses := ps\<rparr>) = frame s t"
  "frame s (t\<lparr>wl_checkers := cs\<rparr>) = frame s t" "frame s (t\<lparr>wl_stalledCheckerRunning := b\<rparr>) = frame s t"
  by (simp_all add: frame_def cleanups_def)

lemma frame_run: "frame s t \<Longrightarrow> frame s (snd (run_worker t))"
  by (auto simp: run_worker_def Let_def frame_def cleanups_def)

lemma frame_run_continues: "i < length (wl_runs s) \<Longrightarrow> frame s (run_continues i s)"
  by (auto simp: run_continues_def Let_def frame_def cleanups_def lm_start_def lm_startLockExtenderTimer_def
      dest!: set_update_elim split: option.splits)

lemma frame_loop:
  assumes "i < length (wl_runs s)" "\<And>k n. wl_closing s \<Longrightarrow> x = RunLoop k (Suc n) \<Longrightarrow> \<exists>m. wl_runs s ! i = RunLoop k (Suc m)"
  shows "frame s (s\<lparr>wl_runs := (wl_runs s)[i := x]\<rparr>)"
  using assms by (auto simp: frame_def cleanups_def dest!: set_update_elim) (metis nth_mem)

lemma frame_finally: "frame s (run_finally i s)"
  by (auto simp: run_finally_def frame_def cleanups_def dest: in_set_takeD in_set_dropD)

lemma is_cleanup_simps [simp]:
  "\<not> is_cleanup EmitPaused" "\<not> is_cleanup EmitResumed" "\<not> is_cleanup (EmitError e)" "\<not> is_cleanup DisconnectBlocking"
  "\<not> is_cleanup ReconnectBlocking" "is_cleanup CloseLocks" "is_cleanup CleanPool" "is_cleanup (CloseBackend f)"
  "is_cleanup EmitClosing" "is_cleanup EmitClosed"
  by (simp_all add: is_cleanup_def)

lemmas frame_intros = frame_refl frame_act frame_stopper frame_sleep frame_start frame_wait frame_run frame_finally

lemma life_exec_frame:
  assumes "life_exec e s = Some t" "\<And>b. e \<noteq> CallClose b" "\<And>r. e \<noteq> CloseContinues r"
  shows "frame s t"
proof (cases e)
  case (CheckDone i r)
  then show ?thesis using assms(1) by (auto simp: check_done_def Let_def intro!: frame_intros split: at_phase_splits sum.splits)
next
  case (RunContinues i)
  then show ?thesis using assms(1) by (auto dest!: at_phaseD intro: frame_run_continues split: at_phase_splits)
next
  case (PauseWaits j r)
  then obtain w w1 s1 where w: "current_jobs_step True r w s = Some (w1, s1)" "t = s1\<lparr>wl_pauses := (wl_pauses s1)[j := w1]\<rparr>"
    using assms(1) by (auto split: at_phase_splits)
  show ?thesis using current_jobs_step_keeps[OF w(1)] w(2) by (auto intro: frame_intros)
next
  case (LoopFetches i)
  then show ?thesis using assms(1) by (auto simp: halted_def dest!: at_phaseD intro!: frame_loop split: at_phase_splits)
next
  case (JobEnds i)
  then show ?thesis using assms(1) by (auto dest!: at_phaseD intro!: frame_loop split: at_phase_splits)
next
  case (LoopExits i)
  then show ?thesis using assms(1) by (auto dest!: at_phaseD intro!: frame_loop split: at_phase_splits)
qed (use assms in \<open>auto simp: pause_worker_def resume_worker_def pause_returns_def Let_def intro!: frame_intros split: at_phase_splits\<close>)

lemma frame_close: "frame s t \<Longrightarrow> close_inv s \<Longrightarrow> close_inv t"
  unfolding frame_def close_inv_def wait_failed_def covered_def by (metis subsetD)

lemma frame_order: "frame s t \<Longrightarrow> order_inv s \<Longrightarrow> order_inv t"
  by (auto simp: frame_def order_inv_def expected_cleanups_def)

text \<open>Close itself.\<close>

lemma no_loop_unnamed: "single_inv s \<Longrightarrow> wl_mainLoopRunning s = None \<Longrightarrow> RunLoop k n \<notin> set (wl_runs s)"
  by (auto simp: single_inv_def loops_named_def)

lemma close_call_inv:
  assumes "single_inv s" "close_inv s" "order_inv s"
  shows "close_inv (close_worker b s)" "order_inv (close_worker b s)"
proof -
  show "close_inv (close_worker b s)"
    using assms no_loop_unnamed[OF assms(1)] by (auto simp: close_worker_def Let_def close_inv_def covered_def current_jobs_start_def)
  show "order_inv (close_worker b s)"
    using assms(3) by (auto simp: close_worker_def Let_def order_inv_def expected_cleanups_def cleanups_def)
qed

lemma emit_failure_simps [simp]:
  "wl_closing (emit_failure r s) = wl_closing s" "wl_force (emit_failure r s) = wl_force s"
  "wl_closed (emit_failure r s) = wl_closed s" "wl_close (emit_failure r s) = wl_close s"
  "wl_locks (emit_failure r s) = wl_locks s" "wl_runs (emit_failure r s) = wl_runs s"
  "filter is_cleanup (wl_trace (emit_failure r s)) = filter is_cleanup (wl_trace s)"
  by (simp_all add: emit_failure_def split: sum.splits)

lemma close_step_order:
  assumes "wl_close s = Some c" "close_step r c s = Some t" "order_inv s"
  shows "order_inv t"
proof -
  have cl: "wl_closing s" using assms(1,3) by (auto simp: order_inv_def)
  show ?thesis
  proof (cases c)
    case (Waiting w)
    then show ?thesis using assms cl current_jobs_step_keeps[of False r w s]
      by (cases w) (auto simp: order_inv_def expected_cleanups_def cleanups_def lm_close_def split: sum.splits if_splits)
  qed (use assms cl in \<open>auto simp: order_inv_def expected_cleanups_def cleanups_def\<close>)
qed

lemma close_step_close:
  assumes "wl_close s = Some c" "close_step r c s = Some t" "close_inv s" "single_inv s"
  shows "close_inv t"
proof (cases c)
  case (Waiting w)
  show ?thesis
  proof (cases w)
    case WDisconnect
    then show ?thesis using assms Waiting no_loop_unnamed[OF assms(4)]
      by (auto simp: close_inv_def covered_def wait_failed_def single_inv_def loops_named_def split: sum.splits option.splits) blast
  next
    case (WLoop k)
    then show ?thesis using assms Waiting by (auto simp: close_inv_def covered_def wait_failed_def settled_def split: if_splits) blast
  qed (use assms Waiting in \<open>auto simp: close_inv_def covered_def wait_failed_def split: sum.splits\<close>)
qed (use assms in \<open>auto simp: close_inv_def covered_def wait_failed_def emit_failure_def split: sum.splits\<close>)

definition life_inv :: "worker_life \<Rightarrow> bool" where
  "life_inv s \<longleftrightarrow> single_inv s \<and> close_inv s \<and> order_inv s"

lemma life_init_inv: "lm_closed lm = False \<Longrightarrow> life_inv (life_start p sc sr lm)"
  by (simp add: life_inv_def life_start_def single_inv_def at_most_one_def loops_named_def close_inv_def order_inv_def
      cleanups_def expected_cleanups_def)

lemma life_exec_inv:
  assumes "life_exec e s = Some t" "life_inv s"
  shows "life_inv t"
proof -
  have single: "single_inv t" using life_exec_single assms unfolding life_inv_def by blast
  show ?thesis
  proof (cases "\<exists>b. e = CallClose b")
    case True
    then show ?thesis using assms single close_call_inv by (auto simp: life_inv_def)
  next
    case noCall: False
    show ?thesis
    proof (cases "\<exists>r. e = CloseContinues r")
      case True
      then show ?thesis using assms single close_step_order close_step_close by (auto simp: life_inv_def split: option.splits)
    next
      case False
      then show ?thesis using life_exec_frame[OF assms(1)] noCall assms(2) single frame_close frame_order
        unfolding life_inv_def by blast
    qed
  qed
qed

interpretation life: step_invariant life_init life_trans life_inv
  by unfold_locales (auto simp: life_init_def life_trans_def intro: life_init_inv life_exec_inv)

lemma life_run_reach: "life_run es s = Some t \<Longrightarrow> reach life_init life_trans s \<Longrightarrow> reach life_init life_trans t"
proof (induction es arbitrary: s)
  case (Cons e es)
  then obtain s1 where "life_exec e s = Some s1" "life_run es s1 = Some t" by (auto split: option.splits)
  then show ?case using Cons.IH reach.reach_step[OF Cons.prems(2), of s1] by (auto simp: life_trans_def)
qed simp

lemma life_run_inv:
  assumes "life_run es (life_start p sc sr lm) = Some s" "\<not> lm_closed lm"
  shows "life_inv s"
  using life.inv_reach[OF life_run_reach[OF assms(1) reach.reach_init]] assms(2) by (auto simp: life_init_def)

section \<open>Claims\<close>

text \<open>C7. Whatever calls of run, pause, resume, close and the stalled checker overlap, a worker never has two
  main loops or two stalled checkers: there is a call of run in progress exactly while \<open>running\<close>
  is set and a checker exactly while \<open>stalledCheckerRunning\<close> is set, one of each, and a running
  loop is the one pause and close wait for.\<close>

theorem worker_single_loop:
  assumes "life_run es (life_start p sc sr lm) = Some s" and "\<not> lm_closed lm"
  shows "length (wl_runs s) = (if wl_running s then 1 else 0)
    \<and> length (wl_checkers s) = (if wl_stalledCheckerRunning s then 1 else 0)
    \<and> (\<forall>k n. RunLoop k n \<in> set (wl_runs s) \<longrightarrow> wl_mainLoopRunning s = Some k)"
  using life_run_inv[OF assms] by (auto simp: life_inv_def single_inv_def at_most_one_def loops_named_def split: if_splits)

definition demo_life :: worker_life where
  "demo_life = life_start True False False (lm_new 15000 30000)"

definition life_state :: "life_event list \<Rightarrow> worker_life" where
  "life_state es = (case life_run es demo_life of Some s \<Rightarrow> s | None \<Rightarrow> demo_life)"

text \<open>A second call of run, and a pause and a resume while a job is processed.\<close>

definition busy_events :: "life_event list" where
  "busy_events = [CallRun, RunContinues 0, CallRun, LoopFetches 0, CheckDone 0 (Inr ()), CallPause False, JobEnds 0, LoopExits 0, RunReturns 0,
     PauseWaits 0 (Inr ()), PauseWaits 0 (Inr ()), PauseWaits 0 (Inr ()), PauseReturns 0, CheckerContinues 0, CallResume, RunContinues 0]"

lemmas life_eval = life_state_def demo_life_def life_start_def lm_new_def at_phase_def run_worker_def halted_def Let_def
  startStalledCheckTimer_def run_continues_def lm_start_def lm_startLockExtenderTimer_def check_done_def sleep_def
  pause_worker_def current_jobs_call_def current_jobs_start_def act_def settled_def run_finally_def pause_returns_def
  stalledCheckStopper_def resume_worker_def close_worker_def lm_close_def emit_failure_def

lemma demo_life_open: "\<not> lm_closed (lm_new 15000 30000)"
  by (simp add: lm_new_def)

lemma busy_run: "life_run busy_events (life_start True False False (lm_new 15000 30000)) = Some (life_state busy_events)"
  by (simp add: busy_events_def life_eval)

theorem worker_single_loop_witness:
  "length (wl_runs (life_state busy_events)) = (if wl_running (life_state busy_events) then 1 else 0)
    \<and> length (wl_checkers (life_state busy_events)) = (if wl_stalledCheckerRunning (life_state busy_events) then 1 else 0)"
  using worker_single_loop [OF busy_run demo_life_open] by blast


text \<open>A worker closed while it processes a job; cleaning the child pool fails.\<close>

definition closing_events :: "life_event list" where
  "closing_events = [CallRun, RunContinues 0, LoopFetches 0, CallClose False, CloseContinues (Inr ()), JobEnds 0, LoopExits 0,
     CloseContinues (Inr ()), CloseContinues (Inr ()), CloseContinues (Inr ()),
     CloseContinues (Inl (new_err ErrorClass None ''kill'')), CloseContinues (Inr ())]"

lemma closing_run: "life_run closing_events (life_start True False False (lm_new 15000 30000)) = Some (life_state closing_events)"
  by (simp add: closing_events_def life_eval)

lemma closing_closed: "wl_closed (life_state closing_events)"
  by (simp add: closing_events_def life_eval)


text \<open>A resume can be lost. A worker paused without waiting, whose main loop has ended while the
  continuation of run is still pending, is taken for a running one by resume: it emits
  \<open>resumed\<close>, starts no loop, and then run returns. The worker is neither paused nor closing, no
  loop runs, and none is going to be started.\<close>

theorem worker_resume_lost:
  "\<exists>s. life_run [CallRun, RunContinues 0, CallPause True, LoopExits 0, CallResume, RunReturns 0] demo_life = Some s
     \<and> wl_trace s = [EmitPaused, EmitResumed] \<and> \<not> wl_paused s \<and> \<not> wl_closing s
     \<and> wl_runs s = [] \<and> \<not> wl_running s \<and> wl_pauses s = []"
  by (simp add: life_eval)

text \<open>In the same way the stalled checker can be lost: resume finds \<open>stalledCheckerRunning\<close> set although
  the checker has left its loop. Jobs are processed, and nothing looks for stalled ones.\<close>

lemma worker_checker_lost:
  "\<exists>s. life_run [CallRun, RunContinues 0, LoopFetches 0, CheckDone 0 (Inr ()), CallPause True, CheckerContinues 0, CallResume, CheckerFinally 0] demo_life = Some s
     \<and> wl_runs s = [RunLoop 0 1] \<and> \<not> halted s \<and> wl_checkers s = [] \<and> \<not> wl_stalledCheckerRunning s"
  by (simp add: life_eval)

text \<open>A check in progress while the worker closes goes to sleep afterwards: the worker is closed, and
  the timer of the checker keeps running for the whole interval.\<close>

lemma worker_timer_outlives_close:
  "\<exists>s. life_run [CallRun, RunContinues 0, CallClose True, CloseContinues (Inr ()), CloseContinues (Inr ()), CloseContinues (Inr ()),
                 CloseContinues (Inr ()), LoopExits 0, RunReturns 0, CheckDone 0 (Inr ())] demo_life = Some s
     \<and> wl_closed s \<and> wl_checkers s = [Sleeping 0]"
  by (simp add: life_eval)

end
