(* ===== verification/Queue_Base.thy ===== *)
theory Queue_Base
  imports Js_Values
begin

text \<open>
  src/classes/queue-base.ts, the common base of Queue, Worker, FlowProducer and QueueEvents: emitting
  events, closing, waiting out connection errors; and \<open>trace\<close> of src/utils/index.ts, which wraps
  operations into telemetry spans. Listeners and traced operations are arbitrary functions
  on a world \<open>'w\<close>.
\<close>

section \<open>Events\<close>

datatype emit_arg = ErrorArg js_error | ValueArg jsval

type_synonym 'w listener = "emit_arg list \<Rightarrow> 'w \<Rightarrow> (js_error, unit) result \<times> 'w"

type_synonym 'w emitter = "(string \<times> 'w listener) list"

definition listeners_of :: "'w emitter \<Rightarrow> string \<Rightarrow> 'w listener list" where
  "listeners_of em event = map snd (filter (\<lambda>(e, _). e = event) em)"

text \<open>Node's emitter calls the listeners in order until one throws. An \<open>error\<close> event nobody listens to
  is thrown: the error itself, or an error made of other arguments.\<close>

fun call_listeners :: "'w listener list \<Rightarrow> emit_arg list \<Rightarrow> 'w \<Rightarrow> (js_error, unit) result \<times> 'w" where
  "call_listeners [] args w = (Inr (), w)"
| "call_listeners (f # fs) args w =
     (case f args w of (Inl e, w1) \<Rightarrow> (Inl e, w1) | (Inr _, w1) \<Rightarrow> call_listeners fs args w1)"

fun thrown :: "string option \<Rightarrow> emit_arg list \<Rightarrow> js_error" where
  "thrown stk (ErrorArg e # args) = e"
| "thrown stk args = new_err ErrorClass stk ''Unhandled error.''"

definition super_emit ::
  "string option \<Rightarrow> 'w emitter \<Rightarrow> string \<Rightarrow> emit_arg list \<Rightarrow> 'w \<Rightarrow> (js_error, bool) result \<times> 'w" where
  "super_emit stk em event args w =
     (let fs = listeners_of em event in
      if fs = [] then (if event = ''error'' then Inl (thrown stk args) else Inr False, w)
      else case call_listeners fs args w of (Inl e, w1) \<Rightarrow> (Inl e, w1) | (Inr _, w1) \<Rightarrow> (Inr True, w1))"

text \<open>\<open>QueueBase.emit\<close> never throws: an error of a listener is emitted as \<open>error\<close>, and an error of that
  is printed. The second component is what is printed.\<close>

definition qb_emit ::
  "string option \<Rightarrow> 'w emitter \<Rightarrow> string \<Rightarrow> emit_arg list \<Rightarrow> 'w \<Rightarrow> bool \<times> js_error list \<times> 'w" where
  "qb_emit stk em event args w =
     (case super_emit stk em event args w of
        (Inr b, w1) \<Rightarrow> (b, [], w1)
      | (Inl e, w1) \<Rightarrow>
          (case super_emit stk em ''error'' [ErrorArg e] w1 of
             (Inr b, w2) \<Rightarrow> (b, [], w2)
           | (Inl e2, w2) \<Rightarrow> (False, [e2], w2)))"

section \<open>The base object\<close>

record queue_base =
  qb_name :: string
  qb_qualifiedName :: string
  qb_hasBlockingConnection :: bool
  qb_closing :: bool
  qb_closed :: bool

text \<open>The constructor; \<open>qualifiedName\<close> stands for what the backend that the factory builds for this
  name reports.\<close>

definition new_QueueBase :: "string option \<Rightarrow> (string \<Rightarrow> string) \<Rightarrow> string \<Rightarrow> bool \<Rightarrow> (js_error, queue_base) result" where
  "new_QueueBase stk qualifiedName name hasBlockingConnection =
     (case checkQueueName name of
        Inl msg \<Rightarrow> Inl (new_err ErrorClass stk msg)
      | Inr _ \<Rightarrow> Inr \<lparr>qb_name = name, qb_qualifiedName = qualifiedName name,
                      qb_hasBlockingConnection = hasBlockingConnection, qb_closing = False, qb_closed = False\<rparr>)"

text \<open>A close event of the connection is passed on unless the object is being closed.\<close>

definition on_backend_close :: "string option \<Rightarrow> 'w emitter \<Rightarrow> queue_base \<Rightarrow> 'w \<Rightarrow> bool \<times> js_error list \<times> 'w" where
  "on_backend_close stk em q w = (if \<not> qb_closing q then qb_emit stk em ''ioredis:close'' [] w else (False, [], w))"

definition on_backend_error :: "string option \<Rightarrow> 'w emitter \<Rightarrow> js_error \<Rightarrow> 'w \<Rightarrow> bool \<times> js_error list \<times> 'w" where
  "on_backend_error stk em e w = qb_emit stk em ''error'' [ErrorArg e] w"

text \<open>close: the promise of \<open>backend.close()\<close> is kept, and every caller waits for the same one. The
  argument is how that promise settles; \<open>closed\<close> is set only if it resolves.\<close>

definition qb_close :: "(js_error, unit) result \<Rightarrow> queue_base \<Rightarrow> (js_error, unit) result \<times> queue_base" where
  "qb_close r q =
     (case r of
        Inl e \<Rightarrow> (Inl e, q\<lparr>qb_closing := True\<rparr>)
      | Inr _ \<Rightarrow> (Inr (), q\<lparr>qb_closing := True, qb_closed := True\<rparr>))"

text \<open>checkConnectionError: the result of the call, or nothing after an error. The outcome says
  whether the error is emitted and how long the caller waits.\<close>

record 'a checked =
  ck_result :: "'a option"
  ck_emitted :: "js_error option"
  ck_waits :: real

definition DELAY_TIME_5 :: real where
  "DELAY_TIME_5 = 5000"

definition checkConnectionError :: "bool \<Rightarrow> real \<Rightarrow> (js_error, 'a) result \<Rightarrow> 'a checked" where
  "checkConnectionError closing delayInMs r =
     (case r of
        Inr a \<Rightarrow> \<lparr>ck_result = Some a, ck_emitted = None, ck_waits = 0\<rparr>
      | Inl e \<Rightarrow> \<lparr>ck_result = None, ck_emitted = (if isNotConnectionError e then Some e else None),
                   ck_waits = (if \<not> closing \<and> delayInMs \<noteq> 0 then delayInMs else 0)\<rparr>)"

section \<open>Tracing\<close>

datatype span_kind = INTERNAL | SERVER | CLIENT | PRODUCER | CONSUMER

datatype span_op =
    StartSpan string span_kind "string option"
  | SetAttributes string string
  | InContext "string option"
  | RecordException string
  | EndSpan

text \<open>A world with the operations on spans; contexts are named by the metadata they come from
  (\<open>None\<close> is the active one).\<close>

record 'w traced =
  tr_spans :: "span_op list"
  tr_world :: 'w

definition span :: "span_op \<Rightarrow> 'w traced \<Rightarrow> 'w traced" where
  "span a t = t\<lparr>tr_spans := tr_spans t @ [a]\<rparr>"

type_synonym ('w, 'a) traced_op = "bool \<Rightarrow> string option \<Rightarrow> 'w traced \<Rightarrow> (js_error, 'a) result \<times> 'w traced"

definition trace_span :: "string \<Rightarrow> string \<Rightarrow> string" where
  "trace_span operation destination = (if destination \<noteq> [] then operation @ '' '' @ destination else operation)"

text \<open>The callback gets a span and, if it takes two parameters, the metadata of the message context.\<close>

definition trace ::
  "(string option \<Rightarrow> string) option \<Rightarrow> span_kind \<Rightarrow> string \<Rightarrow> string \<Rightarrow> string \<Rightarrow> bool \<Rightarrow> ('w, 'a) traced_op
     \<Rightarrow> string option \<Rightarrow> 'w traced \<Rightarrow> (js_error, 'a) result \<times> 'w traced" where
  "trace telemetry spanKind queueName operation destination takesMetadata callback src t =
     (case telemetry of
        None \<Rightarrow> callback False None t
      | Some getMetadata \<Rightarrow>
          let parent = (case src of Some (c # cs) \<Rightarrow> Some (c # cs) | _ \<Rightarrow> None);
              t1 = span (StartSpan (trace_span operation destination) spanKind parent) t;
              t2 = span (SetAttributes queueName operation) t1;
              messageContext = (if spanKind = CONSUMER then parent else None)
          in case callback True (if takesMetadata then Some (getMetadata messageContext) else None) (span (InContext messageContext) t2) of
               (Inl e, t3) \<Rightarrow> (Inl e, span EndSpan (span (RecordException (err_message e)) t3))
             | (Inr a, t3) \<Rightarrow> (Inr a, span EndSpan t3))"

section \<open>Facts\<close>

text \<open>Tracing is transparent: for an operation whose outcome and effect on the world do not depend on
  its span, \<open>trace\<close> gives the same result and the same world with and without telemetry, and
  its own span is opened first and closed last, also when the operation throws.\<close>

definition span_blind :: "('w, 'a) traced_op \<Rightarrow> bool" where
  "span_blind op \<longleftrightarrow>
     (\<forall>b m t b' m' t'. tr_world t = tr_world t' \<longrightarrow>
        fst (op b m t) = fst (op b' m' t') \<and> tr_world (snd (op b m t)) = tr_world (snd (op b' m' t')))"

definition span_appends :: "('w, 'a) traced_op \<Rightarrow> bool" where
  "span_appends op \<longleftrightarrow> (\<forall>b m t. \<exists>l. tr_spans (snd (op b m t)) = tr_spans t @ l)"

lemma span_simps [simp]: "tr_world (span a t) = tr_world t" "tr_spans (span a t) = tr_spans t @ [a]"
  by (simp_all add: span_def)

lemma trace_transparent:
  assumes "span_blind op" and "span_appends op"
  shows "fst (trace (Some g) k q opn d tm op src t) = fst (trace None k q opn d tm op src t)
    \<and> tr_world (snd (trace (Some g) k q opn d tm op src t)) = tr_world (snd (trace None k q opn d tm op src t))
    \<and> (\<exists>parent l. tr_spans (snd (trace (Some g) k q opn d tm op src t))
         = tr_spans t @ [StartSpan (trace_span opn d) k parent] @ l @ [EndSpan])"
proof -
  define parent where "parent = (case src of Some (c # cs) \<Rightarrow> Some (c # cs) | _ \<Rightarrow> None)"
  define mc where "mc = (if k = CONSUMER then parent else None)"
  define t2 where "t2 = span (InContext mc) (span (SetAttributes q opn) (span (StartSpan (trace_span opn d) k parent) t))"
  define md where "md = (if tm then Some (g mc) else None)"
  have tr: "trace (Some g) k q opn d tm op src t
      = (case op True md t2 of
           (Inl e, t3) \<Rightarrow> (Inl e, span EndSpan (span (RecordException (err_message e)) t3))
         | (Inr a, t3) \<Rightarrow> (Inr a, span EndSpan t3))"
    by (simp add: trace_def Let_def parent_def mc_def t2_def md_def)
  have "tr_world t2 = tr_world t" by (simp add: t2_def)
  then have blind: "fst (op True md t2) = fst (op False None t)" "tr_world (snd (op True md t2)) = tr_world (snd (op False None t))"
    using assms(1) unfolding span_blind_def by blast+
  obtain l where l: "tr_spans (snd (op True md t2)) = tr_spans t2 @ l"
    using assms(2) unfolding span_appends_def by blast
  obtain r t3 where rt: "op True md t2 = (r, t3)" by fastforce
  obtain u where u: "op False None t = (r, u)" "tr_world t3 = tr_world u"
    using blind rt by (metis fst_conv snd_conv surj_pair)
  have "tr_spans t3 = tr_spans t @ [StartSpan (trace_span opn d) k parent] @ ([SetAttributes q opn, InContext mc] @ l)"
    using l rt by (simp add: t2_def)
  moreover have "trace None k q opn d tm op src t = (r, u)" using u by (simp add: trace_def)
  ultimately show ?thesis using u(2) unfolding tr rt by (cases r) auto
qed

text \<open>emit: either every listener ran and nothing is printed, or the listeners up to the first that
  throws ran, and its error went to the listeners of \<open>error\<close> or was printed.\<close>

lemma qb_emit_outcome:
  assumes "qb_emit stk em event args w = (b, printed, w1)"
  shows "(\<exists>b'. super_emit stk em event args w = (Inr b', w1) \<and> printed = [] \<and> b = b')
    \<or> (\<exists>e w2. super_emit stk em event args w = (Inl e, w2)
         \<and> (super_emit stk em ''error'' [ErrorArg e] w2 = (Inr b, w1) \<and> printed = []
            \<or> (\<exists>e2. super_emit stk em ''error'' [ErrorArg e] w2 = (Inl e2, w1) \<and> printed = [e2] \<and> \<not> b)))"
  using assms by (auto simp: qb_emit_def split: prod.splits sum.splits)

end
