(* ===== verification/Queue_Events.thy ===== *)
theory Queue_Events
  imports Queue_Base Js_Strings
begin

text \<open>
  src/classes/queue-events.ts and queue-events-producer.ts. Every transition of a job is appended to
  the event stream of its queue; QueueEvents reads that stream in batches, remembers the id of the cur
  entry and turns entries into local events. QueueEventsProducer appends custom events.
\<close>

section \<open>Decoding\<close>

text \<open>An entry of the stream: its id and its fields as a flat array.\<close>

type_synonym stream_entry = "string \<times> string list"

definition field_val :: "string option \<Rightarrow> jsval" where
  "field_val v = (case v of None \<Rightarrow> VUndef | Some s \<Rightarrow> VStr s)"

definition fields_of :: "string list \<Rightarrow> jsobj" where
  "fields_of flat = map (\<lambda>(k, v). (k, field_val v)) (array2obj flat)"

text \<open>\<open>JSON.parse(v)\<close> converts its argument to a string first.\<close>

definition parse_payload :: "json_lib \<Rightarrow> string \<Rightarrow> jsobj \<Rightarrow> (js_error, jsobj) result" where
  "parse_payload J k args = bind_result (json_parse J (js_string J (oprop args k))) (\<lambda>v. Inr (map_set k v args))"

definition decode_args :: "json_lib \<Rightarrow> jsobj \<Rightarrow> (js_error, jsobj) result" where
  "decode_args J args =
     (if oprop args ''event'' = VStr ''progress'' then parse_payload J ''data'' args
      else if oprop args ''event'' = VStr ''completed'' then parse_payload J ''returnvalue'' args
      else if oprop args ''event'' = VStr ''delayed'' then Inr (map_set ''delay'' (to_number J (oprop args ''delay'')) args)
      else Inr args)"

text \<open>A local event: its name, its arguments and the id of the entry.\<close>

record local_event =
  le_name :: string
  le_args :: "jsobj option"
  le_id :: string

definition local_events :: "json_lib \<Rightarrow> string \<Rightarrow> jsobj \<Rightarrow> local_event list" where
  "local_events J entry args =
     (let event = oprop args ''event''; restArgs = map_del ''event'' args in
      if event = VStr ''drained'' then [\<lparr>le_name = ''drained'', le_args = None, le_id = entry\<rparr>]
      else \<lparr>le_name = js_string J event, le_args = Some restArgs, le_id = entry\<rparr>
           # (if truthy (oprop restArgs ''jobId'')
              then [\<lparr>le_name = js_string J event @ '':'' @ js_string J (oprop restArgs ''jobId''), le_args = Some restArgs, le_id = entry\<rparr>]
              else []))"

section \<open>Consuming\<close>

text \<open>The loop over one batch: the events emitted, the last id, and the error that ended it.\<close>

fun consume_batch :: "json_lib \<Rightarrow> stream_entry list \<Rightarrow> string \<Rightarrow> local_event list \<times> string \<times> js_error option" where
  "consume_batch J [] cur = ([], cur, None)"
| "consume_batch J ((entry, flat) # es) cur =
     (case decode_args J (fields_of flat) of
        Inl e \<Rightarrow> ([], entry, Some e)
      | Inr args \<Rightarrow>
          (case consume_batch J es entry of (evs, cur1, err) \<Rightarrow> (local_events J entry args @ evs, cur1, err)))"

text \<open>One reply of \<open>readEvents\<close> for the current id: an error, nothing, or the entries of the stream.\<close>

type_synonym read_reply = "string \<Rightarrow> (js_error, stream_entry list option) result"

text \<open>What goes out besides local events: errors that checkConnectionError emits.\<close>

datatype consumed = Local local_event | ReadFailed js_error

text \<open>consumeEvents over the replies up to the moment \<open>closing\<close> is set.\<close>

fun consumeEvents :: "json_lib \<Rightarrow> read_reply list \<Rightarrow> string \<Rightarrow> consumed list \<times> string \<times> js_error option" where
  "consumeEvents J [] cur = ([], cur, None)"
| "consumeEvents J (r # rs) cur =
     (let c = checkConnectionError False DELAY_TIME_5 (r cur);
          failed = (case ck_emitted c of Some e \<Rightarrow> [ReadFailed e] | None \<Rightarrow> []) in
      case ck_result c of
        Some (Some es) \<Rightarrow>
          (case consume_batch J es cur of
             (evs, cur1, Some e) \<Rightarrow> (failed @ map Local evs, cur1, Some e)
           | (evs, cur1, None) \<Rightarrow>
               (case consumeEvents J rs cur1 of (out, cur2, err) \<Rightarrow> (failed @ map Local evs @ out, cur2, err)))
      | _ \<Rightarrow> (case consumeEvents J rs cur of (out, cur2, err) \<Rightarrow> (failed @ out, cur2, err)))"

record queue_events =
  qe_running :: bool
  qe_lastEventId :: "string option"
  qe_closed :: bool

definition first_id :: "queue_events \<Rightarrow> string" where
  "first_id Q = (case qe_lastEventId Q of Some (c # cs) \<Rightarrow> c # cs | _ \<Rightarrow> ''$'')"

text \<open>run: one consumer at a time; a failure resets \<open>running\<close> and is thrown. The last component is
  what went out.\<close>

definition run_events ::
  "json_lib \<Rightarrow> string option \<Rightarrow> (js_error, unit) result \<Rightarrow> read_reply list \<Rightarrow> queue_events
     \<Rightarrow> (js_error, unit) result \<times> queue_events \<times> consumed list" where
  "run_events J stk setName replies Q =
     (if qe_running Q then (Inl (new_err ErrorClass stk ''Queue Events is already running.''), Q, [])
      else case setName of
             Inl e \<Rightarrow> (Inl e, Q\<lparr>qe_running := False\<rparr>, [])
           | Inr _ \<Rightarrow>
               (case consumeEvents J replies (first_id Q) of
                  (out, cur, Some e) \<Rightarrow> (Inl e, Q\<lparr>qe_running := False\<rparr>, out)
                | (out, cur, None) \<Rightarrow> (Inr (), Q\<lparr>qe_running := True\<rparr>, out)))"

text \<open>close: disconnect, which interrupts the blocking read, then close the connection.\<close>

definition close_events ::
  "(js_error, unit) result \<Rightarrow> (js_error, unit) result \<Rightarrow> queue_events \<Rightarrow> (js_error, unit) result \<times> queue_events" where
  "close_events disconnect close Q = (bind_result disconnect (\<lambda>_. close), Q\<lparr>qe_closed := True\<rparr>)"

section \<open>Publishing\<close>

definition publish_fields :: "jsobj \<Rightarrow> jsobj" where
  "publish_fields argsObj = object_assign [(''event'', oprop argsObj ''eventName'')] (map_del ''eventName'' argsObj)"

section \<open>Delivery\<close>

text \<open>The server: \<open>XREAD\<close> answers with entries of the stream behind the given id, from the next one on;
  how many depends on what has been written so far. The id \<open>0\<close> stands for the beginning.\<close>

definition entries_after :: "string \<Rightarrow> stream_entry list \<Rightarrow> stream_entry list" where
  "entries_after cur S = (if cur = ''0'' then S else tl (dropWhile (\<lambda>e. fst e \<noteq> cur) S))"

definition reads_stream :: "stream_entry list \<Rightarrow> read_reply \<Rightarrow> bool" where
  "reads_stream S r \<longleftrightarrow> (\<forall>cur es. r cur = Inr (Some es) \<longrightarrow> prefix es (entries_after cur S))"

definition stream_ids :: "stream_entry list \<Rightarrow> bool" where
  "stream_ids S \<longleftrightarrow> distinct (map fst S) \<and> ''0'' \<notin> set (map fst S)"

definition decodable :: "json_lib \<Rightarrow> stream_entry \<Rightarrow> bool" where
  "decodable J e \<longleftrightarrow> (case decode_args J (fields_of (snd e)) of Inr _ \<Rightarrow> True | Inl _ \<Rightarrow> False)"

definition events_of :: "json_lib \<Rightarrow> stream_entry \<Rightarrow> local_event list" where
  "events_of J e = (case decode_args J (fields_of (snd e)) of Inr args \<Rightarrow> local_events J (fst e) args | Inl _ \<Rightarrow> [])"

definition delivered :: "consumed list \<Rightarrow> local_event list" where
  "delivered out = concat (map (\<lambda>c. case c of Local e \<Rightarrow> [e] | ReadFailed _ \<Rightarrow> []) out)"

lemma delivered_simps [simp]:
  "delivered [] = []" "delivered (a @ b) = delivered a @ delivered b" "delivered (map Local evs) = evs"
  "delivered (ReadFailed e # out) = delivered out"
  by (simp_all add: delivered_def) (induction evs; simp)

lemma dropWhile_nth:
  assumes "distinct (map fst S)" "k < length S"
  shows "dropWhile (\<lambda>e. fst e \<noteq> fst (S ! k)) S = drop k S"
  using assms
proof (induction S arbitrary: k)
  case (Cons e S)
  then show ?case
  proof (cases k)
    case (Suc j)
    then have "fst (S ! j) \<in> fst ` set S" using Cons.prems(2) by simp
    then show ?thesis using Cons Suc by auto
  qed simp
qed simp

lemma entries_after_nth:
  assumes "stream_ids S" "k < length S"
  shows "entries_after (fst (S ! k)) S = drop (Suc k) S"
proof -
  have "fst (S ! k) \<in> set (map fst S)" using assms(2) by simp
  then have "fst (S ! k) \<noteq> ''0''" using assms(1) unfolding stream_ids_def by metis
  then show ?thesis using assms dropWhile_nth[of S k] by (simp add: entries_after_def stream_ids_def drop_Suc tl_drop)
qed

text \<open>A batch of decodable entries is delivered whole, and the id moves behind it.\<close>

lemma consume_batch_ok:
  assumes "stream_ids S" "\<forall>e \<in> set S. decodable J e"
  shows "prefix es (drop k S) \<Longrightarrow> entries_after cur S = drop k S \<Longrightarrow>
    \<exists>cur1. consume_batch J es cur = (concat (map (events_of J) es), cur1, None) \<and> entries_after cur1 S = drop (k + length es) S"
proof (induction es arbitrary: k cur)
  case (Cons e es)
  then have k: "k < length S" by (cases "k < length S") auto
  then have e: "S ! k = e" "prefix es (drop (Suc k) S)" using Cons.prems(1) by (simp_all add: Cons_nth_drop_Suc[OF k, symmetric])
  obtain entry flat where ef: "e = (entry, flat)" by fastforce
  have "decodable J e" using assms(2) e(1) k nth_mem by blast
  then obtain args where "decode_args J (fields_of flat) = Inr args" by (auto simp: decodable_def ef split: sum.splits)
  moreover obtain cur1 where "consume_batch J es entry = (concat (map (events_of J) es), cur1, None)"
      "entries_after cur1 S = drop (Suc k + length es) S"
    using Cons.IH[OF e(2)] entries_after_nth[OF assms(1) k] e(1) ef by auto
  ultimately show ?case by (simp add: ef events_of_def[of J "(entry, flat)"])
qed simp

lemma consumeEvents_step:
  "(\<exists>e. r cur = Inl e) \<or> r cur = Inr None \<Longrightarrow>
   \<exists>failed. delivered failed = [] \<and> consumeEvents J (r # rs) cur
     = (case consumeEvents J rs cur of (out, cur2, err) \<Rightarrow> (failed @ out, cur2, err))"
  by (auto simp: checkConnectionError_def Let_def split: prod.splits intro: exI[of _ "[ReadFailed _]"])

lemma consumeEvents_position:
  assumes "stream_ids S" "\<forall>e \<in> set S. decodable J e"
  shows "\<forall>r \<in> set rs. reads_stream S r \<Longrightarrow> entries_after cur S = drop k S \<Longrightarrow>
    \<exists>out cur1 m. consumeEvents J rs cur = (out, cur1, None) \<and> delivered out = concat (map (events_of J) (take m (drop k S)))
      \<and> entries_after cur1 S = drop (k + m) S"
proof (induction rs arbitrary: cur k)
  case Nil
  then show ?case by (auto intro!: exI[of _ 0])
next
  case (Cons r rs)
  show ?case
  proof (cases "\<exists>es. r cur = Inr (Some es)")
    case False
    then have "(\<exists>e. r cur = Inl e) \<or> r cur = Inr None" by (cases "r cur") auto
    then obtain failed where f: "delivered failed = []" "consumeEvents J (r # rs) cur
        = (case consumeEvents J rs cur of (out, cur2, err) \<Rightarrow> (failed @ out, cur2, err))"
      using consumeEvents_step by blast
    obtain out cur1 m where "consumeEvents J rs cur = (out, cur1, None)"
        "delivered out = concat (map (events_of J) (take m (drop k S)))" "entries_after cur1 S = drop (k + m) S"
      using Cons.IH[OF _ Cons.prems(2)] Cons.prems(1) by auto
    then show ?thesis using f by auto
  next
    case True
    then obtain es where es: "r cur = Inr (Some es)" by blast
    then have pre: "prefix es (drop k S)" using Cons.prems unfolding reads_stream_def by (metis list.set_intros(1))
    obtain cur1 where b: "consume_batch J es cur = (concat (map (events_of J) es), cur1, None)"
        "entries_after cur1 S = drop (k + length es) S"
      using consume_batch_ok[OF assms pre Cons.prems(2)] by blast
    obtain out cur2 m where o: "consumeEvents J rs cur1 = (out, cur2, None)"
        "delivered out = concat (map (events_of J) (take m (drop (k + length es) S)))" "entries_after cur2 S = drop (k + length es + m) S"
      using Cons.IH[OF _ b(2)] Cons.prems(1) by auto
    obtain zs where "drop k S = es @ zs" using pre by (auto simp: prefix_def)
    then have zs: "take (length es + m) (drop k S) = es @ take m zs" "drop (k + length es) S = zs"
      by (simp_all add: add.commute[of k] flip: drop_drop)
    have "consumeEvents J (r # rs) cur = (map Local (concat (map (events_of J) es)) @ out, cur2, None)"
      using es b(1) o(1) by (simp add: checkConnectionError_def Let_def)
    moreover have "delivered (map Local (concat (map (events_of J) es)) @ out) = concat (map (events_of J) (take (length es + m) (drop k S)))"
      using o(2) zs by simp
    ultimately show ?thesis using o(3) by (metis add.assoc)
  qed
qed

lemma consumeEvents_append:
  assumes "consumeEvents J rs cur = (out, cur1, None)"
  shows "consumeEvents J (rs @ rs') cur = (case consumeEvents J rs' cur1 of (out', cur2, err) \<Rightarrow> (out @ out', cur2, err))"
  using assms
proof (induction rs arbitrary: cur out)
  case (Cons r rs)
  show ?case
  proof (cases "\<exists>es. r cur = Inr (Some es)")
    case True
    then obtain es where es: "r cur = Inr (Some es)" by blast
    obtain evs c err where b: "consume_batch J es cur = (evs, c, err)" by (cases "consume_batch J es cur") auto
    have e: "err = None" using Cons.prems es b by (cases err) (auto simp: checkConnectionError_def Let_def)
    obtain o1 c1 e1 where o: "consumeEvents J rs c = (o1, c1, e1)" by (cases "consumeEvents J rs c") auto
    then have "out = map Local evs @ o1" "c1 = cur1" "e1 = None" using Cons.prems es b e by (auto simp: checkConnectionError_def Let_def)
    then show ?thesis using Cons.IH[of c o1] o es b e by (auto simp: checkConnectionError_def Let_def split: prod.splits)
  next
    case False
    then have "(\<exists>e. r cur = Inl e) \<or> r cur = Inr None" by (cases "r cur") auto
    then show ?thesis using Cons by (auto simp: checkConnectionError_def Let_def split: prod.splits)
  qed
qed simp

section \<open>Claims\<close>


definition demo_stream :: "stream_entry list" where
  "demo_stream = [(''1-0'', [''event'', ''waiting'', ''jobId'', ''7'']), (''2-0'', [''event'', ''active'', ''jobId'', ''7'']),
     (''3-0'', [''event'', ''drained''])]"

definition plain_json :: json_lib where
  "plain_json = \<lparr>json_stringify = (\<lambda>v. Inr (Some ''0'')), json_parse = (\<lambda>s. if s = ''0'' then Inr (VNum 0) else Inl (new_err TypeErrorClass None ''JSON'')),
     num_to_string = (\<lambda>_. ''0''), date_millis = id\<rparr>"

text \<open>Two entries, a lost connection, nothing, then the rest.\<close>

definition demo_reads :: "read_reply list" where
  "demo_reads = [\<lambda>c. Inr (Some (take 2 (entries_after c demo_stream))), \<lambda>c. Inl (new_ConnectionClosedError None None), \<lambda>c. Inr None]"

lemma demo_reads_stream: "\<forall>r \<in> set demo_reads. reads_stream demo_stream r"
  by (auto simp: demo_reads_def reads_stream_def take_is_prefix)

lemma demo_stream_ok: "stream_ids demo_stream" "\<forall>e \<in> set demo_stream. decodable plain_json e"
  by (simp_all add: demo_stream_def stream_ids_def decodable_def decode_args_def fields_of_def array2obj_def field_val_def)


section \<open>Custom events\<close>

text \<open>The stream stores the fields as strings.\<close>

definition stored_fields :: "json_lib \<Rightarrow> jsobj \<Rightarrow> string list" where
  "stored_fields J obj = objectToFlatArray (map (\<lambda>(k, v). (k, Some (js_string J v))) obj)"

lemma stored_fields_inverse:
  assumes "map_wf obj" "\<forall>(k, v) \<in> set obj. \<exists>s. v = VStr s"
  shows "fields_of (stored_fields J obj) = obj"
proof -
  let ?m = "map (\<lambda>(k, v). (k, Some (js_string J v))) obj"
  have "map fst ?m = map fst obj" by (auto simp: case_prod_unfold)
  moreover have "\<forall>(k, v) \<in> set ?m. v \<noteq> None" by auto
  ultimately have "array2obj (objectToFlatArray ?m) = ?m" using assms(1) by (intro flat.dec_enc conjI) simp_all
  then show ?thesis
    using assms(2) by (auto simp: fields_of_def stored_fields_def field_val_def intro!: map_idI)
qed

lemma publish_fields_eq:
  assumes "map_wf argsObj" "''event'' \<notin> set (map fst argsObj)"
  shows "publish_fields argsObj = (''event'', oprop argsObj ''eventName'') # map_del ''eventName'' argsObj"
proof -
  let ?del = "map_del ''eventName'' argsObj"
  have "map_wf ?del" "''event'' \<notin> set (map fst ?del)" using assms by (auto simp: AList.delete_eq intro: map_fst_filter_distinct)
  then show ?thesis using fold_map_set_fresh[of ?del "[(''event'', oprop argsObj ''eventName'')]"]
    by (simp add: publish_fields_def object_assign_def)
qed

definition reserved_events :: "string list" where
  "reserved_events = [''progress'', ''completed'', ''delayed'', ''drained'']"

text \<open>What QueueEventsProducer publishes, QueueEvents delivers: a custom event whose name is not one
  the consumer treats specially and whose fields are strings arrives under its name with
  the same fields.\<close>

theorem publish_roundtrip:
  assumes "map_wf argsObj" and "\<forall>(k, v) \<in> set argsObj. \<exists>s. v = VStr s" and "''event'' \<notin> set (map fst argsObj)"
    and "oprop argsObj ''eventName'' = VStr name" and "name \<notin> set reserved_events"
  shows "\<exists>more_events. consume_batch J [(entry, stored_fields J (publish_fields argsObj))] cur
    = (\<lparr>le_name = name, le_args = Some (map_del ''eventName'' argsObj), le_id = entry\<rparr> # more_events, entry, None)"
proof -
  let ?f = "(''event'', VStr name) # map_del ''eventName'' argsObj"
  have wf: "map_wf ?f" "\<forall>(k, v) \<in> set ?f. \<exists>s. v = VStr s" using assms(1-3) by (auto simp: AList.delete_eq intro: map_fst_filter_distinct)
  have f: "fields_of (stored_fields J (publish_fields argsObj)) = ?f"
    using stored_fields_inverse[OF wf, of J] publish_fields_eq[OF assms(1,3)] assms(4) by simp
  have del: "map_del ''event'' ?f = map_del ''eventName'' argsObj"
    using assms(3) by (force simp: AList.delete_eq intro!: filter_cong)
  show ?thesis
    using assms(5) del f by (simp add: decode_args_def reserved_events_def local_events_def Let_def)
qed

theorem publish_roundtrip_witness:
  "\<exists>more_events. consume_batch plain_json
     [(''9-0'', stored_fields plain_json (publish_fields [(''eventName'', VStr ''paid''), (''order'', VStr ''12'')]))] ''8-0''
    = (\<lparr>le_name = ''paid'', le_args = Some (map_del ''eventName'' [(''eventName'', VStr ''paid''), (''order'', VStr ''12'')]), le_id = ''9-0''\<rparr>
        # more_events, ''9-0'', None)"
  by (rule publish_roundtrip) (simp_all add: reserved_events_def)

text \<open>C40. A custom event named \<open>progress\<close> without data ends every consumer of the queue: parsing its missing
  payload throws out of the loop, run rejects and nothing after the event is delivered.\<close>

theorem custom_event_stops_consumer:
  assumes "\<not> qe_running Q" and "json_parse J ''undefined'' = Inl e" and "\<forall>x \<in> set good. decodable J x"
  shows "run_events J stk (Inr ())
      [\<lambda>_. Inr (Some (good @ (entry, stored_fields J (publish_fields [(''eventName'', VStr ''progress'')])) # rest))] Q
    = (Inl e, Q, map Local (concat (map (events_of J) good)))"
proof -
  let ?bad = "(entry, stored_fields J (publish_fields [(''eventName'', VStr ''progress'')]))"
  have bad: "decode_args J (fields_of (snd ?bad)) = Inl e"
    using assms(2) stored_fields_inverse[of "[(''event'', VStr ''progress'')]" J] publish_fields_eq[of "[(''eventName'', VStr ''progress'')]"]
    by (simp add: AList.delete_eq decode_args_def parse_payload_def)
  have "consume_batch J (good @ ?bad # rest) cur = (concat (map (events_of J) good), entry, Some e)" for cur
    using assms(3)
  proof (induction good arbitrary: cur)
    case Nil
    then show ?case using bad by simp
  next
    case (Cons x good)
    then show ?case by (cases x) (auto simp: decodable_def events_of_def split: sum.splits)
  qed
  moreover have "Q\<lparr>qe_running := False\<rparr> = Q" using assms(1) by simp
  ultimately show ?thesis using assms(1) by (simp add: run_events_def checkConnectionError_def Let_def)
qed

theorem custom_event_stops_consumer_witness:
  "run_events plain_json None (Inr ())
      [\<lambda>_. Inr (Some (demo_stream @ (''4-0'', stored_fields plain_json (publish_fields [(''eventName'', VStr ''progress'')])) # demo_stream))]
      \<lparr>qe_running = False, qe_lastEventId = Some ''0'', qe_closed = False\<rparr>
    = (Inl (new_err TypeErrorClass None ''JSON''), \<lparr>qe_running = False, qe_lastEventId = Some ''0'', qe_closed = False\<rparr>,
       map Local (concat (map (events_of plain_json) demo_stream)))"
  by (rule custom_event_stops_consumer) (use demo_stream_ok(2) in \<open>simp_all add: plain_json_def\<close>)

end
