(* ===== verification/Sandbox_Protocol.thy ===== *)
theory Sandbox_Protocol
  imports Worker Js_Strings
begin

text \<open>
  Sandboxed processors: the messages between a worker and a child that runs the processor.
  src/classes/child-processor.ts is the child's side (init, start, cancel, the proxies of the job's
  methods, waitResponse), src/classes/sandbox.ts the message handler of the parent's side,
  src/classes/main-base.ts the dispatch in the child. Loading the processor file and running the
  processor are parameters. Messages are JSON values that the channel copies faithfully.
\<close>

section \<open>Messages\<close>

datatype child_command =
    CInit | CStart | CStop | CGetChildrenValuesResponse | CGetIgnoredChildrenFailuresResponse
  | CGetDependenciesCountResponse | CMoveToWaitingChildrenResponse | CCancel | CGetDependenciesResponse

datatype parent_command =
    PCompleted | PError | PFailed | PInitFailed | PInitCompleted | PLog | PMoveToDelayed | PMoveToWait | PProgress | PUpdate
  | PGetChildrenValues | PGetIgnoredChildrenFailures | PGetDependenciesCount | PMoveToWaitingChildren | PGetDependencies

record parent_message =
  pm_cmd :: parent_command
  pm_requestId :: "string option"
  pm_value :: jsval
  pm_err :: jsval

record child_message =
  chm_cmd :: child_command
  chm_requestId :: "string option"
  chm_value :: jsval

definition to_parent :: "parent_command \<Rightarrow> jsval \<Rightarrow> parent_message" where
  "to_parent cmd v = \<lparr>pm_cmd = cmd, pm_requestId = None, pm_value = v, pm_err = VUndef\<rparr>"

definition request :: "string \<Rightarrow> parent_command \<Rightarrow> jsval \<Rightarrow> parent_message" where
  "request rid cmd v = \<lparr>pm_cmd = cmd, pm_requestId = Some rid, pm_value = v, pm_err = VUndef\<rparr>"

definition error_to_parent :: "parent_command \<Rightarrow> jsval \<Rightarrow> parent_message" where
  "error_to_parent cmd v = \<lparr>pm_cmd = cmd, pm_requestId = None, pm_value = VUndef, pm_err = v\<rparr>"

section \<open>Errors\<close>

text \<open>errorToJSON copies the own properties of an error: its stack and message; the error classes of the
  library also set \<open>name\<close>. The codes of the library are numbers.\<close>

definition own_name :: "js_error \<Rightarrow> bool" where
  "own_name e \<longleftrightarrow> err_class e \<noteq> ErrorClass \<and> err_class e \<noteq> TypeErrorClass"

definition code_val :: "err_code \<Rightarrow> jsval" where
  "code_val c = (case c of NumCode i \<Rightarrow> VNum (of_int i) | StrCode s \<Rightarrow> VStr s)"

definition errorToJSON :: "js_error \<Rightarrow> jsval" where
  "errorToJSON e =
     VObj ((case err_stack e of Some s \<Rightarrow> [(''stack'', VStr s)] | None \<Rightarrow> [])
       @ [(''message'', VStr (err_message e))]
       @ (if own_name e then [(''name'', VStr (err_name e))] else [])
       @ (case err_code e of Some c \<Rightarrow> [(''code'', code_val c)] | None \<Rightarrow> []))"

text \<open>\<open>Object.assign(new Error(), v)\<close>.\<close>

definition str_or :: "string \<Rightarrow> jsval \<Rightarrow> string" where
  "str_or d v = (case v of VStr s \<Rightarrow> s | _ \<Rightarrow> d)"

definition code_of_val :: "jsval \<Rightarrow> err_code option" where
  "code_of_val v = (case v of VNum n \<Rightarrow> Some (NumCode \<lfloor>n\<rfloor>) | VStr s \<Rightarrow> Some (StrCode s) | _ \<Rightarrow> None)"

definition assign_error :: "jsval \<Rightarrow> js_error" where
  "assign_error v =
     \<lparr>err_class = ErrorClass, err_name = str_or ''Error'' (vprop v ''name''), err_message = str_or [] (vprop v ''message''),
      err_stack = str_of (vprop v ''stack''), err_code = code_of_val (vprop v ''code'')\<rparr>"

text \<open>What the child sends for an error: one without a message is wrapped into a new error whose message
  is the text of the original.\<close>

definition failure_of :: "js_error \<Rightarrow> js_error" where
  "failure_of e = (if err_message e = [] then new_err ErrorClass None (err_name e) else e)"

section \<open>The child\<close>

datatype child_status = Idle | Started | Terminating | Errored

text \<open>The default export of the processor file: nothing, a function or another value, each possibly
  with a \<open>default\<close> property of its own.\<close>

datatype exported = NoExport | Exported bool "exported option"

fun is_function :: "exported \<Rightarrow> bool" where
  "is_function NoExport = False"
| "is_function (Exported f _) = f"

definition resolve_export :: "string option \<Rightarrow> exported \<Rightarrow> (js_error, unit) result" where
  "resolve_export stk x =
     (case x of
        NoExport \<Rightarrow> Inl (new_err TypeErrorClass stk ''Cannot read properties of undefined (reading default)'')
      | Exported _ d \<Rightarrow>
          let p = (case d of Some y \<Rightarrow> if y = NoExport then x else y | None \<Rightarrow> x) in
          if is_function p then Inr () else Inl (new_err ErrorClass stk ''No function is exported in processor file''))"

record child_processor =
  cp_status :: "child_status option"
  cp_processor :: bool
  cp_abort :: bool
  cp_exited :: bool

text \<open>init: a child that cannot load its processor reports it and exits.\<close>

definition init_child :: "string option \<Rightarrow> (js_error, exported) result \<Rightarrow> child_processor \<Rightarrow> parent_message list \<times> child_processor" where
  "init_child stk loaded cp =
     (case bind_result loaded (resolve_export stk) of
        Inl e \<Rightarrow> ([error_to_parent PInitFailed (errorToJSON e)], cp\<lparr>cp_status := Some Errored, cp_exited := True\<rparr>)
      | Inr _ \<Rightarrow> ([to_parent PInitCompleted VUndef], cp\<lparr>cp_processor := True, cp_status := Some Idle\<rparr>))"

text \<open>start: the job runs if the child is idle; \<open>finish_job\<close> is the rest of it, when the processor has
  ended.\<close>

definition start_child :: "string option \<Rightarrow> child_processor \<Rightarrow> parent_message list \<times> child_processor \<times> bool" where
  "start_child stk cp =
     (if cp_status cp \<noteq> Some Idle
      then ([error_to_parent PError (errorToJSON (new_err ErrorClass stk ''cannot start a not idling child process''))], cp, False)
      else ([], cp\<lparr>cp_status := Some Started, cp_abort := True\<rparr>, True))"

definition finish_job :: "(js_error, jsval) result \<Rightarrow> child_processor \<Rightarrow> parent_message list \<times> child_processor" where
  "finish_job r cp =
     ([case r of
         Inr v \<Rightarrow> to_parent PCompleted (if v = VUndef then VNull else v)
       | Inl e \<Rightarrow> to_parent PFailed (errorToJSON (failure_of e))],
      cp\<lparr>cp_status := Some Idle, cp_abort := False\<rparr>)"

text \<open>waitForCurrentJobAndExit, the reaction to SIGTERM and SIGINT; the exit follows when no job runs.\<close>

definition terminate_child :: "child_processor \<Rightarrow> child_processor" where
  "terminate_child cp = cp\<lparr>cp_status := Some Terminating\<rparr>"

text \<open>An uncaught exception is reported as a failure; then the process exits.\<close>

definition uncaught :: "js_error \<Rightarrow> child_processor \<Rightarrow> parent_message list \<times> child_processor" where
  "uncaught e cp = ([to_parent PFailed (errorToJSON e)], cp\<lparr>cp_exited := True\<rparr>)"

section \<open>Proxies of the job's methods\<close>

datatype job_call =
    UpdateProgress jsval | LogRow jsval | MoveToDelayedCall jsval jsval | MoveToWaitCall jsval
  | MoveToWaitingChildrenCall jsval jsval | UpdateData jsval | GetChildrenValues | GetIgnoredChildrenFailures
  | GetDependenciesCount jsval | GetDependencies jsval

fun proxy_message :: "string \<Rightarrow> job_call \<Rightarrow> parent_message" where
  "proxy_message rid (UpdateProgress p) = to_parent PProgress p"
| "proxy_message rid (LogRow row) = to_parent PLog row"
| "proxy_message rid (MoveToDelayedCall timestamp token) = to_parent PMoveToDelayed (VObj [(''timestamp'', timestamp), (''token'', token)])"
| "proxy_message rid (MoveToWaitCall token) = to_parent PMoveToWait (VObj [(''token'', token)])"
| "proxy_message rid (MoveToWaitingChildrenCall token opts) = request rid PMoveToWaitingChildren (VObj [(''token'', token), (''opts'', opts)])"
| "proxy_message rid (UpdateData v) = to_parent PUpdate v"
| "proxy_message rid GetChildrenValues = request rid PGetChildrenValues VUndef"
| "proxy_message rid GetIgnoredChildrenFailures = request rid PGetIgnoredChildrenFailures VUndef"
| "proxy_message rid (GetDependenciesCount opts) = request rid PGetDependenciesCount opts"
| "proxy_message rid (GetDependencies opts) = request rid PGetDependencies opts"

text \<open>Calls with an answer wait for it.\<close>

fun awaits_response :: "job_call \<Rightarrow> bool" where
  "awaits_response (MoveToWaitingChildrenCall _ _) = True"
| "awaits_response GetChildrenValues = True"
| "awaits_response GetIgnoredChildrenFailures = True"
| "awaits_response (GetDependenciesCount _) = True"
| "awaits_response (GetDependencies _) = True"
| "awaits_response _ = False"

text \<open>The fields that the proxies keep in the child's copy of the job.\<close>

definition proxy_local :: "job_call \<Rightarrow> jsobj \<Rightarrow> jsobj" where
  "proxy_local c wrapped =
     (case c of
        UpdateProgress p \<Rightarrow> map_set ''progress'' p wrapped
      | UpdateData v \<Rightarrow> map_set ''data'' v wrapped
      | _ \<Rightarrow> wrapped)"

definition wrapJob :: "json_lib \<Rightarrow> jsobj \<Rightarrow> (js_error, jsobj) result" where
  "wrapJob J job =
     (let text_of = (\<lambda>k. if truthy (oprop job k) then js_string J (oprop job k) else ''{}'') in
      bind_result (json_parse J (text_of ''data'')) (\<lambda>data.
      bind_result (json_parse J (text_of ''returnvalue'')) (\<lambda>ret.
        Inr (map_set ''returnValue'' ret (map_set ''data'' data job)))))"

text \<open>waitResponse: a listener for the id of the request and a timer. The first of both settles the
  promise; the timer is not cleared.\<close>

datatype response_event = Arrives child_message | TimesOut

datatype 'a awaited = Pending | Settled "(js_error, 'a) result"

definition waitResponse_step :: "string option \<Rightarrow> string \<Rightarrow> string \<Rightarrow> response_event \<Rightarrow> jsval awaited \<times> bool \<Rightarrow> jsval awaited \<times> bool" where
  "waitResponse_step stk rid cmd ev st =
     (case st of (p, listening) \<Rightarrow>
        (case ev of
           Arrives m \<Rightarrow>
             if listening \<and> chm_requestId m = Some rid
             then (case p of Pending \<Rightarrow> Settled (Inr (chm_value m)) | _ \<Rightarrow> p, False) else st
         | TimesOut \<Rightarrow>
             (case p of Pending \<Rightarrow> Settled (Inl (new_err ErrorClass stk (''TimeoutError: '' @ cmd @ '' timed out in (5000ms)''))) | _ \<Rightarrow> p,
              False)))"

definition waitResponse :: "string option \<Rightarrow> string \<Rightarrow> string \<Rightarrow> response_event list \<Rightarrow> jsval awaited" where
  "waitResponse stk rid cmd evs = fst (fold (waitResponse_step stk rid cmd) evs (Pending, True))"

section \<open>The parent's message handler\<close>

text \<open>The methods of the job object in the parent, on a world \<open>'w\<close>.\<close>

type_synonym 'w job_method = "'w \<Rightarrow> (js_error, jsval) result \<times> 'w"

record 'w sandboxed_job =
  sj_updateProgress :: "jsval \<Rightarrow> 'w job_method"
  sj_log :: "jsval \<Rightarrow> 'w job_method"
  sj_moveToDelayed :: "jsval \<Rightarrow> jsval \<Rightarrow> 'w job_method"
  sj_moveToWait :: "jsval \<Rightarrow> 'w job_method"
  sj_moveToWaitingChildren :: "jsval \<Rightarrow> jsval \<Rightarrow> 'w job_method"
  sj_updateData :: "jsval \<Rightarrow> 'w job_method"
  sj_getChildrenValues :: "'w job_method"
  sj_getIgnoredChildrenFailures :: "'w job_method"
  sj_getDependenciesCount :: "jsval \<Rightarrow> 'w job_method"
  sj_getDependencies :: "jsval \<Rightarrow> 'w job_method"

datatype handled = Resolve jsval | Reject js_error | Continue | Respond child_message

text \<open>A method whose answer is not needed, and one whose answer is sent back. A method that rejects
  rejects the job.\<close>

definition run_method :: "'w job_method \<Rightarrow> 'w \<Rightarrow> handled \<times> 'w" where
  "run_method m w = (case m w of (Inl e, w1) \<Rightarrow> (Reject e, w1) | (Inr _, w1) \<Rightarrow> (Continue, w1))"

definition answer :: "string option \<Rightarrow> child_command \<Rightarrow> 'w job_method \<Rightarrow> 'w \<Rightarrow> handled \<times> 'w" where
  "answer rid cmd m w =
     (case m w of
        (Inl e, w1) \<Rightarrow> (Reject e, w1)
      | (Inr v, w1) \<Rightarrow> (Respond \<lparr>chm_cmd = cmd, chm_requestId = rid, chm_value = v\<rparr>, w1))"

definition msgHandler :: "'w sandboxed_job \<Rightarrow> parent_message \<Rightarrow> 'w \<Rightarrow> handled \<times> 'w" where
  "msgHandler J m w =
     (let v = pm_value m; rid = pm_requestId m in
      case pm_cmd m of
        PCompleted \<Rightarrow> (Resolve v, w)
      | PFailed \<Rightarrow> (Reject (assign_error (nullish_or v (pm_err m))), w)
      | PError \<Rightarrow> (Reject (assign_error (nullish_or v (pm_err m))), w)
      | PProgress \<Rightarrow> run_method (sj_updateProgress J v) w
      | PLog \<Rightarrow> run_method (sj_log J v) w
      | PMoveToDelayed \<Rightarrow> run_method (sj_moveToDelayed J (vprop v ''timestamp'') (vprop v ''token'')) w
      | PMoveToWait \<Rightarrow> run_method (sj_moveToWait J (vprop v ''token'')) w
      | PMoveToWaitingChildren \<Rightarrow> answer rid CMoveToWaitingChildrenResponse (sj_moveToWaitingChildren J (vprop v ''token'') (vprop v ''opts'')) w
      | PUpdate \<Rightarrow> run_method (sj_updateData J v) w
      | PGetChildrenValues \<Rightarrow> answer rid CGetChildrenValuesResponse (sj_getChildrenValues J) w
      | PGetIgnoredChildrenFailures \<Rightarrow> answer rid CGetIgnoredChildrenFailuresResponse (sj_getIgnoredChildrenFailures J) w
      | PGetDependenciesCount \<Rightarrow> answer rid CGetDependenciesCountResponse (sj_getDependenciesCount J v) w
      | PGetDependencies \<Rightarrow> answer rid CGetDependenciesResponse (sj_getDependencies J v) w
      | PInitFailed \<Rightarrow> (Continue, w)
      | PInitCompleted \<Rightarrow> (Continue, w))"

section \<open>Claims\<close>

text \<open>The call a proxy stands for, made directly on the job.\<close>

fun direct_call :: "'w sandboxed_job \<Rightarrow> job_call \<Rightarrow> 'w job_method" where
  "direct_call J (UpdateProgress p) = sj_updateProgress J p"
| "direct_call J (LogRow row) = sj_log J row"
| "direct_call J (MoveToDelayedCall timestamp token) = sj_moveToDelayed J timestamp token"
| "direct_call J (MoveToWaitCall token) = sj_moveToWait J token"
| "direct_call J (MoveToWaitingChildrenCall token opts) = sj_moveToWaitingChildren J token opts"
| "direct_call J (UpdateData v) = sj_updateData J v"
| "direct_call J GetChildrenValues = sj_getChildrenValues J"
| "direct_call J GetIgnoredChildrenFailures = sj_getIgnoredChildrenFailures J"
| "direct_call J (GetDependenciesCount opts) = sj_getDependenciesCount J opts"
| "direct_call J (GetDependencies opts) = sj_getDependencies J opts"

lemma msgHandler_proxy:
  "msgHandler J (proxy_message rid c) w =
     (case direct_call J c w of
        (Inl e, w1) \<Rightarrow> (Reject e, w1)
      | (Inr v, w1) \<Rightarrow>
          (if awaits_response c then fst (answer (Some rid) (case c of
               MoveToWaitingChildrenCall _ _ \<Rightarrow> CMoveToWaitingChildrenResponse
             | GetChildrenValues \<Rightarrow> CGetChildrenValuesResponse
             | GetIgnoredChildrenFailures \<Rightarrow> CGetIgnoredChildrenFailuresResponse
             | GetDependenciesCount _ \<Rightarrow> CGetDependenciesCountResponse
             | _ \<Rightarrow> CGetDependenciesResponse) (\<lambda>_. (Inr v, ())) ()) else Continue, w1))"
  by (cases c) (auto simp: msgHandler_def Let_def to_parent_def request_def run_method_def answer_def split: prod.splits sum.splits)

lemma waitResponse_ignores:
  "\<forall>m \<in> set others. chm_requestId m \<noteq> Some rid \<Longrightarrow> fold (waitResponse_step stk rid cmd) (map Arrives others) (Pending, True) = (Pending, True)"
  by (induction others) (auto simp: waitResponse_step_def)

lemma waitResponse_settled:
  "fst (fold (waitResponse_step stk rid cmd) later (Settled r, b)) = Settled r"
  by (induction later arbitrary: b) (auto simp: waitResponse_step_def split: response_event.splits)

text \<open>C28. The proxies are transparent: a call of a method on the sandboxed job makes the call on the job in
  the parent with the same arguments. If that succeeds, a call with an answer resolves in the
  child to the value the method returned, whatever answers to other requests arrive first
  and whatever comes later, the timer included; if it rejects, the job fails with that error.\<close>

theorem sandbox_calls_transparent:
  assumes "\<forall>m \<in> set others. chm_requestId m \<noteq> Some rid"
  shows "case direct_call J c w of
      (Inl e, w1) \<Rightarrow> msgHandler J (proxy_message rid c) w = (Reject e, w1)
    | (Inr v, w1) \<Rightarrow>
        if awaits_response c
        then \<exists>m. msgHandler J (proxy_message rid c) w = (Respond m, w1)
               \<and> waitResponse stk rid cmd (map Arrives others @ Arrives m # later) = Settled (Inr v)
        else msgHandler J (proxy_message rid c) w = (Continue, w1)"
proof -
  have "waitResponse stk rid cmd (map Arrives others @ Arrives m # later) = Settled (Inr v)"
    if "chm_requestId m = Some rid" "chm_value m = v" for m v
    using that waitResponse_ignores[OF assms, of stk cmd] waitResponse_settled[of stk rid cmd later "Inr v" False]
    by (simp add: waitResponse_def waitResponse_step_def)
  then show ?thesis
    by (cases "direct_call J c w"; cases "fst (direct_call J c w)") (auto simp: msgHandler_proxy answer_def)
qed

definition counting_job :: "nat sandboxed_job" where
  "counting_job = \<lparr>sj_updateProgress = (\<lambda>v n. (Inr VUndef, Suc n)), sj_log = (\<lambda>v n. (Inr VUndef, n)),
     sj_moveToDelayed = (\<lambda>a b n. (Inr VUndef, n)), sj_moveToWait = (\<lambda>a n. (Inr VUndef, n)),
     sj_moveToWaitingChildren = (\<lambda>a b n. (Inr (VBool True), n)), sj_updateData = (\<lambda>v n. (Inr VUndef, n)),
     sj_getChildrenValues = (\<lambda>n. (Inr (VNum (real n)), n)), sj_getIgnoredChildrenFailures = (\<lambda>n. (Inr (VObj []), n)),
     sj_getDependenciesCount = (\<lambda>p n. (Inr (VObj []), n)), sj_getDependencies = (\<lambda>p n. (Inr (VObj []), n))\<rparr>"

definition other_answer :: child_message where
  "other_answer = \<lparr>chm_cmd = CGetDependenciesResponse, chm_requestId = Some ''x'', chm_value = VNull\<rparr>"

theorem sandbox_calls_transparent_witness:
  "\<exists>m. msgHandler counting_job (proxy_message ''r'' GetChildrenValues) 3 = (Respond m, 3)
     \<and> waitResponse None ''r'' ''getChildrenValues'' (map Arrives [other_answer] @ Arrives m # [TimesOut]) = Settled (Inr (VNum 3))"
  using sandbox_calls_transparent[of "[other_answer]" "''r''" counting_job GetChildrenValues 3 None "''getChildrenValues''" "[TimesOut]"]
  by (simp add: other_answer_def counting_job_def)

text \<open>An error thrown in the sandbox is handled by the worker like the same error thrown by an
  in-process processor: message, name, stack and code arrive unchanged, so the worker parks the
  job, retries it or gives it up for the same errors.\<close>

theorem sandbox_errors_preserved:
  assumes "err_name e = class_name (err_class e)" and "err_message e \<noteq> []"
  shows "\<exists>e1. fst (msgHandler J (hd (fst (finish_job (Inl e) cp))) w) = Reject e1
    \<and> err_message e1 = err_message e \<and> err_stack e1 = err_stack e \<and> err_code e1 = err_code e
    \<and> parks_job e1 = parks_job e \<and> recoverable e1 = recoverable e"
proof -
  let ?e1 = "assign_error (errorToJSON e)"
  have "str_or ''Error'' (vprop (errorToJSON e) ''name'') = (if own_name e then err_name e else ''Error'')"
    "vprop (errorToJSON e) ''message'' = VStr (err_message e)"
    by (auto simp: errorToJSON_def str_or_def code_val_def split: option.splits err_code.splits)
  then have name: "err_name ?e1 = (if own_name e then err_name e else ''Error'')" "err_message ?e1 = err_message e"
    by (simp_all add: assign_error_def str_or_def)
  have stack: "err_stack ?e1 = err_stack e" by (auto simp: assign_error_def errorToJSON_def split: option.splits)
  have code: "err_code ?e1 = err_code e"
    by (auto simp: assign_error_def errorToJSON_def code_val_def code_of_val_def split: option.splits err_code.splits)
  have "parks_job ?e1 = parks_job e" "recoverable ?e1 = recoverable e"
    using assms(1) name(1)
    by (cases "err_class e"; simp add: parks_job_def recoverable_def own_name_def assign_error_def)+
  then have "err_message ?e1 = err_message e \<and> err_stack ?e1 = err_stack e \<and> err_code ?e1 = err_code e
      \<and> parks_job ?e1 = parks_job e \<and> recoverable ?e1 = recoverable e" using name stack code by blast
  moreover have "fst (msgHandler J (hd (fst (finish_job (Inl e) cp))) w) = Reject ?e1"
    using assms(2) by (simp add: finish_job_def failure_of_def msgHandler_def Let_def to_parent_def errorToJSON_def)
  ultimately show ?thesis by blast
qed

theorem sandbox_errors_preserved_witness:
  "\<exists>e1. fst (msgHandler counting_job (hd (fst (finish_job (Inl (new_DelayedError None None))
          \<lparr>cp_status = Some Started, cp_processor = True, cp_abort = True, cp_exited = False\<rparr>))) 0) = Reject e1
    \<and> err_message e1 = err_message (new_DelayedError None None) \<and> err_stack e1 = err_stack (new_DelayedError None None)
    \<and> err_code e1 = err_code (new_DelayedError None None)
    \<and> parks_job e1 = parks_job (new_DelayedError None None) \<and> recoverable e1 = recoverable (new_DelayedError None None)"
  by (rule sandbox_errors_preserved) (simp_all add: new_DelayedError_def new_err_def with_default_def DELAYED_ERROR_def)

end
