(* ===== verification/Sandbox_Pool.thy ===== *)
theory Sandbox_Pool
  imports Sandbox_Protocol
begin

text \<open>
  The pool of children (src/classes/child-pool.ts), the processor that a worker runs for a
  sandboxed job (src/classes/sandbox.ts) and the life of a child as its parent sees it
  (src/classes/child.ts), composed with the protocol of Sandbox_Protocol into one machine. The two
  directions of the channel between parent and child are queues; a step is one event of either
  side. Children are numbered in the order of their creation, and so are the calls of the
  processor, one per job. Every message to the parent is tagged with the call whose job the
  child was running when it was sent, and every cancellation that takes effect is recorded with
  the call that was aborted and the call whose job got it; neither is part of the program.
\<close>

section \<open>The pool\<close>

record child_pool =
  pl_retained :: "nat list"
  pl_free :: "(string, nat list) jsmap"

definition getFree :: "string \<Rightarrow> child_pool \<Rightarrow> nat list" where
  "getFree processFile P = with_default [] (map_get (pl_free P) processFile)"

definition set_free :: "string \<Rightarrow> nat list \<Rightarrow> child_pool \<Rightarrow> child_pool" where
  "set_free processFile cs P = P\<lparr>pl_free := map_set processFile cs (pl_free P)\<rparr>"

definition retained_add :: "nat \<Rightarrow> child_pool \<Rightarrow> child_pool" where
  "retained_add pid P = P\<lparr>pl_retained := (if pid \<in> set (pl_retained P) then pl_retained P else pl_retained P @ [pid])\<rparr>"

definition retained_delete :: "nat \<Rightarrow> child_pool \<Rightarrow> child_pool" where
  "retained_delete pid P = P\<lparr>pl_retained := filter (\<lambda>q. q \<noteq> pid) (pl_retained P)\<rparr>"

text \<open>retain: the free child that was released last, if there is one.\<close>

definition retain_free :: "string \<Rightarrow> child_pool \<Rightarrow> nat option \<times> child_pool" where
  "retain_free processFile P =
     (let cs = getFree processFile P in
      if cs = [] then (None, set_free processFile [] P)
      else (Some (last cs), retained_add (last cs) (set_free processFile (butlast cs) P)))"

definition release :: "nat \<Rightarrow> string \<Rightarrow> child_pool \<Rightarrow> child_pool" where
  "release pid processFile P =
     (let P1 = retained_delete pid P in set_free processFile (getFree processFile P1 @ [pid]) P1)"

definition remove_child :: "nat \<Rightarrow> string \<Rightarrow> child_pool \<Rightarrow> child_pool" where
  "remove_child pid processFile P =
     (let P1 = retained_delete pid P in set_free processFile (remove1 pid (getFree processFile P1)) P1)"

definition getAllFree :: "child_pool \<Rightarrow> nat list" where
  "getAllFree P = concat (map snd (pl_free P))"

text \<open>clean empties the pool and returns the children to be terminated.\<close>

definition clean_pool :: "child_pool \<Rightarrow> nat list \<times> child_pool" where
  "clean_pool P = (pl_retained P @ getAllFree P, P\<lparr>pl_retained := [], pl_free := []\<rparr>)"

section \<open>Children and calls\<close>

datatype to_child = InStart nat | InCancel nat | InResponse child_message

record child =
  ch_file :: string
  ch_proc :: child_processor
  ch_current :: "nat option"
  ch_cancelled :: "(nat \<times> nat) list"
  ch_inbox :: "to_child list"
  ch_outbox :: "(nat option \<times> parent_message) list"
  ch_exited :: bool

text \<open>A call holds_child a child until its promise is settled; the second argument of \<open>Over\<close> is the tag of the
  message that settled it.\<close>

datatype call_phase = Holding nat | Over "(js_error, jsval) result" "nat option"

record sandbox =
  sb_pool :: child_pool
  sb_children :: "child list"
  sb_calls :: "call_phase list"

definition sandbox_start :: sandbox where
  "sandbox_start = \<lparr>sb_pool = \<lparr>pl_retained = [], pl_free = []\<rparr>, sb_children = [], sb_calls = []\<rparr>"

definition new_child :: "string \<Rightarrow> child" where
  "new_child processFile =
     \<lparr>ch_file = processFile, ch_proc = \<lparr>cp_status = Some Idle, cp_processor = True, cp_abort = False, cp_exited = False\<rparr>,
      ch_current = None, ch_cancelled = [], ch_inbox = [], ch_outbox = [], ch_exited = False\<rparr>"

definition upd_child :: "nat \<Rightarrow> (child \<Rightarrow> child) \<Rightarrow> sandbox \<Rightarrow> sandbox" where
  "upd_child pid f s = s\<lparr>sb_children := (sb_children s)[pid := f (sb_children s ! pid)]\<rparr>"

definition to_inbox :: "to_child \<Rightarrow> child \<Rightarrow> child" where
  "to_inbox m c = c\<lparr>ch_inbox := ch_inbox c @ [m]\<rparr>"

definition to_outbox :: "nat option \<Rightarrow> parent_message list \<Rightarrow> child \<Rightarrow> child" where
  "to_outbox tag ms c = c\<lparr>ch_outbox := ch_outbox c @ map (Pair tag) ms\<rparr>"

section \<open>The processor of a sandboxed job\<close>

text \<open>process: retain a child, or make one (\<open>init\<close> is how its initialisation ends; a child that
  fails is killed and never enters the pool), then send it the job.\<close>

definition process_call :: "string \<Rightarrow> (js_error, unit) result \<Rightarrow> sandbox \<Rightarrow> sandbox" where
  "process_call processFile init s =
     (let i = length (sb_calls s) in
      case retain_free processFile (sb_pool s) of
        (Some pid, P) \<Rightarrow>
          upd_child pid (to_inbox (InStart i)) (s\<lparr>sb_pool := P, sb_calls := sb_calls s @ [Holding pid]\<rparr>)
      | (None, P) \<Rightarrow>
          (case init of
             Inl e \<Rightarrow> s\<lparr>sb_pool := P, sb_calls := sb_calls s @ [Over (Inl e) None]\<rparr>
           | Inr _ \<Rightarrow>
               let pid = length (sb_children s)
               in s\<lparr>sb_pool := retained_add pid P, sb_children := sb_children s @ [to_inbox (InStart i) (new_child processFile)],
                    sb_calls := sb_calls s @ [Holding pid]\<rparr>))"

definition holder :: "nat \<Rightarrow> sandbox \<Rightarrow> nat option" where
  "holder pid s = List.find (\<lambda>i. sb_calls s ! i = Holding pid) [0..<length (sb_calls s)]"

text \<open>The promise of call \<open>i\<close> settles: its handlers are removed, and the child is released unless it has
  exited.\<close>

definition settle_call :: "nat \<Rightarrow> nat \<Rightarrow> (js_error, jsval) result \<Rightarrow> nat option \<Rightarrow> sandbox \<Rightarrow> sandbox" where
  "settle_call i pid r tag s =
     s\<lparr>sb_calls := (sb_calls s)[i := Over r tag],
       sb_pool := (let c = sb_children s ! pid in if \<not> ch_exited c then release pid (ch_file c) (sb_pool s) else sb_pool s)\<rparr>"

text \<open>A job all of whose methods end with the given result.\<close>

definition uniform_job :: "(js_error, jsval) result \<Rightarrow> unit sandboxed_job" where
  "uniform_job r =
     \<lparr>sj_updateProgress = (\<lambda>_ w. (r, w)), sj_log = (\<lambda>_ w. (r, w)), sj_moveToDelayed = (\<lambda>_ _ w. (r, w)),
      sj_moveToWait = (\<lambda>_ w. (r, w)), sj_moveToWaitingChildren = (\<lambda>_ _ w. (r, w)), sj_updateData = (\<lambda>_ w. (r, w)),
      sj_getChildrenValues = (\<lambda>w. (r, w)), sj_getIgnoredChildrenFailures = (\<lambda>w. (r, w)),
      sj_getDependenciesCount = (\<lambda>_ w. (r, w)), sj_getDependencies = (\<lambda>_ w. (r, w))\<rparr>"

text \<open>A message of the child arrives; \<open>r\<close> is how the method it asks for ends. Without a handler it is
  lost.\<close>

definition parent_gets :: "nat \<Rightarrow> (js_error, jsval) result \<Rightarrow> sandbox \<Rightarrow> sandbox" where
  "parent_gets pid r s =
     (case ch_outbox (sb_children s ! pid) of
        [] \<Rightarrow> s
      | (tag, m) # rest \<Rightarrow>
          let s1 = upd_child pid (\<lambda>c. c\<lparr>ch_outbox := rest\<rparr>) s in
          case holder pid s of
            None \<Rightarrow> s1
          | Some i \<Rightarrow>
              (case fst (msgHandler (uniform_job r) m ()) of
                 Resolve v \<Rightarrow> settle_call i pid (Inr v) tag s1
               | Reject e \<Rightarrow> settle_call i pid (Inl e) tag s1
               | Continue \<Rightarrow> s1
               | Respond a \<Rightarrow> upd_child pid (to_inbox (InResponse a)) s1))"

definition exit_error :: js_error where
  "exit_error = new_err ErrorClass None ''Unexpected exit code''"

text \<open>The exit of a child: it leaves the pool, its listeners are told and removed.\<close>

definition child_exits :: "nat \<Rightarrow> sandbox \<Rightarrow> sandbox" where
  "child_exits pid s =
     (let s1 = upd_child pid (\<lambda>c. c\<lparr>ch_exited := True, ch_proc := (ch_proc c)\<lparr>cp_exited := True\<rparr>, ch_outbox := []\<rparr>) s;
          s2 = s1\<lparr>sb_pool := remove_child pid (ch_file (sb_children s ! pid)) (sb_pool s1)\<rparr>
      in case holder pid s of Some i \<Rightarrow> settle_call i pid (Inl exit_error) None s2 | None \<Rightarrow> s2)"

section \<open>The child's side\<close>

definition child_gets :: "child \<Rightarrow> child" where
  "child_gets c =
     (case ch_inbox c of
        [] \<Rightarrow> c
      | InStart i # rest \<Rightarrow>
          (case start_child None (ch_proc c) of
             (ms, cp, accepted) \<Rightarrow>
               to_outbox (Some i) ms (c\<lparr>ch_inbox := rest, ch_proc := cp, ch_current := (if accepted then Some i else ch_current c)\<rparr>))
      | InCancel i # rest \<Rightarrow>
          c\<lparr>ch_inbox := rest, ch_cancelled := (if cp_abort (ch_proc c) then ch_cancelled c @ (case ch_current c of Some j \<Rightarrow> [(i, j)] | None \<Rightarrow> []) else ch_cancelled c)\<rparr>
      | InResponse a # rest \<Rightarrow> c\<lparr>ch_inbox := rest\<rparr>)"

definition job_calls :: "string \<Rightarrow> job_call \<Rightarrow> child \<Rightarrow> child" where
  "job_calls rid jc c = (if ch_current c = None then c else to_outbox (ch_current c) [proxy_message rid jc] c)"

definition job_ends :: "(js_error, jsval) result \<Rightarrow> child \<Rightarrow> child" where
  "job_ends r c =
     (if ch_current c = None then c
      else case finish_job r (ch_proc c) of
             (ms, cp) \<Rightarrow> (to_outbox (ch_current c) ms c)\<lparr>ch_proc := cp, ch_current := None\<rparr>)"

definition child_crashes :: "js_error \<Rightarrow> child \<Rightarrow> child" where
  "child_crashes e c = (case uncaught e (ch_proc c) of (ms, cp) \<Rightarrow> (to_outbox (ch_current c) ms c)\<lparr>ch_proc := cp\<rparr>)"

section \<open>Steps\<close>

datatype sandbox_event =
    Process string "(js_error, unit) result" | Abort nat | ParentGets nat "(js_error, jsval) result" | ChildExits nat | CleanPool
  | ChildGets nat | JobCalls nat string job_call | JobEnds nat "(js_error, jsval) result" | ChildCrashes nat js_error

definition alive :: "nat \<Rightarrow> sandbox \<Rightarrow> bool" where
  "alive pid s \<longleftrightarrow> pid < length (sb_children s) \<and> \<not> ch_exited (sb_children s ! pid)"

definition acts :: "nat \<Rightarrow> sandbox \<Rightarrow> bool" where
  "acts pid s \<longleftrightarrow> alive pid s \<and> \<not> cp_exited (ch_proc (sb_children s ! pid))"

definition abort_call :: "nat \<Rightarrow> sandbox \<Rightarrow> sandbox" where
  "abort_call i s = (case sb_calls s ! i of Holding pid \<Rightarrow> upd_child pid (to_inbox (InCancel i)) s | Over _ _ \<Rightarrow> s)"

definition clean_children :: "sandbox \<Rightarrow> sandbox" where
  "clean_children s =
     (case clean_pool (sb_pool s) of
        (pids, P) \<Rightarrow> fold (\<lambda>pid. upd_child pid (\<lambda>c. c\<lparr>ch_proc := terminate_child (ch_proc c)\<rparr>)) pids (s\<lparr>sb_pool := P\<rparr>))"

fun sandbox_exec :: "sandbox_event \<Rightarrow> sandbox \<Rightarrow> sandbox option" where
  "sandbox_exec (Process f r) s = Some (process_call f r s)"
| "sandbox_exec (Abort i) s = (if i < length (sb_calls s) then Some (abort_call i s) else None)"
| "sandbox_exec (ParentGets pid r) s = (if alive pid s then Some (parent_gets pid r s) else None)"
| "sandbox_exec (ChildExits pid) s = (if alive pid s then Some (child_exits pid s) else None)"
| "sandbox_exec CleanPool s = Some (clean_children s)"
| "sandbox_exec (ChildGets pid) s = (if acts pid s then Some (upd_child pid child_gets s) else None)"
| "sandbox_exec (JobCalls pid rid jc) s = (if acts pid s then Some (upd_child pid (job_calls rid jc) s) else None)"
| "sandbox_exec (JobEnds pid r) s = (if acts pid s then Some (upd_child pid (job_ends r) s) else None)"
| "sandbox_exec (ChildCrashes pid e) s = (if acts pid s then Some (upd_child pid (child_crashes e) s) else None)"

fun sandbox_run :: "sandbox_event list \<Rightarrow> sandbox \<Rightarrow> sandbox option" where
  "sandbox_run [] s = Some s"
| "sandbox_run (e # es) s = (case sandbox_exec e s of Some s1 \<Rightarrow> sandbox_run es s1 | None \<Rightarrow> None)"

section \<open>A child has one holder\<close>

definition holds_child :: "sandbox \<Rightarrow> nat \<Rightarrow> nat \<Rightarrow> bool" where
  "holds_child s i pid \<longleftrightarrow> i < length (sb_calls s) \<and> sb_calls s ! i = Holding pid"

definition free_ok :: "sandbox \<Rightarrow> string \<Rightarrow> nat \<Rightarrow> bool" where
  "free_ok s f pid \<longleftrightarrow> alive pid s \<and> ch_file (sb_children s ! pid) = f \<and> (\<forall>i. \<not> holds_child s i pid)"

definition excl_inv :: "sandbox \<Rightarrow> bool" where
  "excl_inv s \<longleftrightarrow>
     (\<forall>i j pid. holds_child s i pid \<longrightarrow> holds_child s j pid \<longrightarrow> i = j) \<and> (\<forall>i pid. holds_child s i pid \<longrightarrow> alive pid s)
   \<and> (\<forall>f. distinct (getFree f (sb_pool s))) \<and> (\<forall>f. \<forall>pid \<in> set (getFree f (sb_pool s)). free_ok s f pid)"

lemma getFree_simps [simp]:
  "getFree f (set_free g cs P) = (if f = g then cs else getFree f P)"
  "getFree f (retained_add pid P) = getFree f P" "getFree f (retained_delete pid P) = getFree f P"
  "getFree f (release pid g P) = (if f = g then getFree g P @ [pid] else getFree f P)"
  "getFree f (remove_child pid g P) = (if f = g then remove1 pid (getFree g P) else getFree f P)"
  by (auto simp: getFree_def set_free_def retained_add_def retained_delete_def release_def remove_child_def Let_def with_default_def)

lemma upd_child_simps [simp]:
  "sb_calls (upd_child pid f s) = sb_calls s" "sb_pool (upd_child pid f s) = sb_pool s"
  "length (sb_children (upd_child pid f s)) = length (sb_children s)" "holds_child (upd_child pid f s) i q = holds_child s i q"
  by (simp_all add: upd_child_def holds_child_def)

lemma upd_child_nth: "q < length (sb_children s) \<Longrightarrow>
  sb_children (upd_child pid f s) ! q = (if q = pid then f (sb_children s ! pid) else sb_children s ! q)"
  by (auto simp: upd_child_def)

definition keeps_identity :: "(child \<Rightarrow> child) \<Rightarrow> bool" where
  "keeps_identity f \<longleftrightarrow> (\<forall>c. ch_file (f c) = ch_file c \<and> ch_exited (f c) = ch_exited c)"

lemma upd_child_file: "keeps_identity f \<Longrightarrow> q < length (sb_children s) \<Longrightarrow>
    ch_file (sb_children (upd_child pid f s) ! q) = ch_file (sb_children s ! q)
  \<and> ch_exited (sb_children (upd_child pid f s) ! q) = ch_exited (sb_children s ! q)"
  unfolding keeps_identity_def by (cases "q = pid") (simp_all add: upd_child_nth)

lemma upd_child_alive: "keeps_identity f \<Longrightarrow> alive q (upd_child pid f s) = alive q s"
  using upd_child_file[of f q s pid] by (cases "q < length (sb_children s)") (simp_all add: alive_def)

lemma upd_child_free_ok: "keeps_identity f \<Longrightarrow> free_ok (upd_child pid f s) g q = free_ok s g q"
  using upd_child_file[of f q s pid] by (cases "q < length (sb_children s)") (simp_all add: free_ok_def upd_child_alive alive_def)

lemma upd_child_excl: "keeps_identity f \<Longrightarrow> excl_inv (upd_child pid f s) = excl_inv s"
  by (simp add: excl_inv_def upd_child_alive upd_child_free_ok)

lemma to_outbox_simps [simp]:
  "ch_file (to_outbox tag ms c) = ch_file c" "ch_exited (to_outbox tag ms c) = ch_exited c" "ch_inbox (to_outbox tag ms c) = ch_inbox c"
  "ch_current (to_outbox tag ms c) = ch_current c" "ch_proc (to_outbox tag ms c) = ch_proc c"
  "ch_cancelled (to_outbox tag ms c) = ch_cancelled c" "ch_outbox (to_outbox tag ms c) = ch_outbox c @ map (Pair tag) ms"
  by (simp_all add: to_outbox_def)

lemma to_inbox_simps [simp]:
  "ch_file (to_inbox m c) = ch_file c" "ch_exited (to_inbox m c) = ch_exited c" "ch_inbox (to_inbox m c) = ch_inbox c @ [m]"
  "ch_current (to_inbox m c) = ch_current c" "ch_proc (to_inbox m c) = ch_proc c"
  "ch_cancelled (to_inbox m c) = ch_cancelled c" "ch_outbox (to_inbox m c) = ch_outbox c"
  by (simp_all add: to_inbox_def)

lemma child_gets_identity [simp]: "keeps_identity child_gets"
proof -
  have "ch_file (child_gets c) = ch_file c \<and> ch_exited (child_gets c) = ch_exited c" for c
  proof (cases "ch_inbox c")
    case (Cons m rest)
    then show ?thesis by (cases m) (simp_all add: child_gets_def split: prod.split)
  qed (simp add: child_gets_def)
  then show ?thesis by (simp add: keeps_identity_def)
qed

lemma keeps_identity_simps [simp]:
  "keeps_identity (job_calls rid jc)" "keeps_identity (job_ends r)" "keeps_identity (child_crashes e)"
  "keeps_identity (to_inbox m)" "keeps_identity (\<lambda>c. c\<lparr>ch_outbox := out c\<rparr>)" "keeps_identity (\<lambda>c. c\<lparr>ch_proc := p c\<rparr>)"
  by (simp_all add: keeps_identity_def job_calls_def job_ends_def child_crashes_def split: prod.split)

lemma holder_Some: "holder pid s = Some i \<Longrightarrow> holds_child s i pid"
  by (auto simp: holder_def holds_child_def find_Some_iff)

lemma holder_None: "holder pid s = None \<Longrightarrow> \<not> holds_child s i pid"
  by (auto simp: holder_def holds_child_def find_None_iff)

lemma holds_append: "holds_child (s\<lparr>sb_pool := P, sb_calls := sb_calls s @ [ph]\<rparr>) i pid
    \<longleftrightarrow> holds_child s i pid \<or> i = length (sb_calls s) \<and> ph = Holding pid"
  by (auto simp: holds_child_def nth_append less_Suc_eq)

lemma holds_settle: "holds_child (settle_call i pid r tag s) j q \<longleftrightarrow> j \<noteq> i \<and> holds_child s j q"
  by (cases "j = i") (auto simp: settle_call_def holds_child_def)

lemma settle_simps [simp]: "sb_children (settle_call i pid r tag s) = sb_children s" "alive q (settle_call i pid r tag s) = alive q s"
  by (simp_all add: settle_call_def alive_def)

lemma settle_excl:
  assumes "excl_inv s" "holds_child s i pid"
  shows "excl_inv (settle_call i pid r tag s)"
proof -
  have a: "alive pid s" and only: "\<And>j. holds_child s j pid \<Longrightarrow> j = i" using assms by (auto simp: excl_inv_def)
  then have nf: "pid \<notin> set (getFree f (sb_pool s))" for f using assms by (auto simp: excl_inv_def free_ok_def)
  let ?f = "ch_file (sb_children s ! pid)"
  have pool: "sb_pool (settle_call i pid r tag s) = release pid ?f (sb_pool s)"
    using a by (simp add: settle_call_def Let_def alive_def)
  have "free_ok (settle_call i pid r tag s) f q" if "free_ok s f q" for f q
    using that by (auto simp: free_ok_def holds_settle)
  moreover have "free_ok (settle_call i pid r tag s) ?f pid"
    using a only by (auto simp: free_ok_def holds_settle)
  ultimately show ?thesis
    using assms nf unfolding excl_inv_def pool by (auto simp: holds_settle)
qed

lemma process_excl:
  assumes "excl_inv s"
  shows "excl_inv (process_call f r s)"
proof (cases "getFree f (sb_pool s) = []")
  case False
  let ?pid = "last (getFree f (sb_pool s))"
  let ?s1 = "s\<lparr>sb_pool := retained_add ?pid (set_free f (butlast (getFree f (sb_pool s))) (sb_pool s)), sb_calls := sb_calls s @ [Holding ?pid]\<rparr>"
  have fo: "free_ok s f ?pid" using assms False by (simp add: excl_inv_def)
  have d: "distinct (getFree f (sb_pool s))" using assms by (simp add: excl_inv_def)
  have notin: "?pid \<notin> set (butlast (getFree f (sb_pool s)))"
    using d False by (metis append_butlast_last_id distinct_append not_distinct_conv_prefix)
  have alive1: "alive q ?s1 = alive q s" for q by (simp add: alive_def)
  have "free_ok ?s1 g q" if "free_ok s g q" "q \<noteq> ?pid" for g q
    using that by (auto simp: free_ok_def alive1 holds_append)
  moreover have "q \<noteq> ?pid" if "q \<in> set (getFree g (sb_pool s))" "g \<noteq> f" for g q
    using that fo assms by (auto simp: excl_inv_def free_ok_def)
  ultimately have free: "free_ok ?s1 g q" if "q \<in> set (getFree g (sb_pool ?s1))" for g q
    using that assms notin unfolding excl_inv_def by (cases "g = f") (auto, metis in_set_butlastD)
  have "distinct (getFree g (sb_pool ?s1))" for g using assms d by (simp add: excl_inv_def distinct_butlast)
  moreover have "i = j" if "holds_child ?s1 i q" "holds_child ?s1 j q" for i j q
    using that assms fo by (auto simp: excl_inv_def free_ok_def holds_append)
  moreover have "alive q ?s1" if "holds_child ?s1 i q" for i q
    using that assms fo by (auto simp: excl_inv_def free_ok_def holds_append alive1)
  ultimately have "excl_inv ?s1" using free unfolding excl_inv_def by blast
  then show ?thesis using False by (simp add: process_call_def retain_free_def Let_def upd_child_excl)
next
  case True
  show ?thesis
  proof (cases r)
    case (Inl e)
    let ?s1 = "s\<lparr>sb_pool := set_free f [] (sb_pool s), sb_calls := sb_calls s @ [Over (Inl e) None]\<rparr>"
    have "holds_child ?s1 i q = holds_child s i q" "alive q ?s1 = alive q s" for i q by (simp_all add: holds_append) (simp add: alive_def)
    then have "excl_inv ?s1" using assms True unfolding excl_inv_def free_ok_def by (auto simp: free_ok_def)
    then show ?thesis using True Inl by (simp add: process_call_def retain_free_def Let_def)
  next
    case (Inr u)
    let ?pid = "length (sb_children s)"
    let ?s1 = "s\<lparr>sb_pool := retained_add ?pid (set_free f [] (sb_pool s)),
        sb_children := sb_children s @ [to_inbox (InStart (length (sb_calls s))) (new_child f)], sb_calls := sb_calls s @ [Holding ?pid]\<rparr>"
    have h: "holds_child ?s1 i q \<longleftrightarrow> holds_child s i q \<or> i = length (sb_calls s) \<and> q = ?pid" for i q
      by (auto simp: holds_child_def nth_append less_Suc_eq)
    have al: "alive q ?s1 \<longleftrightarrow> alive q s \<or> q = ?pid" for q
      by (auto simp: alive_def nth_append less_Suc_eq to_inbox_def new_child_def)
    have old: "q < ?pid" if "alive q s" for q using that by (simp add: alive_def)
    have hold: "q < ?pid" if "holds_child s i q" for i q using that assms old by (auto simp: excl_inv_def)
    have "free_ok ?s1 g q" if "free_ok s g q" for g q
      using that old by (auto simp: free_ok_def h al nth_append)
    then have "excl_inv ?s1" using assms True hold unfolding excl_inv_def
      by (auto simp: h al)
    then show ?thesis using True Inr by (simp add: process_call_def retain_free_def Let_def)
  qed
qed

lemma exit_excl:
  assumes "excl_inv s" "alive pid s"
  shows "excl_inv (child_exits pid s)"
proof -
  let ?f = "ch_file (sb_children s ! pid)"
  define s1 where "s1 = upd_child pid (\<lambda>c. c\<lparr>ch_exited := True, ch_proc := (ch_proc c)\<lparr>cp_exited := True\<rparr>, ch_outbox := []\<rparr>) s"
  define s2 where "s2 = s1\<lparr>sb_pool := remove_child pid ?f (sb_pool s1)\<rparr>"
  define t where "t = child_exits pid s"
  have al2: "alive q s2 \<longleftrightarrow> alive q s \<and> q \<noteq> pid" for q
    using assms(2) by (auto simp: s2_def s1_def alive_def upd_child_nth split: if_splits)
  have file2: "ch_file (sb_children s2 ! q) = ch_file (sb_children s ! q)" if "q < length (sb_children s)" for q
    using that by (simp add: s2_def s1_def upd_child_nth)
  have h2: "holds_child s2 i q = holds_child s i q" for i q by (simp add: s2_def s1_def holds_child_def)
  have exited: "ch_exited (sb_children s2 ! pid)" using assms(2) by (simp add: s2_def s1_def upd_child_nth alive_def)
  have t: "t = (case holder pid s of Some i \<Rightarrow> settle_call i pid (Inl exit_error) None s2 | None \<Rightarrow> s2)"
    unfolding t_def child_exits_def Let_def s1_def s2_def by (rule refl)
  have ht: "holds_child t i q \<longleftrightarrow> holds_child s i q \<and> q \<noteq> pid" for i q
  proof (cases "holder pid s")
    case None
    then show ?thesis using holder_None[of pid s] by (auto simp: t h2)
  next
    case (Some j)
    have only: "k = j" if "holds_child s k pid" for k using that holder_Some[OF Some] assms(1) unfolding excl_inv_def by blast
    have "t = settle_call j pid (Inl exit_error) None s2" using Some t by simp
    then have "holds_child t i q \<longleftrightarrow> i \<noteq> j \<and> holds_child s i q" by (simp add: holds_settle h2)
    moreover have "holds_child s j q \<longleftrightarrow> q = pid" using holder_Some[OF Some] by (auto simp: holds_child_def)
    ultimately show ?thesis using only by blast
  qed
  have pool: "sb_pool t = remove_child pid ?f (sb_pool s)" and chd: "sb_children t = sb_children s2"
    using exited by (auto simp: t settle_call_def Let_def s2_def s1_def split: option.split)
  have alt: "alive q t \<longleftrightarrow> alive q s \<and> q \<noteq> pid" for q using al2[of q] by (simp add: alive_def chd)
  have free: "free_ok t f q" if "q \<in> set (getFree f (sb_pool t))" for f q
  proof -
    have inf: "q \<in> set (getFree f (sb_pool s))" using that by (auto simp: pool split: if_splits dest: subsetD[OF set_remove1_subset])
    then have ok: "free_ok s f q" "distinct (getFree f (sb_pool s))" using assms(1) by (auto simp: excl_inv_def)
    have "q \<noteq> pid" using that ok by (auto simp: pool free_ok_def split: if_splits)
    then show ?thesis using ok(1) file2 unfolding free_ok_def alt ht chd by (auto simp: alive_def)
  qed
  have "distinct (getFree f (sb_pool t))" for f using assms(1) by (auto simp: pool excl_inv_def)
  then have "excl_inv t" using free assms(1) unfolding excl_inv_def by (auto simp: ht alt)
  then show ?thesis by (simp add: t_def)
qed

lemma fold_upd_excl: "(\<And>q. keeps_identity (f q)) \<Longrightarrow> excl_inv (fold (\<lambda>q. upd_child q (f q)) pids s) = excl_inv s"
  by (induction pids arbitrary: s) (simp_all add: upd_child_excl)

lemma clean_excl:
  assumes "excl_inv s"
  shows "excl_inv (clean_children s)"
proof -
  let ?s1 = "s\<lparr>sb_pool := (sb_pool s)\<lparr>pl_retained := [], pl_free := []\<rparr>\<rparr>"
  have "holds_child ?s1 i q = holds_child s i q" "alive q ?s1 = alive q s" for i q by (simp_all add: holds_child_def alive_def)
  then have "excl_inv ?s1" using assms by (simp add: excl_inv_def getFree_def with_default_def)
  then show ?thesis
    using fold_upd_excl[of "\<lambda>_. \<lambda>c. c\<lparr>ch_proc := terminate_child (ch_proc c)\<rparr>"] by (simp add: clean_children_def clean_pool_def)
qed

lemma parent_gets_excl:
  assumes "excl_inv s"
  shows "excl_inv (parent_gets pid r s)"
proof (cases "ch_outbox (sb_children s ! pid)")
  case (Cons tm rest)
  obtain tag m where tm: "tm = (tag, m)" by fastforce
  let ?s1 = "upd_child pid (\<lambda>c. c\<lparr>ch_outbox := rest\<rparr>) s"
  have s1: "excl_inv ?s1" using assms by (simp add: upd_child_excl)
  have h: "holds_child ?s1 i pid" if "holder pid s = Some i" for i using holder_Some[OF that] by simp
  show ?thesis
  proof (cases "holder pid s")
    case None
    then show ?thesis using Cons tm s1 by (simp add: parent_gets_def)
  next
    case (Some i)
    have "excl_inv (settle_call i pid res tag ?s1)" for res using settle_excl[OF s1 h[OF Some]] .
    then show ?thesis using Cons tm Some s1
      by (cases "fst (msgHandler (uniform_job r) m ())") (simp_all add: parent_gets_def upd_child_excl)
  qed
qed (use assms in \<open>simp add: parent_gets_def\<close>)

lemma exec_excl:
  assumes "sandbox_exec e s = Some t" "excl_inv s"
  shows "excl_inv t"
  using assms
  by (cases e) (auto simp: upd_child_excl abort_call_def split: if_splits call_phase.splits
      intro: process_excl exit_excl clean_excl parent_gets_excl)

definition sandbox_init :: "sandbox \<Rightarrow> bool" where
  "sandbox_init s \<longleftrightarrow> s = sandbox_start"

definition sandbox_trans :: "sandbox \<Rightarrow> sandbox \<Rightarrow> bool" where
  "sandbox_trans s t \<longleftrightarrow> (\<exists>e. sandbox_exec e s = Some t)"

lemma start_excl: "excl_inv sandbox_start"
  by (simp add: excl_inv_def sandbox_start_def holds_child_def getFree_def with_default_def)

interpretation sandbox_excl: step_invariant sandbox_init sandbox_trans excl_inv
  by unfold_locales (auto simp: sandbox_init_def sandbox_trans_def start_excl intro: exec_excl)

lemma sandbox_run_reach:
  "sandbox_run es s = Some t \<Longrightarrow> reach sandbox_init sandbox_trans s \<Longrightarrow> reach sandbox_init sandbox_trans t"
proof (induction es arbitrary: s)
  case (Cons e es)
  then obtain s1 where s1: "sandbox_exec e s = Some s1" "sandbox_run es s1 = Some t" by (auto split: option.splits)
  have "sandbox_trans s s1" using s1(1) by (auto simp: sandbox_trans_def)
  then show ?case using Cons.IH[OF s1(2)] reach.reach_step[OF Cons.prems(2)] by blast
qed simp

lemma sandbox_start_reach: "reach sandbox_init sandbox_trans sandbox_start"
  by (rule reach.reach_init) (simp add: sandbox_init_def)

section \<open>Results and cancellations reach their own job\<close>

definition is_start :: "to_child \<Rightarrow> bool" where
  "is_start m = (case m of InStart _ \<Rightarrow> True | _ \<Rightarrow> False)"

definition cancels_only :: "nat \<Rightarrow> to_child list \<Rightarrow> bool" where
  "cancels_only i ms \<longleftrightarrow> (\<forall>k. InCancel k \<in> set ms \<longrightarrow> k = i)"

definition no_start :: "to_child list \<Rightarrow> bool" where
  "no_start ms \<longleftrightarrow> (\<forall>m \<in> set ms. \<not> is_start m)"

definition final :: "parent_message \<Rightarrow> bool" where
  "final m \<longleftrightarrow> pm_cmd m \<in> {PCompleted, PFailed, PError}"

definition open_msgs :: "nat \<Rightarrow> (nat option \<times> parent_message) list \<Rightarrow> bool" where
  "open_msgs i out \<longleftrightarrow> (\<forall>(tag, m) \<in> set out. tag = Some i \<and> \<not> final m)"

text \<open>A child nobody holds_child has nothing to say. A child held by call \<open>i\<close> has the job still before it, runs
  it, or has sent its end.\<close>

definition quiet :: "child \<Rightarrow> bool" where
  "quiet c \<longleftrightarrow> ch_current c = None \<and> ch_outbox c = [] \<and> no_start (ch_inbox c)"

definition to_start :: "nat \<Rightarrow> child \<Rightarrow> bool" where
  "to_start i c \<longleftrightarrow> ch_current c = None \<and> ch_outbox c = []
     \<and> (\<exists>xs ys. ch_inbox c = xs @ InStart i # ys \<and> no_start xs \<and> no_start ys \<and> cancels_only i ys)"

definition in_progress :: "nat \<Rightarrow> child \<Rightarrow> bool" where
  "in_progress i c \<longleftrightarrow> ch_current c = Some i \<and> open_msgs i (ch_outbox c) \<and> no_start (ch_inbox c) \<and> cancels_only i (ch_inbox c)"

definition reported :: "nat \<Rightarrow> child \<Rightarrow> bool" where
  "reported i c \<longleftrightarrow> ch_current c = None \<and> no_start (ch_inbox c)
     \<and> (\<exists>pre m. ch_outbox c = pre @ [(Some i, m)] \<and> open_msgs i pre \<and> final m)"

definition serving :: "nat \<Rightarrow> child \<Rightarrow> bool" where
  "serving i c \<longleftrightarrow> to_start i c \<or> in_progress i c \<or> reported i c"

definition cancels_ok :: "child \<Rightarrow> bool" where
  "cancels_ok c \<longleftrightarrow> (\<forall>(k, j) \<in> set (ch_cancelled c). k = j)"

definition child_ok :: "sandbox \<Rightarrow> nat \<Rightarrow> bool" where
  "child_ok s pid \<longleftrightarrow> (\<forall>i. holds_child s i pid \<longrightarrow> serving i (sb_children s ! pid)) \<and> ((\<forall>i. \<not> holds_child s i pid) \<longrightarrow> quiet (sb_children s ! pid))"

definition iso_inv :: "sandbox \<Rightarrow> bool" where
  "iso_inv s \<longleftrightarrow>
     (\<forall>pid. alive pid s \<longrightarrow> child_ok s pid) \<and> (\<forall>c \<in> set (sb_children s). cancels_ok c)
   \<and> (\<forall>i r j. i < length (sb_calls s) \<longrightarrow> sb_calls s ! i = Over r (Some j) \<longrightarrow> j = i)"

text \<open>Orderly runs: the methods that a child asks for succeed, and no child has an uncaught exception.\<close>

fun orderly :: "sandbox_event \<Rightarrow> bool" where
  "orderly (ParentGets pid (Inl e)) = False"
| "orderly (ChildCrashes pid e) = False"
| "orderly _ = True"

lemma msgs_simps [simp]:
  "no_start []" "no_start (m # ms) \<longleftrightarrow> \<not> is_start m \<and> no_start ms" "no_start (xs @ ys) \<longleftrightarrow> no_start xs \<and> no_start ys"
  "cancels_only i []" "cancels_only i (m # ms) \<longleftrightarrow> (\<forall>k. m = InCancel k \<longrightarrow> k = i) \<and> cancels_only i ms"
  "cancels_only i (xs @ ys) \<longleftrightarrow> cancels_only i xs \<and> cancels_only i ys"
  "open_msgs i []" "open_msgs i ((tag, pm) # out) \<longleftrightarrow> tag = Some i \<and> \<not> final pm \<and> open_msgs i out"
  "open_msgs i (out @ out') \<longleftrightarrow> open_msgs i out \<and> open_msgs i out'"
  "is_start (InStart k)" "\<not> is_start (InCancel k)" "\<not> is_start (InResponse a)"
  by (auto simp: no_start_def cancels_only_def open_msgs_def is_start_def)

lemma proxy_not_final: "\<not> final (proxy_message rid jc)"
  by (cases jc) (simp_all add: final_def to_parent_def request_def)

lemma handler_final: "final m \<Longrightarrow> (\<exists>v. fst (msgHandler J m w) = Resolve v) \<or> (\<exists>e. fst (msgHandler J m w) = Reject e)"
  by (auto simp: final_def msgHandler_def Let_def)

lemma handler_open: "\<not> final m \<Longrightarrow> fst (msgHandler (uniform_job (Inr v)) m ()) = Continue \<or> (\<exists>a. fst (msgHandler (uniform_job (Inr v)) m ()) = Respond a)"
  by (cases "pm_cmd m") (auto simp: final_def msgHandler_def Let_def uniform_job_def run_method_def answer_def)

text \<open>The child's own steps.\<close>

lemma gets_quiet: "quiet c \<Longrightarrow> quiet (child_gets c)"
  by (auto simp: quiet_def child_gets_def split: list.splits to_child.splits)

lemma gets_serving:
  assumes "serving i c"
  shows "serving i (child_gets c)"
proof (cases "ch_inbox c")
  case (Cons m rest)
  show ?thesis
  proof (cases m)
    case (InStart k)
    then have "to_start i c" using assms Cons by (auto simp: serving_def in_progress_def reported_def)
    then obtain xs ys where x: "InStart k # rest = xs @ InStart i # ys" "no_start xs" "no_start ys" "cancels_only i ys"
        "ch_current c = None" "ch_outbox c = []"
      using Cons InStart by (auto simp: to_start_def)
    then have "k = i" "rest = ys" by (cases xs; auto)+
    then show ?thesis
    proof (cases "cp_status (ch_proc c) = Some Idle")
      case True
      then have "in_progress i (child_gets c)" using Cons InStart x \<open>k = i\<close> \<open>rest = ys\<close>
        by (simp add: child_gets_def start_child_def in_progress_def)
      then show ?thesis by (simp add: serving_def)
    next
      case False
      then have "reported i (child_gets c)" using Cons InStart x \<open>k = i\<close> \<open>rest = ys\<close>
        by (auto simp: child_gets_def start_child_def reported_def final_def error_to_parent_def)
      then show ?thesis by (simp add: serving_def)
    qed
  next
    case (InCancel k)
    then show ?thesis using assms Cons
      by (auto simp: serving_def to_start_def in_progress_def reported_def child_gets_def Cons_eq_append_conv)
  next
    case (InResponse a)
    then show ?thesis using assms Cons
      by (auto simp: serving_def to_start_def in_progress_def reported_def child_gets_def Cons_eq_append_conv)
  qed
qed (use assms in \<open>simp add: child_gets_def\<close>)

lemma gets_cancels:
  assumes "cancels_ok c" "serving i c \<or> quiet c"
  shows "cancels_ok (child_gets c)"
proof (cases "ch_inbox c")
  case (Cons m rest)
  then show ?thesis using assms
    by (cases m) (auto simp: cancels_ok_def child_gets_def serving_def to_start_def in_progress_def reported_def quiet_def start_child_def
        split: option.splits)
qed (use assms in \<open>simp add: child_gets_def\<close>)

lemma calls_serving: "serving i c \<Longrightarrow> serving i (job_calls rid jc c)"
  using proxy_not_final[of rid jc] by (auto simp: serving_def to_start_def in_progress_def reported_def job_calls_def)

lemma ends_serving: "serving i c \<Longrightarrow> serving i (job_ends r c)"
  by (cases r) (auto simp: serving_def to_start_def in_progress_def reported_def job_ends_def finish_job_def final_def to_parent_def)

lemma idle_quiet: "quiet c \<Longrightarrow> quiet (job_calls rid jc c) \<and> quiet (job_ends r c)"
  by (simp add: quiet_def job_calls_def job_ends_def)

lemma idle_cancels: "cancels_ok (job_calls rid jc c) = cancels_ok c" "cancels_ok (job_ends r c) = cancels_ok c"
  by (simp_all add: cancels_ok_def job_calls_def job_ends_def split: prod.splits)

lemma child_state:
  assumes "iso_inv s" "alive pid s"
  shows "(\<exists>i. holds_child s i pid \<and> serving i (sb_children s ! pid)) \<or> (\<forall>i. \<not> holds_child s i pid) \<and> quiet (sb_children s ! pid)"
  using assms by (auto simp: iso_inv_def child_ok_def)

lemma upd_child_iso:
  assumes "iso_inv s" "keeps_identity f"
    and "\<And>i. alive pid s \<Longrightarrow> holds_child s i pid \<Longrightarrow> serving i (sb_children s ! pid) \<Longrightarrow> serving i (f (sb_children s ! pid))"
    and "alive pid s \<Longrightarrow> quiet (sb_children s ! pid) \<Longrightarrow> quiet (f (sb_children s ! pid))"
    and "cancels_ok (sb_children s ! pid) \<Longrightarrow> pid < length (sb_children s) \<Longrightarrow> cancels_ok (f (sb_children s ! pid))"
  shows "iso_inv (upd_child pid f s)"
proof -
  have ch: "child_ok (upd_child pid f s) q" if "alive q s" for q
    using that assms(1,3,4) by (cases "q = pid") (auto simp: iso_inv_def child_ok_def upd_child_nth alive_def)
  have "cancels_ok c" if c: "c \<in> set (sb_children (upd_child pid f s))" for c
  proof -
    obtain q where q: "q < length (sb_children (upd_child pid f s))" "sb_children (upd_child pid f s) ! q = c"
      using c unfolding in_set_conv_nth by blast
    then have "cancels_ok (sb_children s ! q)" using assms(1) by (simp add: iso_inv_def)
    then show ?thesis using q assms(5) by (cases "q = pid") (simp_all add: upd_child_nth)
  qed
  then show ?thesis using assms(1) ch unfolding iso_inv_def by (simp add: upd_child_alive[OF assms(2)])
qed

lemma gets_iso:
  assumes "iso_inv s" "alive pid s"
  shows "iso_inv (upd_child pid child_gets s)"
proof (rule upd_child_iso[OF assms(1)])
  show "cancels_ok (child_gets (sb_children s ! pid))" if "cancels_ok (sb_children s ! pid)"
    using child_state[OF assms] gets_cancels[OF that] by blast
qed (simp_all add: gets_serving gets_quiet)

lemma serving_inbox:
  assumes "serving i c" "\<not> is_start m" "\<And>k. m = InCancel k \<Longrightarrow> k = i"
  shows "serving i (to_inbox m c)"
proof (cases "to_start i c")
  case True
  then obtain xs ys where "ch_inbox c = xs @ InStart i # ys" "no_start xs" "no_start ys" "cancels_only i ys"
    by (auto simp: to_start_def)
  then have "to_start i (to_inbox m c)" using True assms(2,3) unfolding to_start_def
    by (intro conjI exI[of _ xs] exI[of _ "ys @ [m]"]) auto
  then show ?thesis by (simp add: serving_def)
qed (use assms in \<open>auto simp: serving_def in_progress_def reported_def\<close>)

lemma other_iso: "iso_inv s \<Longrightarrow> iso_inv (upd_child pid (job_calls rid jc) s)" "iso_inv s \<Longrightarrow> iso_inv (upd_child pid (job_ends r) s)"
  by (rule upd_child_iso; simp add: calls_serving ends_serving idle_quiet idle_cancels)+

lemma serving_cancel: "serving i c \<Longrightarrow> serving i (to_inbox (InCancel i) c)"
  by (rule serving_inbox) simp_all

lemma serving_response: "serving i c \<Longrightarrow> serving i (to_inbox (InResponse a) c)"
  by (rule serving_inbox) simp_all

lemma response_iso: "iso_inv s \<Longrightarrow> iso_inv (upd_child pid (to_inbox (InResponse a)) s)"
  by (rule upd_child_iso) (simp_all add: serving_response quiet_def cancels_ok_def)

lemma abort_iso:
  assumes "iso_inv s" "excl_inv s" "i < length (sb_calls s)"
  shows "iso_inv (abort_call i s)"
proof (cases "sb_calls s ! i")
  case (Holding pid)
  then have hi: "holds_child s i pid" using assms(3) by (simp add: holds_child_def)
  have "iso_inv (upd_child pid (to_inbox (InCancel i)) s)"
  proof (rule upd_child_iso[OF assms(1)])
    fix j assume "holds_child s j pid" "serving j (sb_children s ! pid)"
    moreover then have "j = i" using hi assms(2) unfolding excl_inv_def by blast
    ultimately show "serving j (to_inbox (InCancel i) (sb_children s ! pid))"
      by (simp add: serving_cancel)
  qed (simp_all add: quiet_def cancels_ok_def)
  then show ?thesis using Holding by (simp add: abort_call_def)
qed (use assms in \<open>simp add: abort_call_def\<close>)

lemma fold_proc_iso: "iso_inv s \<Longrightarrow> iso_inv (fold (\<lambda>q. upd_child q (\<lambda>c. c\<lparr>ch_proc := f c\<rparr>)) pids s)"
proof (induction pids arbitrary: s)
  case (Cons q pids)
  have "iso_inv (upd_child q (\<lambda>c. c\<lparr>ch_proc := f c\<rparr>) s)" using Cons.prems
    by (rule upd_child_iso) (simp_all add: serving_def to_start_def in_progress_def reported_def quiet_def cancels_ok_def)
  then show ?case using Cons.IH by simp
qed simp

lemma clean_iso: "iso_inv s \<Longrightarrow> iso_inv (clean_children s)"
proof -
  assume "iso_inv s"
  then have "iso_inv (s\<lparr>sb_pool := (sb_pool s)\<lparr>pl_retained := [], pl_free := []\<rparr>\<rparr>)"
    by (simp add: iso_inv_def child_ok_def holds_child_def alive_def)
  then show ?thesis by (simp add: clean_children_def clean_pool_def fold_proc_iso)
qed

lemma settle_iso:
  assumes "iso_inv s" "excl_inv s" "holds_child s i pid" "quiet (sb_children s ! pid)" "tag = None \<or> tag = Some i"
  shows "iso_inv (settle_call i pid r tag s)"
proof -
  have only: "\<not> holds_child (settle_call i pid r tag s) j pid" for j
    using assms(2,3) unfolding holds_settle excl_inv_def by blast
  have "child_ok (settle_call i pid r tag s) q" if "alive q s" for q
  proof (cases "q = pid")
    case False
    then have "\<not> holds_child s i q" using assms(3) by (auto simp: holds_child_def)
    then have "holds_child (settle_call i pid r tag s) j q = holds_child s j q" for j by (auto simp: holds_settle)
    then show ?thesis using assms(1) that by (simp add: iso_inv_def child_ok_def)
  qed (use only assms(4) in \<open>simp add: child_ok_def\<close>)
  moreover have "j = k" if "k < length (sb_calls s)" "sb_calls (settle_call i pid r tag s) ! k = Over r' (Some j)" for k r' j
    using that assms(1,5) by (cases "k = i") (auto simp: settle_call_def iso_inv_def)
  ultimately show ?thesis using assms(1) by (auto simp: iso_inv_def) (auto simp: settle_call_def)
qed

lemma child_ok_cong: "(\<And>i. holds_child t i q = holds_child s i q) \<Longrightarrow> sb_children t ! q = sb_children s ! q \<Longrightarrow> child_ok t q = child_ok s q"
  by (simp add: child_ok_def)

lemma append_over:
  assumes "iso_inv s" "\<And>r j. ph \<noteq> Over r (Some j)"
  shows "\<forall>i r j. i < length (sb_calls s @ [ph]) \<longrightarrow> (sb_calls s @ [ph]) ! i = Over r (Some j) \<longrightarrow> j = i"
  using assms by (auto simp: iso_inv_def nth_append less_Suc_eq split: if_splits)

lemma started_child: "quiet c \<Longrightarrow> to_start i (to_inbox (InStart i) c)"
  unfolding to_start_def quiet_def by (intro conjI exI[of _ "ch_inbox c"] exI[of _ "[]"]) auto

lemma process_iso:
  assumes "iso_inv s" "excl_inv s"
  shows "iso_inv (process_call f r s)"
proof (cases "getFree f (sb_pool s) = []")
  case False
  let ?pid = "last (getFree f (sb_pool s))" and ?i = "length (sb_calls s)"
  define t where "t = process_call f r s"
  have fo: "free_ok s f ?pid" using assms(2) False by (simp add: excl_inv_def)
  then have q: "quiet (sb_children s ! ?pid)" using child_state[OF assms(1)] by (auto simp: free_ok_def)
  have t: "t = upd_child ?pid (to_inbox (InStart ?i))
      (s\<lparr>sb_pool := retained_add ?pid (set_free f (butlast (getFree f (sb_pool s))) (sb_pool s)), sb_calls := sb_calls s @ [Holding ?pid]\<rparr>)"
    using False by (simp add: t_def process_call_def retain_free_def Let_def)
  have h: "holds_child t j p \<longleftrightarrow> holds_child s j p \<or> j = ?i \<and> p = ?pid" for j p by (auto simp: t holds_append)
  have c: "sb_children t = (sb_children s)[?pid := to_inbox (InStart ?i) (sb_children s ! ?pid)]" by (simp add: t upd_child_def)
  have al: "alive p t = alive p s" for p
    unfolding t by (subst upd_child_alive) (simp_all add: alive_def)
  have "child_ok t p" if "alive p s" for p
  proof (cases "p = ?pid")
    case True
    then show ?thesis using fo q started_child[OF q] that by (auto simp: child_ok_def h c free_ok_def alive_def serving_def)
  next
    case False
    then show ?thesis using assms(1) that child_ok_cong[of t p s] by (simp add: iso_inv_def h c)
  qed
  moreover have "cancels_ok (sb_children s ! ?pid)" using assms(1) fo by (simp add: iso_inv_def free_ok_def alive_def)
  then have "cancels_ok x" if x: "x \<in> set (sb_children t)" for x
  proof -
    have "x = to_inbox (InStart ?i) (sb_children s ! ?pid) \<or> x \<in> set (sb_children s)"
      using x set_update_subset_insert unfolding c by fastforce
    then show ?thesis using assms(1) \<open>cancels_ok (sb_children s ! ?pid)\<close> by (auto simp: iso_inv_def cancels_ok_def)
  qed
  moreover have "sb_calls t = sb_calls s @ [Holding ?pid]" by (simp add: t)
  ultimately have "iso_inv t" using append_over[OF assms(1), of "Holding ?pid"] unfolding iso_inv_def al by simp
  then show ?thesis by (simp add: t_def)
next
  case True
  show ?thesis
  proof (cases r)
    case (Inl e)
    let ?t = "s\<lparr>sb_pool := set_free f [] (sb_pool s), sb_calls := sb_calls s @ [Over (Inl e) None]\<rparr>"
    have "holds_child ?t i q = holds_child s i q" "alive q ?t = alive q s" for i q by (simp_all add: holds_append) (simp add: alive_def)
    then have "iso_inv ?t" using assms(1) append_over[OF assms(1), of "Over (Inl e) None"] by (simp add: iso_inv_def child_ok_def)
    then show ?thesis using True Inl by (simp add: process_call_def retain_free_def Let_def)
  next
    case (Inr u)
    let ?pid = "length (sb_children s)" and ?i = "length (sb_calls s)"
    define t where "t = process_call f r s"
    have t: "t = s\<lparr>sb_pool := retained_add ?pid (set_free f [] (sb_pool s)),
        sb_children := sb_children s @ [to_inbox (InStart ?i) (new_child f)], sb_calls := sb_calls s @ [Holding ?pid]\<rparr>"
      using True Inr by (simp add: t_def process_call_def retain_free_def Let_def)
    have hold: "q < ?pid" if "holds_child s i q" for i q using that assms(2) unfolding excl_inv_def alive_def by blast
    have h: "holds_child t j q \<longleftrightarrow> holds_child s j q \<or> j = ?i \<and> q = ?pid" for j q
      by (auto simp: t holds_child_def nth_append less_Suc_eq)
    have ch: "sb_children t = sb_children s @ [to_inbox (InStart ?i) (new_child f)]" by (simp add: t)
    have nq: "quiet (new_child f)" by (simp add: quiet_def new_child_def)
    have "child_ok t q" if "alive q t" for q
    proof (cases "q = ?pid")
      case True
      then show ?thesis using started_child[OF nq, of ?i] hold by (auto simp: child_ok_def h ch serving_def)
    next
      case False
      then have "alive q s" using that by (auto simp: ch alive_def nth_append less_Suc_eq)
      then show ?thesis using assms(1) False child_ok_cong[of t q s] by (simp add: iso_inv_def h ch nth_append alive_def)
    qed
    moreover have "cancels_ok x" if "x \<in> set (sb_children t)" for x
      using that assms(1) by (auto simp: ch iso_inv_def cancels_ok_def new_child_def)
    moreover have "sb_calls t = sb_calls s @ [Holding ?pid]" by (simp add: t)
    ultimately have "iso_inv t" using append_over[OF assms(1), of "Holding ?pid"] unfolding iso_inv_def by simp
    then show ?thesis by (simp add: t_def)
  qed
qed

text \<open>A message of a child that serves call \<open>i\<close>: the last one ends the job, any other leaves it where it is.\<close>

lemma serving_message:
  assumes "serving i c" "ch_outbox c = (tag, m) # rest"
  shows "tag = Some i \<and> (if final m then quiet (c\<lparr>ch_outbox := rest\<rparr>) else serving i (c\<lparr>ch_outbox := rest\<rparr>))"
proof -
  consider "in_progress i c" | "reported i c" using assms by (auto simp: serving_def to_start_def)
  then show ?thesis
  proof cases
    case 1
    then show ?thesis using assms(2) by (auto simp: in_progress_def serving_def)
  next
    case 2
    then obtain pre l where p: "(tag, m) # rest = pre @ [(Some i, l)]" "open_msgs i pre" "final l" "ch_current c = None" "no_start (ch_inbox c)"
      using assms(2) by (auto simp: reported_def)
    show ?thesis
    proof (cases pre)
      case Nil
      then show ?thesis using p by (simp add: quiet_def)
    next
      case (Cons x xs)
      then have "reported i (c\<lparr>ch_outbox := rest\<rparr>)" using p by (auto simp: reported_def)
      then show ?thesis using Cons p by (auto simp: serving_def)
    qed
  qed
qed

lemma pop_iso:
  assumes "iso_inv s" "holds_child s i pid" "excl_inv s" "ch_outbox (sb_children s ! pid) = (tag, m) # rest" "\<not> final m"
  shows "iso_inv (upd_child pid (\<lambda>c. c\<lparr>ch_outbox := rest\<rparr>) s)"
proof (rule upd_child_iso[OF assms(1)])
  fix j assume "serving j (sb_children s ! pid)"
  then show "serving j ((sb_children s ! pid)\<lparr>ch_outbox := rest\<rparr>)"
    using serving_message[of j "sb_children s ! pid" tag m rest] assms(4,5) by simp
qed (use assms(4) in \<open>simp_all add: quiet_def cancels_ok_def\<close>)

lemma settle_pop_iso:
  assumes "iso_inv s" "holds_child s i pid" "excl_inv s" "ch_outbox (sb_children s ! pid) = (tag, m) # rest" "final m"
  shows "iso_inv (settle_call i pid r tag (upd_child pid (\<lambda>c. c\<lparr>ch_outbox := rest\<rparr>) s))"
proof -
  let ?s1 = "upd_child pid (\<lambda>c. c\<lparr>ch_outbox := rest\<rparr>) s" and ?t = "settle_call i pid r tag (upd_child pid (\<lambda>c. c\<lparr>ch_outbox := rest\<rparr>) s)"
  have al: "alive pid s" using assms(2,3) unfolding excl_inv_def by blast
  have sv: "serving i (sb_children s ! pid)" using assms(1,2) al by (simp add: iso_inv_def child_ok_def)
  then have m: "tag = Some i" "quiet ((sb_children s ! pid)\<lparr>ch_outbox := rest\<rparr>)"
    using serving_message[OF _ assms(4)] assms(5) by auto
  have h: "holds_child ?t j q \<longleftrightarrow> holds_child s j q \<and> j \<noteq> i" for j q by (auto simp: holds_settle)
  have "child_ok ?t q" if q: "alive q s" for q
  proof (cases "q = pid")
    case True
    then show ?thesis using m(2) al assms(2,3) by (auto simp: child_ok_def h upd_child_nth alive_def excl_inv_def)
  next
    case False
    then have "\<not> holds_child s i q" using assms(2) by (auto simp: holds_child_def)
    then have "holds_child ?t j q = holds_child s j q" for j using h by blast
    then show ?thesis using assms(1) q False child_ok_cong[of ?t q s] by (simp add: iso_inv_def upd_child_nth alive_def)
  qed
  moreover have "cancels_ok x" if x: "x \<in> set (sb_children ?t)" for x
  proof -
    obtain q where q: "q < length (sb_children ?s1)" "sb_children ?s1 ! q = x" using x unfolding in_set_conv_nth by auto
    then have "cancels_ok (sb_children s ! q)" using assms(1) by (simp add: iso_inv_def)
    then show ?thesis using q by (cases "q = pid") (auto simp: upd_child_nth cancels_ok_def)
  qed
  moreover have "alive q ?t = alive q s" for q by (simp add: upd_child_alive)
  moreover have "j = k" if "k < length (sb_calls ?t)" "sb_calls ?t ! k = Over r' (Some j)" for k r' j
    using that assms(1) m(1) by (cases "k = i") (auto simp: settle_call_def iso_inv_def)
  ultimately show ?thesis unfolding iso_inv_def by blast
qed

lemma parent_gets_iso:
  assumes "iso_inv s" "excl_inv s" "alive pid s"
  shows "iso_inv (parent_gets pid (Inr v) s)"
proof (cases "ch_outbox (sb_children s ! pid)")
  case (Cons tm rest)
  obtain tag m where tm: "tm = (tag, m)" by fastforce
  let ?s1 = "upd_child pid (\<lambda>c. c\<lparr>ch_outbox := rest\<rparr>) s"
  obtain i where i: "holder pid s = Some i"
    using child_state[OF assms(1,3)] holder_None[of pid s] Cons by (cases "holder pid s") (auto simp: quiet_def)
  note ob = Cons[unfolded tm]
  show ?thesis
  proof (cases "final m")
    case True
    then show ?thesis
      using handler_final[OF True, of "uniform_job (Inr v)" "()"] settle_pop_iso[OF assms(1) holder_Some[OF i] assms(2) ob True] ob i
      by (auto simp: parent_gets_def)
  next
    case False
    have "iso_inv ?s1" using pop_iso[OF assms(1) holder_Some[OF i] assms(2) ob False] .
    then show ?thesis using handler_open[OF False, of v] ob i by (auto simp: parent_gets_def response_iso)
  qed
qed (use assms in \<open>simp add: parent_gets_def\<close>)

lemma exit_iso:
  assumes "iso_inv s" "excl_inv s" "alive pid s"
  shows "iso_inv (child_exits pid s)"
proof -
  let ?g = "\<lambda>c. c\<lparr>ch_exited := True, ch_proc := (ch_proc c)\<lparr>cp_exited := True\<rparr>, ch_outbox := []\<rparr>"
  define s2 where "s2 = (upd_child pid ?g s)\<lparr>sb_pool := remove_child pid (ch_file (sb_children s ! pid)) (sb_pool (upd_child pid ?g s))\<rparr>"
  define t where "t = child_exits pid s"
  have t: "t = (case holder pid s of Some i \<Rightarrow> settle_call i pid (Inl exit_error) None s2 | None \<Rightarrow> s2)"
    unfolding t_def child_exits_def Let_def s2_def by (rule refl)
  have ch: "sb_children t = sb_children (upd_child pid ?g s)" by (simp add: t s2_def split: option.split)
  have ht: "holds_child t j q \<longleftrightarrow> holds_child s j q" if "q \<noteq> pid" for j q
  proof (cases "holder pid s")
    case (Some i)
    have "\<not> holds_child s i q" using holder_Some[OF Some] that by (auto simp: holds_child_def)
    moreover have "holds_child t j q \<longleftrightarrow> j \<noteq> i \<and> holds_child s2 j q" using Some by (simp add: t holds_settle)
    moreover have "holds_child s2 j q = holds_child s j q" by (simp add: s2_def holds_child_def)
    ultimately show ?thesis by blast
  qed (simp add: t s2_def holds_child_def)
  have "child_ok t q" if "alive q t" for q
  proof -
    have q: "q \<noteq> pid" "q < length (sb_children s)" "sb_children t ! q = sb_children s ! q"
      using that assms(3) by (auto simp: alive_def ch upd_child_nth split: if_splits)
    then have "alive q s" using that by (simp add: alive_def)
    then show ?thesis using assms(1) q ht child_ok_cong[of t q s] by (simp add: iso_inv_def)
  qed
  moreover have "cancels_ok x" if x: "x \<in> set (sb_children t)" for x
  proof -
    obtain q where q: "q < length (sb_children (upd_child pid ?g s))" "sb_children (upd_child pid ?g s) ! q = x"
      using x unfolding in_set_conv_nth ch by auto
    then have "cancels_ok (sb_children s ! q)" using assms(1) by (simp add: iso_inv_def)
    then show ?thesis using q by (cases "q = pid") (auto simp: upd_child_nth cancels_ok_def)
  qed
  moreover have "j = k" if "k < length (sb_calls t)" "sb_calls t ! k = Over r' (Some j)" for k r' j
  proof -
    have "k < length (sb_calls s) \<and> sb_calls s ! k = Over r' (Some j)"
      using that by (cases "holder pid s = Some k") (auto simp: t s2_def settle_call_def split: option.splits)
    then show ?thesis using assms(1) by (simp add: iso_inv_def)
  qed
  ultimately have "iso_inv t" unfolding iso_inv_def by blast
  then show ?thesis by (simp add: t_def)
qed

definition isolated_inv :: "sandbox \<Rightarrow> bool" where
  "isolated_inv s \<longleftrightarrow> excl_inv s \<and> iso_inv s"

definition orderly_trans :: "sandbox \<Rightarrow> sandbox \<Rightarrow> bool" where
  "orderly_trans s t \<longleftrightarrow> (\<exists>e. orderly e \<and> sandbox_exec e s = Some t)"

lemma exec_iso:
  assumes "sandbox_exec e s = Some t" "orderly e" "isolated_inv s"
  shows "isolated_inv t"
proof -
  have inv: "excl_inv s" "iso_inv s" using assms(3) by (simp_all add: isolated_inv_def)
  have "iso_inv t"
  proof (cases e)
    case (ParentGets pid r)
    then show ?thesis using assms(1,2) inv by (cases r) (auto split: if_splits intro: parent_gets_iso)
  next
    case (ChildGets pid)
    then show ?thesis using assms(1) inv by (auto simp: acts_def split: if_splits intro: gets_iso)
  qed (use assms(1,2) inv in \<open>auto split: if_splits intro: process_iso abort_iso exit_iso clean_iso other_iso\<close>)
  then show ?thesis using exec_excl[OF assms(1) inv(1)] by (simp add: isolated_inv_def)
qed

lemma start_isolated: "isolated_inv sandbox_start"
  using start_excl by (simp add: isolated_inv_def iso_inv_def sandbox_start_def alive_def)

interpretation sandbox_iso: step_invariant sandbox_init orderly_trans isolated_inv
  by unfold_locales (auto simp: sandbox_init_def orderly_trans_def start_isolated intro: exec_iso)

lemma orderly_run:
  "sandbox_run es s = Some t \<Longrightarrow> list_all orderly es \<Longrightarrow> orderly_trans\<^sup>*\<^sup>* s t"
proof (induction es arbitrary: s)
  case (Cons e es)
  then obtain s1 where s1: "sandbox_exec e s = Some s1" "sandbox_run es s1 = Some t" by (auto split: option.splits)
  then have "orderly_trans s s1" using Cons.prems(2) by (auto simp: orderly_trans_def)
  then show ?case using Cons.IH[OF s1(2)] Cons.prems(2) by (simp add: converse_rtranclp_into_rtranclp)
qed simp

section \<open>Claims\<close>

text \<open>C27. A child is never given to two jobs at once, whatever the children do, whichever methods fail and
  whenever the pool is cleaned: at any time a child is held by at most one call, a held child
  has not exited, and no child that a call holds_child or that has exited is in the pool.\<close>

theorem sandbox_exclusive:
  assumes "sandbox_run es sandbox_start = Some s"
  shows "(\<forall>i j pid. holds_child s i pid \<and> holds_child s j pid \<longrightarrow> i = j)
    \<and> (\<forall>i pid. holds_child s i pid \<longrightarrow> alive pid s)
    \<and> (\<forall>f pid. pid \<in> set (getFree f (sb_pool s)) \<longrightarrow>
         alive pid s \<and> ch_file (sb_children s ! pid) = f \<and> (\<forall>i. \<not> holds_child s i pid))"
  using sandbox_excl.inv_reach[OF sandbox_run_reach[OF assms sandbox_start_reach]]
  by (auto simp: excl_inv_def free_ok_def)

text \<open>C9. Results reach their own job: as long as the methods that sandboxed jobs call succeed and no child
  has an uncaught exception, the message that settles a call was sent for the job of that
  call, and a cancellation that takes effect hits the job it was meant for, for any
  interleaving of jobs, cancellations, exits of children and cleaning of the pool.\<close>

theorem sandbox_isolated:
  assumes "sandbox_run es sandbox_start = Some s" and "list_all orderly es"
  shows "(\<forall>i r j. i < length (sb_calls s) \<and> sb_calls s ! i = Over r (Some j) \<longrightarrow> j = i)
    \<and> (\<forall>c \<in> set (sb_children s). \<forall>(k, j) \<in> set (ch_cancelled c). k = j)"
  using sandbox_iso.inv_path[OF orderly_run[OF assms] start_isolated] by (auto simp: isolated_inv_def iso_inv_def cancels_ok_def)

text \<open>Two jobs on one child, the first cancelled while it runs.\<close>

definition two_jobs :: "sandbox_event list" where
  "two_jobs = [Process ''p.js'' (Inr ()), ChildGets 0, JobCalls 0 ''r'' (UpdateProgress (VNum 1)), Abort 0, ChildGets 0,
     JobEnds 0 (Inr (VStr ''one'')), ParentGets 0 (Inr VUndef), ParentGets 0 (Inr VUndef),
     Process ''p.js'' (Inr ()), ChildGets 0, JobEnds 0 (Inr (VStr ''two'')), ParentGets 0 (Inr VUndef)]"

definition sandbox_state :: "sandbox_event list \<Rightarrow> sandbox" where
  "sandbox_state es = (case sandbox_run es sandbox_start of Some s \<Rightarrow> s | None \<Rightarrow> sandbox_start)"

lemmas sandbox_eval = sandbox_state_def sandbox_start_def process_call_def retain_free_def getFree_def with_default_def set_free_def
  retained_add_def retained_delete_def release_def remove_child_def Let_def new_child_def to_inbox_def to_outbox_def upd_child_def
  acts_def alive_def child_gets_def start_child_def job_calls_def job_ends_def finish_job_def parent_gets_def holder_def
  settle_call_def msgHandler_def to_parent_def run_method_def uniform_job_def abort_call_def child_crashes_def uncaught_def
  child_exits_def upt_conv_Cons

lemma two_jobs_run: "sandbox_run two_jobs sandbox_start = Some (sandbox_state two_jobs)"
  by (simp add: two_jobs_def sandbox_eval)

theorem sandbox_exclusive_witness:
  "\<not> (\<exists>pid. holds_child (sandbox_state two_jobs) 0 pid \<and> holds_child (sandbox_state two_jobs) 1 pid)"
  using sandbox_exclusive [OF two_jobs_run] by (metis zero_neq_one)

theorem sandbox_isolated_witness:
  "1 < length (sb_calls (sandbox_state two_jobs)) \<and> \<not> (\<exists>r. sb_calls (sandbox_state two_jobs) ! 1 = Over r (Some 0))"
proof -
  have "1 < length (sb_calls (sandbox_state two_jobs))" by (simp add: two_jobs_def sandbox_eval)
  then show ?thesis
    using sandbox_isolated [OF two_jobs_run] by (fastforce simp: two_jobs_def)
qed


text \<open>An uncaught exception of one job fails the next: the child has reported the failure and is released,
  and exits while it is held by another call.\<close>

lemma sandbox_crash_hits_next:
  "sb_calls (sandbox_state
     [Process ''p.js'' (Inr ()), ChildGets 0, ChildCrashes 0 e, ParentGets 0 (Inr VUndef), Process ''p.js'' (Inr ()), ChildExits 0])
   = [Over (Inl (assign_error (errorToJSON e))) (Some 0), Over (Inl exit_error) None]"
  by (simp add: sandbox_eval errorToJSON_def)

end
