(* ===== verification/Sandbox_Child.thy ===== *)
theory Sandbox_Child
  imports Sandbox_Protocol
begin

text \<open>
  The parent's handle of a child process or thread, src/classes/child.ts: its identity and exit
  state, the handshake that initialises it, killing it with an escalation to SIGKILL, and the
  arguments it is started with. Also the dispatch of messages in the child, src/classes/main-base.ts.
\<close>

section \<open>Identity and exit\<close>

datatype child_kind = NoKind | ProcessKind nat bool | ThreadKind int

record child_handle =
  hd_kind :: child_kind
  hd_exitCode :: "int option"
  hd_signalCode :: "int option"
  hd_killed :: bool

definition child_pid :: "string option \<Rightarrow> child_handle \<Rightarrow> (js_error, int) result" where
  "child_pid stk c =
     (case hd_kind c of
        ProcessKind pid _ \<Rightarrow> Inr (int pid)
      | ThreadKind t \<Rightarrow> Inr \<bar>t\<bar>
      | NoKind \<Rightarrow> Inl (new_err ErrorClass stk ''No child process or worker thread''))"

definition child_killed :: "child_handle \<Rightarrow> bool" where
  "child_killed c = (case hd_kind c of ProcessKind _ k \<Rightarrow> k | _ \<Rightarrow> hd_killed c)"

definition hasProcessExited :: "child_handle \<Rightarrow> bool" where
  "hasProcessExited c \<longleftrightarrow> hd_exitCode c \<noteq> None \<or> (\<exists>k. hd_signalCode c = Some k \<and> k \<noteq> 0)"

definition on_exit :: "int option \<Rightarrow> int option \<Rightarrow> child_handle \<Rightarrow> child_handle" where
  "on_exit exitCode signalCode c = c\<lparr>hd_exitCode := exitCode, hd_signalCode := signalCode, hd_killed := True\<rparr>"

section \<open>The handshake\<close>

definition exitCodesErrors :: "(int \<times> string) list" where
  "exitCodesErrors =
     [(1, ''Uncaught Fatal Exception''), (2, ''Unused''), (3, ''Internal JavaScript Parse Error''),
      (4, ''Internal JavaScript Evaluation Failure''), (5, ''Fatal Error''), (6, ''Non-function Internal Exception Handler''),
      (7, ''Internal Exception Handler Run-Time Failure''), (8, ''Unused''), (9, ''Invalid Argument''),
      (10, ''Internal JavaScript Run-Time Failure''), (12, ''Invalid Debug Argument''), (13, ''Unfinished Top-Level Await'')]"

definition close_message :: "int \<Rightarrow> string \<Rightarrow> string" where
  "close_message code signal =
     (let c = (if code > 128 then code - 128 else code);
          msg = (case map_of exitCodesErrors c of Some m \<Rightarrow> m | None \<Rightarrow> ''Unknown exit code '' @ string_of_int c)
      in ''Error initializing child: '' @ msg @ '' and signal '' @ signal)"

text \<open>What the child's channel delivers while the parent waits: a command of the protocol (with its error),
  another message, or the closing of the child. Both listeners go with the first event they
  react to.\<close>

datatype init_event = InitMessage parent_command jsval | ForeignMessage | InitClose int string

datatype init_state = Waiting | Completed | InitFailed js_error

record handshake =
  hs_state :: init_state
  hs_listening :: bool

definition handshake_start :: handshake where
  "handshake_start = \<lparr>hs_state = Waiting, hs_listening = True\<rparr>"

definition settle_init :: "init_state \<Rightarrow> handshake \<Rightarrow> handshake" where
  "settle_init r h = h\<lparr>hs_state := (if hs_state h = Waiting then r else hs_state h)\<rparr>"

definition init_error :: "jsval \<Rightarrow> js_error" where
  "init_error err =
     \<lparr>err_class = ErrorClass, err_name = ''Error'', err_message = str_or [] (vprop err ''message''),
      err_stack = str_of (vprop err ''stack''), err_code = None\<rparr>"

definition init_step :: "string option \<Rightarrow> init_event \<Rightarrow> handshake \<Rightarrow> handshake" where
  "init_step stk ev h =
     (if \<not> hs_listening h then h
      else case ev of
             ForeignMessage \<Rightarrow> h
           | InitMessage cmd err \<Rightarrow>
               (if cmd = PInitCompleted then settle_init Completed h
                else if cmd = PInitFailed then settle_init (InitFailed (init_error err)) h
                else h)\<lparr>hs_listening := False\<rparr>
           | InitClose code signal \<Rightarrow>
               (settle_init (InitFailed (new_err ErrorClass stk (close_message code signal))) h)\<lparr>hs_listening := False\<rparr>)"

definition initChild :: "string option \<Rightarrow> init_event list \<Rightarrow> init_state" where
  "initChild stk evs = hs_state (fold (init_step stk) evs handshake_start)"

section \<open>Killing\<close>

datatype signal = SIGTERM | SIGKILL

text \<open>The process exits after the given time if it is only sent the first signal (\<open>None\<close>: it does not); SIGKILL
  always ends it. The result is the list of signals sent and the time of the exit.\<close>

definition kill_child :: "child_handle \<Rightarrow> signal \<Rightarrow> real option \<Rightarrow> real option \<Rightarrow> signal list \<times> real option" where
  "kill_child c sig timeoutMs exitsAfter =
     (if hasProcessExited c then ([], Some 0)
      else if sig = SIGKILL then ([SIGKILL], Some 0)
      else case timeoutMs of
             None \<Rightarrow> ([sig], exitsAfter)
           | Some t \<Rightarrow>
               (case exitsAfter of
                  Some x \<Rightarrow> if x \<le> t then ([sig], Some x) else ([sig, SIGKILL], Some t)
                | None \<Rightarrow> ([sig, SIGKILL], Some t)))"

definition CHILD_KILL_TIMEOUT :: real where
  "CHILD_KILL_TIMEOUT = 30000"

section \<open>Arguments\<close>

definition arg_name :: "string \<Rightarrow> string" where
  "arg_name arg = takeWhile (\<lambda>c. c \<noteq> CHR ''='') arg"

text \<open>Debugger arguments get a free port each and go to the end; \<open>port\<close> gives the free ports.\<close>

fun convert_args :: "(nat \<Rightarrow> string) \<Rightarrow> nat \<Rightarrow> string list \<Rightarrow> string list \<times> string list" where
  "convert_args port n [] = ([], [])"
| "convert_args port n (arg # args) =
     (if str_includes ''--inspect'' arg
      then (case convert_args port (Suc n) args of (st, cv) \<Rightarrow> (st, (arg_name arg @ ''='' @ port n) # cv))
      else (case convert_args port n args of (st, cv) \<Rightarrow> (arg # st, cv)))"

definition convertExecArgv :: "(nat \<Rightarrow> string) \<Rightarrow> string list \<Rightarrow> string list" where
  "convertExecArgv port args = (case convert_args port 0 args of (st, cv) \<Rightarrow> st @ cv)"

section \<open>Dispatch in the child\<close>

text \<open>The reaction of the child to a message of its parent. Errors are printed, not passed on.\<close>

definition dispatch ::
  "string option \<Rightarrow> (js_error, exported) result \<Rightarrow> child_command \<Rightarrow> child_processor \<Rightarrow> parent_message list \<times> child_processor" where
  "dispatch stk loaded cmd cp =
     (case cmd of
        CInit \<Rightarrow> init_child stk loaded cp
      | CStart \<Rightarrow> (case start_child stk cp of (ms, cp1, _) \<Rightarrow> (ms, cp1))
      | _ \<Rightarrow> ([], cp))"

section \<open>Facts\<close>

lemma init_silent: "\<not> hs_listening h \<Longrightarrow> fold (init_step stk) evs h = h"
  by (induction evs arbitrary: h) (simp_all add: init_step_def)

lemma init_foreign: "\<forall>ev \<in> set pre. ev = ForeignMessage \<Longrightarrow> fold (init_step stk) pre h = h"
  by (induction pre) (simp_all add: init_step_def)

text \<open>The handshake is decided by the first event that is not foreign, whatever follows.\<close>

lemma initChild_decided:
  assumes "\<forall>ev \<in> set pre. ev = ForeignMessage"
  shows "initChild stk (pre @ ev # later) =
     (case ev of
        ForeignMessage \<Rightarrow> initChild stk later
      | InitMessage cmd err \<Rightarrow>
          if cmd = PInitCompleted then Completed else if cmd = PInitFailed then InitFailed (init_error err) else Waiting
      | InitClose code signal \<Rightarrow> InitFailed (new_err ErrorClass stk (close_message code signal)))"
  by (cases ev) (auto simp: initChild_def init_foreign[OF assms] init_step_def settle_init_def handshake_start_def init_silent)

text \<open>Waiting for a child to initialise can last forever: if the child has an uncaught exception before it
  reports, the failure message it sends removes the listeners without settling the promise,
  and the exit that follows is not noticed; the job that asked for the child hangs.\<close>

theorem child_init_hangs:
  "initChild stk (InitMessage (pm_cmd (hd (fst (uncaught e cp)))) VUndef # InitClose code signal # later) = Waiting"
  using initChild_decided[of "[]" stk] by (simp add: uncaught_def to_parent_def)

text \<open>A child that is killed with a timeout is asked to terminate first and forced if it has not exited
  when the time is over; either way it ends by then.\<close>

lemma kill_child_escalates:
  assumes "\<not> hasProcessExited c"
  shows "\<exists>x \<le> t. snd (kill_child c SIGTERM (Some t) exitsAfter) = Some x
    \<and> (SIGKILL \<in> set (fst (kill_child c SIGTERM (Some t) exitsAfter)) \<longleftrightarrow> (\<forall>y. exitsAfter = Some y \<longrightarrow> t < y))"
  using assms by (auto simp: kill_child_def split: option.splits)

lemma convert_args_split:
  "fst (convert_args port n args) = filter (\<lambda>a. \<not> str_includes ''--inspect'' a) args
   \<and> length (snd (convert_args port n args)) = length (filter (str_includes ''--inspect'') args)"
  by (induction args arbitrary: n) (simp_all add: case_prod_unfold)

lemma convertExecArgv_length: "length (convertExecArgv port args) = length args"
  using convert_args_split[of port 0 args] sum_length_filter_compl[of "str_includes ''--inspect''" args]
  by (simp add: convertExecArgv_def case_prod_unfold)

end
