(* ===== verification/Redis_Connection.thy ===== *)
theory Redis_Connection
  imports Js_Strings
begin

text \<open>
  src/classes/redis-connection.ts: the connection a backend owns. Options and the detection of client
  libraries, the wait for a client to become ready, the detection of the server and its version,
  reconnecting, closing, and the patch that makes blocking reads of a cluster client reconnect,
  which is shared by all connections on one client and counted. The client library is a
  parameter: its status, what its calls return and the events it emits.
\<close>

section \<open>Options\<close>

text \<open>\<open>retryStrategy\<close>, in milliseconds.\<close>

definition retryStrategy :: "nat \<Rightarrow> real" where
  "retryStrategy n = max (min (exp (real n)) 20000) 1000"

record extra_options =
  eo_shared :: bool
  eo_blocking :: bool
  eo_skipVersionCheck :: bool
  eo_skipWaitingForReady :: bool
  eo_clusterReconnectTimeoutMs :: real

definition DEFAULT_CLUSTER_RECONNECT_TIMEOUT_MS :: real where
  "DEFAULT_CLUSTER_RECONNECT_TIMEOUT_MS = 30000"

definition default_extra :: extra_options where
  "default_extra = \<lparr>eo_shared = False, eo_blocking = True, eo_skipVersionCheck = False, eo_skipWaitingForReady = False,
     eo_clusterReconnectTimeoutMs = DEFAULT_CLUSTER_RECONNECT_TIMEOUT_MS\<rparr>"

definition overrideMessage :: string where
  "overrideMessage = ''BullMQ: WARNING! Your redis options maxRetriesPerRequest must be null and will be overridden by BullMQ.''"

definition deprecationMessage :: string where
  "deprecationMessage = ''BullMQ: Your redis options maxRetriesPerRequest must be null.''"

text \<open>What is printed, or the error.\<close>

definition checkBlockingOptions :: "string option \<Rightarrow> bool \<Rightarrow> string \<Rightarrow> jsobj \<Rightarrow> bool \<Rightarrow> (js_error, string list) result" where
  "checkBlockingOptions stk blocking msg options throwError =
     (if blocking \<and> truthy (oprop options ''maxRetriesPerRequest'')
      then (if throwError then Inl (new_err ErrorClass stk msg) else Inr [msg]) else Inr [])"

text \<open>The client that is passed in, by the members it has.\<close>

record instance_shape =
  is_adapted :: bool
  is_defineCommand :: bool
  is_sendCommand :: bool
  is_open_flags :: bool
  is_send :: bool
  is_connected_flag :: bool

datatype driver = Adapted | NodeRedis | BunRedis | IORedis

definition wrapRedisInstance :: "instance_shape \<Rightarrow> driver" where
  "wrapRedisInstance i =
     (if is_adapted i then Adapted
      else if \<not> is_defineCommand i \<and> is_sendCommand i \<and> is_open_flags i then NodeRedis
      else if \<not> is_defineCommand i \<and> is_send i \<and> is_connected_flag i then BunRedis
      else IORedis)"

text \<open>The constructor: the options of the connection and what is printed. A given client brings its own.\<close>

definition connection_options ::
  "string option \<Rightarrow> extra_options \<Rightarrow> (jsobj, jsobj \<times> jsobj \<times> bool) sum \<Rightarrow> (js_error, jsobj \<times> string list) result" where
  "connection_options stk eo opts =
     (case opts of
        Inl o1 \<Rightarrow>
          bind_result (checkBlockingOptions stk (eo_blocking eo) overrideMessage o1 False) (\<lambda>printed.
            let merged = object_assign [(''port'', VNum 6379), (''host'', VStr ''127.0.0.1'')] o1
            in Inr (if eo_blocking eo then map_set ''maxRetriesPerRequest'' VNull merged else merged, printed))
      | Inr (clientOpts, redisOptions, isCluster) \<Rightarrow>
          if truthy (oprop clientOpts ''keyPrefix'')
          then Inl (new_err ErrorClass stk ''BullMQ: ioredis does not support ioredis prefixes, use the prefix option instead.'')
          else let o1 = (if isCluster then redisOptions else clientOpts) in
               bind_result (checkBlockingOptions stk (eo_blocking eo) deprecationMessage o1 True) (\<lambda>_. Inr (o1, [])))"

section \<open>Waiting for a client\<close>

datatype client_status = StReady | StConnect | StWait | StEnd | StOther string

text \<open>Decided at once, by connecting, or by the events that follow.\<close>

datatype ready_start = ReadyNow | CallConnect | FailClosed | AwaitEvents

definition waitUntilReady_start :: "bool \<Rightarrow> client_status \<Rightarrow> ready_start" where
  "waitUntilReady_start isCluster status =
     (if status = StReady then ReadyNow
      else if status = StConnect \<and> isCluster then ReadyNow
      else if status = StWait then CallConnect
      else if status = StEnd then FailClosed
      else AwaitEvents)"

datatype client_event = EvReady | EvEnd client_status | EvError js_error

record ready_wait =
  rw_settled :: "(js_error, unit) result option"
  rw_lastError :: "js_error option"
  rw_onError :: bool
  rw_listeners :: int

definition ready_wait_start :: "int \<Rightarrow> ready_wait" where
  "ready_wait_start n = \<lparr>rw_settled = None, rw_lastError = None, rw_onError = True, rw_listeners = n + 3\<rparr>"

definition handleEnd :: "string option \<Rightarrow> client_status \<Rightarrow> js_error option \<Rightarrow> (js_error, unit) result" where
  "handleEnd stk status lastError =
     (case lastError of
        Some e \<Rightarrow> Inl e
      | None \<Rightarrow> if status \<noteq> StEnd then Inl (new_ConnectionClosedError stk (Some CONNECTION_CLOSED_ERROR_MSG)) else Inr ())"

text \<open>A settled wait has no listeners left; the maximum of listeners is reset.\<close>

definition ready_settle :: "(js_error, unit) result \<Rightarrow> ready_wait \<Rightarrow> ready_wait" where
  "ready_settle r w = w\<lparr>rw_settled := Some r, rw_onError := False, rw_listeners := rw_listeners w - 3\<rparr>"

definition ready_step :: "string option \<Rightarrow> client_event \<Rightarrow> ready_wait \<Rightarrow> ready_wait" where
  "ready_step stk ev w =
     (if rw_settled w \<noteq> None then w
      else case ev of
             EvReady \<Rightarrow> ready_settle (Inr ()) w
           | EvEnd status \<Rightarrow> ready_settle (handleEnd stk status (rw_lastError w)) w
           | EvError e \<Rightarrow> if rw_onError w then w\<lparr>rw_lastError := Some e, rw_onError := False\<rparr> else w)"

text \<open>\<open>connect\<close> is how \<open>client.connect()\<close> ends.\<close>

definition waitUntilReady ::
  "string option \<Rightarrow> bool \<Rightarrow> client_status \<Rightarrow> (js_error, unit) result \<Rightarrow> client_event list \<Rightarrow> (js_error, unit) result option" where
  "waitUntilReady stk isCluster status connect evs =
     (case waitUntilReady_start isCluster status of
        ReadyNow \<Rightarrow> Some (Inr ())
      | CallConnect \<Rightarrow> Some connect
      | FailClosed \<Rightarrow> Some (Inl (new_ConnectionClosedError stk (Some CONNECTION_CLOSED_ERROR_MSG)))
      | AwaitEvents \<Rightarrow> rw_settled (fold (ready_step stk) evs (ready_wait_start 0)))"

section \<open>Disconnecting and reconnecting\<close>

text \<open>disconnect with \<open>wait\<close>: the first of \<open>end\<close> and \<open>error\<close> decides.\<close>

fun disconnect_wait :: "client_event list \<Rightarrow> (js_error, unit) result option" where
  "disconnect_wait [] = None"
| "disconnect_wait (EvEnd _ # evs) = Some (Inr ())"
| "disconnect_wait (EvError e # evs) = Some (Inl e)"
| "disconnect_wait (EvReady # evs) = disconnect_wait evs"

definition disconnect_connection :: "client_status \<Rightarrow> bool \<Rightarrow> client_event list \<Rightarrow> (js_error, unit) result option" where
  "disconnect_connection status wait evs =
     (if status = StEnd then Some (Inr ()) else if \<not> wait then Some (Inr ()) else disconnect_wait evs)"

text \<open>reconnect: a round sees the status of the client; if it can neither return nor connect it waits, and
  an error of the wait is ignored while the client is still on its way. \<open>rounds\<close> are the status
  before each wait, how the wait ended and the status after it.\<close>

definition transient :: "client_status \<Rightarrow> bool" where
  "transient status \<longleftrightarrow> status \<in> {StEnd, StConnect, StOther ''connecting'', StOther ''reconnecting''}"

datatype reconnect_outcome = AlreadyConnected | Connects | Rejects js_error | StillWaiting

fun reconnect :: "bool \<Rightarrow> (client_status \<times> (js_error, unit) result \<times> client_status) list \<Rightarrow> reconnect_outcome" where
  "reconnect isCluster [] = StillWaiting"
| "reconnect isCluster ((status, waited, later) # rounds) =
     (if status = StReady \<or> (status = StConnect \<and> isCluster) then AlreadyConnected
      else if status = StWait \<or> status = StEnd then Connects
      else case waited of
             Inr _ \<Rightarrow> reconnect isCluster rounds
           | Inl e \<Rightarrow> if \<not> transient later then Rejects e else reconnect isCluster rounds)"

section \<open>The server\<close>

record server_info =
  si_version :: "string option"
  si_type :: string
  si_warned :: "string list"

definition value_after :: "string \<Rightarrow> string \<Rightarrow> string option" where
  "value_after key line = (if prefix key line then Some (drop (length key) line) else None)"

definition or_keep :: "string option \<Rightarrow> string option \<Rightarrow> string option" where
  "or_keep a b = (case a of Some v \<Rightarrow> Some v | None \<Rightarrow> b)"

definition info_line :: "string \<Rightarrow> server_info \<Rightarrow> server_info" where
  "info_line line s =
     (let s1 =
        (if str_includes ''dragonfly_version:'' line \<or> str_includes ''server:Dragonfly'' line
         then s\<lparr>si_type := ''dragonfly'', si_version := or_keep (value_after ''dragonfly_version:'' line) (si_version s)\<rparr>
         else if str_includes ''valkey_version:'' line \<or> str_includes ''server:Valkey'' line
         then s\<lparr>si_type := ''valkey'', si_version := or_keep (value_after ''valkey_version:'' line) (si_version s)\<rparr>
         else s\<lparr>si_version := or_keep (value_after ''redis_version:'' line) (si_version s)\<rparr>)
      in case value_after ''maxmemory_policy:'' line of
           Some p \<Rightarrow> if p \<noteq> ''noeviction'' then s1\<lparr>si_warned := si_warned s1 @ [p]\<rparr> else s1
         | None \<Rightarrow> s1)"

text \<open>The first line with a version of any kind, if none of the known ones gave a text.\<close>

fun info_parts :: "string \<Rightarrow> string list" where
  "info_parts [] = [[]]"
| "info_parts (c # cs) =
     (if c = CHR '':'' then [] # info_parts cs
      else case info_parts cs of [] \<Rightarrow> [[c]] | w # ws \<Rightarrow> (c # w) # ws)"

fun any_version :: "string list \<Rightarrow> string option" where
  "any_version [] = None"
| "any_version (line # ls) =
     (if str_includes ''version:'' line \<and> 2 \<le> length (info_parts line) then Some (info_parts line ! 1) else any_version ls)"

definition minimumVersion :: string where
  "minimumVersion = ''5.0.0''"

definition recommendedMinimumVersion :: string where
  "recommendedMinimumVersion = ''6.2.0''"

definition nonempty :: "string option \<Rightarrow> string option" where
  "nonempty v = (case v of Some (c # cs) \<Rightarrow> Some (c # cs) | _ \<Rightarrow> None)"

definition getRedisVersionAndType :: "bool \<Rightarrow> string list \<Rightarrow> string \<times> string \<times> string list" where
  "getRedisVersionAndType skipVersionCheck infoLines =
     (if skipVersionCheck then (minimumVersion, ''redis'', [])
      else let s = fold info_line infoLines \<lparr>si_version = None, si_type = ''redis'', si_warned = []\<rparr>;
               v = (case nonempty (si_version s) of Some w \<Rightarrow> Some w | None \<Rightarrow> any_version infoLines)
           in (case nonempty v of Some w \<Rightarrow> w | None \<Rightarrow> minimumVersion, si_type s, si_warned s))"

text \<open>\<open>coerce\<close> and \<open>lt\<close> are the functions of the semver package; only Redis is compared.\<close>

definition lower_than :: "(string \<Rightarrow> string) \<Rightarrow> (string \<Rightarrow> string \<Rightarrow> bool) \<Rightarrow> string \<Rightarrow> string \<Rightarrow> string \<Rightarrow> bool" where
  "lower_than coerce lt t v w = isRedisVersionLowerThan coerce lt v w t None"

record capabilities =
  cb_canDoubleTimeout :: bool
  cb_canBlockFor1Ms :: bool

definition capabilities_of :: "(string \<Rightarrow> string) \<Rightarrow> (string \<Rightarrow> string \<Rightarrow> bool) \<Rightarrow> string \<Rightarrow> string \<Rightarrow> capabilities" where
  "capabilities_of coerce lt t v =
     \<lparr>cb_canDoubleTimeout = (\<not> lower_than coerce lt t v ''6.0.0''), cb_canBlockFor1Ms = (\<not> lower_than coerce lt t v ''7.0.8'')\<rparr>"

definition check_version ::
  "string option \<Rightarrow> (string \<Rightarrow> string) \<Rightarrow> (string \<Rightarrow> string \<Rightarrow> bool) \<Rightarrow> bool \<Rightarrow> bool \<Rightarrow> string \<Rightarrow> string \<Rightarrow> (js_error, bool) result" where
  "check_version stk coerce lt skipVersionCheck closing t v =
     (if skipVersionCheck \<or> closing then Inr False
      else if lower_than coerce lt t v minimumVersion
      then Inl (new_err ErrorClass stk (''Redis version needs to be greater or equal than '' @ minimumVersion @ '' Current: '' @ v))
      else Inr (lower_than coerce lt t v recommendedMinimumVersion))"

text \<open>loadCommands: every script is defined under its versioned name, unless the client has it.\<close>

fun define_script :: "string \<Rightarrow> string \<times> nat \<times> string \<Rightarrow> (string, nat \<times> string) jsmap \<Rightarrow> (string, nat \<times> string) jsmap" where
  "define_script packageVersion (name, keys, lua) client =
     (let commandName = name @ '':'' @ packageVersion in
      if map_get client commandName = None then map_set commandName (keys, lua) client else client)"

definition loadCommands :: "string \<Rightarrow> (string \<times> nat \<times> string) list \<Rightarrow> (string, nat \<times> string) jsmap \<Rightarrow> (string, nat \<times> string) jsmap" where
  "loadCommands packageVersion finalScripts client = fold (define_script packageVersion) finalScripts client"

section \<open>Properties\<close>

text \<open>The pause before an attempt to connect is between one and twenty seconds and never shrinks.\<close>

lemma retryStrategy_bounds: "1000 \<le> retryStrategy n" "retryStrategy n \<le> 20000"
  by (simp_all add: retryStrategy_def)

lemma retryStrategy_mono: "m \<le> n \<Longrightarrow> retryStrategy m \<le> retryStrategy n"
  unfolding retryStrategy_def by (intro max.mono min.mono) simp_all

text \<open>A blocking connection made from options never limits the retries of a command.\<close>

lemma blocking_retries_forever:
  "eo_blocking eo \<Longrightarrow> connection_options stk eo (Inl o1) = Inr (opts, printed) \<Longrightarrow> oprop opts ''maxRetriesPerRequest'' = VNull"
  by (auto simp: connection_options_def checkBlockingOptions_def Let_def oprop_def split: if_splits)

text \<open>A client with a key prefix is refused.\<close>

lemma keyPrefix_refused:
  "truthy (oprop clientOpts ''keyPrefix'') \<Longrightarrow> \<exists>e. connection_options stk eo (Inr (clientOpts, redisOptions, cluster)) = Inl e"
  by (simp add: connection_options_def)

text \<open>A wait for a client settles at the first \<open>ready\<close> or \<open>end\<close>, once, and leaves the maximum of listeners as it was.\<close>

lemma ready_settled_stays: "rw_settled w \<noteq> None \<Longrightarrow> fold (ready_step stk) evs w = w"
  by (induction evs) (simp_all add: ready_step_def)

lemma ready_wait_listeners:
  assumes "rw_listeners w = n + (if rw_settled w = None then 3 else 0)"
  shows "rw_listeners (fold (ready_step stk) evs w) = n + (if rw_settled (fold (ready_step stk) evs w) = None then 3 else 0)"
  using assms
proof (induction evs arbitrary: w)
  case (Cons ev evs)
  have "rw_listeners (ready_step stk ev w) = n + (if rw_settled (ready_step stk ev w) = None then 3 else 0)"
    using Cons.prems by (simp add: ready_step_def ready_settle_def split: client_event.split)
  then show ?case using Cons.IH by simp
qed simp

lemma ready_wait_errors:
  assumes "\<forall>ev \<in> set evs. \<exists>e. ev = EvError e" and "rw_settled w = None"
  shows "rw_settled (fold (ready_step stk) evs w) = None"
  using assms
proof (induction evs arbitrary: w)
  case (Cons ev evs)
  then obtain e where "ev = EvError e" by auto
  then have "rw_settled (ready_step stk ev w) = None" using Cons.prems(2) by (simp add: ready_step_def)
  then show ?case using Cons.IH Cons.prems(1) by simp
qed simp

lemma ready_wait_ready:
  assumes "\<forall>ev \<in> set errs. \<exists>e. ev = EvError e"
  shows "waitUntilReady stk c (StOther s) conn (errs @ EvReady # evs) = Some (Inr ())"
proof -
  have "rw_settled (fold (ready_step stk) errs (ready_wait_start 0)) = None"
    using ready_wait_errors [OF assms] by (simp add: ready_wait_start_def)
  then show ?thesis
    by (simp add: waitUntilReady_def waitUntilReady_start_def ready_settled_stays ready_step_def ready_settle_def)
qed

text \<open>A wait that ends with \<open>end\<close> reports the first error, and none only if the status is already \<open>end\<close>.\<close>

lemma handleEnd_ok_iff: "handleEnd stk status lastError = Inr () \<longleftrightarrow> lastError = None \<and> status = StEnd"
  by (simp add: handleEnd_def split: option.split)

text \<open>reconnect rejects only with an error of a wait after which the client is not on its way.\<close>

lemma reconnect_rejects:
  "reconnect c rounds = Rejects e \<Longrightarrow> \<exists>status later. (status, Inl e, later) \<in> set rounds \<and> \<not> transient later"
  by (induction c rounds rule: reconnect.induct) (auto split: if_splits sum.splits)

text \<open>Dragonfly and Valkey never fail the version check and have every capability.\<close>

lemma other_databases_pass:
  "t \<noteq> ''redis'' \<Longrightarrow> check_version stk coerce lt skip closing t v = Inr False"
  "t \<noteq> ''redis'' \<Longrightarrow> capabilities_of coerce lt t v = \<lparr>cb_canDoubleTimeout = True, cb_canBlockFor1Ms = True\<rparr>"
  by (simp_all add: check_version_def capabilities_of_def lower_than_def isRedisVersionLowerThan_def with_default_def)

text \<open>A version is always reported.\<close>

lemma version_nonempty: "fst (getRedisVersionAndType skip infoLines) \<noteq> []"
  by (simp add: getRedisVersionAndType_def minimumVersion_def nonempty_def Let_def split: option.splits list.splits)

text \<open>Loading the scripts twice defines nothing new, and a command that exists is kept.\<close>

lemma define_script_keeps: "map_get c name = Some d \<Longrightarrow> map_get (define_script v s c) name = Some d"
  by (cases s) (auto simp: Let_def)

lemma define_script_known: "map_get c (fst s @ '':'' @ v) \<noteq> None \<Longrightarrow> define_script v s c = c"
  by (cases s) (auto simp: Let_def)

lemma define_script_defines: "map_get (define_script v s c) (fst s @ '':'' @ v) \<noteq> None"
  by (cases s) (simp add: Let_def)

lemma loadCommands_keeps: "map_get c name = Some d \<Longrightarrow> map_get (loadCommands v ss c) name = Some d"
  unfolding loadCommands_def by (induction ss arbitrary: c) (simp_all add: define_script_keeps del: define_script.simps)

lemma loadCommands_defines: "s \<in> set ss \<Longrightarrow> map_get (loadCommands v ss c) (fst s @ '':'' @ v) \<noteq> None"
proof (induction ss arbitrary: c)
  case (Cons t ss)
  have step: "loadCommands v (t # ss) c = loadCommands v ss (define_script v t c)"
    by (simp add: loadCommands_def)
  show ?case
    using Cons.prems Cons.IH define_script_defines [of v t c] loadCommands_keeps [of "define_script v t c"]
    unfolding step by (metis not_Some_eq set_ConsD)
qed simp

lemma loadCommands_known: "\<forall>s \<in> set ss. map_get c (fst s @ '':'' @ v) \<noteq> None \<Longrightarrow> loadCommands v ss c = c"
  unfolding loadCommands_def by (induction ss) (simp_all add: define_script_known del: define_script.simps)

lemma loadCommands_idem: "loadCommands v ss (loadCommands v ss c) = loadCommands v ss c"
  using loadCommands_known loadCommands_defines by blast

end
