(* ===== verification/Redis_Cluster.thy ===== *)
theory Redis_Cluster
  imports Redis_Connection "HOL-Library.Multiset"
begin

text \<open>
  src/classes/redis-connection.ts: connections on one client. The constructor, the parts of
  \<open>init\<close> between its awaits, the parts of \<open>close\<close> between its awaits, and the patch of
  \<open>bzpopmin\<close> of a cluster client, which every blocking connection on the client holds a
  reference to. A history is any interleaving of those parts.
\<close>

section \<open>The client and the connections\<close>

text \<open>A \<open>bzpopmin\<close> is the one of the library, or the one connection \<open>i\<close> wrapped around another.\<close>

datatype bz = NativeBz nat | WrapBz nat bz

record cluster_client =
  cc_patchRefCount :: "int option"
  cc_closingRefCount :: "int option"
  cc_patched :: bool
  cc_original :: "bz option"
  cc_wrapped :: "bz option"
  cc_bzpopmin :: "bz option"
  cc_isCluster :: bool
  cc_status :: client_status
  cc_nodes :: "nat option"
  cc_maxListeners :: int
  cc_commands :: "(string, nat \<times> string) jsmap"

datatype conn_status = Initializing | ConnReady | ConnClosing | ConnClosed

datatype init_phase = InitWaiting | InitVersion | InitDone | InitFailed js_error

datatype conn_close_phase = NotClosing | CloseWaitInit bool | CloseQuitting | CloseDone "(js_error, unit) result"

record connection =
  cn_extra :: extra_options
  cn_skipVersionCheck :: bool
  cn_status :: conn_status
  cn_closing :: bool
  cn_hasClient :: bool
  cn_attached :: bool
  cn_patchedClient :: bool
  cn_disabled :: bool
  cn_version :: "string option"
  cn_dbType :: string
  cn_capabilities :: capabilities
  cn_listeners :: nat
  cn_emitted :: "js_error list"
  cn_init :: init_phase
  cn_close :: conn_close_phase

record connection_env =
  ce_stk :: "string option"
  ce_coerce :: "string \<Rightarrow> string"
  ce_lt :: "string \<Rightarrow> string \<Rightarrow> bool"
  ce_packageVersion :: string
  ce_scripts :: "(string \<times> nat \<times> string) list"

type_synonym conn_op = "cluster_client \<times> connection \<Rightarrow> cluster_client \<times> connection"

section \<open>The patch\<close>

text \<open>\<open>x || d\<close> on a number that may be missing.\<close>

definition count_or :: "int option \<Rightarrow> int \<Rightarrow> int" where
  "count_or x d = (case x of None \<Rightarrow> d | Some n \<Rightarrow> if n = 0 then d else n)"

fun patchBlockingClusterClient :: "nat \<Rightarrow> conn_op" where
  "patchBlockingClusterClient i (cl, c) =
     (if \<not> eo_blocking (cn_extra c) \<or> \<not> cc_isCluster cl then (cl, c)
      else case cc_bzpopmin cl of
             None \<Rightarrow> (cl, c)
           | Some bzpopmin \<Rightarrow>
               let cl1 = cl\<lparr>cc_patchRefCount := Some (count_or (cc_patchRefCount cl) 0 + 1)\<rparr>;
                   c1 = c\<lparr>cn_patchedClient := True\<rparr>
               in if cc_patched cl1 then (cl1, c1)
                  else (cl1\<lparr>cc_original := Some bzpopmin, cc_wrapped := Some (WrapBz i bzpopmin), cc_patched := True,
                           cc_bzpopmin := Some (WrapBz i bzpopmin)\<rparr>, c1))"

fun disableBlockingClusterReconnect :: conn_op where
  "disableBlockingClusterReconnect (cl, c) =
     (if \<not> cn_patchedClient c \<or> cn_disabled c then (cl, c)
      else (cl\<lparr>cc_closingRefCount := Some (count_or (cc_closingRefCount cl) 0 + 1)\<rparr>, c\<lparr>cn_disabled := True\<rparr>))"

fun releaseClosing :: conn_op where
  "releaseClosing (cl, c) =
     (if cn_disabled c
      then let n = count_or (cc_closingRefCount cl) 1 - 1
           in (cl\<lparr>cc_closingRefCount := (if 0 < n then Some n else None)\<rparr>, c\<lparr>cn_disabled := False\<rparr>)
      else (cl, c))"

definition restore_bzpopmin :: "cluster_client \<Rightarrow> cluster_client" where
  "restore_bzpopmin cl =
     (let cl1 = (if cc_original cl \<noteq> None \<and> cc_bzpopmin cl = cc_wrapped cl then cl\<lparr>cc_bzpopmin := cc_original cl\<rparr> else cl)
      in cl1\<lparr>cc_patchRefCount := None, cc_closingRefCount := None, cc_original := None, cc_wrapped := None, cc_patched := False\<rparr>)"

fun releaseBlockingClusterClientPatch :: conn_op where
  "releaseBlockingClusterClientPatch (cl, c) =
     (if \<not> cn_patchedClient c then (cl, c)
      else case releaseClosing (cl, c) of (cl1, c1) \<Rightarrow>
        let n = count_or (cc_patchRefCount cl1) 1 - 1
        in (if 0 < n then cl1\<lparr>cc_patchRefCount := Some n\<rparr> else restore_bzpopmin cl1, c1\<lparr>cn_patchedClient := False\<rparr>))"

section \<open>Construction and init\<close>

definition new_connection :: "extra_options \<Rightarrow> bool \<Rightarrow> connection" where
  "new_connection eo skip =
     \<lparr>cn_extra = eo, cn_skipVersionCheck = skip, cn_status = Initializing, cn_closing = False, cn_hasClient = False,
      cn_attached = False, cn_patchedClient = False, cn_disabled = False, cn_version = None, cn_dbType = ''redis'',
      cn_capabilities = \<lparr>cb_canDoubleTimeout = False, cb_canBlockFor1Ms = True\<rparr>, cn_listeners = 0, cn_emitted = [],
      cn_init = InitWaiting, cn_close = NotClosing\<rparr>"

text \<open>A failed init is emitted only if somebody listens.\<close>

definition init_fail :: "js_error \<Rightarrow> connection \<Rightarrow> connection" where
  "init_fail e c =
     c\<lparr>cn_init := InitFailed e, cn_emitted := (if 0 < cn_listeners c then cn_emitted c @ [e] else cn_emitted c)\<rparr>"

fun init_load :: "connection_env \<Rightarrow> conn_op" where
  "init_load E (cl, c) =
     (let cl1 = cl\<lparr>cc_commands := loadCommands (ce_packageVersion E) (ce_scripts E) (cc_commands cl)\<rparr>
      in (cl1, c\<lparr>cn_init := (if cc_status cl1 \<noteq> StEnd then InitVersion else InitDone)\<rparr>))"

text \<open>\<open>created\<close> is how the client came to be: given or made, or the error of the factory or of the
  missing package.\<close>

fun init_start :: "connection_env \<Rightarrow> nat \<Rightarrow> (js_error, unit) result \<Rightarrow> conn_op" where
  "init_start E i (Inl e) (cl, c) = (cl, init_fail e c)"
| "init_start E i (Inr _) (cl, c) =
     (case patchBlockingClusterClient i
             (cl\<lparr>cc_maxListeners := increaseMaxListeners (cc_maxListeners cl) 3\<rparr>, c\<lparr>cn_hasClient := True, cn_attached := True\<rparr>) of
        (cl1, c1) \<Rightarrow> if eo_skipWaitingForReady (cn_extra c1) then init_load E (cl1, c1) else (cl1, c1\<lparr>cn_init := InitWaiting\<rparr>))"

fun init_ready :: "connection_env \<Rightarrow> (js_error, unit) result \<Rightarrow> conn_op" where
  "init_ready E r (cl, c) =
     (if cn_init c = InitWaiting
      then (case r of Inl e \<Rightarrow> (cl, init_fail e c) | Inr _ \<Rightarrow> init_load E (cl, c))
      else (cl, c))"

definition init_versioned :: "connection_env \<Rightarrow> string list \<Rightarrow> connection \<Rightarrow> connection" where
  "init_versioned E infoLines c =
     (case getRedisVersionAndType (cn_skipVersionCheck c) infoLines of (v, t, warned) \<Rightarrow>
        let c1 = c\<lparr>cn_version := Some v, cn_dbType := t\<rparr>
        in case check_version (ce_stk E) (ce_coerce E) (ce_lt E) (cn_skipVersionCheck c) (cn_closing c) t v of
             Inl e \<Rightarrow> init_fail e c1
           | Inr _ \<Rightarrow> c1\<lparr>cn_capabilities := capabilities_of (ce_coerce E) (ce_lt E) t v, cn_status := ConnReady,
                          cn_init := InitDone\<rparr>)"

fun init_info :: "connection_env \<Rightarrow> (js_error, string list) result \<Rightarrow> conn_op" where
  "init_info E r (cl, c) =
     (if cn_init c = InitVersion
      then (cl, case (if cn_skipVersionCheck c then Inr [] else r) of
                  Inl e \<Rightarrow> init_fail e c
                | Inr infoLines \<Rightarrow> init_versioned E infoLines c)
      else (cl, c))"

section \<open>close\<close>

definition undefined_read :: "string option \<Rightarrow> string \<Rightarrow> js_error" where
  "undefined_read stk p = new_err TypeErrorClass stk (''Cannot read properties of undefined (reading '' @ [CHR 0x27] @ p @ [CHR 0x27] @ '')'')"

text \<open>The \<open>finally\<close> block; \<open>r\<close> is how the rest of \<open>close\<close> ended.\<close>

fun close_finally :: "connection_env \<Rightarrow> (js_error, unit) result \<Rightarrow> conn_op" where
  "close_finally E r (cl, c) =
     (case releaseBlockingClusterClientPatch (cl, c) of (cl1, c1) \<Rightarrow>
        if \<not> cn_hasClient c1 then (cl1, c1\<lparr>cn_close := CloseDone (Inl (undefined_read (ce_stk E) ''off''))\<rparr>)
        else (cl1\<lparr>cc_maxListeners := decreaseMaxListeners (cc_maxListeners cl1) 3\<rparr>,
              c1\<lparr>cn_attached := False, cn_listeners := 0, cn_status := ConnClosed, cn_close := CloseDone r\<rparr>))"

text \<open>The \<open>catch\<close> block.\<close>

definition close_caught :: "js_error \<Rightarrow> (js_error, unit) result" where
  "close_caught error = (if isNotConnectionError error then Inl error else Inr ())"

fun close_client :: "connection_env \<Rightarrow> conn_status \<Rightarrow> bool \<Rightarrow> conn_op" where
  "close_client E status force (cl, c) =
     (if eo_shared (cn_extra c) then close_finally E (Inr ()) (cl, c)
      else if status = Initializing \<or> force
      then (if cn_hasClient c then close_finally E (Inr ()) (cl\<lparr>cc_status := StEnd\<rparr>, c)
            else close_finally E (close_caught (undefined_read (ce_stk E) ''disconnect'')) (cl, c))
      else (if cn_hasClient c then (cl, c\<lparr>cn_close := CloseQuitting\<rparr>)
            else close_finally E (close_caught (undefined_read (ce_stk E) ''quit'')) (cl, c)))"

fun close_begin :: "connection_env \<Rightarrow> bool \<Rightarrow> conn_op" where
  "close_begin E force (cl, c) =
     (if cn_closing c then (cl, c)
      else let status = cn_status c in
           case disableBlockingClusterReconnect (cl, c\<lparr>cn_status := ConnClosing, cn_closing := True\<rparr>) of (cl1, c1) \<Rightarrow>
             if status = ConnReady then (cl1, c1\<lparr>cn_close := CloseWaitInit force\<rparr>)
             else close_client E status force (cl1, c1))"

text \<open>After \<open>await this.initializing\<close>, which is waited for only by a ready connection.\<close>

fun close_initialized :: "connection_env \<Rightarrow> conn_op" where
  "close_initialized E (cl, c) =
     (case cn_close c of
        CloseWaitInit force \<Rightarrow>
          (case cn_init c of
             InitDone \<Rightarrow> close_client E ConnReady force (cl, c)
           | InitFailed e \<Rightarrow> close_finally E (close_caught e) (cl, c)
           | _ \<Rightarrow> (cl, c))
      | _ \<Rightarrow> (cl, c))"

fun close_quit :: "connection_env \<Rightarrow> (js_error, unit) result \<Rightarrow> conn_op" where
  "close_quit E r (cl, c) =
     (if cn_close c = CloseQuitting
      then (case r of
              Inr _ \<Rightarrow> close_finally E (Inr ()) (cl\<lparr>cc_status := StEnd\<rparr>, c)
            | Inl e \<Rightarrow> close_finally E (close_caught e) (cl, c))
      else (cl, c))"

section \<open>Histories\<close>

record connections =
  ws_client :: cluster_client
  ws_conns :: "connection list"

datatype conn_event =
    Construct extra_options bool "(js_error, unit) result"
  | Listen nat
  | InitReady nat "(js_error, unit) result"
  | InitInfo nat "(js_error, string list) result"
  | Close nat bool
  | CloseInitialized nat
  | CloseQuit nat "(js_error, unit) result"
  | ClientChanges client_status "nat option"

definition on_conn :: "nat \<Rightarrow> conn_op \<Rightarrow> connections \<Rightarrow> connections" where
  "on_conn i f w =
     (if i < length (ws_conns w)
      then case f (ws_client w, ws_conns w ! i) of (cl, c) \<Rightarrow> w\<lparr>ws_client := cl, ws_conns := (ws_conns w)[i := c]\<rparr>
      else w)"

fun listen :: conn_op where
  "listen (cl, c) = (cl, c\<lparr>cn_listeners := Suc (cn_listeners c)\<rparr>)"

fun conn_step :: "connection_env \<Rightarrow> conn_event \<Rightarrow> connections \<Rightarrow> connections" where
  "conn_step E (Construct eo skip created) w =
     on_conn (length (ws_conns w)) (init_start E (length (ws_conns w)) created)
       (w\<lparr>ws_conns := ws_conns w @ [new_connection eo skip]\<rparr>)"
| "conn_step E (Listen i) w = on_conn i listen w"
| "conn_step E (InitReady i r) w = on_conn i (init_ready E r) w"
| "conn_step E (InitInfo i r) w = on_conn i (init_info E r) w"
| "conn_step E (Close i force) w = on_conn i (close_begin E force) w"
| "conn_step E (CloseInitialized i) w = on_conn i (close_initialized E) w"
| "conn_step E (CloseQuit i r) w = on_conn i (close_quit E r) w"
| "conn_step E (ClientChanges status nodes) w = w\<lparr>ws_client := (ws_client w)\<lparr>cc_status := status, cc_nodes := nodes\<rparr>\<rparr>"

definition conn_history :: "connection_env \<Rightarrow> conn_event list \<Rightarrow> cluster_client \<Rightarrow> connections" where
  "conn_history E evs cl = fold (conn_step E) evs \<lparr>ws_client = cl, ws_conns = []\<rparr>"

section \<open>Reconnecting a cluster\<close>

definition isClusterWithEmptyNodes :: "cluster_client \<Rightarrow> bool" where
  "isClusterWithEmptyNodes client \<longleftrightarrow> cc_nodes client = Some 0"

definition isReconnectingDisabled :: "cluster_client \<Rightarrow> bool" where
  "isReconnectingDisabled client \<longleftrightarrow>
     (let patchRefCount = count_or (cc_patchRefCount client) 0; closingRefCount = count_or (cc_closingRefCount client) 0
      in patchRefCount = 0 \<or> patchRefCount \<le> closingRefCount \<or> cc_status client = StEnd \<or> cc_status client = StOther ''closing'')"

definition ascii_lower :: "char \<Rightarrow> char" where
  "ascii_lower c = (let n = of_char c :: nat in if 65 \<le> n \<and> n \<le> 90 then char_of (n + 32) else c)"

definition includes_ci :: "string \<Rightarrow> string \<Rightarrow> bool" where
  "includes_ci pat s = str_includes (map ascii_lower pat) (map ascii_lower s)"

text \<open>\<open>msgs\<close> are the messages of the error, of its cause and of the last node's error, where present.\<close>

definition shouldReconnectClusterAfterError :: "cluster_client \<Rightarrow> string \<times> string option \<times> string option \<Rightarrow> bool" where
  "shouldReconnectClusterAfterError client msgs =
     (if isReconnectingDisabled client then False
      else case msgs of (own, causeMsg, nodeMsg) \<Rightarrow>
        let message = own @ '' '' @ with_default [] causeMsg @ '' '' @ with_default [] nodeMsg
        in isClusterWithEmptyNodes client \<or> includes_ci ''Command timed out'' message
           \<or> includes_ci ''Failed to refresh slots cache'' message)"

text \<open>The race of \<open>connect\<close> with the timer: when it settles and how. \<open>conn\<close> is when and how
  \<open>client.connect()\<close> settles, if it ever does.\<close>

definition cluster_timeout_error :: "string option \<Rightarrow> string \<Rightarrow> js_error" where
  "cluster_timeout_error stk shown =
     new_ConnectionClosedError stk (Some (''BullMQ: cluster reconnect timed out after '' @ shown @ ''ms''))"

definition connectClusterWithTimeout ::
  "string option \<Rightarrow> (nat \<Rightarrow> string) \<Rightarrow> nat \<Rightarrow> (nat \<times> (js_error, unit) result) option \<Rightarrow> nat \<times> (js_error, unit) result" where
  "connectClusterWithTimeout stk show_num timeoutMs conn =
     (case conn of
        Some (t, r) \<Rightarrow> if t \<le> timeoutMs then (t, r) else (timeoutMs, Inl (cluster_timeout_error stk (show_num timeoutMs)))
      | None \<Rightarrow> (timeoutMs, Inl (cluster_timeout_error stk (show_num timeoutMs))))"

text \<open>reconnectCluster: the attempt under way, if any, is shared. \<open>ra_started\<close> counts the attempts, \<open>ra_waiting\<close>
  are the calls that await the one under way and \<open>ra_answers\<close> what calls were told.\<close>

record reconnects =
  ra_pending :: bool
  ra_started :: nat
  ra_waiting :: "nat list"
  ra_answers :: "(nat \<times> (js_error, unit) result) list"

definition reconnectCluster :: "cluster_client \<Rightarrow> nat \<Rightarrow> reconnects \<Rightarrow> reconnects" where
  "reconnectCluster client caller a =
     (if isReconnectingDisabled client then a\<lparr>ra_answers := ra_answers a @ [(caller, Inr ())]\<rparr>
      else let a1 = (if ra_pending a then a else a\<lparr>ra_pending := True, ra_started := Suc (ra_started a)\<rparr>)
           in a1\<lparr>ra_waiting := ra_waiting a1 @ [caller]\<rparr>)"

text \<open>The attempt settles: the slot is cleared and every call that awaits it is told.\<close>

definition reconnect_settles :: "(js_error, unit) result \<Rightarrow> reconnects \<Rightarrow> reconnects" where
  "reconnect_settles r a =
     (if ra_pending a
      then a\<lparr>ra_pending := False, ra_waiting := [], ra_answers := ra_answers a @ map (\<lambda>c. (c, r)) (ra_waiting a)\<rparr>
      else a)"

text \<open>The wrapped \<open>bzpopmin\<close>: \<open>before\<close> and \<open>after\<close> are how \<open>reconnectCluster\<close> ends before the command and after its
  failure, \<open>native\<close> what the library's command does; the second part says how often a reconnect was awaited.\<close>

definition wrappedBzpopmin ::
  "cluster_client \<Rightarrow> (js_error, unit) result \<Rightarrow> (js_error, 'v) result \<Rightarrow> cluster_client \<Rightarrow> (js_error \<Rightarrow> string \<times> string option \<times> string option)
     \<Rightarrow> (js_error, unit) result \<Rightarrow> (js_error, 'v) result \<times> nat" where
  "wrappedBzpopmin client before native client' msgs after =
     (let needed = \<not> isReconnectingDisabled client \<and> isClusterWithEmptyNodes client; k = of_bool needed in
      case (if needed then before else Inr ()) of
        Inl e \<Rightarrow> (Inl e, k)
      | Inr _ \<Rightarrow>
          (case native of
             Inr v \<Rightarrow> (Inr v, k)
           | Inl error \<Rightarrow> (Inl error, if shouldReconnectClusterAfterError client' (msgs error) then k + 1 else k)))"

section \<open>The counts\<close>

text \<open>The client when \<open>n\<close> connections hold the patch, \<open>m\<close> of them are closing and \<open>a\<close> connections have
  their handlers on it; \<open>b\<close> and \<open>f\<close> are its maximum of listeners and its \<open>bzpopmin\<close> before any connection.\<close>

definition client_counts :: "int \<Rightarrow> bz option \<Rightarrow> int \<Rightarrow> int \<Rightarrow> int \<Rightarrow> cluster_client \<Rightarrow> bool" where
  "client_counts b f n m a cl \<longleftrightarrow>
     0 \<le> m \<and> m \<le> n \<and>
     cc_patchRefCount cl = (if n = 0 then None else Some n) \<and>
     cc_closingRefCount cl = (if m = 0 then None else Some m) \<and>
     cc_patched cl = (n \<noteq> 0) \<and>
     cc_maxListeners cl = b + 3 * a \<and>
     (if n = 0 then cc_bzpopmin cl = f \<and> cc_original cl = None \<and> cc_wrapped cl = None
      else \<exists>i g. f = Some g \<and> cc_bzpopmin cl = Some (WrapBz i g) \<and> cc_original cl = Some g \<and> cc_wrapped cl = Some (WrapBz i g))"

definition conn_ok :: "connection \<Rightarrow> bool" where
  "conn_ok c \<longleftrightarrow>
     (cn_patchedClient c \<longrightarrow> cn_attached c) \<and> (cn_disabled c \<longleftrightarrow> cn_patchedClient c \<and> cn_closing c) \<and>
     (cn_closing c \<longleftrightarrow> cn_close c \<noteq> NotClosing) \<and>
     (cn_attached c \<longleftrightarrow> cn_hasClient c \<and> (\<forall>r. cn_close c \<noteq> CloseDone r)) \<and>
     (cn_close c = CloseQuitting \<longrightarrow> cn_hasClient c)"

text \<open>How an operation on one connection moves the counts.\<close>

definition counts_moved :: "int \<Rightarrow> bz option \<Rightarrow> int \<Rightarrow> int \<Rightarrow> int \<Rightarrow> connection \<Rightarrow> cluster_client \<times> connection \<Rightarrow> bool" where
  "counts_moved b f n m a c p \<longleftrightarrow> conn_ok (snd p) \<and>
     client_counts b f (n - of_bool (cn_patchedClient c) + of_bool (cn_patchedClient (snd p)))
       (m - of_bool (cn_disabled c) + of_bool (cn_disabled (snd p)))
       (a - of_bool (cn_attached c) + of_bool (cn_attached (snd p))) (fst p)"

definition moves_counts :: "conn_op \<Rightarrow> bool" where
  "moves_counts op \<longleftrightarrow>
     (\<forall>b f n m a cl c. conn_ok c \<longrightarrow> client_counts b f n m a cl \<longrightarrow>
        of_bool (cn_patchedClient c) \<le> n \<longrightarrow> of_bool (cn_disabled c) \<le> m \<longrightarrow>
        of_bool (cn_patchedClient c \<and> \<not> cn_disabled c) \<le> n - m \<longrightarrow> counts_moved b f n m a c (op (cl, c)))"

lemma count_or_count: "0 \<le> n \<Longrightarrow> count_or (if n = 0 then None else Some n) 0 = n"
  "0 < n \<Longrightarrow> count_or (if n = 0 then None else Some n) 1 = n"
  by (simp_all add: count_or_def)

lemma patch_counts:
  assumes "client_counts b f n m a cl" and "\<not> cn_patchedClient c"
  shows "client_counts b f (n + of_bool (cn_patchedClient (snd (patchBlockingClusterClient i (cl, c))))) m a
           (fst (patchBlockingClusterClient i (cl, c)))"
  using assms by (auto simp: client_counts_def count_or_def Let_def split: option.splits if_splits)

lemma release_counts:
  assumes "client_counts b f n m a cl" and "of_bool (cn_patchedClient c) \<le> n" and "of_bool (cn_disabled c) \<le> m"
    and "cn_disabled c \<longleftrightarrow> cn_patchedClient c"
  shows "client_counts b f (n - of_bool (cn_patchedClient c)) (m - of_bool (cn_disabled c)) a
           (fst (releaseBlockingClusterClientPatch (cl, c)))"
  using assms by (auto simp: client_counts_def count_or_def Let_def restore_bzpopmin_def)

lemma release_conn:
  "cn_disabled c \<longrightarrow> cn_patchedClient c \<Longrightarrow>
   snd (releaseBlockingClusterClientPatch (cl, c)) = c\<lparr>cn_patchedClient := False, cn_disabled := False\<rparr>"
  by (simp add: Let_def)

text \<open>An operation that leaves the flags and the counted fields alone moves nothing.\<close>

definition same_flags :: "connection \<Rightarrow> connection \<Rightarrow> bool" where
  "same_flags c c' \<longleftrightarrow>
     cn_patchedClient c' = cn_patchedClient c \<and> cn_disabled c' = cn_disabled c \<and> cn_attached c' = cn_attached c \<and>
     cn_hasClient c' = cn_hasClient c \<and> cn_closing c' = cn_closing c \<and> cn_close c' = cn_close c"

lemma same_flags_ok: "same_flags c c' \<Longrightarrow> conn_ok c \<Longrightarrow> conn_ok c'"
  by (auto simp: same_flags_def conn_ok_def)

lemma same_flags_simps [simp]:
  "same_flags c c" "same_flags c (init_fail e c)" "same_flags c (c\<lparr>cn_init := p\<rparr>)" "same_flags c (c\<lparr>cn_listeners := k\<rparr>)"
  by (simp_all add: same_flags_def init_fail_def)

lemma same_flags_versioned: "same_flags c (init_versioned E infoLines c)"
  by (simp add: init_versioned_def same_flags_def init_fail_def Let_def split: prod.splits sum.splits)

lemma counts_of_fields:
  "client_counts b f n m a (cl\<lparr>cc_commands := x\<rparr>) = client_counts b f n m a cl"
  "client_counts b f n m a (cl\<lparr>cc_status := s\<rparr>) = client_counts b f n m a cl"
  "client_counts b f n m a (cl\<lparr>cc_status := s, cc_nodes := k\<rparr>) = client_counts b f n m a cl"
  by (simp_all add: client_counts_def)

lemma moves_counts_same:
  assumes "\<And>cl c. same_flags c (snd (op (cl, c)))"
    and "\<And>b f n m a cl c. client_counts b f n m a cl \<Longrightarrow> client_counts b f n m a (fst (op (cl, c)))"
  shows "moves_counts op"
  unfolding moves_counts_def counts_moved_def
  using assms same_flags_ok [OF assms(1)] by (simp add: same_flags_def)

lemma moves_counts_listen: "moves_counts listen"
  by (rule moves_counts_same) simp_all

lemma moves_counts_init_ready: "moves_counts (init_ready E r)"
  by (rule moves_counts_same) (simp_all add: Let_def counts_of_fields split: sum.splits)

lemma moves_counts_init_info: "moves_counts (init_info E r)"
  by (rule moves_counts_same) (simp_all add: same_flags_versioned split: sum.splits)

text \<open>A connection inside \<open>close\<close>.\<close>

definition conn_mid :: "connection \<Rightarrow> bool" where
  "conn_mid c \<longleftrightarrow> cn_closing c \<and> (cn_disabled c \<longleftrightarrow> cn_patchedClient c) \<and> (cn_attached c \<longleftrightarrow> cn_hasClient c) \<and>
     (cn_patchedClient c \<longrightarrow> cn_hasClient c)"

lemma counts_listeners:
  "client_counts b f n m a cl \<Longrightarrow> client_counts b f n m (a - 1) (cl\<lparr>cc_maxListeners := decreaseMaxListeners (cc_maxListeners cl) 3\<rparr>)"
  by (simp add: client_counts_def decreaseMaxListeners_def increaseMaxListeners_def)

lemma close_finally_counts:
  assumes "conn_mid c" and "client_counts b f n m a cl" and "of_bool (cn_patchedClient c) \<le> n" and "of_bool (cn_disabled c) \<le> m"
  shows "counts_moved b f n m a c (close_finally E r (cl, c))"
proof -
  obtain cl1 where rel: "releaseBlockingClusterClientPatch (cl, c) = (cl1, c\<lparr>cn_patchedClient := False, cn_disabled := False\<rparr>)"
    using release_conn [of c cl] assms(1) unfolding conn_mid_def by (metis prod.collapse)
  have "client_counts b f (n - of_bool (cn_patchedClient c)) (m - of_bool (cn_disabled c)) a cl1"
    using release_counts [OF assms(2-4)] rel assms(1) unfolding conn_mid_def by (metis fst_conv)
  then show ?thesis
    using rel assms(1) counts_listeners
    by (simp del: releaseBlockingClusterClientPatch.simps add: counts_moved_def conn_mid_def conn_ok_def)
qed

lemma close_client_counts:
  assumes "conn_mid c" and "client_counts b f n m a cl" and "of_bool (cn_patchedClient c) \<le> n" and "of_bool (cn_disabled c) \<le> m"
  shows "counts_moved b f n m a c (close_client E status force (cl, c))"
proof -
  have "counts_moved b f n m a c (close_finally E r (cl, c))" and "counts_moved b f n m a c (close_finally E r (cl\<lparr>cc_status := s\<rparr>, c))" for r s
    using close_finally_counts [OF assms(1) _ assms(3,4)] assms(2) counts_of_fields by blast+
  moreover have "counts_moved b f n m a c (cl, c\<lparr>cn_close := CloseQuitting\<rparr>)" if "cn_hasClient c"
    using assms(1,2) that by (auto simp: counts_moved_def conn_mid_def conn_ok_def)
  ultimately show ?thesis
    by (simp del: close_finally.simps)
qed

lemma counts_stay: "conn_ok c \<Longrightarrow> client_counts b f n m a cl \<Longrightarrow> counts_moved b f n m a c (cl, c)"
  by (simp add: counts_moved_def)

lemma conn_ok_mid: "conn_ok c \<Longrightarrow> cn_closing c \<Longrightarrow> (\<And>r. cn_close c \<noteq> CloseDone r) \<Longrightarrow> conn_mid c"
  by (auto simp: conn_ok_def conn_mid_def)

lemma close_disabled:
  assumes "conn_ok c" and "\<not> cn_closing c" and "client_counts b f n m a cl" and "of_bool (cn_patchedClient c) \<le> n - m"
    and "disableBlockingClusterReconnect (cl, c\<lparr>cn_status := s, cn_closing := True\<rparr>) = (cl1, c1)"
  shows "conn_mid c1" and "client_counts b f n (m + of_bool (cn_patchedClient c)) a cl1"
    and "c1 = c\<lparr>cn_status := s, cn_closing := True, cn_disabled := cn_patchedClient c\<rparr>"
  using assms by (auto simp: conn_ok_def conn_mid_def client_counts_def count_or_def split: if_splits)

lemma moves_counts_close: "moves_counts (close_begin E force)"
  unfolding moves_counts_def
proof (intro allI impI)
  fix b f n m a cl c
  assume ok: "conn_ok c" "client_counts b f n m a cl" and le: "of_bool (cn_patchedClient c) \<le> n" "of_bool (cn_disabled c) \<le> m"
    "of_bool (cn_patchedClient c \<and> \<not> cn_disabled c) \<le> n - m"
  show "counts_moved b f n m a c (close_begin E force (cl, c))"
  proof (cases "cn_closing c")
    case True
    then show ?thesis using counts_stay [OF ok] by simp
  next
    case False
    then have nd: "\<not> cn_disabled c" using ok(1) by (simp add: conn_ok_def)
    obtain cl1 c1 where d: "disableBlockingClusterReconnect (cl, c\<lparr>cn_status := ConnClosing, cn_closing := True\<rparr>) = (cl1, c1)"
      by fastforce
    have le': "of_bool (cn_patchedClient c) \<le> n - m" using le nd by simp
    note D = close_disabled [OF ok(1) False ok(2) le' d]
    let ?m = "m + of_bool (cn_patchedClient c)"
    have move: "counts_moved b f n m a c p" if "counts_moved b f n ?m a c1 p" for p
      using that D(3) nd by (simp add: counts_moved_def)
    have le1: "of_bool (cn_patchedClient c1) \<le> n" "of_bool (cn_disabled c1) \<le> ?m"
      using D(3) le(1) ok(2) by (simp_all add: client_counts_def)
    have w: "counts_moved b f n ?m a c1 (cl1, c1\<lparr>cn_close := CloseWaitInit force\<rparr>)"
      using D(1,2) by (auto simp: counts_moved_def conn_ok_def conn_mid_def)
    show ?thesis
      using False d move [OF w] move [OF close_client_counts [OF D(1,2) le1]]
      by (simp del: close_client.simps disableBlockingClusterReconnect.simps add: Let_def)
  qed
qed

lemma moves_counts_close_initialized: "moves_counts (close_initialized E)"
  unfolding moves_counts_def
proof (intro allI impI)
  fix b f n m a cl c
  assume ok: "conn_ok c" "client_counts b f n m a cl" and le: "of_bool (cn_patchedClient c) \<le> n" "of_bool (cn_disabled c) \<le> m"
  show "counts_moved b f n m a c (close_initialized E (cl, c))"
  proof (cases "cn_close c")
    case (CloseWaitInit force)
    then have "conn_mid c" using conn_ok_mid [OF ok(1)] ok(1) by (simp add: conn_ok_def)
    then show ?thesis
      using CloseWaitInit close_finally_counts [OF _ ok(2) le] close_client_counts [OF _ ok(2) le] counts_stay [OF ok]
      by (simp del: close_client.simps close_finally.simps split: init_phase.split)
  qed (use counts_stay [OF ok] in simp_all)
qed

lemma moves_counts_close_quit: "moves_counts (close_quit E r)"
  unfolding moves_counts_def
proof (intro allI impI)
  fix b f n m a cl c
  assume ok: "conn_ok c" "client_counts b f n m a cl" and le: "of_bool (cn_patchedClient c) \<le> n" "of_bool (cn_disabled c) \<le> m"
  show "counts_moved b f n m a c (close_quit E r (cl, c))"
  proof (cases "cn_close c = CloseQuitting")
    case True
    then have "conn_mid c" using conn_ok_mid [OF ok(1)] ok(1) by (simp add: conn_ok_def)
    then show ?thesis
      using True close_finally_counts [OF _ ok(2) le] close_finally_counts [OF _ _ le] ok(2) counts_of_fields
      by (simp del: close_finally.simps split: sum.split)
  qed (use counts_stay [OF ok] in simp_all)
qed

section \<open>Every history\<close>

definition tally :: "('a \<Rightarrow> bool) \<Rightarrow> 'a list \<Rightarrow> int" where
  "tally P xs = int (length (filter P xs))"

lemma tally_simps [simp]: "tally P [] = 0" "tally P (xs @ [x]) = tally P xs + of_bool (P x)"
  by (simp_all add: tally_def)

lemma tally_nonneg [simp]: "0 \<le> tally P xs"
  by (simp add: tally_def)

lemma tally_split: "i < length xs \<Longrightarrow> tally P xs = tally P (take i xs) + of_bool (P (xs ! i)) + tally P (drop (Suc i) xs)"
  unfolding tally_def by (subst (1) id_take_nth_drop [of i xs]) simp_all

lemma tally_update: "i < length xs \<Longrightarrow> tally P (xs[i := x]) = tally P xs - of_bool (P (xs ! i)) + of_bool (P x)"
  using tally_split [of i xs P] by (simp add: tally_def upd_conv_take_nth_drop)

lemma tally_member: "i < length xs \<Longrightarrow> of_bool (P (xs ! i)) \<le> tally P xs"
  using tally_split [of i xs P] by simp

lemma tally_diff: "(\<And>x. x \<in> set xs \<Longrightarrow> Q x \<Longrightarrow> P x) \<Longrightarrow> tally P xs - tally Q xs = tally (\<lambda>x. P x \<and> \<not> Q x) xs"
  unfolding tally_def by (induction xs) auto

definition connections_ok :: "int \<Rightarrow> bz option \<Rightarrow> connections \<Rightarrow> bool" where
  "connections_ok b f w \<longleftrightarrow> (\<forall>c \<in> set (ws_conns w). conn_ok c) \<and>
     client_counts b f (tally cn_patchedClient (ws_conns w)) (tally cn_disabled (ws_conns w)) (tally cn_attached (ws_conns w))
       (ws_client w)"

lemma on_conn_ok:
  assumes "connections_ok b f w" and "i < length (ws_conns w) \<longrightarrow>
      counts_moved b f (tally cn_patchedClient (ws_conns w)) (tally cn_disabled (ws_conns w)) (tally cn_attached (ws_conns w))
        (ws_conns w ! i) (op (ws_client w, ws_conns w ! i))"
  shows "connections_ok b f (on_conn i op w)"
proof (cases "i < length (ws_conns w)")
  case True
  obtain cl c where op: "op (ws_client w, ws_conns w ! i) = (cl, c)" by fastforce
  have "conn_ok c" using assms(2) True op by (simp add: counts_moved_def)
  then have "\<forall>x \<in> set ((ws_conns w)[i := c]). conn_ok x"
    using assms(1) set_update_subset_insert [of "ws_conns w" i c] by (auto simp: connections_ok_def)
  then show ?thesis
    using assms(2) True op by (simp add: connections_ok_def on_conn_def counts_moved_def tally_update)
qed (use assms in \<open>simp add: on_conn_def\<close>)

lemma moves_counts_on_conn:
  assumes "connections_ok b f w" and "moves_counts op"
  shows "connections_ok b f (on_conn i op w)"
proof (rule on_conn_ok [OF assms(1)], rule impI)
  assume i: "i < length (ws_conns w)"
  have ok: "\<And>c. c \<in> set (ws_conns w) \<Longrightarrow> conn_ok c"
    and counts: "client_counts b f (tally cn_patchedClient (ws_conns w)) (tally cn_disabled (ws_conns w))
      (tally cn_attached (ws_conns w)) (ws_client w)"
    using assms(1) by (simp_all add: connections_ok_def)
  have "tally cn_patchedClient (ws_conns w) - tally cn_disabled (ws_conns w) =
      tally (\<lambda>c. cn_patchedClient c \<and> \<not> cn_disabled c) (ws_conns w)"
    using ok by (intro tally_diff) (auto simp: conn_ok_def)
  with assms(2) ok [OF nth_mem [OF i]] counts show "counts_moved b f (tally cn_patchedClient (ws_conns w))
      (tally cn_disabled (ws_conns w)) (tally cn_attached (ws_conns w)) (ws_conns w ! i) (op (ws_client w, ws_conns w ! i))"
    using tally_member [OF i, of cn_patchedClient] tally_member [OF i, of cn_disabled]
      tally_member [OF i, of "\<lambda>c. cn_patchedClient c \<and> \<not> cn_disabled c"]
    by (simp add: moves_counts_def)
qed

lemma init_start_counts:
  assumes "client_counts b f n m a cl"
  shows "counts_moved b f n m a (new_connection eo skip) (init_start E i created (cl, new_connection eo skip))"
proof (cases created)
  case (Inr u)
  let ?cl = "cl\<lparr>cc_maxListeners := increaseMaxListeners (cc_maxListeners cl) 3\<rparr>"
  let ?c = "(new_connection eo skip)\<lparr>cn_hasClient := True, cn_attached := True\<rparr>"
  obtain cl1 c1 where p: "patchBlockingClusterClient i (?cl, ?c) = (cl1, c1)" by fastforce
  have "client_counts b f n m (a + 1) ?cl"
    using assms by (simp add: client_counts_def increaseMaxListeners_def)
  then have "client_counts b f (n + of_bool (cn_patchedClient c1)) m (a + 1) cl1"
    using patch_counts [of b f n m "a + 1" ?cl ?c i] p by (simp del: patchBlockingClusterClient.simps add: new_connection_def)
  moreover have "conn_ok c1 \<and> \<not> cn_disabled c1 \<and> cn_attached c1"
    using p by (auto simp: new_connection_def conn_ok_def Let_def split: option.splits if_splits)
  then have "conn_ok (c1\<lparr>cn_init := x\<rparr>) \<and> \<not> cn_disabled c1 \<and> cn_attached c1" for x
    using same_flags_ok same_flags_simps(3) by blast
  ultimately show ?thesis
    using Inr p by (simp del: patchBlockingClusterClient.simps add: counts_moved_def Let_def counts_of_fields new_connection_def)
qed (use assms in \<open>simp add: counts_moved_def new_connection_def conn_ok_def init_fail_def\<close>)

lemma client_changes_ok:
  "connections_ok b f w \<Longrightarrow> connections_ok b f (w\<lparr>ws_client := (ws_client w)\<lparr>cc_status := s, cc_nodes := k\<rparr>\<rparr>)"
  by (simp add: connections_ok_def counts_of_fields)

lemmas ops_move_counts =
  moves_counts_listen moves_counts_init_ready moves_counts_init_info moves_counts_close moves_counts_close_initialized
  moves_counts_close_quit

lemma conn_step_ok: "connections_ok b f w \<Longrightarrow> connections_ok b f (conn_step E ev w)"
proof (cases ev)
  case (Construct eo skip created)
  assume w: "connections_ok b f w"
  let ?w = "w\<lparr>ws_conns := ws_conns w @ [new_connection eo skip]\<rparr>"
  have "connections_ok b f ?w"
    using w by (auto simp: connections_ok_def new_connection_def conn_ok_def)
  moreover from this have "client_counts b f (tally cn_patchedClient (ws_conns ?w)) (tally cn_disabled (ws_conns ?w))
      (tally cn_attached (ws_conns ?w)) (ws_client ?w)"
    by (simp add: connections_ok_def)
  ultimately show ?thesis
    unfolding Construct conn_step.simps
    by (intro on_conn_ok) (auto simp del: init_start.simps dest: init_start_counts)
qed (simp_all add: moves_counts_on_conn ops_move_counts client_changes_ok
    del: init_ready.simps init_info.simps close_begin.simps close_initialized.simps close_quit.simps)

lemma conn_history_ok:
  assumes "cc_patchRefCount cl = None" "cc_closingRefCount cl = None" "\<not> cc_patched cl" "cc_original cl = None" "cc_wrapped cl = None"
  shows "connections_ok (cc_maxListeners cl) (cc_bzpopmin cl) (conn_history E evs cl)"
proof -
  have "connections_ok (cc_maxListeners cl) (cc_bzpopmin cl) (fold (conn_step E) evs w)"
    if "connections_ok (cc_maxListeners cl) (cc_bzpopmin cl) w" for w
    using that by (induction evs arbitrary: w) (simp_all add: conn_step_ok)
  moreover have "connections_ok (cc_maxListeners cl) (cc_bzpopmin cl) \<lparr>ws_client = cl, ws_conns = []\<rparr>"
    using assms by (simp add: connections_ok_def client_counts_def)
  ultimately show ?thesis
    unfolding conn_history_def by blast
qed

text \<open>A client no connection has touched.\<close>

definition untouched :: "cluster_client \<Rightarrow> bool" where
  "untouched cl \<longleftrightarrow> cc_patchRefCount cl = None \<and> cc_closingRefCount cl = None \<and> \<not> cc_patched cl \<and> cc_original cl = None
     \<and> cc_wrapped cl = None"

lemma tally_pos: "0 < tally P xs \<longleftrightarrow> (\<exists>x \<in> set xs. P x)"
  by (auto simp: tally_def filter_empty_conv)

lemma count_or_counts: "count_or (if n = 0 then None else Some n) 0 = n"
  by (simp add: count_or_def)

text \<open>C31. After any interleaving of the parts of \<open>init\<close> and \<open>close\<close> of any number of connections on one
  client, the client may be reconnected by a blocking read exactly when some connection that holds
  the patch is not closing and the client itself is neither ended nor closing: a connection that
  closes never switches off the recovery of another one, and the last one that closes does. The
  reference count is the number of connections that hold the patch, and \<open>bzpopmin\<close> is wrapped exactly
  once while there is one.\<close>

theorem cluster_reconnect_while_open:
  assumes "untouched cl" and "w = conn_history E evs cl"
  shows "(\<not> isReconnectingDisabled (ws_client w) \<longleftrightarrow>
            (\<exists>c \<in> set (ws_conns w). cn_patchedClient c \<and> \<not> cn_closing c) \<and>
            cc_status (ws_client w) \<notin> {StEnd, StOther ''closing''}) \<and>
         count_or (cc_patchRefCount (ws_client w)) 0 = tally cn_patchedClient (ws_conns w) \<and>
         (if \<exists>c \<in> set (ws_conns w). cn_patchedClient c
          then \<exists>i g. cc_bzpopmin cl = Some g \<and> cc_bzpopmin (ws_client w) = Some (WrapBz i g)
          else cc_bzpopmin (ws_client w) = cc_bzpopmin cl)"
proof -
  let ?P = "tally cn_patchedClient (ws_conns w)" and ?D = "tally cn_disabled (ws_conns w)"
  have inv: "connections_ok (cc_maxListeners cl) (cc_bzpopmin cl) w"
    using conn_history_ok assms unfolding untouched_def by blast
  then have ok: "\<And>c. c \<in> set (ws_conns w) \<Longrightarrow> conn_ok c"
    and counts: "client_counts (cc_maxListeners cl) (cc_bzpopmin cl) ?P ?D (tally cn_attached (ws_conns w)) (ws_client w)"
    by (simp_all add: connections_ok_def)
  have n: "count_or (cc_patchRefCount (ws_client w)) 0 = ?P" and m: "count_or (cc_closingRefCount (ws_client w)) 0 = ?D"
    using counts by (simp_all add: client_counts_def count_or_counts)
  have "?P - ?D = tally (\<lambda>c. cn_patchedClient c \<and> \<not> cn_disabled c) (ws_conns w)"
    using ok by (intro tally_diff) (auto simp: conn_ok_def)
  then have "?D < ?P \<longleftrightarrow> (\<exists>c \<in> set (ws_conns w). cn_patchedClient c \<and> \<not> cn_disabled c)"
    using tally_pos [of "\<lambda>c. cn_patchedClient c \<and> \<not> cn_disabled c" "ws_conns w"] by linarith
  also have "\<dots> \<longleftrightarrow> (\<exists>c \<in> set (ws_conns w). cn_patchedClient c \<and> \<not> cn_closing c)"
    using ok by (auto simp: conn_ok_def)
  finally have open_iff: "?D < ?P \<longleftrightarrow> (\<exists>c \<in> set (ws_conns w). cn_patchedClient c \<and> \<not> cn_closing c)" .
  have "\<not> isReconnectingDisabled (ws_client w) \<longleftrightarrow> ?D < ?P \<and> cc_status (ws_client w) \<notin> {StEnd, StOther ''closing''}"
    using tally_nonneg [of cn_disabled "ws_conns w"] by (auto simp: isReconnectingDisabled_def Let_def n m simp del: tally_nonneg)
  moreover have "(\<exists>c \<in> set (ws_conns w). cn_patchedClient c) \<longleftrightarrow> ?P \<noteq> 0"
    using tally_pos [of cn_patchedClient "ws_conns w"] tally_nonneg [of cn_patchedClient "ws_conns w"] by linarith
  ultimately show ?thesis
    using open_iff n counts by (auto simp: client_counts_def)
qed

definition demo_conn_env :: connection_env where
  "demo_conn_env = \<lparr>ce_stk = None, ce_coerce = (\<lambda>v. v), ce_lt = (\<lambda>v w. False), ce_packageVersion = ''5.0.0'', ce_scripts = []\<rparr>"

definition demo_cluster :: cluster_client where
  "demo_cluster = \<lparr>cc_patchRefCount = None, cc_closingRefCount = None, cc_patched = False, cc_original = None, cc_wrapped = None,
     cc_bzpopmin = Some (NativeBz 0), cc_isCluster = True, cc_status = StConnect, cc_nodes = Some 3, cc_maxListeners = 10,
     cc_commands = []\<rparr>"

definition demo_shared :: extra_options where
  "demo_shared = default_extra\<lparr>eo_shared := True\<rparr>"

definition demo_conn_events :: "conn_event list" where
  "demo_conn_events =
     [Construct demo_shared True (Inr ()), Construct demo_shared True (Inr ()), InitReady 0 (Inr ()), Close 0 False]"

lemmas demo_conn_defs = demo_conn_events_def demo_cluster_def demo_conn_env_def demo_shared_def default_extra_def
  conn_history_def new_connection_def on_conn_def count_or_def restore_bzpopmin_def increaseMaxListeners_def
  decreaseMaxListeners_def Let_def loadCommands_def

theorem cluster_reconnect_while_open_witness:
  "untouched demo_cluster \<and> \<not> isReconnectingDisabled (ws_client (conn_history demo_conn_env demo_conn_events demo_cluster))"
proof -
  let ?w = "conn_history demo_conn_env demo_conn_events demo_cluster"
  have u: "untouched demo_cluster" by (simp add: untouched_def demo_cluster_def)
  have "\<exists>c \<in> set (ws_conns ?w). cn_patchedClient c \<and> \<not> cn_closing c"
    and "cc_status (ws_client ?w) = StConnect"
    by (simp_all add: demo_conn_defs)
  then show ?thesis
    using cluster_reconnect_while_open [OF u, of ?w demo_conn_env demo_conn_events] u by simp
qed



section \<open>Errors of close\<close>

text \<open>The part of a connection \<open>close\<close> decides on.\<close>

lemma disable_unpatched: "\<not> cn_patchedClient c \<Longrightarrow> disableBlockingClusterReconnect (cl, c) = (cl, c)"
  by simp

lemma close_finally_unpatched:
  "\<not> cn_patchedClient c \<Longrightarrow> \<not> cn_hasClient c \<Longrightarrow>
   close_finally E r (cl, c) = (cl, c\<lparr>cn_close := CloseDone (Inl (undefined_read (ce_stk E) ''off''))\<rparr>)"
  by simp

text \<open>A connection whose client could not be made (the factory threw, or ioredis is not installed) cannot be
  closed: \<open>close\<close> rejects with the TypeError of reading \<open>off\<close> of undefined, whatever the error of its own
  body was, the connection stays in status closing for ever, with its listeners, and no later event changes that.\<close>

theorem connection_close_without_client:
  "let c = snd (init_start E i (Inl e) (cl, new_connection eo skip));
       p = close_begin E force (cl, c)
   in fst p = cl \<and> cn_close (snd p) = CloseDone (Inl (undefined_read (ce_stk E) ''off'')) \<and>
      isNotConnectionError (undefined_read (ce_stk E) ''off'') \<and> cn_status (snd p) = ConnClosing \<and>
      close_begin E force' p = p \<and> close_initialized E p = p \<and> close_quit E r p = p \<and> init_ready E r p = p \<and> init_info E r' p = p"
proof -
  have "isNotConnectionError (undefined_read (ce_stk E) ''off'')"
    by (simp add: isNotConnectionError_def undefined_read_def new_err_def CONNECTION_CLOSED_ERROR_MSG_def)
  then show ?thesis
    by (simp add: Let_def new_connection_def init_fail_def)
qed

text \<open>A connection on a shared client that is closed before its client is ready ends up in status ready: the
  rest of \<open>init\<close> runs after \<open>close\<close> has finished.\<close>

lemma closed_connection_revived:
  "map (\<lambda>c. (cn_status c, cn_close c, cn_attached c))
     (ws_conns (conn_history demo_conn_env
        [Construct demo_shared True (Inr ()), Close 0 False, InitReady 0 (Inr ()), InitInfo 0 (Inr [])] demo_cluster)) =
   [(ConnReady, CloseDone (Inr ()), False)]"
  by (simp add: demo_conn_defs init_versioned_def getRedisVersionAndType_def check_version_def)

section \<open>Reconnecting\<close>

text \<open>An attempt to reconnect settles within its limit.\<close>

lemma connectCluster_bounded: "fst (connectClusterWithTimeout stk show_num timeoutMs conn) \<le> timeoutMs"
  by (simp add: connectClusterWithTimeout_def split: option.split prod.split)

text \<open>Histories of calls and settlements.\<close>

datatype reconnect_event = Ask cluster_client nat | Settle "(js_error, unit) result"

fun reconnect_event_step :: "reconnect_event \<Rightarrow> reconnects \<Rightarrow> reconnects" where
  "reconnect_event_step (Ask client caller) a = reconnectCluster client caller a"
| "reconnect_event_step (Settle r) a = reconnect_settles r a"

definition no_reconnects :: reconnects where
  "no_reconnects = \<lparr>ra_pending = False, ra_started = 0, ra_waiting = [], ra_answers = []\<rparr>"

definition asked :: "reconnect_event list \<Rightarrow> nat list" where
  "asked evs = concat (map (\<lambda>ev. case ev of Ask _ c \<Rightarrow> [c] | Settle _ \<Rightarrow> []) evs)"

definition settlements :: "reconnect_event list \<Rightarrow> nat" where
  "settlements evs = length (filter (\<lambda>ev. case ev of Ask _ _ \<Rightarrow> False | Settle _ \<Rightarrow> True) evs)"

lemma told_mset [simp]: "image_mset fst {#(c, r). c \<in># M#} = M"
  by (simp add: multiset.map_comp o_def)

lemma reconnects_accounted:
  "let a = fold reconnect_event_step evs a0 in
   (ra_waiting a0 \<noteq> [] \<longrightarrow> ra_pending a0) \<longrightarrow>
   (ra_waiting a \<noteq> [] \<longrightarrow> ra_pending a) \<and>
   mset (map fst (ra_answers a)) + mset (ra_waiting a) = mset (map fst (ra_answers a0)) + mset (ra_waiting a0) + mset (asked evs) \<and>
   ra_started a + of_bool (ra_pending a0) \<le> ra_started a0 + settlements evs + of_bool (ra_pending a)"
  unfolding Let_def
proof (induction evs arbitrary: a0)
  case Nil
  then show ?case by (simp add: asked_def settlements_def)
next
  case (Cons ev evs)
  show ?case
  proof (cases ev)
    case (Ask client c)
    then show ?thesis
      using Cons [of "reconnectCluster client c a0"]
      by (auto simp: reconnectCluster_def asked_def settlements_def Let_def split: if_splits)
  next
    case (Settle r)
    then show ?thesis
      using Cons [of "reconnect_settles r a0"]
      by (auto simp: reconnect_settles_def asked_def settlements_def o_def split: if_splits)
  qed
qed

text \<open>Every call is told exactly once or waits for the attempt under way, and there is never more than one attempt
  for each time one settled, plus the one under way.\<close>

lemma reconnects_shared:
  assumes "a = fold reconnect_event_step evs no_reconnects"
  shows "mset (map fst (ra_answers a)) + mset (ra_waiting a) = mset (asked evs)"
    and "ra_started a \<le> settlements evs + of_bool (ra_pending a)"
  using reconnects_accounted [of evs no_reconnects] assms by (simp_all add: no_reconnects_def Let_def)

text \<open>The wrapper adds no result and no error of its own but the failure of the reconnect it needs first.\<close>

lemma wrappedBzpopmin_transparent:
  "isReconnectingDisabled client \<or> \<not> isClusterWithEmptyNodes client \<or> before = Inr () \<Longrightarrow>
   fst (wrappedBzpopmin client before native client' msgs after) = native"
  by (auto simp: wrappedBzpopmin_def Let_def split: sum.splits)

end
