(* ===== verification/Worker_Setup.thy ===== *)
theory Worker_Setup
  imports Worker Redis_Connection "HOL-Library.Multiset"
begin

text \<open>
  The rest of src/classes/worker.ts (what a processor may be, the files of a sandboxed one, the wait for a rate
  limit, the scheduler made on first use), the helpers of src/utils/index.ts that wait, send and
  delete, and src/utils/create-backend.ts. The file system, streams and connections are parameters.
\<close>

section \<open>The processor\<close>

datatype processor = ProcFunction nat | ProcURL string string | ProcFile string | NoProcessor

datatype process_fn = InProcess nat | Sandboxed string string

record process_setup =
  ps_processFn :: "process_fn option"
  ps_acceptsSignal :: bool
  ps_autorun :: bool

definition supportedFileTypes :: "string list" where
  "supportedFileTypes = [''.js'', ''.ts'', ''.flow'', ''.cjs'', ''.mjs'']"

definition processorFile :: "(string \<Rightarrow> string) \<Rightarrow> string \<Rightarrow> string" where
  "processorFile extname p = p @ (if extname p \<in> set supportedFileTypes then [] else ''.js'')"

text \<open>The file a sandbox runs first: beside the module, or else in the build directory.\<close>

definition mainFile :: "bool \<Rightarrow> string" where
  "mainFile useWorkerThreads = (if useWorkerThreads then ''main-worker.js'' else ''main.js'')"

definition mainFilePath ::
  "(string \<Rightarrow> bool) \<Rightarrow> (string \<Rightarrow> string \<Rightarrow> string) \<Rightarrow> (string \<Rightarrow> js_error) \<Rightarrow> string \<Rightarrow> string \<Rightarrow> bool \<Rightarrow> (js_error, string) result" where
  "mainFilePath exists join enoent dirname cwd useWorkerThreads =
     (let p = join dirname (mainFile useWorkerThreads);
          q = join cwd (''dist/cjs/classes/'' @ mainFile useWorkerThreads)
      in if exists p then Inr p else if exists q then Inr q else Inl (enoent q))"

text \<open>\<open>ProcFunction\<close> carries the number of parameters, \<open>ProcURL\<close> its text and its \<open>href\<close>. \<open>main\<close> is the
  result of the search for the main file.\<close>

definition setup_processor ::
  "string option \<Rightarrow> (string \<Rightarrow> bool) \<Rightarrow> (string \<Rightarrow> string) \<Rightarrow> (js_error, string) result \<Rightarrow> bool \<Rightarrow> processor \<Rightarrow> (js_error, process_setup) result" where
  "setup_processor stk exists extname main autorun p =
     (let sandboxed = (\<lambda>file. bind_result main (\<lambda>m.
            Inr \<lparr>ps_processFn = Some (Sandboxed file m), ps_acceptsSignal = True, ps_autorun = autorun\<rparr>))
      in case p of
           NoProcessor \<Rightarrow> Inr \<lparr>ps_processFn = None, ps_acceptsSignal = False, ps_autorun = False\<rparr>
         | ProcFunction n \<Rightarrow> Inr \<lparr>ps_processFn = Some (InProcess n), ps_acceptsSignal = (3 \<le> n), ps_autorun = autorun\<rparr>
         | ProcURL url href \<Rightarrow>
             if \<not> exists url then Inl (new_err ErrorClass stk (''URL '' @ url @ '' does not exist in the local file system''))
             else sandboxed href
         | ProcFile f \<Rightarrow>
             if \<not> exists (processorFile extname f) then Inl (new_err ErrorClass stk (''File '' @ processorFile extname f @ '' does not exist''))
             else sandboxed f)"

lemma setup_sandboxed_exists:
  "setup_processor stk exists extname main autorun p = Inr s \<Longrightarrow> ps_processFn s = Some (Sandboxed file m) \<Longrightarrow>
   main = Inr m \<and> (p = ProcFile file \<and> exists (processorFile extname file) \<or> (\<exists>url. p = ProcURL url file \<and> exists url))"
  by (auto simp: setup_processor_def Let_def split: processor.splits if_splits)

lemma setup_autorun: "setup_processor stk exists extname main autorun p = Inr s \<Longrightarrow> ps_autorun s \<Longrightarrow> ps_processFn s \<noteq> None"
  by (auto simp: setup_processor_def Let_def split: processor.splits if_splits)

section \<open>Rate limits\<close>

text \<open>waitForRateLimit: how long it waits, and the worker after the wait; \<open>None\<close> if there is nothing to wait for.\<close>

definition waitForRateLimit :: "real \<Rightarrow> worker \<Rightarrow> (real \<times> worker) option" where
  "waitForRateLimit now wk =
     (if wk_limitUntil wk > now
      then Some (getRateLimitDelay wk (wk_limitUntil wk - now), wk\<lparr>wk_drained := False, wk_limitUntil := 0\<rparr>)
      else None)"

text \<open>\<open>Worker.delay\<close>: no or zero milliseconds are 100.\<close>

definition worker_delay_ms :: "real option \<Rightarrow> real" where
  "worker_delay_ms ms = (case ms of None \<Rightarrow> 100 | Some t \<Rightarrow> if t = 0 then 100 else t)"

lemma waitForRateLimit_bounds:
  "waitForRateLimit now wk = Some (t, wk') \<Longrightarrow> 0 \<le> now \<Longrightarrow>
   t \<le> wo_maximumRateLimitDelay (wk_opts wk) \<and> t \<le> wk_limitUntil wk - now \<and> \<not> isRateLimited now wk'"
  by (auto simp: waitForRateLimit_def getRateLimitDelay_def isRateLimited_def split: if_splits)

section \<open>The scheduler\<close>

text \<open>The scheduler of a worker or queue is made once; its errors go to the owner.\<close>

record scheduler_owner =
  so_scheduler :: "nat option"
  so_made :: nat

definition jobScheduler :: "scheduler_owner \<Rightarrow> nat \<times> scheduler_owner" where
  "jobScheduler w =
     (case so_scheduler w of
        Some s \<Rightarrow> (s, w)
      | None \<Rightarrow> (so_made w, w\<lparr>so_scheduler := Some (so_made w), so_made := Suc (so_made w)\<rparr>))"

lemma jobScheduler_once: "jobScheduler w = (s, w') \<Longrightarrow> jobScheduler w' = (s, w')"
  by (auto simp: jobScheduler_def split: option.splits)

section \<open>Waiting and sending\<close>

text \<open>\<open>delay\<close>: the first of timer and abort resolves it and removes both.\<close>

datatype delay_event = TimerFires | Aborted

record delay_state =
  dl_timer :: bool
  dl_listener :: bool
  dl_resolved :: nat

definition delay_start :: "bool \<Rightarrow> delay_state" where
  "delay_start hasController = \<lparr>dl_timer = True, dl_listener = hasController, dl_resolved = 0\<rparr>"

definition delay_step :: "delay_event \<Rightarrow> delay_state \<Rightarrow> delay_state" where
  "delay_step ev d =
     (if (case ev of TimerFires \<Rightarrow> dl_timer d | Aborted \<Rightarrow> dl_listener d)
      then \<lparr>dl_timer = False, dl_listener = False, dl_resolved = Suc (dl_resolved d)\<rparr> else d)"

lemma delay_done: "\<not> dl_timer d \<Longrightarrow> \<not> dl_listener d \<Longrightarrow> fold delay_step evs d = d"
  by (induction evs) (simp_all add: delay_step_def split: delay_event.split)

lemma delay_resolves_once:
  assumes "TimerFires \<in> set evs"
  shows "fold delay_step evs (delay_start c) = \<lparr>dl_timer = False, dl_listener = False, dl_resolved = 1\<rparr>"
proof -
  have "fold delay_step evs d = \<lparr>dl_timer = False, dl_listener = False, dl_resolved = 1\<rparr>"
    if "dl_timer d" "dl_resolved d = 0" for d
    using assms that
  proof (induction evs arbitrary: d)
    case (Cons ev evs)
    show ?case
    proof (cases "ev = TimerFires \<or> dl_listener d")
      case True
      then have "delay_step ev d = \<lparr>dl_timer = False, dl_listener = False, dl_resolved = 1\<rparr>"
        using Cons.prems by (cases ev) (auto simp: delay_step_def)
      then show ?thesis using delay_done by simp
    next
      case False
      then have "delay_step ev d = d" "TimerFires \<in> set evs"
        using Cons.prems by (cases ev; simp add: delay_step_def)+
      then show ?thesis using Cons by simp
    qed
  qed simp
  then show ?thesis by (simp add: delay_start_def)
qed

text \<open>\<open>asyncSend\<close>: \<open>send\<close> and \<open>post\<close> are how the process or thread takes the message, if it can.\<close>

definition asyncSend :: "js_error option option \<Rightarrow> (js_error, unit) result option \<Rightarrow> (js_error, unit) result" where
  "asyncSend send post =
     (case send of
        Some (Some err) \<Rightarrow> Inl err
      | Some None \<Rightarrow> Inr ()
      | None \<Rightarrow> (case post of Some r \<Rightarrow> r | None \<Rightarrow> Inr ()))"

text \<open>\<open>forwardConnectionError\<close>: an error is passed on only to an owner with listeners.\<close>

definition forwardConnectionError :: "nat \<Rightarrow> js_error \<Rightarrow> js_error list \<Rightarrow> js_error list" where
  "forwardConnectionError listeners error emitted = (if 0 < listeners then emitted @ [error] else emitted)"

text \<open>\<open>isRedisInstance\<close> and \<open>isRedisCluster\<close>, by the methods of the object.\<close>

definition isRedisInstance :: "string list option \<Rightarrow> bool" where
  "isRedisInstance methods = (case methods of None \<Rightarrow> False | Some ms \<Rightarrow> {''connect'', ''disconnect'', ''duplicate''} \<subseteq> set ms)"

definition isRedisCluster :: "string list option \<Rightarrow> bool \<Rightarrow> bool" where
  "isRedisCluster methods isCluster \<longleftrightarrow> isRedisInstance methods \<and> isCluster"

text \<open>\<open>toString\<close> of a value that is neither a symbol nor negative zero.\<close>

fun to_string :: "json_lib \<Rightarrow> jsval \<Rightarrow> string" where
  "to_string J VUndef = []"
| "to_string J VNull = []"
| "to_string J (VStr s) = s"
| "to_string J (VArr vs) = join_with '','' (map (to_string J) vs)"
| "to_string J v = js_string J v"

section \<open>Deleting a queue\<close>

text \<open>\<open>removeAllQueueData\<close>: \<open>batches\<close> are the keys the stream of scans delivers, \<open>ended\<close> how it ends, and
  \<open>exec\<close> the pipeline of one batch. A failed pipeline rejects the whole call.\<close>

definition all_data_pattern :: "string \<Rightarrow> string \<Rightarrow> string" where
  "all_data_pattern pfx queueName = pfx @ '':'' @ queueName @ '':*''"

fun run_pipelines :: "(string list \<Rightarrow> ('s, unit) backend_op) \<Rightarrow> string list list \<Rightarrow> ('s, js_error list) backend_op" where
  "run_pipelines exec [] s = (Inr [], s)"
| "run_pipelines exec (ks # batches) s =
     (if ks = [] then run_pipelines exec batches s
      else case exec ks s of
             (r, s1) \<Rightarrow>
               (case run_pipelines exec batches s1 of
                  (Inr es, s2) \<Rightarrow> (Inr ((case r of Inl e \<Rightarrow> [e] | Inr _ \<Rightarrow> []) @ es), s2)
                | (Inl e, s2) \<Rightarrow> (Inl e, s2)))"

definition removeAllQueueData ::
  "bool \<Rightarrow> (string list \<Rightarrow> ('s, unit) backend_op) \<Rightarrow> ('s, unit) backend_op \<Rightarrow> string list list \<Rightarrow> (js_error, unit) result \<Rightarrow> ('s, bool) backend_op" where
  "removeAllQueueData isCluster exec quit batches ended s =
     (if isCluster then (Inr False, s)
      else case run_pipelines exec batches s of
             (Inr (e # _), s1) \<Rightarrow> (Inl e, s1)
           | (Inl e, s1) \<Rightarrow> (Inl e, s1)
           | (Inr [], s1) \<Rightarrow>
               (case ended of
                  Inl e \<Rightarrow> (Inl e, s1)
                | Inr _ \<Rightarrow>
                    (case quit s1 of
                       (Inl e, s2) \<Rightarrow> if isNotConnectionError e then (Inl e, s2) else (Inr True, s2)
                     | (Inr _, s2) \<Rightarrow> (Inr True, s2))))"

text \<open>On a store of keys whose pipelines succeed, every key that was delivered is gone and no other.\<close>

definition del_keys :: "string list \<Rightarrow> (string set, unit) backend_op" where
  "del_keys ks s = (Inr (), s - set ks)"

lemma run_pipelines_del: "run_pipelines del_keys batches s = (Inr [], s - \<Union> (set ` set batches))"
  by (induction batches arbitrary: s) (auto simp: del_keys_def)

lemma removeAllQueueData_exact:
  "removeAllQueueData False del_keys (\<lambda>s. (Inr (), s)) batches (Inr ()) s = (Inr True, s - \<Union> (set ` set batches))"
  by (simp add: removeAllQueueData_def run_pipelines_del)

section \<open>Making a backend\<close>

text \<open>The name of a worker's blocking connection; \<open>base64\<close> encodes the queue name.\<close>

definition blockingConnectionName :: "(string \<Rightarrow> string) \<Rightarrow> string option \<Rightarrow> string \<Rightarrow> string option \<Rightarrow> string" where
  "blockingConnectionName base64 pfx name workerName =
     with_default ''bull'' pfx @ '':'' @ base64 name @ (if truthy_str workerName then '':w:'' @ the workerName else [])"

definition createBlockingConnection :: "bool \<Rightarrow> extra_options" where
  "createBlockingConnection skipVersionCheck =
     default_extra\<lparr>eo_shared := False, eo_blocking := True, eo_skipVersionCheck := skipVersionCheck\<rparr>"

text \<open>The main connection is shared exactly if a client was passed; the second one is never shared.\<close>

definition createRedisBackend :: "bool \<Rightarrow> bool \<Rightarrow> bool \<Rightarrow> bool \<Rightarrow> bool \<Rightarrow> extra_options \<times> extra_options option" where
  "createRedisBackend instance' blocking withBlockingConnection skipVersionCheck skipWaitingForReady =
     (default_extra\<lparr>eo_shared := instance', eo_blocking := blocking, eo_skipVersionCheck := skipVersionCheck,
        eo_skipWaitingForReady := skipWaitingForReady\<rparr>,
      if withBlockingConnection then Some (createBlockingConnection skipVersionCheck) else None)"

definition setDefaultBackendFactory :: "'f \<Rightarrow> 'f option \<Rightarrow> 'f" where
  "setDefaultBackendFactory redis factory = with_default redis factory"

end
