(* ===== verification/Glide_Chain.thy ===== *)
theory Glide_Chain
  imports Errors
begin

text \<open>
  src/classes/valkey-glide-client.ts: the life of the Valkey Glide adapter. Commands run one after the
  other: each call waits for the promise of the call before it (\<open>runSerialized\<close>). Closing waits for
  the last of them or, under a blocking command, does not wait. The raw client is a parameter: when
  its calls settle and whether it can be created again.
\<close>

section \<open>State\<close>

datatype op_phase = OpWaiting | OpRaw | OpFlight | OpDone "js_error option"

record glide_op =
  go_blocking :: bool
  go_phase :: op_phase
  go_released :: bool

text \<open>A close under way: whether it waits for a promise of the chain, for which one, and how many calls of
  \<open>disconnect(true)\<close> connect again after it.\<close>

record glide_close =
  gc_immediate :: bool
  gc_wait :: "nat option"
  gc_reconnects :: nat

record glide =
  gl_closed :: bool
  gl_ready :: bool
  gl_statusOverride :: "string option"
  gl_ops :: "glide_op list"
  gl_active :: nat
  gl_closing :: "glide_close option"
  gl_rawCloses :: nat
  gl_emitted :: "string list"

definition glide_new :: glide where
  "glide_new = \<lparr>gl_closed = False, gl_ready = False, gl_statusOverride = None, gl_ops = [], gl_active = 0,
     gl_closing = None, gl_rawCloses = 0, gl_emitted = []\<rparr>"

definition glide_status :: "glide \<Rightarrow> string" where
  "glide_status s =
     (case gl_statusOverride s of
        Some (c # cs) \<Rightarrow> c # cs
      | _ \<Rightarrow> if gl_closed s then ''end'' else if gl_ready s then ''ready'' else ''wait'')"

section \<open>Commands\<close>

definition promise_done :: "glide \<Rightarrow> nat \<Rightarrow> bool" where
  "promise_done s k \<longleftrightarrow> k < length (gl_ops s) \<and> go_released (gl_ops s ! k)"

definition previous_done :: "glide \<Rightarrow> nat \<Rightarrow> bool" where
  "previous_done s k \<longleftrightarrow> (case k of 0 \<Rightarrow> True | Suc j \<Rightarrow> promise_done s j)"

definition upd_op :: "nat \<Rightarrow> (glide_op \<Rightarrow> glide_op) \<Rightarrow> glide \<Rightarrow> glide" where
  "upd_op k f s = s\<lparr>gl_ops := (gl_ops s)[k := f (gl_ops s ! k)]\<rparr>"

definition phase_of :: "glide \<Rightarrow> nat \<Rightarrow> op_phase option" where
  "phase_of s k = (if k < length (gl_ops s) then Some (go_phase (gl_ops s ! k)) else None)"

text \<open>The call: a closed adapter rejects, an open one appends a promise to the chain.\<close>

definition run_call :: "bool \<Rightarrow> glide \<Rightarrow> glide" where
  "run_call blocking s =
     (if gl_closed s then s
      else s\<lparr>gl_ops := gl_ops s @ [\<lparr>go_blocking = blocking, go_phase = OpWaiting, go_released = False\<rparr>]\<rparr>)"

text \<open>After \<open>await previous\<close>: the second check is before the \<open>try\<close>, so its error does not reach the \<open>finally\<close>.\<close>

definition run_advance :: "string option \<Rightarrow> nat \<Rightarrow> glide \<Rightarrow> glide option" where
  "run_advance stk k s =
     (if phase_of s k = Some OpWaiting \<and> previous_done s k
      then Some (if gl_closed s
                 then upd_op k (\<lambda>p. p\<lparr>go_phase := OpDone (Some (new_ConnectionClosedError stk None))\<rparr>) s
                 else upd_op k (\<lambda>p. p\<lparr>go_phase := OpRaw\<rparr>) s)
      else None)"

text \<open>After \<open>await this.ensureRaw()\<close>, inside the \<open>try\<close>.\<close>

definition run_raw :: "string option \<Rightarrow> nat \<Rightarrow> glide \<Rightarrow> glide option" where
  "run_raw stk k s =
     (if phase_of s k = Some OpRaw
      then Some (if gl_closed s
                 then upd_op k (\<lambda>p. p\<lparr>go_phase := OpDone (Some (new_ConnectionClosedError stk None)), go_released := True\<rparr>) s
                 else (upd_op k (\<lambda>p. p\<lparr>go_phase := OpFlight\<rparr>) s)
                        \<lparr>gl_active := (if go_blocking (gl_ops s ! k) then Suc (gl_active s) else gl_active s)\<rparr>)
      else None)"

text \<open>\<open>normalizeError\<close>: a closed connection is one error class for the caller.\<close>

definition normalizeError :: "string option \<Rightarrow> js_error \<Rightarrow> js_error" where
  "normalizeError stk e =
     (if err_class e = ConnectionClosedError \<or> err_name e = ''ClosingError''
      then new_ConnectionClosedError stk (Some (err_message e)) else e)"

definition run_settle :: "string option \<Rightarrow> nat \<Rightarrow> js_error option \<Rightarrow> glide \<Rightarrow> glide option" where
  "run_settle stk k r s =
     (if phase_of s k = Some OpFlight
      then Some ((upd_op k (\<lambda>p. p\<lparr>go_phase := OpDone (map_option (normalizeError stk) r), go_released := True\<rparr>) s)
                   \<lparr>gl_active := (if go_blocking (gl_ops s ! k) then gl_active s - 1 else gl_active s)\<rparr>)
      else None)"

section \<open>Closing and connecting\<close>

definition closeRaw :: "glide \<Rightarrow> glide" where
  "closeRaw s =
     (case gl_closing s of
        Some _ \<Rightarrow> s
      | None \<Rightarrow> s\<lparr>gl_closing := Some \<lparr>gc_immediate = 0 < gl_active s,
          gc_wait = (if gl_ops s = [] then None else Some (length (gl_ops s) - 1)), gc_reconnects = 0\<rparr>\<rparr>)"

definition disconnect_glide :: "bool \<Rightarrow> glide \<Rightarrow> glide" where
  "disconnect_glide reconnect s =
     (if gl_closed s \<and> \<not> reconnect then s
      else let s1 = s\<lparr>gl_closed := True, gl_ready := False, gl_statusOverride := (if reconnect then None else Some ''end''),
                      gl_emitted := gl_emitted s @ [''close'']\<rparr>;
               s2 = closeRaw s1
           in if reconnect then s2\<lparr>gl_closing := map_option (\<lambda>c. c\<lparr>gc_reconnects := Suc (gc_reconnects c)\<rparr>) (gl_closing s2)\<rparr>
              else s2\<lparr>gl_emitted := gl_emitted s2 @ [''end'']\<rparr>)"

definition quit_glide :: "glide \<Rightarrow> glide" where
  "quit_glide s =
     (if gl_closed s then s\<lparr>gl_emitted := gl_emitted s @ [''end'', ''close'']\<rparr>
      else let s1 = closeRaw (s\<lparr>gl_closed := True, gl_ready := False, gl_statusOverride := Some ''end''\<rparr>)
           in s1\<lparr>gl_emitted := gl_emitted s1 @ [''end'', ''close'']\<rparr>)"

text \<open>connect: a closed adapter needs a new raw client first; \<open>ok\<close> tells whether it can be made.\<close>

definition connect_glide :: "bool \<Rightarrow> glide \<Rightarrow> glide" where
  "connect_glide ok s =
     (if gl_closed s \<and> \<not> ok then s\<lparr>gl_emitted := gl_emitted s @ [''error'']\<rparr>
      else s\<lparr>gl_closed := False, gl_statusOverride := None, gl_ready := True, gl_emitted := gl_emitted s @ [''ready'']\<rparr>)"

definition close_ready :: "glide \<Rightarrow> bool" where
  "close_ready s =
     (case gl_closing s of
        None \<Rightarrow> False
      | Some c \<Rightarrow> gc_immediate c \<or> (case gc_wait c of None \<Rightarrow> True | Some k \<Rightarrow> promise_done s k))"

definition close_run :: "bool \<Rightarrow> glide \<Rightarrow> glide option" where
  "close_run ok s =
     (if close_ready s
      then (case gl_closing s of
              None \<Rightarrow> None
            | Some c \<Rightarrow>
                let s1 = s\<lparr>gl_closing := None,
                           gl_rawCloses := (if gc_immediate c \<or> gl_closed s then Suc (gl_rawCloses s) else gl_rawCloses s)\<rparr>
                in Some (if 0 < gc_reconnects c
                         then connect_glide ok (s1\<lparr>gl_emitted := gl_emitted s1 @ [''reconnecting'']\<rparr>) else s1))
      else None)"

section \<open>Histories\<close>

datatype glide_event =
    GCall bool
  | GAdvance nat
  | GRaw nat
  | GSettle nat "js_error option"
  | GDisconnect bool
  | GQuit
  | GClose bool
  | GConnect bool

fun glide_step :: "string option \<Rightarrow> glide_event \<Rightarrow> glide \<Rightarrow> glide option" where
  "glide_step stk (GCall blocking) s = Some (run_call blocking s)"
| "glide_step stk (GAdvance k) s = run_advance stk k s"
| "glide_step stk (GRaw k) s = run_raw stk k s"
| "glide_step stk (GSettle k r) s = run_settle stk k r s"
| "glide_step stk (GDisconnect reconnect) s = Some (disconnect_glide reconnect s)"
| "glide_step stk GQuit s = Some (quit_glide s)"
| "glide_step stk (GClose ok) s = close_run ok s"
| "glide_step stk (GConnect ok) s = Some (connect_glide ok s)"

fun glide_run :: "string option \<Rightarrow> glide_event list \<Rightarrow> glide \<Rightarrow> glide option" where
  "glide_run stk [] s = Some s"
| "glide_run stk (e # es) s = (case glide_step stk e s of None \<Rightarrow> None | Some s' \<Rightarrow> glide_run stk es s')"

section \<open>The chain\<close>

text \<open>A released promise belongs to a finished call, and a call that has left the queue has only released
  promises before it.\<close>

definition chain_inv :: "glide_op list \<Rightarrow> bool" where
  "chain_inv ops \<longleftrightarrow>
     (\<forall>k < length ops. go_released (ops ! k) \<longrightarrow> (\<exists>r. go_phase (ops ! k) = OpDone r)) \<and>
     (\<forall>k < length ops. go_phase (ops ! k) \<noteq> OpWaiting \<longrightarrow> (\<forall>j < k. go_released (ops ! j)))"

lemma chain_released_before:
  assumes "chain_inv (gl_ops s)" and "previous_done s k" and "k < length (gl_ops s)" and "j < k"
  shows "go_released (gl_ops s ! j)"
proof -
  obtain i where k: "k = Suc i" using assms(4) by (cases k) auto
  then have i: "go_released (gl_ops s ! i)" "i < length (gl_ops s)"
    using assms(2) by (simp_all add: previous_done_def promise_done_def)
  then obtain r where "go_phase (gl_ops s ! i) = OpDone r" using assms(1) by (auto simp: chain_inv_def)
  then show ?thesis
    using assms(1,4) i k unfolding chain_inv_def by (metis less_SucE op_phase.distinct(5))
qed

text \<open>Changing one call keeps the invariant if the calls before it are released and it stays released once it is.\<close>

lemma chain_inv_update:
  assumes "chain_inv ops" and "k < length ops" and "\<forall>j < k. go_released (ops ! j)"
    and "go_released (ops ! k) \<longrightarrow> go_released p" and "go_released p \<longrightarrow> (\<exists>r. go_phase p = OpDone r)"
  shows "chain_inv (ops[k := p])"
  using assms unfolding chain_inv_def by (auto simp: nth_list_update)

lemma chain_inv_append:
  "chain_inv ops \<Longrightarrow> chain_inv (ops @ [\<lparr>go_blocking = b, go_phase = OpWaiting, go_released = False\<rparr>])"
  unfolding chain_inv_def by (auto simp: nth_append less_Suc_eq)

lemma gl_ops_simps [simp]:
  "gl_ops (closeRaw s) = gl_ops s" "gl_ops (disconnect_glide r s) = gl_ops s" "gl_ops (quit_glide s) = gl_ops s"
  "gl_ops (connect_glide ok s) = gl_ops s"
  by (simp_all add: closeRaw_def disconnect_glide_def quit_glide_def connect_glide_def Let_def split: option.split)

lemma close_run_ops: "close_run ok s = Some s' \<Longrightarrow> gl_ops s' = gl_ops s"
  by (auto simp: close_run_def Let_def split: if_splits option.splits)

text \<open>What a step does to the calls: nothing, a new call, or a change of one call that may run.\<close>

lemma glide_step_ops:
  assumes "glide_step stk e s = Some s'"
  obtains "gl_ops s' = gl_ops s"
  | b where "gl_ops s' = gl_ops s @ [\<lparr>go_blocking = b, go_phase = OpWaiting, go_released = False\<rparr>]" and "\<not> gl_closed s"
  | k p where "gl_ops s' = (gl_ops s)[k := p]" "k < length (gl_ops s)" "\<not> (\<exists>r. go_phase (gl_ops s ! k) = OpDone r)"
      "go_phase p \<noteq> OpWaiting" "go_released p \<longrightarrow> go_released (gl_ops s ! k) \<or> (\<exists>r. go_phase p = OpDone r)"
      "go_phase (gl_ops s ! k) = OpWaiting \<longrightarrow> previous_done s k" "\<not> gl_closed s \<longrightarrow> (\<exists>r. go_phase p = OpDone r) \<longrightarrow> go_released p"
proof (cases e)
  case (GCall b)
  then show ?thesis using assms that(1,2) by (auto simp: run_call_def split: if_splits)
next
  case (GAdvance k)
  then show ?thesis using assms that(3)
    by (cases "gl_closed s") (auto simp: run_advance_def phase_of_def upd_op_def split: if_splits)
next
  case (GRaw k)
  then show ?thesis using assms that(3)
    by (cases "gl_closed s") (auto simp: run_raw_def phase_of_def upd_op_def split: if_splits)
next
  case (GSettle k r)
  then show ?thesis using assms that(3) by (auto simp: run_settle_def phase_of_def upd_op_def split: if_splits)
qed (use assms that(1) close_run_ops in auto)

lemma chain_inv_step:
  assumes "glide_step stk e s = Some s'" and inv: "chain_inv (gl_ops s)"
  shows "chain_inv (gl_ops s')"
  using assms(1)
proof (cases rule: glide_step_ops)
  case (3 k p)
  have "\<forall>j < k. go_released (gl_ops s ! j)"
  proof (cases "go_phase (gl_ops s ! k) = OpWaiting")
    case True
    then show ?thesis using 3 chain_released_before [OF inv] by blast
  next
    case False
    then show ?thesis using inv 3(2) by (auto simp: chain_inv_def)
  qed
  moreover have "\<not> go_released (gl_ops s ! k)" using inv 3(2,3) by (auto simp: chain_inv_def)
  ultimately show ?thesis using chain_inv_update [OF inv 3(2)] 3 by simp
qed (use inv chain_inv_append in auto)

lemma chain_inv_run: "glide_run stk es s = Some s' \<Longrightarrow> chain_inv (gl_ops s) \<Longrightarrow> chain_inv (gl_ops s')"
  by (induction es arbitrary: s) (auto split: option.splits dest: chain_inv_step)

lemma chain_inv_new: "chain_inv (gl_ops glide_new)"
  by (simp add: chain_inv_def glide_new_def)

text \<open>Calls that were started and have not ended.\<close>

definition busy :: "glide \<Rightarrow> nat \<Rightarrow> bool" where
  "busy s k \<longleftrightarrow> phase_of s k = Some OpRaw \<or> phase_of s k = Some OpFlight"

lemma started_before_done:
  assumes "chain_inv (gl_ops s)" and "phase_of s k = Some p" and "p \<noteq> OpWaiting" and "j < k"
  shows "\<exists>r. phase_of s j = Some (OpDone r)"
proof -
  have k: "k < length (gl_ops s)" "go_phase (gl_ops s ! k) = p" using assms(2) by (auto simp: phase_of_def split: if_splits)
  then have "go_released (gl_ops s ! j)" using assms(1,3,4) by (auto simp: chain_inv_def)
  then show ?thesis using assms(1,4) k(1) by (auto simp: chain_inv_def phase_of_def)
qed

lemma busy_unique: "chain_inv (gl_ops s) \<Longrightarrow> busy s i \<Longrightarrow> busy s j \<Longrightarrow> i = j"
proof (rule ccontr)
  assume inv: "chain_inv (gl_ops s)" and b: "busy s i" "busy s j" and "i \<noteq> j"
  then consider "i < j" | "j < i" by linarith
  then show False
  proof cases
    case 1
    then show False using started_before_done [OF inv _ _ 1] b unfolding busy_def by fastforce
  next
    case 2
    then show False using started_before_done [OF inv _ _ 2] b unfolding busy_def by fastforce
  qed
qed

text \<open>As long as nobody closes the adapter, a finished call has released its promise.\<close>

definition open_inv :: "glide \<Rightarrow> bool" where
  "open_inv s \<longleftrightarrow> \<not> gl_closed s \<and> gl_closing s = None \<and>
     (\<forall>k < length (gl_ops s). (\<exists>r. go_phase (gl_ops s ! k) = OpDone r) \<longrightarrow> go_released (gl_ops s ! k))"

fun closes :: "glide_event \<Rightarrow> bool" where
  "closes (GDisconnect _) = True"
| "closes GQuit = True"
| "closes _ = False"

lemma open_flags:
  assumes "glide_step stk e s = Some s'" and "\<not> closes e" and "\<not> gl_closed s" and "gl_closing s = None"
  shows "\<not> gl_closed s' \<and> gl_closing s' = None"
  using assms
  by (cases e) (auto simp: run_call_def run_advance_def run_raw_def run_settle_def upd_op_def connect_glide_def close_run_def
      close_ready_def split: if_splits)

lemma open_inv_step:
  assumes "glide_step stk e s = Some s'" and "\<not> closes e" and o: "open_inv s"
  shows "open_inv s'"
proof -
  have flags: "\<not> gl_closed s' \<and> gl_closing s' = None"
    using open_flags [OF assms(1,2)] o by (simp add: open_inv_def)
  from assms(1) have "\<forall>k < length (gl_ops s'). (\<exists>r. go_phase (gl_ops s' ! k) = OpDone r) \<longrightarrow> go_released (gl_ops s' ! k)"
  proof (cases rule: glide_step_ops)
    case 1
    then show ?thesis using o by (simp add: open_inv_def)
  next
    case (2 b)
    then show ?thesis using o by (auto simp: open_inv_def nth_append less_Suc_eq)
  next
    case (3 k p)
    then show ?thesis using o by (auto simp: open_inv_def nth_list_update)
  qed
  with flags show ?thesis by (simp add: open_inv_def)
qed

lemma open_inv_run: "glide_run stk es s = Some s' \<Longrightarrow> list_all (\<lambda>e. \<not> closes e) es \<Longrightarrow> open_inv s \<Longrightarrow> open_inv s'"
  by (induction es arbitrary: s) (auto split: option.splits dest: open_inv_step)

text \<open>The first call that has not ended can go on.\<close>

lemma first_unfinished_moves:
  assumes o: "open_inv s" and k: "k < length (gl_ops s)" "\<forall>r. go_phase (gl_ops s ! k) \<noteq> OpDone r"
    and before: "\<forall>j < k. \<exists>r. go_phase (gl_ops s ! j) = OpDone r"
  shows "glide_step stk (GAdvance k) s \<noteq> None \<or> glide_step stk (GRaw k) s \<noteq> None \<or> glide_step stk (GSettle k r) s \<noteq> None"
proof -
  have "previous_done s k"
    using before o k(1) by (cases k) (auto simp: previous_done_def promise_done_def open_inv_def)
  then show ?thesis
    using k by (cases "go_phase (gl_ops s ! k)") (auto simp: run_advance_def run_raw_def run_settle_def phase_of_def)
qed

text \<open>C35. The adapter's commands run one at a time and in the order of the calls, whatever overlaps with them: at
  most one call is past its place in the queue and not ended, and every call before a started one has
  ended. While nobody closes the adapter the queue never stalls: the first call that has not ended
  can always take its next step.\<close>

theorem glide_serialized:
  assumes "glide_run stk es glide_new = Some s"
  shows "(\<forall>i j. busy s i \<and> busy s j \<longrightarrow> i = j) \<and>
         (\<forall>j k. j < k \<and> busy s k \<longrightarrow> (\<exists>r. phase_of s j = Some (OpDone r))) \<and>
         (list_all (\<lambda>e. \<not> closes e) es \<longrightarrow>
           (\<forall>k < length (gl_ops s). (\<forall>r. go_phase (gl_ops s ! k) \<noteq> OpDone r) \<and> (\<forall>j < k. \<exists>r. go_phase (gl_ops s ! j) = OpDone r) \<longrightarrow>
              (\<exists>e \<in> {GAdvance k, GRaw k, GSettle k None}. glide_step stk e s \<noteq> None)))"
proof -
  have inv: "chain_inv (gl_ops s)" using chain_inv_run [OF assms chain_inv_new] .
  have "open_inv glide_new" by (simp add: open_inv_def glide_new_def)
  then have "list_all (\<lambda>e. \<not> closes e) es \<longrightarrow> open_inv s" using open_inv_run [OF assms] by blast
  then show ?thesis
    using busy_unique [OF inv] started_before_done [OF inv] first_unfinished_moves [of s _ stk None]
    unfolding busy_def by blast
qed

section \<open>The broken chain\<close>

text \<open>A call that has ended without releasing its promise.\<close>

definition broken :: "glide \<Rightarrow> nat \<Rightarrow> bool" where
  "broken s k \<longleftrightarrow> (\<exists>e. phase_of s k = Some (OpDone e)) \<and> \<not> promise_done s k"

lemma broken_step: "glide_step stk e s = Some s' \<Longrightarrow> broken s k \<Longrightarrow> broken s' k"
proof (cases rule: glide_step_ops)
  assume "glide_step stk e s = Some s'"
  then show "glide_step stk e s = Some s'" .
next
  assume b: "broken s k" and "gl_ops s' = gl_ops s"
  then show "broken s' k" by (auto simp: broken_def phase_of_def promise_done_def split: if_splits)
next
  fix x
  assume b: "broken s k" and "gl_ops s' = gl_ops s @ [\<lparr>go_blocking = x, go_phase = OpWaiting, go_released = False\<rparr>]"
  then show "broken s' k" by (auto simp: broken_def phase_of_def promise_done_def nth_append split: if_splits)
next
  fix i p
  assume b: "broken s k" and "gl_ops s' = (gl_ops s)[i := p]" "i < length (gl_ops s)" "\<not> (\<exists>r. go_phase (gl_ops s ! i) = OpDone r)"
  then show "broken s' k" by (auto simp: broken_def phase_of_def promise_done_def nth_list_update split: if_splits)
qed

lemma broken_run: "glide_run stk es s = Some s' \<Longrightarrow> broken s k \<Longrightarrow> broken s' k"
  by (induction es arbitrary: s) (auto split: option.splits dest: broken_step)

lemma broken_waits:
  assumes inv: "chain_inv (gl_ops s)" and "broken s k" and "k < j" and "j < length (gl_ops s)"
  shows "phase_of s j = Some OpWaiting" and "\<not> promise_done s j"
proof -
  have "\<not> go_released (gl_ops s ! k)" using assms(2) by (auto simp: broken_def phase_of_def promise_done_def split: if_splits)
  then have w: "go_phase (gl_ops s ! j) = OpWaiting" using inv assms(3,4) by (auto simp: chain_inv_def)
  then show "phase_of s j = Some OpWaiting" using assms(4) by (simp add: phase_of_def)
  show "\<not> promise_done s j" using inv w assms(4) by (auto simp: chain_inv_def promise_done_def)
qed

text \<open>C38. The second check of \<open>runSerialized\<close> stands before the \<open>try\<close>, so a call it rejects never releases its
  promise. From then on the adapter is dead, whatever happens and even after it was connected again: every
  later call waits for ever, and a close that waits for the chain never closes the raw client.\<close>

theorem glide_chain_deadlock:
  assumes "glide_run stk es glide_new = Some s" and "phase_of s k = Some (OpDone e)" and "\<not> promise_done s k"
    and "glide_run stk es' s = Some s'"
  shows "(\<forall>j. k < j \<and> j < length (gl_ops s') \<longrightarrow> phase_of s' j = Some OpWaiting) \<and>
         (\<forall>c j ok. gl_closing s' = Some c \<and> \<not> gc_immediate c \<and> gc_wait c = Some j \<and> k \<le> j \<longrightarrow> close_run ok s' = None)"
proof -
  have inv: "chain_inv (gl_ops s')"
    using chain_inv_run [OF assms(4)] chain_inv_run [OF assms(1) chain_inv_new] by blast
  have b: "broken s' k" using broken_run [OF assms(4)] assms(2,3) by (auto simp: broken_def)
  then have "\<not> promise_done s' j" if "k \<le> j" for j
    using that broken_waits(2) [OF inv b, of j] by (cases "j = k") (auto simp: broken_def promise_done_def)
  then have "close_run ok s' = None" if "gl_closing s' = Some c" "\<not> gc_immediate c" "gc_wait c = Some j" "k \<le> j" for c j ok
    using that by (simp add: close_run_def close_ready_def)
  then show ?thesis using broken_waits(1) [OF inv b] by blast
qed

text \<open>Two commands, the second queued behind the first; the adapter is disconnected, the first ends, the
  second is rejected. Then it is connected again and a third command is called.\<close>

definition glide_closing_events :: "glide_event list" where
  "glide_closing_events = [GCall False, GAdvance 0, GRaw 0, GCall False, GDisconnect False, GSettle 0 None, GAdvance 1]"

definition reopening_events :: "glide_event list" where
  "reopening_events = [GConnect True, GCall False]"

definition glide_after :: "glide_event list \<Rightarrow> glide" where
  "glide_after es = (case glide_run None es glide_new of Some s \<Rightarrow> s | None \<Rightarrow> glide_new)"

lemmas glide_eval = glide_after_def glide_closing_events_def reopening_events_def glide_new_def run_call_def run_advance_def
  run_raw_def run_settle_def phase_of_def upd_op_def previous_done_def promise_done_def disconnect_glide_def closeRaw_def
  connect_glide_def Let_def

theorem glide_serialized_witness:
  "gl_ops (glide_after glide_closing_events) \<noteq> [] \<and>
   \<not> (busy (glide_after glide_closing_events) 0 \<and> busy (glide_after glide_closing_events) 1)"
proof -
  have run: "glide_run None glide_closing_events glide_new = Some (glide_after glide_closing_events)"
    by (simp add: glide_eval)
  show ?thesis
    using glide_serialized [OF run] by (auto simp: glide_eval)
qed

theorem glide_chain_deadlock_witness:
  "\<not> gl_closed (glide_after (glide_closing_events @ reopening_events)) \<and> glide_status (glide_after (glide_closing_events @ reopening_events)) = ''ready''
    \<and> phase_of (glide_after (glide_closing_events @ reopening_events)) 2 = Some OpWaiting"
proof -
  let ?s = "glide_after glide_closing_events" and ?t = "glide_after (glide_closing_events @ reopening_events)"
  have r: "glide_run None glide_closing_events glide_new = Some ?s" and r': "glide_run None reopening_events ?s = Some ?t"
    by (simp_all add: glide_eval)
  have "phase_of ?s 1 = Some (OpDone (Some (new_ConnectionClosedError None None)))" and "\<not> promise_done ?s 1"
    by (simp_all add: glide_eval)
  from glide_chain_deadlock [OF r this r'] have "1 < (2::nat) \<and> 2 < length (gl_ops ?t) \<longrightarrow> phase_of ?t 2 = Some OpWaiting"
    by blast
  then show ?thesis by (simp add: glide_eval glide_status_def)
qed

end
