(* ===== verification/Driver_Values.thy ===== *)
theory Driver_Values
  imports Redis_Client
begin

text \<open>
  What the adapters for the client libraries (src/classes/valkey-glide-client.ts, bun-redis-client.ts,
  node-redis-client.ts, ioredis-client.ts) share: the JavaScript values a library replies with,
  the arguments of a command, registered Lua scripts, and the rendering of values as text and as
  numbers. Numbers in replies are integers: RESP2 has no others. Buffers are lists of characters and
  decode to themselves.
\<close>

section \<open>Values\<close>

datatype dval =
    DUndef
  | DNull
  | DBool bool
  | DNum int
  | DStr string
  | DBuf string
  | DArr "dval list"
  | DMap "(dval \<times> dval) list"
  | DSet "dval list"
  | DObj "(string \<times> dval) list"
  | DErr js_error

definition nil :: "dval \<Rightarrow> bool" where
  "nil v \<longleftrightarrow> v = DUndef \<or> v = DNull"

fun falsy :: "dval \<Rightarrow> bool" where
  "falsy DUndef = True"
| "falsy DNull = True"
| "falsy (DBool b) = (\<not> b)"
| "falsy (DNum n) = (n = 0)"
| "falsy (DStr s) = (s = [])"
| "falsy _ = False"

text \<open>\<open>String(v)\<close>.\<close>

fun show_d :: "dval \<Rightarrow> string" where
  "show_d DUndef = ''undefined''"
| "show_d DNull = ''null''"
| "show_d (DBool b) = (if b then ''true'' else ''false'')"
| "show_d (DNum n) = string_of_int n"
| "show_d (DStr s) = s"
| "show_d (DBuf s) = s"
| "show_d (DArr vs) = join_with '','' (map (\<lambda>v. if nil v then [] else show_d v) vs)"
| "show_d (DMap _) = ''[object Map]''"
| "show_d (DSet _) = ''[object Set]''"
| "show_d (DObj _) = ''[object Object]''"
| "show_d (DErr e) = (if err_message e = [] then err_name e else err_name e @ '': '' @ err_message e)"

text \<open>\<open>Number(v)\<close>; \<open>None\<close> is NaN.\<close>

fun num_d :: "dval \<Rightarrow> real option" where
  "num_d DUndef = None"
| "num_d DNull = Some 0"
| "num_d (DBool b) = Some (if b then 1 else 0)"
| "num_d (DNum n) = Some (of_int n)"
| "num_d v = string_to_number (show_d v)"

fun is_arr :: "dval \<Rightarrow> bool" where
  "is_arr (DArr _) = True"
| "is_arr _ = False"

fun arr_of :: "dval \<Rightarrow> dval list" where
  "arr_of (DArr vs) = vs"
| "arr_of _ = []"

text \<open>\<open>v[i]\<close> of an array.\<close>

definition item :: "dval list \<Rightarrow> nat \<Rightarrow> dval" where
  "item vs i = (if i < length vs then vs ! i else DUndef)"

section \<open>Arguments and scripts\<close>

datatype garg = GStr string | GBuf string

record lua_script =
  ls_sha :: string
  ls_lua :: string
  ls_numberOfKeys :: nat

text \<open>\<open>runCommand(name, [a, b])\<close> and \<open>runCommand(name, [[a, b]])\<close> are the same call.\<close>

fun normalizeScriptArgs :: "dval list \<Rightarrow> dval list" where
  "normalizeScriptArgs [DArr vs] = vs"
| "normalizeScriptArgs vs = vs"

text \<open>A script argument: a buffer stays one, a missing value is the empty text.\<close>

fun script_arg :: "dval \<Rightarrow> garg" where
  "script_arg (DBuf s) = GBuf s"
| "script_arg DUndef = GStr []"
| "script_arg DNull = GStr []"
| "script_arg v = GStr (show_d v)"

section \<open>Operations\<close>

definition b_fmap :: "('a \<Rightarrow> 'b) \<Rightarrow> ('s, 'a) backend_op \<Rightarrow> ('s, 'b) backend_op" where
  "b_fmap f m = b_then m (\<lambda>a. b_ret (f a))"

lemma b_fmap_apply: "b_fmap f m s = (case m s of (Inl e, s') \<Rightarrow> (Inl e, s') | (Inr a, s') \<Rightarrow> (Inr (f a), s'))"
  by (simp add: b_fmap_def b_then_def b_ret_def split: prod.split sum.split)

text \<open>Two ways to read a reply agree if they agree on the replies that occur.\<close>

lemma b_fmap_cong:
  assumes "\<And>s v s'. m s = (Inr v, s') \<Longrightarrow> f v = g v"
  shows "b_fmap f m = b_fmap g m"
  using assms by (auto simp: b_fmap_apply fun_eq_iff split: prod.split sum.split)

text \<open>The rest of a flat list of fields and values, as the loops with step two read it.\<close>

fun field_pairs :: "dval list \<Rightarrow> (dval \<times> dval) list" where
  "field_pairs [] = []"
| "field_pairs [k] = [(k, DUndef)]"
| "field_pairs (k # v # vs) = (k, v) # field_pairs vs"

definition to_record :: "(string \<times> string) list \<Rightarrow> (string, string) jsmap" where
  "to_record kvs = fold (\<lambda>(k, v) m. map_set k v m) kvs []"

text \<open>Optional arguments with a number.\<close>

definition opt_arg :: "string \<Rightarrow> int option \<Rightarrow> string list" where
  "opt_arg name n = (case n of None \<Rightarrow> [] | Some k \<Rightarrow> [name, string_of_int k])"

definition expiry_args :: "int option \<Rightarrow> int option \<Rightarrow> string list" where
  "expiry_args px ex = (case px of Some _ \<Rightarrow> opt_arg ''PX'' px | None \<Rightarrow> opt_arg ''EX'' ex)"

definition maxlen_args :: "int option \<Rightarrow> bool option \<Rightarrow> string list" where
  "maxlen_args maxlen approximate =
     (case maxlen of
        None \<Rightarrow> []
      | Some n \<Rightarrow> ''MAXLEN'' # (if approximate \<noteq> Some False then [''~''] else []) @ [string_of_int n])"

definition streams_args :: "(string \<times> string) list \<Rightarrow> string list" where
  "streams_args streams = ''STREAMS'' # map fst streams @ map snd streams"

definition field_args :: "(string \<times> dval) list \<Rightarrow> string list" where
  "field_args fs = concat (map (\<lambda>(k, v). [k, show_d v]) fs)"

end
