(* ===== verification/Glide_Client.thy ===== *)
theory Glide_Client
  imports Driver_Values
begin

text \<open>
  src/classes/valkey-glide-client.ts: the commands of the Valkey Glide adapter. \<open>run\<close> is
  \<open>runRawCommand\<close>: it sends a command and gives its decoded reply. Every method builds a command and
  brings the reply into the form ioredis has. The order of commands is in Glide_Chain.
\<close>

section \<open>Replies\<close>

fun toGlideArg :: "dval \<Rightarrow> garg" where
  "toGlideArg v = script_arg v"

fun toStringValue :: "dval \<Rightarrow> string" where
  "toStringValue (DBuf s) = s"
| "toStringValue v = show_d v"

fun kv_item :: "dval \<Rightarrow> bool" where
  "kv_item (DObj fs) = (map_get fs ''key'' \<noteq> None \<and> map_get fs ''value'' \<noteq> None)"
| "kv_item _ = False"

fun kv_of :: "dval \<Rightarrow> dval \<times> dval" where
  "kv_of (DObj fs) = (with_default DUndef (map_get fs ''key''), with_default DUndef (map_get fs ''value''))"
| "kv_of _ = (DUndef, DUndef)"

fun isKeyValueArray :: "dval \<Rightarrow> bool" where
  "isKeyValueArray (DArr vs) = list_all kv_item vs"
| "isKeyValueArray _ = False"

definition string_pairs :: "(dval \<times> dval) list \<Rightarrow> (string \<times> string) list" where
  "string_pairs kvs = map (\<lambda>(k, v). (toStringValue k, toStringValue v)) kvs"

definition normalizeHashReply :: "dval \<Rightarrow> (string, string) jsmap" where
  "normalizeHashReply reply =
     (if falsy reply then []
      else if isKeyValueArray reply then to_record (string_pairs (map kv_of (arr_of reply)))
      else case reply of
             DMap kvs \<Rightarrow> to_record (string_pairs kvs)
           | DArr vs \<Rightarrow> to_record (string_pairs (field_pairs vs))
           | DObj fs \<Rightarrow> to_record (map (\<lambda>(k, v). (k, toStringValue v)) fs)
           | _ \<Rightarrow> [])"

definition is_pair :: "dval \<Rightarrow> bool" where
  "is_pair v \<longleftrightarrow> is_arr v \<and> length (arr_of v) = 2"

definition flattenFieldPairs :: "dval \<Rightarrow> string list" where
  "flattenFieldPairs fs =
     (if falsy fs then []
      else case fs of
             DArr vs \<Rightarrow>
               if isKeyValueArray fs then concat (map (\<lambda>(k, v). [toStringValue k, toStringValue v]) (map kv_of vs))
               else if list_all is_pair vs then concat (map (\<lambda>v. [toStringValue (item (arr_of v) 0), toStringValue (item (arr_of v) 1)]) vs)
               else map toStringValue vs
           | DObj kvs \<Rightarrow> concat (map (\<lambda>(k, v). [k, toStringValue v]) kvs)
           | _ \<Rightarrow> [])"

definition entry_pair :: "dval \<Rightarrow> bool" where
  "entry_pair v \<longleftrightarrow> is_arr v \<and> length (arr_of v) = 2 \<and> item (arr_of v) 0 \<noteq> DUndef \<and> is_arr (item (arr_of v) 1)"

definition strs :: "string list \<Rightarrow> dval" where
  "strs ss = DArr (map DStr ss)"

definition normalizeXReadReply :: "dval \<Rightarrow> dval" where
  "normalizeXReadReply reply =
     (if falsy reply then DNull
      else if is_arr reply \<and> list_all entry_pair (arr_of reply) then reply
      else if \<not> isKeyValueArray reply then reply
      else DArr (map (\<lambda>stream. case kv_of stream of (name, value) \<Rightarrow>
             DArr [DStr (toStringValue name),
                   DArr (if isKeyValueArray value
                         then map (\<lambda>message. case kv_of message of (mid, fs) \<Rightarrow>
                                DArr [DStr (toStringValue mid), strs (flattenFieldPairs fs)]) (arr_of value)
                         else [])]) (arr_of reply)))"

definition normalizeScanReply :: "dval \<Rightarrow> string \<times> string list" where
  "normalizeScanReply reply =
     (if is_arr reply \<and> 2 \<le> length (arr_of reply)
      then (toStringValue (item (arr_of reply) 0),
            if is_arr (item (arr_of reply) 1) then map toStringValue (arr_of (item (arr_of reply) 1)) else [])
      else case reply of
             DObj fs \<Rightarrow>
               (case (map_get fs ''cursor'', map_get fs ''keys'') of
                  (Some cursor, Some (DArr ks)) \<Rightarrow>
                    if cursor \<noteq> DUndef then (toStringValue cursor, map toStringValue ks) else (''0'', [])
                | _ \<Rightarrow> (''0'', []))
           | _ \<Rightarrow> (''0'', []))"

definition normalizeXRangeReply :: "dval \<Rightarrow> (string \<times> string list) list" where
  "normalizeXRangeReply reply =
     (if falsy reply then []
      else if is_arr reply \<and> list_all entry_pair (arr_of reply)
      then map (\<lambda>v. (toStringValue (item (arr_of v) 0), map toStringValue (arr_of (item (arr_of v) 1)))) (arr_of reply)
      else if \<not> isKeyValueArray reply then []
      else map (\<lambda>v. case kv_of v of (k, fs) \<Rightarrow> (toStringValue k, flattenFieldPairs fs)) (arr_of reply))"

definition score_pair :: "dval \<Rightarrow> bool" where
  "score_pair v \<longleftrightarrow> is_arr v \<and> 2 \<le> length (arr_of v) \<and> item (arr_of v) 0 \<noteq> DUndef"

definition normalizeSortedSetReply :: "dval \<Rightarrow> bool \<Rightarrow> string list" where
  "normalizeSortedSetReply reply withScores =
     (if \<not> is_arr reply then []
      else if \<not> withScores then map toStringValue (arr_of reply)
      else if isKeyValueArray reply
      then concat (map (\<lambda>(k, v). [toStringValue k, toStringValue v]) (map kv_of (arr_of reply)))
      else if list_all score_pair (arr_of reply)
      then concat (map (\<lambda>v. [toStringValue (item (arr_of v) 0), toStringValue (item (arr_of v) 1)]) (arr_of reply))
      else map toStringValue (arr_of reply))"

definition opt_str :: "dval \<Rightarrow> string option" where
  "opt_str v = (if nil v then None else Some (toStringValue v))"

definition str_list :: "dval \<Rightarrow> string list" where
  "str_list v = (if is_arr v then map toStringValue (arr_of v) else [])"

section \<open>Blocking commands\<close>

definition upper_char :: "char \<Rightarrow> char" where
  "upper_char c = (let n = of_char c :: nat in if 97 \<le> n \<and> n \<le> 122 then char_of (n - 32) else c)"

fun arg_text :: "garg \<Rightarrow> string" where
  "arg_text (GStr s) = s"
| "arg_text (GBuf s) = s"

fun block_option :: "garg list \<Rightarrow> bool" where
  "block_option [] = False"
| "block_option [a] = (map upper_char (arg_text a) = ''BLOCK'')"
| "block_option (a # b # rest) = (map upper_char (arg_text a) = ''BLOCK'' \<or> block_option rest)"

fun isBlockingCommand :: "garg list \<Rightarrow> bool" where
  "isBlockingCommand [] = False"
| "isBlockingCommand (command # rest) =
     (let name = map upper_char (arg_text command) in
      if name = ''BZPOPMIN'' then True else if name \<noteq> ''XREAD'' then False else block_option rest)"

section \<open>Commands\<close>

type_synonym 's runner = "garg list \<Rightarrow> ('s, dval) backend_op"

definition cmd :: "string list \<Rightarrow> garg list" where
  "cmd ss = map GStr ss"

definition glide_hgetall :: "'s runner \<Rightarrow> string \<Rightarrow> ('s, (string, string) jsmap) backend_op" where
  "glide_hgetall run key = b_fmap normalizeHashReply (run (cmd [''HGETALL'', key]))"

definition glide_hget :: "'s runner \<Rightarrow> string \<Rightarrow> string \<Rightarrow> ('s, string option) backend_op" where
  "glide_hget run key field = b_fmap opt_str (run (cmd [''HGET'', key, field]))"

definition glide_hmget :: "'s runner \<Rightarrow> string \<Rightarrow> string list \<Rightarrow> ('s, string option list) backend_op" where
  "glide_hmget run key fs = b_fmap (\<lambda>v. if is_arr v then map opt_str (arr_of v) else []) (run (cmd (''HMGET'' # key # fs)))"

definition glide_field_args :: "(string \<times> dval) list \<Rightarrow> garg list" where
  "glide_field_args data = concat (map (\<lambda>(k, v). [GStr k, toGlideArg v]) data)"

definition glide_hset :: "'s runner \<Rightarrow> string \<Rightarrow> (string \<times> dval) list \<Rightarrow> ('s, real option) backend_op" where
  "glide_hset run key data = b_fmap num_d (run (cmd [''HSET'', key] @ glide_field_args data))"

definition glide_hdel :: "'s runner \<Rightarrow> string \<Rightarrow> string list \<Rightarrow> ('s, real option) backend_op" where
  "glide_hdel run key fs = b_fmap num_d (run (cmd (''HDEL'' # key # fs)))"

definition bool_or_num :: "dval \<Rightarrow> real option" where
  "bool_or_num v = (case v of DBool b \<Rightarrow> Some (if b then 1 else 0) | _ \<Rightarrow> num_d v)"

definition glide_hexists :: "'s runner \<Rightarrow> string \<Rightarrow> string \<Rightarrow> ('s, real option) backend_op" where
  "glide_hexists run key field = b_fmap bool_or_num (run (cmd [''HEXISTS'', key, field]))"

definition glide_get :: "'s runner \<Rightarrow> string \<Rightarrow> ('s, string option) backend_op" where
  "glide_get run key = b_fmap opt_str (run (cmd [''GET'', key]))"

definition glide_set :: "'s runner \<Rightarrow> string \<Rightarrow> dval \<Rightarrow> int option \<Rightarrow> int option \<Rightarrow> ('s, string option) backend_op" where
  "glide_set run key v px ex = b_fmap opt_str (run (cmd [''SET'', key] @ [toGlideArg v] @ cmd (expiry_args px ex)))"

definition glide_del :: "'s runner \<Rightarrow> string list \<Rightarrow> ('s, real option) backend_op" where
  "glide_del run ks = (if ks = [] then b_ret (Some 0) else b_fmap num_d (run (cmd (''DEL'' # ks))))"

definition range_args :: "string \<Rightarrow> string \<Rightarrow> int \<Rightarrow> int \<Rightarrow> bool \<Rightarrow> string list" where
  "range_args name key start end' withScores =
     [name, key, string_of_int start, string_of_int end'] @ (if withScores then [''WITHSCORES''] else [])"

definition glide_zrange :: "'s runner \<Rightarrow> string \<Rightarrow> int \<Rightarrow> int \<Rightarrow> bool \<Rightarrow> ('s, string list) backend_op" where
  "glide_zrange run key start end' withScores =
     b_fmap (\<lambda>v. normalizeSortedSetReply v withScores) (run (cmd (range_args ''ZRANGE'' key start end' withScores)))"

definition glide_zrevrange :: "'s runner \<Rightarrow> string \<Rightarrow> int \<Rightarrow> int \<Rightarrow> bool \<Rightarrow> ('s, string list) backend_op" where
  "glide_zrevrange run key start end' withScores =
     b_fmap (\<lambda>v. normalizeSortedSetReply v withScores) (run (cmd (range_args ''ZREVRANGE'' key start end' withScores)))"

definition glide_zcard :: "'s runner \<Rightarrow> string \<Rightarrow> ('s, real option) backend_op" where
  "glide_zcard run key = b_fmap num_d (run (cmd [''ZCARD'', key]))"

definition glide_zscore :: "'s runner \<Rightarrow> string \<Rightarrow> string \<Rightarrow> ('s, string option) backend_op" where
  "glide_zscore run key member = b_fmap opt_str (run (cmd [''ZSCORE'', key, member]))"

definition glide_lrange :: "'s runner \<Rightarrow> string \<Rightarrow> int \<Rightarrow> int \<Rightarrow> ('s, string list) backend_op" where
  "glide_lrange run key start end' = b_fmap str_list (run (cmd (range_args ''LRANGE'' key start end' False)))"

definition glide_llen :: "'s runner \<Rightarrow> string \<Rightarrow> ('s, real option) backend_op" where
  "glide_llen run key = b_fmap num_d (run (cmd [''LLEN'', key]))"

definition ok_or_str :: "dval \<Rightarrow> string" where
  "ok_or_str v = (if nil v then ''OK'' else toStringValue v)"

definition glide_ltrim :: "'s runner \<Rightarrow> string \<Rightarrow> int \<Rightarrow> int \<Rightarrow> ('s, string) backend_op" where
  "glide_ltrim run key start end' = b_fmap ok_or_str (run (cmd (range_args ''LTRIM'' key start end' False)))"

definition glide_lpos :: "'s runner \<Rightarrow> string \<Rightarrow> string \<Rightarrow> ('s, real option option) backend_op" where
  "glide_lpos run key v = b_fmap (\<lambda>r. if nil r then None else Some (num_d r)) (run (cmd [''LPOS'', key, v]))"

definition glide_smembers :: "'s runner \<Rightarrow> string \<Rightarrow> ('s, string list) backend_op" where
  "glide_smembers run key = b_fmap str_list (run (cmd [''SMEMBERS'', key]))"

definition glide_xadd :: "'s runner \<Rightarrow> string \<Rightarrow> string \<Rightarrow> (string \<times> dval) list \<Rightarrow> int option \<Rightarrow> bool option \<Rightarrow> ('s, string) backend_op" where
  "glide_xadd run key eid fs maxlen approximate =
     b_fmap toStringValue (run (cmd ([''XADD'', key] @ maxlen_args maxlen approximate @ [eid]) @ glide_field_args fs))"

definition glide_xread :: "'s runner \<Rightarrow> (string \<times> string) list \<Rightarrow> int option \<Rightarrow> int option \<Rightarrow> ('s, dval) backend_op" where
  "glide_xread run streams block cnt =
     b_fmap normalizeXReadReply (run (cmd ([''XREAD''] @ opt_arg ''BLOCK'' block @ opt_arg ''COUNT'' cnt @ streams_args streams)))"

definition glide_xtrim :: "'s runner \<Rightarrow> string \<Rightarrow> int \<Rightarrow> bool option \<Rightarrow> ('s, real option) backend_op" where
  "glide_xtrim run key threshold approximate =
     b_fmap num_d (run (cmd ([''XTRIM'', key] @ maxlen_args (Some threshold) approximate)))"

definition popped :: "dval \<Rightarrow> (string \<times> string \<times> string) option" where
  "popped v =
     (if falsy v then None
      else if is_arr v \<and> 3 \<le> length (arr_of v)
      then Some (toStringValue (item (arr_of v) 0), toStringValue (item (arr_of v) 1), toStringValue (item (arr_of v) 2))
      else None)"

text \<open>\<open>timeout\<close> is the text of the number of seconds.\<close>

definition glide_bzpopmin :: "'s runner \<Rightarrow> string \<Rightarrow> string \<Rightarrow> ('s, (string \<times> string \<times> string) option) backend_op" where
  "glide_bzpopmin run key timeout = b_fmap popped (run (cmd [''BZPOPMIN'', key, timeout]))"

definition glide_info :: "'s runner \<Rightarrow> ('s, string) backend_op" where
  "glide_info run = b_fmap toStringValue (run (cmd [''INFO'']))"

definition glide_clientSetName :: "'s runner \<Rightarrow> string \<Rightarrow> ('s, dval) backend_op" where
  "glide_clientSetName run name = run (cmd [''CLIENT'', ''SETNAME'', name])"

definition glide_clientList :: "'s runner \<Rightarrow> ('s, string) backend_op" where
  "glide_clientList run = b_fmap toStringValue (run (cmd [''CLIENT'', ''LIST'']))"

definition match_arg :: "string option \<Rightarrow> string list" where
  "match_arg m = (if truthy_str m then [''MATCH'', the m] else [])"

definition glide_scan :: "'s runner \<Rightarrow> string \<Rightarrow> string option \<Rightarrow> int option \<Rightarrow> ('s, string \<times> string list) backend_op" where
  "glide_scan run cursor m cnt =
     b_fmap normalizeScanReply (run (cmd ([''SCAN'', cursor] @ match_arg m @ opt_arg ''COUNT'' cnt)))"

section \<open>Commands outside the interface\<close>

definition glide_keys :: "'s runner \<Rightarrow> string \<Rightarrow> ('s, string list) backend_op" where
  "glide_keys run pattern = b_fmap str_list (run (cmd [''KEYS'', pattern]))"

definition glide_exists :: "'s runner \<Rightarrow> string list \<Rightarrow> ('s, real option) backend_op" where
  "glide_exists run ks = (if ks = [] then b_ret (Some 0) else b_fmap bool_or_num (run (cmd (''EXISTS'' # ks))))"

definition glide_zadd :: "'s runner \<Rightarrow> string \<Rightarrow> dval list \<Rightarrow> ('s, real option) backend_op" where
  "glide_zadd run key args =
     b_fmap num_d (run (cmd [''ZADD'', key] @ concat (map (\<lambda>(a, b). [toGlideArg a, toGlideArg b]) (field_pairs args))))"

definition glide_zrem :: "'s runner \<Rightarrow> string \<Rightarrow> string list \<Rightarrow> ('s, real option) backend_op" where
  "glide_zrem run key members = b_fmap num_d (run (cmd (''ZREM'' # key # members)))"

definition glide_xlen :: "'s runner \<Rightarrow> string \<Rightarrow> ('s, real option) backend_op" where
  "glide_xlen run key = b_fmap num_d (run (cmd [''XLEN'', key]))"

definition glide_xrevrange :: "'s runner \<Rightarrow> string \<Rightarrow> string \<Rightarrow> string \<Rightarrow> dval list \<Rightarrow> ('s, (string \<times> string list) list) backend_op" where
  "glide_xrevrange run key end' start rest =
     b_fmap normalizeXRangeReply (run (cmd [''XREVRANGE'', key, end', start]
       @ (if item rest 0 = DStr ''COUNT'' then [GStr ''COUNT'', toGlideArg (item rest 1)] else [])))"

definition glide_sadd :: "'s runner \<Rightarrow> string \<Rightarrow> dval list \<Rightarrow> ('s, real option) backend_op" where
  "glide_sadd run key members = b_fmap num_d (run (cmd [''SADD'', key] @ map toGlideArg members))"

definition glide_scard :: "'s runner \<Rightarrow> string \<Rightarrow> ('s, real option) backend_op" where
  "glide_scard run key = b_fmap num_d (run (cmd [''SCARD'', key]))"

definition glide_lpush :: "'s runner \<Rightarrow> string \<Rightarrow> string list \<Rightarrow> ('s, real option) backend_op" where
  "glide_lpush run key vs = b_fmap num_d (run (cmd (''LPUSH'' # key # vs)))"

definition glide_rpop :: "'s runner \<Rightarrow> string \<Rightarrow> ('s, string option) backend_op" where
  "glide_rpop run key = b_fmap opt_str (run (cmd [''RPOP'', key]))"

definition glide_incr :: "'s runner \<Rightarrow> string \<Rightarrow> ('s, real option) backend_op" where
  "glide_incr run key = b_fmap num_d (run (cmd [''INCR'', key]))"

definition glide_incrby :: "'s runner \<Rightarrow> string \<Rightarrow> int \<Rightarrow> ('s, real option) backend_op" where
  "glide_incrby run key increment = b_fmap num_d (run (cmd [''INCRBY'', key, string_of_int increment]))"

definition glide_flushall :: "'s runner \<Rightarrow> ('s, string) backend_op" where
  "glide_flushall run = b_fmap ok_or_str (run (cmd [''FLUSHALL'']))"

section \<open>Lua scripts\<close>

text \<open>The text after the name of the command: the key count, the keys and the other arguments.\<close>

definition glide_script_args :: "lua_script \<Rightarrow> dval list \<Rightarrow> garg list" where
  "glide_script_args script args =
     (let normalized = normalizeScriptArgs args in
      GStr (string_of_nat (ls_numberOfKeys script))
        # map toGlideArg (take (ls_numberOfKeys script) normalized) @ map toGlideArg (drop (ls_numberOfKeys script) normalized))"

definition lower_char :: "char \<Rightarrow> char" where
  "lower_char c = (let n = of_char c :: nat in if 65 \<le> n \<and> n \<le> 90 then char_of (n + 32) else c)"

definition glide_runCommand ::
  "string option \<Rightarrow> 's runner \<Rightarrow> (string, lua_script) jsmap \<Rightarrow> string \<Rightarrow> dval list \<Rightarrow> ('s, dval) backend_op" where
  "glide_runCommand stk run scripts name args =
     (case map_get scripts name of
        None \<Rightarrow> b_throw (new_err ErrorClass stk (''BullMQ: command '' @ [CHR 0x22] @ name @ [CHR 0x22]
                  @ '' is not defined. Use defineCommand() before runCommand().''))
      | Some script \<Rightarrow>
          b_catch (run (GStr ''EVALSHA'' # GStr (ls_sha script) # glide_script_args script args))
            (\<lambda>err. if str_includes ''noscript'' (map lower_char (err_message err))
                    then run (GStr ''EVAL'' # GStr (ls_lua script) # glide_script_args script args)
                    else b_throw err))"

text \<open>defineCommand: the script is known by its name and by its hash.\<close>

definition glide_defineCommand ::
  "(string \<Rightarrow> string) \<Rightarrow> string \<Rightarrow> nat \<Rightarrow> string \<Rightarrow> (string, lua_script) jsmap \<times> (string, lua_script) jsmap
     \<Rightarrow> (string, lua_script) jsmap \<times> (string, lua_script) jsmap" where
  "glide_defineCommand sha1 name keys lua maps =
     (let script = \<lparr>ls_sha = sha1 lua, ls_lua = lua, ls_numberOfKeys = keys\<rparr>
      in (map_set name script (fst maps), map_set (sha1 lua) script (snd maps)))"

section \<open>Transactions\<close>

type_synonym glide_queued = "garg list \<times> (dval \<Rightarrow> dval) option"

definition record_val :: "(string, string) jsmap \<Rightarrow> dval" where
  "record_val m = DObj (map (\<lambda>(k, v). (k, DStr v)) m)"

definition queueCommand :: "garg list \<Rightarrow> (dval \<Rightarrow> dval) option \<Rightarrow> glide_queued list \<Rightarrow> glide_queued list" where
  "queueCommand args transform q = q @ [(args, transform)]"

definition glide_tx_hgetall :: "string \<Rightarrow> glide_queued list \<Rightarrow> glide_queued list" where
  "glide_tx_hgetall key = queueCommand (cmd [''HGETALL'', key]) (Some (\<lambda>v. record_val (normalizeHashReply v)))"

definition glide_tx_hset :: "string \<Rightarrow> (string \<times> dval) list \<Rightarrow> glide_queued list \<Rightarrow> glide_queued list" where
  "glide_tx_hset key data = queueCommand (cmd [''HSET'', key] @ glide_field_args data) None"

definition scan_value :: "(dval \<Rightarrow> string list) \<Rightarrow> dval \<Rightarrow> dval" where
  "scan_value members v =
     (if is_arr v \<and> 2 \<le> length (arr_of v)
      then DArr [DStr (toStringValue (item (arr_of v) 0)), strs (members (item (arr_of v) 1))]
      else DArr [DStr ''0'', strs []])"

definition glide_tx_hscan :: "string \<Rightarrow> string \<Rightarrow> int option \<Rightarrow> glide_queued list \<Rightarrow> glide_queued list" where
  "glide_tx_hscan key cursor cnt =
     queueCommand (cmd ([''HSCAN'', key, cursor] @ opt_arg ''COUNT'' cnt)) (Some (scan_value flattenFieldPairs))"

definition glide_tx_smembers :: "string \<Rightarrow> glide_queued list \<Rightarrow> glide_queued list" where
  "glide_tx_smembers key = queueCommand (cmd [''SMEMBERS'', key]) (Some (\<lambda>v. strs (str_list v)))"

definition glide_tx_sscan :: "string \<Rightarrow> string \<Rightarrow> int option \<Rightarrow> glide_queued list \<Rightarrow> glide_queued list" where
  "glide_tx_sscan key cursor cnt =
     queueCommand (cmd ([''SSCAN'', key, cursor] @ opt_arg ''COUNT'' cnt)) (Some (scan_value str_list))"

definition glide_tx_zrange :: "string \<Rightarrow> int \<Rightarrow> int \<Rightarrow> glide_queued list \<Rightarrow> glide_queued list" where
  "glide_tx_zrange key start end' = queueCommand (cmd (range_args ''ZRANGE'' key start end' False)) None"

definition glide_tx_lrange :: "string \<Rightarrow> int \<Rightarrow> int \<Rightarrow> glide_queued list \<Rightarrow> glide_queued list" where
  "glide_tx_lrange key start end' = queueCommand (cmd (range_args ''LRANGE'' key start end' False)) None"

definition glide_tx_llen :: "string \<Rightarrow> glide_queued list \<Rightarrow> glide_queued list" where
  "glide_tx_llen key = queueCommand (cmd [''LLEN'', key]) None"

definition glide_tx_del :: "string list \<Rightarrow> glide_queued list \<Rightarrow> glide_queued list" where
  "glide_tx_del ks q = (if ks \<noteq> [] then queueCommand (cmd (''DEL'' # ks)) None q else q)"

definition glide_tx_runCommand ::
  "string option \<Rightarrow> (string, lua_script) jsmap \<Rightarrow> string \<Rightarrow> dval list \<Rightarrow> glide_queued list \<Rightarrow> (js_error, glide_queued list) result" where
  "glide_tx_runCommand stk scripts name args q =
     (case map_get scripts name of
        None \<Rightarrow> Inl (new_err ErrorClass stk (''BullMQ: command '' @ [CHR 0x22] @ name @ [CHR 0x22]
                  @ '' is not defined. Use defineCommand() before adding it to transactions.''))
      | Some script \<Rightarrow>
          Inr (queueCommand (GStr ''EVALSHA'' # GStr (ls_sha script) # glide_script_args script args) None q))"

text \<open>One result of a transaction: the error or the value, brought into form by its own command.\<close>

definition tx_result :: "(dval \<Rightarrow> dval) option \<Rightarrow> dval \<Rightarrow> js_error option \<times> dval" where
  "tx_result transform v =
     (case v of DErr e \<Rightarrow> (Some e, DNull)
      | _ \<Rightarrow> (None, case transform of Some f \<Rightarrow> f v | None \<Rightarrow> v))"

definition tx_results :: "(dval \<Rightarrow> dval) option list \<Rightarrow> dval list \<Rightarrow> (js_error option \<times> dval) list" where
  "tx_results transforms vs =
     map (\<lambda>i. tx_result (if i < length transforms then transforms ! i else None) (vs ! i)) [0..<length vs]"

text \<open>The raw client: commands and, if it has them, native batches; \<open>gr_native\<close> tells whether the package's
  batch class could be loaded.\<close>

record 's glide_raw =
  gr_cmd :: "'s runner"
  gr_exec :: "(garg list list \<Rightarrow> ('s, dval list option) backend_op) option"
  gr_native :: bool

fun run_all :: "'s runner \<Rightarrow> garg list list \<Rightarrow> ('s, unit) backend_op" where
  "run_all run [] = b_ret ()"
| "run_all run (c # cs) = b_then (run c) (\<lambda>_. run_all run cs)"

definition glide_multi_exec :: "'s runner \<Rightarrow> glide_queued list \<Rightarrow> ('s, (js_error option \<times> dval) list option) backend_op" where
  "glide_multi_exec run q =
     b_then (run (cmd [''MULTI''])) (\<lambda>_.
       b_catch
         (b_then (run_all run (map fst q)) (\<lambda>_.
            b_fmap (\<lambda>v. if falsy v then None else Some (tx_results (map snd q) (if is_arr v then arr_of v else [v]))) (run (cmd [''EXEC'']))))
         (\<lambda>err. b_then (b_catch (run (cmd [''DISCARD''])) (\<lambda>_. b_ret DUndef)) (\<lambda>_. b_throw err)))"

text \<open>The scripts of a queue, by the hashes in it.\<close>

fun required_script :: "(string, lua_script) jsmap \<Rightarrow> garg list \<Rightarrow> lua_script list" where
  "required_script bySha (c # sha # _) =
     (if map upper_char (arg_text c) = ''EVALSHA''
      then (case map_get bySha (arg_text sha) of Some script \<Rightarrow> [script] | None \<Rightarrow> []) else [])"
| "required_script bySha _ = []"

definition requiredScripts :: "(string, lua_script) jsmap \<Rightarrow> glide_queued list \<Rightarrow> lua_script list" where
  "requiredScripts bySha q = concat (map (\<lambda>(args, _). required_script bySha args) q)"

definition run_batch :: "'s glide_raw \<Rightarrow> glide_queued list \<Rightarrow> ('s, (js_error option \<times> dval) list option) backend_op" where
  "run_batch raw q =
     (case gr_exec raw of
        None \<Rightarrow> glide_multi_exec (gr_cmd raw) q
      | Some ex \<Rightarrow>
          if gr_native raw then b_fmap (map_option (tx_results (map snd q))) (ex (map fst q))
          else b_then (b_catch (ex (map fst q)) (\<lambda>_. b_ret None)) (\<lambda>r.
                 case r of Some vs \<Rightarrow> b_ret (Some (tx_results (map snd q) vs)) | None \<Rightarrow> glide_multi_exec (gr_cmd raw) q))"

text \<open>\<open>load\<close> is \<open>ensureScriptLoaded\<close> of each script, whose failures are ignored.\<close>

definition execQueuedCommands ::
  "(lua_script list \<Rightarrow> ('s, unit) backend_op) \<Rightarrow> (string, lua_script) jsmap \<Rightarrow> 's glide_raw \<Rightarrow> glide_queued list
     \<Rightarrow> ('s, (js_error option \<times> dval) list option) backend_op" where
  "execQueuedCommands load bySha raw q =
     (let required = requiredScripts bySha q in
      b_then (if required \<noteq> [] then load required else b_ret ()) (\<lambda>_. run_batch raw q))"

section \<open>Scanning\<close>

text \<open>One \<open>read\<close> of \<open>scanStream\<close>: \<open>scan\<close> gives the next cursor and keys, \<open>accepts\<close> the answers of \<open>push\<close>. It stops when the
  consumer has enough, and the next one goes on from the cursor it left. \<open>n\<close> bounds the scans of
  one read. The result: what was pushed, whether the end was, and the cursor.\<close>

fun glide_read :: "nat \<Rightarrow> (string \<Rightarrow> string \<times> string list) \<Rightarrow> bool list \<Rightarrow> string \<Rightarrow> (string list list \<times> bool \<times> string) option" where
  "glide_read 0 scan accepts cursor = None"
| "glide_read (Suc n) scan accepts cursor =
     (case scan cursor of (next, ks) \<Rightarrow>
        let taken = (if ks \<noteq> [] then [ks] else []);
            more = (ks = [] \<or> (case accepts of [] \<Rightarrow> True | a # _ \<Rightarrow> a));
            accepts' = (if ks = [] then accepts else tl accepts)
        in if \<not> more then Some (taken, False, next)
           else if next = ''0'' then Some (taken, True, next)
           else map_option (\<lambda>(out, ended, c). (taken @ out, ended, c)) (glide_read n scan accepts' next))"

end
