(* ===== verification/Bun_Client.thy ===== *)
theory Bun_Client
  imports Glide_Client
begin

text \<open>
  src/classes/bun-redis-client.ts: the adapter for Bun's built-in client. The commands, over
  \<open>send\<close> (\<open>sendCommand\<close>), and the state of the connection: closing, reconnecting with a growing delay, and the
  replacement of the raw client. Where the code reads a reply as an array, a reply that is none is
  read as the empty one.
\<close>

section \<open>Errors and replies\<close>

definition isBunConnectionClosedError :: "string option \<Rightarrow> bool" where
  "isBunConnectionClosedError message =
     (let msg = with_default [] message in
      msg = ''Socket closed unexpectedly'' \<or> prefix ''Connection closed'' msg \<or> msg = ''Connection is closed.'' \<or> msg = ''Connection has failed'')"

fun normalizeStringCollection :: "dval \<Rightarrow> string list" where
  "normalizeStringCollection (DArr vs) = map show_d vs"
| "normalizeStringCollection (DSet vs) = map show_d vs"
| "normalizeStringCollection _ = []"

section \<open>The connection\<close>

record bun =
  bu_statusOverride :: "string option"
  bu_hasConnected :: bool
  bu_closed :: bool
  bu_closing :: bool
  bu_connected :: bool
  bu_reconnecting :: bool
  bu_timer :: bool
  bu_reconnectAttempts :: nat
  bu_loaded :: "string list"
  bu_raws :: nat
  bu_emitted :: "string list"

definition bun_new :: bun where
  "bun_new = \<lparr>bu_statusOverride = None, bu_hasConnected = False, bu_closed = False, bu_closing = False, bu_connected = False,
     bu_reconnecting = False, bu_timer = False, bu_reconnectAttempts = 0, bu_loaded = [], bu_raws = 1, bu_emitted = []\<rparr>"

definition bun_status :: "bun \<Rightarrow> string" where
  "bun_status b =
     (if truthy_str (bu_statusOverride b) then the (bu_statusOverride b)
      else if bu_closed b then ''end'' else if bu_connected b then ''ready'' else if bu_hasConnected b then ''end'' else ''wait'')"

definition bun_set_status :: "string \<Rightarrow> bun \<Rightarrow> bun" where
  "bun_set_status v b =
     (if v = ''end'' then b\<lparr>bu_closing := True, bu_closed := True, bu_statusOverride := Some v\<rparr> else b\<lparr>bu_statusOverride := Some v\<rparr>)"

definition bun_emit :: "string \<Rightarrow> bun \<Rightarrow> bun" where
  "bun_emit e b = b\<lparr>bu_emitted := bu_emitted b @ [e]\<rparr>"

text \<open>\<open>onconnect\<close>: the scripts of the new connection are unknown.\<close>

definition bun_onconnect :: "bun \<Rightarrow> bun" where
  "bun_onconnect b =
     bun_emit ''ready'' (b\<lparr>bu_connected := True, bu_hasConnected := True, bu_closed := False, bu_closing := False,
       bu_reconnecting := False, bu_reconnectAttempts := 0, bu_statusOverride := None, bu_loaded := []\<rparr>)"

text \<open>The delay of the k-th attempt, in milliseconds.\<close>

definition maxReconnectDelay :: real where
  "maxReconnectDelay = 20000"

definition bun_delay :: "nat \<Rightarrow> real" where
  "bun_delay attempts = max (min (exp (real attempts) * 100) maxReconnectDelay) 1000"

definition scheduleReconnect :: "bun \<Rightarrow> bun" where
  "scheduleReconnect b =
     (if bu_closing b \<or> bu_reconnecting b then b
      else b\<lparr>bu_reconnecting := True, bu_reconnectAttempts := Suc (bu_reconnectAttempts b), bu_timer := True\<rparr>)"

definition bun_onclose :: "bool \<Rightarrow> bun \<Rightarrow> bun" where
  "bun_onclose error b =
     (if bu_closing b then bun_emit ''end'' (bun_emit ''close'' (b\<lparr>bu_connected := False, bu_closed := True\<rparr>))
      else let b1 = bun_emit ''close'' (b\<lparr>bu_connected := False, bu_closed := True\<rparr>);
               b2 = (if error then bun_emit ''error'' b1 else b1)
           in scheduleReconnect b2)"

text \<open>The timer of a reconnect: a new raw client; \<open>ok\<close> is how its \<open>connect\<close> ends.\<close>

definition bun_timer :: "bool \<Rightarrow> bun \<Rightarrow> bun" where
  "bun_timer ok b =
     (if \<not> bu_timer b then b
      else let b1 = b\<lparr>bu_timer := False\<rparr> in
           if bu_closing b1 then b1\<lparr>bu_reconnecting := False\<rparr>
           else let b2 = b1\<lparr>bu_raws := Suc (bu_raws b1), bu_closed := False, bu_connected := False\<rparr>
                in if ok then bun_onconnect b2 else scheduleReconnect (b2\<lparr>bu_reconnecting := False\<rparr>))"

text \<open>connect: a raw client that was closed is replaced.\<close>

definition bun_connect :: "bool \<Rightarrow> bun \<Rightarrow> bun" where
  "bun_connect ok b =
     (let replaceRaw = bu_hasConnected b \<and> (bu_closed b \<or> \<not> bu_connected b);
          b1 = b\<lparr>bu_timer := False, bu_reconnecting := False\<rparr>
      in if bu_connected b1 \<and> \<not> replaceRaw
         then b1\<lparr>bu_hasConnected := True, bu_closed := False, bu_closing := False, bu_statusOverride := None\<rparr>
         else let b2 = b1\<lparr>bu_closed := False, bu_closing := False, bu_statusOverride := None,
                         bu_raws := (if replaceRaw then Suc (bu_raws b1) else bu_raws b1),
                         bu_connected := (if replaceRaw then False else bu_connected b1)\<rparr>
              in if ok then (bun_onconnect b2)\<lparr>bu_hasConnected := True, bu_closed := False, bu_closing := False, bu_statusOverride := None\<rparr>
                 else b2)"

definition bun_closeRaw :: "bun \<Rightarrow> bun" where
  "bun_closeRaw b = b\<lparr>bu_timer := False, bu_reconnecting := False, bu_connected := False\<rparr>"

definition bun_disconnect :: "bool \<Rightarrow> bun \<Rightarrow> bun" where
  "bun_disconnect reconnect b =
     (if bu_closed b \<and> \<not> reconnect then b
      else if reconnect
      then scheduleReconnect (bun_emit ''close'' (b\<lparr>bu_closed := True, bu_statusOverride := None, bu_connected := False\<rparr>))
      else bun_emit ''end'' (bun_emit ''close''
             (bun_closeRaw (b\<lparr>bu_closing := True, bu_closed := True, bu_statusOverride := Some ''end''\<rparr>))))"

definition bun_quit :: "bun \<Rightarrow> bun" where
  "bun_quit b =
     (if bu_closed b then bun_emit ''close'' (bun_emit ''end'' b)
      else bun_emit ''close'' (bun_emit ''end''
             (bun_closeRaw (b\<lparr>bu_closing := True, bu_closed := True, bu_statusOverride := Some ''end''\<rparr>))))"

section \<open>Commands\<close>

text \<open>\<open>sendCommand\<close>: a closed adapter rejects; an error of a lost connection is \<open>null\<close> if the adapter has been closed
  by the time it arrives (\<open>later\<close>) and a ConnectionClosedError otherwise.\<close>

definition sendCommand ::
  "string option \<Rightarrow> bun \<Rightarrow> bun \<Rightarrow> (string \<Rightarrow> garg list \<Rightarrow> ('s, dval) backend_op) \<Rightarrow> string \<Rightarrow> garg list \<Rightarrow> ('s, dval) backend_op" where
  "sendCommand stk b later raw command args =
     (if bu_closing b \<or> bu_closed b
      then b_throw (new_ConnectionClosedError stk (Some ''Connection is closed''))
      else b_catch (raw command args) (\<lambda>err.
        if isBunConnectionClosedError (Some (err_message err))
        then (if bu_closing later \<or> bu_closed later then b_ret DNull
              else b_throw (new_ConnectionClosedError stk (Some (err_message err))))
        else b_throw err))"

type_synonym 's sender = "string \<Rightarrow> garg list \<Rightarrow> ('s, dval) backend_op"

definition bun_hash :: "dval \<Rightarrow> dval" where
  "bun_hash v =
     (if falsy v \<or> (is_arr v \<and> arr_of v = []) then DObj []
      else if is_arr v
      then record_val (to_record (map (\<lambda>(k, x). (show_d k, show_d x)) (field_pairs (arr_of v))))
      else v)"

definition bun_hgetall :: "'s sender \<Rightarrow> string \<Rightarrow> ('s, dval) backend_op" where
  "bun_hgetall send key = b_fmap bun_hash (send ''HGETALL'' (cmd [key]))"

definition or_null :: "dval \<Rightarrow> dval" where
  "or_null v = (if nil v then DNull else v)"

definition bun_hget :: "'s sender \<Rightarrow> string \<Rightarrow> string \<Rightarrow> ('s, dval) backend_op" where
  "bun_hget send key field = b_fmap or_null (send ''HGET'' (cmd [key, field]))"

definition bun_hmget :: "'s sender \<Rightarrow> string \<Rightarrow> string list \<Rightarrow> ('s, dval list) backend_op" where
  "bun_hmget send key fs = b_fmap (\<lambda>v. map or_null (arr_of v)) (send ''HMGET'' (cmd (key # fs)))"

definition bun_hset :: "'s sender \<Rightarrow> string \<Rightarrow> dval \<Rightarrow> dval list \<Rightarrow> ('s, dval) backend_op" where
  "bun_hset send key dataOrField rest =
     send ''HSET'' (cmd (key #
       (case dataOrField of
          DObj data \<Rightarrow> field_args data
        | _ \<Rightarrow> show_d dataOrField # show_d (item rest 0) # concat (map (\<lambda>(k, v). [show_d k, show_d v]) (field_pairs (tl rest))))))"

definition bun_hdel :: "'s sender \<Rightarrow> string \<Rightarrow> string list \<Rightarrow> ('s, dval) backend_op" where
  "bun_hdel send key fs = send ''HDEL'' (cmd (key # fs))"

definition bun_hexists :: "'s sender \<Rightarrow> string \<Rightarrow> string \<Rightarrow> ('s, int) backend_op" where
  "bun_hexists send key field =
     b_fmap (\<lambda>v. if v = DBool True \<or> v = DNum 1 then 1 else 0) (send ''HEXISTS'' (cmd [key, field]))"

definition bun_get :: "'s sender \<Rightarrow> string \<Rightarrow> ('s, dval) backend_op" where
  "bun_get send key = b_fmap or_null (send ''GET'' (cmd [key]))"

definition bun_set :: "'s sender \<Rightarrow> string \<Rightarrow> dval \<Rightarrow> int option \<Rightarrow> int option \<Rightarrow> ('s, dval) backend_op" where
  "bun_set send key v px ex = send ''SET'' (cmd ([key, show_d v] @ expiry_args px ex))"

definition bun_del :: "'s sender \<Rightarrow> string list \<Rightarrow> ('s, dval) backend_op" where
  "bun_del send ks = (if ks = [] then b_ret (DNum 0) else send ''DEL'' (cmd ks))"

definition bun_zset_reply :: "bool \<Rightarrow> dval \<Rightarrow> string list" where
  "bun_zset_reply withScores v =
     (if falsy v then []
      else if withScores \<and> arr_of v \<noteq> [] \<and> is_arr (item (arr_of v) 0)
      then concat (map (\<lambda>p. [show_d (item (arr_of p) 0), show_d (item (arr_of p) 1)]) (arr_of v))
      else map show_d (arr_of v))"

definition bun_zrange :: "'s sender \<Rightarrow> string \<Rightarrow> int \<Rightarrow> int \<Rightarrow> bool \<Rightarrow> ('s, string list) backend_op" where
  "bun_zrange send key start end' withScores =
     b_fmap (bun_zset_reply withScores) (send ''ZRANGE'' (cmd (tl (range_args ''ZRANGE'' key start end' withScores))))"

definition bun_zrevrange :: "'s sender \<Rightarrow> string \<Rightarrow> int \<Rightarrow> int \<Rightarrow> bool \<Rightarrow> ('s, string list) backend_op" where
  "bun_zrevrange send key start end' withScores =
     b_fmap (bun_zset_reply withScores) (send ''ZRANGE'' (cmd (tl (range_args ''ZRANGE'' key start end' withScores) @ [''REV''])))"

definition bun_zcard :: "'s sender \<Rightarrow> string \<Rightarrow> ('s, dval) backend_op" where
  "bun_zcard send key = send ''ZCARD'' (cmd [key])"

definition bun_zscore :: "'s sender \<Rightarrow> string \<Rightarrow> string \<Rightarrow> ('s, string option) backend_op" where
  "bun_zscore send key member = b_fmap (\<lambda>v. if nil v then None else Some (show_d v)) (send ''ZSCORE'' (cmd [key, member]))"

definition bun_lrange :: "'s sender \<Rightarrow> string \<Rightarrow> int \<Rightarrow> int \<Rightarrow> ('s, string list) backend_op" where
  "bun_lrange send key start end' =
     b_fmap (\<lambda>v. map show_d (arr_of v)) (send ''LRANGE'' (cmd [key, string_of_int start, string_of_int end']))"

definition bun_llen :: "'s sender \<Rightarrow> string \<Rightarrow> ('s, dval) backend_op" where
  "bun_llen send key = send ''LLEN'' (cmd [key])"

definition bun_ltrim :: "'s sender \<Rightarrow> string \<Rightarrow> int \<Rightarrow> int \<Rightarrow> ('s, string) backend_op" where
  "bun_ltrim send key start end' = b_fmap (\<lambda>_. ''OK'') (send ''LTRIM'' (cmd [key, string_of_int start, string_of_int end']))"

definition bun_lpos :: "'s sender \<Rightarrow> string \<Rightarrow> string \<Rightarrow> ('s, dval) backend_op" where
  "bun_lpos send key v = b_fmap or_null (send ''LPOS'' (cmd [key, v]))"

definition bun_smembers :: "'s sender \<Rightarrow> string \<Rightarrow> ('s, string list) backend_op" where
  "bun_smembers send key = b_fmap normalizeStringCollection (send ''SMEMBERS'' (cmd [key]))"

text \<open>xadd goes to the raw client, not through \<open>sendCommand\<close>.\<close>

definition bun_xadd :: "'s sender \<Rightarrow> string \<Rightarrow> string \<Rightarrow> (string \<times> dval) list \<Rightarrow> int option \<Rightarrow> bool option \<Rightarrow> ('s, dval) backend_op" where
  "bun_xadd raw key eid fs maxlen approximate =
     raw ''XADD'' (cmd ([key] @ maxlen_args maxlen approximate @ [eid] @ field_args fs))"

definition bun_entries :: "dval \<Rightarrow> dval" where
  "bun_entries v =
     DArr (map (\<lambda>entry. DArr [DStr (show_d (item (arr_of entry) 0)), strs (map show_d (arr_of (item (arr_of entry) 1)))]) (arr_of v))"

definition bun_xread_reply :: "dval \<Rightarrow> dval" where
  "bun_xread_reply v =
     (if falsy v then DNull
      else case v of
             DArr streams \<Rightarrow> DArr (map (\<lambda>s. DArr [DStr (show_d (item (arr_of s) 0)), bun_entries (item (arr_of s) 1)]) streams)
           | DObj fs \<Rightarrow> DArr (map (\<lambda>(name, entries). DArr [DStr name, bun_entries entries]) fs)
           | _ \<Rightarrow> DArr [])"

text \<open>A rejected read of an adapter that is closing by then (\<open>closing\<close>) is \<open>null\<close>.\<close>

definition bun_xread :: "'s sender \<Rightarrow> bool \<Rightarrow> (string \<times> string) list \<Rightarrow> int option \<Rightarrow> int option \<Rightarrow> ('s, dval) backend_op" where
  "bun_xread send closing streams block cnt =
     b_fmap bun_xread_reply
       (b_catch (send ''XREAD'' (cmd (opt_arg ''COUNT'' cnt @ opt_arg ''BLOCK'' block @ streams_args streams)))
          (\<lambda>err. if closing then b_ret DNull else b_throw err))"

definition bun_xtrim :: "'s sender \<Rightarrow> string \<Rightarrow> int \<Rightarrow> bool option \<Rightarrow> ('s, dval) backend_op" where
  "bun_xtrim send key threshold approximate = send ''XTRIM'' (cmd (key # maxlen_args (Some threshold) approximate))"

definition bun_popped :: "dval \<Rightarrow> (string \<times> string \<times> string) option" where
  "bun_popped v =
     (if falsy v \<or> v = DArr [] then None
      else Some (show_d (item (arr_of v) 0), show_d (item (arr_of v) 1), show_d (item (arr_of v) 2)))"

definition bun_bzpopmin :: "'s sender \<Rightarrow> bool \<Rightarrow> string \<Rightarrow> string \<Rightarrow> ('s, (string \<times> string \<times> string) option) backend_op" where
  "bun_bzpopmin send closing key timeout =
     b_fmap bun_popped (b_catch (send ''BZPOPMIN'' (cmd [key, timeout])) (\<lambda>err. if closing then b_ret DNull else b_throw err))"

definition bun_info :: "'s sender \<Rightarrow> ('s, dval) backend_op" where
  "bun_info send = send ''INFO'' []"

definition bun_clientSetName :: "'s sender \<Rightarrow> string \<Rightarrow> ('s, dval) backend_op" where
  "bun_clientSetName send name = send ''CLIENT'' (cmd [''SETNAME'', name])"

definition bun_clientList :: "'s sender \<Rightarrow> ('s, dval) backend_op" where
  "bun_clientList send = send ''CLIENT'' (cmd [''LIST''])"

definition bun_scan :: "'s sender \<Rightarrow> string \<Rightarrow> string option \<Rightarrow> int option \<Rightarrow> ('s, string \<times> string list) backend_op" where
  "bun_scan send cursor m cnt =
     b_fmap (\<lambda>v. (show_d (item (arr_of v) 0), map show_d (arr_of (item (arr_of v) 1))))
       (send ''SCAN'' (cmd ([cursor] @ match_arg m @ (if cnt = None \<or> cnt = Some 0 then [] else opt_arg ''COUNT'' cnt))))"

section \<open>Commands outside the interface\<close>

definition bun_keys :: "'s sender \<Rightarrow> string \<Rightarrow> ('s, string list) backend_op" where
  "bun_keys send pattern = b_fmap (\<lambda>v. map show_d (arr_of v)) (send ''KEYS'' (cmd [pattern]))"

definition bun_exists :: "'s sender \<Rightarrow> string list \<Rightarrow> ('s, dval) backend_op" where
  "bun_exists send ks =
     (if ks = [] then b_ret (DNum 0)
      else b_fmap (\<lambda>v. case v of DBool b \<Rightarrow> DNum (if b then 1 else 0) | _ \<Rightarrow> v) (send ''EXISTS'' (cmd ks)))"

definition bun_zadd :: "'s sender \<Rightarrow> string \<Rightarrow> dval list \<Rightarrow> ('s, dval) backend_op" where
  "bun_zadd send key args = send ''ZADD'' (cmd (key # concat (map (\<lambda>(a, b). [show_d a, show_d b]) (field_pairs args))))"

definition bun_zrem :: "'s sender \<Rightarrow> string \<Rightarrow> string list \<Rightarrow> ('s, dval) backend_op" where
  "bun_zrem send key members = send ''ZREM'' (cmd (key # members))"

definition bun_xlen :: "'s sender \<Rightarrow> string \<Rightarrow> ('s, dval) backend_op" where
  "bun_xlen send key = send ''XLEN'' (cmd [key])"

definition bun_xrevrange :: "'s sender \<Rightarrow> string \<Rightarrow> string \<Rightarrow> string \<Rightarrow> dval list \<Rightarrow> ('s, (string \<times> string list) list) backend_op" where
  "bun_xrevrange send key end' start rest =
     b_fmap (\<lambda>v. map (\<lambda>m. (show_d (item (arr_of m) 0), map show_d (arr_of (item (arr_of m) 1)))) (arr_of v))
       (send ''XREVRANGE'' (cmd ([key, end', start] @ (if item rest 0 = DStr ''COUNT'' then [''COUNT'', show_d (item rest 1)] else []))))"

definition bun_sadd :: "'s sender \<Rightarrow> string \<Rightarrow> dval list \<Rightarrow> ('s, dval) backend_op" where
  "bun_sadd send key members = send ''SADD'' (cmd (key # map show_d members))"

definition bun_scard :: "'s sender \<Rightarrow> string \<Rightarrow> ('s, dval) backend_op" where
  "bun_scard send key = send ''SCARD'' (cmd [key])"

definition bun_lpush :: "'s sender \<Rightarrow> string \<Rightarrow> string list \<Rightarrow> ('s, dval) backend_op" where
  "bun_lpush send key vs = send ''LPUSH'' (cmd (key # vs))"

definition bun_rpop :: "'s sender \<Rightarrow> string \<Rightarrow> ('s, dval) backend_op" where
  "bun_rpop send key = b_fmap or_null (send ''RPOP'' (cmd [key]))"

definition bun_incr :: "'s sender \<Rightarrow> string \<Rightarrow> ('s, dval) backend_op" where
  "bun_incr send key = send ''INCR'' (cmd [key])"

definition bun_incrby :: "'s sender \<Rightarrow> string \<Rightarrow> int \<Rightarrow> ('s, dval) backend_op" where
  "bun_incrby send key increment = send ''INCRBY'' (cmd [key, string_of_int increment])"

definition bun_flushall :: "'s sender \<Rightarrow> ('s, dval) backend_op" where
  "bun_flushall send = send ''FLUSHALL'' []"

section \<open>Lua scripts\<close>

definition bun_script_args :: "lua_script \<Rightarrow> dval list \<Rightarrow> garg list" where
  "bun_script_args script args =
     (let commandArgs = normalizeScriptArgs args; ks = map show_d (take (ls_numberOfKeys script) commandArgs)
      in GStr (string_of_nat (length ks)) # cmd ks @ map script_arg (drop (ls_numberOfKeys script) commandArgs))"

text \<open>runCommand; the hashes the connection has loaded are kept for \<open>ensureScriptsLoaded\<close> below.\<close>

definition bun_runCommand ::
  "string option \<Rightarrow> 's sender \<Rightarrow> (string, lua_script) jsmap \<Rightarrow> string \<Rightarrow> dval list \<Rightarrow> ('s, dval) backend_op" where
  "bun_runCommand stk send scripts name args =
     (case map_get scripts name of
        None \<Rightarrow> b_throw (new_err ErrorClass stk (''BullMQ: unknown command '' @ [CHR 0x22] @ name @ [CHR 0x22]))
      | Some script \<Rightarrow>
          b_catch (send ''EVALSHA'' (GStr (ls_sha script) # bun_script_args script args))
            (\<lambda>err. if str_includes ''NOSCRIPT'' (err_message err)
                    then send ''EVAL'' (GStr (ls_lua script) # bun_script_args script args)
                    else b_throw err))"

text \<open>ensureScriptsLoaded: which scripts are loaded, each once per connection.\<close>

definition scripts_to_load :: "string list \<Rightarrow> lua_script list \<Rightarrow> lua_script list" where
  "scripts_to_load loaded scripts =
     fst (fold (\<lambda>s (out, seen). if ls_sha s \<in> set loaded \<or> ls_sha s \<in> set seen then (out, seen)
                                 else (out @ [s], seen @ [ls_sha s])) scripts ([], []))"

section \<open>Transactions\<close>

record bun_tx =
  bt_commands :: "(string \<times> garg list) list"
  bt_transformers :: "(dval \<Rightarrow> dval) list"
  bt_scripts :: "lua_script list"

definition bun_tx_new :: bun_tx where
  "bun_tx_new = \<lparr>bt_commands = [], bt_transformers = [], bt_scripts = []\<rparr>"

definition addCommand :: "string \<Rightarrow> garg list \<Rightarrow> (dval \<Rightarrow> dval) option \<Rightarrow> bun_tx \<Rightarrow> bun_tx" where
  "addCommand c args transformer t =
     t\<lparr>bt_commands := bt_commands t @ [(c, args)], bt_transformers := bt_transformers t @ [with_default (\<lambda>v. v) transformer]\<rparr>"

definition bun_tx_hgetall :: "string \<Rightarrow> bun_tx \<Rightarrow> bun_tx" where
  "bun_tx_hgetall key = addCommand ''HGETALL'' (cmd [key]) (Some bun_hash)"

definition bun_tx_hset :: "string \<Rightarrow> (string \<times> dval) list \<Rightarrow> bun_tx \<Rightarrow> bun_tx" where
  "bun_tx_hset key data = addCommand ''HSET'' (cmd (key # field_args data)) None"

definition bun_scan_value :: "dval \<Rightarrow> dval" where
  "bun_scan_value v =
     (if falsy v then DArr [DStr ''0'', strs []]
      else if is_arr v then DArr [DStr (show_d (item (arr_of v) 0)), strs (normalizeStringCollection (item (arr_of v) 1))]
      else DArr [DStr ''0'', strs []])"

definition bun_tx_hscan :: "string \<Rightarrow> string \<Rightarrow> int option \<Rightarrow> bun_tx \<Rightarrow> bun_tx" where
  "bun_tx_hscan key cursor cnt = addCommand ''HSCAN'' (cmd ([key, cursor] @ opt_arg ''COUNT'' cnt)) (Some bun_scan_value)"

definition bun_tx_smembers :: "string \<Rightarrow> bun_tx \<Rightarrow> bun_tx" where
  "bun_tx_smembers key = addCommand ''SMEMBERS'' (cmd [key]) (Some (\<lambda>v. strs (normalizeStringCollection v)))"

definition bun_tx_sscan :: "string \<Rightarrow> string \<Rightarrow> int option \<Rightarrow> bun_tx \<Rightarrow> bun_tx" where
  "bun_tx_sscan key cursor cnt = addCommand ''SSCAN'' (cmd ([key, cursor] @ opt_arg ''COUNT'' cnt)) (Some bun_scan_value)"

definition bun_tx_zrange :: "string \<Rightarrow> int \<Rightarrow> int \<Rightarrow> bun_tx \<Rightarrow> bun_tx" where
  "bun_tx_zrange key start end' =
     addCommand ''ZRANGE'' (cmd [key, string_of_int start, string_of_int end']) (Some (\<lambda>v. strs (map show_d (arr_of v))))"

definition bun_tx_lrange :: "string \<Rightarrow> int \<Rightarrow> int \<Rightarrow> bun_tx \<Rightarrow> bun_tx" where
  "bun_tx_lrange key start end' =
     addCommand ''LRANGE'' (cmd [key, string_of_int start, string_of_int end']) (Some (\<lambda>v. strs (map show_d (arr_of v))))"

definition bun_tx_llen :: "string \<Rightarrow> bun_tx \<Rightarrow> bun_tx" where
  "bun_tx_llen key = addCommand ''LLEN'' (cmd [key]) None"

definition bun_tx_del :: "string list \<Rightarrow> bun_tx \<Rightarrow> bun_tx" where
  "bun_tx_del ks t = (if ks \<noteq> [] then addCommand ''DEL'' (cmd ks) None t else t)"

definition bun_tx_runCommand ::
  "string option \<Rightarrow> (string, lua_script) jsmap \<Rightarrow> string \<Rightarrow> dval list \<Rightarrow> bun_tx \<Rightarrow> (js_error, bun_tx) result" where
  "bun_tx_runCommand stk scripts name args t =
     (case map_get scripts name of
        None \<Rightarrow> Inl (new_err ErrorClass stk (''BullMQ: unknown command '' @ [CHR 0x22] @ name @ [CHR 0x22] @ '' in transaction''))
      | Some script \<Rightarrow>
          Inr (addCommand ''EVALSHA'' (GStr (ls_sha script) # bun_script_args script args) None
                 (t\<lparr>bt_scripts := bt_scripts t @ [script]\<rparr>)))"

text \<open>A promise that is not waited for: its outcome is dropped.\<close>

definition fired :: "('s, 'a) backend_op \<Rightarrow> ('s, unit) backend_op" where
  "fired m s = (Inr (), snd (m s))"

fun fire_all :: "'s sender \<Rightarrow> (string \<times> garg list) list \<Rightarrow> ('s, unit) backend_op" where
  "fire_all raw [] = b_ret ()"
| "fire_all raw ((c, args) # cs) = b_then (fired (raw c args)) (\<lambda>_. fire_all raw cs)"

fun settle_all :: "'s sender \<Rightarrow> (string \<times> garg list) list \<Rightarrow> ('s, (js_error, dval) result list) backend_op" where
  "settle_all send [] = b_ret []"
| "settle_all send ((c, args) # cs) =
     (\<lambda>s. case send c args s of (r, s') \<Rightarrow> b_fmap (\<lambda>rs. r # rs) (settle_all send cs) s')"

definition settled_result :: "(dval \<Rightarrow> dval) \<Rightarrow> (js_error, dval) result \<Rightarrow> js_error option \<times> dval" where
  "settled_result f r = (case r of Inl e \<Rightarrow> (Some e, DNull) | Inr v \<Rightarrow> (None, f v))"

definition bun_tx_exec ::
  "'s sender \<Rightarrow> 's sender \<Rightarrow> bool \<Rightarrow> ('s, unit) backend_op \<Rightarrow> bun_tx \<Rightarrow> ('s, (js_error option \<times> dval) list option) backend_op" where
  "bun_tx_exec raw send transactional load t =
     (if bt_commands t = [] then b_ret (Some [])
      else b_then (if bt_scripts t \<noteq> [] then load else b_ret ()) (\<lambda>_.
        if \<not> transactional
        then b_fmap (\<lambda>rs. Some (map2 settled_result (bt_transformers t) rs)) (settle_all send (bt_commands t))
        else b_catch
               (b_then (fired (raw ''MULTI'' [])) (\<lambda>_. b_then (fire_all raw (bt_commands t)) (\<lambda>_.
                  b_fmap (\<lambda>v. if falsy v then None else Some (tx_results (map Some (bt_transformers t)) (arr_of v))) (raw ''EXEC'' []))))
               (\<lambda>err. b_then (b_catch (raw ''DISCARD'' []) (\<lambda>_. b_ret DUndef)) (\<lambda>_. b_throw err))))"

section \<open>Scanning\<close>

text \<open>One \<open>read\<close> of \<open>scanStream\<close>: scans until there are keys; the keys of the last scan come with the end.\<close>

fun bun_read_loop :: "nat \<Rightarrow> (string \<Rightarrow> string \<times> string list) \<Rightarrow> string \<Rightarrow> (string list list \<times> bool \<times> string) option" where
  "bun_read_loop 0 scan cursor = None"
| "bun_read_loop (Suc n) scan cursor =
     (case scan cursor of (next, ks) \<Rightarrow>
        if ks \<noteq> [] then Some ([ks], next = ''0'', next)
        else if next = ''0'' then Some ([], True, next)
        else bun_read_loop n scan next)"

definition bun_read :: "nat \<Rightarrow> (string \<Rightarrow> string \<times> string list) \<Rightarrow> bool \<times> string \<Rightarrow> (string list list \<times> bool \<times> string) option" where
  "bun_read n scan st =
     (case st of (started, cursor) \<Rightarrow>
        if started \<and> cursor = ''0'' then Some ([], True, cursor) else bun_read_loop n scan cursor)"

end
