(* ===== verification/Node_Client.thy ===== *)
theory Node_Client
  imports Glide_Client
begin

text \<open>
  src/classes/node-redis-client.ts and src/classes/ioredis-client.ts: the adapters for node-redis and
  ioredis. The library is a parameter: \<open>raw m args\<close> calls its method \<open>m\<close>. The adapters translate
  arguments (options objects against positional words) and bring replies into one form. Where the
  code reads a reply as an array, a reply that is none is read as the empty one.
\<close>

type_synonym 's lib_call = "string \<Rightarrow> dval list \<Rightarrow> ('s, dval) backend_op"

section \<open>node-redis: the connection\<close>

definition isConnectionClosedError :: "js_error \<Rightarrow> bool" where
  "isConnectionClosedError err \<longleftrightarrow>
     err_message err \<in> {''Disconnects client'', ''The client is closed'', ''Connection is closed.''}"

record node_conn =
  nc_statusOverride :: "string option"
  nc_hasConnected :: bool
  nc_destroying :: bool
  nc_isReady :: bool
  nc_isOpen :: bool
  nc_emitted :: "string list"

definition node_status :: "node_conn \<Rightarrow> string" where
  "node_status c =
     (if truthy_str (nc_statusOverride c) then the (nc_statusOverride c)
      else if nc_isReady c then ''ready'' else if nc_isOpen c then ''connect''
      else if nc_hasConnected c then ''end'' else ''wait'')"

text \<open>Setting the status to \<open>end\<close> quits the library's client without waiting.\<close>

definition node_set_status :: "string \<Rightarrow> node_conn \<Rightarrow> node_conn" where
  "node_set_status v c =
     (if v = ''end'' then c\<lparr>nc_destroying := True, nc_isReady := False, nc_isOpen := False, nc_statusOverride := Some v\<rparr>
      else c\<lparr>nc_statusOverride := Some v\<rparr>)"

definition node_emit :: "string \<Rightarrow> node_conn \<Rightarrow> node_conn" where
  "node_emit e c = c\<lparr>nc_emitted := nc_emitted c @ [e]\<rparr>"

definition node_on_ready :: "node_conn \<Rightarrow> node_conn" where
  "node_on_ready c = node_emit ''ready'' (c\<lparr>nc_hasConnected := True, nc_isReady := True, nc_isOpen := True\<rparr>)"

definition node_on_error :: "js_error \<Rightarrow> node_conn \<Rightarrow> node_conn" where
  "node_on_error err c = (if nc_destroying c \<and> isConnectionClosedError err then c else node_emit ''error'' c)"

definition node_disconnect :: "bool \<Rightarrow> node_conn \<Rightarrow> node_conn" where
  "node_disconnect reconnect c =
     (let c1 = c\<lparr>nc_destroying := True, nc_statusOverride := (if reconnect then nc_statusOverride c else Some ''end''),
                nc_isReady := False, nc_isOpen := False\<rparr>;
          c2 = node_emit ''close'' c1
      in if reconnect then node_emit ''reconnecting'' (c2\<lparr>nc_statusOverride := None\<rparr>) else node_emit ''end'' c2)"

definition node_quit :: "node_conn \<Rightarrow> node_conn" where
  "node_quit c =
     (if nc_destroying c \<or> nc_statusOverride c = Some ''end'' then node_emit ''close'' (node_emit ''end'' c)
      else node_emit ''close'' (node_emit ''end''
             (c\<lparr>nc_destroying := True, nc_isReady := False, nc_isOpen := False, nc_statusOverride := Some ''end''\<rparr>)))"

text \<open>The errors of a lost connection: silent while the adapter is destroyed, one class otherwise.\<close>

definition node_guard :: "string option \<Rightarrow> bool \<Rightarrow> ('s, dval) backend_op \<Rightarrow> ('s, dval) backend_op" where
  "node_guard stk destroying m =
     b_catch m (\<lambda>err.
       if destroying \<and> isConnectionClosedError err then b_ret DNull
       else if isConnectionClosedError err then b_throw (new_ConnectionClosedError stk (Some (err_message err)))
       else b_throw err)"

section \<open>node-redis: commands\<close>

definition dprop :: "string \<Rightarrow> dval \<Rightarrow> dval" where
  "dprop k v = (case v of DObj fs \<Rightarrow> with_default DUndef (map_get fs k) | _ \<Rightarrow> DUndef)"

definition node_hgetall :: "'s lib_call \<Rightarrow> string \<Rightarrow> ('s, dval) backend_op" where
  "node_hgetall raw key = b_fmap (\<lambda>v. if nil v then DObj [] else v) (raw ''hGetAll'' [DStr key])"

definition null_or :: "dval \<Rightarrow> dval" where
  "null_or v = (if nil v then DNull else v)"

definition node_hget :: "'s lib_call \<Rightarrow> string \<Rightarrow> string \<Rightarrow> ('s, dval) backend_op" where
  "node_hget raw key field = b_fmap null_or (raw ''hGet'' [DStr key, DStr field])"

definition node_hmget :: "'s lib_call \<Rightarrow> string \<Rightarrow> string list \<Rightarrow> ('s, dval list) backend_op" where
  "node_hmget raw key fs = b_fmap (\<lambda>v. map null_or (arr_of v)) (raw ''hmGet'' [DStr key, strs fs])"

text \<open>hset with an object, or with a field and the rest of the arguments.\<close>

definition node_hset_record :: "string \<Rightarrow> dval list \<Rightarrow> (string \<times> dval) list" where
  "node_hset_record field rest =
     fold (\<lambda>(k, v) m. map_set (show_d k) (DStr (show_d v)) m) (field_pairs (tl rest)) [(field, DStr (show_d (item rest 0)))]"

definition node_hset :: "'s lib_call \<Rightarrow> string \<Rightarrow> dval \<Rightarrow> dval list \<Rightarrow> ('s, dval) backend_op" where
  "node_hset raw key dataOrField rest =
     (case dataOrField of
        DStr field \<Rightarrow> raw ''hSet'' [DStr key, DObj (node_hset_record field rest)]
      | data \<Rightarrow> raw ''hSet'' [DStr key, data])"

definition node_hdel :: "'s lib_call \<Rightarrow> string \<Rightarrow> string list \<Rightarrow> ('s, dval) backend_op" where
  "node_hdel raw key fs = raw ''hDel'' [DStr key, strs fs]"

definition node_hexists :: "'s lib_call \<Rightarrow> string \<Rightarrow> string \<Rightarrow> ('s, int) backend_op" where
  "node_hexists raw key field = b_fmap (\<lambda>v. if falsy v then 0 else 1) (raw ''hExists'' [DStr key, DStr field])"

definition node_get :: "'s lib_call \<Rightarrow> string \<Rightarrow> ('s, dval) backend_op" where
  "node_get raw key = b_fmap null_or (raw ''get'' [DStr key])"

definition node_set :: "'s lib_call \<Rightarrow> string \<Rightarrow> dval \<Rightarrow> int option \<Rightarrow> int option \<Rightarrow> ('s, dval) backend_op" where
  "node_set raw key v px ex =
     raw ''set'' [DStr key, DStr (show_d v),
       DObj (case px of Some n \<Rightarrow> [(''PX'', DNum n)] | None \<Rightarrow> (case ex of Some n \<Rightarrow> [(''EX'', DNum n)] | None \<Rightarrow> []))]"

definition node_del :: "'s lib_call \<Rightarrow> string list \<Rightarrow> ('s, dval) backend_op" where
  "node_del raw ks = (if ks = [] then b_ret (DNum 0) else raw ''del'' [strs ks])"

definition flat_scores :: "dval \<Rightarrow> dval" where
  "flat_scores v = DArr (concat (map (\<lambda>it. [dprop ''value'' it, DStr (show_d (dprop ''score'' it))]) (arr_of v)))"

definition node_zrange :: "'s lib_call \<Rightarrow> string \<Rightarrow> int \<Rightarrow> int \<Rightarrow> bool \<Rightarrow> ('s, dval) backend_op" where
  "node_zrange raw key start end' withScores =
     (if withScores then b_fmap flat_scores (raw ''zRangeWithScores'' [DStr key, DNum start, DNum end'])
      else raw ''zRange'' [DStr key, DNum start, DNum end'])"

definition node_zrevrange :: "'s lib_call \<Rightarrow> string \<Rightarrow> int \<Rightarrow> int \<Rightarrow> bool \<Rightarrow> ('s, dval) backend_op" where
  "node_zrevrange raw key start end' withScores =
     (let rev' = DObj [(''REV'', DBool True)] in
      if withScores then b_fmap flat_scores (raw ''zRangeWithScores'' [DStr key, DNum start, DNum end', rev'])
      else raw ''zRange'' [DStr key, DNum start, DNum end', rev'])"

definition node_zscore :: "'s lib_call \<Rightarrow> string \<Rightarrow> string \<Rightarrow> ('s, string option) backend_op" where
  "node_zscore raw key member = b_fmap (\<lambda>v. if nil v then None else Some (show_d v)) (raw ''zScore'' [DStr key, DStr member])"

definition node_ltrim :: "'s lib_call \<Rightarrow> string \<Rightarrow> int \<Rightarrow> int \<Rightarrow> ('s, string) backend_op" where
  "node_ltrim raw key start end' = b_fmap (\<lambda>_. ''OK'') (raw ''lTrim'' [DStr key, DNum start, DNum end'])"

definition node_lpos :: "'s lib_call \<Rightarrow> string \<Rightarrow> string \<Rightarrow> ('s, dval) backend_op" where
  "node_lpos raw key v = b_fmap null_or (raw ''lPos'' [DStr key, DStr v])"

text \<open>The methods that only forward their arguments: zcard, lrange, llen, smembers, keys, zrem, xlen, scard, lpush,
  rpop, incr, incrby, flushall, info, clientSetName.\<close>

definition node_forward :: "'s lib_call \<Rightarrow> string \<Rightarrow> dval list \<Rightarrow> ('s, dval) backend_op" where
  "node_forward raw m args = raw m args"

definition trim_modifier :: "bool option \<Rightarrow> dval" where
  "trim_modifier approximate = (if approximate = Some False then DUndef else DStr ''~'')"

definition node_xadd :: "'s lib_call \<Rightarrow> string \<Rightarrow> string \<Rightarrow> (string \<times> dval) list \<Rightarrow> int option \<Rightarrow> bool option \<Rightarrow> ('s, dval) backend_op" where
  "node_xadd raw key eid fs maxlen approximate =
     raw ''xAdd'' [DStr key, DStr eid, DObj (map (\<lambda>(k, v). (k, DStr (show_d v))) fs),
       DObj (case maxlen of
               None \<Rightarrow> []
             | Some n \<Rightarrow> [(''TRIM'', DObj [(''strategy'', DStr ''MAXLEN''), (''threshold'', DNum n),
                                          (''strategyModifier'', trim_modifier approximate)])])]"

definition flat_entries :: "dval \<Rightarrow> dval" where
  "flat_entries message =
     DArr (case message of DObj fs \<Rightarrow> concat (map (\<lambda>(k, v). [DStr k, v]) fs) | _ \<Rightarrow> [])"

definition node_messages :: "dval \<Rightarrow> dval" where
  "node_messages v = DArr (map (\<lambda>msg. DArr [dprop ''id'' msg, flat_entries (dprop ''message'' msg)]) (arr_of v))"

definition node_xread_reply :: "dval \<Rightarrow> dval" where
  "node_xread_reply v =
     (if falsy v then DNull
      else DArr (map (\<lambda>stream. DArr [dprop ''name'' stream, node_messages (dprop ''messages'' stream)]) (arr_of v)))"

definition node_xread ::
  "string option \<Rightarrow> 's lib_call \<Rightarrow> bool \<Rightarrow> (string \<times> string) list \<Rightarrow> int option \<Rightarrow> int option \<Rightarrow> ('s, dval) backend_op" where
  "node_xread stk raw destroying streams block cnt =
     b_fmap node_xread_reply
       (node_guard stk destroying
          (raw ''xRead'' [DArr (map (\<lambda>(k, i). DObj [(''key'', DStr k), (''id'', DStr i)]) streams),
             DObj ((case block of None \<Rightarrow> [] | Some n \<Rightarrow> [(''BLOCK'', DNum n)]) @ (case cnt of None \<Rightarrow> [] | Some n \<Rightarrow> [(''COUNT'', DNum n)]))]))"

definition node_xtrim :: "'s lib_call \<Rightarrow> string \<Rightarrow> int \<Rightarrow> bool option \<Rightarrow> ('s, dval) backend_op" where
  "node_xtrim raw key threshold approximate =
     raw ''xTrim'' [DStr key, DStr ''MAXLEN'', DNum threshold, DObj [(''strategyModifier'', trim_modifier approximate)]]"

definition node_popped :: "dval \<Rightarrow> (dval \<times> dval \<times> string) option" where
  "node_popped v = (if falsy v then None else Some (dprop ''key'' v, dprop ''value'' v, show_d (dprop ''score'' v)))"

definition node_bzpopmin :: "string option \<Rightarrow> 's lib_call \<Rightarrow> bool \<Rightarrow> string \<Rightarrow> dval \<Rightarrow> ('s, (dval \<times> dval \<times> string) option) backend_op" where
  "node_bzpopmin stk raw destroying key timeout =
     b_fmap node_popped (node_guard stk destroying (raw ''bzPopMin'' [DStr key, timeout]))"

definition node_clientList :: "'s lib_call \<Rightarrow> ('s, dval) backend_op" where
  "node_clientList raw = raw ''sendCommand'' [strs [''CLIENT'', ''LIST'']]"

definition node_scan :: "'s lib_call \<Rightarrow> string \<Rightarrow> string option \<Rightarrow> int option \<Rightarrow> ('s, string \<times> dval) backend_op" where
  "node_scan raw cursor m cnt =
     b_fmap (\<lambda>v. (show_d (dprop ''cursor'' v), dprop ''keys'' v))
       (raw ''scan'' [DStr cursor,
          DObj ((if truthy_str m then [(''MATCH'', DStr (the m))] else []) @ (case cnt of Some n \<Rightarrow> if n = 0 then [] else [(''COUNT'', DNum n)] | None \<Rightarrow> []))])"

definition node_exists :: "'s lib_call \<Rightarrow> string list \<Rightarrow> ('s, dval) backend_op" where
  "node_exists raw ks = (if ks = [] then b_ret (DNum 0) else raw ''exists'' [strs ks])"

definition node_xrevrange :: "'s lib_call \<Rightarrow> string \<Rightarrow> string \<Rightarrow> string \<Rightarrow> int option \<Rightarrow> ('s, dval) backend_op" where
  "node_xrevrange raw key end' start cnt =
     b_fmap node_messages
       (raw ''xRevRange'' [DStr key, DStr end', DStr start, DObj (case cnt of None \<Rightarrow> [] | Some n \<Rightarrow> [(''COUNT'', DNum n)])])"

definition node_sadd :: "'s lib_call \<Rightarrow> string \<Rightarrow> dval list \<Rightarrow> ('s, dval) backend_op" where
  "node_sadd raw key members = raw ''sAdd'' [DStr key, strs (map show_d members)]"

text \<open>Scripts: the hash first, the text if the server does not know it.\<close>

definition node_script_call :: "lua_script \<Rightarrow> dval list \<Rightarrow> string \<Rightarrow> dval list" where
  "node_script_call script args source =
     (let commandArgs = normalizeScriptArgs args in
      [DStr source, DObj [(''keys'', strs (map show_d (take (ls_numberOfKeys script) commandArgs))),
        (''arguments'', DArr (map (\<lambda>a. case script_arg a of GStr s \<Rightarrow> DStr s | GBuf s \<Rightarrow> DBuf s)
           (drop (ls_numberOfKeys script) commandArgs)))]])"

definition node_runCommand ::
  "string option \<Rightarrow> 's lib_call \<Rightarrow> bool \<Rightarrow> (string, lua_script) jsmap \<Rightarrow> string \<Rightarrow> dval list \<Rightarrow> ('s, dval) backend_op" where
  "node_runCommand stk raw destroying scripts name args =
     (case map_get scripts name of
        None \<Rightarrow> b_throw (new_err ErrorClass stk (''BullMQ: unknown command '' @ [CHR 0x22] @ name @ [CHR 0x22]))
      | Some script \<Rightarrow>
          b_catch (raw ''evalSha'' (node_script_call script args (ls_sha script))) (\<lambda>err.
            if destroying \<and> isConnectionClosedError err then b_ret DNull
            else if isConnectionClosedError err then b_throw (new_ConnectionClosedError stk (Some (err_message err)))
            else if str_includes ''NOSCRIPT'' (err_message err)
            then node_guard stk destroying (raw ''eval'' (node_script_call script args (ls_lua script)))
            else b_throw err))"

section \<open>node-redis: scanning\<close>

text \<open>One \<open>read\<close> of \<open>scanStream\<close> starts a new iteration over the batches of keys; \<open>accepts\<close> are the answers of \<open>push\<close>.\<close>

fun node_read :: "'a list \<Rightarrow> bool list \<Rightarrow> 'a list \<times> bool \<times> bool list" where
  "node_read [] accepts = ([], True, accepts)"
| "node_read (b # bs) [] = (case node_read bs [] of (out, ended, rest) \<Rightarrow> (b # out, ended, rest))"
| "node_read (b # bs) (a # accepts) =
     (if a then (case node_read bs accepts of (out, ended, rest) \<Rightarrow> (b # out, ended, rest)) else ([b], False, accepts))"

fun node_stream :: "nat \<Rightarrow> 'a list \<Rightarrow> bool list \<Rightarrow> 'a list \<times> bool" where
  "node_stream 0 batches accepts = ([], False)"
| "node_stream (Suc n) batches accepts =
     (case node_read batches accepts of (out, ended, rest) \<Rightarrow>
        if ended then (out, True) else (case node_stream n batches rest of (out', e) \<Rightarrow> (out @ out', e)))"

section \<open>node-redis: transactions\<close>

record node_tx =
  nt_calls :: "(string \<times> dval list) list"
  nt_transformers :: "(dval \<Rightarrow> dval) list"

definition node_add :: "string \<Rightarrow> dval list \<Rightarrow> (dval \<Rightarrow> dval) \<Rightarrow> node_tx \<Rightarrow> node_tx" where
  "node_add m args f t = t\<lparr>nt_calls := nt_calls t @ [(m, args)], nt_transformers := nt_transformers t @ [f]\<rparr>"

text \<open>Methods whose reply needs no change: hgetall, hset, smembers, zrange, lrange, llen.\<close>

definition node_tx_plain :: "string \<Rightarrow> dval list \<Rightarrow> node_tx \<Rightarrow> node_tx" where
  "node_tx_plain m args = node_add m args (\<lambda>v. v)"

definition count_opt :: "int option \<Rightarrow> dval" where
  "count_opt cnt = DObj (case cnt of None \<Rightarrow> [] | Some n \<Rightarrow> [(''COUNT'', DNum n)])"

definition node_hscan_value :: "dval \<Rightarrow> dval" where
  "node_hscan_value v =
     (if falsy v then DArr [DStr ''0'', DArr []]
      else DArr [DStr (show_d (dprop ''cursor'' v)),
                 DArr (concat (map (\<lambda>e. [dprop ''field'' e, dprop ''value'' e]) (arr_of (dprop ''entries'' v))))])"

definition node_tx_hscan :: "string \<Rightarrow> string \<Rightarrow> int option \<Rightarrow> node_tx \<Rightarrow> node_tx" where
  "node_tx_hscan key cursor cnt = node_add ''hScan'' [DStr key, DStr cursor, count_opt cnt] node_hscan_value"

definition node_sscan_value :: "dval \<Rightarrow> dval" where
  "node_sscan_value v =
     (if falsy v then DArr [DStr ''0'', DArr []]
      else DArr [DStr (show_d (dprop ''cursor'' v)), if falsy (dprop ''members'' v) then DArr [] else dprop ''members'' v])"

definition node_tx_sscan :: "string \<Rightarrow> string \<Rightarrow> int option \<Rightarrow> node_tx \<Rightarrow> node_tx" where
  "node_tx_sscan key cursor cnt = node_add ''sScan'' [DStr key, DStr cursor, count_opt cnt] node_sscan_value"

definition node_tx_del :: "string list \<Rightarrow> node_tx \<Rightarrow> node_tx" where
  "node_tx_del ks t = (if ks \<noteq> [] then node_add ''del'' [strs ks] (\<lambda>v. v) t else t)"

definition node_tx_runCommand ::
  "string option \<Rightarrow> (string, lua_script) jsmap \<Rightarrow> string \<Rightarrow> dval list \<Rightarrow> node_tx \<Rightarrow> (js_error, node_tx) result" where
  "node_tx_runCommand stk scripts name args t =
     (case map_get scripts name of
        None \<Rightarrow> Inl (new_err ErrorClass stk (''BullMQ: unknown command '' @ [CHR 0x22] @ name @ [CHR 0x22] @ '' in transaction''))
      | Some script \<Rightarrow> Inr (node_add ''evalSha'' (node_script_call script args (ls_sha script)) (\<lambda>v. v) t))"

definition node_tx_exec ::
  "((string \<times> dval list) list \<Rightarrow> ('s, dval list option) backend_op) \<Rightarrow> node_tx \<Rightarrow> ('s, (js_error option \<times> dval) list option) backend_op" where
  "node_tx_exec exec t = b_fmap (map_option (tx_results (map Some (nt_transformers t)))) (exec (nt_calls t))"

section \<open>ioredis: translated arguments\<close>

definition io_fields :: "dval \<Rightarrow> dval list" where
  "io_fields v = (case v of DObj fs \<Rightarrow> concat (map (\<lambda>(f, x). [DStr f, x]) fs) | _ \<Rightarrow> [])"

fun is_str :: "dval \<Rightarrow> bool" where
  "is_str (DStr _) = True"
| "is_str _ = False"

definition io_hset :: "'s lib_call \<Rightarrow> string \<Rightarrow> dval \<Rightarrow> dval list \<Rightarrow> ('s, dval) backend_op" where
  "io_hset call key dataOrField rest =
     (if is_str dataOrField then call ''hset'' (DStr key # dataOrField # rest) else call ''hset'' (DStr key # io_fields dataOrField))"

definition io_set :: "'s lib_call \<Rightarrow> string \<Rightarrow> dval \<Rightarrow> dval \<Rightarrow> dval list \<Rightarrow> ('s, dval) backend_op" where
  "io_set call key v optionsOrModifier rest =
     (if is_str optionsOrModifier \<or> nil optionsOrModifier
      then call ''set'' ([DStr key, v] @ (if nil optionsOrModifier then [] else optionsOrModifier # rest))
      else call ''set'' ([DStr key, v] @
             (if \<not> nil (dprop ''PX'' optionsOrModifier) then [DStr ''PX'', dprop ''PX'' optionsOrModifier]
              else if \<not> nil (dprop ''EX'' optionsOrModifier) then [DStr ''EX'', dprop ''EX'' optionsOrModifier] else [])))"

text \<open>zrange and zrevrange, by the method \<open>m\<close>.\<close>

definition io_range :: "'s lib_call \<Rightarrow> string \<Rightarrow> string \<Rightarrow> int \<Rightarrow> int \<Rightarrow> dval \<Rightarrow> dval list \<Rightarrow> ('s, dval) backend_op" where
  "io_range call m key start end' optionsOrStr rest =
     (let args = [DStr key, DNum start, DNum end'] in
      if is_str optionsOrStr then call m (args @ optionsOrStr # rest)
      else if \<not> falsy (dprop ''WITHSCORES'' optionsOrStr) then call m (args @ [DStr ''WITHSCORES'']) else call m args)"

definition io_zrange :: "'s lib_call \<Rightarrow> string \<Rightarrow> int \<Rightarrow> int \<Rightarrow> dval \<Rightarrow> dval list \<Rightarrow> ('s, dval) backend_op" where
  "io_zrange call = io_range call ''zrange''"

definition io_zrevrange :: "'s lib_call \<Rightarrow> string \<Rightarrow> int \<Rightarrow> int \<Rightarrow> dval \<Rightarrow> dval list \<Rightarrow> ('s, dval) backend_op" where
  "io_zrevrange call = io_range call ''zrevrange''"

definition io_tilde :: "dval \<Rightarrow> dval list" where
  "io_tilde options = (if dprop ''approximate'' options \<noteq> DBool False then [DStr ''~''] else [])"

definition io_xadd :: "'s lib_call \<Rightarrow> string \<Rightarrow> string \<Rightarrow> dval \<Rightarrow> dval list \<Rightarrow> ('s, dval) backend_op" where
  "io_xadd call key idOrModifier fieldsOrArg rest =
     (if is_str fieldsOrArg then call ''xadd'' (DStr key # DStr idOrModifier # fieldsOrArg # rest)
      else let options = item rest 0 in
           call ''xadd'' ([DStr key]
             @ (if nil (dprop ''MAXLEN'' options) then [] else DStr ''MAXLEN'' # io_tilde options @ [dprop ''MAXLEN'' options])
             @ [DStr idOrModifier] @ io_fields fieldsOrArg))"

definition io_opt :: "string \<Rightarrow> dval \<Rightarrow> dval list" where
  "io_opt k options = (if nil (dprop k options) then [] else [DStr k, dprop k options])"

text \<open>xread with positional words or with structured streams.\<close>

definition io_xread :: "'s lib_call \<Rightarrow> string + (string \<times> string) list \<Rightarrow> dval list \<Rightarrow> ('s, dval) backend_op" where
  "io_xread call streamsOrModifier rest =
     (case streamsOrModifier of
        Inl modifier \<Rightarrow> call ''xread'' (DStr modifier # rest)
      | Inr streams \<Rightarrow>
          let options = item rest 0 in
          call ''xread'' (io_opt ''BLOCK'' options @ io_opt ''COUNT'' options @ map DStr (streams_args streams)))"

definition io_xtrim :: "'s lib_call \<Rightarrow> string \<Rightarrow> string \<Rightarrow> dval \<Rightarrow> dval list \<Rightarrow> ('s, dval) backend_op" where
  "io_xtrim call key strategy thresholdOrApprox rest =
     (if is_str thresholdOrApprox \<or> rest = [] then call ''xtrim'' (DStr key # DStr strategy # thresholdOrApprox # rest)
      else call ''xtrim'' ([DStr key, DStr strategy] @ io_tilde (item rest 0) @ [thresholdOrApprox]))"

definition io_scan :: "'s lib_call \<Rightarrow> string \<Rightarrow> dval list \<Rightarrow> ('s, dval) backend_op" where
  "io_scan call cursor rest =
     (if rest = [] \<or> is_str (item rest 0) then call ''scan'' (DStr cursor # rest)
      else call ''scan'' (DStr cursor # io_opt ''MATCH'' (item rest 0) @ io_opt ''COUNT'' (item rest 0)))"

definition io_runCommand :: "'s lib_call \<Rightarrow> string \<Rightarrow> dval list \<Rightarrow> ('s, dval) backend_op" where
  "io_runCommand call name args = call name [DArr args]"

definition io_clientSetName :: "'s lib_call \<Rightarrow> string \<Rightarrow> ('s, dval) backend_op" where
  "io_clientSetName call name = call ''client'' [DStr ''SETNAME'', DStr name]"

definition io_clientList :: "'s lib_call \<Rightarrow> ('s, dval) backend_op" where
  "io_clientList call = call ''client'' [DStr ''LIST'']"

text \<open>The options of \<open>duplicate\<close>: a cluster client takes them under \<open>redisOptions\<close>.\<close>

definition io_duplicate :: "bool \<Rightarrow> (string \<times> dval) list \<Rightarrow> (string \<times> dval) list option \<Rightarrow> dval list" where
  "io_duplicate isCluster existing opts =
     (if isCluster
      then [DUndef, DObj [(''redisOptions'', DObj (case opts of None \<Rightarrow> existing | Some os \<Rightarrow> fold (\<lambda>(k, v) m. map_set k v m) os existing))]]
      else [case opts of None \<Rightarrow> DUndef | Some os \<Rightarrow> DObj os])"

section \<open>ioredis: the proxy\<close>

text \<open>The overriding members, the members of the raw client (own ones and those of its prototype), and the bound
  methods that are remembered. A function is a name; \<open>Bound n\<close> is the n-th function made by \<open>bind\<close>.\<close>

datatype member = Override string | Plain string | Bound nat string

record proxy =
  px_overrides :: "(string, string) jsmap"
  px_own :: "(string, string) jsmap"
  px_proto :: "(string, string) jsmap"
  px_bound :: "(string, member) jsmap"
  px_binds :: nat

definition raw_get :: "proxy \<Rightarrow> string \<Rightarrow> string option" where
  "raw_get p k = (case map_get (px_own p) k of Some f \<Rightarrow> Some f | None \<Rightarrow> map_get (px_proto p) k)"

text \<open>\<open>get\<close> of a method.\<close>

definition proxy_get :: "string \<Rightarrow> proxy \<Rightarrow> member option \<times> proxy" where
  "proxy_get k p =
     (case map_get (px_overrides p) k of
        Some f \<Rightarrow> (Some (Override f), p)
      | None \<Rightarrow>
          (case raw_get p k of
             None \<Rightarrow> (None, p)
           | Some f \<Rightarrow>
               let fresh = Bound (px_binds p) f; p1 = p\<lparr>px_binds := Suc (px_binds p)\<rparr> in
               if map_get (px_own p) k \<noteq> None then (Some fresh, p1)
               else (case map_get (px_bound p) k of
                       Some b \<Rightarrow> (Some b, p)
                     | None \<Rightarrow> (Some fresh, p1\<lparr>px_bound := map_set k fresh (px_bound p1)\<rparr>))))"

definition proxy_set :: "string \<Rightarrow> string \<Rightarrow> proxy \<Rightarrow> proxy" where
  "proxy_set k f p =
     (if map_get (px_overrides p) k \<noteq> None then p\<lparr>px_overrides := map_set k f (px_overrides p)\<rparr>
      else p\<lparr>px_bound := map_del k (px_bound p), px_own := map_set k f (px_own p)\<rparr>)"

definition proxy_delete :: "string \<Rightarrow> proxy \<Rightarrow> bool \<times> proxy" where
  "proxy_delete k p =
     (if map_get (px_overrides p) k \<noteq> None then (False, p)
      else (True, p\<lparr>px_bound := map_del k (px_bound p), px_own := map_del k (px_own p)\<rparr>))"

definition proxy_has :: "string \<Rightarrow> proxy \<Rightarrow> bool" where
  "proxy_has k p \<longleftrightarrow> map_get (px_overrides p) k \<noteq> None \<or> raw_get p k \<noteq> None"

text \<open>createIORedisClient: a client has one proxy; \<open>Inl\<close> an existing proxy, \<open>Inr\<close> a raw client.\<close>

definition createIORedisClient :: "nat + nat \<Rightarrow> (nat, nat) jsmap \<times> nat \<Rightarrow> nat \<times> ((nat, nat) jsmap \<times> nat)" where
  "createIORedisClient client cache =
     (case client of
        Inl proxy \<Rightarrow> (proxy, cache)
      | Inr raw \<Rightarrow>
          (case map_get (fst cache) raw of
             Some proxy \<Rightarrow> (proxy, cache)
           | None \<Rightarrow> (snd cache, (map_set raw (snd cache) (fst cache), Suc (snd cache)))))"

section \<open>Connecting and duplicating\<close>

datatype lib_event = LibReady | LibError js_error | LibEnd

text \<open>The wait of \<open>connect\<close> for a client that is open and not ready: the first event decides.\<close>

fun node_wait :: "string option \<Rightarrow> lib_event list \<Rightarrow> (js_error, unit) result option" where
  "node_wait stk [] = None"
| "node_wait stk (LibReady # _) = Some (Inr ())"
| "node_wait stk (LibError e # _) = Some (Inl e)"
| "node_wait stk (LibEnd # _) = Some (Inl (new_err ErrorClass stk ''Connection ended before ready event''))"

text \<open>\<open>pending\<close> is how a connect under way ends (\<open>None\<close> if there is none), \<open>conn\<close> how the library's \<open>connect\<close> does.\<close>

definition node_connect ::
  "string option \<Rightarrow> node_conn \<Rightarrow> (js_error, unit) result option \<Rightarrow> (js_error, unit) result \<Rightarrow> lib_event list \<Rightarrow> (js_error, unit) result option" where
  "node_connect stk c pending conn evs =
     (case pending of
        Some r \<Rightarrow> Some r
      | None \<Rightarrow> if \<not> nc_isOpen c then Some conn else if \<not> nc_isReady c then node_wait stk evs else Some (Inr ()))"

text \<open>A duplicate has the scripts of its origin and the connection name it is given.\<close>

record adapter_dup =
  ad_scripts :: "(string, lua_script) jsmap"
  ad_connectionName :: "string option"

definition name_option :: "dval \<Rightarrow> string option" where
  "name_option opts = (case dprop ''connectionName'' opts of DStr (c # cs) \<Rightarrow> Some (c # cs) | _ \<Rightarrow> None)"

definition node_duplicate :: "(string, lua_script) jsmap \<Rightarrow> dval list \<Rightarrow> adapter_dup" where
  "node_duplicate scripts args =
     \<lparr>ad_scripts = fold (\<lambda>(name, script) m. map_set name script m) scripts [], ad_connectionName = name_option (item args 0)\<rparr>"

lemma node_duplicate_scripts:
  assumes "map_wf scripts"
  shows "map_get (ad_scripts (node_duplicate scripts args)) name = map_get scripts name"
  using assms by (simp add: node_duplicate_def map_of_fold_map_set map_of_rev_wf split: option.split)

end
