(* ===== verification/Driver_Agreement.thy ===== *)
theory Driver_Agreement
  imports Bun_Client Node_Client
begin

text \<open>
  The adapters of src/classes/valkey-glide-client.ts, bun-redis-client.ts and ioredis-client.ts implement one
  interface: on a server with RESP2 replies they send the same commands and give the same results.
  Transactions, scanning and scripts.
\<close>

section \<open>The server\<close>

definition int_commands :: "string list" where
  "int_commands = [''HSET'', ''HDEL'', ''DEL'', ''EXISTS'', ''XTRIM'', ''LLEN'', ''ZCARD'', ''HEXISTS'']"

definition list_commands :: "string list" where
  "list_commands = [''HGETALL'', ''ZRANGE'', ''ZREVRANGE'', ''LRANGE'', ''SMEMBERS'', ''KEYS'']"

definition bulk_commands :: "string list" where
  "bulk_commands = [''HGET'', ''GET'', ''SET'', ''ZSCORE'', ''RPOP'']"

text \<open>The replies of the commands, as the protocol types them.\<close>

fun entry_ok :: "dval \<Rightarrow> bool" where
  "entry_ok (DArr [DStr _, DArr fs]) = list_all is_str fs"
| "entry_ok _ = False"

fun stream_ok :: "dval \<Rightarrow> bool" where
  "stream_ok (DArr [DStr _, DArr es]) = list_all entry_ok es"
| "stream_ok _ = False"

definition reply_ok :: "string \<Rightarrow> dval \<Rightarrow> bool" where
  "reply_ok name v \<longleftrightarrow>
     (name \<in> set int_commands \<longrightarrow> (\<exists>n. v = DNum n)) \<and>
     (name \<in> set list_commands \<longrightarrow> (\<exists>ss. v = strs ss)) \<and>
     (name \<in> set bulk_commands \<longrightarrow> v = DNull \<or> (\<exists>s. v = DStr s)) \<and>
     (name = ''XADD'' \<longrightarrow> (\<exists>s. v = DStr s)) \<and>
     (name = ''BZPOPMIN'' \<longrightarrow> v = DNull \<or> (\<exists>a b c. v = strs [a, b, c])) \<and>
     (name = ''SCAN'' \<longrightarrow> (\<exists>c ks. v = DArr [DStr c, strs ks])) \<and>
     (name = ''XREAD'' \<longrightarrow> v = DNull \<or> (\<exists>ss. v = DArr ss \<and> list_all stream_ok ss))"

definition server_typed :: "'s runner \<Rightarrow> bool" where
  "server_typed srv \<longleftrightarrow> (\<forall>name args s v s'. srv (GStr name # args) s = (Inr v, s') \<longrightarrow> reply_ok name v)"

text \<open>ioredis sends the name of the method and its arguments.\<close>

definition upper_name :: "string \<Rightarrow> string" where
  "upper_name m = map upper_char m"

definition ioredis_sends :: "'s runner \<Rightarrow> 's lib_call \<Rightarrow> bool" where
  "ioredis_sends srv call \<longleftrightarrow> (\<forall>m args. call m args = srv (GStr (upper_name m) # map script_arg args))"

definition bun_send :: "'s runner \<Rightarrow> 's sender" where
  "bun_send srv c args = srv (GStr c # args)"

fun plain :: "dval \<Rightarrow> bool" where
  "plain (DStr _) = True"
| "plain (DNum _) = True"
| "plain _ = False"

lemma plain_arg: "plain v \<Longrightarrow> script_arg v = GStr (show_d v)"
  by (cases v) simp_all

lemma plain_fields: "list_all (\<lambda>(k, v). plain v) data \<Longrightarrow> glide_field_args data = cmd (field_args data)"
  by (induction data) (auto simp: glide_field_args_def field_args_def cmd_def plain_arg)

lemma plain_io_fields: "list_all (\<lambda>(k, v). plain v) data \<Longrightarrow> map script_arg (io_fields (DObj data)) = cmd (field_args data)"
  by (induction data) (auto simp: io_fields_def field_args_def cmd_def plain_arg)

lemma typed_reply: "server_typed srv \<Longrightarrow> srv (GStr name # args) s = (Inr v, s') \<Longrightarrow> reply_ok name v"
  unfolding server_typed_def by blast

lemma typed_cmd: "server_typed srv \<Longrightarrow> srv (cmd (name # args)) s = (Inr v, s') \<Longrightarrow> reply_ok name v"
  using typed_reply [of srv name "cmd args"] by (simp add: cmd_def)

lemma typed_list:
  "server_typed srv \<Longrightarrow> name \<in> set list_commands \<Longrightarrow> srv (cmd (name # args)) s = (Inr v, s') \<Longrightarrow> \<exists>ss. v = strs ss"
  by (drule (1) typed_cmd) (simp only: reply_ok_def simp_thms)

lemma typed_bulk:
  "server_typed srv \<Longrightarrow> name \<in> set bulk_commands \<Longrightarrow> srv (cmd (name # args)) s = (Inr v, s') \<Longrightarrow> v = DNull \<or> (\<exists>s. v = DStr s)"
  by (drule (1) typed_cmd) (simp only: reply_ok_def simp_thms)

lemma typed_xread:
  "server_typed srv \<Longrightarrow> srv (cmd (''XREAD'' # args)) s = (Inr v, s') \<Longrightarrow> v = DNull \<or> (\<exists>ss. v = DArr ss \<and> list_all stream_ok ss)"
  by (drule (1) typed_cmd) (simp only: reply_ok_def simp_thms)

lemma typed_pop:
  "server_typed srv \<Longrightarrow> srv (cmd (''BZPOPMIN'' # args)) s = (Inr v, s') \<Longrightarrow> v = DNull \<or> (\<exists>a b c. v = strs [a, b, c])"
  by (drule (1) typed_cmd) (simp only: reply_ok_def simp_thms)

lemma typed_scan:
  "server_typed srv \<Longrightarrow> srv (cmd (''SCAN'' # args)) s = (Inr v, s') \<Longrightarrow> \<exists>c ks. v = DArr [DStr c, strs ks]"
  by (drule (1) typed_cmd) (simp only: reply_ok_def simp_thms)

lemma typed_xadd: "server_typed srv \<Longrightarrow> srv (cmd (''XADD'' # args)) s = (Inr v, s') \<Longrightarrow> \<exists>s. v = DStr s"
  by (drule (1) typed_cmd) (simp only: reply_ok_def simp_thms)

lemma strs_values [simp]:
  "map toStringValue (map DStr ss) = ss" "map show_d (map DStr ss) = ss" "is_arr (strs ss)" "arr_of (strs ss) = map DStr ss"
  by (simp_all add: strs_def o_def)

lemma strs_not_falsy [simp]: "\<not> falsy (strs ss)"
  by (simp add: strs_def)

lemma strs_not_kv: "isKeyValueArray (strs ss) \<longleftrightarrow> ss = []"
  by (cases ss) (simp_all add: strs_def)

section \<open>Each command\<close>

definition opt_val :: "string option \<Rightarrow> dval" where
  "opt_val v = (case v of None \<Rightarrow> DNull | Some s \<Rightarrow> DStr s)"

lemma b_fmap_comp: "b_fmap f (b_fmap g m) = b_fmap (\<lambda>v. f (g v)) m"
  by (auto simp: b_fmap_apply fun_eq_iff split: prod.split sum.split)

lemma b_fmap_id: "b_fmap (\<lambda>v. v) m = m"
  by (auto simp: b_fmap_apply fun_eq_iff split: prod.split sum.split)

lemma hgetall_agree:
  assumes "server_typed srv"
  shows "bun_hgetall (bun_send srv) key = b_fmap record_val (glide_hgetall srv key)"
proof -
  have "bun_hash v = record_val (normalizeHashReply v)" if v: "srv (cmd [''HGETALL'', key]) s = (Inr v, s')" for v s s'
  proof -
    obtain ss where "v = strs ss"
      using typed_list [OF assms _ v] by (auto simp: list_commands_def)
    moreover have "map (\<lambda>(k, x). (show_d k, show_d x)) (field_pairs (map DStr ss)) = string_pairs (field_pairs (map DStr ss))"
      unfolding string_pairs_def by (induction ss rule: induct_list012) auto
    ultimately show ?thesis
      by (cases ss) (auto simp: bun_hash_def normalizeHashReply_def strs_not_kv record_val_def to_record_def strs_def)
  qed
  then show ?thesis
    unfolding bun_hgetall_def glide_hgetall_def b_fmap_comp bun_send_def cmd_def by (auto intro!: b_fmap_cong)
qed

lemma bulk_agree:
  assumes "server_typed srv" and "name \<in> set bulk_commands"
  shows "b_fmap or_null (srv (cmd (name # args))) = b_fmap opt_val (b_fmap opt_str (srv (cmd (name # args))))"
  unfolding b_fmap_comp
proof (rule b_fmap_cong)
  fix s v s'
  assume "srv (cmd (name # args)) s = (Inr v, s')"
  then have "v = DNull \<or> (\<exists>s. v = DStr s)" by (rule typed_bulk [OF assms])
  then show "or_null v = opt_val (opt_str v)" by (auto simp: or_null_def opt_val_def opt_str_def nil_def)
qed

lemma list_agree:
  assumes "server_typed srv" and "name \<in> set list_commands" and fg: "\<And>ss. f (strs ss) = g (strs ss)"
  shows "b_fmap f (srv (cmd (name # args))) = b_fmap g (srv (cmd (name # args)))"
proof (rule b_fmap_cong)
  fix s v s'
  assume "srv (cmd (name # args)) s = (Inr v, s')"
  then obtain ss where "v = strs ss" using typed_list [OF assms(1,2)] by blast
  then show "f v = g v" using fg by simp
qed

lemma zset_agree: "bun_zset_reply ws (strs ss) = normalizeSortedSetReply (strs ss) ws"
  by (cases ss) (auto simp: bun_zset_reply_def normalizeSortedSetReply_def strs_not_kv item_def score_pair_def strs_def o_def)

lemma zset_flat: "normalizeSortedSetReply (strs ss) ws = ss"
  by (cases ss) (auto simp: normalizeSortedSetReply_def strs_not_kv score_pair_def strs_def o_def)

lemma stream_reads:
  assumes "list_all stream_ok ss"
  shows "normalizeXReadReply (DArr ss) = DArr ss" and "bun_xread_reply (DArr ss) = DArr ss"
proof -
  have entry: "entry_ok e \<Longrightarrow> DArr [DStr (show_d (item (arr_of e) 0)), strs (map show_d (arr_of (item (arr_of e) 1)))] = e" for e
  proof (induction e rule: entry_ok.induct)
    case (1 x fs)
    have "list_all is_str fs \<Longrightarrow> map (\<lambda>x. DStr (show_d x)) fs = fs"
      by (induction fs) (auto elim: is_str.elims)
    then show ?case using 1 by (simp add: item_def strs_def o_def)
  qed simp_all
  have stream: "stream_ok s \<Longrightarrow> DArr [DStr (show_d (item (arr_of s) 0)), bun_entries (item (arr_of s) 1)] = s \<and> entry_pair s" for s
  proof (induction s rule: stream_ok.induct)
    case (1 x es)
    have "list_all entry_ok es \<Longrightarrow>
        map (\<lambda>e. DArr [DStr (show_d (item (arr_of e) 0)), strs (map show_d (arr_of (item (arr_of e) 1)))]) es = es"
      by (induction es) (simp_all add: entry del: One_nat_def)
    then show ?case using 1 by (simp add: item_def bun_entries_def entry_pair_def)
  qed simp_all
  have "list_all entry_pair ss" and "map (\<lambda>s. DArr [DStr (show_d (item (arr_of s) 0)), bun_entries (item (arr_of s) 1)]) ss = ss"
    using assms stream by (induction ss) auto
  then show "normalizeXReadReply (DArr ss) = DArr ss" "bun_xread_reply (DArr ss) = DArr ss"
    by (simp_all add: normalizeXReadReply_def bun_xread_reply_def)
qed

lemma xread_agree:
  assumes "server_typed srv"
  shows "bun_xread (bun_send srv) False streams block None = glide_xread srv streams block None"
proof -
  let ?c = "cmd (''XREAD'' # opt_arg ''BLOCK'' block @ streams_args streams)"
  have catch: "b_catch m (\<lambda>err. if False then b_ret DNull else b_throw err) = m" for m :: "('a, dval) backend_op"
    by (auto simp: b_catch_def b_throw_def fun_eq_iff split: prod.split sum.split)
  have "bun_xread_reply v = normalizeXReadReply v" if v: "srv ?c s = (Inr v, s')" for s v s'
    using typed_xread [OF assms v]
  proof
    assume "v = DNull"
    then show ?thesis by (simp add: bun_xread_reply_def normalizeXReadReply_def)
  next
    assume "\<exists>ss. v = DArr ss \<and> list_all stream_ok ss"
    then show ?thesis using stream_reads by metis
  qed
  then have "b_fmap bun_xread_reply (srv ?c) = b_fmap normalizeXReadReply (srv ?c)" by (rule b_fmap_cong)
  then show ?thesis
    unfolding bun_xread_def glide_xread_def catch by (simp add: bun_send_def cmd_def opt_arg_def)
qed

lemma bzpopmin_agree:
  assumes "server_typed srv"
  shows "bun_bzpopmin (bun_send srv) False key timeout = glide_bzpopmin srv key timeout"
proof -
  let ?c = "cmd [''BZPOPMIN'', key, timeout]"
  have catch: "b_catch m (\<lambda>err. if False then b_ret DNull else b_throw err) = m" for m :: "('a, dval) backend_op"
    by (auto simp: b_catch_def b_throw_def fun_eq_iff split: prod.split sum.split)
  have "bun_popped v = popped v" if v: "srv ?c s = (Inr v, s')" for s v s'
    using typed_pop [OF assms v] by (auto simp: bun_popped_def popped_def strs_def item_def)
  then have "b_fmap bun_popped (srv ?c) = b_fmap popped (srv ?c)" by (rule b_fmap_cong)
  then show ?thesis
    unfolding bun_bzpopmin_def glide_bzpopmin_def catch by (simp add: bun_send_def cmd_def)
qed

lemma scan_agree:
  assumes "server_typed srv" and "cnt \<noteq> Some 0"
  shows "bun_scan (bun_send srv) cursor m cnt = glide_scan srv cursor m cnt"
proof -
  let ?c = "cmd (''SCAN'' # cursor # match_arg m @ opt_arg ''COUNT'' cnt)"
  have "(show_d (item (arr_of v) 0), map show_d (arr_of (item (arr_of v) 1))) = normalizeScanReply v"
    if v: "srv ?c s = (Inr v, s')" for s v s'
    using typed_scan [OF assms(1) v] by (auto simp: normalizeScanReply_def item_def)
  then have "b_fmap (\<lambda>v. (show_d (item (arr_of v) 0), map show_d (arr_of (item (arr_of v) 1)))) (srv ?c) = b_fmap normalizeScanReply (srv ?c)"
    by (rule b_fmap_cong)
  then show ?thesis
    using assms(2) unfolding bun_scan_def glide_scan_def by (auto simp: bun_send_def cmd_def opt_arg_def)
qed

lemma xadd_agree:
  assumes "server_typed srv" and "list_all (\<lambda>(k, v). plain v) data"
  shows "bun_xadd (bun_send srv) key eid data maxlen approximate = b_fmap DStr (glide_xadd srv key eid data maxlen approximate)"
proof -
  let ?c = "cmd (''XADD'' # key # maxlen_args maxlen approximate @ eid # field_args data)"
  have "v = DStr (toStringValue v)" if v: "srv ?c s = (Inr v, s')" for s v s'
    using typed_xadd [OF assms(1) v] by auto
  then have "b_fmap (\<lambda>v. v) (srv ?c) = b_fmap (\<lambda>v. DStr (toStringValue v)) (srv ?c)" by (rule b_fmap_cong)
  then show ?thesis
    unfolding bun_xadd_def glide_xadd_def b_fmap_comp plain_fields [OF assms(2)] by (simp add: b_fmap_id bun_send_def cmd_def)
qed

section \<open>ioredis\<close>

lemma upper_names:
  "upper_name ''hset'' = ''HSET''" "upper_name ''set'' = ''SET''" "upper_name ''zrange'' = ''ZRANGE''"
  "upper_name ''zrevrange'' = ''ZREVRANGE''" "upper_name ''xadd'' = ''XADD''" "upper_name ''xtrim'' = ''XTRIM''"
  "upper_name ''xread'' = ''XREAD''" "upper_name ''scan'' = ''SCAN''"
  by code_simp+

lemma script_arg_num [simp]: "script_arg (DNum n) = GStr (string_of_int n)"
  by simp

lemma map_script_strs [simp]: "map script_arg (map DStr ss) = cmd ss"
  by (simp add: cmd_def o_def)

definition approx_val :: "bool option \<Rightarrow> dval" where
  "approx_val a = (case a of None \<Rightarrow> DUndef | Some b \<Rightarrow> DBool b)"

definition int_val :: "int option \<Rightarrow> dval" where
  "int_val n = (case n of None \<Rightarrow> DUndef | Some k \<Rightarrow> DNum k)"

lemma io_hset_sends:
  assumes "ioredis_sends srv call" and "list_all (\<lambda>(k, v). plain v) data"
  shows "io_hset call key (DObj data) [] = bun_hset (bun_send srv) key (DObj data) []"
  using assms(1) plain_io_fields [OF assms(2)]
  by (simp add: io_hset_def ioredis_sends_def bun_hset_def bun_send_def upper_names cmd_def)

lemma io_set_sends:
  assumes "ioredis_sends srv call" and "plain v"
  shows "io_set call key v (DObj [(''PX'', int_val px), (''EX'', int_val ex)]) [] = bun_set (bun_send srv) key v px ex"
  using assms(1) plain_arg [OF assms(2)]
  by (auto simp: io_set_def ioredis_sends_def bun_set_def bun_send_def upper_names cmd_def nil_def dprop_def int_val_def
      with_default_def expiry_args_def opt_arg_def split: option.split)

lemma io_range_sends:
  assumes "ioredis_sends srv call"
  shows "io_zrange call key start end' (DObj [(''WITHSCORES'', DBool ws)]) [] = srv (cmd (range_args ''ZRANGE'' key start end' ws))"
    and "io_zrevrange call key start end' (DObj [(''WITHSCORES'', DBool ws)]) [] = srv (cmd (range_args ''ZREVRANGE'' key start end' ws))"
  using assms
  by (simp_all add: io_zrange_def io_zrevrange_def io_range_def ioredis_sends_def upper_names cmd_def dprop_def with_default_def
      range_args_def Let_def)

lemma io_xadd_sends:
  assumes "ioredis_sends srv call" and "list_all (\<lambda>(k, v). plain v) data"
  shows "io_xadd call key eid (DObj data) [DObj [(''MAXLEN'', int_val maxlen), (''approximate'', approx_val approximate)]]
         = bun_xadd (bun_send srv) key eid data maxlen approximate"
  using assms(1) plain_io_fields [OF assms(2)]
  by (cases maxlen; cases approximate) (auto simp: io_xadd_def ioredis_sends_def bun_xadd_def bun_send_def upper_names cmd_def nil_def dprop_def int_val_def
      with_default_def maxlen_args_def io_tilde_def approx_val_def item_def)

lemma io_xread_sends:
  assumes "ioredis_sends srv call"
  shows "b_fmap normalizeXReadReply (io_xread call (Inr streams) [DObj [(''BLOCK'', int_val block), (''COUNT'', int_val cnt)]])
         = glide_xread srv streams block cnt"
proof -
  have "io_opt ''BLOCK'' (DObj [(''BLOCK'', int_val block), (''COUNT'', int_val cnt)]) = (case block of None \<Rightarrow> [] | Some n \<Rightarrow> [DStr ''BLOCK'', DNum n])"
    and "io_opt ''COUNT'' (DObj [(''BLOCK'', int_val block), (''COUNT'', int_val cnt)]) = (case cnt of None \<Rightarrow> [] | Some n \<Rightarrow> [DStr ''COUNT'', DNum n])"
    by (simp_all add: io_opt_def nil_def dprop_def with_default_def int_val_def split: option.split)
  then show ?thesis
    using assms unfolding glide_xread_def io_xread_def ioredis_sends_def
    by (cases block; cases cnt) (simp_all add: upper_names item_def opt_arg_def cmd_def o_def)
qed

text \<open>A trim without options is exact with ioredis and approximate with the others; with options it is the same command.\<close>

lemma io_xtrim_sends:
  assumes "ioredis_sends srv call"
  shows "io_xtrim call key ''MAXLEN'' (DNum threshold) [DObj [(''approximate'', approx_val approximate)]]
         = bun_xtrim (bun_send srv) key threshold approximate"
    and "io_xtrim call key ''MAXLEN'' (DNum threshold) [] = bun_xtrim (bun_send srv) key threshold (Some False)"
  using assms
  by (simp_all add: io_xtrim_def ioredis_sends_def bun_xtrim_def bun_send_def upper_names cmd_def dprop_def
      with_default_def maxlen_args_def io_tilde_def approx_val_def item_def split: option.split)

section \<open>The interface\<close>

lemma range_agree:
  assumes "server_typed srv" and "name \<in> set list_commands"
  shows "b_fmap (bun_zset_reply ws) (srv (cmd (range_args name key start end' ws)))
         = b_fmap (\<lambda>v. normalizeSortedSetReply v ws) (srv (cmd (range_args name key start end' ws)))"
    and "srv (cmd (range_args name key start end' ws)) = b_fmap strs (b_fmap (\<lambda>v. normalizeSortedSetReply v ws) (srv (cmd (range_args name key start end' ws))))"
proof -
  obtain args where c: "range_args name key start end' ws = name # args" by (simp add: range_args_def)
  show "b_fmap (bun_zset_reply ws) (srv (cmd (range_args name key start end' ws)))
      = b_fmap (\<lambda>v. normalizeSortedSetReply v ws) (srv (cmd (range_args name key start end' ws)))"
    unfolding c using zset_agree by (rule list_agree [OF assms])
  have "b_fmap (\<lambda>v. v) (srv (cmd (name # args))) = b_fmap (\<lambda>v. strs (normalizeSortedSetReply v ws)) (srv (cmd (name # args)))"
    by (rule list_agree [OF assms]) (simp add: zset_flat)
  then show "srv (cmd (range_args name key start end' ws)) =
      b_fmap strs (b_fmap (\<lambda>v. normalizeSortedSetReply v ws) (srv (cmd (range_args name key start end' ws))))"
    unfolding c b_fmap_comp b_fmap_id .
qed


text \<open>A server that knows one hash, one sorted set and one stream.\<close>

definition demo_reply :: "string \<Rightarrow> dval" where
  "demo_reply name =
     (if name \<in> set int_commands then DNum 1
      else if name \<in> set list_commands then strs [''a'', ''1'']
      else if name \<in> set bulk_commands then DStr ''x''
      else if name = ''BZPOPMIN'' then strs [''q'', ''m'', ''0'']
      else if name = ''SCAN'' then DArr [DStr ''0'', strs [''k'']]
      else if name = ''XREAD'' then DArr [DArr [DStr ''s'', DArr [DArr [DStr ''1-0'', DArr [DStr ''event'', DStr ''added'']]]]]
      else DStr ''1-0'')"

definition demo_srv :: "(garg list list) runner" where
  "demo_srv c s = (case c of GStr name # _ \<Rightarrow> (Inr (demo_reply name), s @ [c]) | _ \<Rightarrow> (Inr DNull, s @ [c]))"

definition demo_call :: "(garg list list) lib_call" where
  "demo_call m args = demo_srv (GStr (upper_name m) # map script_arg args)"

lemma demo_srv_typed: "server_typed demo_srv"
  unfolding server_typed_def demo_srv_def
  by (auto simp: reply_ok_def demo_reply_def int_commands_def list_commands_def bulk_commands_def)


section \<open>Transactions\<close>

text \<open>What may be queued, for all adapters.\<close>

datatype tx_op =
    TxHgetall string
  | TxHset string "(string \<times> dval) list"
  | TxHscan string string "int option"
  | TxSmembers string
  | TxSscan string string "int option"
  | TxZrange string int int
  | TxLrange string int int
  | TxLlen string
  | TxDel "string list"

fun glide_tx_op :: "tx_op \<Rightarrow> glide_queued list \<Rightarrow> glide_queued list" where
  "glide_tx_op (TxHgetall k) = glide_tx_hgetall k"
| "glide_tx_op (TxHset k d) = glide_tx_hset k d"
| "glide_tx_op (TxHscan k c n) = glide_tx_hscan k c n"
| "glide_tx_op (TxSmembers k) = glide_tx_smembers k"
| "glide_tx_op (TxSscan k c n) = glide_tx_sscan k c n"
| "glide_tx_op (TxZrange k s e) = glide_tx_zrange k s e"
| "glide_tx_op (TxLrange k s e) = glide_tx_lrange k s e"
| "glide_tx_op (TxLlen k) = glide_tx_llen k"
| "glide_tx_op (TxDel ks) = glide_tx_del ks"

fun bun_tx_op :: "tx_op \<Rightarrow> bun_tx \<Rightarrow> bun_tx" where
  "bun_tx_op (TxHgetall k) = bun_tx_hgetall k"
| "bun_tx_op (TxHset k d) = bun_tx_hset k d"
| "bun_tx_op (TxHscan k c n) = bun_tx_hscan k c n"
| "bun_tx_op (TxSmembers k) = bun_tx_smembers k"
| "bun_tx_op (TxSscan k c n) = bun_tx_sscan k c n"
| "bun_tx_op (TxZrange k s e) = bun_tx_zrange k s e"
| "bun_tx_op (TxLrange k s e) = bun_tx_lrange k s e"
| "bun_tx_op (TxLlen k) = bun_tx_llen k"
| "bun_tx_op (TxDel ks) = bun_tx_del ks"

fun tx_plain :: "tx_op \<Rightarrow> bool" where
  "tx_plain (TxHset k d) = list_all (\<lambda>(k, v). plain v) d"
| "tx_plain _ = True"

lemmas tx_defs = glide_tx_hgetall_def glide_tx_hset_def glide_tx_hscan_def glide_tx_smembers_def glide_tx_sscan_def glide_tx_zrange_def
  glide_tx_lrange_def glide_tx_llen_def glide_tx_del_def bun_tx_hgetall_def bun_tx_hset_def bun_tx_hscan_def bun_tx_smembers_def
  bun_tx_sscan_def bun_tx_zrange_def bun_tx_lrange_def bun_tx_llen_def bun_tx_del_def queueCommand_def addCommand_def

text \<open>A queue of one adapter stands for a queue of the other.\<close>

definition same_queue :: "glide_queued list \<Rightarrow> bun_tx \<Rightarrow> bool" where
  "same_queue q t \<longleftrightarrow> map fst q = map (\<lambda>(c, args). GStr c # args) (bt_commands t) \<and> length (bt_transformers t) = length (bt_commands t)"

lemma tx_op_same:
  assumes "tx_plain x" and "same_queue q t"
  shows "same_queue (glide_tx_op x q) (bun_tx_op x t)"
  using assms by (cases x) (simp_all add: same_queue_def tx_defs plain_fields cmd_def range_args_def)

lemma tx_ops_same: "list_all tx_plain xs \<Longrightarrow> same_queue q t \<Longrightarrow> same_queue (fold glide_tx_op xs q) (fold bun_tx_op xs t)"
  by (induction xs arbitrary: q t) (simp_all add: tx_op_same)

text \<open>Both adapters queue the same commands, and every queued command has its own transformation of the reply.\<close>

lemma transactions_same_commands:
  assumes "list_all tx_plain xs"
  shows "map fst (fold glide_tx_op xs []) = map (\<lambda>(c, args). GStr c # args) (bt_commands (fold bun_tx_op xs bun_tx_new))"
    and "length (bt_transformers (fold bun_tx_op xs bun_tx_new)) = length (bt_commands (fold bun_tx_op xs bun_tx_new))"
  using tx_ops_same [OF assms, of "[]" bun_tx_new] by (simp_all add: same_queue_def bun_tx_new_def)

text \<open>The i-th result is the i-th reply in the form of the i-th command.\<close>

lemma tx_results_nth: "i < length vs \<Longrightarrow> i < length fs \<Longrightarrow> tx_results fs vs ! i = tx_result (fs ! i) (vs ! i)"
  by (simp add: tx_results_def)

lemma tx_results_error: "i < length vs \<Longrightarrow> vs ! i = DErr e \<Longrightarrow> tx_results fs vs ! i = (Some e, DNull)"
  by (simp add: tx_results_def tx_result_def)

section \<open>Scripts\<close>

text \<open>A script with all its keys is called in the same way by both adapters.\<close>

lemma script_args_agree:
  assumes "ls_numberOfKeys script \<le> length (normalizeScriptArgs args)"
    and "list_all plain (take (ls_numberOfKeys script) (normalizeScriptArgs args))"
  shows "bun_script_args script args = glide_script_args script args"
proof -
  have "map toGlideArg ks = cmd (map show_d ks)" if "list_all plain ks" for ks
    using that by (induction ks) (simp_all add: plain_arg cmd_def)
  with assms show ?thesis by (simp add: bun_script_args_def glide_script_args_def Let_def)
qed

text \<open>No script is loaded twice on one connection.\<close>

lemma scripts_to_load_aux:
  assumes "map ls_sha out = seen" and "distinct seen" and "set seen \<inter> set loaded = {}"
  shows "\<exists>out' seen'. fold (\<lambda>s (out, seen). if ls_sha s \<in> set loaded \<or> ls_sha s \<in> set seen then (out, seen)
            else (out @ [s], seen @ [ls_sha s])) scripts (out, seen) = (out', seen')
          \<and> map ls_sha out' = seen' \<and> distinct seen' \<and> set seen' \<inter> set loaded = {}
          \<and> set seen' \<union> set loaded = set seen \<union> set loaded \<union> ls_sha ` set scripts"
  using assms
proof (induction scripts arbitrary: out seen)
  case (Cons s ss)
  show ?case
  proof (cases "ls_sha s \<in> set loaded \<or> ls_sha s \<in> set seen")
    case True
    then show ?thesis using Cons.IH [OF Cons.prems] by auto
  next
    case False
    then have "map ls_sha (out @ [s]) = seen @ [ls_sha s]" "distinct (seen @ [ls_sha s])" "set (seen @ [ls_sha s]) \<inter> set loaded = {}"
      using Cons.prems by auto
    from Cons.IH [OF this] False show ?thesis by auto
  qed
qed simp

lemma scripts_to_load_once:
  "distinct (map ls_sha (scripts_to_load loaded scripts))"
  "ls_sha ` set (scripts_to_load loaded scripts) \<union> set loaded = set loaded \<union> ls_sha ` set scripts"
proof -
  obtain out seen where f: "fold (\<lambda>s (out, seen). if ls_sha s \<in> set loaded \<or> ls_sha s \<in> set seen then (out, seen)
            else (out @ [s], seen @ [ls_sha s])) scripts ([], []) = (out, seen)" and p: "map ls_sha out = seen" "distinct seen"
      "set seen \<union> set loaded = set loaded \<union> ls_sha ` set scripts"
    using scripts_to_load_aux [of "[]" "[]" loaded scripts] by auto
  then have "scripts_to_load loaded scripts = out" by (simp add: scripts_to_load_def)
  then show "distinct (map ls_sha (scripts_to_load loaded scripts))"
    "ls_sha ` set (scripts_to_load loaded scripts) \<union> set loaded = set loaded \<union> ls_sha ` set scripts"
    using p by (auto simp flip: set_map)
qed

section \<open>Scanning\<close>

text \<open>After a refused batch node-redis' stream starts over: a consumer that refuses every batch gets the first one again
  and again and never sees the end.\<close>

lemma node_stream_restarts: "node_stream n (b # bs) (replicate n False) = (replicate n b, False)"
  by (induction n) (simp_all add: replicate_app_Cons_same)

text \<open>The stream of Glide goes on where it stopped, unless the refused batch was the last one: then its cursor is 0 and
  the next read starts over. Bun's stream ends with the last batch whatever the consumer answers.\<close>

lemma glide_read_resumes:
  "scan cursor = (next, ks) \<Longrightarrow> ks \<noteq> [] \<Longrightarrow> glide_read (Suc n) scan (False # accepts) cursor = Some ([ks], False, next)"
  by simp

lemma bun_read_ends:
  "scan cursor = (''0'', ks) \<Longrightarrow> bun_read_loop (Suc n) scan cursor = Some (if ks = [] then [] else [ks], True, ''0'')"
  by simp

lemma glide_last_batch_restarts:
  assumes "scan ''0'' = (''0'', ks)" and "ks \<noteq> []"
  shows "glide_read (Suc n) scan [False] ''0'' = Some ([ks], False, ''0'')"
    and "bun_read (Suc n) scan (False, ''0'') = Some ([ks], True, ''0'')"
  using assms by (simp_all add: bun_read_def)

section \<open>Connections\<close>

text \<open>Bun's delay is between one and twenty seconds; closing by the user cancels a reconnect for good.\<close>

lemma bun_delay_bounds: "1000 \<le> bun_delay n" "bun_delay n \<le> 20000"
  by (simp_all add: bun_delay_def maxReconnectDelay_def)

lemma bun_closed_for_good:
  assumes "b = bun_disconnect False b0 \<or> b = bun_quit b0" and "\<not> bu_closed b0"
  shows "bun_timer ok b = b" and "scheduleReconnect b = b" and "bun_status b = ''end''" and "bun_status (bun_timer ok b) = ''end''"
  using assms by (auto simp: bun_disconnect_def bun_quit_def bun_timer_def scheduleReconnect_def bun_status_def bun_emit_def
      bun_closeRaw_def)

text \<open>A closed adapter never sends, except for xadd, which goes past the check.\<close>

lemma bun_closed_rejects:
  "bu_closed b \<Longrightarrow> sendCommand stk b later raw c args s = (Inl (new_ConnectionClosedError stk (Some ''Connection is closed'')), s)"
  by (simp add: sendCommand_def b_throw_def)

text \<open>An adapter of node-redis that was closed stays closed for its users.\<close>

lemma node_closed_status: "node_status (node_disconnect False c) = ''end''" "node_status (node_set_status ''end'' c) = ''end''"
  by (simp_all add: node_status_def node_disconnect_def node_set_status_def node_emit_def Let_def)

lemma node_quit_status: "nc_destroying c \<longrightarrow> nc_statusOverride c = Some ''end'' \<Longrightarrow> node_status (node_quit c) = ''end''"
  by (auto simp: node_status_def node_quit_def node_emit_def)

section \<open>The proxy of ioredis\<close>

text \<open>A prototype method is the same function each time it is read, a method that was assigned is the new one, and the
  members of the override table are never written to the client.\<close>

lemma proxy_get_stable:
  assumes "map_get (px_own p) k = None" and "proxy_get k p = (Some m, p')"
  shows "proxy_get k p' = (Some m, p')"
  using assms by (auto simp: proxy_get_def raw_get_def Let_def split: option.splits)

lemma proxy_set_visible:
  "map_get (px_overrides p) k = None \<Longrightarrow> \<exists>n. fst (proxy_get k (proxy_set k f p)) = Some (Bound n f)"
  "map_get (px_overrides p) k \<noteq> None \<Longrightarrow> fst (proxy_get k (proxy_set k f p)) = Some (Override f) \<and> px_own (proxy_set k f p) = px_own p"
  by (auto simp: proxy_get_def proxy_set_def raw_get_def Let_def)

lemma proxy_unique: "createIORedisClient (Inr raw) cache = (p, cache') \<Longrightarrow> createIORedisClient (Inr raw) cache' = (p, cache')"
  by (auto simp: createIORedisClient_def split: option.splits)

end
