(* ===== verification/Spec2Isabelle.thy ===== *)
theory Spec2Isabelle
  imports Prelude Errors Utils Async_Fifo_Queue Backoffs Lock_Manager Js_Values Js_Strings
    Redis_Codec Job Job_Lifecycle Job_Types Job_Wait Job_Scheduler Worker Worker_Loop
    Queue_Backend Queue_Store Queue_Getters Queue_Api Flow_Producer
    Redis_Lists Redis_Client Redis_Scripts Redis_Backend Redis_Blocking Redis_Scan Script_Loader
    Redis_Instance Redis_Pages Redis_Locks Script_Includes
    Postgres_Client Postgres_Backend Postgres_Queries Postgres_Blocking Postgres_Logs Postgres_Contract
    Postgres_Migrator Postgres_Connection
    Worker_Life Queue_Base Queue_Events Sandbox_Protocol Sandbox_Pool Sandbox_Child
    Redis_Connection Redis_Cluster Worker_Setup
    Glide_Chain Driver_Values Glide_Client Bun_Client Node_Client Driver_Agreement
begin

text \<open>
  A verification development for BullMQ (src/, TypeScript), a job queue on top of a datastore.

  \<^bold>\<open>The program.\<close> Producers add jobs to named queues (Queue, FlowProducer, JobScheduler); workers
  fetch jobs, run a processor and move the jobs on (Worker, Job, LockManager, AsyncFifoQueue,
  Backoffs), in their own process or in child processes and threads (sandboxes); QueueEvents reads
  the stream of what happened. Everything that is stored goes through one contract,
  IQueueBackend, with two implementations: RedisQueueBackend turns operations into Lua scripts
  and Redis commands, sent by a RedisConnection through an adapter for one of four client
  libraries; PostgresQueueBackend turns them into calls of SQL functions.

  \<^bold>\<open>How the model is built.\<close> JavaScript values are a datatype (\<open>jsval\<close>), objects are ordered
  association lists, thrown errors are the left summand of a result. Asynchronous code is
  modelled where its interleaving matters (AsyncFifoQueue, the main loop, the life of a worker,
  LockManager's timer, waitUntilFinished, the races of blocking calls, connections on a shared
  client, the command queue of the Glide adapter, parent and child of a sandbox, migrators that
  run at once) as an explicit machine whose steps are the
  stretches between two awaits; elsewhere an async method is a function from the state of the
  datastore to a result and a new state. Code that is not part of the repository (the Redis
  and PostgreSQL client libraries, msgpackr, JSON, the cron parser, semver, random ids, clocks) is a parameter; what is
  used of it is a named hypothesis (\<open>num_ok\<close>, \<open>json_ok\<close>, \<open>unpacks\<close>, \<open>client_ready\<close> and the like).

  \<^bold>\<open>Theories and sources.\<close>
  \<^item> Prelude: results, JavaScript maps, shared lemmas. Js_Values, Js_Strings: values, conversions.
  \<^item> Errors: src/enums/error-code.ts, src/classes/errors. Utils: src/utils/index.ts,
    src/classes/queue-keys.ts.
  \<^item> Async_Fifo_Queue: src/classes/async-fifo-queue.ts. Backoffs: src/classes/backoffs.ts.
    Lock_Manager: src/classes/lock-manager.ts.
  \<^item> Redis_Codec: the stored form of jobs and options. Job, Job_Lifecycle, Job_Wait:
    src/classes/job.ts (fields and validation; transitions; waitUntilFinished). Job_Types: the
    declared types of a job's fields as an invariant of all its methods.
  \<^item> Job_Scheduler: src/classes/job-scheduler.ts. Worker, Worker_Loop: src/classes/worker.ts (handling
    of one job; the main loop).
  \<^item> Queue_Backend, Queue_Store: src/interfaces/queue-backend.ts as records of operations.
    Queue_Getters: src/classes/queue-getters.ts. Queue_Api: src/classes/queue.ts.
    Flow_Producer: src/classes/flow-producer.ts.
  \<^item> Redis_Client, Redis_Scripts, Redis_Backend, Redis_Blocking, Redis_Scan, Redis_Lists:
    src/classes/redis-queue-backend.ts (the object and its client; KEYS and ARGV of every script;
    the operations; the blocking reads; the scan for orphans; list ranges). Script_Loader: the
    file name convention of src/commands/script-loader.ts.
  \<^item> Redis_Instance: the adapter as an instance of the contract, on a client that refuses calls
    outside the queue's keys. Redis_Pages: paging. Redis_Locks: the lock scripts
    src/commands/extendLock-2.lua and extendLocks-1.lua on a typed store, the abstract lock table
    they refine, and the lock manager on top of them.
  \<^item> Script_Includes: src/commands/script-loader.ts, the resolution of includes in Lua files.
  \<^item> Redis_Connection, Redis_Cluster: src/classes/redis-connection.ts (options, waiting for a client,
    server detection, reconnecting; construction, closing and the counted patch of a shared
    cluster client).
  \<^item> Driver_Values, Glide_Client, Glide_Chain: src/classes/valkey-glide-client.ts (commands and replies;
    the command queue and closing). Bun_Client: src/classes/bun-redis-client.ts. Node_Client:
    src/classes/node-redis-client.ts and ioredis-client.ts. Driver_Agreement: the adapters
    against each other.
  \<^item> Postgres_Client, Postgres_Backend, Postgres_Queries, Postgres_Blocking, Postgres_Logs,
    Postgres_Contract: src/postgres/postgres-queue-backend.ts (rows and calls; operations; reads; blocking
    waits; job logs with their SQL functions; agreement with the Redis adapter). Postgres_Migrator,
    Postgres_Connection: src/postgres/migrator.ts and postgres-connection.ts.
  \<^item> Worker_Life: run, pause, resume, close and the stalled checker of src/classes/worker.ts.
    Worker_Setup: its processors, rate limit wait and scheduler, src/utils/create-backend.ts and the
    helpers of src/utils/index.ts that wait, send and delete. Queue_Base: src/classes/queue-base.ts. Queue_Events: src/classes/queue-events.ts and
    queue-events-producer.ts.
  \<^item> Sandbox_Protocol, Sandbox_Pool, Sandbox_Child: src/classes/child-processor.ts, sandbox.ts, child-pool.ts,
    child.ts and main-base.ts (messages; the pool of children; starting and killing one).

  \<^bold>\<open>What is shown.\<close> Jobs: the retry budget, the accounting of attempts, validation, option
  round trips, declared types. Workers: the concurrency bound, exclusive lock tokens, graceful
  exit, processJob never rejecting. AsyncFifoQueue: order, no lost wake-up. Locks: renewal in
  time, refinement of the lock table, truthful reports. Redis adapter: only own keys and the
  declared number of them, bounded blocking reads, exact orphan candidates, paging. Queues and
  flows: clean and obliterate end and account for what they delete, bulk and flow insertion are
  all or nothing up to the single datastore call, ranges come in order. Connections: a cluster client is
  reconnected exactly while somebody uses it and is left as it was found; the adapters agree on
  commands and results; the queue of the Glide adapter runs one command at a time, and is
  blocked for good after a close at the wrong moment. PostgreSQL: migrations run once and all
  or nothing, waits settle once, logs agree with Redis. Events: each is delivered once and in
  order. Sandboxes: a child serves one job at a time, calls through the channel are
  transparent, and results reach their own job while calls succeed. Several theorems state
  what the code does where a comment promises something else or where it goes wrong.

  \<^bold>\<open>Interfaces.\<close> \<open>lock_service\<close> (Redis_Locks) is the contract of lock renewal and is interpreted
  on the adapter running the scripts; the other locales are described in their theories.

  \<^bold>\<open>Bounds and fuel.\<close> Loops that may not end are \<open>partial_function\<close>s into option (\<open>None\<close> is no
  return), and the theorems about them prove that they return under a stated progress
  condition. \<open>getNode\<close> has fuel; depth many units suffice for every depth of at least one. The
  recursion over flow trees is proved terminating by the size of the tree. The script loader
  has two kinds of fuel, depth of includes and rounds per file; more units than there are
  readable files suffice. Reads of scan streams are bounded by a number of scans. Times are real
  numbers of milliseconds.

  \<^bold>\<open>Not modelled.\<close> The client libraries themselves and their sockets, the eager connect in the
  constructors of the adapters, the exporters behind the telemetry interface, and the server side:
  the Lua scripts other than the lock scripts, the log script and the key list of
  removeOrphanedJobs, and the SQL functions other than those of the job logs, which the model sees
  through the replies of the client. Declarations without code (most of src/interfaces and
  src/types) have no definition of their own. The ports to other languages are separate
  programs.
\<close>

end
